(* ===== verification/Py_Prelude.thy ===== *)
theory Py_Prelude
  imports Main "HOL-Library.Char_ord" "HOL-Library.List_Lexorder"
begin

text \<open>
  The Python vocabulary the components share: the exception classes the modelled
  code raises or handles, results of fallible pure code (\<open>exn + 'a\<close>, \<open>Inl\<close> for a
  raised exception) with their sequencing, \<open>sorted(set(...))\<close>, insertion-ordered
  dictionaries as association lists, and the string methods in use.
  The collections \<open>result_simps\<close> and \<open>dict_simps\<close> gather the rewrite rules the
  component proofs rely on.
\<close>

named_theorems result_simps "unfolding of fallible computations"
named_theorems dict_simps "insertion-ordered dictionaries"

section \<open>Exceptions\<close>

text \<open>
  One constructor per exception class. The classes of the Live boundary come from
  \<^verbatim>\<open>app/okx_live/__init__.py\<close>, \<^verbatim>\<open>app/exchange/okx/errors.py\<close> and the two Live
  repositories; \<open>OtherException\<close> is any other subclass of \<open>Exception\<close> (a driver or
  network error, a pydantic \<open>ValidationError\<close>), named by its class. \<open>CancelledError\<close> is no
  subclass of \<open>Exception\<close>: \<open>except Exception\<close> lets it pass. It stands for the cancellation
  of a task and, followed by a restart, for the death of the process.
\<close>

datatype exn =
    ValueError string
  | DecimalInvalidOperation
  | DecimalDivisionByZero
  | PaperBrokerError string
  | InvalidStateTransition string string
  | OkxLiveSafetyError string
  | OkxLiveUnavailableError string
  | OkxLiveBusyError string
  | OkxPrivateApiError "string option"
  | OkxPublicApiError "string option"
  | OkxLiveRepositoryError string
  | OkxLiveAccountIdentityError string
  | OkxLiveSafetyLatchConflict string
  | OkxLiveExecutionRepositoryError string
  | OkxLiveExecutionIntentConflict string
  | OkxLiveExecutionIntentReplay string
  | OkxLiveExecutionAuthorityBusy string
  | PaperPersistenceError string
  | OrchestratorConfigurationError string
  | OrchestratorBusyError string
  | OtherException string
  | CancelledError

type_synonym 'a result = "exn + 'a"

section \<open>Fallible pure code\<close>

definition bind_result :: "'a result \<Rightarrow> ('a \<Rightarrow> 'b result) \<Rightarrow> 'b result" where
  "bind_result m f = (case m of Inl e \<Rightarrow> Inl e | Inr a \<Rightarrow> f a)"

definition raise_if :: "bool \<Rightarrow> exn \<Rightarrow> unit result" where
  "raise_if c e = (if c then Inl e else Inr ())"

lemma bind_result_Inl [simp]: "bind_result (Inl e) f = Inl e"
  by (simp add: bind_result_def)

lemma bind_result_Inr [simp]: "bind_result (Inr a) f = f a"
  by (simp add: bind_result_def)

lemma bind_result_eq_Inr [result_simps]:
  "bind_result m f = Inr b \<longleftrightarrow> (\<exists>a. m = Inr a \<and> f a = Inr b)"
  by (cases m) auto

lemma bind_result_eq_Inl [result_simps]:
  "bind_result m f = Inl e \<longleftrightarrow> m = Inl e \<or> (\<exists>a. m = Inr a \<and> f a = Inl e)"
  by (cases m) auto

lemma bind_result_assoc:
  "bind_result (bind_result m f) g = bind_result m (\<lambda>a. bind_result (f a) g)"
  by (cases m) auto

lemma raise_if_eq_Inr [result_simps]: "raise_if c e = Inr u \<longleftrightarrow> \<not> c"
  by (simp add: raise_if_def)

lemma raise_if_eq_Inl [result_simps]: "raise_if c e = Inl x \<longleftrightarrow> c \<and> x = e"
  by (auto simp: raise_if_def)

lemma raise_if_simps [simp]:
  "raise_if True e = Inl e" "raise_if False e = Inr ()"
  by (simp_all add: raise_if_def)

text \<open>
  A sequence of guards \<open>if c: raise ValueError(message)\<close>, and a block of guards that is
  reached only under a condition.
\<close>

definition raise_first :: "(bool \<times> string) list \<Rightarrow> unit result" where
  "raise_first cs = (case filter fst cs of [] \<Rightarrow> Inr () | p # _ \<Rightarrow> Inl (ValueError (snd p)))"

definition guarded :: "bool \<Rightarrow> (bool \<times> string) list \<Rightarrow> (bool \<times> string) list" where
  "guarded g cs = map (\<lambda>(b, m). (g \<and> b, m)) cs"

lemma raise_first_eq_Inr [result_simps]: "raise_first cs = Inr u \<longleftrightarrow> (\<forall>(b, m) \<in> set cs. \<not> b)"
proof -
  have "filter fst cs = [] \<longleftrightarrow> (\<forall>(b, m) \<in> set cs. \<not> b)"
    by (auto simp: filter_empty_conv)
  then show ?thesis by (cases "filter fst cs") (auto simp: raise_first_def)
qed

lemma guarded_simps [simp]:
  "guarded g [] = []" "guarded g ((b, m) # cs) = (g \<and> b, m) # guarded g cs"
  by (simp_all add: guarded_def)

section \<open>\<open>sorted(set(values))\<close>\<close>

definition sorted_set :: "'a :: linorder list \<Rightarrow> 'a list" where
  "sorted_set xs = sort (remdups xs)"

lemma set_sorted_set [simp]: "set (sorted_set xs) = set xs"
  by (simp add: sorted_set_def)

lemma distinct_sorted_set [simp]: "distinct (sorted_set xs)"
  by (simp add: sorted_set_def)

lemma sorted_sorted_set [simp]: "sorted (sorted_set xs)"
  by (simp add: sorted_set_def)

lemma sorted_set_eq_Nil [simp]: "sorted_set xs = [] \<longleftrightarrow> xs = []"
  by (metis set_empty set_sorted_set)

section \<open>Conditional appends\<close>

text \<open>The pattern \<open>if c: reasons.append(code)\<close>, repeated for a list of checks.\<close>

definition collect :: "(bool \<times> 'a) list \<Rightarrow> 'a list" where
  "collect cs = map snd (filter fst cs)"

lemma collect_Nil [simp]: "collect [] = []"
  by (simp add: collect_def)

lemma collect_Cons [simp]: "collect ((b, c) # cs) = (if b then c # collect cs else collect cs)"
  by (simp add: collect_def)

lemma collect_eq_Nil: "collect cs = [] \<longleftrightarrow> (\<forall>p \<in> set cs. \<not> fst p)"
  by (auto simp: collect_def filter_empty_conv)

section \<open>Insertion-ordered dictionaries\<close>

text \<open>
  A Python \<open>dict\<close> iterates in insertion order and an assignment to an existing key
  keeps its place, so a dictionary whose iteration order is visible is an association
  list with distinct keys.
\<close>

fun dict_set :: "('k \<times> 'v) list \<Rightarrow> 'k \<Rightarrow> 'v \<Rightarrow> ('k \<times> 'v) list" where
  "dict_set [] k v = [(k, v)]"
| "dict_set ((k', v') # d) k v = (if k' = k then (k, v) # d else (k', v') # dict_set d k v)"

lemma map_of_dict_set [dict_simps]: "map_of (dict_set d k v) = (map_of d)(k \<mapsto> v)"
  by (induction d) auto

lemma keys_dict_set [dict_simps]:
  "map fst (dict_set d k v) = (if k \<in> set (map fst d) then map fst d else map fst d @ [k])"
  by (induction d k v rule: dict_set.induct) simp_all

lemma distinct_dict_set: "distinct (map fst d) \<Longrightarrow> distinct (map fst (dict_set d k v))"
  by (auto simp: dict_simps)

lemma dict_set_fresh: "k \<notin> fst ` set d \<Longrightarrow> dict_set d k v = d @ [(k, v)]"
  by (induction d) auto

lemma set_dict_set: "p \<in> set (dict_set d k v) \<Longrightarrow> p = (k, v) \<or> p \<in> set d"
  by (induction d k v rule: dict_set.induct) (auto split: if_splits)

text \<open>A dict comprehension: a later entry with the same key replaces the earlier value.\<close>

definition dict_of :: "('k \<times> 'v) list \<Rightarrow> ('k \<times> 'v) list" where
  "dict_of kvs = foldl (\<lambda>d (k, v). dict_set d k v) [] kvs"

section \<open>Strings\<close>

definition upper_char :: "char \<Rightarrow> char" where
  "upper_char c =
     (let n = (of_char c :: nat) in if 97 \<le> n \<and> n \<le> 122 then char_of (n - 32) else c)"

definition lower_char :: "char \<Rightarrow> char" where
  "lower_char c =
     (let n = (of_char c :: nat) in if 65 \<le> n \<and> n \<le> 90 then char_of (n + 32) else c)"

definition str_upper :: "string \<Rightarrow> string" where
  "str_upper s = map upper_char s"

definition str_lower :: "string \<Rightarrow> string" where
  "str_lower s = map lower_char s"

definition startswith :: "string \<Rightarrow> string \<Rightarrow> bool" where
  "startswith s p \<longleftrightarrow> take (length p) s = p"

text \<open>Truthiness of an optional string: neither \<open>None\<close> nor empty.\<close>

definition truthy :: "string option \<Rightarrow> bool" where
  "truthy s \<longleftrightarrow> (case s of None \<Rightarrow> False | Some t \<Rightarrow> t \<noteq> [])"

text \<open>\<open>s or None\<close> for a string \<open>s\<close>.\<close>

definition or_none :: "string \<Rightarrow> string option" where
  "or_none s = (if s = [] then None else Some s)"

lemma truthy_simps [simp]: "\<not> truthy None" "truthy (Some t) \<longleftrightarrow> t \<noteq> []"
  by (simp_all add: truthy_def)

text \<open>\<open>s.split("-", n)\<close>: at most \<open>n\<close> cuts.\<close>

fun split_dash :: "nat \<Rightarrow> string \<Rightarrow> string list" where
  "split_dash n [] = [[]]"
| "split_dash n (c # s) =
     (if c = CHR ''-'' \<and> 0 < n then [] # split_dash (n - 1) s
      else case split_dash n s of [] \<Rightarrow> [[c]] | w # ws \<Rightarrow> (c # w) # ws)"

lemma split_dash_length: "length (split_dash n s) \<le> n + 1 \<and> split_dash n s \<noteq> []"
  by (induction n s rule: split_dash.induct) (auto split: list.splits)

section \<open>The first maximum\<close>

text \<open>\<open>max(items, key=key, default=None)\<close>: a later item replaces the best only if its key is greater.\<close>

fun pick_max :: "('a \<Rightarrow> 'k :: linorder) \<Rightarrow> 'a list \<Rightarrow> 'a option" where
  "pick_max key [] = None"
| "pick_max key (x # xs) = Some (foldl (\<lambda>b y. if key b < key y then y else b) x xs)"

locale first_maximum =
  fixes pick :: "('a \<Rightarrow> 'k :: linorder) \<Rightarrow> 'a list \<Rightarrow> 'a option"
  assumes pick_None: "pick key xs = None \<longleftrightarrow> xs = []"
    and pick_Some: "pick key xs = Some x \<Longrightarrow>
      \<exists>before after. xs = before @ x # after \<and> (\<forall>y \<in> set before. key y < key x) \<and> (\<forall>y \<in> set after. key y \<le> key x)"
begin

lemma pick_mem: "pick key xs = Some x \<Longrightarrow> x \<in> set xs"
  using pick_Some by fastforce

lemma pick_greatest: "pick key xs = Some x \<Longrightarrow> y \<in> set xs \<Longrightarrow> key y \<le> key x"
  using pick_Some by fastforce

end

lemma pick_fold:
  "\<exists>before after. x # xs = before @ foldl (\<lambda>b y. if key b < key y then y else b) x xs # after \<and>
     (\<forall>y \<in> set before. key y < key (foldl (\<lambda>b y. if key b < key y then y else b) x xs)) \<and>
     (\<forall>y \<in> set after. key y \<le> (key (foldl (\<lambda>b y. if key b < key y then y else b) x xs) :: 'k :: linorder))"
proof (induction xs rule: rev_induct)
  case Nil
  show ?case by (intro exI [of _ "[]"]) simp
next
  case (snoc z xs)
  let ?m = "foldl (\<lambda>b y. if key b < key y then y else b) x xs"
  obtain b a where h: "x # xs = b @ ?m # a" "\<forall>y \<in> set b. key y < key ?m" "\<forall>y \<in> set a. key y \<le> key ?m"
    using snoc by blast
  show ?case
  proof (cases "key ?m < key z")
    case True
    have "\<forall>y \<in> set (x # xs). key y < key z" unfolding h(1) using h(2,3) True by fastforce
    then show ?thesis using True by (intro exI [of _ "x # xs"] exI [of _ "[]"]) simp
  next
    case False
    have "\<forall>y \<in> set (a @ [z]). key y \<le> key ?m" using h(3) False by auto
    then show ?thesis using h False by (intro exI [of _ b] exI [of _ "a @ [z]"]) auto
  qed
qed

interpretation best: first_maximum pick_max
proof unfold_locales
  show "pick_max key xs = None \<longleftrightarrow> xs = []" for key xs by (cases xs) auto
  show "pick_max key xs = Some x \<Longrightarrow>
      \<exists>before after. xs = before @ x # after \<and> (\<forall>y \<in> set before. key y < key x) \<and> (\<forall>y \<in> set after. key y \<le> key x)"
    for key xs x
    using pick_fold [of _ _ key] by (cases xs) auto
qed

end
