(* ===== verification/Effects.thy ===== *)
theory Effects
  imports Py_Prelude
begin

text \<open>
  Stateful Python code as a state-and-exception monad: a method of an object with state
  \<open>'s\<close> is a function from the state to a result (\<open>Inl\<close> for a raised exception) and the
  state it leaves. An exception keeps every mutation made before it was raised, as in
  Python. \<open>try_except\<close> is \<open>try: m except Exception as e: h e\<close> and \<open>try_finally\<close> is
  \<open>try: m finally: f\<close>, in which an exception of \<open>f\<close> replaces the pending one.

  Two calculi: \<open>wp\<close> computes weakest preconditions (its equations are in \<open>wp_simps\<close>) and
  the locale \<open>frame\<close> derives from a preorder on states that a method stays within it,
  composing along the monad (facts \<open>within_intros\<close> of each interpretation).
\<close>

named_theorems wp_simps "weakest preconditions of effects"

type_synonym ('s, 'a) eff = "'s \<Rightarrow> 'a result \<times> 's"

section \<open>Operations\<close>

definition ret :: "'a \<Rightarrow> ('s, 'a) eff" where
  "ret a = (\<lambda>s. (Inr a, s))"

definition raise :: "exn \<Rightarrow> ('s, 'a) eff" where
  "raise e = (\<lambda>s. (Inl e, s))"

definition bind_eff :: "('s, 'a) eff \<Rightarrow> ('a \<Rightarrow> ('s, 'b) eff) \<Rightarrow> ('s, 'b) eff" where
  "bind_eff m f = (\<lambda>s. case m s of (Inl e, t) \<Rightarrow> (Inl e, t) | (Inr a, t) \<Rightarrow> f a t)"

definition seq_eff :: "('s, 'a) eff \<Rightarrow> ('s, 'b) eff \<Rightarrow> ('s, 'b) eff" where
  "seq_eff m n = bind_eff m (\<lambda>_. n)"

definition gets :: "('s \<Rightarrow> 'a) \<Rightarrow> ('s, 'a) eff" where
  "gets f = (\<lambda>s. (Inr (f s), s))"

definition modify :: "('s \<Rightarrow> 's) \<Rightarrow> ('s, unit) eff" where
  "modify f = (\<lambda>s. (Inr (), f s))"

definition lift_result :: "'a result \<Rightarrow> ('s, 'a) eff" where
  "lift_result r = (\<lambda>s. (r, s))"

definition raise_when :: "bool \<Rightarrow> exn \<Rightarrow> ('s, unit) eff" where
  "raise_when c e = (if c then raise e else ret ())"

definition try_except :: "('s, 'a) eff \<Rightarrow> (exn \<Rightarrow> ('s, 'a) eff) \<Rightarrow> ('s, 'a) eff" where
  "try_except m h = (\<lambda>s. case m s of
     (Inl e, t) \<Rightarrow> if e = CancelledError then (Inl e, t) else h e t
   | (Inr a, t) \<Rightarrow> (Inr a, t))"

definition try_finally :: "('s, 'a) eff \<Rightarrow> ('s, unit) eff \<Rightarrow> ('s, 'a) eff" where
  "try_finally m f =
     (\<lambda>s. case m s of (r, t) \<Rightarrow> (case f t of (Inl e, u) \<Rightarrow> (Inl e, u) | (Inr _, u) \<Rightarrow> (r, u)))"

lemmas eff_defs = ret_def raise_def bind_eff_def seq_eff_def gets_def modify_def
  lift_result_def raise_when_def try_except_def try_finally_def

text \<open>
  What a database transaction may report: nothing unusual, a failure before its commit, or a
  failure after it (the acknowledgement is lost).
\<close>

datatype db_fault = NoFault | FaultBefore exn | FaultAfter exn

section \<open>Weakest preconditions\<close>

definition wp :: "('s, 'a) eff \<Rightarrow> ('a \<Rightarrow> 's \<Rightarrow> bool) \<Rightarrow> (exn \<Rightarrow> 's \<Rightarrow> bool) \<Rightarrow> 's \<Rightarrow> bool" where
  "wp m Q X s = (case m s of (Inl e, t) \<Rightarrow> X e t | (Inr a, t) \<Rightarrow> Q a t)"

lemma wp_ret [wp_simps]: "wp (ret a) Q X = Q a"
  by (rule ext) (simp add: wp_def ret_def)

lemma wp_raise [wp_simps]: "wp (raise e) Q X = X e"
  by (rule ext) (simp add: wp_def raise_def)

lemma wp_bind [wp_simps]: "wp (bind_eff m f) Q X = wp m (\<lambda>a. wp (f a) Q X) X"
  by (rule ext) (simp add: wp_def bind_eff_def split: prod.splits sum.splits)

lemma wp_seq [wp_simps]: "wp (seq_eff m n) Q X = wp m (\<lambda>_. wp n Q X) X"
  by (simp add: seq_eff_def wp_bind)

lemma wp_gets [wp_simps]: "wp (gets f) Q X s = Q (f s) s"
  by (simp add: wp_def gets_def)

lemma wp_modify [wp_simps]: "wp (modify f) Q X s = Q () (f s)"
  by (simp add: wp_def modify_def)

lemma wp_lift_result [wp_simps]:
  "wp (lift_result r) Q X s = (case r of Inl e \<Rightarrow> X e s | Inr a \<Rightarrow> Q a s)"
  by (simp add: wp_def lift_result_def split: sum.splits)

lemma wp_raise_when [wp_simps]: "wp (raise_when c e) Q X s = (if c then X e s else Q () s)"
  by (simp add: raise_when_def wp_raise wp_ret)

lemma wp_try_except [wp_simps]:
  "wp (try_except m h) Q X =
     wp m Q (\<lambda>e t. if e = CancelledError then X e t else wp (h e) Q X t)"
  by (rule ext) (simp add: wp_def try_except_def split: prod.splits sum.splits)

lemma wp_try_finally [wp_simps]:
  "wp (try_finally m f) Q X = wp m (\<lambda>a. wp f (\<lambda>_. Q a) X) (\<lambda>e. wp f (\<lambda>_. X e) X)"
  by (rule ext) (simp add: wp_def try_finally_def split: prod.splits sum.splits)

lemma wp_if [wp_simps]: "wp (if b then m else n) Q X s = (if b then wp m Q X s else wp n Q X s)"
  by simp

lemma wp_case_prod [wp_simps]:
  "wp (case p of (a, b) \<Rightarrow> f a b) Q X s = (case p of (a, b) \<Rightarrow> wp (f a b) Q X s)"
  by (simp split: prod.split)

lemma wp_case_option [wp_simps]:
  "wp (case x of None \<Rightarrow> m | Some a \<Rightarrow> f a) Q X s =
     (case x of None \<Rightarrow> wp m Q X s | Some a \<Rightarrow> wp (f a) Q X s)"
  by (simp split: option.split)

lemma wp_case_list [wp_simps]:
  "wp (case x of [] \<Rightarrow> m | a # as \<Rightarrow> f a as) Q X s =
     (case x of [] \<Rightarrow> wp m Q X s | a # as \<Rightarrow> wp (f a as) Q X s)"
  by (simp split: list.split)

lemma wp_mono:
  assumes "wp m Q X s" "\<And>a t. Q a t \<Longrightarrow> Q' a t" "\<And>e t. X e t \<Longrightarrow> X' e t"
  shows "wp m Q' X' s"
  using assms by (auto simp: wp_def split: prod.splits sum.splits)

lemma wp_conj: "wp m Q X s \<Longrightarrow> wp m Q' X' s \<Longrightarrow> wp m (\<lambda>a t. Q a t \<and> Q' a t) (\<lambda>e t. X e t \<and> X' e t) s"
  by (auto simp: wp_def split: prod.splits sum.splits)

lemma wpI:
  assumes "\<And>a t. m s = (Inr a, t) \<Longrightarrow> Q a t" "\<And>e t. m s = (Inl e, t) \<Longrightarrow> X e t"
  shows "wp m Q X s"
  using assms by (auto simp: wp_def split: prod.splits sum.splits)

lemma wp_any: "(\<And>a t. Q a t) \<Longrightarrow> (\<And>e t. X e t) \<Longrightarrow> wp m Q X s"
  by (rule wpI)

lemma wp_Inr: "wp m Q X s \<Longrightarrow> m s = (Inr a, t) \<Longrightarrow> Q a t"
  by (simp add: wp_def)

lemma wp_Inl: "wp m Q X s \<Longrightarrow> m s = (Inl e, t) \<Longrightarrow> X e t"
  by (simp add: wp_def)

lemma wp_snd: "wp m (\<lambda>_. P) (\<lambda>_. P) s \<Longrightarrow> P (snd (m s))"
  by (auto simp: wp_def split: prod.splits sum.splits)

section \<open>Frames: methods that stay within a preorder on states\<close>

definition stays :: "('s \<Rightarrow> 's \<Rightarrow> bool) \<Rightarrow> ('s, 'a) eff \<Rightarrow> bool" where
  "stays R m \<longleftrightarrow> (\<forall>s. R s (snd (m s)))"

locale frame =
  fixes R :: "'s \<Rightarrow> 's \<Rightarrow> bool"
  assumes frame_refl: "R s s"
    and frame_trans: "R s t \<Longrightarrow> R t u \<Longrightarrow> R s u"
begin

lemma within_ret: "stays R (ret a)"
  by (simp add: stays_def ret_def frame_refl)

lemma within_raise: "stays R (raise e)"
  by (simp add: stays_def raise_def frame_refl)

lemma within_gets: "stays R (gets f)"
  by (simp add: stays_def gets_def frame_refl)

lemma within_lift: "stays R (lift_result r)"
  by (simp add: stays_def lift_result_def frame_refl)

lemma within_raise_when: "stays R (raise_when c e)"
  by (simp add: raise_when_def within_raise within_ret)

lemma within_modify: "(\<And>s. R s (f s)) \<Longrightarrow> stays R (modify f)"
  by (simp add: stays_def modify_def)

lemma within_bind: "stays R m \<Longrightarrow> (\<And>a. stays R (f a)) \<Longrightarrow> stays R (bind_eff m f)"
  by (auto simp: stays_def bind_eff_def split: prod.splits sum.splits)
    (metis frame_trans snd_conv)+

lemma within_bind_returns:
  assumes "stays R m" "\<And>s. wp m (\<lambda>a _. P a) (\<lambda>_ _. True) s" "\<And>a. P a \<Longrightarrow> stays R (f a)"
  shows "stays R (bind_eff m f)"
  unfolding stays_def
proof
  fix s
  have m: "R s (snd (m s))" using assms(1) by (simp add: stays_def)
  show "R s (snd (bind_eff m f s))"
  proof (cases "m s")
    case (Pair r t)
    show ?thesis
    proof (cases r)
      case (Inr a)
      have "R t (snd (f a t))" using assms(3) [of a] wp_Inr [OF assms(2)] Pair Inr by (auto simp: stays_def)
      then show ?thesis using m Pair Inr by (auto simp: bind_eff_def intro: frame_trans)
    qed (use m Pair in \<open>simp add: bind_eff_def\<close>)
  qed
qed

lemma within_seq: "stays R m \<Longrightarrow> stays R n \<Longrightarrow> stays R (seq_eff m n)"
  by (simp add: seq_eff_def within_bind)

lemma within_try: "stays R m \<Longrightarrow> (\<And>e. stays R (h e)) \<Longrightarrow> stays R (try_except m h)"
  by (auto simp: stays_def try_except_def split: prod.splits sum.splits)
    (metis frame_trans snd_conv)+

lemma within_finally: "stays R m \<Longrightarrow> stays R f \<Longrightarrow> stays R (try_finally m f)"
  by (auto simp: stays_def try_finally_def split: prod.splits sum.splits)
    (metis frame_trans snd_conv)+

lemma within_if: "stays R m \<Longrightarrow> stays R n \<Longrightarrow> stays R (if b then m else n)"
  by simp

lemma within_case_option:
  "stays R m \<Longrightarrow> (\<And>a. stays R (f a)) \<Longrightarrow> stays R (case x of None \<Rightarrow> m | Some a \<Rightarrow> f a)"
  by (cases x) simp_all

lemma within_case_prod: "(\<And>a b. stays R (f a b)) \<Longrightarrow> stays R (case p of (a, b) \<Rightarrow> f a b)"
  by (cases p) simp

lemma within_case_list:
  "stays R m \<Longrightarrow> (\<And>a as. stays R (f a as)) \<Longrightarrow> stays R (case x of [] \<Rightarrow> m | a # as \<Rightarrow> f a as)"
  by (cases x) simp_all

lemma within_case_sum:
  "(\<And>a. stays R (f a)) \<Longrightarrow> (\<And>b. stays R (g b)) \<Longrightarrow> stays R (case x of Inl a \<Rightarrow> f a | Inr b \<Rightarrow> g b)"
  by (cases x) simp_all

lemmas within_intros = within_ret within_raise within_gets within_lift within_raise_when
  within_bind within_seq within_try within_finally within_if within_case_option
  within_case_prod within_case_list within_case_sum

lemma within_wp: "stays R m \<Longrightarrow> wp m (\<lambda>_. R s) (\<lambda>_. R s) s"
  by (auto simp: stays_def wp_def split: prod.splits sum.splits) (metis snd_conv)+

end

text \<open>An invariant is kept when states stay within the implication between before and after.\<close>

definition keeps :: "('s \<Rightarrow> bool) \<Rightarrow> 's \<Rightarrow> 's \<Rightarrow> bool" where
  "keeps I s t \<longleftrightarrow> (I s \<longrightarrow> I t)"

interpretation kept: frame "keeps I"
  by unfold_locales (auto simp: keeps_def)

lemma within_keepsD: "stays (keeps I) m \<Longrightarrow> I s \<Longrightarrow> m s = (r, t) \<Longrightarrow> I t"
  unfolding stays_def keeps_def by (metis snd_conv)

lemma within_keepsI: "(\<And>s r t. I s \<Longrightarrow> m s = (r, t) \<Longrightarrow> I t) \<Longrightarrow> stays (keeps I) m"
  unfolding stays_def keeps_def by (metis prod.collapse)

lemma stays_keepsI: "(\<And>s. I s \<Longrightarrow> wp m (\<lambda>_. I) (\<lambda>_. I) s) \<Longrightarrow> stays (keeps I) m"
  by (rule within_keepsI) (metis wp_Inl wp_Inr sum.exhaust)

lemma stays_keepsD: "stays (keeps I) m \<Longrightarrow> I s \<Longrightarrow> wp m (\<lambda>_. I) (\<lambda>_. I) s"
  by (rule wpI) (auto elim: within_keepsD)

text \<open>A component of the state that no step changes.\<close>

definition same :: "('s \<Rightarrow> 'b) \<Rightarrow> 's \<Rightarrow> 's \<Rightarrow> bool" where
  "same f s t \<longleftrightarrow> f t = f s"

interpretation unchanged: frame "same f"
  by unfold_locales (auto simp: same_def)

lemma within_sameD: "stays (same f) m \<Longrightarrow> m s = (r, t) \<Longrightarrow> f t = f s"
  unfolding stays_def same_def by (metis snd_conv)

end
