(* ===== verification/Py_Decimal.thy ===== *)
theory Py_Decimal
  imports Complex_Main Py_Prelude
begin

text \<open>
  Python's \<open>decimal.Decimal\<close> under the default context, as the sources use it
  (\<open>Decimal\<close>, abbreviated \<open>D\<close> there). A finite decimal is its exact value, a rational;
  every arithmetic operation rounds its exact result to 28 significant digits,
  half-even (\<open>dround\<close>). Comparisons, \<open>min\<close>, \<open>max\<close> and \<open>to_integral_value\<close> are exact.
  \<open>quantize\<close> rounds to a fixed number of places and raises \<open>InvalidOperation\<close> when
  the result needs more than 28 digits, division by zero and an oversized remainder
  raise too. Infinities and NaN do not occur (pydantic refuses them in the models), and
  the exponent limits of the context (plus or minus 999999) are not modelled.

  The locale \<open>rounding\<close> states what the components need of a rounding function, and
  \<open>float_rounding\<close> adds what holds of significant-digit rounding only; \<open>dec\<close>,
  \<open>q_down\<close> and \<open>q_even\<close> interpret them on the model's own functions.
\<close>

named_theorems dec_simps "arithmetic of the decimal context"

type_synonym decimal = rat

section \<open>Rounding to significant digits\<close>

lemma floor_div10_less: "1 \<le> y \<Longrightarrow> \<lfloor>y / 10\<rfloor> < \<lfloor>y :: rat\<rfloor>"
proof -
  assume y: "1 \<le> y"
  have "1 \<le> \<lfloor>y\<rfloor>" using y by (simp add: le_floor_iff)
  then have n: "(1 :: rat) \<le> of_int \<lfloor>y\<rfloor>" by simp
  have "y < of_int \<lfloor>y\<rfloor> + 1" by linarith
  then have "y / 10 < of_int \<lfloor>y\<rfloor>" using n by linarith
  then show ?thesis by (simp add: floor_less_iff)
qed

function adjusted :: "rat \<Rightarrow> int" where
  "adjusted x =
     (if 10 \<le> x then adjusted (x / 10) + 1
      else if 0 < x \<and> x < 1 then adjusted (x * 10) - 1
      else 0)"
  by pat_completeness auto
termination
proof (relation "measure (\<lambda>x :: rat. if 10 \<le> x then nat \<lfloor>x\<rfloor>
    else if 0 < x \<and> x < 1 then nat \<lfloor>1 / x\<rfloor> else 0)", goal_cases)
  case 1
  then show ?case by simp
next
  case (2 x)
  moreover from 2 have "10 \<le> \<lfloor>x\<rfloor>" by (simp add: le_floor_iff)
  ultimately show ?case using floor_div10_less [of x] by auto
next
  case (3 x)
  then have "1 \<le> 1 / x" by simp
  then have "1 \<le> \<lfloor>1 / x\<rfloor>" by (simp add: le_floor_iff)
  with 3 show ?case using floor_div10_less [OF \<open>1 \<le> 1 / x\<close>] by (auto simp: mult.commute)
qed

declare adjusted.simps [simp del]

lemma adjusted_bounds:
  "0 < x \<Longrightarrow> 10 powi adjusted x \<le> x \<and> x < 10 powi (adjusted x + 1)"
proof (induction x rule: adjusted.induct)
  case (1 x)
  consider "10 \<le> x" | "x < 1" | "1 \<le> x" "x < 10" by linarith
  then show ?case
  proof cases
    case 1
    then have "10 powi adjusted (x / 10) \<le> x / 10 \<and> x / 10 < 10 powi (adjusted (x / 10) + 1)"
      using "1.IH"(1) by simp
    then show ?thesis using 1
      by (simp add: adjusted.simps [of x] power_int_add field_simps)
  next
    case 2
    then have "10 powi adjusted (x * 10) \<le> x * 10 \<and> x * 10 < 10 powi (adjusted (x * 10) + 1)"
      using "1.IH"(2) "1.prems" by simp
    then show ?thesis using 2 "1.prems"
      by (simp add: adjusted.simps [of x] power_int_add power_int_diff field_simps)
  next
    case 3
    then show ?thesis by (simp add: adjusted.simps [of x])
  qed
qed

definition round_half_even :: "rat \<Rightarrow> int" where
  "round_half_even x =
     (let f = \<lfloor>x\<rfloor>; d = x - of_int f
      in if d < 1 / 2 then f else if 1 / 2 < d then f + 1 else if even f then f else f + 1)"

lemma round_half_even_cases:
  "round_half_even x = \<lfloor>x\<rfloor> \<and> x - of_int \<lfloor>x\<rfloor> \<le> 1 / 2 \<or>
   round_half_even x = \<lfloor>x\<rfloor> + 1 \<and> 1 / 2 \<le> x - of_int \<lfloor>x\<rfloor>"
  by (auto simp: round_half_even_def Let_def)

lemma round_half_even_err: "\<bar>of_int (round_half_even x) - x\<bar> \<le> 1 / 2"
  using round_half_even_cases [of x] by linarith

lemma round_half_even_of_int [simp]: "round_half_even (of_int n) = n"
  by (simp add: round_half_even_def)

lemma round_half_even_mono: "x \<le> y \<Longrightarrow> round_half_even x \<le> round_half_even y"
proof -
  assume le: "x \<le> y"
  then have "\<lfloor>x\<rfloor> \<le> \<lfloor>y\<rfloor>" by (rule floor_mono)
  then consider "\<lfloor>x\<rfloor> = \<lfloor>y\<rfloor>" | "\<lfloor>x\<rfloor> + 1 \<le> \<lfloor>y\<rfloor>" by linarith
  then show ?thesis
  proof cases
    case 1
    then show ?thesis using le by (auto simp: round_half_even_def Let_def)
  next
    case 2
    then show ?thesis using round_half_even_cases [of x] round_half_even_cases [of y] by linarith
  qed
qed

text \<open>\<open>round_sig k\<close> rounds to \<open>k + 1\<close> significant digits, half-even.\<close>

definition round_sig :: "nat \<Rightarrow> rat \<Rightarrow> decimal" where
  "round_sig k x =
     (if x = 0 then 0
      else let e = adjusted \<bar>x\<bar> - int k
           in sgn x * of_int (round_half_even (\<bar>x\<bar> * 10 powi (- e))) * 10 powi e)"

definition is_sig :: "nat \<Rightarrow> rat \<Rightarrow> bool" where
  "is_sig k x \<longleftrightarrow> (\<exists>n e. x = of_int n * 10 powi e \<and> \<bar>n\<bar> < 10 ^ Suc k)"

lemma powi10_less: "(10 :: rat) powi a < 10 powi b \<longleftrightarrow> a < b"
  using power_int_strict_increasing [of a b "10 :: rat"] power_int_increasing [of b a "10 :: rat"]
  by (cases "a < b") auto

lemma powi10_le: "(10 :: rat) powi a \<le> 10 powi b \<longleftrightarrow> a \<le> b"
  using powi10_less [of b a] by (simp add: not_less [symmetric])

lemma powi10_pos [simp]: "0 < (10 :: rat) powi a"
  by simp

lemma powi10_int: "0 \<le> k \<Longrightarrow> (10 :: rat) powi k = of_int (10 ^ nat k)"
  by (simp add: power_int_def)

lemma round_sig_zero [simp]: "round_sig k 0 = 0"
  by (simp add: round_sig_def)

lemma round_sig_minus: "round_sig k (- x) = - round_sig k x"
  by (simp add: round_sig_def Let_def sgn_minus)

lemma round_sig_pos_eq:
  "0 < x \<Longrightarrow> round_sig k x =
     of_int (round_half_even (x * 10 powi (int k - adjusted x))) * 10 powi (adjusted x - int k)"
  by (simp add: round_sig_def Let_def)

lemma round_sig_bounds:
  assumes "0 < x"
  shows "10 powi adjusted x \<le> round_sig k x \<and> round_sig k x \<le> 10 powi (adjusted x + 1)"
proof -
  let ?a = "adjusted x" and ?m = "x * 10 powi (int k - adjusted x)"
  have b: "10 powi ?a \<le> x" "x < 10 powi (?a + 1)" using adjusted_bounds [OF assms] by auto
  have "10 powi ?a * 10 powi (int k - ?a) \<le> ?m" using b by simp
  then have lo: "of_int (10 ^ k) \<le> ?m" by (simp add: power_int_add [symmetric])
  have "?m \<le> 10 powi (?a + 1) * 10 powi (int k - ?a)" using b by simp
  also have "(10 :: rat) powi (?a + 1) * 10 powi (int k - ?a) = of_int (10 ^ Suc k)"
    by (simp add: power_int_add power_int_diff)
  finally have hi: "?m \<le> of_int (10 ^ Suc k)" .
  have "10 ^ k \<le> round_half_even ?m" "round_half_even ?m \<le> 10 ^ Suc k"
    using round_half_even_mono [OF lo] round_half_even_mono [OF hi]
    by (simp_all only: round_half_even_of_int)
  then have "(of_int (10 ^ k) :: rat) \<le> of_int (round_half_even ?m)"
    "of_int (round_half_even ?m) \<le> (of_int (10 ^ Suc k) :: rat)"
    by (simp_all only: of_int_le_iff)
  then have r: "(10 :: rat) ^ k \<le> of_int (round_half_even ?m)"
    "of_int (round_half_even ?m) \<le> (10 :: rat) ^ Suc k"
    by simp_all
  have e1: "(10 :: rat) powi ?a = 10 ^ k * 10 powi (?a - int k)"
    by (simp add: power_int_diff)
  have e2: "(10 :: rat) powi (?a + 1) = 10 ^ Suc k * 10 powi (?a - int k)"
    by (simp add: power_int_diff power_int_add)
  show ?thesis
    unfolding e1 e2 round_sig_pos_eq [OF assms] using r by (auto intro: mult_right_mono)
qed

lemma round_sig_pos: "0 < x \<Longrightarrow> 0 < round_sig k x"
  using round_sig_bounds [of x k] by (meson less_le_trans zero_less_power_int zero_less_numeral)

lemma adjusted_mono: "0 < x \<Longrightarrow> x \<le> y \<Longrightarrow> adjusted x \<le> adjusted y"
proof -
  assume "0 < x" "x \<le> y"
  then have "10 powi adjusted x < (10 :: rat) powi (adjusted y + 1)"
    using adjusted_bounds [of x] adjusted_bounds [of y] by linarith
  then show ?thesis by (simp add: powi10_less)
qed

lemma round_sig_mono_pos:
  assumes "0 < x" "x \<le> y"
  shows "round_sig k x \<le> round_sig k y"
proof (cases "adjusted x = adjusted y")
  case True
  have "x * 10 powi (int k - adjusted x) \<le> y * 10 powi (int k - adjusted x)"
    using assms by (simp add: mult_right_mono)
  then have "round_half_even (x * 10 powi (int k - adjusted x))
      \<le> round_half_even (y * 10 powi (int k - adjusted x))"
    by (rule round_half_even_mono)
  then show ?thesis using assms True by (simp add: round_sig_pos_eq)
next
  case False
  then have "adjusted x + 1 \<le> adjusted y" using adjusted_mono [OF assms] by simp
  then have "(10 :: rat) powi (adjusted x + 1) \<le> 10 powi adjusted y" by (simp add: powi10_le)
  then show ?thesis using round_sig_bounds [of x k] round_sig_bounds [of y k] assms by linarith
qed

lemma round_sig_mono: "x \<le> y \<Longrightarrow> round_sig k x \<le> round_sig k y"
proof -
  assume le: "x \<le> y"
  consider "0 < x" | "x \<le> 0" "0 \<le> y" | "y < 0" by linarith
  then show ?thesis
  proof cases
    case 1
    then show ?thesis using le by (rule round_sig_mono_pos)
  next
    case 2
    then have "round_sig k x \<le> 0" using round_sig_pos [of "- x" k] by (cases "x = 0") (auto simp: round_sig_minus)
    moreover have "0 \<le> round_sig k y" using 2 round_sig_pos [of y k] by (cases "y = 0") auto
    ultimately show ?thesis by simp
  next
    case 3
    then show ?thesis using round_sig_mono_pos [of "- y" "- x" k] le by (simp add: round_sig_minus)
  qed
qed

lemma round_sig_err: "\<bar>round_sig k x - x\<bar> \<le> \<bar>x\<bar> * (1 / (2 * 10 ^ k))"
proof -
  have pos: "\<bar>round_sig k x - x\<bar> \<le> x * (1 / (2 * 10 ^ k))" if "0 < x" for x :: rat
  proof -
    let ?a = "adjusted x" and ?m = "x * 10 powi (int k - adjusted x)"
    have x: "x = ?m * 10 powi (?a - int k)" by (simp add: power_int_diff field_simps)
    have "round_sig k x - x = (of_int (round_half_even ?m) - ?m) * 10 powi (?a - int k)"
      using that by (subst (2) x) (simp add: round_sig_pos_eq left_diff_distrib)
    then have "\<bar>round_sig k x - x\<bar> = \<bar>of_int (round_half_even ?m) - ?m\<bar> * 10 powi (?a - int k)"
      by (simp add: abs_mult)
    also have "\<dots> \<le> 1 / 2 * 10 powi (?a - int k)"
      using round_half_even_err [of ?m] by (intro mult_right_mono) auto
    also have "\<dots> = 10 powi ?a * (1 / (2 * 10 ^ k))" by (simp add: power_int_diff)
    also have "\<dots> \<le> x * (1 / (2 * 10 ^ k))"
      using adjusted_bounds [OF that] by (intro mult_right_mono) auto
    finally show ?thesis .
  qed
  consider "x = 0" | "0 < x" | "0 < - x" by linarith
  then show ?thesis
  proof cases
    case 3
    then show ?thesis using pos [of "- x"] by (simp add: round_sig_minus)
  qed (use pos in auto)
qed

lemma round_sig_id:
  assumes "is_sig k x"
  shows "round_sig k x = x"
proof -
  have pos: "round_sig k x = x" if "0 < x" "is_sig k x" for x
  proof -
    from \<open>is_sig k x\<close> obtain n e where x: "x = of_int n * 10 powi e" and n: "\<bar>n\<bar> < 10 ^ Suc k"
      by (auto simp: is_sig_def)
    have "(of_int n :: rat) < of_int (10 ^ Suc k)" using n by (simp only: of_int_less_iff)
    then have "x < 10 ^ Suc k * 10 powi e" unfolding x by (intro mult_strict_right_mono) auto
    also have "\<dots> = 10 powi (int (Suc k) + e)" by (simp add: power_int_add)
    finally have "(10 :: rat) powi adjusted x < 10 powi (int (Suc k) + e)"
      using adjusted_bounds [OF \<open>0 < x\<close>] by linarith
    then have j: "0 \<le> e + (int k - adjusted x)" by (simp add: powi10_less)
    have "x * 10 powi (int k - adjusted x) = of_int n * 10 powi (e + (int k - adjusted x))"
      by (simp add: x power_int_add)
    also have "\<dots> = of_int (n * 10 ^ nat (e + (int k - adjusted x)))"
      by (simp add: powi10_int [OF j])
    finally have m: "x * 10 powi (int k - adjusted x) = of_int (n * 10 ^ nat (e + (int k - adjusted x)))" .
    have "round_sig k x = x * 10 powi (int k - adjusted x) * 10 powi (adjusted x - int k)"
      using \<open>0 < x\<close> by (subst round_sig_pos_eq) (simp_all only: m round_half_even_of_int)
    then show ?thesis by (simp add: power_int_diff)
  qed
  consider "x = 0" | "0 < x" | "0 < - x" by linarith
  then show ?thesis
  proof cases
    case 3
    have "is_sig k (- x)" using assms unfolding is_sig_def
      by (metis abs_minus_cancel minus_mult_left of_int_minus)
    then show ?thesis using pos [of "- x"] 3 by (simp add: round_sig_minus)
  qed (use pos assms in auto)
qed

lemma is_sigI: "x = of_int n * 10 powi e \<Longrightarrow> \<bar>n\<bar> \<le> 10 ^ Suc k \<Longrightarrow> is_sig k x"
proof (cases "\<bar>n\<bar> = 10 ^ Suc k")
  case True
  assume "x = of_int n * 10 powi e"
  moreover from True have "n = sgn n * 10 ^ Suc k" by (metis mult_sgn_abs mult.commute)
  then have "(of_int n :: rat) = of_int (sgn n * 10 ^ k) * 10" by (simp add: sgn_if split: if_splits)
  ultimately have "x = of_int (sgn n * 10 ^ k) * 10 powi (e + 1)"
    by (simp add: power_int_add)
  moreover have "\<bar>sgn n * 10 ^ k\<bar> < (10 ^ Suc k :: int)"
    using True by (auto simp: abs_mult sgn_if)
  ultimately show ?thesis unfolding is_sig_def by blast
next
  case False
  assume "x = of_int n * 10 powi e" "\<bar>n\<bar> \<le> 10 ^ Suc k"
  with False show ?thesis unfolding is_sig_def by (intro exI [of _ n] exI [of _ e]) linarith
qed

lemma is_sig_round_sig: "is_sig k (round_sig k x)"
proof (cases "x = 0")
  case True
  then show ?thesis by (auto intro: is_sigI [of _ 0])
next
  case False
  then have ax: "0 < \<bar>x\<bar>" by simp
  let ?n = "round_half_even (\<bar>x\<bar> * 10 powi (int k - adjusted \<bar>x\<bar>))"
  have "of_int ?n * 10 powi (adjusted \<bar>x\<bar> - int k) \<le> (10 :: rat) powi (adjusted \<bar>x\<bar> + 1)"
    using round_sig_bounds [OF ax] by (simp add: round_sig_pos_eq [OF ax])
  also have "\<dots> = 10 ^ Suc k * 10 powi (adjusted \<bar>x\<bar> - int k)"
    by (simp add: power_int_diff power_int_add)
  finally have "(of_int ?n :: rat) \<le> of_int (10 ^ Suc k)" by (simp add: mult_le_cancel_right)
  then have up: "?n \<le> 10 ^ Suc k" by (simp only: of_int_le_iff)
  have "0 < round_sig k \<bar>x\<bar>" using ax by (rule round_sig_pos)
  then have "0 < ?n"
    using powi10_pos [of "adjusted \<bar>x\<bar> - int k"]
    by (simp add: round_sig_pos_eq [OF ax] zero_less_mult_iff del: powi10_pos)
  then have "\<bar>(if x < 0 then - 1 else 1) * ?n\<bar> \<le> 10 ^ Suc k" using up by (cases "x < 0") simp_all
  moreover have "round_sig k x = of_int ((if x < 0 then - 1 else 1) * ?n) * 10 powi (adjusted \<bar>x\<bar> - int k)"
    using False by (simp add: round_sig_def Let_def sgn_if)
  ultimately show ?thesis by (rule is_sigI [rotated])
qed

text \<open>The default context: 28 digits.\<close>

definition dround :: "rat \<Rightarrow> decimal" where
  "dround x =
     (if x = 0 then 0
      else let e = adjusted \<bar>x\<bar> - 27
           in sgn x * of_int (round_half_even (\<bar>x\<bar> * 10 powi (- e))) * 10 powi e)"

definition is_dec :: "rat \<Rightarrow> bool" where
  "is_dec x \<longleftrightarrow> (\<exists>n e. x = of_int n * 10 powi e \<and> \<bar>n\<bar> < 10 ^ 28)"

lemma dround_sig: "dround = round_sig 27"
  by (rule ext) (simp add: dround_def round_sig_def)

lemma is_dec_sig: "is_dec = is_sig 27"
  by (rule ext) (simp add: is_dec_def is_sig_def)

lemmas dround_zero [simp] = round_sig_zero [of 27, folded dround_sig]

lemmas dround_minus = round_sig_minus [of 27, folded dround_sig]

lemmas dround_pos = round_sig_pos [of _ 27, folded dround_sig]

lemmas dround_mono = round_sig_mono [of _ _ 27, folded dround_sig]

lemmas dround_err = round_sig_err [of 27, folded dround_sig]

lemmas dround_id = round_sig_id [of 27, folded dround_sig is_dec_sig]

lemma is_decI: "x = of_int n * 10 powi e \<Longrightarrow> \<bar>n\<bar> \<le> 10 ^ 28 \<Longrightarrow> is_dec x"
  unfolding is_dec_sig by (rule is_sigI [of x n e]) simp_all

lemmas is_dec_dround = is_sig_round_sig [of 27, folded dround_sig is_dec_sig]

section \<open>Arithmetic operations\<close>

definition dadd :: "decimal \<Rightarrow> decimal \<Rightarrow> decimal" where
  "dadd a b = dround (a + b)"

definition dsub :: "decimal \<Rightarrow> decimal \<Rightarrow> decimal" where
  "dsub a b = dround (a - b)"

definition dmul :: "decimal \<Rightarrow> decimal \<Rightarrow> decimal" where
  "dmul a b = dround (a * b)"

text \<open>Division, used where the source has established a non-zero divisor.\<close>

definition ddiv :: "decimal \<Rightarrow> decimal \<Rightarrow> decimal" where
  "ddiv a b = dround (a / b)"

definition dneg :: "decimal \<Rightarrow> decimal" where
  "dneg a = dround (- a)"

definition dabs :: "decimal \<Rightarrow> decimal" where
  "dabs a = dround \<bar>a\<bar>"

text \<open>Division where the divisor may be zero: \<open>x / 0\<close> raises.\<close>

definition ddiv_checked :: "decimal \<Rightarrow> decimal \<Rightarrow> decimal result" where
  "ddiv_checked a b =
     (if b = 0 then Inl (if a = 0 then DecimalInvalidOperation else DecimalDivisionByZero)
      else Inr (ddiv a b))"

text \<open>
  \<open>a % b\<close>: the remainder of truncating division, with the sign of the dividend. An
  integer quotient of more than 28 digits raises.
\<close>

definition trunc :: "rat \<Rightarrow> int" where
  "trunc x = (if 0 \<le> x then \<lfloor>x\<rfloor> else \<lceil>x\<rceil>)"

definition dmod_checked :: "decimal \<Rightarrow> decimal \<Rightarrow> decimal result" where
  "dmod_checked a b =
     (if b = 0 then Inl DecimalInvalidOperation
      else if 10 ^ 28 \<le> \<bar>trunc (a / b)\<bar> then Inl DecimalInvalidOperation
      else Inr (dround (a - b * of_int (trunc (a / b)))))"

section \<open>Rounding to a fixed number of places\<close>

definition grid_down :: "nat \<Rightarrow> rat \<Rightarrow> decimal" where
  "grid_down k x = of_int (trunc (x * 10 ^ k)) / 10 ^ k"

definition grid_even :: "nat \<Rightarrow> rat \<Rightarrow> decimal" where
  "grid_even k x = of_int (round_half_even (x * 10 ^ k)) / 10 ^ k"

definition on_grid :: "nat \<Rightarrow> rat \<Rightarrow> bool" where
  "on_grid k x \<longleftrightarrow> (\<exists>n :: int. x = of_int n / 10 ^ k)"

text \<open>\<open>x.quantize(Decimal(10) ** -k, rounding)\<close>, for the roundings in use.\<close>

definition quantize_down :: "nat \<Rightarrow> decimal \<Rightarrow> decimal result" where
  "quantize_down k x =
     (if 10 ^ 28 \<le> \<bar>grid_down k x\<bar> * 10 ^ k then Inl DecimalInvalidOperation
      else Inr (grid_down k x))"

definition quantize_even :: "nat \<Rightarrow> decimal \<Rightarrow> decimal result" where
  "quantize_even k x =
     (if 10 ^ 28 \<le> \<bar>grid_even k x\<bar> * 10 ^ k then Inl DecimalInvalidOperation
      else Inr (grid_even k x))"

text \<open>A column \<open>Numeric(28, 10)\<close>: PostgreSQL rounds half away from zero and rejects larger values.\<close>

definition numeric_28_10 :: "decimal \<Rightarrow> decimal result" where
  "numeric_28_10 x =
     (let n = \<lfloor>\<bar>x\<bar> * 10 ^ 10 + 1 / 2\<rfloor> in
      if 10 ^ 28 \<le> n then Inl (OtherException ''NumericValueOutOfRange'')
      else Inr (if 0 \<le> x then of_int n / 10 ^ 10 else - (of_int n / 10 ^ 10)))"

definition numeric_opt :: "decimal option \<Rightarrow> decimal option result" where
  "numeric_opt v = (case v of None \<Rightarrow> Inr None | Some x \<Rightarrow> bind_result (numeric_28_10 x) (\<lambda>y. Inr (Some y)))"

section \<open>The laws of rounding, as interfaces\<close>

locale rounding =
  fixes rnd :: "rat \<Rightarrow> rat" and rep :: "rat \<Rightarrow> bool"
  assumes rnd_mono: "x \<le> y \<Longrightarrow> rnd x \<le> rnd y"
    and rnd_id: "rep x \<Longrightarrow> rnd x = x"
    and rep_rnd: "rep (rnd x)"
    and rep_0: "rep 0"
begin

lemma rnd_0: "rnd 0 = 0"
  by (rule rnd_id) (rule rep_0)

lemma rnd_idem: "rnd (rnd x) = rnd x"
  by (rule rnd_id) (rule rep_rnd)

lemma rnd_nonneg: "0 \<le> x \<Longrightarrow> 0 \<le> rnd x"
  using rnd_mono [of 0 x] by (simp add: rnd_0)

lemma rnd_nonpos: "x \<le> 0 \<Longrightarrow> rnd x \<le> 0"
  using rnd_mono [of x 0] by (simp add: rnd_0)

lemma rnd_le_rep: "rep y \<Longrightarrow> x \<le> y \<Longrightarrow> rnd x \<le> y"
  using rnd_mono [of x y] by (simp add: rnd_id)

lemma rnd_ge_rep: "rep x \<Longrightarrow> x \<le> y \<Longrightarrow> x \<le> rnd y"
  using rnd_mono [of x y] by (simp add: rnd_id)

lemma rnd_min: "rnd (min x y) = min (rnd x) (rnd y)"
  using rnd_mono [of x y] rnd_mono [of y x] by (cases "x \<le> y") (simp_all add: min_absorb1 min_absorb2)

end

locale float_rounding = rounding +
  assumes rnd_minus: "rnd (- x) = - rnd x"
    and rnd_gt_0: "0 < x \<Longrightarrow> 0 < rnd x"
begin

lemma rnd_lt_0: "x < 0 \<Longrightarrow> rnd x < 0"
  using rnd_gt_0 [of "- x"] by (simp add: rnd_minus)

lemma rnd_pos_iff: "0 < rnd x \<longleftrightarrow> 0 < x"
  using rnd_gt_0 [of x] rnd_nonpos [of x] by linarith

lemma rnd_neg_iff: "rnd x < 0 \<longleftrightarrow> x < 0"
  using rnd_lt_0 [of x] rnd_nonneg [of x] by linarith

lemma rnd_eq_0_iff: "rnd x = 0 \<longleftrightarrow> x = 0"
  using rnd_pos_iff [of x] rnd_neg_iff [of x] rnd_0 by (metis less_irrefl linorder_less_linear)

lemma rnd_nonneg_iff: "0 \<le> rnd x \<longleftrightarrow> 0 \<le> x"
  using rnd_neg_iff [of x] by linarith

lemma rnd_nonpos_iff: "rnd x \<le> 0 \<longleftrightarrow> x \<le> 0"
  using rnd_pos_iff [of x] by linarith

lemma rnd_abs: "rnd \<bar>x\<bar> = \<bar>rnd x\<bar>"
  using rnd_nonneg [of x] rnd_lt_0 [of x] by (cases "0 \<le> x") (auto simp: rnd_minus)

end

interpretation dec: float_rounding dround is_dec
  by unfold_locales
    (simp_all add: dround_mono dround_id is_dec_dround dround_minus dround_pos is_decI [of 0 0])

lemma trunc_mono: "x \<le> y \<Longrightarrow> trunc x \<le> trunc y"
proof -
  assume le: "x \<le> y"
  consider "0 \<le> x" | "x < 0" "0 \<le> y" | "y < 0" by linarith
  then show ?thesis
  proof cases
    case 2
    then have "\<lceil>x\<rceil> \<le> 0" "0 \<le> \<lfloor>y\<rfloor>" by (simp_all add: ceiling_le_iff)
    then have "\<lceil>x\<rceil> \<le> \<lfloor>y\<rfloor>" by linarith
    then show ?thesis using 2 by (simp add: trunc_def)
  qed (use le in \<open>auto simp: trunc_def floor_mono ceiling_mono\<close>)
qed

lemma trunc_of_int [simp]: "trunc (of_int n) = n"
  by (simp add: trunc_def)

interpretation q_down: rounding "grid_down k" "on_grid k"
proof unfold_locales
  show "x \<le> y \<Longrightarrow> grid_down k x \<le> grid_down k y" for x y
    by (simp add: grid_down_def divide_right_mono trunc_mono mult_right_mono)
  show "on_grid k x \<Longrightarrow> grid_down k x = x" for x
    by (auto simp: on_grid_def grid_down_def)
  show "on_grid k (grid_down k x)" for x
    by (auto simp: on_grid_def grid_down_def)
  show "on_grid k 0"
    by (auto simp: on_grid_def intro: exI [of _ 0])
qed

interpretation q_even: rounding "grid_even k" "on_grid k"
proof unfold_locales
  show "x \<le> y \<Longrightarrow> grid_even k x \<le> grid_even k y" for x y
    by (simp add: grid_even_def divide_right_mono round_half_even_mono mult_right_mono)
  show "on_grid k x \<Longrightarrow> grid_even k x = x" for x
    by (auto simp: on_grid_def grid_even_def)
  show "on_grid k (grid_even k x)" for x
    by (auto simp: on_grid_def grid_even_def)
  show "on_grid k 0"
    by (auto simp: on_grid_def intro: exI [of _ 0])
qed

section \<open>Consequences for the operations\<close>

lemmas dec_op_defs = dadd_def dsub_def dmul_def ddiv_def dneg_def dabs_def

lemma dadd_pos: "0 < a + b \<Longrightarrow> 0 < dadd a b"
  by (simp add: dadd_def dec.rnd_gt_0)

lemma dsub_signs [dec_simps]:
  "0 < dsub a b \<longleftrightarrow> b < a" "dsub a b < 0 \<longleftrightarrow> a < b"
  "0 \<le> dsub a b \<longleftrightarrow> b \<le> a" "dsub a b \<le> 0 \<longleftrightarrow> a \<le> b" "dsub a b = 0 \<longleftrightarrow> a = b"
  by (auto simp: dsub_def dec.rnd_pos_iff dec.rnd_neg_iff dec.rnd_nonneg_iff dec.rnd_nonpos_iff
      dec.rnd_eq_0_iff)

lemma dadd_signs [dec_simps]:
  "0 < dadd a b \<longleftrightarrow> 0 < a + b" "dadd a b \<le> 0 \<longleftrightarrow> a + b \<le> 0" "0 \<le> dadd a b \<longleftrightarrow> 0 \<le> a + b"
  "dadd a b = 0 \<longleftrightarrow> a + b = 0" "dadd a b < 0 \<longleftrightarrow> a + b < 0"
  by (auto simp: dadd_def dec.rnd_pos_iff dec.rnd_neg_iff dec.rnd_nonneg_iff dec.rnd_nonpos_iff
      dec.rnd_eq_0_iff)

lemma dmul_signs [dec_simps]:
  "0 < dmul a b \<longleftrightarrow> 0 < a * b" "dmul a b \<le> 0 \<longleftrightarrow> a * b \<le> 0" "0 \<le> dmul a b \<longleftrightarrow> 0 \<le> a * b"
  "dmul a b = 0 \<longleftrightarrow> a * b = 0" "dmul a b < 0 \<longleftrightarrow> a * b < 0"
  by (auto simp: dmul_def dec.rnd_pos_iff dec.rnd_neg_iff dec.rnd_nonneg_iff dec.rnd_nonpos_iff
      dec.rnd_eq_0_iff mult_eq_0_iff)

lemma ddiv_signs [dec_simps]:
  "0 < ddiv a b \<longleftrightarrow> 0 < a / b" "ddiv a b \<le> 0 \<longleftrightarrow> a / b \<le> 0" "0 \<le> ddiv a b \<longleftrightarrow> 0 \<le> a / b"
  "ddiv a b = 0 \<longleftrightarrow> a / b = 0" "ddiv a b < 0 \<longleftrightarrow> a / b < 0"
  by (simp_all only: ddiv_def dec.rnd_pos_iff dec.rnd_neg_iff dec.rnd_nonneg_iff
      dec.rnd_nonpos_iff dec.rnd_eq_0_iff)

lemma dabs_dsub [dec_simps]: "dabs (dsub a b) = \<bar>dsub a b\<bar>"
  by (simp add: dabs_def dsub_def dec.rnd_abs dec.rnd_idem)

text \<open>The relative error of one operation: half a unit in the 28th digit.\<close>

definition eps :: rat where
  "eps = 1 / (2 * 10 ^ 27)"

lemma dround_le_eps: "0 \<le> x \<Longrightarrow> dround x \<le> x * (1 + eps)"
  using dround_err [of x, folded eps_def] unfolding distrib_left by auto

lemma dround_ge_eps: "0 \<le> x \<Longrightarrow> x * (1 - eps) \<le> dround x"
  using dround_err [of x, folded eps_def] unfolding right_diff_distrib by auto

lemma eps_bounds: "0 < eps" "eps < 1"
  by (simp_all add: eps_def)

lemma grid_down_bounds:
  assumes "0 \<le> x"
  shows "0 \<le> grid_down k x" "grid_down k x \<le> x" "x < grid_down k x + 1 / 10 ^ k"
proof -
  have nn: "0 \<le> x * 10 ^ k" using assms by simp
  then have t: "trunc (x * 10 ^ k) = \<lfloor>x * 10 ^ k\<rfloor>" by (simp add: trunc_def)
  show "0 \<le> grid_down k x" using assms by (rule q_down.rnd_nonneg)
  have "of_int \<lfloor>x * 10 ^ k\<rfloor> / 10 ^ k \<le> (x * 10 ^ k) / (10 ^ k :: rat)"
    by (intro divide_right_mono) simp_all
  then show "grid_down k x \<le> x" by (simp add: grid_down_def t)
  have "x * 10 ^ k < of_int \<lfloor>x * 10 ^ k\<rfloor> + 1" by linarith
  then have "(x * 10 ^ k) / 10 ^ k < (of_int \<lfloor>x * 10 ^ k\<rfloor> + 1) / (10 ^ k :: rat)"
    by (intro divide_strict_right_mono) simp_all
  then show "x < grid_down k x + 1 / 10 ^ k" by (simp add: grid_down_def t add_divide_distrib)
qed

lemma grid_even_err: "\<bar>grid_even k x - x\<bar> \<le> 1 / (2 * 10 ^ k)"
proof -
  have "\<bar>grid_even k x - x\<bar> = \<bar>of_int (round_half_even (x * 10 ^ k)) - x * 10 ^ k\<bar> / 10 ^ k"
    by (simp add: grid_even_def diff_divide_distrib [symmetric] abs_divide [symmetric] field_simps)
  also have "\<dots> \<le> 1 / 2 / 10 ^ k"
    using round_half_even_err by (intro divide_right_mono) auto
  finally show ?thesis by simp
qed

lemma quantize_down_Inr [result_simps]:
  "quantize_down k x = Inr y \<longleftrightarrow> y = grid_down k x \<and> \<bar>grid_down k x\<bar> * 10 ^ k < 10 ^ 28"
  by (auto simp: quantize_down_def)

lemma quantize_even_Inr [result_simps]:
  "quantize_even k x = Inr y \<longleftrightarrow> y = grid_even k x \<and> \<bar>grid_even k x\<bar> * 10 ^ k < 10 ^ 28"
  by (auto simp: quantize_even_def)

lemma quantize_down_Inl [result_simps]:
  "quantize_down k x = Inl e \<longleftrightarrow>
     e = DecimalInvalidOperation \<and> 10 ^ 28 \<le> \<bar>grid_down k x\<bar> * 10 ^ k"
  by (auto simp: quantize_down_def)

lemma is_dec_grid_down:
  assumes "\<bar>grid_down k x\<bar> * 10 ^ k < 10 ^ 28"
  shows "is_dec (grid_down k x)"
proof -
  have "\<bar>of_int (trunc (x * 10 ^ k)) :: rat\<bar> < of_int (10 ^ 28)"
    using assms by (simp add: grid_down_def abs_divide)
  then have "\<bar>trunc (x * 10 ^ k)\<bar> < 10 ^ 28" by (simp only: of_int_abs [symmetric] of_int_less_iff)
  then show ?thesis
    by (intro is_decI [of _ "trunc (x * 10 ^ k)" "- int k"])
      (simp_all add: grid_down_def power_int_minus divide_inverse)
qed

section \<open>Rounding to multiples of a tick\<close>

lemma tick_floor_le:
  assumes "0 < tick" "0 \<le> x"
  shows "dmul (of_int \<lfloor>ddiv x tick\<rfloor>) tick \<le> x * (1 + eps) ^ 2"
proof -
  have e: "0 \<le> 1 + eps" using eps_bounds by simp
  have nn: "0 \<le> ddiv x tick" unfolding ddiv_def using assms by (intro dec.rnd_nonneg) simp
  have "of_int \<lfloor>ddiv x tick\<rfloor> \<le> ddiv x tick" by simp
  also have "\<dots> \<le> x / tick * (1 + eps)"
    unfolding ddiv_def using assms by (intro dround_le_eps) simp
  finally have "of_int \<lfloor>ddiv x tick\<rfloor> * tick \<le> x / tick * (1 + eps) * tick"
    using assms by (intro mult_right_mono) auto
  then have m: "of_int \<lfloor>ddiv x tick\<rfloor> * tick \<le> x * (1 + eps)" using assms by simp
  have "dmul (of_int \<lfloor>ddiv x tick\<rfloor>) tick \<le> of_int \<lfloor>ddiv x tick\<rfloor> * tick * (1 + eps)"
    unfolding dmul_def using nn assms by (auto intro: dround_le_eps)
  also have "\<dots> \<le> x * (1 + eps) * (1 + eps)" using m e by (rule mult_right_mono)
  finally show ?thesis by (simp add: power2_eq_square mult.assoc)
qed

lemma tick_ceiling_ge:
  assumes "0 < tick" "0 \<le> x"
  shows "x * (1 - eps) ^ 2 \<le> dmul (of_int \<lceil>ddiv x tick\<rceil>) tick"
proof -
  have e: "0 \<le> 1 - eps" using eps_bounds by simp
  have nn: "0 \<le> ddiv x tick" unfolding ddiv_def using assms by (intro dec.rnd_nonneg) simp
  have "x / tick * (1 - eps) \<le> ddiv x tick"
    unfolding ddiv_def using assms by (intro dround_ge_eps) simp
  also have "\<dots> \<le> of_int \<lceil>ddiv x tick\<rceil>" by simp
  finally have "x / tick * (1 - eps) * tick \<le> of_int \<lceil>ddiv x tick\<rceil> * tick"
    using assms by (intro mult_right_mono) auto
  then have m: "x * (1 - eps) \<le> of_int \<lceil>ddiv x tick\<rceil> * tick" using assms by simp
  have "x * (1 - eps) * (1 - eps) \<le> of_int \<lceil>ddiv x tick\<rceil> * tick * (1 - eps)"
    using m e by (rule mult_right_mono)
  also have "\<dots> \<le> dmul (of_int \<lceil>ddiv x tick\<rceil>) tick"
    unfolding dmul_def using nn assms by (auto intro!: dround_ge_eps mult_nonneg_nonneg)
  finally show ?thesis by (simp add: power2_eq_square mult.assoc)
qed

section \<open>Evaluation of closed terms\<close>

text \<open>Evaluation takes a value that is already a short decimal as it is.\<close>

lemma dround_exact:
  assumes "quotient_of x = (p, q)" "10 ^ 12 mod q = 0" "\<bar>p\<bar> \<le> 10 ^ 16"
  shows "dround x = x"
proof -
  have q: "0 < q" "x = of_int p / of_int q"
    using quotient_of_denom_pos [OF assms(1)] quotient_of_div [OF assms(1)] by auto
  obtain k where k: "10 ^ 12 = q * k" using assms(2) by (metis mod_0_imp_dvd dvdE)
  then have "0 < q * k" by (metis zero_less_numeral zero_less_power)
  then have "0 < k" using q(1) by (simp add: zero_less_mult_iff)
  have "k \<le> 10 ^ 12" by (rule zdvd_imp_le) (metis k dvd_triv_right, simp)
  then have "\<bar>p * k\<bar> \<le> 10 ^ 16 * 10 ^ 12"
    using assms(3) \<open>0 < k\<close> unfolding abs_mult by (intro mult_mono) simp_all
  moreover have "x = of_int (p * k) * 10 powi (- 12)"
  proof -
    have ten: "of_int (q * k) = (10 :: rat) ^ 12" unfolding k [symmetric] by simp
    have eq: "(10 :: rat) powi (- 12) = 1 / of_int (q * k)"
      unfolding ten by (simp only: power_int_def) (simp add: power_one_over)
    show ?thesis unfolding eq q(2) using q(1) \<open>0 < k\<close> by simp
  qed
  ultimately have "is_dec x" by (intro is_decI [of x "p * k" "- 12"]) (assumption, simp)
  then show ?thesis by (rule dround_id)
qed

lemma dround_code [code]:
  "dround x = (let (p, q) = quotient_of x in
     if 1000000000000 mod q = 0 \<and> \<bar>p\<bar> \<le> 10000000000000000 then x
     else let e = adjusted \<bar>x\<bar> - 27
       in sgn x * of_int (round_half_even (\<bar>x\<bar> * 10 powi (- e))) * 10 powi e)"
proof -
  obtain p q where pq: "quotient_of x = (p, q)" by fastforce
  have exact: "dround x = x" if "1000000000000 mod q = 0" "\<bar>p\<bar> \<le> 10000000000000000"
    using that by (intro dround_exact [OF pq]) simp_all
  have "x \<noteq> 0" if "\<not> (1000000000000 mod q = 0 \<and> \<bar>p\<bar> \<le> 10000000000000000)"
    using that pq by auto
  then show ?thesis unfolding pq using exact by (auto simp: dround_def Let_def)
qed

lemma floor_rat_numeral:
  "\<lfloor>numeral a / numeral b :: rat\<rfloor> = numeral a div numeral b"
  "\<lfloor>- (numeral a / numeral b) :: rat\<rfloor> = - numeral a div numeral b"
  "\<lfloor>1 / numeral b :: rat\<rfloor> = 1 div numeral b"
  "\<lfloor>- (1 / numeral b) :: rat\<rfloor> = - 1 div numeral b"
  using floor_divide_of_int_eq [of "numeral a" "numeral b", where 'a = rat]
    floor_divide_of_int_eq [of "- numeral a" "numeral b", where 'a = rat]
    floor_divide_of_int_eq [of "1" "numeral b", where 'a = rat]
    floor_divide_of_int_eq [of "- 1" "numeral b", where 'a = rat]
  by simp_all

lemmas dec_eval = dec_op_defs dround_def adjusted.simps round_half_even_def Let_def
  floor_rat_numeral trunc_def ceiling_def quantize_down_def quantize_even_def
  grid_down_def grid_even_def

section \<open>Sums, clamping and half-up rounding\<close>

text \<open>\<open>sum(xs, Decimal(0))\<close> and \<open>min(upper, max(lower, value))\<close>.\<close>

definition dsum :: "decimal list \<Rightarrow> decimal" where
  "dsum xs = foldl dadd 0 xs"

lemma foldl_dadd_nonneg: "0 \<le> a \<Longrightarrow> list_all (\<lambda>x. 0 \<le> x) xs \<Longrightarrow> 0 \<le> foldl dadd a xs"
  by (induction xs arbitrary: a) (auto simp: dec_simps)

lemma dsum_nonneg: "list_all (\<lambda>x. 0 \<le> x) xs \<Longrightarrow> 0 \<le> dsum xs"
  by (simp add: dsum_def foldl_dadd_nonneg)

definition dclamp :: "decimal \<Rightarrow> decimal \<Rightarrow> decimal \<Rightarrow> decimal" where
  "dclamp x lower upper = min upper (max lower x)"

lemma dclamp_bounds: "lower \<le> upper \<Longrightarrow> lower \<le> dclamp x lower upper \<and> dclamp x lower upper \<le> upper"
  by (simp add: dclamp_def)

lemma dclamp_id: "lower \<le> x \<Longrightarrow> x \<le> upper \<Longrightarrow> dclamp x lower upper = x"
  by (simp add: dclamp_def)

lemma dclamp_mono: "x \<le> y \<Longrightarrow> dclamp x lower upper \<le> dclamp y lower upper"
  by (auto simp: dclamp_def)

definition round_half_up :: "rat \<Rightarrow> int" where
  "round_half_up x = (if 0 \<le> x then \<lfloor>x + 1 / 2\<rfloor> else - \<lfloor>- x + 1 / 2\<rfloor>)"

lemma round_half_up_of_int [simp]: "round_half_up (of_int n) = n"
proof -
  have "\<lfloor>of_int m + 1 / 2 :: rat\<rfloor> = m" for m by (simp add: floor_eq_iff)
  from this [of n] this [of "- n"] show ?thesis by (simp add: round_half_up_def)
qed

lemma round_half_up_mono: "x \<le> y \<Longrightarrow> round_half_up x \<le> round_half_up y"
proof -
  assume le: "x \<le> y"
  consider "0 \<le> x" | "x < 0" "0 \<le> y" | "y < 0" by linarith
  then show ?thesis
  proof cases
    case 2
    have "0 \<le> \<lfloor>- x + 1 / 2\<rfloor>" "0 \<le> \<lfloor>y + 1 / 2\<rfloor>" using 2 by (simp_all add: le_floor_iff)
    then have "- \<lfloor>- x + 1 / 2\<rfloor> \<le> \<lfloor>y + 1 / 2\<rfloor>" by linarith
    then show ?thesis using 2 by (simp only: round_half_up_def not_le [symmetric] if_True if_False)
  qed (use le in \<open>auto simp: round_half_up_def intro: floor_mono\<close>)
qed

definition grid_half_up :: "nat \<Rightarrow> rat \<Rightarrow> decimal" where
  "grid_half_up k x = of_int (round_half_up (x * 10 ^ k)) / 10 ^ k"

definition quantize_half_up :: "nat \<Rightarrow> decimal \<Rightarrow> decimal result" where
  "quantize_half_up k x =
     (if 10 ^ 28 \<le> \<bar>grid_half_up k x\<bar> * 10 ^ k then Inl DecimalInvalidOperation
      else Inr (grid_half_up k x))"

interpretation q_half: rounding "grid_half_up k" "on_grid k"
proof unfold_locales
  show "x \<le> y \<Longrightarrow> grid_half_up k x \<le> grid_half_up k y" for x y
    by (simp add: grid_half_up_def divide_right_mono round_half_up_mono mult_right_mono)
  show "on_grid k x \<Longrightarrow> grid_half_up k x = x" for x
    by (auto simp: on_grid_def grid_half_up_def)
  show "on_grid k (grid_half_up k x)" for x by (auto simp: on_grid_def grid_half_up_def)
  show "on_grid k 0" by (auto simp: on_grid_def intro: exI [of _ 0])
qed

lemma quantize_half_up_Inr [result_simps]:
  "quantize_half_up k x = Inr y \<longleftrightarrow> y = grid_half_up k x \<and> \<bar>grid_half_up k x\<bar> * 10 ^ k < 10 ^ 28"
  by (auto simp: quantize_half_up_def)

section \<open>Square roots\<close>

text \<open>
  \<open>Decimal.sqrt\<close> rounds the exact root to nearest. The integer root has more digits than the
  precision keeps; a half is added when a remainder is left, which decides the ties.
\<close>

fun isqrt :: "nat \<Rightarrow> nat" where
  "isqrt n = (if n = 0 then 0
     else let r = 2 * isqrt (n div 4) in if (r + 1) ^ 2 \<le> n then r + 1 else r)"

declare isqrt.simps [simp del]

lemma isqrt_bounds: "isqrt n ^ 2 \<le> n \<and> n < (isqrt n + 1) ^ 2"
proof (induction n rule: isqrt.induct)
  case (1 n)
  show ?case
  proof (cases "n = 0")
    case False
    define q where "q = isqrt (n div 4)"
    have q: "q ^ 2 \<le> n div 4" "n div 4 < (q + 1) ^ 2" using 1 [OF False] by (simp_all add: q_def)
    then have "4 * q ^ 2 \<le> n" "n < 4 * (q + 1) ^ 2" by linarith+
    moreover have "isqrt n = (if (2 * q + 1) ^ 2 \<le> n then 2 * q + 1 else 2 * q)"
      using False by (subst isqrt.simps) (simp add: q_def Let_def)
    moreover have "(2 * q + 1 + 1) ^ 2 = 4 * (q + 1) ^ 2" "(2 * q) ^ 2 = 4 * q ^ 2"
      by (simp_all add: power2_eq_square algebra_simps)
    ultimately show ?thesis by auto
  qed (simp add: isqrt.simps)
qed

definition sqrt_sig :: "nat \<Rightarrow> decimal \<Rightarrow> decimal result" where
  "sqrt_sig p x =
     (if x < 0 then Inl DecimalInvalidOperation
      else if x = 0 then Inr 0
      else let k = int p + 2 - adjusted x div 2;
               y = x * 10 powi (2 * k);
               r = isqrt (nat \<lfloor>y\<rfloor>);
               root = (if of_nat (r ^ 2) = y then of_nat r else of_nat r + 1 / 2)
           in Inr (round_sig p (root * 10 powi (- k))))"

definition dsqrt :: "decimal \<Rightarrow> decimal result" where
  "dsqrt x = sqrt_sig 27 x"

interpretation sig: float_rounding "round_sig k" "is_sig k"
  by unfold_locales
    (simp_all add: round_sig_mono round_sig_id is_sig_round_sig round_sig_minus round_sig_pos is_sigI [of 0 0])

lemma sqrt_sig_Inr: "0 \<le> x \<Longrightarrow> \<exists>r \<ge> 0. sqrt_sig p x = Inr r"
  by (auto simp: sqrt_sig_def Let_def intro!: sig.rnd_nonneg)

lemma sqrt_sig_pos:
  assumes "0 < x"
  shows "\<exists>r > 0. sqrt_sig p x = Inr r"
proof -
  define k where "k = int p + 2 - adjusted x div 2"
  define y where "y = x * 10 powi (2 * k)"
  define r where "r = isqrt (nat \<lfloor>y\<rfloor>)"
  have "0 < y" using assms by (simp add: y_def)
  then have "0 < (if of_nat (r ^ 2) = y then of_nat r else of_nat r + 1 / 2 :: rat)" by (cases "r = 0") auto
  then have "0 < round_sig p ((if of_nat (r ^ 2) = y then of_nat r else of_nat r + 1 / 2) * 10 powi (- k))"
    by (intro round_sig_pos mult_pos_pos) simp_all
  moreover have "sqrt_sig p x = Inr (round_sig p ((if of_nat (r ^ 2) = y then of_nat r else of_nat r + 1 / 2) * 10 powi (- k)))"
    using assms unfolding sqrt_sig_def Let_def k_def [symmetric] y_def [symmetric] r_def [symmetric] by simp
  ultimately show ?thesis by blast
qed

lemma dsqrt_Inr: "0 \<le> x \<Longrightarrow> \<exists>r \<ge> 0. dsqrt x = Inr r"
  unfolding dsqrt_def by (rule sqrt_sig_Inr)

end
