(* ===== verification/Strategy_Domain.thy ===== *)
theory Strategy_Domain
  imports Py_Decimal
begin

text \<open>
  The trade candidate and its evidence (\<^verbatim>\<open>app/domain/strategy.py\<close>): one record per
  pydantic model, and one \<open>validate_\<close> function per model that raises where the model's
  field constraints or its \<open>model_validator\<close> do. Timestamps are UTC microseconds
  (\<open>timestamp\<close>), so the models' rejection of naive timestamps has no counterpart.
  The predicates \<open>wf_\<close> state the type invariant a validated value has.
\<close>

named_theorems wf_simps "well-formedness of validated models"

type_synonym timestamp = int

text \<open>\<open>timedelta(seconds=n)\<close>.\<close>

definition seconds :: "int \<Rightarrow> int" where
  "seconds n = n * 1000000"

datatype direction = Long | Short

datatype derivative_status = DConfirmed | DMixed | DOpposed | DInsufficient

datatype math_status = MConfirmed | MMixed | MOpposed | MInsufficient | MUnstable

datatype risk_grade = GradeHigh | GradeMedium | GradeLow | GradeBlocked

datatype protection_model = Atr | Structure

record derivative_confirmation =
  dc_status :: derivative_status
  dc_confidence :: decimal
  dc_alignment_score :: decimal
  dc_qualified_timeframes :: "string list"
  dc_aligned_timeframes :: "string list"
  dc_opposed_timeframes :: "string list"

record mathematical_confirmation =
  mc_status :: math_status
  mc_risk_grade :: risk_grade
  mc_confidence :: decimal
  mc_directional_support :: decimal
  mc_reliability :: decimal
  mc_coverage :: decimal
  mc_consensus :: decimal
  mc_instability :: decimal
  mc_component_codes :: "string list"
  mc_auxiliary_bonus :: int
  mc_auxiliary_directional_support :: decimal
  mc_auxiliary_component_codes :: "string list"

record structural_geometry =
  sg_timeframe :: string
  sg_source_closed_at :: timestamp
  sg_reference_entry :: decimal
  sg_stop_anchor :: decimal
  sg_target_anchor :: decimal
  sg_volatility_buffer :: decimal
  sg_stop_loss :: decimal
  sg_take_profit :: decimal
  sg_gross_risk_reward :: decimal

record trade_candidate =
  tc_strategy :: string
  tc_direction :: direction
  tc_score :: int
  tc_entry :: decimal
  tc_stop_loss :: decimal
  tc_take_profit :: decimal
  tc_risk_reward :: decimal
  tc_invalidation :: string
  tc_expires_at :: timestamp
  tc_reasons :: "string list"
  tc_counter_evidence :: "string list"
  tc_derivative_confirmation :: "derivative_confirmation option"
  tc_mathematical_confirmation :: "mathematical_confirmation option"
  tc_risk_score :: "int option"
  tc_protection_model :: protection_model
  tc_structural_protection :: "structural_geometry option"
  tc_estimated_round_trip_cost_pct :: decimal
  tc_gross_risk_reward :: "decimal option"
  tc_net_risk_reward :: "decimal option"

definition in_range :: "'a :: linorder \<Rightarrow> 'a \<Rightarrow> 'a \<Rightarrow> bool" where
  "in_range lo hi x \<longleftrightarrow> lo \<le> x \<and> x \<le> hi"

abbreviation field_constraint :: exn where
  "field_constraint \<equiv> ValueError ''field_constraint''"

section \<open>Derivative and mathematical confirmations\<close>

definition validate_derivative_confirmation ::
  "derivative_confirmation \<Rightarrow> derivative_confirmation result" where
  "validate_derivative_confirmation d =
     (if \<not> in_range 0 1 (dc_confidence d) \<or> \<not> in_range (- 1) 1 (dc_alignment_score d)
      then Inl field_constraint else Inr d)"

definition mathematical_fields_ok :: "mathematical_confirmation \<Rightarrow> bool" where
  "mathematical_fields_ok m \<longleftrightarrow>
     in_range 0 1 (mc_confidence m) \<and> in_range (- 1) 1 (mc_directional_support m) \<and>
     in_range 0 1 (mc_reliability m) \<and> in_range 0 1 (mc_coverage m) \<and>
     in_range 0 1 (mc_consensus m) \<and> in_range 0 1 (mc_instability m) \<and>
     in_range 0 5 (mc_auxiliary_bonus m) \<and>
     in_range (- 1) 1 (mc_auxiliary_directional_support m)"

definition validate_monotonic_risk_grade ::
  "mathematical_confirmation \<Rightarrow> mathematical_confirmation result" where
  "validate_monotonic_risk_grade m =
     (if \<not> mathematical_fields_ok m then Inl field_constraint
      else if \<not> distinct (mc_component_codes m)
        then Inl (ValueError ''validated mathematical component codes must be unique'')
      else if \<not> distinct (mc_auxiliary_component_codes m)
        then Inl (ValueError ''auxiliary mathematical component codes must be unique'')
      else if set (mc_component_codes m) \<inter> set (mc_auxiliary_component_codes m) \<noteq> {}
        then Inl (ValueError ''mathematical evidence cannot be both validated and auxiliary'')
      else if mc_auxiliary_bonus m > 0 \<and>
          (mc_auxiliary_directional_support m \<le> 0 \<or> mc_auxiliary_component_codes m = [])
        then Inl (ValueError ''auxiliary bonus requires aligned, explicitly identified evidence'')
      else if mc_status m \<in> {MOpposed, MUnstable} then
        (if mc_risk_grade m \<noteq> GradeBlocked
           then Inl (ValueError ''opposed or unstable mathematics must be blocked'')
         else if mc_auxiliary_bonus m \<noteq> 0
           then Inl (ValueError ''blocked mathematics cannot retain auxiliary bonus'')
         else Inr m)
      else if mc_risk_grade m = GradeBlocked
        then Inl (ValueError ''blocked grade requires opposed or unstable mathematics'')
      else if mc_risk_grade m \<in> {GradeHigh, GradeMedium} \<and> mc_status m \<noteq> MConfirmed
        then Inl (ValueError ''medium or high grade requires confirmed mathematics'')
      else if mc_risk_grade m \<in> {GradeHigh, GradeMedium} \<and> mc_component_codes m = []
        then Inl (ValueError ''medium or high grade requires validated mathematical components'')
      else if mc_risk_grade m = GradeHigh \<and>
          (mc_confidence m < 65 / 100 \<or> mc_reliability m < 65 / 100 \<or> mc_instability m > 20 / 100)
        then Inl (ValueError ''high grade requires high-confidence core geometry'')
      else if mc_risk_grade m = GradeMedium \<and>
          (mc_confidence m < 35 / 100 \<or> mc_reliability m < 45 / 100)
        then Inl (ValueError ''medium grade requires sufficient core reliability'')
      else Inr m)"

section \<open>Structural protection\<close>

definition geometry_fields_ok :: "structural_geometry \<Rightarrow> bool" where
  "geometry_fields_ok g \<longleftrightarrow>
     0 < sg_reference_entry g \<and> 0 < sg_stop_anchor g \<and> 0 < sg_target_anchor g \<and>
     0 < sg_volatility_buffer g \<and> 0 < sg_stop_loss g \<and> 0 < sg_take_profit g \<and>
     0 < sg_gross_risk_reward g"

definition validate_structural_geometry ::
  "structural_geometry \<Rightarrow> structural_geometry result" where
  "validate_structural_geometry g =
     (if \<not> geometry_fields_ok g then Inl field_constraint
      else if sg_stop_loss g < sg_reference_entry g \<and> sg_reference_entry g < sg_take_profit g then
        (if \<not> (sg_stop_loss g < sg_stop_anchor g \<and> sg_stop_anchor g < sg_reference_entry g)
           then Inl (ValueError ''long structural stop anchor is invalid'')
         else if dsub (sg_stop_anchor g) (sg_stop_loss g) \<noteq> sg_volatility_buffer g
           then Inl (ValueError ''long structural volatility buffer is inconsistent'')
         else if sg_target_anchor g \<noteq> sg_take_profit g
           then Inl (ValueError ''long structural target must equal its anchor'')
         else Inr g)
      else if sg_take_profit g < sg_reference_entry g \<and> sg_reference_entry g < sg_stop_loss g then
        (if \<not> (sg_reference_entry g < sg_stop_anchor g \<and> sg_stop_anchor g < sg_stop_loss g)
           then Inl (ValueError ''short structural stop anchor is invalid'')
         else if dsub (sg_stop_loss g) (sg_stop_anchor g) \<noteq> sg_volatility_buffer g
           then Inl (ValueError ''short structural volatility buffer is inconsistent'')
         else if sg_target_anchor g \<noteq> sg_take_profit g
           then Inl (ValueError ''short structural target must equal its anchor'')
         else Inr g)
      else Inl (ValueError ''structural protection geometry is invalid''))"

section \<open>Trade candidates\<close>

definition candidate_fields_ok :: "trade_candidate \<Rightarrow> bool" where
  "candidate_fields_ok c \<longleftrightarrow>
     in_range 0 100 (tc_score c) \<and>
     (case tc_risk_score c of None \<Rightarrow> True | Some r \<Rightarrow> in_range 0 100 r) \<and>
     in_range 0 (20 / 100) (tc_estimated_round_trip_cost_pct c) \<and>
     (case tc_gross_risk_reward c of None \<Rightarrow> True | Some r \<Rightarrow> 0 < r) \<and>
     (case tc_net_risk_reward c of None \<Rightarrow> True | Some r \<Rightarrow> 0 < r)"

text \<open>The prices bracket the entry on the side the direction asks for.\<close>

definition brackets :: "direction \<Rightarrow> decimal \<Rightarrow> decimal \<Rightarrow> decimal \<Rightarrow> bool" where
  "brackets d stop p take_profit =
     (case d of Long \<Rightarrow> stop < p \<and> p < take_profit | Short \<Rightarrow> take_profit < p \<and> p < stop)"

definition structural_prices_ok :: "trade_candidate \<Rightarrow> structural_geometry \<Rightarrow> bool" where
  "structural_prices_ok c g =
     (case tc_direction c of
        Long \<Rightarrow> tc_stop_loss c < sg_stop_anchor g \<and> sg_stop_anchor g < tc_entry c \<and>
          tc_entry c < tc_take_profit c \<and> tc_take_profit c \<le> sg_target_anchor g
      | Short \<Rightarrow> sg_target_anchor g \<le> tc_take_profit c \<and> tc_take_profit c < tc_entry c \<and>
          tc_entry c < sg_stop_anchor g \<and> sg_stop_anchor g < tc_stop_loss c)"

definition validate_trade_candidate :: "trade_candidate \<Rightarrow> trade_candidate result" where
  "validate_trade_candidate c =
     (if \<not> candidate_fields_ok c then Inl field_constraint
      else if \<not> brackets (tc_direction c) (tc_stop_loss c) (tc_entry c) (tc_take_profit c)
        then Inl (ValueError (case tc_direction c of
            Long \<Rightarrow> ''long candidate requires stop_loss < entry < take_profit''
          | Short \<Rightarrow> ''short candidate requires take_profit < entry < stop_loss''))
      else if tc_risk_reward c \<le> 0 then Inl (ValueError ''risk_reward must be positive'')
      else bind_result
        (if tc_protection_model c = Structure then
           (case tc_structural_protection c of
              None \<Rightarrow> Inl (ValueError ''structural protection model requires structural geometry'')
            | Some g \<Rightarrow>
                if \<not> structural_prices_ok c g
                  then Inl (ValueError (case tc_direction c of
                      Long \<Rightarrow> ''candidate prices exceed long structural anchors''
                    | Short \<Rightarrow> ''candidate prices exceed short structural anchors''))
                else if tc_expires_at c \<le> sg_source_closed_at g
                  then Inl (ValueError ''structural source must predate candidate expiry'')
                else Inr ())
         else Inr ())
        (\<lambda>_. case tc_net_risk_reward c of
            None \<Rightarrow> Inr c
          | Some n \<Rightarrow> if tc_risk_reward c \<noteq> n
              then Inl (ValueError ''risk_reward must equal net_risk_reward when net RR is set'')
              else Inr c))"

section \<open>What validation guarantees\<close>

definition wf_candidate :: "trade_candidate \<Rightarrow> bool" where
  "wf_candidate c \<longleftrightarrow>
     candidate_fields_ok c \<and>
     brackets (tc_direction c) (tc_stop_loss c) (tc_entry c) (tc_take_profit c) \<and>
     0 < tc_risk_reward c \<and>
     (tc_protection_model c = Structure \<longrightarrow>
        (\<exists>g. tc_structural_protection c = Some g \<and> structural_prices_ok c g \<and>
             sg_source_closed_at g < tc_expires_at c)) \<and>
     (\<forall>n. tc_net_risk_reward c = Some n \<longrightarrow> tc_risk_reward c = n)"

lemma validate_trade_candidate_Inr [wf_simps]:
  "validate_trade_candidate c = Inr c' \<longleftrightarrow> c' = c \<and> wf_candidate c"
  unfolding validate_trade_candidate_def wf_candidate_def
  by (cases "tc_structural_protection c"; cases "tc_net_risk_reward c") (auto simp: not_le not_less)

definition wf_mathematical :: "mathematical_confirmation \<Rightarrow> bool" where
  "wf_mathematical m \<longleftrightarrow> validate_monotonic_risk_grade m = Inr m"

lemma validate_monotonic_risk_grade_same:
  "validate_monotonic_risk_grade m = Inr m' \<Longrightarrow> m' = m \<and> wf_mathematical m"
proof -
  assume h: "validate_monotonic_risk_grade m = Inr m'"
  then have "m' = m" unfolding validate_monotonic_risk_grade_def by (simp split: if_splits)
  with h show ?thesis by (simp add: wf_mathematical_def)
qed

lemma wf_mathematical_fields: "wf_mathematical m \<Longrightarrow> mathematical_fields_ok m"
  unfolding wf_mathematical_def validate_monotonic_risk_grade_def by (simp split: if_splits)

lemma wf_mathematical_blocked:
  "wf_mathematical m \<Longrightarrow> mc_risk_grade m = GradeBlocked \<longleftrightarrow> mc_status m \<in> {MOpposed, MUnstable}"
  unfolding wf_mathematical_def validate_monotonic_risk_grade_def by (simp split: if_splits)

lemma wf_mathematical_high:
  "wf_mathematical m \<Longrightarrow> mc_risk_grade m = GradeHigh \<Longrightarrow>
     mc_status m = MConfirmed \<and> 65 / 100 \<le> mc_confidence m \<and> 65 / 100 \<le> mc_reliability m \<and>
     mc_instability m \<le> 20 / 100 \<and> mc_component_codes m \<noteq> []"
  unfolding wf_mathematical_def validate_monotonic_risk_grade_def
  by (simp split: if_splits)

lemma brackets_simps [simp]:
  "brackets Long a p b \<longleftrightarrow> a < p \<and> p < b" "brackets Short a p b \<longleftrightarrow> b < p \<and> p < a"
  by (simp_all add: brackets_def)

lemma brackets_ne: "brackets d a p b \<Longrightarrow> p \<noteq> a \<and> p \<noteq> b"
  by (cases d) auto

end
