(* ===== verification/Settings.thy ===== *)
theory Settings
  imports Py_Decimal
begin

text \<open>
  The runtime configuration (\<^verbatim>\<open>app/config/settings.py\<close>): the fields the modelled code
  reads, under their source names, in a chain of records (core, Live, Demo, structural
  Demo risk, soak and performance), the derived properties, and the model validator
  \<open>enforce_v168_safety\<close>, which is applied once when the process starts. Numeric fields
  the code turns into decimals by \<open>Decimal(str(x))\<close> are decimals here; the REST base
  URLs are held in parsed form, as \<open>urllib.parse.urlparse\<close> returns them.
  Field range constraints that later proofs use are the predicate \<open>ranges_ok\<close>.
  The instrument universe is that of \<^verbatim>\<open>app/exchange/okx/symbols.py\<close>.
\<close>

section \<open>Instrument universe\<close>

definition reviewed_demo_symbols :: "(string \<times> string) list" where
  "reviewed_demo_symbols =
     [(''BTC/USDT:USDT'', ''BTC-USDT-SWAP''), (''ETH/USDT:USDT'', ''ETH-USDT-SWAP''),
      (''SOL/USDT:USDT'', ''SOL-USDT-SWAP''), (''XRP/USDT:USDT'', ''XRP-USDT-SWAP''),
      (''DOGE/USDT:USDT'', ''DOGE-USDT-SWAP''), (''ADA/USDT:USDT'', ''ADA-USDT-SWAP''),
      (''LINK/USDT:USDT'', ''LINK-USDT-SWAP''), (''LTC/USDT:USDT'', ''LTC-USDT-SWAP'')]"

definition reviewed_demo_instrument_ids :: "string list" where
  "reviewed_demo_instrument_ids = map snd reviewed_demo_symbols"

definition live_boundary_instrument_ids :: "string list" where
  "live_boundary_instrument_ids = [''BTC-USDT-SWAP'', ''ETH-USDT-SWAP'']"

definition is_space :: "char \<Rightarrow> bool" where
  "is_space c \<longleftrightarrow> (of_char c :: nat) \<in> {9, 10, 11, 12, 13, 28, 29, 30, 31, 32}"

definition strip :: "string \<Rightarrow> string" where
  "strip s = rev (dropWhile is_space (rev (dropWhile is_space s)))"

definition to_instrument_id :: "string \<Rightarrow> string result" where
  "to_instrument_id symbol =
     (case find (\<lambda>(canonical, instrument_id). str_upper (strip symbol) = str_upper canonical \<or>
                    str_upper (strip symbol) = str_upper instrument_id) reviewed_demo_symbols of
        Some (_, instrument_id) \<Rightarrow> Inr instrument_id
      | None \<Rightarrow> Inl (ValueError (''unsupported symbol: '' @ symbol)))"

definition to_canonical_symbol :: "string \<Rightarrow> string result" where
  "to_canonical_symbol instrument_id =
     (case find (\<lambda>(_, known_id). known_id = str_upper (strip instrument_id)) reviewed_demo_symbols of
        Some (symbol, _) \<Rightarrow> Inr symbol
      | None \<Rightarrow> Inl (ValueError (''unsupported instrument: '' @ instrument_id)))"

fun split_comma :: "string \<Rightarrow> string list" where
  "split_comma [] = [[]]"
| "split_comma (c # s) =
     (if c = CHR '','' then [] # split_comma s
      else case split_comma s of [] \<Rightarrow> [[c]] | w # ws \<Rightarrow> (c # w) # ws)"

fun join_comma :: "string list \<Rightarrow> string" where
  "join_comma [] = []"
| "join_comma [w] = w"
| "join_comma (w # v # ws) = w @ CHR '','' # join_comma (v # ws)"

definition normalized_symbol_list :: "string \<Rightarrow> string list" where
  "normalized_symbol_list value =
     map (\<lambda>item. str_upper (strip item)) (filter (\<lambda>item. strip item \<noteq> []) (split_comma value))"

definition reviewed_demo_symbols_csv :: string where
  "reviewed_demo_symbols_csv = join_comma reviewed_demo_instrument_ids"

definition live_boundary_symbols_csv :: string where
  "live_boundary_symbols_csv = join_comma live_boundary_instrument_ids"

section \<open>Fields\<close>

datatype environment_name = Development | TestEnvironment | Production

datatype trading_mode_name = AnalysisOnly | PaperMode | OkxDemoMode | LiveMode

record parsed_url =
  url_scheme :: string
  url_hostname :: string
  url_path :: string
  url_query :: string
  url_fragment :: string
  url_username :: "string option"
  url_password :: "string option"
  url_port :: "nat option"

definition okx_origin :: parsed_url where
  "okx_origin =
     \<lparr>url_scheme = ''https'', url_hostname = ''openapi.okx.com'', url_path = [], url_query = [],
      url_fragment = [], url_username = None, url_password = None, url_port = None\<rparr>"

record core_settings = 
  environment :: environment_name
  web_concurrency :: int
  api_token :: string
  trading_mode :: trading_mode_name
  auto_trade :: bool
  live_trading :: bool
  okx_ws_enabled :: bool
  okx_ws_symbols :: string
  paper_auto_ticks :: bool
  paper_auto_execution :: bool
  paper_scan_symbols :: string
  paper_persistence_enabled :: bool
  strategy_min_score :: int
  strategy_min_risk_reward :: decimal
  risk_per_trade_pct :: decimal
  max_weekly_loss_pct :: decimal
  max_drawdown_pct :: decimal

record live_settings = core_settings +
  okx_live_enabled :: bool
  okx_live_allow_order_writes :: bool
  okx_live_rest_base_url :: parsed_url
  okx_live_api_key :: string
  okx_live_api_secret :: string
  okx_live_api_passphrase :: string
  okx_live_allowed_symbols :: string
  okx_live_max_order_size_contracts :: decimal
  okx_live_max_notional_usdt :: decimal
  okx_live_max_open_positions :: int
  okx_live_max_leverage :: int
  okx_live_require_protection :: bool
  okx_live_require_ip_bound_key :: bool
  okx_live_forbid_withdraw_permission :: bool
  okx_live_auto_reconcile_on_start :: bool
  okx_live_order_detail_poll_attempts :: nat
  okx_live_recovery_flat_poll_attempts :: nat
  okx_live_recovery_flat_poll_delay_seconds :: decimal
  okx_live_arm_ttl_seconds :: int
  okx_live_max_submissions_per_arm :: int
  okx_live_session_loss_limit_pct :: decimal
  okx_live_cancel_all_after_seconds :: int
  okx_live_order_tag :: string
  okx_live_require_flat_start :: bool
  okx_live_auto_disarm :: bool
  okx_live_auto_execution :: bool
  okx_live_scan_symbols :: string
  okx_live_scan_interval_seconds :: int
  okx_live_scan_initial_delay_seconds :: int
  okx_live_scan_candle_limit :: int
  okx_live_scan_max_snapshot_age_seconds :: int
  okx_live_scan_max_entry_drift_bps :: decimal
  okx_live_automation_leverage :: int

record demo_settings = live_settings +
  okx_demo_enabled :: bool
  okx_demo_allow_order_writes :: bool
  okx_demo_rest_base_url :: parsed_url
  okx_demo_api_key :: string
  okx_demo_api_secret :: string
  okx_demo_api_passphrase :: string
  okx_demo_allowed_symbols :: string
  okx_demo_scan_symbols :: string
  okx_demo_max_open_positions :: int
  okx_demo_max_leverage :: int
  okx_demo_require_protection :: bool
  okx_demo_auto_reconcile_on_start :: bool
  okx_demo_auto_execution :: bool
  okx_demo_execution_max_adverse_slippage_bps :: decimal
  okx_demo_trade_cooldown_seconds :: int
  okx_demo_continuous_session_enabled :: bool
  okx_demo_max_trades_per_day :: int
  okx_demo_daily_loss_limit_pct :: decimal
  okx_demo_automation_leverage :: int
  okx_demo_score_risk_enabled :: bool
  okx_demo_score_medium_min :: int
  okx_demo_score_high_min :: int
  okx_demo_score_low_risk_pct :: decimal
  okx_demo_score_medium_risk_pct :: decimal
  okx_demo_score_high_risk_pct :: decimal
  okx_demo_score_low_leverage :: int
  okx_demo_score_medium_leverage :: int
  okx_demo_score_high_leverage :: int
  okx_demo_score_low_margin_pct :: decimal
  okx_demo_score_medium_margin_pct :: decimal
  okx_demo_score_high_margin_pct :: decimal
  okx_demo_portfolio_max_risk_pct :: decimal
  okx_demo_portfolio_max_margin_pct :: decimal
  okx_demo_capital_bucket_enabled :: bool
  okx_demo_position_margin_bucket_usdt :: decimal

record structural_settings = demo_settings +
  okx_demo_structural_dynamic_leverage_enabled :: bool
  okx_demo_structural_score_elite_min :: int
  okx_demo_structural_score_extreme_min :: int
  okx_demo_structural_low_risk_pct :: decimal
  okx_demo_structural_medium_risk_pct :: decimal
  okx_demo_structural_high_risk_pct :: decimal
  okx_demo_structural_elite_risk_pct :: decimal
  okx_demo_structural_extreme_risk_pct :: decimal
  okx_demo_structural_low_leverage_cap :: int
  okx_demo_structural_medium_leverage_cap :: int
  okx_demo_structural_high_leverage_cap :: int
  okx_demo_structural_elite_leverage_cap :: int
  okx_demo_structural_extreme_leverage_cap :: int
  okx_demo_structural_round_trip_fee_bps :: decimal
  okx_demo_structural_round_trip_slippage_bps :: decimal
  okx_demo_structural_funding_buffer_bps :: decimal
  okx_demo_structural_min_net_risk_reward :: decimal
  okx_demo_structural_20x_min_confidence :: decimal
  okx_demo_structural_20x_min_reliability :: decimal
  okx_demo_structural_20x_max_instability :: decimal

record settings = structural_settings +
  okx_demo_soak_enabled :: bool
  okx_demo_soak_allow_execute :: bool
  okx_demo_soak_default_duration_minutes :: int
  okx_demo_soak_max_duration_minutes :: int
  okx_demo_soak_interval_seconds :: int
  okx_demo_execution_soak_max_submissions :: int
  okx_demo_execution_soak_loss_limit_pct :: decimal
  okx_demo_execution_soak_require_flat_start :: bool
  okx_demo_execution_soak_require_protection :: bool
  okx_demo_execution_soak_auto_disarm :: bool
  okx_demo_performance_window_days :: int
  okx_demo_performance_snapshot_retention_days :: int
  okx_demo_performance_min_active_days :: int
  okx_demo_strategy_auto_disable :: bool

definition default_settings :: settings where
  "default_settings =
     \<lparr>environment = Development,
      web_concurrency = 1,
      api_token = '''',
      trading_mode = AnalysisOnly,
      auto_trade = False,
      live_trading = False,
      okx_ws_enabled = False,
      okx_ws_symbols = reviewed_demo_symbols_csv,
      paper_auto_ticks = True,
      paper_auto_execution = False,
      paper_scan_symbols = reviewed_demo_symbols_csv,
      paper_persistence_enabled = True,
      strategy_min_score = 72,
      strategy_min_risk_reward = 18 / 10,
      risk_per_trade_pct = 5 / 1000,
      max_weekly_loss_pct = 5 / 100,
      max_drawdown_pct = 10 / 100,
      okx_live_enabled = False,
      okx_live_allow_order_writes = False,
      okx_live_rest_base_url = okx_origin,
      okx_live_api_key = '''',
      okx_live_api_secret = '''',
      okx_live_api_passphrase = '''',
      okx_live_allowed_symbols = live_boundary_symbols_csv,
      okx_live_max_order_size_contracts = 1,
      okx_live_max_notional_usdt = 1000,
      okx_live_max_open_positions = 1,
      okx_live_max_leverage = 1,
      okx_live_require_protection = True,
      okx_live_require_ip_bound_key = True,
      okx_live_forbid_withdraw_permission = True,
      okx_live_auto_reconcile_on_start = False,
      okx_live_order_detail_poll_attempts = 5,
      okx_live_recovery_flat_poll_attempts = 3,
      okx_live_recovery_flat_poll_delay_seconds = 2,
      okx_live_arm_ttl_seconds = 300,
      okx_live_max_submissions_per_arm = 1,
      okx_live_session_loss_limit_pct = 25 / 10000,
      okx_live_cancel_all_after_seconds = 30,
      okx_live_order_tag = ''CTCCV169'',
      okx_live_require_flat_start = True,
      okx_live_auto_disarm = True,
      okx_live_auto_execution = False,
      okx_live_scan_symbols = live_boundary_symbols_csv,
      okx_live_scan_interval_seconds = 300,
      okx_live_scan_initial_delay_seconds = 10,
      okx_live_scan_candle_limit = 250,
      okx_live_scan_max_snapshot_age_seconds = 30,
      okx_live_scan_max_entry_drift_bps = 20,
      okx_live_automation_leverage = 1,
      okx_demo_enabled = False,
      okx_demo_allow_order_writes = False,
      okx_demo_rest_base_url = okx_origin,
      okx_demo_api_key = '''',
      okx_demo_api_secret = '''',
      okx_demo_api_passphrase = '''',
      okx_demo_allowed_symbols = reviewed_demo_symbols_csv,
      okx_demo_scan_symbols = reviewed_demo_symbols_csv,
      okx_demo_max_open_positions = 1,
      okx_demo_max_leverage = 3,
      okx_demo_require_protection = True,
      okx_demo_auto_reconcile_on_start = False,
      okx_demo_auto_execution = False,
      okx_demo_execution_max_adverse_slippage_bps = 5,
      okx_demo_trade_cooldown_seconds = 1800,
      okx_demo_continuous_session_enabled = False,
      okx_demo_max_trades_per_day = 3,
      okx_demo_daily_loss_limit_pct = 1 / 100,
      okx_demo_automation_leverage = 1,
      okx_demo_score_risk_enabled = False,
      okx_demo_score_medium_min = 80,
      okx_demo_score_high_min = 90,
      okx_demo_score_low_risk_pct = 5 / 1000,
      okx_demo_score_medium_risk_pct = 75 / 10000,
      okx_demo_score_high_risk_pct = 1 / 100,
      okx_demo_score_low_leverage = 1,
      okx_demo_score_medium_leverage = 2,
      okx_demo_score_high_leverage = 3,
      okx_demo_score_low_margin_pct = 15 / 100,
      okx_demo_score_medium_margin_pct = 20 / 100,
      okx_demo_score_high_margin_pct = 25 / 100,
      okx_demo_portfolio_max_risk_pct = 2 / 100,
      okx_demo_portfolio_max_margin_pct = 60 / 100,
      okx_demo_capital_bucket_enabled = False,
      okx_demo_position_margin_bucket_usdt = 2000,
      okx_demo_structural_dynamic_leverage_enabled = False,
      okx_demo_structural_score_elite_min = 95,
      okx_demo_structural_score_extreme_min = 98,
      okx_demo_structural_low_risk_pct = 15 / 1000,
      okx_demo_structural_medium_risk_pct = 25 / 1000,
      okx_demo_structural_high_risk_pct = 3 / 100,
      okx_demo_structural_elite_risk_pct = 4 / 100,
      okx_demo_structural_extreme_risk_pct = 6 / 100,
      okx_demo_structural_low_leverage_cap = 3,
      okx_demo_structural_medium_leverage_cap = 5,
      okx_demo_structural_high_leverage_cap = 8,
      okx_demo_structural_elite_leverage_cap = 10,
      okx_demo_structural_extreme_leverage_cap = 20,
      okx_demo_structural_round_trip_fee_bps = 10,
      okx_demo_structural_round_trip_slippage_bps = 4,
      okx_demo_structural_funding_buffer_bps = 2,
      okx_demo_structural_min_net_risk_reward = 2,
      okx_demo_structural_20x_min_confidence = 65 / 100,
      okx_demo_structural_20x_min_reliability = 65 / 100,
      okx_demo_structural_20x_max_instability = 20 / 100,
      okx_demo_soak_enabled = True,
      okx_demo_soak_allow_execute = False,
      okx_demo_soak_default_duration_minutes = 60,
      okx_demo_soak_max_duration_minutes = 1440,
      okx_demo_soak_interval_seconds = 300,
      okx_demo_execution_soak_max_submissions = 1,
      okx_demo_execution_soak_loss_limit_pct = 25 / 10000,
      okx_demo_execution_soak_require_flat_start = True,
      okx_demo_execution_soak_require_protection = True,
      okx_demo_execution_soak_auto_disarm = True,
      okx_demo_performance_window_days = 30,
      okx_demo_performance_snapshot_retention_days = 90,
      okx_demo_performance_min_active_days = 7,
      okx_demo_strategy_auto_disable = False\<rparr>"

section \<open>Derived properties\<close>

definition okx_ws_symbol_list :: "settings \<Rightarrow> string list" where
  "okx_ws_symbol_list s = normalized_symbol_list (okx_ws_symbols s)"

definition paper_scan_symbol_list :: "settings \<Rightarrow> string list" where
  "paper_scan_symbol_list s = normalized_symbol_list (paper_scan_symbols s)"

definition okx_demo_allowed_symbol_list :: "settings \<Rightarrow> string list" where
  "okx_demo_allowed_symbol_list s = normalized_symbol_list (okx_demo_allowed_symbols s)"

definition okx_live_allowed_symbol_list :: "settings \<Rightarrow> string list" where
  "okx_live_allowed_symbol_list s = normalized_symbol_list (okx_live_allowed_symbols s)"

definition okx_live_scan_symbol_list :: "settings \<Rightarrow> string list" where
  "okx_live_scan_symbol_list s = normalized_symbol_list (okx_live_scan_symbols s)"

definition okx_demo_scan_symbol_list :: "settings \<Rightarrow> string list" where
  "okx_demo_scan_symbol_list s = normalized_symbol_list (okx_demo_scan_symbols s)"

definition api_token_is_safe :: "settings \<Rightarrow> bool" where
  "api_token_is_safe s =
     (let v = strip (api_token s); normalized = str_lower v
      in 32 \<le> length v \<and> \<not> startswith normalized ''replace_with'' \<and>
         normalized \<notin> {''change_me'', ''changeme'', ''your_api_token_here''})"

definition okx_live_credentials_configured :: "settings \<Rightarrow> bool" where
  "okx_live_credentials_configured s =
     list_all (\<lambda>secret. 3 \<le> length (strip secret))
       [okx_live_api_key s, okx_live_api_secret s, okx_live_api_passphrase s]"

definition okx_demo_credentials_configured :: "settings \<Rightarrow> bool" where
  "okx_demo_credentials_configured s =
     list_all (\<lambda>secret. 3 \<le> length (strip secret))
       [okx_demo_api_key s, okx_demo_api_secret s, okx_demo_api_passphrase s]"

section \<open>The safety validator\<close>

definition scope_checks :: "string \<Rightarrow> string list \<Rightarrow> string list \<Rightarrow> (bool \<times> string) list" where
  "scope_checks name symbols permitted =
     [(symbols = [], name @ '' must contain at least one instrument''),
      (length permitted < length symbols, name @ '' contains too many instruments''),
      (\<not> distinct symbols, name @ '' cannot contain duplicate instruments''),
      (\<not> set symbols \<subseteq> set permitted,
         name @ '' contains instruments outside its reviewed boundary'')]"

definition symbol_checks :: "settings \<Rightarrow> (bool \<times> string) list" where
  "symbol_checks s =
     scope_checks ''OKX_WS_SYMBOLS'' (okx_ws_symbol_list s) reviewed_demo_instrument_ids @
     scope_checks ''PAPER_SCAN_SYMBOLS'' (paper_scan_symbol_list s) reviewed_demo_instrument_ids @
     scope_checks ''OKX_DEMO_ALLOWED_SYMBOLS'' (okx_demo_allowed_symbol_list s)
       reviewed_demo_instrument_ids @
     scope_checks ''OKX_DEMO_SCAN_SYMBOLS'' (okx_demo_scan_symbol_list s)
       reviewed_demo_instrument_ids @
     scope_checks ''OKX_LIVE_ALLOWED_SYMBOLS'' (okx_live_allowed_symbol_list s)
       live_boundary_instrument_ids @
     scope_checks ''OKX_LIVE_SCAN_SYMBOLS'' (okx_live_scan_symbol_list s)
       live_boundary_instrument_ids @
     [(\<not> set (okx_demo_scan_symbol_list s) \<subseteq> set (okx_demo_allowed_symbol_list s),
         ''OKX_DEMO_SCAN_SYMBOLS must be a subset of OKX_DEMO_ALLOWED_SYMBOLS''),
      (\<not> set (okx_live_scan_symbol_list s) \<subseteq> set (okx_live_allowed_symbol_list s),
         ''OKX_LIVE_SCAN_SYMBOLS must be a subset of OKX_LIVE_ALLOWED_SYMBOLS'')]"

definition paper_checks :: "settings \<Rightarrow> (bool \<times> string) list" where
  "paper_checks s = guarded (paper_auto_execution s)
     [(trading_mode s \<noteq> PaperMode, ''PAPER_AUTO_EXECUTION requires TRADING_MODE=paper''),
      (\<not> okx_ws_enabled s, ''PAPER_AUTO_EXECUTION requires OKX_WS_ENABLED=true''),
      (\<not> paper_auto_ticks s, ''PAPER_AUTO_EXECUTION requires PAPER_AUTO_TICKS=true''),
      (\<not> paper_persistence_enabled s,
         ''PAPER_AUTO_EXECUTION requires PAPER_PERSISTENCE_ENABLED=true''),
      (\<not> set (paper_scan_symbol_list s) \<subseteq> set (okx_ws_symbol_list s),
         ''PAPER_SCAN_SYMBOLS must be a subset of OKX_WS_SYMBOLS when Paper automation is enabled'')]"

definition live_checks :: "settings \<Rightarrow> (bool \<times> string) list" where
  "live_checks s =
     (let u = okx_live_rest_base_url s in
      [(url_scheme u \<noteq> ''https'' \<or> url_path u \<notin> {[], ''/''} \<or> url_query u \<noteq> [] \<or>
          url_fragment u \<noteq> [] \<or> url_username u \<noteq> None \<or> url_password u \<noteq> None \<or>
          url_port u \<notin> {None, Some 443},
        ''OKX_LIVE_REST_BASE_URL must be an HTTPS origin without credentials, path, query, or fragment''),
       (url_hostname u \<notin> {''openapi.okx.com'', ''eea.okx.com''},
        ''OKX_LIVE_REST_BASE_URL must use an approved OKX API host'')]) @
     guarded (trading_mode s = LiveMode)
      [(\<not> okx_live_enabled s, ''TRADING_MODE=live requires OKX_LIVE_ENABLED=true''),
       (\<not> okx_live_credentials_configured s, ''TRADING_MODE=live requires OKX Live credentials''),
       (paper_auto_execution s, ''PAPER_AUTO_EXECUTION must be false in live mode''),
       (okx_demo_auto_execution s \<or> okx_demo_allow_order_writes s,
         ''OKX Demo writes and automation must be disabled in live mode'')] @
     guarded (live_trading s)
      [(trading_mode s \<noteq> LiveMode, ''LIVE_TRADING=true requires TRADING_MODE=live''),
       (\<not> okx_live_enabled s \<or> \<not> okx_live_credentials_configured s,
         ''LIVE_TRADING=true requires enabled OKX Live credentials''),
       (\<not> okx_live_allow_order_writes s,
         ''LIVE_TRADING=true requires OKX_LIVE_ALLOW_ORDER_WRITES=true''),
       (environment s \<noteq> Production, ''OKX Live writes require ENVIRONMENT=production''),
       (\<not> api_token_is_safe s,
         ''OKX Live writes require an API token of at least 32 characters''),
       (web_concurrency s \<noteq> 1, ''OKX Live writes require WEB_CONCURRENCY=1'')] @
     guarded (okx_live_allow_order_writes s)
      [(\<not> live_trading s, ''OKX_LIVE_ALLOW_ORDER_WRITES=true requires LIVE_TRADING=true''),
       (\<not> okx_live_require_protection s, ''OKX_LIVE_REQUIRE_PROTECTION must remain true''),
       (\<not> okx_live_require_ip_bound_key s, ''OKX_LIVE_REQUIRE_IP_BOUND_KEY must remain true''),
       (\<not> okx_live_forbid_withdraw_permission s,
         ''OKX_LIVE_FORBID_WITHDRAW_PERMISSION must remain true''),
       (\<not> okx_live_require_flat_start s, ''OKX_LIVE_REQUIRE_FLAT_START must remain true''),
       (\<not> okx_live_auto_disarm s, ''OKX_LIVE_AUTO_DISARM must remain true''),
       (okx_live_max_submissions_per_arm s \<noteq> 1,
         ''OKX_LIVE_MAX_SUBMISSIONS_PER_ARM must equal 1''),
       (okx_live_max_open_positions s \<noteq> 1, ''OKX_LIVE_MAX_OPEN_POSITIONS must equal 1''),
       (okx_live_recovery_flat_poll_delay_seconds s < 1 / 2,
         ''OKX_LIVE_RECOVERY_FLAT_POLL_DELAY_SECONDS must be at least 0.5 when Live writes are enabled'')] @
     guarded (okx_live_auto_reconcile_on_start s)
      [(trading_mode s \<noteq> LiveMode \<or> \<not> okx_live_enabled s,
         ''OKX_LIVE_AUTO_RECONCILE_ON_START requires enabled live mode''),
       (\<not> okx_live_credentials_configured s,
         ''OKX_LIVE_AUTO_RECONCILE_ON_START requires OKX Live credentials'')] @
     guarded (okx_live_auto_execution s)
      [(\<not> okx_live_allow_order_writes s \<or> \<not> live_trading s,
         ''OKX_LIVE_AUTO_EXECUTION requires explicitly enabled live writes''),
       (\<not> okx_ws_enabled s, ''OKX_LIVE_AUTO_EXECUTION requires OKX_WS_ENABLED=true''),
       (okx_live_max_leverage s < okx_live_automation_leverage s,
         ''OKX_LIVE_AUTOMATION_LEVERAGE cannot exceed OKX_LIVE_MAX_LEVERAGE'')]"

definition demo_checks :: "settings \<Rightarrow> (bool \<times> string) list" where
  "demo_checks s =
     (let u = okx_demo_rest_base_url s in
      [(url_scheme u \<noteq> ''https'' \<or> url_path u \<notin> {[], ''/''} \<or> url_query u \<noteq> [] \<or>
          url_fragment u \<noteq> [],
        ''OKX_DEMO_REST_BASE_URL must be an HTTPS origin without a path''),
       (url_hostname u \<notin> {''openapi.okx.com'', ''www.okx.com'', ''us.okx.com''},
        ''OKX_DEMO_REST_BASE_URL must use an approved OKX API host'')]) @
     guarded (okx_demo_allow_order_writes s)
      [(\<not> okx_demo_enabled s, ''OKX_DEMO_ALLOW_ORDER_WRITES requires OKX_DEMO_ENABLED=true''),
       (trading_mode s \<noteq> OkxDemoMode,
         ''OKX_DEMO_ALLOW_ORDER_WRITES requires TRADING_MODE=okx_demo''),
       (\<not> okx_demo_credentials_configured s,
         ''OKX Demo credentials are required before enabling order writes''),
       (paper_auto_execution s,
         ''PAPER_AUTO_EXECUTION must be false when OKX Demo writes are enabled'')] @
     guarded (okx_demo_auto_reconcile_on_start s)
      [(\<not> okx_demo_enabled s \<or> \<not> okx_demo_credentials_configured s,
         ''OKX_DEMO_AUTO_RECONCILE_ON_START requires enabled Demo credentials'')] @
     guarded (okx_demo_auto_execution s)
      [(trading_mode s \<noteq> OkxDemoMode, ''OKX_DEMO_AUTO_EXECUTION requires TRADING_MODE=okx_demo''),
       (\<not> okx_demo_enabled s \<or> \<not> okx_demo_allow_order_writes s,
         ''OKX_DEMO_AUTO_EXECUTION requires enabled Demo order writes''),
       (\<not> okx_demo_credentials_configured s,
         ''OKX Demo credentials are required for Demo automation''),
       (\<not> okx_ws_enabled s, ''OKX_DEMO_AUTO_EXECUTION requires OKX_WS_ENABLED=true''),
       (paper_auto_execution s,
         ''PAPER_AUTO_EXECUTION must be false when Demo automation is enabled''),
       (okx_demo_max_leverage s < okx_demo_automation_leverage s,
         ''OKX_DEMO_AUTOMATION_LEVERAGE cannot exceed OKX_DEMO_MAX_LEVERAGE''),
       (\<not> set (okx_demo_scan_symbol_list s) \<subseteq> set (okx_ws_symbol_list s),
         ''OKX_DEMO_SCAN_SYMBOLS must be a subset of OKX_WS_SYMBOLS when Demo automation is enabled'')]"

definition score_risk_checks :: "settings \<Rightarrow> (bool \<times> string) list" where
  "score_risk_checks s =
     guarded (okx_demo_score_risk_enabled s)
      [(\<not> (strategy_min_score s < okx_demo_score_medium_min s \<and>
            okx_demo_score_medium_min s < okx_demo_score_high_min s \<and>
            okx_demo_score_high_min s \<le> 100),
         ''Demo score tiers must satisfy STRATEGY_MIN_SCORE < OKX_DEMO_SCORE_MEDIUM_MIN < OKX_DEMO_SCORE_HIGH_MIN <= 100''),
       (\<not> (okx_demo_score_low_risk_pct s \<le> okx_demo_score_medium_risk_pct s \<and>
            okx_demo_score_medium_risk_pct s \<le> okx_demo_score_high_risk_pct s \<and>
            okx_demo_score_high_risk_pct s \<le> okx_demo_portfolio_max_risk_pct s),
         ''Demo score risk tiers must be nondecreasing and cannot exceed OKX_DEMO_PORTFOLIO_MAX_RISK_PCT''),
       (\<not> (okx_demo_score_low_leverage s \<le> okx_demo_score_medium_leverage s \<and>
            okx_demo_score_medium_leverage s \<le> okx_demo_score_high_leverage s \<and>
            okx_demo_score_high_leverage s \<le> okx_demo_max_leverage s),
         ''Demo score leverage tiers must be nondecreasing and cannot exceed OKX_DEMO_MAX_LEVERAGE''),
       (\<not> (okx_demo_score_low_margin_pct s \<le> okx_demo_score_medium_margin_pct s \<and>
            okx_demo_score_medium_margin_pct s \<le> okx_demo_score_high_margin_pct s \<and>
            okx_demo_score_high_margin_pct s \<le> okx_demo_portfolio_max_margin_pct s),
         ''Demo score margin tiers must be nondecreasing and cannot exceed OKX_DEMO_PORTFOLIO_MAX_MARGIN_PCT''),
       (okx_demo_max_open_positions s < 2,
         ''OKX_DEMO_SCORE_RISK_ENABLED requires OKX_DEMO_MAX_OPEN_POSITIONS >= 2''),
       (\<not> okx_demo_continuous_session_enabled s \<and>
          okx_demo_daily_loss_limit_pct s < okx_demo_portfolio_max_risk_pct s,
         ''OKX_DEMO_PORTFOLIO_MAX_RISK_PCT cannot exceed OKX_DEMO_DAILY_LOSS_LIMIT_PCT'')] @
     [(okx_demo_capital_bucket_enabled s \<and> \<not> okx_demo_score_risk_enabled s,
         ''OKX_DEMO_CAPITAL_BUCKET_ENABLED requires OKX_DEMO_SCORE_RISK_ENABLED=true'')]"

definition structural_risks :: "settings \<Rightarrow> decimal list" where
  "structural_risks s =
     [okx_demo_structural_low_risk_pct s, okx_demo_structural_medium_risk_pct s,
      okx_demo_structural_high_risk_pct s, okx_demo_structural_elite_risk_pct s,
      okx_demo_structural_extreme_risk_pct s]"

definition structural_leverages :: "settings \<Rightarrow> int list" where
  "structural_leverages s =
     [okx_demo_structural_low_leverage_cap s, okx_demo_structural_medium_leverage_cap s,
      okx_demo_structural_high_leverage_cap s, okx_demo_structural_elite_leverage_cap s,
      okx_demo_structural_extreme_leverage_cap s]"

definition structural_checks :: "settings \<Rightarrow> (bool \<times> string) list" where
  "structural_checks s = guarded (okx_demo_structural_dynamic_leverage_enabled s)
     [(\<not> okx_demo_score_risk_enabled s,
         ''OKX_DEMO_STRUCTURAL_DYNAMIC_LEVERAGE_ENABLED requires OKX_DEMO_SCORE_RISK_ENABLED=true''),
      (\<not> okx_demo_capital_bucket_enabled s,
         ''OKX_DEMO_STRUCTURAL_DYNAMIC_LEVERAGE_ENABLED requires OKX_DEMO_CAPITAL_BUCKET_ENABLED=true''),
      (\<not> okx_demo_continuous_session_enabled s,
         ''OKX_DEMO_STRUCTURAL_DYNAMIC_LEVERAGE_ENABLED requires OKX_DEMO_CONTINUOUS_SESSION_ENABLED=true''),
      (\<not> okx_demo_require_protection s,
         ''structural dynamic leverage requires exchange protection''),
      (\<not> (strategy_min_score s < okx_demo_score_medium_min s \<and>
           okx_demo_score_medium_min s < okx_demo_score_high_min s \<and>
           okx_demo_score_high_min s < okx_demo_structural_score_elite_min s \<and>
           okx_demo_structural_score_elite_min s < okx_demo_structural_score_extreme_min s \<and>
           okx_demo_structural_score_extreme_min s \<le> 100),
         ''structural Demo score tiers must be strictly increasing''),
      (strategy_min_score s < 72 \<or> okx_demo_score_medium_min s < 80 \<or>
         okx_demo_score_high_min s < 90 \<or> okx_demo_structural_score_elite_min s < 95 \<or>
         okx_demo_structural_score_extreme_min s < 98,
         ''structural Demo score thresholds cannot be relaxed''),
      (sort (structural_risks s) \<noteq> structural_risks s,
         ''structural Demo risk tiers must be nondecreasing''),
      (list_ex (\<lambda>(configured, ceiling). ceiling < configured)
         (zip (structural_risks s) [15 / 1000, 25 / 1000, 3 / 100, 4 / 100, 6 / 100]),
         ''structural Demo risk ceilings cannot be increased''),
      (okx_demo_portfolio_max_risk_pct s < last (structural_risks s),
         ''structural extreme risk cannot exceed portfolio stop-risk limit''),
      (max_weekly_loss_pct s < last (structural_risks s),
         ''structural extreme risk cannot exceed the weekly-loss backstop''),
      (sort (structural_leverages s) \<noteq> structural_leverages s,
         ''structural Demo leverage caps must be nondecreasing''),
      (list_ex (\<lambda>(configured, ceiling). ceiling < configured)
         (zip (structural_leverages s) [3, 5, 8, 10, 20]),
         ''structural Demo leverage ceilings cannot be increased''),
      (last (structural_leverages s) \<noteq> 20 \<or> okx_demo_max_leverage s < 20,
         ''structural dynamic leverage requires an explicit 20x Demo ceiling''),
      (dadd (dadd (okx_demo_structural_round_trip_fee_bps s)
           (okx_demo_structural_round_trip_slippage_bps s))
         (okx_demo_structural_funding_buffer_bps s) < 16,
         ''structural Demo cost buffer cannot be below 16 bps''),
      (okx_demo_structural_min_net_risk_reward s < 2,
         ''structural Demo net RR floor cannot be relaxed''),
      (okx_demo_structural_20x_min_confidence s < 65 / 100 \<or>
         okx_demo_structural_20x_min_reliability s < 65 / 100 \<or>
         20 / 100 < okx_demo_structural_20x_max_instability s,
         ''structural Demo 20x quality thresholds cannot be relaxed'')]"

definition session_checks :: "settings \<Rightarrow> (bool \<times> string) list" where
  "session_checks s =
     guarded (okx_demo_continuous_session_enabled s)
      [(\<not> okx_demo_score_risk_enabled s,
         ''OKX_DEMO_CONTINUOUS_SESSION_ENABLED requires OKX_DEMO_SCORE_RISK_ENABLED=true''),
       (\<not> okx_demo_capital_bucket_enabled s,
         ''OKX_DEMO_CONTINUOUS_SESSION_ENABLED requires OKX_DEMO_CAPITAL_BUCKET_ENABLED=true''),
       (\<not> okx_demo_require_protection s,
         ''OKX_DEMO_CONTINUOUS_SESSION_ENABLED requires OKX_DEMO_REQUIRE_PROTECTION=true''),
       (okx_demo_trade_cooldown_seconds s \<noteq> 0,
         ''OKX_DEMO_CONTINUOUS_SESSION_ENABLED requires OKX_DEMO_TRADE_COOLDOWN_SECONDS=0'')] @
     [(okx_demo_soak_max_duration_minutes s < okx_demo_soak_default_duration_minutes s,
         ''OKX_DEMO_SOAK_DEFAULT_DURATION_MINUTES cannot exceed OKX_DEMO_SOAK_MAX_DURATION_MINUTES''),
      (okx_demo_max_trades_per_day s < okx_demo_execution_soak_max_submissions s,
         ''OKX_DEMO_EXECUTION_SOAK_MAX_SUBMISSIONS cannot exceed OKX_DEMO_MAX_TRADES_PER_DAY''),
      (okx_demo_daily_loss_limit_pct s < okx_demo_execution_soak_loss_limit_pct s,
         ''OKX_DEMO_EXECUTION_SOAK_LOSS_LIMIT_PCT cannot exceed OKX_DEMO_DAILY_LOSS_LIMIT_PCT''),
      (okx_demo_performance_snapshot_retention_days s < okx_demo_performance_window_days s,
         ''OKX_DEMO_PERFORMANCE_WINDOW_DAYS cannot exceed OKX_DEMO_PERFORMANCE_SNAPSHOT_RETENTION_DAYS''),
      (okx_demo_performance_window_days s < okx_demo_performance_min_active_days s,
         ''OKX_DEMO_PERFORMANCE_MIN_ACTIVE_DAYS cannot exceed OKX_DEMO_PERFORMANCE_WINDOW_DAYS''),
      (okx_demo_strategy_auto_disable s,
         ''OKX_DEMO_STRATEGY_AUTO_DISABLE must remain false; strategy controls are operator-only'')] @
     guarded (okx_demo_soak_allow_execute s)
      [(\<not> okx_demo_soak_enabled s, ''OKX_DEMO_SOAK_ALLOW_EXECUTE requires OKX_DEMO_SOAK_ENABLED=true''),
       (\<not> okx_demo_auto_execution s,
         ''OKX_DEMO_SOAK_ALLOW_EXECUTE requires OKX_DEMO_AUTO_EXECUTION=true''),
       (okx_demo_soak_interval_seconds s < 60,
         ''OKX_DEMO_SOAK_INTERVAL_SECONDS must be at least 60 when execute soak is allowed''),
       (\<not> okx_demo_execution_soak_require_flat_start s,
         ''OKX_DEMO_EXECUTION_SOAK_REQUIRE_FLAT_START must remain true when execute soak is allowed''),
       (\<not> okx_demo_execution_soak_require_protection s,
         ''OKX_DEMO_EXECUTION_SOAK_REQUIRE_PROTECTION must remain true when execute soak is allowed''),
       (\<not> okx_demo_execution_soak_auto_disarm s,
         ''OKX_DEMO_EXECUTION_SOAK_AUTO_DISARM must remain true when execute soak is allowed'')]"

definition enforce_v168_safety :: "settings \<Rightarrow> settings result" where
  "enforce_v168_safety s =
     bind_result
       (raise_first
         ((auto_trade s, ''AUTO_TRADE is a legacy unsafe switch and must remain false'') #
          symbol_checks s @ paper_checks s @ live_checks s @ demo_checks s @
          score_risk_checks s @ structural_checks s @ session_checks s))
       (\<lambda>_. Inr s)"

text \<open>The declared ranges of the numeric fields (\<open>Field(ge=..., le=...)\<close>).\<close>

definition ranges_ok :: "settings \<Rightarrow> bool" where
  "ranges_ok s \<longleftrightarrow>
     1 \<le> web_concurrency s \<and> web_concurrency s \<le> 8 \<and>
     0 \<le> strategy_min_score s \<and> strategy_min_score s \<le> 100 \<and>
     0 < strategy_min_risk_reward s \<and> strategy_min_risk_reward s \<le> 10 \<and>
     0 < risk_per_trade_pct s \<and> risk_per_trade_pct s \<le> 5 / 100 \<and>
     0 < max_weekly_loss_pct s \<and> max_weekly_loss_pct s \<le> 50 / 100 \<and>
     0 < max_drawdown_pct s \<and> max_drawdown_pct s \<le> 80 / 100 \<and>
     0 < okx_live_max_order_size_contracts s \<and> okx_live_max_order_size_contracts s \<le> 10 \<and>
     0 < okx_live_max_notional_usdt s \<and> okx_live_max_notional_usdt s \<le> 10000 \<and>
     1 \<le> okx_live_max_leverage s \<and> okx_live_max_leverage s \<le> 3 \<and>
     1 \<le> okx_live_order_detail_poll_attempts s \<and> okx_live_order_detail_poll_attempts s \<le> 10 \<and>
     2 \<le> okx_live_recovery_flat_poll_attempts s \<and> okx_live_recovery_flat_poll_attempts s \<le> 10 \<and>
     60 \<le> okx_live_arm_ttl_seconds s \<and> okx_live_arm_ttl_seconds s \<le> 900 \<and>
     okx_live_max_submissions_per_arm s = 1 \<and>
     0 < okx_live_session_loss_limit_pct s \<and> okx_live_session_loss_limit_pct s \<le> 1 / 100 \<and>
     60 \<le> okx_live_scan_interval_seconds s \<and> okx_live_scan_interval_seconds s \<le> 86400 \<and>
     0 \<le> okx_live_scan_initial_delay_seconds s \<and> okx_live_scan_initial_delay_seconds s \<le> 600 \<and>
     5 \<le> okx_live_scan_max_snapshot_age_seconds s \<and> okx_live_scan_max_snapshot_age_seconds s \<le> 300 \<and>
     1 \<le> okx_live_scan_max_entry_drift_bps s \<and> okx_live_scan_max_entry_drift_bps s \<le> 100 \<and>
     1 \<le> okx_live_automation_leverage s \<and> okx_live_automation_leverage s \<le> 3 \<and>
     0 \<le> okx_demo_execution_max_adverse_slippage_bps s \<and>
     okx_demo_execution_max_adverse_slippage_bps s \<le> 50 \<and>
     1 \<le> okx_demo_score_medium_min s \<and> okx_demo_score_medium_min s \<le> 99 \<and>
     2 \<le> okx_demo_score_high_min s \<and> okx_demo_score_high_min s \<le> 100 \<and>
     0 < okx_demo_score_low_risk_pct s \<and> 0 < okx_demo_score_medium_risk_pct s \<and>
     0 < okx_demo_score_high_risk_pct s \<and> okx_demo_score_high_risk_pct s \<le> 2 / 100 \<and>
     1 \<le> okx_demo_score_low_leverage s \<and> 1 \<le> okx_demo_score_medium_leverage s \<and>
     1 \<le> okx_demo_score_high_leverage s \<and> okx_demo_score_high_leverage s \<le> 5 \<and>
     0 < okx_demo_score_low_margin_pct s \<and> okx_demo_score_low_margin_pct s \<le> 50 / 100 \<and>
     0 < okx_demo_score_medium_margin_pct s \<and> okx_demo_score_medium_margin_pct s \<le> 50 / 100 \<and>
     0 < okx_demo_score_high_margin_pct s \<and> okx_demo_score_high_margin_pct s \<le> 50 / 100 \<and>
     0 < okx_demo_position_margin_bucket_usdt s \<and>
     3 \<le> okx_demo_structural_score_elite_min s \<and> okx_demo_structural_score_elite_min s \<le> 99 \<and>
     4 \<le> okx_demo_structural_score_extreme_min s \<and>
     okx_demo_structural_score_extreme_min s \<le> 100 \<and>
     list_all (\<lambda>r. 0 < r \<and> r \<le> 10 / 100) (structural_risks s) \<and>
     list_all (\<lambda>l. 1 \<le> l \<and> l \<le> 20) (structural_leverages s) \<and>
     0 \<le> okx_demo_structural_round_trip_fee_bps s \<and>
     okx_demo_structural_round_trip_fee_bps s \<le> 100 \<and>
     0 \<le> okx_demo_structural_round_trip_slippage_bps s \<and>
     okx_demo_structural_round_trip_slippage_bps s \<le> 100 \<and>
     0 \<le> okx_demo_structural_funding_buffer_bps s \<and>
     okx_demo_structural_funding_buffer_bps s \<le> 100 \<and>
     0 < okx_demo_structural_min_net_risk_reward s \<and>
     okx_demo_structural_min_net_risk_reward s \<le> 10"

section \<open>What accepted settings guarantee\<close>

definition accepted :: "settings \<Rightarrow> bool" where
  "accepted s \<longleftrightarrow> enforce_v168_safety s = Inr s"

lemma enforce_v168_safety_Inr: "enforce_v168_safety s = Inr t \<longleftrightarrow> t = s \<and> accepted s"
  by (auto simp: accepted_def enforce_v168_safety_def result_simps)

lemma acceptedD:
  assumes "accepted s"
  shows "\<not> auto_trade s"
    "\<forall>(b, m) \<in> set (symbol_checks s). \<not> b" "\<forall>(b, m) \<in> set (paper_checks s). \<not> b"
    "\<forall>(b, m) \<in> set (live_checks s). \<not> b" "\<forall>(b, m) \<in> set (demo_checks s). \<not> b"
    "\<forall>(b, m) \<in> set (score_risk_checks s). \<not> b" "\<forall>(b, m) \<in> set (structural_checks s). \<not> b"
    "\<forall>(b, m) \<in> set (session_checks s). \<not> b"
  using assms unfolding accepted_def enforce_v168_safety_def result_simps by auto

text \<open>Live order writes imply the complete Live boundary.\<close>

definition live_boundary :: "settings \<Rightarrow> bool" where
  "live_boundary s \<longleftrightarrow>
     live_trading s \<and> okx_live_enabled s \<and> okx_live_credentials_configured s \<and>
     trading_mode s = LiveMode \<and> environment s = Production \<and> api_token_is_safe s \<and>
     web_concurrency s = 1 \<and> okx_live_require_protection s \<and> okx_live_require_ip_bound_key s \<and>
     okx_live_forbid_withdraw_permission s \<and> okx_live_require_flat_start s \<and>
     okx_live_auto_disarm s \<and> okx_live_max_submissions_per_arm s = 1 \<and>
     okx_live_max_open_positions s = 1 \<and> \<not> paper_auto_execution s \<and>
     \<not> okx_demo_auto_execution s \<and> \<not> okx_demo_allow_order_writes s \<and> \<not> auto_trade s"

lemma accepted_live_boundary:
  "accepted s \<Longrightarrow> okx_live_allow_order_writes s \<Longrightarrow> live_boundary s"
  using acceptedD(1,4) [of s] by (simp add: live_checks_def live_boundary_def)

lemma accepted_scopes:
  assumes "accepted s"
  shows "set (okx_live_allowed_symbol_list s) \<subseteq> set live_boundary_instrument_ids"
    and "set (okx_live_scan_symbol_list s) \<subseteq> set (okx_live_allowed_symbol_list s)"
    and "okx_live_allowed_symbol_list s \<noteq> []" and "distinct (okx_live_allowed_symbol_list s)"
  using acceptedD(2) [OF assms] by (simp_all add: symbol_checks_def scope_checks_def)

end
