(* ===== verification/Live_Domain.thy ===== *)
theory Live_Domain
  imports Py_Decimal Strategy_Domain Settings
begin

text \<open>
  The models of \<^verbatim>\<open>app/domain/okx_live.py\<close>: what the exchange reports (account configuration,
  balance, positions, orders, algo orders), the durable execution intents, the requests of
  the operator with their validators and confirmation phrases, and the summaries from
  which identifiers are removed. Fields that the source leaves as \<open>str\<close> are strings here;
  the raw exchange payloads and the timestamps of exchange rows that no decision reads are
  left out. \<open>instrument_info\<close> is \<open>InstrumentInfo\<close> of \<^verbatim>\<open>app/domain/market.py\<close>.

  Lemmas: what a validated request guarantees, and that the identifier of the attached
  protection is injective in the client order identifier and fits the exchange's limit.
\<close>

section \<open>What the exchange reports\<close>

record api_key_capability =
  cap_permissions :: "string list"
  cap_unknown_permissions :: "string list"
  cap_read_permission :: bool
  cap_trade_permission :: bool
  cap_withdraw_permission :: bool
  cap_ip_bound :: bool

record account_config =
  acc_uid :: "string option"
  acc_main_uid :: "string option"
  acc_is_sub_account :: "bool option"
  acc_account_level :: "string option"
  acc_position_mode :: string
  acc_account_stp_mode :: "string option"
  acc_account_type :: "string option"
  acc_capability :: api_key_capability

record balance_snapshot =
  bal_total_equity :: decimal
  bal_isolated_equity :: decimal
  bal_adjusted_equity :: decimal
  bal_available_equity :: decimal
  bal_captured_at :: timestamp

record live_position =
  lp_position_id :: string
  lp_instrument_id :: string
  lp_position_side :: string
  lp_size :: decimal
  lp_available_size :: decimal
  lp_average_price :: "decimal option"
  lp_mark_price :: "decimal option"
  lp_unrealized_pnl :: decimal
  lp_leverage :: "decimal option"
  lp_margin_mode :: "string option"
  lp_liquidation_price :: "decimal option"

record live_order =
  lo_order_id :: string
  lo_client_order_id :: "string option"
  lo_instrument_id :: string
  lo_side :: string
  lo_position_side :: "string option"
  lo_order_type :: string
  lo_state :: string
  lo_size :: decimal
  lo_accumulated_fill_size :: decimal
  lo_price :: "decimal option"
  lo_average_fill_price :: "decimal option"
  lo_reduce_only :: bool
  lo_attached_algo_orders :: nat

record live_algo_order =
  la_algo_order_id :: string
  la_client_algo_order_id :: "string option"
  la_instrument_type :: "string option"
  la_instrument_id :: string
  la_order_type :: string
  la_state :: string
  la_side :: "string option"
  la_position_side :: "string option"
  la_margin_mode :: "string option"
  la_reduce_only :: "bool option"
  la_close_fraction :: "decimal option"
  la_size :: decimal
  la_actual_size :: decimal
  la_take_profit_trigger_price :: "decimal option"
  la_take_profit_trigger_price_type :: "string option"
  la_take_profit_order_price :: "decimal option"
  la_stop_loss_trigger_price :: "decimal option"
  la_stop_loss_trigger_price_type :: "string option"
  la_stop_loss_order_price :: "decimal option"
  la_amend_price_on_trigger_type :: "string option"
  la_failure_code :: "string option"
  la_trigger_time :: "timestamp option"

record reconcile_result =
  rr_account_config :: account_config
  rr_balance :: balance_snapshot
  rr_positions :: "live_position list"
  rr_pending_orders :: "live_order list"
  rr_recent_orders :: "live_order list"
  rr_pending_algo_orders :: "live_algo_order list"
  rr_persisted :: bool
  rr_reconciled_at :: timestamp

record instrument_info =
  in_symbol :: string
  in_instrument_id :: string
  in_instrument_type :: string
  in_state :: string
  in_tick_size :: decimal
  in_lot_size :: decimal
  in_minimum_size :: decimal
  in_contract_value :: "decimal option"
  in_contract_currency :: "string option"

section \<open>Execution intents\<close>

datatype intent_action = PlaceOrder | CancelOrder | ClosePosition | SetLeverage

datatype intent_status = Reserved | Acknowledged | Confirmed | Ambiguous | Rejected

fun status_text :: "intent_status \<Rightarrow> string" where
  "status_text Reserved = ''reserved''"
| "status_text Acknowledged = ''acknowledged''"
| "status_text Confirmed = ''confirmed''"
| "status_text Ambiguous = ''ambiguous''"
| "status_text Rejected = ''rejected''"

record intent =
  it_idempotency_key :: string
  it_request_hash :: string
  it_action :: intent_action
  it_status :: intent_status
  it_instrument_id :: string
  it_client_order_id :: "string option"
  it_exchange_order_id :: "string option"
  it_protection_client_order_id :: "string option"
  it_expected_protection_size :: "decimal option"
  it_expected_stop_loss :: "decimal option"
  it_expected_take_profit :: "decimal option"
  it_expected_trigger_price_type :: "string option"
  it_detail_codes :: "string list"
  it_operator_reconciled_at :: "timestamp option"
  it_operator_resolution_code :: "string option"
  it_created_at :: timestamp
  it_updated_at :: timestamp

section \<open>Status views\<close>

record safety_latch_state =
  sl_latched :: bool
  sl_code :: "string option"
  sl_version :: nat
  sl_latched_at :: "timestamp option"

record mirror_status_view =
  ms_available :: bool
  ms_order_count :: nat
  ms_position_count :: nat
  ms_algo_order_count :: nat
  ms_last_reconciled_at :: "timestamp option"
  ms_last_error :: "string option"
  ms_safety_latched :: bool
  ms_safety_latch_code :: "string option"
  ms_safety_latch_version :: nat

record arm_status_view =
  as_armed :: bool
  as_emergency_stop :: bool
  as_expires_at :: "timestamp option"
  as_baseline_equity :: "decimal option"
  as_submissions :: int
  as_max_submissions :: int
  as_automation_running :: bool
  as_unresolved_intent_count :: nat
  as_safety_latch_code :: "string option"
  as_safety_latch_version :: nat
  as_last_error :: "string option"

record live_status =
  st_enabled :: bool
  st_trading_mode :: trading_mode_name
  st_credentials_configured :: bool
  st_read_ready :: bool
  st_live_trading_enabled :: bool
  st_writes_enabled :: bool
  st_automation_enabled :: bool
  st_allowed_symbols :: "string list"
  st_max_order_size_contracts :: decimal
  st_max_notional_usdt :: decimal
  st_max_open_positions :: int
  st_max_leverage :: int
  st_capability :: "api_key_capability option"
  st_mirror :: mirror_status_view
  st_last_exchange_ok_at :: "timestamp option"
  st_last_error :: "string option"
  st_blockers :: "string list"
  st_arm :: arm_status_view

section \<open>Summaries\<close>

record account_summary_view =
  asv_is_sub_account :: "bool option"
  asv_account_level :: "string option"
  asv_position_mode :: string
  asv_account_stp_mode :: "string option"
  asv_account_type :: "string option"
  asv_capability :: api_key_capability

record order_summary_view =
  osv_order_id :: string
  osv_client_order_id :: "string option"
  osv_instrument_id :: string
  osv_side :: string
  osv_position_side :: "string option"
  osv_order_type :: string
  osv_state :: string
  osv_size :: decimal
  osv_accumulated_fill_size :: decimal
  osv_price :: "decimal option"
  osv_average_fill_price :: "decimal option"
  osv_reduce_only :: bool
  osv_protection_count :: nat

record reconcile_summary_view =
  rsv_total_equity :: decimal
  rsv_position_count :: nat
  rsv_pending_order_count :: nat
  rsv_recent_order_count :: nat
  rsv_pending_algo_order_count :: nat
  rsv_persisted :: bool
  rsv_capability :: api_key_capability
  rsv_reconciled_at :: timestamp

record acknowledgement =
  ack_order_id :: string
  ack_client_order_id :: "string option"
  ack_exchange_code :: string

record write_result =
  wr_action :: intent_action
  wr_accepted :: bool
  wr_final_state_confirmed :: bool
  wr_acknowledgement :: "acknowledgement option"
  wr_order :: "order_summary_view option"
  wr_reconciled :: bool
  wr_warnings :: "string list"

section \<open>Requests\<close>

definition LIVE_ARM_PHRASE :: string where
  "LIVE_ARM_PHRASE = ''ARM_OKX_LIVE_REAL_MONEY''"

definition LIVE_CLEAR_STOP_PHRASE :: string where
  "LIVE_CLEAR_STOP_PHRASE = ''CLEAR_OKX_LIVE_STOP''"

definition LIVE_UNRESOLVED_CLEAR_PHRASE :: string where
  "LIVE_UNRESOLVED_CLEAR_PHRASE = ''RECONCILE_OKX_LIVE_UNRESOLVED_INTENTS''"

definition LIVE_ORDER_PHRASE :: string where
  "LIVE_ORDER_PHRASE = ''EXECUTE_OKX_LIVE_REAL_MONEY''"

definition LIVE_CANCEL_PHRASE :: string where
  "LIVE_CANCEL_PHRASE = ''CANCEL_OKX_LIVE_REAL_ORDER''"

definition LIVE_CLOSE_PHRASE :: string where
  "LIVE_CLOSE_PHRASE = ''CLOSE_OKX_LIVE_REAL_POSITION''"

definition LIVE_LEVERAGE_PHRASE :: string where
  "LIVE_LEVERAGE_PHRASE = ''SET_OKX_LIVE_REAL_LEVERAGE''"

definition LIVE_AUTOMATION_EXECUTE_PHRASE :: string where
  "LIVE_AUTOMATION_EXECUTE_PHRASE = ''EXECUTE_OKX_LIVE_AUTOMATION''"

definition upper_alnum :: "char \<Rightarrow> bool" where
  "upper_alnum c = (let n = (of_char c :: nat) in (65 \<le> n \<and> n \<le> 90) \<or> (48 \<le> n \<and> n \<le> 57))"

definition alnum :: "char \<Rightarrow> bool" where
  "alnum c = (let n = (of_char c :: nat) in upper_alnum c \<or> (97 \<le> n \<and> n \<le> 122))"

text \<open>The pattern \<^verbatim>\<open>^[A-Z0-9]+-[A-Z0-9]+-SWAP$\<close> with at most 40 characters.\<close>

definition swap_instrument_id :: "string \<Rightarrow> bool" where
  "swap_instrument_id s \<longleftrightarrow> length s \<le> 40 \<and>
     (case split_dash 2 s of
        [a, b, c] \<Rightarrow> a \<noteq> [] \<and> b \<noteq> [] \<and> list_all upper_alnum a \<and> list_all upper_alnum b \<and> c = ''SWAP''
      | _ \<Rightarrow> False)"

text \<open>The pattern \<^verbatim>\<open>^<prefix>[A-Za-z0-9]{6,27}$\<close>, for a prefix of five characters.\<close>

definition prefixed_id :: "string \<Rightarrow> string \<Rightarrow> bool" where
  "prefixed_id prefix s \<longleftrightarrow> startswith s prefix \<and> 6 \<le> length (drop 5 s) \<and> length (drop 5 s) \<le> 27 \<and>
     list_all alnum (drop 5 s)"

record arm_request =
  aq_duration_seconds :: int
  aq_confirmation :: string

definition validate_arm_request :: "arm_request \<Rightarrow> arm_request result" where
  "validate_arm_request r =
     (if in_range 60 900 (aq_duration_seconds r) \<and> aq_confirmation r = LIVE_ARM_PHRASE then Inr r
      else Inl field_constraint)"

record intent_expectation =
  ie_idempotency_key :: string
  ie_status :: intent_status
  ie_updated_at :: timestamp

record clear_stop_request =
  cq_confirmation :: string
  cq_expected_unresolved_intents :: "intent_expectation list"
  cq_unresolved_confirmation :: "string option"

definition expectation_fields_ok :: "intent_expectation \<Rightarrow> bool" where
  "expectation_fields_ok e \<longleftrightarrow>
     (prefixed_id ''CTCCX'' (ie_idempotency_key e) \<or> prefixed_id ''CTCCL'' (ie_idempotency_key e)) \<and>
     ie_status e \<in> {Reserved, Acknowledged, Ambiguous}"

definition validate_unresolved_confirmation :: "clear_stop_request \<Rightarrow> clear_stop_request result" where
  "validate_unresolved_confirmation r =
     (if \<not> (cq_confirmation r = LIVE_CLEAR_STOP_PHRASE \<and>
             list_all expectation_fields_ok (cq_expected_unresolved_intents r) \<and>
             length (cq_expected_unresolved_intents r) \<le> 100 \<and>
             cq_unresolved_confirmation r \<in> {None, Some LIVE_UNRESOLVED_CLEAR_PHRASE})
        then Inl field_constraint
      else if \<not> distinct (map ie_idempotency_key (cq_expected_unresolved_intents r))
        then Inl (ValueError ''duplicate unresolved intent expectation'')
      else if cq_expected_unresolved_intents r \<noteq> [] \<and> cq_unresolved_confirmation r = None
        then Inl (ValueError ''unresolved intent confirmation is required'')
      else if cq_expected_unresolved_intents r = [] \<and> truthy (cq_unresolved_confirmation r)
        then Inl (ValueError ''unresolved intent confirmation requires expectations'')
      else Inr r)"

record live_order_request =
  oq_instrument_id :: string
  oq_direction :: direction
  oq_size :: decimal
  oq_margin_mode :: string
  oq_leverage :: int
  oq_stop_loss :: decimal
  oq_take_profit :: decimal
  oq_trigger_price_type :: string
  oq_client_order_id :: string
  oq_confirmation :: string

abbreviation margin_mode_ok :: "string \<Rightarrow> bool" where
  "margin_mode_ok m \<equiv> m = ''cross'' \<or> m = ''isolated''"

definition order_fields_ok :: "live_order_request \<Rightarrow> bool" where
  "order_fields_ok r \<longleftrightarrow>
     swap_instrument_id (oq_instrument_id r) \<and> 0 < oq_size r \<and> margin_mode_ok (oq_margin_mode r) \<and>
     in_range 1 3 (oq_leverage r) \<and> 0 < oq_stop_loss r \<and> 0 < oq_take_profit r \<and>
     oq_trigger_price_type r = ''mark'' \<and> prefixed_id ''CTCCL'' (oq_client_order_id r) \<and>
     oq_confirmation r = LIVE_ORDER_PHRASE"

definition validate_protection :: "live_order_request \<Rightarrow> live_order_request result" where
  "validate_protection r =
     (if \<not> order_fields_ok r then Inl field_constraint
      else if oq_direction r = Long \<and> \<not> oq_stop_loss r < oq_take_profit r
        then Inl (ValueError ''long protection prices are inverted'')
      else if oq_direction r = Short \<and> \<not> oq_take_profit r < oq_stop_loss r
        then Inl (ValueError ''short protection prices are inverted'')
      else Inr r)"

record live_cancel_request =
  xq_instrument_id :: string
  xq_order_id :: "string option"
  xq_client_order_id :: "string option"
  xq_idempotency_key :: string
  xq_confirmation :: string

definition cancel_fields_ok :: "live_cancel_request \<Rightarrow> bool" where
  "cancel_fields_ok r \<longleftrightarrow>
     swap_instrument_id (xq_instrument_id r) \<and>
     (case xq_order_id r of None \<Rightarrow> True | Some i \<Rightarrow> 1 \<le> length i \<and> length i \<le> 100) \<and>
     (case xq_client_order_id r of None \<Rightarrow> True | Some i \<Rightarrow> 1 \<le> length i \<and> length i \<le> 32) \<and>
     prefixed_id ''CTCCX'' (xq_idempotency_key r) \<and> xq_confirmation r = LIVE_CANCEL_PHRASE"

definition validate_identifier :: "live_cancel_request \<Rightarrow> live_cancel_request result" where
  "validate_identifier r =
     (if \<not> cancel_fields_ok r then Inl field_constraint
      else if truthy (xq_order_id r) = truthy (xq_client_order_id r)
        then Inl (ValueError ''provide exactly one of order_id or client_order_id'')
      else Inr r)"

record live_close_request =
  zq_instrument_id :: string
  zq_direction :: "direction option"
  zq_margin_mode :: string
  zq_idempotency_key :: string
  zq_confirmation :: string

definition validate_close_request :: "live_close_request \<Rightarrow> live_close_request result" where
  "validate_close_request r =
     (if swap_instrument_id (zq_instrument_id r) \<and> margin_mode_ok (zq_margin_mode r) \<and>
         prefixed_id ''CTCCX'' (zq_idempotency_key r) \<and> zq_confirmation r = LIVE_CLOSE_PHRASE
      then Inr r else Inl field_constraint)"

record live_leverage_request =
  vq_instrument_id :: string
  vq_leverage :: int
  vq_margin_mode :: string
  vq_direction :: "direction option"
  vq_idempotency_key :: string
  vq_confirmation :: string

definition validate_leverage_request :: "live_leverage_request \<Rightarrow> live_leverage_request result" where
  "validate_leverage_request r =
     (if swap_instrument_id (vq_instrument_id r) \<and> in_range 1 3 (vq_leverage r) \<and>
         margin_mode_ok (vq_margin_mode r) \<and> prefixed_id ''CTCCX'' (vq_idempotency_key r) \<and>
         vq_confirmation r = LIVE_LEVERAGE_PHRASE
      then Inr r else Inl field_constraint)"

text \<open>The request whose hash identifies an intent, the confirmation phrase left out.\<close>

datatype live_request =
    OrderRequest live_order_request
  | CancelRequest live_cancel_request
  | CloseRequest live_close_request
  | LeverageRequest live_leverage_request

fun without_confirmation :: "live_request \<Rightarrow> live_request" where
  "without_confirmation (OrderRequest r) = OrderRequest (r\<lparr>oq_confirmation := []\<rparr>)"
| "without_confirmation (CancelRequest r) = CancelRequest (r\<lparr>xq_confirmation := []\<rparr>)"
| "without_confirmation (CloseRequest r) = CloseRequest (r\<lparr>zq_confirmation := []\<rparr>)"
| "without_confirmation (LeverageRequest r) = LeverageRequest (r\<lparr>vq_confirmation := []\<rparr>)"

section \<open>The identifier of the attached protection\<close>

definition protection_client_order_id :: "string \<Rightarrow> string result" where
  "protection_client_order_id client_order_id =
     (if \<not> startswith client_order_id ''CTCCL''
        then Inl (OkxLiveSafetyError ''okx_live_client_order_id_prefix_invalid'')
      else Inr (take 32 (''CTCCA'' @ drop 5 client_order_id)))"

lemma validate_protection_Inr [result_simps]:
  "validate_protection r = Inr r' \<longleftrightarrow> r' = r \<and> order_fields_ok r \<and>
     (case oq_direction r of Long \<Rightarrow> oq_stop_loss r < oq_take_profit r
      | Short \<Rightarrow> oq_take_profit r < oq_stop_loss r)"
  by (cases "oq_direction r") (auto simp: validate_protection_def)

lemma prefixed_id_take: "prefixed_id p s \<Longrightarrow> length p = 5 \<Longrightarrow> s = p @ drop 5 s"
  unfolding prefixed_id_def startswith_def by (metis append_take_drop_id)

lemma protection_id_valid:
  assumes "prefixed_id ''CTCCL'' c"
  shows "protection_client_order_id c = Inr (''CTCCA'' @ drop 5 c)"
    and "length (''CTCCA'' @ drop 5 c) \<le> 32"
  using assms by (auto simp: protection_client_order_id_def prefixed_id_def)

lemma protection_id_inj:
  assumes "prefixed_id ''CTCCL'' c" "prefixed_id ''CTCCL'' d"
    "protection_client_order_id c = protection_client_order_id d"
  shows "c = d"
  using assms prefixed_id_take [OF assms(1)] prefixed_id_take [OF assms(2)]
  by (simp add: protection_id_valid)

section \<open>Summaries drop the identifiers\<close>

definition account_summary :: "account_config \<Rightarrow> account_summary_view" where
  "account_summary v =
     \<lparr>asv_is_sub_account = acc_is_sub_account v, asv_account_level = acc_account_level v,
      asv_position_mode = acc_position_mode v, asv_account_stp_mode = acc_account_stp_mode v,
      asv_account_type = acc_account_type v, asv_capability = acc_capability v\<rparr>"

definition order_summary :: "live_order \<Rightarrow> order_summary_view" where
  "order_summary v =
     \<lparr>osv_order_id = lo_order_id v, osv_client_order_id = lo_client_order_id v,
      osv_instrument_id = lo_instrument_id v, osv_side = lo_side v,
      osv_position_side = lo_position_side v, osv_order_type = lo_order_type v,
      osv_state = lo_state v, osv_size = lo_size v,
      osv_accumulated_fill_size = lo_accumulated_fill_size v, osv_price = lo_price v,
      osv_average_fill_price = lo_average_fill_price v, osv_reduce_only = lo_reduce_only v,
      osv_protection_count = lo_attached_algo_orders v\<rparr>"

definition reconcile_summary :: "reconcile_result \<Rightarrow> reconcile_summary_view" where
  "reconcile_summary v =
     \<lparr>rsv_total_equity = bal_total_equity (rr_balance v),
      rsv_position_count = length (filter (\<lambda>p. lp_size p \<noteq> 0) (rr_positions v)),
      rsv_pending_order_count = length (rr_pending_orders v),
      rsv_recent_order_count = length (rr_recent_orders v),
      rsv_pending_algo_order_count = length (rr_pending_algo_orders v),
      rsv_persisted = rr_persisted v, rsv_capability = acc_capability (rr_account_config v),
      rsv_reconciled_at = rr_reconciled_at v\<rparr>"

text \<open>Two accounts that differ only in their identifiers have the same summary.\<close>

lemma account_summary_hides_identity:
  "account_summary (v\<lparr>acc_uid := u, acc_main_uid := m\<rparr>) = account_summary v"
  by (simp add: account_summary_def)

end
