(* ===== verification/Live_Intents.thy ===== *)
theory Live_Intents
  imports Live_Domain "HOL-Library.Product_Lexorder"
begin

text \<open>
  The durable execution intents (\<^verbatim>\<open>app/database/repositories/okx_live_execution.py\<close>): the table
  is a list of rows and each repository method one transaction, which either commits a new
  table with its result or raises and leaves the table as it was. The constraints of
  \<^verbatim>\<open>app/database/models/okx_live.py\<close> the code relies on are part of the transactions: the
  primary key, the unique protection identifier, the columns \<open>Numeric(28, 10)\<close> and the
  statuses in which a resolved row may be.

  Lemmas: \<open>intents_ok\<close> is an invariant; \<open>table_le\<close>, the preorder in which rows are only
  added and evolve along \<open>_TRANSITIONS\<close>, contains every transaction; a reservation
  succeeds for a fresh key only; marking resolves all unresolved rows or none.
\<close>

type_synonym intent_table = "intent list"
type_synonym 'a txn = "intent_table \<Rightarrow> ('a \<times> intent_table) result"

section \<open>Rows\<close>

definition lookup_intent :: "intent_table \<Rightarrow> string \<Rightarrow> intent option" where
  "lookup_intent t k = find (\<lambda>r. it_idempotency_key r = k) t"

definition store_intent :: "intent_table \<Rightarrow> intent \<Rightarrow> intent_table" where
  "store_intent t r = map (\<lambda>x. if it_idempotency_key x = it_idempotency_key r then r else x) t"

fun transitions :: "intent_status \<Rightarrow> intent_status list" where
  "transitions Reserved = [Acknowledged, Ambiguous, Rejected]"
| "transitions Acknowledged = [Confirmed, Ambiguous]"
| "transitions Confirmed = []"
| "transitions Ambiguous = []"
| "transitions Rejected = []"

definition unresolved_status :: "intent_status \<Rightarrow> bool" where
  "unresolved_status s \<longleftrightarrow> s \<in> {Reserved, Acknowledged, Ambiguous}"

definition unresolved :: "intent \<Rightarrow> bool" where
  "unresolved r \<longleftrightarrow> unresolved_status (it_status r) \<and> it_operator_reconciled_at r = None"

definition flat_resolution_code :: string where
  "flat_resolution_code = ''operator_confirmed_flat_exchange_state''"

section \<open>Reserving an intent\<close>

record reservation =
  rv_idempotency_key :: string
  rv_request_hash :: string
  rv_action :: intent_action
  rv_instrument_id :: string
  rv_client_order_id :: "string option"
  rv_protection_client_order_id :: "string option"
  rv_expected_protection_size :: "decimal option"
  rv_expected_stop_loss :: "decimal option"
  rv_expected_take_profit :: "decimal option"
  rv_expected_trigger_price_type :: "string option"

definition positive_opt :: "decimal option \<Rightarrow> bool" where
  "positive_opt v \<longleftrightarrow> (case v of None \<Rightarrow> False | Some x \<Rightarrow> 0 < x)"

definition protection_expectation_ok :: "reservation \<Rightarrow> bool" where
  "protection_expectation_ok v \<longleftrightarrow>
     (case rv_protection_client_order_id v of None \<Rightarrow> False | Some i \<Rightarrow> startswith i ''CTCCA'') \<and>
     positive_opt (rv_expected_protection_size v) \<and> positive_opt (rv_expected_stop_loss v) \<and>
     positive_opt (rv_expected_take_profit v) \<and> rv_expected_trigger_price_type v = Some ''mark''"

definition no_protection :: "reservation \<Rightarrow> bool" where
  "no_protection v \<longleftrightarrow> rv_protection_client_order_id v = None \<and> rv_expected_protection_size v = None \<and>
     rv_expected_stop_loss v = None \<and> rv_expected_take_profit v = None \<and>
     rv_expected_trigger_price_type v = None"

definition check_reservation :: "reservation \<Rightarrow> unit result" where
  "check_reservation v =
     (if rv_action v = PlaceOrder
      then raise_if (\<not> protection_expectation_ok v)
        (OkxLiveExecutionRepositoryError ''okx_live_protection_expectation_invalid'')
      else raise_if (\<not> no_protection v)
        (OkxLiveExecutionRepositoryError ''okx_live_protection_expectation_not_allowed''))"

definition reserved_row ::
  "reservation \<Rightarrow> decimal option \<Rightarrow> decimal option \<Rightarrow> decimal option \<Rightarrow> timestamp \<Rightarrow> intent" where
  "reserved_row v sz sl tp now =
     \<lparr>it_idempotency_key = rv_idempotency_key v, it_request_hash = rv_request_hash v,
      it_action = rv_action v, it_status = Reserved, it_instrument_id = rv_instrument_id v,
      it_client_order_id = rv_client_order_id v, it_exchange_order_id = None,
      it_protection_client_order_id = rv_protection_client_order_id v,
      it_expected_protection_size = sz, it_expected_stop_loss = sl,
      it_expected_take_profit = tp,
      it_expected_trigger_price_type = rv_expected_trigger_price_type v, it_detail_codes = [],
      it_operator_reconciled_at = None, it_operator_resolution_code = None,
      it_created_at = now, it_updated_at = now\<rparr>"

definition same_payload :: "reservation \<Rightarrow> intent \<Rightarrow> bool" where
  "same_payload v r \<longleftrightarrow>
     it_request_hash r = rv_request_hash v \<and> it_action r = rv_action v \<and>
     it_instrument_id r = rv_instrument_id v \<and> it_client_order_id r = rv_client_order_id v \<and>
     it_protection_client_order_id r = rv_protection_client_order_id v \<and>
     it_expected_protection_size r = rv_expected_protection_size v \<and>
     it_expected_stop_loss r = rv_expected_stop_loss v \<and>
     it_expected_take_profit r = rv_expected_take_profit v \<and>
     it_expected_trigger_price_type r = rv_expected_trigger_price_type v"

definition protection_id_taken :: "reservation \<Rightarrow> intent_table \<Rightarrow> bool" where
  "protection_id_taken v t \<longleftrightarrow> (case rv_protection_client_order_id v of None \<Rightarrow> False
     | Some i \<Rightarrow> list_ex (\<lambda>r. it_protection_client_order_id r = Some i) t)"

definition reserve_intent :: "reservation \<Rightarrow> timestamp \<Rightarrow> intent txn" where
  "reserve_intent v now t =
     bind_result (check_reservation v) (\<lambda>_.
     case lookup_intent t (rv_idempotency_key v) of
       Some row \<Rightarrow>
         if \<not> same_payload v row
         then Inl (OkxLiveExecutionIntentConflict ''okx_live_idempotency_key_payload_mismatch'')
         else Inl (OkxLiveExecutionIntentReplay
           (''okx_live_idempotency_key_already_used:'' @ status_text (it_status row)))
     | None \<Rightarrow>
         bind_result (numeric_opt (rv_expected_protection_size v)) (\<lambda>sz.
         bind_result (numeric_opt (rv_expected_stop_loss v)) (\<lambda>sl.
         bind_result (numeric_opt (rv_expected_take_profit v)) (\<lambda>tp.
         if protection_id_taken v t then Inl (OtherException ''IntegrityError'')
         else let row = reserved_row v sz sl tp now in Inr (row, t @ [row])))))"

section \<open>Updating an intent\<close>

definition safe_code :: "string \<Rightarrow> bool" where
  "safe_code s \<longleftrightarrow> 1 \<le> length s \<and> length s \<le> 80 \<and>
     list_all (\<lambda>c. let n = (of_char c :: nat) in (97 \<le> n \<and> n \<le> 122) \<or> (48 \<le> n \<and> n \<le> 57) \<or> n = 95) s"

definition safe_detail_codes :: "string list \<Rightarrow> string list" where
  "safe_detail_codes values =
     (let safe = take 20 (sorted_set (filter safe_code (map (\<lambda>v. str_lower (strip v)) values)))
      in if safe \<noteq> [] then safe else if values \<noteq> [] then [''unspecified''] else [])"

definition updated_row ::
  "intent \<Rightarrow> intent_status \<Rightarrow> string option \<Rightarrow> string list \<Rightarrow> timestamp \<Rightarrow> intent" where
  "updated_row row status exchange_order_id codes now =
     row\<lparr>it_status := status,
         it_exchange_order_id := (if truthy exchange_order_id
           then map_option (take 100) exchange_order_id else it_exchange_order_id row),
         it_detail_codes := safe_detail_codes codes, it_updated_at := now\<rparr>"

definition update_intent ::
  "string \<Rightarrow> intent_status \<Rightarrow> string option \<Rightarrow> string list \<Rightarrow> timestamp \<Rightarrow> intent txn" where
  "update_intent key status exchange_order_id codes now t =
     (case lookup_intent t key of
        None \<Rightarrow> Inl (OkxLiveExecutionRepositoryError ''okx_live_execution_intent_not_found'')
      | Some row \<Rightarrow>
          if status \<noteq> it_status row \<and> status \<notin> set (transitions (it_status row))
          then Inl (OkxLiveExecutionRepositoryError
            (''okx_live_execution_intent_invalid_transition:'' @ status_text (it_status row) @ '':'' @
             status_text status))
          else if it_operator_resolution_code row \<noteq> None \<and> \<not> unresolved_status status
          then Inl (OtherException ''IntegrityError'')
          else let row' = updated_row row status exchange_order_id codes now
               in Inr (row', store_intent t row'))"

section \<open>Queries\<close>

definition load_intent :: "string \<Rightarrow> intent_table \<Rightarrow> intent option" where
  "load_intent key t = lookup_intent t key"

definition by_age :: "intent_table \<Rightarrow> intent_table" where
  "by_age t = sort_key (\<lambda>r. (it_created_at r, it_idempotency_key r)) t"

definition load_unresolved_intents :: "nat \<Rightarrow> intent_table \<Rightarrow> intent list result" where
  "load_unresolved_intents limit t =
     (if \<not> (1 \<le> limit \<and> limit \<le> 1000)
      then Inl (OkxLiveExecutionRepositoryError ''okx_live_execution_intent_limit_invalid'')
      else Inr (take limit (by_age (filter unresolved t))))"

definition load_protection_intents :: "nat \<Rightarrow> intent_table \<Rightarrow> intent list result" where
  "load_protection_intents limit t =
     (if \<not> (1 \<le> limit \<and> limit \<le> 1000)
      then Inl (OkxLiveExecutionRepositoryError ''okx_live_execution_intent_limit_invalid'')
      else Inr (take limit (sort_key (\<lambda>r. (- it_created_at r, it_idempotency_key r))
        (filter (\<lambda>r. it_action r = PlaceOrder \<and> it_status r \<noteq> Rejected \<and>
           it_protection_client_order_id r \<noteq> None) t))))"

section \<open>Marking the unresolved intents\<close>

definition expectation_of :: "intent_expectation list \<Rightarrow> string \<Rightarrow> intent_expectation option" where
  "expectation_of es = map_of (rev (map (\<lambda>e. (ie_idempotency_key e, e)) es))"

definition expectation_holds :: "intent_expectation list \<Rightarrow> intent \<Rightarrow> bool" where
  "expectation_holds es r \<longleftrightarrow> (case expectation_of es (it_idempotency_key r) of None \<Rightarrow> False
     | Some e \<Rightarrow> it_status r = ie_status e \<and> it_updated_at r = ie_updated_at e)"

definition resolved_row :: "timestamp \<Rightarrow> string \<Rightarrow> intent \<Rightarrow> intent" where
  "resolved_row when code r =
     r\<lparr>it_operator_reconciled_at := Some when, it_operator_resolution_code := Some code,
       it_updated_at := when\<rparr>"

definition mark_unresolved_intents_operator_reconciled ::
  "intent_expectation list \<Rightarrow> timestamp \<Rightarrow> string \<Rightarrow> nat txn" where
  "mark_unresolved_intents_operator_reconciled es when code t =
     (if code \<noteq> flat_resolution_code
      then Inl (OkxLiveExecutionRepositoryError ''okx_live_operator_resolution_code_invalid'')
      else let rows = by_age (filter unresolved t) in
        if set (map it_idempotency_key rows) \<noteq> set (map ie_idempotency_key es)
        then Inl (OkxLiveExecutionIntentConflict ''okx_live_unresolved_intent_set_changed'')
        else if \<not> list_all (expectation_holds es) rows
        then Inl (OkxLiveExecutionIntentConflict ''okx_live_unresolved_intent_changed'')
        else Inr (length rows, map (\<lambda>r. if unresolved r then resolved_row when code r else r) t))"

section \<open>Invariant of the table\<close>

definition intent_wf :: "intent \<Rightarrow> bool" where
  "intent_wf r \<longleftrightarrow>
     (it_action r = PlaceOrder \<longleftrightarrow> it_protection_client_order_id r \<noteq> None) \<and>
     (it_operator_reconciled_at r = None \<longleftrightarrow> it_operator_resolution_code r = None) \<and>
     (it_operator_resolution_code r \<noteq> None \<longrightarrow> unresolved_status (it_status r))"

abbreviation intent_keys :: "intent_table \<Rightarrow> string list" where
  "intent_keys t \<equiv> map it_idempotency_key t"

abbreviation protection_ids :: "intent_table \<Rightarrow> string list" where
  "protection_ids t \<equiv> List.map_filter it_protection_client_order_id t"

definition intents_ok :: "intent_table \<Rightarrow> bool" where
  "intents_ok t \<longleftrightarrow> distinct (intent_keys t) \<and> distinct (protection_ids t) \<and> list_all intent_wf t"

lemma lookup_intent_Some:
  "lookup_intent t k = Some r \<Longrightarrow> r \<in> set t \<and> it_idempotency_key r = k"
  by (auto simp: lookup_intent_def find_Some_iff)

lemma lookup_intent_None: "lookup_intent t k = None \<longleftrightarrow> k \<notin> set (intent_keys t)"
  by (auto simp: lookup_intent_def find_None_iff)

lemma lookup_intent_in:
  assumes "distinct (intent_keys t)" "r \<in> set t"
  shows "lookup_intent t (it_idempotency_key r) = Some r"
proof (cases "lookup_intent t (it_idempotency_key r)")
  case None
  then show ?thesis using assms(2) by (simp add: lookup_intent_None)
next
  case (Some r')
  then show ?thesis
    using lookup_intent_Some [OF Some] assms by (metis distinct_map inj_onD)
qed

lemma keys_store [simp]: "intent_keys (store_intent t r) = intent_keys t"
  by (induction t) (auto simp: store_intent_def)

lemma protection_ids_cong:
  "map it_protection_client_order_id t' = map it_protection_client_order_id t \<Longrightarrow>
   protection_ids t' = protection_ids t"
proof -
  have *: "protection_ids x = List.map_filter id (map it_protection_client_order_id x)" for x
    by (induction x) (auto simp: List.map_filter_simps split: option.splits)
  show "map it_protection_client_order_id t' = map it_protection_client_order_id t \<Longrightarrow> ?thesis"
    by (simp only: *)
qed

lemma store_protection:
  assumes "distinct (intent_keys t)" "lookup_intent t (it_idempotency_key r) = Some r'"
    "it_protection_client_order_id r = it_protection_client_order_id r'"
  shows "protection_ids (store_intent t r) = protection_ids t"
proof (rule protection_ids_cong)
  have "it_protection_client_order_id (if it_idempotency_key x = it_idempotency_key r then r else x) =
      it_protection_client_order_id x" if "x \<in> set t" for x
    using lookup_intent_in [OF assms(1) that] assms(2,3) by auto
  then show "map it_protection_client_order_id (store_intent t r) = map it_protection_client_order_id t"
    by (simp add: store_intent_def)
qed


section \<open>What a committed transaction has done\<close>

lemma reserve_intent_Inr:
  assumes "reserve_intent v now t = Inr (row, t')"
  shows "t' = t @ [row]" "rv_idempotency_key v \<notin> set (intent_keys t)"
    "it_idempotency_key row = rv_idempotency_key v" "it_status row = Reserved" "unresolved row"
    "check_reservation v = Inr ()" "\<not> protection_id_taken v t"
    "it_protection_client_order_id row = rv_protection_client_order_id v" "it_action row = rv_action v"
    "it_operator_resolution_code row = None" "it_operator_reconciled_at row = None"
  using assms
  by (auto simp: reserve_intent_def result_simps lookup_intent_None Let_def reserved_row_def
      unresolved_def unresolved_status_def split: option.splits if_splits)

lemma update_intent_Inr:
  assumes "update_intent k st x codes now t = Inr (row', t')"
  shows "\<exists>row. lookup_intent t k = Some row \<and> row' = updated_row row st x codes now \<and>
    t' = store_intent t row' \<and> (st = it_status row \<or> st \<in> set (transitions (it_status row))) \<and>
    (it_operator_resolution_code row \<noteq> None \<longrightarrow> unresolved_status st)"
  using assms by (auto simp: update_intent_def Let_def split: option.splits if_splits)

lemma mark_Inr:
  assumes "mark_unresolved_intents_operator_reconciled es when code t = Inr (n, t')"
  shows "t' = map (\<lambda>r. if unresolved r then resolved_row when code r else r) t"
    "code = flat_resolution_code" "n = length (filter unresolved t)"
    "set (intent_keys (filter unresolved t)) = set (map ie_idempotency_key es)"
    "\<forall>r \<in> set t. unresolved r \<longrightarrow> expectation_holds es r"
  using assms
  by (auto simp: mark_unresolved_intents_operator_reconciled_def Let_def by_age_def list_all_iff
      split: if_splits)

lemma updated_row_simps [simp]:
  "it_idempotency_key (updated_row r st x c n) = it_idempotency_key r"
  "it_status (updated_row r st x c n) = st"
  "it_action (updated_row r st x c n) = it_action r"
  "it_protection_client_order_id (updated_row r st x c n) = it_protection_client_order_id r"
  "it_operator_resolution_code (updated_row r st x c n) = it_operator_resolution_code r"
  "it_operator_reconciled_at (updated_row r st x c n) = it_operator_reconciled_at r"
  by (simp_all add: updated_row_def)

lemma resolved_row_simps [simp]:
  "it_idempotency_key (resolved_row w c r) = it_idempotency_key r"
  "it_status (resolved_row w c r) = it_status r"
  "it_action (resolved_row w c r) = it_action r"
  "it_protection_client_order_id (resolved_row w c r) = it_protection_client_order_id r"
  "it_operator_reconciled_at (resolved_row w c r) = Some w"
  "it_operator_resolution_code (resolved_row w c r) = Some c"
  by (simp_all add: resolved_row_def)

lemma intents_ok_reserve:
  assumes ok: "intents_ok t" and r: "reserve_intent v now t = Inr (row, t')"
  shows "intents_ok t'"
proof -
  note new = reserve_intent_Inr [OF r]
  have "intent_wf row"
    using new by (cases "rv_action v = PlaceOrder")
      (auto simp: intent_wf_def check_reservation_def result_simps protection_expectation_ok_def
        no_protection_def split: option.splits)
  moreover have "distinct (protection_ids (t @ [row]))"
    using ok new(7,8)
    by (auto simp: intents_ok_def protection_id_taken_def list_ex_iff List.map_filter_def
        split: option.splits)
  ultimately show ?thesis using ok new(1-3) by (simp add: intents_ok_def)
qed

lemma intents_ok_update:
  assumes ok: "intents_ok t" and u: "update_intent k st x codes now t = Inr (row', t')"
  shows "intents_ok t'"
proof -
  obtain row where row: "lookup_intent t k = Some row" "row' = updated_row row st x codes now"
    "t' = store_intent t row'" "it_operator_resolution_code row \<noteq> None \<longrightarrow> unresolved_status st"
    using update_intent_Inr [OF u] by blast
  have k: "it_idempotency_key row' = k" "row \<in> set t" using lookup_intent_Some [OF row(1)] row(2) by auto
  have "intent_wf row'"
    using ok k(2) row(2,4) by (auto simp: intents_ok_def list_all_iff intent_wf_def)
  then have "list_all intent_wf t'"
    using ok row(3) by (auto simp: intents_ok_def list_all_iff store_intent_def)
  moreover have "distinct (protection_ids t')"
    using ok store_protection [of t row' row] k(1) row by (auto simp: intents_ok_def)
  ultimately show ?thesis using ok row(3) by (simp add: intents_ok_def)
qed

lemma intents_ok_mark:
  assumes ok: "intents_ok t"
    and m: "mark_unresolved_intents_operator_reconciled es when code t = Inr (n, t')"
  shows "intents_ok t'"
proof -
  let ?f = "\<lambda>r. if unresolved r then resolved_row when code r else r"
  have t': "t' = map ?f t" by (rule mark_Inr(1) [OF m])
  have "intent_keys t' = intent_keys t" unfolding t' by simp
  moreover have "protection_ids t' = protection_ids t"
    unfolding t' by (rule protection_ids_cong) simp
  moreover have "list_all intent_wf t'"
    using ok unfolding t' by (auto simp: intents_ok_def list_all_iff intent_wf_def unresolved_def)
  ultimately show ?thesis using ok by (simp add: intents_ok_def)
qed

section \<open>The table only grows along the transitions\<close>

definition status_le :: "intent_status \<Rightarrow> intent_status \<Rightarrow> bool" where
  "status_le = (\<lambda>a b. b \<in> set (transitions a))\<^sup>*\<^sup>*"

lemma status_le_final:
  assumes "status_le a b" "a \<in> {Confirmed, Ambiguous, Rejected}"
  shows "b = a"
  using assms unfolding status_le_def
  by (induction rule: converse_rtranclp_induct) auto

definition evolves :: "intent \<Rightarrow> intent \<Rightarrow> bool" where
  "evolves r r' \<longleftrightarrow>
     it_idempotency_key r' = it_idempotency_key r \<and> it_request_hash r' = it_request_hash r \<and>
     it_action r' = it_action r \<and> it_instrument_id r' = it_instrument_id r \<and>
     it_client_order_id r' = it_client_order_id r \<and>
     it_protection_client_order_id r' = it_protection_client_order_id r \<and>
     it_expected_protection_size r' = it_expected_protection_size r \<and>
     it_expected_stop_loss r' = it_expected_stop_loss r \<and>
     it_expected_take_profit r' = it_expected_take_profit r \<and>
     status_le (it_status r) (it_status r') \<and>
     (it_operator_reconciled_at r \<noteq> None \<longrightarrow> it_operator_reconciled_at r' = it_operator_reconciled_at r)"

definition table_le :: "intent_table \<Rightarrow> intent_table \<Rightarrow> bool" where
  "table_le t t' \<longleftrightarrow> (\<forall>r \<in> set t. \<exists>r' \<in> set t'. evolves r r')"

lemma evolves_refl [simp]: "evolves r r"
  by (simp add: evolves_def status_le_def)

lemma evolves_trans: "evolves a b \<Longrightarrow> evolves b c \<Longrightarrow> evolves a c"
  by (auto simp: evolves_def status_le_def)

lemma table_le_refl [simp]: "table_le t t"
  unfolding table_le_def using evolves_refl by blast

lemma table_le_trans: "table_le a b \<Longrightarrow> table_le b c \<Longrightarrow> table_le a c"
  unfolding table_le_def by (meson evolves_trans)

lemma table_le_keys: "table_le t t' \<Longrightarrow> set (intent_keys t) \<subseteq> set (intent_keys t')"
  unfolding table_le_def using evolves_def by (fastforce simp: image_iff)

lemma table_le_reserve: "reserve_intent v now t = Inr (row, t') \<Longrightarrow> table_le t t'"
  using reserve_intent_Inr(1) by (fastforce simp: table_le_def)

lemma table_le_map: "(\<And>r. r \<in> set t \<Longrightarrow> evolves r (f r)) \<Longrightarrow> table_le t (map f t)"
  by (auto simp: table_le_def)

lemma table_le_update:
  assumes "distinct (intent_keys t)" "update_intent k st x codes now t = Inr (row', t')"
  shows "table_le t t'"
proof -
  obtain row where row: "lookup_intent t k = Some row" "row' = updated_row row st x codes now"
    "t' = store_intent t row'" "st = it_status row \<or> st \<in> set (transitions (it_status row))"
    using update_intent_Inr [OF assms(2)] by blast
  have "evolves r row'" if "r \<in> set t" "it_idempotency_key r = it_idempotency_key row'" for r
  proof -
    have "r = row"
      using lookup_intent_in [OF assms(1) that(1)] that(2) row(1,2) lookup_intent_Some [OF row(1)] by auto
    then show ?thesis using row(2,4) by (auto simp: evolves_def updated_row_def status_le_def)
  qed
  then show ?thesis unfolding row(3) store_intent_def by (intro table_le_map) auto
qed

lemma table_le_mark:
  assumes "mark_unresolved_intents_operator_reconciled es when code t = Inr (n, t')"
  shows "table_le t t'"
  unfolding mark_Inr(1) [OF assms]
  by (rule table_le_map) (auto simp: evolves_def resolved_row_def unresolved_def status_le_def)

lemma mark_resolves_all:
  assumes "mark_unresolved_intents_operator_reconciled es when code t = Inr (n, t')"
  shows "filter unresolved t' = []"
  unfolding mark_Inr(1) [OF assms] by (auto simp: filter_empty_conv unresolved_def)

lemma set_by_age [simp]: "set (by_age t) = set t"
  by (simp add: by_age_def)

lemma load_unresolved_1000:
  "load_unresolved_intents 1000 t = Inr (take 1000 (by_age (filter unresolved t)))"
  by (simp add: load_unresolved_intents_def)

lemma by_age_Nil [simp]: "by_age t = [] \<longleftrightarrow> t = []"
  by (metis set_by_age set_empty)

lemma load_unresolved_Nil:
  "take 1000 (by_age (filter unresolved t)) = [] \<longleftrightarrow> (\<forall>r \<in> set t. \<not> unresolved r)"
  by (simp add: filter_empty_conv)

text \<open>A key serves one reservation.\<close>

lemma reserve_used_key:
  assumes "rv_idempotency_key v \<in> set (intent_keys t)"
  shows "\<exists>e. reserve_intent v now t = Inl e"
proof (cases "reserve_intent v now t")
  case (Inr p)
  then obtain row t' where "reserve_intent v now t = Inr (row, t')" by (cases p) simp
  from reserve_intent_Inr(2) [OF this] assms show ?thesis by simp
qed simp

end
