(* ===== verification/Live_Mirror.thy ===== *)
theory Live_Mirror
  imports Live_Domain
begin

text \<open>
  The mirror of the Live account (\<^verbatim>\<open>app/database/repositories/okx_live.py\<close>): the pinned account
  identity, the replicated balance, positions and orders, and the checkpoint row with the
  durable safety latch. As for the intents, a method is one transaction that commits or
  leaves the tables as they were. The digest of \<open>fingerprint_account_identifier\<close> is the
  parameter \<open>sha256\<close>.

  Lemmas: the identity, once pinned, never changes and a snapshot of another account
  changes nothing; the latch version grows with every change of the latch (\<open>latch_le\<close>), so
  a clear that succeeds has seen every engagement before it; replication leaves the latch
  alone.
\<close>

record account_row =
  ma_uid_fingerprint :: string
  ma_main_uid_fingerprint :: string
  ma_is_sub_account :: "bool option"
  ma_account_level :: "string option"
  ma_position_mode :: string
  ma_account_stp_mode :: "string option"
  ma_account_type :: "string option"
  ma_permissions :: "string list"
  ma_unknown_permissions :: "string list"
  ma_read_permission :: bool
  ma_trade_permission :: bool
  ma_withdraw_permission :: bool
  ma_ip_bound :: bool
  ma_captured_at :: timestamp

record checkpoint_details_row =
  cd_account_level :: "string option"
  cd_position_mode :: string
  cd_is_sub_account :: "bool option"
  cd_read_permission :: bool
  cd_trade_permission :: bool
  cd_withdraw_permission :: bool
  cd_ip_bound :: bool
  cd_unknown_permission_count :: nat

record checkpoint =
  cp_status :: string
  cp_order_count :: nat
  cp_position_count :: nat
  cp_algo_order_count :: nat
  cp_safety_latched :: bool
  cp_safety_latch_code :: "string option"
  cp_safety_latch_version :: nat
  cp_safety_latched_at :: "timestamp option"
  cp_details :: "checkpoint_details_row option"
  cp_last_error :: "string option"
  cp_reconciled_at :: "timestamp option"
  cp_updated_at :: timestamp

record mirror =
  mr_account :: "account_row option"
  mr_balance :: "balance_snapshot option"
  mr_positions :: "(string \<times> live_position) list"
  mr_algo_orders :: "(string \<times> live_algo_order) list"
  mr_orders :: "(string \<times> live_order) list"
  mr_checkpoint :: "checkpoint option"

type_synonym 'a mirror_txn = "mirror \<Rightarrow> ('a \<times> mirror) result"

section \<open>The account identity\<close>

definition fingerprint_account_identifier ::
  "(string \<Rightarrow> string) \<Rightarrow> string option \<Rightarrow> string option" where
  "fingerprint_account_identifier sha256 v =
     (let normalized = strip (case v of None \<Rightarrow> [] | Some s \<Rightarrow> s)
      in if normalized = [] then None
         else Some (sha256 (''ctcc-okx-live-account-v1:'' @ normalized)))"

definition account_values ::
  "(string \<Rightarrow> string) \<Rightarrow> account_config \<Rightarrow> timestamp \<Rightarrow> account_row result" where
  "account_values sha256 c captured_at =
     (case (fingerprint_account_identifier sha256 (acc_uid c),
            fingerprint_account_identifier sha256 (acc_main_uid c)) of
        (Some u, Some m) \<Rightarrow>
          Inr \<lparr>ma_uid_fingerprint = u, ma_main_uid_fingerprint = m,
               ma_is_sub_account = acc_is_sub_account c, ma_account_level = acc_account_level c,
               ma_position_mode = acc_position_mode c,
               ma_account_stp_mode = acc_account_stp_mode c, ma_account_type = acc_account_type c,
               ma_permissions = sorted_set (cap_permissions (acc_capability c)),
               ma_unknown_permissions = sorted_set (cap_unknown_permissions (acc_capability c)),
               ma_read_permission = cap_read_permission (acc_capability c),
               ma_trade_permission = cap_trade_permission (acc_capability c),
               ma_withdraw_permission = cap_withdraw_permission (acc_capability c),
               ma_ip_bound = cap_ip_bound (acc_capability c), ma_captured_at = captured_at\<rparr>
      | _ \<Rightarrow> Inl (OkxLiveAccountIdentityError ''okx_live_account_identity_incomplete''))"

definition pin_account_identity :: "account_row \<Rightarrow> mirror \<Rightarrow> mirror result" where
  "pin_account_identity values m =
     (case mr_account m of
        None \<Rightarrow> Inr (m\<lparr>mr_account := Some values\<rparr>)
      | Some a \<Rightarrow>
          if ma_uid_fingerprint a \<noteq> ma_uid_fingerprint values \<or>
             ma_main_uid_fingerprint a \<noteq> ma_main_uid_fingerprint values
          then Inl (OkxLiveAccountIdentityError ''okx_live_account_identity_mismatch'')
          else Inr (m\<lparr>mr_account := Some values\<rparr>))"

section \<open>Replication\<close>

definition checkpoint_details :: "account_config \<Rightarrow> checkpoint_details_row" where
  "checkpoint_details c =
     \<lparr>cd_account_level = acc_account_level c, cd_position_mode = acc_position_mode c,
      cd_is_sub_account = acc_is_sub_account c,
      cd_read_permission = cap_read_permission (acc_capability c),
      cd_trade_permission = cap_trade_permission (acc_capability c),
      cd_withdraw_permission = cap_withdraw_permission (acc_capability c),
      cd_ip_bound = cap_ip_bound (acc_capability c),
      cd_unknown_permission_count = length (remdups (cap_unknown_permissions (acc_capability c)))\<rparr>"

definition new_checkpoint :: "string \<Rightarrow> timestamp \<Rightarrow> checkpoint" where
  "new_checkpoint status now =
     \<lparr>cp_status = status, cp_order_count = 0, cp_position_count = 0, cp_algo_order_count = 0,
      cp_safety_latched = False, cp_safety_latch_code = None, cp_safety_latch_version = 0,
      cp_safety_latched_at = None, cp_details = None, cp_last_error = None,
      cp_reconciled_at = None, cp_updated_at = now\<rparr>"

definition latch_state :: "checkpoint \<Rightarrow> safety_latch_state" where
  "latch_state c =
     \<lparr>sl_latched = cp_safety_latched c, sl_code = cp_safety_latch_code c,
      sl_version = cp_safety_latch_version c, sl_latched_at = cp_safety_latched_at c\<rparr>"

definition mirror_status :: "mirror \<Rightarrow> mirror_status_view" where
  "mirror_status m =
     (case mr_checkpoint m of
        None \<Rightarrow> \<lparr>ms_available = False, ms_order_count = 0, ms_position_count = 0,
                 ms_algo_order_count = 0, ms_last_reconciled_at = None, ms_last_error = None,
                 ms_safety_latched = False, ms_safety_latch_code = None,
                 ms_safety_latch_version = 0\<rparr>
      | Some c \<Rightarrow> \<lparr>ms_available = (cp_reconciled_at c \<noteq> None \<and> mr_account m \<noteq> None \<and> mr_balance m \<noteq> None),
                   ms_order_count = length (mr_orders m),
                   ms_position_count = length (mr_positions m),
                   ms_algo_order_count = length (mr_algo_orders m),
                   ms_last_reconciled_at = cp_reconciled_at c, ms_last_error = cp_last_error c,
                   ms_safety_latched = cp_safety_latched c,
                   ms_safety_latch_code = cp_safety_latch_code c,
                   ms_safety_latch_version = cp_safety_latch_version c\<rparr>)"

record sync_input =
  si_account_config :: account_config
  si_balance :: balance_snapshot
  si_positions :: "live_position list"
  si_orders :: "live_order list"
  si_algo_orders :: "live_algo_order list"

definition synced_checkpoint :: "mirror \<Rightarrow> sync_input \<Rightarrow> timestamp \<Rightarrow> checkpoint" where
  "synced_checkpoint m i now =
     (case mr_checkpoint m of None \<Rightarrow> new_checkpoint ''reconciled'' now | Some c \<Rightarrow> c)
     \<lparr>cp_status := ''reconciled'', cp_order_count := length (mr_orders m),
      cp_position_count := length (mr_positions m), cp_algo_order_count := length (mr_algo_orders m),
      cp_details := Some (checkpoint_details (si_account_config i)), cp_last_error := None,
      cp_reconciled_at := Some now, cp_updated_at := now\<rparr>"

definition replicated :: "sync_input \<Rightarrow> mirror \<Rightarrow> mirror" where
  "replicated i m =
     (let deduped_orders = dict_of (map (\<lambda>x. (lo_order_id x, x)) (si_orders i))
      in m\<lparr>mr_balance := Some (si_balance i),
           mr_positions := dict_of (map (\<lambda>x. (lp_position_id x, x))
             (filter (\<lambda>x. lp_size x \<noteq> 0) (si_positions i))),
           mr_algo_orders := dict_of (map (\<lambda>x. (la_algo_order_id x, x)) (si_algo_orders i)),
           mr_orders := foldl (\<lambda>d (k, v). dict_set d k v) (mr_orders m) deduped_orders\<rparr>)"

definition sync_snapshot :: "(string \<Rightarrow> string) \<Rightarrow> sync_input \<Rightarrow> timestamp \<Rightarrow> mirror_status_view mirror_txn" where
  "sync_snapshot sha256 i now m =
     bind_result (account_values sha256 (si_account_config i) now) (\<lambda>row.
     bind_result (pin_account_identity row m) (\<lambda>m.
     let m = replicated i m;
         m = m\<lparr>mr_checkpoint := Some (synced_checkpoint m i now)\<rparr>
     in Inr (mirror_status m, m)))"

definition allowed_failure_codes :: "string list" where
  "allowed_failure_codes =
     [''okx_live_reconcile_failed'', ''okx_live_account_config_empty'',
      ''okx_live_account_identity_incomplete'', ''okx_live_account_identity_mismatch'',
      ''okx_live_balance_empty'', ''okx_live_capability_rejected'',
      ''okx_live_credentials_missing'', ''okx_live_parse_failed'',
      ''okx_live_persistence_failed'', ''okx_live_private_api_unavailable'']"

definition mirror_failure_code :: "string \<Rightarrow> string" where
  "mirror_failure_code code =
     (let normalized = str_lower (strip code)
      in if normalized \<in> set allowed_failure_codes then normalized else ''okx_live_reconcile_failed'')"

definition mark_failure :: "string \<Rightarrow> timestamp \<Rightarrow> unit mirror_txn" where
  "mark_failure code now m =
     Inr ((), m\<lparr>mr_checkpoint := Some
       ((case mr_checkpoint m of None \<Rightarrow> new_checkpoint ''error'' now | Some c \<Rightarrow> c)
        \<lparr>cp_status := ''error'', cp_last_error := Some (mirror_failure_code code),
         cp_updated_at := now\<rparr>)\<rparr>)"

section \<open>The safety latch\<close>

definition safe_latch_code :: "string \<Rightarrow> bool" where
  "safe_latch_code s \<longleftrightarrow> 1 \<le> length s \<and> length s \<le> 80 \<and>
     list_all (\<lambda>c. let n = (of_char c :: nat) in (97 \<le> n \<and> n \<le> 122) \<or> (48 \<le> n \<and> n \<le> 57) \<or> n = 95) s"

definition latched_checkpoint :: "mirror \<Rightarrow> string \<Rightarrow> timestamp \<Rightarrow> checkpoint" where
  "latched_checkpoint m code now =
     (case mr_checkpoint m of
        None \<Rightarrow> (new_checkpoint ''safety_latched'' now)
          \<lparr>cp_safety_latched := True, cp_safety_latch_code := Some code,
           cp_safety_latch_version := 1, cp_safety_latched_at := Some now,
           cp_last_error := Some code\<rparr>
      | Some c \<Rightarrow> c\<lparr>cp_safety_latched := True, cp_safety_latch_code := Some code,
           cp_safety_latch_version := cp_safety_latch_version c + 1,
           cp_safety_latched_at := Some now, cp_updated_at := now\<rparr>)"

definition engage_safety_latch :: "string \<Rightarrow> timestamp \<Rightarrow> safety_latch_state mirror_txn" where
  "engage_safety_latch code now m =
     (let normalized = str_lower (strip code) in
      if \<not> safe_latch_code normalized
      then Inl (OkxLiveRepositoryError ''okx_live_safety_latch_code_invalid'')
      else let c = latched_checkpoint m normalized now
           in Inr (latch_state c, m\<lparr>mr_checkpoint := Some c\<rparr>))"

definition clear_safety_latch :: "nat \<Rightarrow> timestamp \<Rightarrow> safety_latch_state mirror_txn" where
  "clear_safety_latch expected_version now m =
     (case mr_checkpoint m of
        None \<Rightarrow> Inl (OkxLiveRepositoryError ''okx_live_safety_latch_checkpoint_unavailable'')
      | Some c \<Rightarrow>
          if \<not> cp_safety_latched c \<or> cp_safety_latch_version c \<noteq> expected_version
          then Inl (OkxLiveSafetyLatchConflict ''okx_live_safety_latch_changed_during_clear'')
          else let c' = c\<lparr>cp_safety_latched := False, cp_safety_latch_code := None,
                 cp_safety_latch_version := cp_safety_latch_version c + 1,
                 cp_safety_latched_at := None,
                 cp_last_error := (if cp_last_error c = cp_safety_latch_code c then None
                                   else cp_last_error c),
                 cp_status := (if cp_status c = ''safety_latched'' then ''not_reconciled''
                               else cp_status c),
                 cp_updated_at := now\<rparr>
               in Inr (latch_state c', m\<lparr>mr_checkpoint := Some c'\<rparr>))"

definition safety_latch_status :: "mirror \<Rightarrow> safety_latch_state result" where
  "safety_latch_status m =
     (case mr_checkpoint m of
        None \<Rightarrow> Inl (OkxLiveRepositoryError ''okx_live_safety_latch_checkpoint_unavailable'')
      | Some c \<Rightarrow> Inr (latch_state c))"

section \<open>Latch versions\<close>

definition latched :: "mirror \<Rightarrow> bool" where
  "latched m = (case mr_checkpoint m of None \<Rightarrow> False | Some c \<Rightarrow> cp_safety_latched c)"

definition latch_version :: "mirror \<Rightarrow> nat" where
  "latch_version m = (case mr_checkpoint m of None \<Rightarrow> 0 | Some c \<Rightarrow> cp_safety_latch_version c)"

definition latch_le :: "mirror \<Rightarrow> mirror \<Rightarrow> bool" where
  "latch_le m m' \<longleftrightarrow> latch_version m \<le> latch_version m' \<and>
     (latch_version m' = latch_version m \<longrightarrow> latched m' = latched m)"

definition same_latch :: "mirror \<Rightarrow> mirror \<Rightarrow> bool" where
  "same_latch m m' \<longleftrightarrow> latch_version m' = latch_version m \<and> latched m' = latched m"

lemma latch_le_refl [simp]: "latch_le m m"
  by (simp add: latch_le_def)

lemma latch_le_trans: "latch_le a b \<Longrightarrow> latch_le b c \<Longrightarrow> latch_le a c"
  by (auto simp: latch_le_def)

lemma same_latch_le: "same_latch m m' \<Longrightarrow> latch_le m m'"
  by (simp add: latch_le_def same_latch_def)

lemma pin_same_latch: "pin_account_identity v m = Inr m' \<Longrightarrow> mr_checkpoint m' = mr_checkpoint m"
  by (auto simp: pin_account_identity_def split: option.splits if_splits)

definition latch_fields :: "mirror \<Rightarrow> bool \<times> string option \<times> nat \<times> timestamp option" where
  "latch_fields m = (case mr_checkpoint m of None \<Rightarrow> (False, None, 0, None)
     | Some c \<Rightarrow> (cp_safety_latched c, cp_safety_latch_code c, cp_safety_latch_version c, cp_safety_latched_at c))"

lemma synced_latch_fields:
  "latch_fields (m\<lparr>mr_checkpoint := Some (synced_checkpoint m i now)\<rparr>) = latch_fields m"
  by (simp add: latch_fields_def synced_checkpoint_def new_checkpoint_def split: option.split)

lemma sync_snapshot_Inr:
  assumes "sync_snapshot sha i now m = Inr (r, m')"
  shows "\<exists>row n. account_values sha (si_account_config i) now = Inr row \<and> pin_account_identity row m = Inr n \<and>
    mr_account m' = mr_account n \<and> latch_fields m' = latch_fields m"
proof -
  obtain row n where row: "account_values sha (si_account_config i) now = Inr row"
    and n: "pin_account_identity row m = Inr n"
    and m': "m' = (replicated i n)\<lparr>mr_checkpoint := Some (synced_checkpoint (replicated i n) i now)\<rparr>"
    using assms unfolding sync_snapshot_def Let_def bind_result_eq_Inr by (auto simp del: mirror.simps)
  have "mr_account (replicated i n) = mr_account n" "mr_checkpoint (replicated i n) = mr_checkpoint n"
    by (simp_all add: replicated_def Let_def)
  moreover from this have "latch_fields (replicated i n) = latch_fields m"
    using pin_same_latch [OF n] by (simp add: latch_fields_def)
  ultimately show ?thesis
    using row n m' synced_latch_fields [of "replicated i n" i now] by auto
qed

lemma latch_fields_simps: "latched m = fst (latch_fields m)" "latch_version m = fst (snd (snd (latch_fields m)))"
  by (simp_all add: latched_def latch_version_def latch_fields_def split: option.split)

lemma sync_same_latch: "sync_snapshot sha i now m = Inr (r, m') \<Longrightarrow> same_latch m m'"
  using sync_snapshot_Inr by (fastforce simp: same_latch_def latch_fields_simps)

lemma mark_failure_same_latch: "mark_failure code now m = Inr (r, m') \<Longrightarrow> same_latch m m'"
  by (auto simp: mark_failure_def same_latch_def latched_def latch_version_def new_checkpoint_def
      split: option.splits)

lemma engage_Inr:
  assumes "engage_safety_latch code now m = Inr (r, m')"
  shows "latched m'" "latch_version m' = Suc (latch_version m)" "sl_latched r" "sl_version r = latch_version m'"
  using assms
  by (auto simp: engage_safety_latch_def latched_checkpoint_def latched_def latch_version_def Let_def
      latch_state_def new_checkpoint_def split: if_splits option.splits)

lemma clear_Inr:
  assumes "clear_safety_latch v now m = Inr (r, m')"
  shows "latched m" "latch_version m = v" "\<not> latched m'" "latch_version m' = Suc v"
    "sl_version r = latch_version m'"
  using assms
  by (auto simp: clear_safety_latch_def latched_def latch_version_def Let_def latch_state_def
      split: if_splits option.splits)

lemma status_Inr:
  assumes "safety_latch_status m = Inr r"
  shows "sl_latched r = latched m" "sl_version r = latch_version m"
  using assms by (auto simp: safety_latch_status_def latched_def latch_version_def latch_state_def
      split: option.splits)

lemma engage_latch_le: "engage_safety_latch code now m = Inr (r, m') \<Longrightarrow> latch_le m m'"
  by (drule engage_Inr(2)) (simp add: latch_le_def)

lemma clear_latch_le: "clear_safety_latch v now m = Inr (r, m') \<Longrightarrow> latch_le m m'"
  using clear_Inr(2,4) by (fastforce simp: latch_le_def)

section \<open>The pinned identity\<close>

definition identity :: "mirror \<Rightarrow> (string \<times> string) option" where
  "identity m = map_option (\<lambda>a. (ma_uid_fingerprint a, ma_main_uid_fingerprint a)) (mr_account m)"

definition identity_le :: "mirror \<Rightarrow> mirror \<Rightarrow> bool" where
  "identity_le m m' \<longleftrightarrow> (identity m \<noteq> None \<longrightarrow> identity m' = identity m)"

lemma identity_le_refl [simp]: "identity_le m m"
  by (simp add: identity_le_def)

lemma identity_le_trans: "identity_le a b \<Longrightarrow> identity_le b c \<Longrightarrow> identity_le a c"
  by (auto simp: identity_le_def)

lemma pin_identity:
  "pin_account_identity v m = Inr m' \<Longrightarrow>
   identity m' = Some (ma_uid_fingerprint v, ma_main_uid_fingerprint v) \<and> identity_le m m'"
  by (auto simp: pin_account_identity_def identity_def identity_le_def split: option.splits if_splits)

lemma sync_identity:
  assumes "sync_snapshot sha i now m = Inr (r, m')"
  shows "identity_le m m'" "identity m' \<noteq> None"
    "identity m' = (case (fingerprint_account_identifier sha (acc_uid (si_account_config i)),
       fingerprint_account_identifier sha (acc_main_uid (si_account_config i))) of
       (Some u, Some v) \<Rightarrow> Some (u, v) | _ \<Rightarrow> None)"
proof -
  obtain row n where v: "account_values sha (si_account_config i) now = Inr row"
    and n: "pin_account_identity row m = Inr n" and acc: "mr_account m' = mr_account n"
    using sync_snapshot_Inr [OF assms] by blast
  have id': "identity m' = identity n" using acc by (simp add: identity_def)
  then show "identity_le m m'" "identity m' \<noteq> None"
    using pin_identity [OF n] by (auto simp: identity_le_def)
  show "identity m' = (case (fingerprint_account_identifier sha (acc_uid (si_account_config i)),
       fingerprint_account_identifier sha (acc_main_uid (si_account_config i))) of
       (Some u, Some v) \<Rightarrow> Some (u, v) | _ \<Rightarrow> None)"
    using pin_identity [OF n] v id'
    by (auto simp: account_values_def split: option.splits prod.splits)
qed

lemma other_txns_identity:
  "mark_failure c now m = Inr (r, m') \<Longrightarrow> identity m' = identity m"
  "engage_safety_latch c now m = Inr (s, m') \<Longrightarrow> identity m' = identity m"
  "clear_safety_latch v now m = Inr (s, m') \<Longrightarrow> identity m' = identity m"
  by (auto simp: mark_failure_def engage_safety_latch_def clear_safety_latch_def identity_def Let_def
      split: if_splits option.splits)

section \<open>A latch code is stored exactly while the latch is engaged\<close>

definition latch_pair_ok :: "mirror \<Rightarrow> bool" where
  "latch_pair_ok m \<longleftrightarrow> (case latch_fields m of (l, code, v, since) \<Rightarrow>
     l = (code \<noteq> None) \<and> l = (since \<noteq> None))"

lemma latch_pair_kept:
  assumes "latch_pair_ok m"
  shows "sync_snapshot sha i now m = Inr (a, m') \<Longrightarrow> latch_pair_ok m'"
    "mark_failure c now m = Inr (u, m') \<Longrightarrow> latch_pair_ok m'"
    "engage_safety_latch c now m = Inr (s, m') \<Longrightarrow> latch_pair_ok m'"
    "clear_safety_latch v now m = Inr (s, m') \<Longrightarrow> latch_pair_ok m'"
proof -
  show "sync_snapshot sha i now m = Inr (a, m') \<Longrightarrow> latch_pair_ok m'"
    using assms by (auto dest!: sync_snapshot_Inr simp: latch_pair_ok_def)
  show "mark_failure c now m = Inr (u, m') \<Longrightarrow> latch_pair_ok m'"
    using assms by (auto simp: latch_pair_ok_def latch_fields_def mark_failure_def new_checkpoint_def
        split: option.splits)
  show "engage_safety_latch c now m = Inr (s, m') \<Longrightarrow> latch_pair_ok m'"
    by (auto simp: latch_pair_ok_def latch_fields_def engage_safety_latch_def latched_checkpoint_def Let_def
        split: option.splits if_splits)
  show "clear_safety_latch v now m = Inr (s, m') \<Longrightarrow> latch_pair_ok m'"
    by (auto simp: latch_pair_ok_def latch_fields_def clear_safety_latch_def Let_def
        split: option.splits if_splits)
qed

end
