(* ===== verification/Live_State.thy ===== *)
theory Live_State
  imports Effects Live_Intents Live_Mirror
begin

text \<open>
  The state of \<open>OkxLiveService\<close> (\<^verbatim>\<open>app/okx_live/service.py\<close>) and what surrounds it. The record
  \<open>live_state\<close> holds the process-local authority of the object, the two durable stores (the
  intents and the mirror) and, for the specification, a counter of I/O steps and the log of
  the write requests handed to the exchange client, each with the authority under which it
  was sent.

  The environment \<open>env\<close> is what the service cannot decide: the settings and the injected
  collaborators, and for every I/O step the clock, the reply of the exchange or the
  exception the client raises (rows are given as parsed by \<^verbatim>\<open>live_private_parsers\<close>), the fate
  of a database call (no fault, a fault before the commit, or a commit whose confirmation is
  lost), whether the task is cancelled there, and what other tasks do while this one is
  suspended. Those tasks cannot hold the execution guard, so they disarm, engage the stop or
  the latch, replicate, or refresh status fields (\<open>interference\<close>); they neither arm, nor write
  to the exchange, nor change intents.

  \<open>calm\<close> relates the states around code that does none of these either and keeps an engaged
  latch; \<open>quiet\<close> allows intents to be added and to evolve; \<open>recovering\<close> allows the latch to be
  cleared as well. They are preorders, so they compose along a method.
\<close>

section \<open>Writes to the exchange\<close>

record order_payload =
  op_inst_id :: string
  op_td_mode :: string
  op_cl_ord_id :: string
  op_tag :: string
  op_side :: string
  op_pos_side :: string
  op_sz :: decimal
  op_attach_algo_cl_ord_id :: string
  op_tp_trigger_px :: decimal
  op_sl_trigger_px :: decimal
  op_trigger_px_type :: string

record leverage_payload =
  lv_inst_id :: string
  lv_lever :: int
  lv_mgn_mode :: string
  lv_pos_side :: "string option"

datatype exchange_write =
    PlaceOrderWrite order_payload
  | SetLeverageWrite leverage_payload
  | CancelAllAfterWrite int string
  | CancelOrderWrite string "string option" "string option"
  | ClosePositionWrite string string string

record authority =
  au_armed_until :: "timestamp option"
  au_baseline_equity :: "decimal option"
  au_emergency_stop :: bool
  au_submissions :: int
  au_write_lock :: bool
  au_step :: nat

section \<open>The service object\<close>

record live_state =
  ls_armed_until :: "timestamp option"
  ls_baseline_equity :: "decimal option"
  ls_submissions :: int
  ls_emergency_stop :: bool
  ls_automation_running :: bool
  ls_unresolved_intent_count :: nat
  ls_safety_latch_code :: "string option"
  ls_safety_latch_version :: nat
  ls_last_capability :: "api_key_capability option"
  ls_last_exchange_ok_at :: "timestamp option"
  ls_last_error :: "string option"
  ls_write_lock :: bool
  ls_intents :: intent_table
  ls_mirror :: mirror
  ls_step :: nat
  ls_sent :: "(authority \<times> exchange_write) list"

type_synonym 'a live = "(live_state, 'a) eff"

text \<open>The constructor, over given durable stores: a new process starts disarmed.\<close>

definition new_service :: "intent_table \<Rightarrow> mirror \<Rightarrow> nat \<Rightarrow> (authority \<times> exchange_write) list \<Rightarrow> live_state" where
  "new_service intents m n sent =
     \<lparr>ls_armed_until = None, ls_baseline_equity = None, ls_submissions = 0,
      ls_emergency_stop = False, ls_automation_running = False, ls_unresolved_intent_count = 0,
      ls_safety_latch_code = None, ls_safety_latch_version = 0, ls_last_capability = None,
      ls_last_exchange_ok_at = None, ls_last_error = None, ls_write_lock = False,
      ls_intents = intents, ls_mirror = m, ls_step = n, ls_sent = sent\<rparr>"

definition disarm_local :: "bool \<Rightarrow> live_state \<Rightarrow> live_state" where
  "disarm_local keep_submission_count s =
     s\<lparr>ls_armed_until := None, ls_baseline_equity := None,
       ls_submissions := (if keep_submission_count then ls_submissions s else 0)\<rparr>"

definition engage_emergency_stop :: "string \<Rightarrow> live_state \<Rightarrow> live_state" where
  "engage_emergency_stop code s =
     disarm_local True (s\<lparr>ls_emergency_stop := True, ls_last_error := Some (take 250 code)\<rparr>)"

section \<open>The environment\<close>

datatype interference =
    IDisarm bool
  | IStop string
  | ILatch string timestamp
  | ILatchView "string option" nat
  | ISync sync_input timestamp
  | IMarkFailure string timestamp
  | ICapability api_key_capability
  | IExchangeOk timestamp
  | ILastError "string option"
  | IAutomation bool
  | IUnresolved nat

record max_size_row =
  mx_max_buy :: "decimal result option"
  mx_max_sell :: "decimal result option"

record leverage_row =
  lr_inst_id :: string
  lr_mgn_mode :: string
  lr_pos_side :: string
  lr_lever :: "decimal option"

record ack_row =
  ar_ord_id :: string
  ar_cl_ord_id :: string
  ar_s_code :: string

record account_rows =
  rw_balance :: "balance_snapshot list"
  rw_positions :: "live_position list"
  rw_pending :: "live_order list"
  rw_history :: "live_order list"
  rw_algo :: "live_algo_order list"

record env =
  ev_settings :: settings
  ev_has_mirror :: bool
  ev_has_client :: bool
  ev_has_repository :: bool
  ev_request_hash :: "live_request \<Rightarrow> string"
  ev_sha256 :: "string \<Rightarrow> string"
  ev_clock :: "nat \<Rightarrow> timestamp"
  ev_others :: "nat \<Rightarrow> interference list"
  ev_cancel :: "nat \<Rightarrow> bool"
  ev_db :: "nat \<Rightarrow> db_fault"
  ev_lock_acquired :: "nat \<Rightarrow> bool"
  ev_account_config :: "nat \<Rightarrow> account_config list result"
  ev_balance :: "nat \<Rightarrow> balance_snapshot list result"
  ev_positions :: "nat \<Rightarrow> string option \<Rightarrow> live_position list result"
  ev_pending_orders :: "nat \<Rightarrow> string option \<Rightarrow> live_order list result"
  ev_pending_algo_orders :: "nat \<Rightarrow> string option \<Rightarrow> live_algo_order list result"
  ev_account_rows :: "nat \<Rightarrow> account_rows result"
  ev_order_detail :: "nat \<Rightarrow> string \<Rightarrow> string option \<Rightarrow> string option \<Rightarrow> live_order list result"
  ev_market :: "nat \<Rightarrow> string \<Rightarrow> (instrument_info list \<times> decimal) result"
  ev_mark_price :: "nat \<Rightarrow> string \<Rightarrow> decimal result"
  ev_max_order_size :: "nat \<Rightarrow> max_size_row list result"
  ev_order_precheck :: "nat \<Rightarrow> unit result"
  ev_set_leverage :: "nat \<Rightarrow> leverage_row list result"
  ev_cancel_all_after :: "nat \<Rightarrow> unit result"
  ev_place_order :: "nat \<Rightarrow> ack_row list result"
  ev_cancel_order :: "nat \<Rightarrow> ack_row list result"
  ev_close_position :: "nat \<Rightarrow> unit result"

fun interfere :: "env \<Rightarrow> interference \<Rightarrow> live_state \<Rightarrow> live_state" where
  "interfere E (IDisarm k) s = disarm_local k s"
| "interfere E (IStop code) s = engage_emergency_stop code s"
| "interfere E (ILatch code now) s =
     (case engage_safety_latch code now (ls_mirror s) of Inl _ \<Rightarrow> s | Inr (_, m) \<Rightarrow> s\<lparr>ls_mirror := m\<rparr>)"
| "interfere E (ILatchView code v) s = s\<lparr>ls_safety_latch_code := code, ls_safety_latch_version := v\<rparr>"
| "interfere E (ISync i now) s =
     (case sync_snapshot (ev_sha256 E) i now (ls_mirror s) of Inl _ \<Rightarrow> s | Inr (_, m) \<Rightarrow> s\<lparr>ls_mirror := m\<rparr>)"
| "interfere E (IMarkFailure code now) s =
     (case mark_failure code now (ls_mirror s) of Inl _ \<Rightarrow> s | Inr (_, m) \<Rightarrow> s\<lparr>ls_mirror := m\<rparr>)"
| "interfere E (ICapability c) s = s\<lparr>ls_last_capability := Some c\<rparr>"
| "interfere E (IExchangeOk t) s = s\<lparr>ls_last_exchange_ok_at := Some t\<rparr>"
| "interfere E (ILastError e) s = s\<lparr>ls_last_error := e\<rparr>"
| "interfere E (IAutomation b) s = s\<lparr>ls_automation_running := b\<rparr>"
| "interfere E (IUnresolved n) s = s\<lparr>ls_unresolved_intent_count := n\<rparr>"

section \<open>Suspension, clock, collaborators and transactions\<close>

definition await :: "env \<Rightarrow> nat live" where
  "await E = (\<lambda>s. let n = ls_step s;
       t = foldl (\<lambda>s i. interfere E i s) (s\<lparr>ls_step := Suc n\<rparr>) (ev_others E n)
     in if ev_cancel E n then (Inl CancelledError, t) else (Inr n, t))"

definition call :: "env \<Rightarrow> (nat \<Rightarrow> 'a result) \<Rightarrow> 'a live" where
  "call E f = bind_eff (await E) (\<lambda>n. lift_result (f n))"

definition clock_now :: "env \<Rightarrow> timestamp live" where
  "clock_now E = (\<lambda>s. (Inr (ev_clock E (ls_step s)), s\<lparr>ls_step := Suc (ls_step s)\<rparr>))"

text \<open>A request that changes the exchange: it is logged when it is handed to the client.\<close>

definition authority_of :: "live_state \<Rightarrow> authority" where
  "authority_of s = \<lparr>au_armed_until = ls_armed_until s, au_baseline_equity = ls_baseline_equity s,
     au_emergency_stop = ls_emergency_stop s, au_submissions = ls_submissions s, au_write_lock = ls_write_lock s, au_step = ls_step s\<rparr>"

definition send :: "env \<Rightarrow> exchange_write \<Rightarrow> (nat \<Rightarrow> 'a result) \<Rightarrow> 'a live" where
  "send E w f = seq_eff (modify (\<lambda>s. s\<lparr>ls_sent := ls_sent s @ [(authority_of s, w)]\<rparr>)) (call E f)"

text \<open>A database call suspends before and after its transaction.\<close>

definition commit :: "(live_state \<Rightarrow> ('a \<times> live_state) result) \<Rightarrow> 'a live" where
  "commit f = (\<lambda>s. case f s of Inl e \<Rightarrow> (Inl e, s) | Inr (a, t) \<Rightarrow> (Inr a, t))"

definition database :: "env \<Rightarrow> (timestamp \<Rightarrow> live_state \<Rightarrow> ('a \<times> live_state) result) \<Rightarrow> 'a live" where
  "database E f =
     bind_eff (await E) (\<lambda>n. case ev_db E n of
       FaultBefore e \<Rightarrow> raise e
     | NoFault \<Rightarrow> bind_eff (commit (f (ev_clock E n))) (\<lambda>a. seq_eff (await E) (ret a))
     | FaultAfter e \<Rightarrow> seq_eff (commit (f (ev_clock E n))) (seq_eff (await E) (raise e)))"

definition intent_txn :: "(timestamp \<Rightarrow> 'a txn) \<Rightarrow> timestamp \<Rightarrow> live_state \<Rightarrow> ('a \<times> live_state) result" where
  "intent_txn f now s =
     bind_result (f now (ls_intents s)) (\<lambda>(a, t). Inr (a, s\<lparr>ls_intents := t\<rparr>))"

definition intent_query :: "(intent_table \<Rightarrow> 'a result) \<Rightarrow> timestamp \<Rightarrow> live_state \<Rightarrow> ('a \<times> live_state) result" where
  "intent_query f now s = bind_result (f (ls_intents s)) (\<lambda>a. Inr (a, s))"

definition mirror_txn :: "(timestamp \<Rightarrow> 'a mirror_txn) \<Rightarrow> timestamp \<Rightarrow> live_state \<Rightarrow> ('a \<times> live_state) result" where
  "mirror_txn f now s =
     bind_result (f now (ls_mirror s)) (\<lambda>(a, m). Inr (a, s\<lparr>ls_mirror := m\<rparr>))"

definition mirror_query :: "(mirror \<Rightarrow> 'a result) \<Rightarrow> timestamp \<Rightarrow> live_state \<Rightarrow> ('a \<times> live_state) result" where
  "mirror_query f now s = bind_result (f (ls_mirror s)) (\<lambda>a. Inr (a, s))"

section \<open>Calm and quiet code\<close>

definition authority_ok :: "live_state \<Rightarrow> bool" where
  "authority_ok s \<longleftrightarrow> (ls_armed_until s \<noteq> None \<longrightarrow>
     \<not> ls_emergency_stop s \<and> (\<exists>b > 0. ls_baseline_equity s = Some b))"

text \<open>What every step but arming, clearing the stop and writing to the exchange respects.\<close>

definition restrained :: "live_state \<Rightarrow> live_state \<Rightarrow> bool" where
  "restrained s t \<longleftrightarrow>
     ls_sent t = ls_sent s \<and> ls_write_lock t = ls_write_lock s \<and> ls_step s \<le> ls_step t \<and>
     (ls_emergency_stop s \<longrightarrow> ls_emergency_stop t) \<and>
     (ls_armed_until t = None \<or>
      ls_armed_until t = ls_armed_until s \<and> ls_baseline_equity t = ls_baseline_equity s) \<and>
     (authority_ok s \<longrightarrow> authority_ok t) \<and>
     latch_le (ls_mirror s) (ls_mirror t) \<and> identity_le (ls_mirror s) (ls_mirror t)"

text \<open>Only the clearing of the stop removes a persisted latch: it is \<open>recovering\<close>, not \<open>quiet\<close>.\<close>

definition calm :: "live_state \<Rightarrow> live_state \<Rightarrow> bool" where
  "calm s t \<longleftrightarrow> restrained s t \<and> (latched (ls_mirror s) \<longrightarrow> latched (ls_mirror t)) \<and>
     ls_intents t = ls_intents s"

definition recovering :: "live_state \<Rightarrow> live_state \<Rightarrow> bool" where
  "recovering s t \<longleftrightarrow> restrained s t \<and>
     (intents_ok (ls_intents s) \<longrightarrow> intents_ok (ls_intents t) \<and> table_le (ls_intents s) (ls_intents t))"

definition quiet :: "live_state \<Rightarrow> live_state \<Rightarrow> bool" where
  "quiet s t \<longleftrightarrow> recovering s t \<and> (latched (ls_mirror s) \<longrightarrow> latched (ls_mirror t))"

lemma restrained_refl [simp]: "restrained s s"
  by (simp add: restrained_def)

lemma restrained_trans: "restrained s t \<Longrightarrow> restrained t u \<Longrightarrow> restrained s u"
  unfolding restrained_def by (metis latch_le_trans identity_le_trans le_trans)

interpretation cf: frame calm
  by unfold_locales (auto simp: calm_def intro: restrained_trans)

interpretation rf: frame recovering
  by unfold_locales (auto simp: recovering_def intro: restrained_trans table_le_trans)

interpretation qf: frame quiet
  by unfold_locales (auto simp: quiet_def rf.frame_refl intro: rf.frame_trans)

lemma calm_quiet: "calm s t \<Longrightarrow> quiet s t"
  by (simp add: calm_def quiet_def recovering_def)

lemma quiet_recovering: "quiet s t \<Longrightarrow> recovering s t"
  by (simp add: quiet_def)

lemma stays_mono: "stays R m \<Longrightarrow> (\<And>s t. R s t \<Longrightarrow> R' s t) \<Longrightarrow> stays R' m"
  by (simp add: stays_def)

lemma stays_quiet: "stays calm m \<Longrightarrow> stays quiet m"
  by (erule stays_mono) (rule calm_quiet)

text \<open>Updates that are calm.\<close>

named_theorems calm_intros "code that neither writes, nor arms, nor touches the intents"
named_theorems quiet_intros "code that neither writes nor arms"

lemma calm_disarm: "calm s (disarm_local k s)"
  by (simp add: calm_def restrained_def disarm_local_def authority_ok_def)

lemma calm_stop: "calm s (engage_emergency_stop c s)"
  by (simp add: calm_def restrained_def engage_emergency_stop_def disarm_local_def authority_ok_def)

lemma calm_fields:
  "calm s (s\<lparr>ls_safety_latch_code := code\<rparr>)" "calm s (s\<lparr>ls_safety_latch_version := v\<rparr>)"
  "calm s (s\<lparr>ls_safety_latch_code := code, ls_safety_latch_version := v\<rparr>)"
  "calm s (s\<lparr>ls_last_capability := c\<rparr>)" "calm s (s\<lparr>ls_last_exchange_ok_at := x\<rparr>)"
  "calm s (s\<lparr>ls_last_error := e\<rparr>)" "calm s (s\<lparr>ls_automation_running := b\<rparr>)"
  "calm s (s\<lparr>ls_unresolved_intent_count := n\<rparr>)" "calm s (s\<lparr>ls_step := Suc (ls_step s)\<rparr>)"
  "calm s (s\<lparr>ls_last_exchange_ok_at := x, ls_last_error := e\<rparr>)" "calm s (s\<lparr>ls_submissions := k\<rparr>)"
  by (simp_all add: calm_def restrained_def authority_ok_def)

lemma calm_mirror:
  "latch_le (ls_mirror s) m \<Longrightarrow> identity_le (ls_mirror s) m \<Longrightarrow> (latched (ls_mirror s) \<longrightarrow> latched m) \<Longrightarrow>
   calm s (s\<lparr>ls_mirror := m\<rparr>)"
  by (simp add: calm_def restrained_def authority_ok_def)

lemma mirror_txn_le:
  "engage_safety_latch c n m = Inr (a, m') \<Longrightarrow> latch_le m m' \<and> identity_le m m'"
  "sync_snapshot h i n m = Inr (b, m') \<Longrightarrow> latch_le m m' \<and> identity_le m m'"
  "mark_failure c n m = Inr (u, m') \<Longrightarrow> latch_le m m' \<and> identity_le m m'"
  "clear_safety_latch v n m = Inr (a, m') \<Longrightarrow> latch_le m m' \<and> identity_le m m'"
  using engage_latch_le other_txns_identity sync_identity(1) sync_same_latch mark_failure_same_latch
    clear_latch_le same_latch_le
  unfolding identity_le_def by metis+

lemma mirror_txn_latched:
  "engage_safety_latch c n m = Inr (a, m') \<Longrightarrow> latched m \<longrightarrow> latched m'"
  "sync_snapshot h i n m = Inr (b, m') \<Longrightarrow> latched m \<longrightarrow> latched m'"
  "mark_failure c n m = Inr (u, m') \<Longrightarrow> latched m \<longrightarrow> latched m'"
  using engage_Inr(1) sync_same_latch mark_failure_same_latch unfolding same_latch_def by metis+

lemma calm_interfere: "calm s (interfere E i s)"
proof (cases i)
  case (ILatch code n)
  then show ?thesis
    by (auto simp: cf.frame_refl split: sum.split intro: calm_mirror dest: mirror_txn_le mirror_txn_latched)
next
  case (ISync x n)
  then show ?thesis
    by (auto simp: cf.frame_refl split: sum.split intro: calm_mirror dest: mirror_txn_le mirror_txn_latched)
next
  case (IMarkFailure code n)
  then show ?thesis
    by (auto simp: cf.frame_refl split: sum.split intro: calm_mirror dest: mirror_txn_le mirror_txn_latched)
qed (simp_all add: calm_disarm calm_stop calm_fields)

lemma calm_others: "calm s (foldl (\<lambda>s i. interfere E i s) s is)"
  by (induction "is" arbitrary: s) (auto intro: cf.frame_refl cf.frame_trans calm_interfere)

lemma calm_await [calm_intros]: "stays calm (await E)"
  using calm_others calm_fields(9) cf.frame_trans
  by (auto simp: stays_def await_def Let_def) blast+

lemma calm_now [calm_intros]: "stays calm (clock_now E)"
  by (simp add: stays_def clock_now_def calm_fields)

lemma calm_call [calm_intros]: "stays calm (call E f)"
  unfolding call_def by (intro cf.within_intros calm_intros)

lemma stays_commit: "(\<And>s a t. f s = Inr (a, t) \<Longrightarrow> R s t) \<Longrightarrow> (\<And>s. R s s) \<Longrightarrow> stays R (commit f)"
  by (auto simp: stays_def commit_def split: sum.split)

lemma calm_database:
  assumes "\<And>n s a t. f n s = Inr (a, t) \<Longrightarrow> calm s t"
  shows "stays calm (database E f)"
proof -
  have "stays calm (commit (f n))" for n
    by (rule stays_commit) (auto intro: assms cf.frame_refl)
  then show ?thesis
    unfolding database_def by (auto split: db_fault.split intro!: cf.within_intros calm_intros)
qed

lemma quiet_database:
  assumes "\<And>n s a t. f n s = Inr (a, t) \<Longrightarrow> quiet s t"
  shows "stays quiet (database E f)"
proof -
  have "stays quiet (commit (f n))" for n
    by (rule stays_commit) (auto intro: assms qf.frame_refl)
  then show ?thesis
    unfolding database_def
    by (auto split: db_fault.split intro!: qf.within_intros calm_await [THEN stays_quiet])
qed

lemma recovering_clear: "stays recovering (database E (mirror_txn (clear_safety_latch v)))"
proof -
  have "stays recovering (commit (mirror_txn (clear_safety_latch v) n))" for n
    by (rule stays_commit)
      (auto simp: mirror_txn_def result_simps recovering_def restrained_def authority_ok_def dest: mirror_txn_le)
  then show ?thesis
    unfolding database_def
    by (auto split: db_fault.split intro!: rf.within_intros
        stays_mono [OF calm_await [THEN stays_quiet] quiet_recovering])
qed

lemma calm_queries [calm_intros]:
  "stays calm (database E (intent_query f))" "stays calm (database E (mirror_query g))"
  by (auto intro!: calm_database simp: intent_query_def mirror_query_def result_simps cf.frame_refl)

lemma calm_mirror_txns [calm_intros]:
  "stays calm (database E (mirror_txn (engage_safety_latch c)))"
  "stays calm (database E (mirror_txn (sync_snapshot h i)))"
  "stays calm (database E (mirror_txn (mark_failure c)))"
  by (auto intro!: calm_database calm_mirror simp: mirror_txn_def result_simps
      dest: mirror_txn_le mirror_txn_latched)

lemma quiet_intents:
  "(intents_ok (ls_intents s) \<Longrightarrow> intents_ok t \<and> table_le (ls_intents s) t) \<Longrightarrow> quiet s (s\<lparr>ls_intents := t\<rparr>)"
  by (simp add: quiet_def recovering_def restrained_def authority_ok_def)

lemma quiet_intent_txn:
  assumes "\<And>n t a t'. intents_ok t \<Longrightarrow> f n t = Inr (a, t') \<Longrightarrow> intents_ok t' \<and> table_le t t'"
  shows "stays quiet (database E (intent_txn f))"
  by (rule quiet_database) (auto simp: intent_txn_def result_simps intro!: quiet_intents dest: assms)

lemma intents_ok_distinct: "intents_ok t \<Longrightarrow> distinct (intent_keys t)"
  by (simp add: intents_ok_def)

lemma quiet_intent_txns [quiet_intros]:
  "stays quiet (database E (intent_txn (reserve_intent v)))"
  "stays quiet (database E (intent_txn (update_intent k st x codes)))"
  "stays quiet (database E (intent_txn (\<lambda>_. mark_unresolved_intents_operator_reconciled es w c)))"
  by (rule quiet_intent_txn; blast intro: intents_ok_reserve table_le_reserve intents_ok_update
      table_le_update intents_ok_distinct intents_ok_mark table_le_mark)+

lemmas quiet_of_calm [quiet_intros] = calm_intros [THEN stays_quiet]

end
