(* ===== verification/Live_Checks.thy ===== *)
theory Live_Checks
  imports Live_State
begin

text \<open>
  The decisions of \<open>OkxLiveService\<close> (\<^verbatim>\<open>app/okx_live/service.py\<close>) that read no state: configuration
  blockers and capabilities, the validation of an order against the instrument and the
  mark price, the order payload, the flat-account check, the position side, the matching of
  exchange orders and of protection orders, the acknowledgement of a write, and the check of
  a leverage response (\<^verbatim>\<open>app/exchange/okx/leverage.py\<close>).

  Lemmas: what a validated order satisfies at the price it was validated at, and what a
  confirmed protection consists of.
\<close>

section \<open>Configuration and capability\<close>

definition configuration_blockers :: "settings \<Rightarrow> api_key_capability option \<Rightarrow> string list" where
  "configuration_blockers S capability = sorted_set (collect
     ([(\<not> okx_live_enabled S, ''okx_live_disabled''),
       (trading_mode S \<noteq> LiveMode, ''trading_mode_not_live''),
       (\<not> okx_live_credentials_configured S, ''okx_live_credentials_missing''),
       (\<not> live_trading S, ''live_trading_disabled''),
       (\<not> okx_live_allow_order_writes S, ''okx_live_order_writes_disabled''),
       (environment S \<noteq> Production, ''production_environment_required''),
       (\<not> api_token_is_safe S, ''safe_api_token_required''),
       (web_concurrency S \<noteq> 1, ''single_worker_required'')] @
      (case capability of None \<Rightarrow> [] | Some c \<Rightarrow>
        [(\<not> cap_read_permission c, ''okx_live_read_permission_missing''),
         (\<not> cap_trade_permission c, ''okx_live_trade_permission_missing''),
         (cap_unknown_permissions c \<noteq> [], ''okx_live_unknown_api_permission''),
         (okx_live_require_ip_bound_key S \<and> \<not> cap_ip_bound c, ''okx_live_api_key_not_ip_bound''),
         (okx_live_forbid_withdraw_permission S \<and> cap_withdraw_permission c,
          ''okx_live_withdraw_permission_forbidden'')])))"

definition capability_blockers :: "string list" where
  "capability_blockers =
     [''okx_live_read_permission_missing'', ''okx_live_trade_permission_missing'',
      ''okx_live_api_key_not_ip_bound'', ''okx_live_withdraw_permission_forbidden'',
      ''okx_live_unknown_api_permission'']"

fun join_semicolon :: "string list \<Rightarrow> string" where
  "join_semicolon [] = []"
| "join_semicolon [x] = x"
| "join_semicolon (x # xs) = x @ '';'' @ join_semicolon xs"

definition check_read_ready :: "settings \<Rightarrow> unit result" where
  "check_read_ready S =
     (if \<not> okx_live_enabled S then Inl (OkxLiveSafetyError ''okx_live_disabled'')
      else if trading_mode S \<noteq> LiveMode then Inl (OkxLiveSafetyError ''trading_mode_not_live'')
      else if \<not> okx_live_credentials_configured S
        then Inl (OkxLiveSafetyError ''okx_live_credentials_missing'')
      else if auto_trade S \<or> paper_auto_execution S
        then Inl (OkxLiveSafetyError ''conflicting_automatic_execution_enabled'')
      else if okx_demo_allow_order_writes S \<or> okx_demo_auto_execution S
        then Inl (OkxLiveSafetyError ''okx_demo_execution_must_be_disabled'')
      else Inr ())"

definition check_write_configuration :: "env \<Rightarrow> api_key_capability option \<Rightarrow> unit result" where
  "check_write_configuration E capability =
     bind_result (check_read_ready (ev_settings E)) (\<lambda>_.
     let write_blockers = filter (\<lambda>b. b \<notin> set capability_blockers)
           (configuration_blockers (ev_settings E) capability)
     in if write_blockers \<noteq> [] then Inl (OkxLiveSafetyError (join_semicolon write_blockers))
        else if \<not> ev_has_mirror E \<or> \<not> ev_has_client E \<or> \<not> ev_has_repository E
        then Inl (OkxLiveSafetyError ''okx_live_execution_persistence_unavailable'')
        else Inr ())"

definition validate_read_capability :: "settings \<Rightarrow> account_config \<Rightarrow> unit result" where
  "validate_read_capability S config =
     (let c = acc_capability config in
      if \<not> cap_read_permission c then Inl (OkxLiveSafetyError ''okx_live_read_permission_missing'')
      else if cap_unknown_permissions c \<noteq> []
        then Inl (OkxLiveSafetyError ''okx_live_unknown_api_permission'')
      else if okx_live_require_ip_bound_key S \<and> \<not> cap_ip_bound c
        then Inl (OkxLiveSafetyError ''okx_live_api_key_not_ip_bound'')
      else if okx_live_forbid_withdraw_permission S \<and> cap_withdraw_permission c
        then Inl (OkxLiveSafetyError ''okx_live_withdraw_permission_forbidden'')
      else Inr ())"

definition validate_write_capability :: "settings \<Rightarrow> account_config \<Rightarrow> unit result" where
  "validate_write_capability S config =
     bind_result (validate_read_capability S config) (\<lambda>_.
     if \<not> cap_trade_permission (acc_capability config)
     then Inl (OkxLiveSafetyError ''okx_live_trade_permission_missing'')
     else if \<not> truthy (acc_uid config) \<or> \<not> truthy (acc_main_uid config)
     then Inl (OkxLiveSafetyError ''okx_live_account_identity_incomplete'')
     else Inr ())"

definition check_symbol :: "settings \<Rightarrow> string \<Rightarrow> unit result" where
  "check_symbol S instrument_id =
     raise_if (instrument_id \<notin> set (okx_live_allowed_symbol_list S))
       (OkxLiveSafetyError ''instrument_not_in_okx_live_allowlist'')"

section \<open>Flat account, position side\<close>

definition check_flat :: "settings \<Rightarrow> reconcile_result \<Rightarrow> string \<Rightarrow> unit result" where
  "check_flat S snapshot action =
     (if \<not> okx_live_require_flat_start S
        then Inl (OkxLiveSafetyError ''okx_live_flat_start_guard_disabled'')
      else if list_ex (\<lambda>p. lp_size p \<noteq> 0) (rr_positions snapshot)
        then Inl (OkxLiveSafetyError (''okx_live_positions_block_'' @ action))
      else if rr_pending_orders snapshot \<noteq> []
        then Inl (OkxLiveSafetyError (''okx_live_pending_orders_block_'' @ action))
      else if rr_pending_algo_orders snapshot \<noteq> []
        then Inl (OkxLiveSafetyError (''okx_live_algo_orders_block_'' @ action))
      else Inr ())"

fun direction_text :: "direction \<Rightarrow> string" where
  "direction_text Long = ''long''"
| "direction_text Short = ''short''"

definition position_side_of :: "account_config \<Rightarrow> direction option \<Rightarrow> string result" where
  "position_side_of config d =
     (if acc_position_mode config = ''net_mode'' then Inr ''net''
      else if acc_position_mode config = ''long_short_mode''
      then (case d of None \<Rightarrow> Inl (OkxLiveSafetyError ''direction_required_for_long_short_position_mode'')
            | Some dir \<Rightarrow> Inr (direction_text dir))
      else Inl (OkxLiveSafetyError ''unsupported_okx_live_position_mode''))"

section \<open>Order validation\<close>

definition validate_size :: "settings \<Rightarrow> decimal \<Rightarrow> instrument_info \<Rightarrow> unit result" where
  "validate_size S sz instrument =
     (if okx_live_max_order_size_contracts S < sz
        then Inl (OkxLiveSafetyError ''okx_live_order_size_exceeds_safety_cap'')
      else if sz < in_minimum_size instrument
        then Inl (OkxLiveSafetyError ''okx_live_order_size_below_instrument_minimum'')
      else if in_lot_size instrument \<le> 0
        then Inl (OkxLiveSafetyError ''okx_live_order_size_not_aligned_to_lot_size'')
      else bind_result (dmod_checked sz (in_lot_size instrument)) (\<lambda>r.
        raise_if (r \<noteq> 0) (OkxLiveSafetyError ''okx_live_order_size_not_aligned_to_lot_size'')))"

definition validate_tick :: "decimal \<Rightarrow> decimal \<Rightarrow> string \<Rightarrow> unit result" where
  "validate_tick v tick field =
     (let e = OkxLiveSafetyError (''okx_live_'' @ field @ ''_not_aligned_to_tick_size'') in
      if tick \<le> 0 then Inl e
      else bind_result (dmod_checked v tick) (\<lambda>r. raise_if (r \<noteq> 0) e))"

definition contract_notional :: "decimal \<Rightarrow> decimal \<Rightarrow> instrument_info \<Rightarrow> decimal result" where
  "contract_notional sz reference_price instrument =
     (case in_contract_value instrument of
        None \<Rightarrow> Inl (OkxLiveSafetyError ''okx_live_contract_value_missing'')
      | Some contract_value \<Rightarrow>
          if contract_value \<le> 0 then Inl (OkxLiveSafetyError ''okx_live_contract_value_missing'')
          else (case split_dash 2 (in_instrument_id instrument) of
            [base, quote, _] \<Rightarrow>
              (let currency = str_upper (case in_contract_currency instrument of None \<Rightarrow> [] | Some c \<Rightarrow> c)
               in if currency = base then Inr (dmul (dmul sz contract_value) reference_price)
                  else if currency = quote then Inr (dmul sz contract_value)
                  else Inl (OkxLiveSafetyError ''okx_live_contract_value_currency_unsupported''))
          | _ \<Rightarrow> Inl (ValueError ''not enough values to unpack'')))"

definition validate_order_at_price ::
  "settings \<Rightarrow> live_order_request \<Rightarrow> instrument_info \<Rightarrow> decimal \<Rightarrow> unit result" where
  "validate_order_at_price S r instrument reference_price =
     (if reference_price \<le> 0 then Inl (OkxLiveSafetyError ''okx_live_reference_price_invalid'')
      else bind_result (validate_size S (oq_size r) instrument) (\<lambda>_.
      bind_result (validate_tick (oq_stop_loss r) (in_tick_size instrument) ''stop_loss'') (\<lambda>_.
      bind_result (validate_tick (oq_take_profit r) (in_tick_size instrument) ''take_profit'') (\<lambda>_.
      if oq_direction r = Long \<and> \<not> (oq_stop_loss r < reference_price \<and> reference_price < oq_take_profit r)
        then Inl (OkxLiveSafetyError ''okx_live_long_protection_prices_invalid'')
      else if oq_direction r = Short \<and> \<not> (oq_take_profit r < reference_price \<and> reference_price < oq_stop_loss r)
        then Inl (OkxLiveSafetyError ''okx_live_short_protection_prices_invalid'')
      else if okx_live_max_leverage S < oq_leverage r
        then Inl (OkxLiveSafetyError ''requested_leverage_exceeds_live_safety_cap'')
      else bind_result (contract_notional (oq_size r) reference_price instrument) (\<lambda>notional.
        raise_if (okx_live_max_notional_usdt S < notional)
          (OkxLiveSafetyError ''okx_live_order_notional_exceeds_safety_cap''))))))"

definition check_instrument :: "instrument_info list \<Rightarrow> instrument_info result" where
  "check_instrument instruments =
     (case instruments of
        [i] \<Rightarrow> if in_state i \<noteq> ''live'' \<or> in_instrument_type i \<noteq> ''SWAP''
               then Inl (OkxLiveSafetyError ''okx_live_instrument_not_live_swap'') else Inr i
      | _ \<Rightarrow> Inl (OkxLiveUnavailableError ''okx_live_instrument_not_found''))"

definition check_exchange_max_size :: "max_size_row list \<Rightarrow> direction \<Rightarrow> decimal \<Rightarrow> unit result" where
  "check_exchange_max_size rows d sz =
     (case rows of
        [] \<Rightarrow> Inl (OkxLiveUnavailableError ''okx_live_max_order_size_empty'')
      | row # _ \<Rightarrow>
          (case (case d of Long \<Rightarrow> mx_max_buy row | Short \<Rightarrow> mx_max_sell row) of
             None \<Rightarrow> Inl (OkxLiveSafetyError ''okx_live_order_size_exceeds_exchange_maximum'')
           | Some v \<Rightarrow> bind_result v (\<lambda>m. raise_if (m < sz)
               (OkxLiveSafetyError ''okx_live_order_size_exceeds_exchange_maximum''))))"

definition order_payload_of ::
  "settings \<Rightarrow> live_order_request \<Rightarrow> string \<Rightarrow> string \<Rightarrow> order_payload result" where
  "order_payload_of S r side position_side =
     bind_result (protection_client_order_id (oq_client_order_id r)) (\<lambda>protection.
     Inr \<lparr>op_inst_id = oq_instrument_id r, op_td_mode = oq_margin_mode r,
          op_cl_ord_id = oq_client_order_id r, op_tag = okx_live_order_tag S, op_side = side,
          op_pos_side = position_side, op_sz = oq_size r,
          op_attach_algo_cl_ord_id = protection, op_tp_trigger_px = oq_take_profit r,
          op_sl_trigger_px = oq_stop_loss r, op_trigger_px_type = oq_trigger_price_type r\<rparr>)"

section \<open>Replies to writes\<close>

definition leverage_response_matches ::
  "leverage_row list \<Rightarrow> string \<Rightarrow> string \<Rightarrow> int \<Rightarrow> string \<Rightarrow> bool" where
  "leverage_response_matches rows instrument_id margin_mode leverage position_side =
     list_ex (\<lambda>row. lr_inst_id row = instrument_id \<and> lr_mgn_mode row = margin_mode \<and>
       (if position_side = ''net'' then lr_pos_side row \<in> {[], ''net''}
        else lr_pos_side row = position_side) \<and>
       lr_lever row = Some (of_int leverage)) rows"

definition ack_of :: "ack_row list \<Rightarrow> acknowledgement result" where
  "ack_of data =
     (case data of
        [] \<Rightarrow> Inl (OkxLiveUnavailableError ''okx_live_write_acknowledgement_empty'')
      | row # _ \<Rightarrow> Inr \<lparr>ack_order_id = ar_ord_id row, ack_client_order_id = or_none (ar_cl_ord_id row),
          ack_exchange_code = (if ar_s_code row = [] then ''0'' else ar_s_code row)\<rparr>)"

text \<open>The classification of a failed write: only a coded rejection of the exchange is definite.\<close>

definition ambiguous_failure :: "exn \<Rightarrow> bool" where
  "ambiguous_failure e = (case e of
     OkxPrivateApiError code \<Rightarrow> code \<in> {Some ''transport_error'', Some ''ambiguous_response''}
   | _ \<Rightarrow> True)"

definition safe_failure_code :: "exn \<Rightarrow> string" where
  "safe_failure_code e = (case e of
     OkxLiveAccountIdentityError m \<Rightarrow> take 250 m
   | OkxPrivateApiError code \<Rightarrow>
       (if code = Some ''transport_error'' then ''okx_live_private_api_unavailable''
        else ''okx_live_private_api_rejected'')
   | OkxPublicApiError code \<Rightarrow> ''okx_live_public_api_unavailable''
   | OkxLiveUnavailableError m \<Rightarrow> take 250 m
   | OkxLiveSafetyError m \<Rightarrow> ''okx_live_capability_rejected''
   | _ \<Rightarrow> ''okx_live_reconcile_failed'')"

section \<open>Matching orders and protection\<close>

definition final_order_states :: "string list" where
  "final_order_states = [''filled'', ''canceled'', ''mmp_canceled'']"

definition cancel_confirmed_states :: "string list" where
  "cancel_confirmed_states = [''canceled'', ''mmp_canceled'']"

definition order_identity_matches :: "live_order \<Rightarrow> string \<Rightarrow> string option \<Rightarrow> string option \<Rightarrow> bool" where
  "order_identity_matches order instrument_id order_id client_order_id =
     (if lo_instrument_id order \<noteq> instrument_id then False
      else case order_id of
        Some i \<Rightarrow> lo_order_id order = i
      | None \<Rightarrow> client_order_id \<noteq> None \<and> lo_client_order_id order = client_order_id)"

definition position_is_long :: "live_position \<Rightarrow> bool result" where
  "position_is_long p =
     (if lp_position_side p = ''long'' then Inr True
      else if lp_position_side p = ''short'' then Inr False
      else if lp_position_side p = ''net'' \<and> lp_size p \<noteq> 0 then Inr (0 < lp_size p)
      else Inl (OkxLiveSafetyError ''okx_live_position_side_invalid''))"

record protection_terms =
  pt_client_order_id :: string
  pt_size :: decimal
  pt_stop_loss :: decimal
  pt_take_profit :: decimal
  pt_trigger_price_type :: string

definition algo_fields_match :: "live_algo_order \<Rightarrow> live_position \<Rightarrow> protection_terms \<Rightarrow> bool" where
  "algo_fields_match a p t \<longleftrightarrow>
     (let position_size = dabs (lp_size p) in
     la_algo_order_id a \<noteq> [] \<and> la_instrument_type a = Some ''SWAP'' \<and>
     la_instrument_id a = lp_instrument_id p \<and> la_order_type a = ''oco'' \<and>
     str_lower (la_state a) = ''live'' \<and> la_position_side a = Some (lp_position_side p) \<and>
     la_margin_mode a \<noteq> None \<and> la_margin_mode a = lp_margin_mode p \<and>
     la_take_profit_trigger_price a = Some (pt_take_profit t) \<and>
     la_stop_loss_trigger_price a = Some (pt_stop_loss t) \<and>
     la_take_profit_trigger_price_type a = Some (pt_trigger_price_type t) \<and>
     la_stop_loss_trigger_price_type a = Some (pt_trigger_price_type t) \<and>
     la_take_profit_order_price a = Some (- 1) \<and> la_stop_loss_order_price a = Some (- 1) \<and>
     0 < position_size \<and> position_size \<le> la_size a \<and> la_size a \<le> pt_size t \<and>
     la_actual_size a = 0 \<and> la_trigger_time a = None \<and> la_failure_code a = None \<and>
     la_close_fraction a \<in> {None, Some 0} \<and>
     la_amend_price_on_trigger_type a \<in> {None, Some ''0''})"

definition algo_protects_position ::
  "live_algo_order \<Rightarrow> live_position \<Rightarrow> protection_terms \<Rightarrow> bool result" where
  "algo_protects_position a p t =
     (if \<not> algo_fields_match a p t then Inr False
      else bind_result (position_is_long p) (\<lambda>is_long.
        if la_side a \<noteq> Some (if is_long then ''sell'' else ''buy'') then Inr False
        else if lp_position_side p = ''net'' \<and> la_reduce_only a \<noteq> Some True then Inr False
        else if is_long then Inr (pt_stop_loss t < pt_take_profit t)
        else Inr (pt_take_profit t < pt_stop_loss t)))"

definition exact_protection_match_count ::
  "live_algo_order list \<Rightarrow> live_position \<Rightarrow> protection_terms \<Rightarrow> nat result" where
  "exact_protection_match_count algo_orders p t =
     (case filter (\<lambda>a. la_client_algo_order_id a = Some (pt_client_order_id t)) algo_orders of
        [a] \<Rightarrow> bind_result (algo_protects_position a p t) (\<lambda>b. Inr (if b then 1 else 0))
      | _ \<Rightarrow> Inr 0)"

definition request_terms :: "live_order_request \<Rightarrow> string \<Rightarrow> protection_terms" where
  "request_terms r protection_id =
     \<lparr>pt_client_order_id = protection_id, pt_size = oq_size r, pt_stop_loss = oq_stop_loss r,
      pt_take_profit = oq_take_profit r, pt_trigger_price_type = oq_trigger_price_type r\<rparr>"

definition protection_confirmed ::
  "reconcile_result option \<Rightarrow> live_order_request \<Rightarrow> string \<Rightarrow> bool result" where
  "protection_confirmed snapshot r protection_id =
     (case snapshot of None \<Rightarrow> Inr False
      | Some snap \<Rightarrow>
          (case filter (\<lambda>p. lp_instrument_id p = oq_instrument_id r \<and> lp_size p \<noteq> 0) (rr_positions snap) of
             [p] \<Rightarrow>
               if lp_margin_mode p \<noteq> Some (oq_margin_mode r) then Inr False
               else bind_result (position_is_long p) (\<lambda>is_long.
                 if is_long \<noteq> (oq_direction r = Long) then Inr False
                 else bind_result (exact_protection_match_count (rr_pending_algo_orders snap) p
                     (request_terms r protection_id)) (\<lambda>n. Inr (n = 1)))
           | _ \<Rightarrow> Inr False))"

definition post_order_exposure_confirmed ::
  "reconcile_result option \<Rightarrow> live_order_request \<Rightarrow> string \<Rightarrow> bool result" where
  "post_order_exposure_confirmed snapshot r protection_id =
     (case snapshot of None \<Rightarrow> Inr False
      | Some snap \<Rightarrow>
          if rr_pending_orders snap \<noteq> [] then Inr False
          else if length (filter (\<lambda>p. lp_size p \<noteq> 0) (rr_positions snap)) \<noteq> 1 \<or>
                  length (rr_pending_algo_orders snap) \<noteq> 1 then Inr False
          else protection_confirmed snapshot r protection_id)"

definition exposure_present :: "reconcile_result option \<Rightarrow> string \<Rightarrow> bool" where
  "exposure_present snapshot instrument_id =
     (case snapshot of None \<Rightarrow> True
      | Some snap \<Rightarrow> list_ex (\<lambda>p. lp_instrument_id p = instrument_id \<and> lp_size p \<noteq> 0) (rr_positions snap))"

definition clean_flat :: "reconcile_result \<Rightarrow> bool" where
  "clean_flat snap \<longleftrightarrow> \<not> list_ex (\<lambda>p. lp_size p \<noteq> 0) (rr_positions snap) \<and>
     rr_pending_orders snap = [] \<and> rr_pending_algo_orders snap = []"

definition intent_terms :: "intent \<Rightarrow> protection_terms option" where
  "intent_terms i =
     (case (it_protection_client_order_id i, it_expected_protection_size i, it_expected_stop_loss i,
            it_expected_take_profit i, it_expected_trigger_price_type i) of
        (Some c, Some z, Some sl, Some tp, Some ty) \<Rightarrow>
          Some \<lparr>pt_client_order_id = c, pt_size = z, pt_stop_loss = sl, pt_take_profit = tp,
                pt_trigger_price_type = ty\<rparr>
      | _ \<Rightarrow> None)"

definition intent_protects_position :: "reconcile_result \<Rightarrow> live_position \<Rightarrow> intent \<Rightarrow> bool result" where
  "intent_protects_position snap p i =
     (if it_instrument_id i \<noteq> lp_instrument_id p then Inr False
      else case intent_terms i of None \<Rightarrow> Inr False
        | Some t \<Rightarrow> bind_result (exact_protection_match_count (rr_pending_algo_orders snap) p t)
            (\<lambda>n. Inr (n = 1)))"

fun filter_result :: "('a \<Rightarrow> bool result) \<Rightarrow> 'a list \<Rightarrow> 'a list result" where
  "filter_result f [] = Inr []"
| "filter_result f (x # xs) = bind_result (f x) (\<lambda>b. bind_result (filter_result f xs) (\<lambda>ys.
     Inr (if b then x # ys else ys)))"

text \<open>The loop of \<open>_reconciled_positions_protected\<close> over the open positions.\<close>

fun positions_protected :: "reconcile_result \<Rightarrow> intent list \<Rightarrow> live_position list \<Rightarrow> bool result" where
  "positions_protected snap intents [] = Inr True"
| "positions_protected snap intents (p # ps) =
     bind_result (filter_result (intent_protects_position snap p) intents) (\<lambda>matching.
     if length matching \<noteq> 1 then Inr False else positions_protected snap intents ps)"

definition protection_shape_ok :: "reconcile_result \<Rightarrow> bool" where
  "protection_shape_ok snap \<longleftrightarrow> rr_pending_orders snap = [] \<and>
     length (rr_pending_algo_orders snap) = length (filter (\<lambda>p. lp_size p \<noteq> 0) (rr_positions snap))"

section \<open>Intent expectations\<close>

definition intent_expectation_of :: "intent \<Rightarrow> intent_expectation" where
  "intent_expectation_of i =
     \<lparr>ie_idempotency_key = it_idempotency_key i, ie_status = it_status i, ie_updated_at = it_updated_at i\<rparr>"

text \<open>Equality of two dictionaries keyed by the idempotency key.\<close>

definition intent_expectations_match :: "intent list \<Rightarrow> intent_expectation list \<Rightarrow> bool" where
  "intent_expectations_match unresolved_rows expectations =
     (let actual = expectation_of (map intent_expectation_of unresolved_rows);
          expected = expectation_of expectations;
          keys = map it_idempotency_key unresolved_rows @ map ie_idempotency_key expectations
      in list_all (\<lambda>k. actual k = expected k) keys)"

section \<open>Lemmas\<close>

lemma check_write_configuration_Inr:
  assumes "check_write_configuration E c = Inr ()"
  shows "ev_has_mirror E" "ev_has_client E" "ev_has_repository E"
    "okx_live_enabled (ev_settings E)" "trading_mode (ev_settings E) = LiveMode"
  using assms
  by (auto simp: check_write_configuration_def check_read_ready_def Let_def split: if_splits)

lemma validate_order_at_price_Inr:
  assumes "validate_order_at_price S r i p = Inr ()"
  shows "0 < p" "oq_size r \<le> okx_live_max_order_size_contracts S" "in_minimum_size i \<le> oq_size r"
    "oq_leverage r \<le> okx_live_max_leverage S" "brackets (oq_direction r) (oq_stop_loss r) p (oq_take_profit r)"
    "\<exists>n. contract_notional (oq_size r) p i = Inr n \<and> n \<le> okx_live_max_notional_usdt S"
  using assms
  by (auto simp: validate_order_at_price_def validate_size_def brackets_def result_simps
      split: if_splits direction.splits)

lemma check_flat_Inr: "check_flat S snap a = Inr () \<Longrightarrow> clean_flat snap \<and> okx_live_require_flat_start S"
  by (auto simp: check_flat_def clean_flat_def split: if_splits)

lemma exact_protection_match:
  assumes "exact_protection_match_count algos p t = Inr n" "n = 1"
  shows "\<exists>a \<in> set algos. la_client_algo_order_id a = Some (pt_client_order_id t) \<and>
    algo_fields_match a p t \<and> algo_protects_position a p t = Inr True"
proof -
  obtain a where a: "filter (\<lambda>a. la_client_algo_order_id a = Some (pt_client_order_id t)) algos = [a]"
    and t: "algo_protects_position a p t = Inr True"
    using assms by (auto simp: exact_protection_match_count_def result_simps split: list.splits if_splits)
  have "a \<in> set (filter (\<lambda>a. la_client_algo_order_id a = Some (pt_client_order_id t)) algos)" using a by simp
  moreover have "algo_fields_match a p t" using t by (simp add: algo_protects_position_def split: if_splits)
  ultimately show ?thesis using t by auto
qed

end
