(* ===== verification/Live_Service.thy ===== *)
theory Live_Service
  imports Live_Checks
begin

text \<open>
  The methods of \<open>OkxLiveService\<close> (\<^verbatim>\<open>app/okx_live/service.py\<close>), each an effect on \<open>live_state\<close> in
  an environment \<open>E\<close>: the reads and \<open>reconcile\<close>, the persistent stop and the safety checks, the
  execution guard, the bookkeeping of intents around a write, and the handlers \<open>arm\<close>,
  \<open>disarm\<close>, \<open>emergency_stop\<close>, \<open>clear_emergency_stop\<close>, \<open>place_order\<close>, \<open>cancel_order\<close>,
  \<open>close_position\<close>, \<open>set_leverage\<close>, \<open>startup\<close> and \<open>shutdown\<close>. Polling loops recurse on the number
  of attempts that the settings configure, so every method returns.

  The \<open>try\<close> block of \<open>place_order\<close> names the stage it is in; here each stage carries the same
  handler with its own name, which is the same since the handler re-raises.
\<close>

section \<open>Authority\<close>

definition engage :: "string \<Rightarrow> unit live" where
  "engage code = modify (engage_emergency_stop code)"

definition disarm_eff :: "bool \<Rightarrow> unit live" where
  "disarm_eff keep = modify (disarm_local keep)"

definition expire_arm_if_needed :: "env \<Rightarrow> unit live" where
  "expire_arm_if_needed E =
     bind_eff (gets ls_armed_until) (\<lambda>a. case a of
       None \<Rightarrow> ret ()
     | Some t \<Rightarrow> bind_eff (clock_now E) (\<lambda>n. if t \<le> n then disarm_eff False else ret ()))"

definition require_armed :: "env \<Rightarrow> unit live" where
  "require_armed E =
     seq_eff (expire_arm_if_needed E)
     (bind_eff (gets ls_emergency_stop) (\<lambda>stopped.
      seq_eff (raise_when stopped (OkxLiveSafetyError ''okx_live_emergency_stop_engaged''))
      (bind_eff (gets ls_armed_until) (\<lambda>a.
      seq_eff (raise_when (a = None) (OkxLiveSafetyError ''okx_live_not_armed''))
      (bind_eff (gets ls_submissions) (\<lambda>n.
       if okx_live_max_submissions_per_arm (ev_settings E) \<le> n
       then seq_eff (disarm_eff True)
         (raise (OkxLiveSafetyError ''okx_live_arm_submission_limit_reached''))
       else ret ()))))))"

definition record_success :: "env \<Rightarrow> unit live" where
  "record_success E = bind_eff (clock_now E) (\<lambda>n.
     modify (\<lambda>s. s\<lparr>ls_last_exchange_ok_at := Some n, ls_last_error := None\<rparr>))"

definition record_error :: "exn \<Rightarrow> unit live" where
  "record_error e = modify (\<lambda>s. s\<lparr>ls_last_error := Some (safe_failure_code e)\<rparr>)"

definition engage_persistent_emergency_stop :: "env \<Rightarrow> string \<Rightarrow> unit live" where
  "engage_persistent_emergency_stop E code =
     seq_eff (engage code)
     (if \<not> ev_has_mirror E
      then raise (OkxLiveUnavailableError ''okx_live_safety_latch_persist_failed'')
      else bind_eff (try_except (database E (mirror_txn (engage_safety_latch code)))
          (\<lambda>_. raise (OkxLiveUnavailableError ''okx_live_safety_latch_persist_failed'')))
        (\<lambda>st. modify (\<lambda>s. s\<lparr>ls_safety_latch_code := sl_code st, ls_safety_latch_version := sl_version st\<rparr>)))"

section \<open>Reads\<close>

definition ensure_read_ready :: "env \<Rightarrow> unit live" where
  "ensure_read_ready E = lift_result (check_read_ready (ev_settings E))"

definition ensure_write_configuration :: "env \<Rightarrow> unit live" where
  "ensure_write_configuration E =
     bind_eff (gets ls_last_capability) (\<lambda>c. lift_result (check_write_configuration E c))"

definition ensure_symbol :: "env \<Rightarrow> string \<Rightarrow> unit live" where
  "ensure_symbol E i = lift_result (check_symbol (ev_settings E) i)"

definition ensure_symbol_opt :: "env \<Rightarrow> string option \<Rightarrow> unit live" where
  "ensure_symbol_opt E i = (case i of None \<Rightarrow> ret () | Some x \<Rightarrow> ensure_symbol E x)"

definition account_config_eff :: "env \<Rightarrow> account_config live" where
  "account_config_eff E =
     seq_eff (ensure_read_ready E)
     (bind_eff (call E (ev_account_config E)) (\<lambda>rows. case rows of
        [] \<Rightarrow> raise (OkxLiveUnavailableError ''okx_live_account_config_empty'')
      | config # _ \<Rightarrow>
          seq_eff (lift_result (validate_read_capability (ev_settings E) config))
          (seq_eff (modify (\<lambda>s. s\<lparr>ls_last_capability := Some (acc_capability config)\<rparr>))
          (seq_eff (record_success E) (ret config)))))"

definition balance_eff :: "env \<Rightarrow> balance_snapshot live" where
  "balance_eff E =
     seq_eff (ensure_read_ready E)
     (bind_eff (call E (ev_balance E)) (\<lambda>rows. case rows of
        [] \<Rightarrow> raise (OkxLiveUnavailableError ''okx_live_balance_empty'')
      | v # _ \<Rightarrow> seq_eff (record_success E) (ret v)))"

definition positions_eff :: "env \<Rightarrow> string option \<Rightarrow> live_position list live" where
  "positions_eff E i =
     seq_eff (ensure_read_ready E) (seq_eff (ensure_symbol_opt E i)
     (bind_eff (call E (\<lambda>n. ev_positions E n i)) (\<lambda>v. seq_eff (record_success E) (ret v))))"

definition pending_orders_eff :: "env \<Rightarrow> string option \<Rightarrow> live_order list live" where
  "pending_orders_eff E i =
     seq_eff (ensure_read_ready E) (seq_eff (ensure_symbol_opt E i)
     (bind_eff (call E (\<lambda>n. ev_pending_orders E n i)) (\<lambda>v. seq_eff (record_success E) (ret v))))"

definition pending_algo_orders_eff :: "env \<Rightarrow> string option \<Rightarrow> live_algo_order list live" where
  "pending_algo_orders_eff E i =
     seq_eff (ensure_read_ready E) (seq_eff (ensure_symbol_opt E i)
     (bind_eff (call E (\<lambda>n. ev_pending_algo_orders E n i)) (\<lambda>v. seq_eff (record_success E) (ret v))))"

definition order_detail_eff :: "env \<Rightarrow> string \<Rightarrow> string option \<Rightarrow> string option \<Rightarrow> live_order live" where
  "order_detail_eff E i order_id client_order_id =
     seq_eff (ensure_read_ready E) (seq_eff (ensure_symbol E i)
     (seq_eff (raise_when (truthy order_id = truthy client_order_id)
        (OkxLiveSafetyError ''provide_exactly_one_order_identifier''))
     (bind_eff (call E (\<lambda>n. ev_order_detail E n i order_id client_order_id)) (\<lambda>rows. case rows of
        [] \<Rightarrow> raise (OkxLiveUnavailableError ''okx_live_order_not_found'')
      | v # _ \<Rightarrow> seq_eff (record_success E) (ret v)))))"

section \<open>Status\<close>

definition unavailable_mirror :: "string option \<Rightarrow> mirror_status_view" where
  "unavailable_mirror e =
     \<lparr>ms_available = False, ms_order_count = 0, ms_position_count = 0, ms_algo_order_count = 0,
      ms_last_reconciled_at = None, ms_last_error = e, ms_safety_latched = False,
      ms_safety_latch_code = None, ms_safety_latch_version = 0\<rparr>"

definition mirror_status_eff :: "env \<Rightarrow> mirror_status_view live" where
  "mirror_status_eff E =
     (if \<not> ev_has_mirror E then ret (unavailable_mirror None)
      else try_except (database E (mirror_query (\<lambda>m. Inr (mirror_status m))))
        (\<lambda>_. ret (unavailable_mirror (Some ''okx_live_mirror_status_unavailable''))))"

definition arm_view :: "env \<Rightarrow> live_state \<Rightarrow> arm_status_view" where
  "arm_view E s =
     \<lparr>as_armed = (ls_armed_until s \<noteq> None), as_emergency_stop = ls_emergency_stop s,
      as_expires_at = ls_armed_until s, as_baseline_equity = ls_baseline_equity s,
      as_submissions = ls_submissions s,
      as_max_submissions = okx_live_max_submissions_per_arm (ev_settings E),
      as_automation_running = ls_automation_running s,
      as_unresolved_intent_count = ls_unresolved_intent_count s,
      as_safety_latch_code = ls_safety_latch_code s,
      as_safety_latch_version = ls_safety_latch_version s, as_last_error = ls_last_error s\<rparr>"

definition arm_status :: "env \<Rightarrow> arm_status_view live" where
  "arm_status E = seq_eff (expire_arm_if_needed E) (gets (arm_view E))"

definition or_else :: "string option \<Rightarrow> string \<Rightarrow> string" where
  "or_else v d = (case v of None \<Rightarrow> d | Some s \<Rightarrow> if s = [] then d else s)"

definition read_blockers :: "string list" where
  "read_blockers =
     [''okx_live_disabled'', ''trading_mode_not_live'', ''okx_live_credentials_missing'',
      ''okx_live_read_permission_missing'', ''okx_live_api_key_not_ip_bound'',
      ''okx_live_withdraw_permission_forbidden'', ''okx_live_unknown_api_permission'']"

definition status_blockers :: "env \<Rightarrow> live_state \<Rightarrow> string list" where
  "status_blockers E s =
     (let blockers = configuration_blockers (ev_settings E) (ls_last_capability s)
      in if ls_unresolved_intent_count s \<noteq> 0
         then sorted_set (blockers @ [''okx_live_unresolved_execution_intents'']) else blockers)"

definition status_view :: "env \<Rightarrow> mirror_status_view \<Rightarrow> string list \<Rightarrow> live_state \<Rightarrow> arm_status_view \<Rightarrow> live_status" where
  "status_view E m blockers s a =
     (let S = ev_settings E in
      \<lparr>st_enabled = okx_live_enabled S, st_trading_mode = trading_mode S,
       st_credentials_configured = okx_live_credentials_configured S,
       st_read_ready = (ls_last_capability s \<noteq> None \<and> \<not> list_ex (\<lambda>b. b \<in> set read_blockers) blockers),
       st_live_trading_enabled = live_trading S, st_writes_enabled = okx_live_allow_order_writes S,
       st_automation_enabled = okx_live_auto_execution S,
       st_allowed_symbols = okx_live_allowed_symbol_list S,
       st_max_order_size_contracts = okx_live_max_order_size_contracts S,
       st_max_notional_usdt = okx_live_max_notional_usdt S,
       st_max_open_positions = okx_live_max_open_positions S,
       st_max_leverage = okx_live_max_leverage S, st_capability = ls_last_capability s,
       st_mirror = m, st_last_exchange_ok_at = ls_last_exchange_ok_at s,
       st_last_error = (if truthy (ls_last_error s) then ls_last_error s else ms_last_error m),
       st_blockers = blockers, st_arm = a\<rparr>)"

definition status :: "env \<Rightarrow> live_status live" where
  "status E =
     bind_eff (mirror_status_eff E) (\<lambda>m.
     seq_eff (modify (\<lambda>s. s\<lparr>ls_safety_latch_version := ms_safety_latch_version m\<rparr>))
     (seq_eff
       (if ms_safety_latched m
        then seq_eff (modify (\<lambda>s. s\<lparr>ls_safety_latch_code := ms_safety_latch_code m\<rparr>))
          (engage (or_else (ms_safety_latch_code m) ''okx_live_safety_latch_engaged''))
        else ret ())
     (bind_eff (gets (status_blockers E)) (\<lambda>blockers.
      bind_eff (gets id) (\<lambda>s.
      bind_eff (arm_status E) (\<lambda>a. ret (status_view E m blockers s a)))))))"

definition connectivity_check :: "env \<Rightarrow> live_status live" where
  "connectivity_check E = seq_eff (account_config_eff E) (seq_eff (balance_eff E) (status E))"

definition set_automation_running :: "bool \<Rightarrow> unit live" where
  "set_automation_running b = modify (\<lambda>s. s\<lparr>ls_automation_running := b\<rparr>)"

section \<open>Reconciliation\<close>

definition reconciled_positions_protected :: "env \<Rightarrow> reconcile_result \<Rightarrow> bool live" where
  "reconciled_positions_protected E snap =
     (let positions = filter (\<lambda>p. lp_size p \<noteq> 0) (rr_positions snap) in
      if positions = [] then ret True
      else if \<not> protection_shape_ok snap then ret False
      else if \<not> ev_has_repository E then ret False
      else bind_eff (try_except
          (bind_eff (database E (intent_query (load_protection_intents 1000))) (\<lambda>is. ret (Some is)))
          (\<lambda>_. ret None)) (\<lambda>loaded. case loaded of
        None \<Rightarrow> ret False
      | Some intents \<Rightarrow>
          if \<not> distinct (map la_algo_order_id (rr_pending_algo_orders snap)) then ret False
          else lift_result (positions_protected snap intents positions)))"

definition reconcile_body :: "env \<Rightarrow> bool \<Rightarrow> reconcile_result live" where
  "reconcile_body E enforce_protection =
     bind_eff (account_config_eff E) (\<lambda>config.
     bind_eff (call E (ev_account_rows E)) (\<lambda>rows. case rw_balance rows of
       [] \<Rightarrow> raise (OkxLiveUnavailableError ''okx_live_balance_empty'')
     | balance # _ \<Rightarrow>
       bind_eff
         (if ev_has_mirror E
          then seq_eff (database E (mirror_txn (sync_snapshot (ev_sha256 E)
              \<lparr>si_account_config = config, si_balance = balance, si_positions = rw_positions rows,
               si_orders = rw_history rows @ rw_pending rows, si_algo_orders = rw_algo rows\<rparr>)))
            (ret True)
          else ret False) (\<lambda>persisted.
       bind_eff (clock_now E) (\<lambda>reconciled_at.
       seq_eff (modify (\<lambda>s. s\<lparr>ls_last_exchange_ok_at := Some reconciled_at, ls_last_error := None\<rparr>))
       (let snap = \<lparr>rr_account_config = config, rr_balance = balance,
              rr_positions = rw_positions rows, rr_pending_orders = rw_pending rows,
              rr_recent_orders = rw_history rows, rr_pending_algo_orders = rw_algo rows,
              rr_persisted = persisted, rr_reconciled_at = reconciled_at\<rparr>
        in seq_eff
          (if enforce_protection \<and> okx_live_require_protection (ev_settings E)
           then bind_eff (reconciled_positions_protected E snap) (\<lambda>ok.
             if ok then ret ()
             else engage_persistent_emergency_stop E ''live_position_protection_not_confirmed'')
           else ret ())
          (ret snap))))))"

definition reconcile_failed :: "env \<Rightarrow> exn \<Rightarrow> reconcile_result live" where
  "reconcile_failed E e =
     seq_eff (record_error e)
     (seq_eff
       (if ev_has_mirror E
        then try_except (database E (mirror_txn (mark_failure (safe_failure_code e)))) (\<lambda>_. ret ())
        else ret ())
       (raise e))"

definition reconcile :: "env \<Rightarrow> bool \<Rightarrow> reconcile_result live" where
  "reconcile E enforce_protection =
     seq_eff (ensure_read_ready E)
       (try_except (reconcile_body E enforce_protection) (reconcile_failed E))"

section \<open>Safety checks before a write\<close>

definition load_unresolved :: "env \<Rightarrow> intent list live" where
  "load_unresolved E = database E (intent_query (load_unresolved_intents 1000))"

definition assert_safety_latch_clear :: "env \<Rightarrow> unit live" where
  "assert_safety_latch_clear E =
     (if \<not> ev_has_mirror E
      then seq_eff (engage ''okx_live_safety_latch_unavailable'')
        (raise (OkxLiveUnavailableError ''okx_live_safety_latch_unavailable''))
      else bind_eff (try_except (database E (mirror_query safety_latch_status))
          (\<lambda>_. seq_eff (engage ''okx_live_safety_latch_unavailable'')
             (raise (OkxLiveUnavailableError ''okx_live_safety_latch_unavailable'')))) (\<lambda>st.
        seq_eff (modify (\<lambda>s. s\<lparr>ls_safety_latch_version := sl_version st\<rparr>))
        (seq_eff (modify (\<lambda>s. s\<lparr>ls_safety_latch_code := sl_code st\<rparr>))
        (if sl_latched st
         then seq_eff (engage (or_else (sl_code st) ''okx_live_safety_latch_engaged''))
           (raise (OkxLiveSafetyError ''okx_live_safety_latch_engaged''))
         else ret ()))))"

definition recovery_unavailable :: "'a live" where
  "recovery_unavailable =
     seq_eff (engage ''okx_live_intent_recovery_unavailable'')
       (raise (OkxLiveUnavailableError ''okx_live_intent_recovery_unavailable''))"

definition assert_no_unresolved_intents :: "env \<Rightarrow> unit live" where
  "assert_no_unresolved_intents E =
     (if \<not> ev_has_repository E then recovery_unavailable
      else bind_eff (try_except (load_unresolved E) (\<lambda>_. recovery_unavailable)) (\<lambda>rows.
        seq_eff (modify (\<lambda>s. s\<lparr>ls_unresolved_intent_count := length rows\<rparr>))
        (if rows \<noteq> []
         then seq_eff (engage ''okx_live_unresolved_execution_intents'')
           (raise (OkxLiveSafetyError ''okx_live_unresolved_execution_intents''))
         else ret ())))"

definition assert_execution_safe :: "env \<Rightarrow> unit live" where
  "assert_execution_safe E =
     seq_eff (assert_safety_latch_clear E)
     (seq_eff (assert_no_unresolved_intents E)
     (bind_eff (gets ls_emergency_stop) (\<lambda>stopped.
       raise_when stopped (OkxLiveSafetyError ''okx_live_emergency_stop_must_be_cleared''))))"

definition enforce_session_loss :: "env \<Rightarrow> decimal \<Rightarrow> unit live" where
  "enforce_session_loss E equity =
     bind_eff (gets ls_baseline_equity) (\<lambda>baseline. case baseline of
       None \<Rightarrow> raise (OkxLiveSafetyError ''okx_live_arm_baseline_missing'')
     | Some b \<Rightarrow>
         if b \<le> 0 then raise (OkxLiveSafetyError ''okx_live_arm_baseline_missing'')
         else if okx_live_session_loss_limit_pct (ev_settings E) \<le> ddiv (max 0 (dsub b equity)) b
         then seq_eff (engage_persistent_emergency_stop E ''okx_live_session_loss_limit_reached'')
           (raise (OkxLiveSafetyError ''okx_live_session_loss_limit_reached''))
         else ret ())"

section \<open>The execution guard\<close>

definition fault_of :: "env \<Rightarrow> 'a \<Rightarrow> nat \<Rightarrow> 'a result" where
  "fault_of E a n = (case ev_db E n of NoFault \<Rightarrow> Inr a | FaultBefore e \<Rightarrow> Inl e | FaultAfter e \<Rightarrow> Inl e)"

definition execution_lock :: "env \<Rightarrow> 'a live \<Rightarrow> 'a live" where
  "execution_lock E m =
     bind_eff (call E (\<lambda>n. fault_of E (ev_lock_acquired E n) n)) (\<lambda>acquired.
     if \<not> acquired
     then seq_eff (call E (fault_of E ()))
       (raise (OkxLiveExecutionAuthorityBusy ''okx_live_global_execution_lock_busy''))
     else try_finally m (try_finally (call E (fault_of E ())) (call E (fault_of E ()))))"

definition execution_guard :: "env \<Rightarrow> 'a live \<Rightarrow> 'a live" where
  "execution_guard E m =
     bind_eff (gets ls_write_lock) (\<lambda>locked.
     seq_eff (raise_when locked (OkxLiveBusyError ''okx_live_write_in_progress''))
     (seq_eff (raise_when (\<not> ev_has_repository E)
        (OkxLiveSafetyError ''okx_live_execution_persistence_unavailable''))
     (seq_eff (modify (\<lambda>s. s\<lparr>ls_write_lock := True\<rparr>))
     (try_finally
       (try_except (execution_lock E m)
         (\<lambda>e. case e of OkxLiveExecutionAuthorityBusy msg \<Rightarrow> raise (OkxLiveBusyError msg) | _ \<Rightarrow> raise e))
       (modify (\<lambda>s. s\<lparr>ls_write_lock := False\<rparr>))))))"

section \<open>Intents around a write\<close>

definition refresh_unresolved_intent_count :: "env \<Rightarrow> unit live" where
  "refresh_unresolved_intent_count E =
     (if \<not> ev_has_repository E then recovery_unavailable
      else bind_eff (try_except (load_unresolved E) (\<lambda>_. recovery_unavailable)) (\<lambda>rows.
        modify (\<lambda>s. s\<lparr>ls_unresolved_intent_count := length rows\<rparr>)))"

definition reserve_eff :: "env \<Rightarrow> reservation \<Rightarrow> unit live" where
  "reserve_eff E v =
     (if \<not> ev_has_repository E
      then raise (OkxLiveSafetyError ''okx_live_execution_persistence_unavailable'')
      else try_except
        (seq_eff (database E (intent_txn (reserve_intent v))) (refresh_unresolved_intent_count E))
        (\<lambda>e. case e of
           OkxLiveExecutionIntentConflict m \<Rightarrow> raise (OkxLiveSafetyError m)
         | OkxLiveExecutionIntentReplay m \<Rightarrow> raise (OkxLiveSafetyError m)
         | _ \<Rightarrow> raise e))"

definition update_eff :: "env \<Rightarrow> string \<Rightarrow> intent_status \<Rightarrow> string option \<Rightarrow> string list \<Rightarrow> unit live" where
  "update_eff E key st order_id codes =
     (if \<not> ev_has_repository E
      then raise (OkxLiveSafetyError ''okx_live_execution_persistence_unavailable'')
      else seq_eff (database E (intent_txn (update_intent key st order_id codes)))
        (refresh_unresolved_intent_count E))"

definition update_intent_or_stop ::
  "env \<Rightarrow> string \<Rightarrow> string \<Rightarrow> intent_status \<Rightarrow> string option \<Rightarrow> string list \<Rightarrow> unit live" where
  "update_intent_or_stop E key stop_code st order_id codes =
     try_except (update_eff E key st order_id codes)
       (\<lambda>_. seq_eff (engage stop_code)
          (raise (OkxLiveUnavailableError ''okx_live_intent_update_failed_after_exchange_write'')))"

definition ack_after_write ::
  "env \<Rightarrow> string \<Rightarrow> ack_row list \<Rightarrow> string \<Rightarrow> string \<Rightarrow> acknowledgement live" where
  "ack_after_write E key data stop_code detail_code =
     (case ack_of data of
        Inr a \<Rightarrow> ret a
      | Inl _ \<Rightarrow>
          seq_eff (engage stop_code)
          (seq_eff (try_except (update_eff E key Ambiguous None [detail_code])
            (\<lambda>_. raise (OkxLiveUnavailableError ''okx_live_intent_update_failed_after_exchange_write'')))
          (raise (OkxLiveUnavailableError ''okx_live_write_acknowledgement_invalid''))))"

definition record_write_failure :: "env \<Rightarrow> string \<Rightarrow> exn \<Rightarrow> string \<Rightarrow> unit live" where
  "record_write_failure E key e stage =
     (let ambiguous = ambiguous_failure e;
          st = (if ambiguous then Ambiguous else Rejected)
      in try_finally (update_eff E key st None [stage @ ''_'' @ status_text st])
        (if ambiguous then engage ''ambiguous_live_order_submission'' else record_error e))"

definition execution :: "env \<Rightarrow> 'a live \<Rightarrow> 'a live" where
  "execution E m = (if \<not> ev_has_client E
     then raise (OkxLiveSafetyError ''okx_live_execution_transport_unavailable'') else m)"

end
