(* ===== verification/Live_Handlers.thy ===== *)
theory Live_Handlers
  imports Live_Service
begin

text \<open>
  The handlers of \<open>OkxLiveService\<close>: arming and disarming, the emergency stop and its clearing
  with the stable-flat recovery check, the four writes, startup and shutdown. A call of the
  service is a value of \<open>live_call\<close>; \<open>run_live_calls\<close> runs a sequence of calls and restarts in
  one environment, in which exceptions go to the caller of each call.
\<close>

section \<open>Arming and stopping\<close>

text \<open>The end of \<open>arm\<close>, from the safety check on, which runs without a suspension after it.\<close>

definition grant_arm :: "env \<Rightarrow> decimal \<Rightarrow> int \<Rightarrow> unit live" where
  "grant_arm E equity duration =
     seq_eff (assert_execution_safe E)
     (seq_eff (raise_when (equity \<le> 0) (OkxLiveSafetyError ''okx_live_equity_not_positive''))
     (seq_eff (modify (\<lambda>s. s\<lparr>ls_baseline_equity := Some equity, ls_submissions := 0\<rparr>))
     (bind_eff (clock_now E) (\<lambda>n.
      modify (\<lambda>s. s\<lparr>ls_armed_until := Some (n + seconds duration), ls_last_error := None\<rparr>)))))"

definition arm :: "env \<Rightarrow> arm_request \<Rightarrow> live_status live" where
  "arm E r =
     seq_eff (ensure_write_configuration E)
     (seq_eff (raise_when (okx_live_arm_ttl_seconds (ev_settings E) < aq_duration_seconds r)
        (OkxLiveSafetyError ''okx_live_arm_duration_exceeds_configured_ttl''))
     (bind_eff (gets ls_write_lock) (\<lambda>locked.
      seq_eff (raise_when locked (OkxLiveBusyError ''okx_live_write_in_progress''))
      (seq_eff
        (execution_guard E
          (bind_eff (reconcile E True) (\<lambda>snap.
           seq_eff (lift_result (validate_write_capability (ev_settings E) (rr_account_config snap)))
           (seq_eff (lift_result (check_flat (ev_settings E) snap ''arm''))
           (grant_arm E (bal_total_equity (rr_balance snap)) (aq_duration_seconds r))))))
        (status E)))))"

definition disarm :: "env \<Rightarrow> live_status live" where
  "disarm E = seq_eff (disarm_eff False) (status E)"

definition emergency_stop :: "env \<Rightarrow> live_status live" where
  "emergency_stop E =
     seq_eff (engage_persistent_emergency_stop E ''operator_emergency_stop'') (status E)"

definition unresolved_intent_expectations :: "env \<Rightarrow> intent_expectation list live" where
  "unresolved_intent_expectations E =
     (if \<not> ev_has_repository E
      then raise (OkxLiveUnavailableError ''okx_live_execution_persistence_unavailable'')
      else bind_eff (try_except (load_unresolved E)
          (\<lambda>_. raise (OkxLiveUnavailableError ''okx_live_intent_recovery_unavailable''))) (\<lambda>rows.
        seq_eff (raise_when (100 < length rows)
          (OkxLiveSafetyError ''okx_live_unresolved_intent_limit_exceeded''))
        (seq_eff (modify (\<lambda>s. s\<lparr>ls_unresolved_intent_count := length rows\<rparr>))
        (ret (map intent_expectation_of rows)))))"

section \<open>Clearing the stop\<close>

datatype observation = NotSubmitted | NotFound | Observed string decimal

definition observe_order :: "env \<Rightarrow> intent \<Rightarrow> observation live" where
  "observe_order E i =
     (let order_id = it_exchange_order_id i;
          client_order_id = (if truthy order_id then None else it_client_order_id i)
      in if order_id = None \<and> client_order_id = None then ret NotSubmitted
         else bind_eff (call E (\<lambda>n. ev_order_detail E n (it_instrument_id i) order_id client_order_id))
           (\<lambda>rows. case rows of
              [] \<Rightarrow> ret NotFound
            | [order] \<Rightarrow>
                if \<not> order_identity_matches order (it_instrument_id i) order_id client_order_id
                then raise (OkxLiveSafetyError ''okx_live_recovery_order_identity_mismatch'')
                else if lo_state order \<notin> set final_order_states
                then raise (OkxLiveSafetyError ''okx_live_recovery_order_not_final'')
                else ret (Observed (lo_state order) (lo_accumulated_fill_size order))
            | _ \<Rightarrow> raise (OkxLiveSafetyError ''okx_live_recovery_order_detail_ambiguous'')))"

fun recovery_order_observations :: "env \<Rightarrow> intent list \<Rightarrow> (string \<times> observation) list live" where
  "recovery_order_observations E [] = ret []"
| "recovery_order_observations E (i # rest) =
     (if it_action i \<in> {PlaceOrder, CancelOrder}
      then bind_eff (observe_order E i) (\<lambda>x.
        bind_eff (recovery_order_observations E rest) (\<lambda>xs. ret ((it_idempotency_key i, x) # xs)))
      else recovery_order_observations E rest)"

type_synonym recovery_view = "(string option \<times> string option) \<times> (string \<times> observation) list"

definition recovery_attempt ::
  "env \<Rightarrow> intent list \<Rightarrow> recovery_view option \<Rightarrow> (recovery_view \<times> reconcile_result) live" where
  "recovery_attempt E unresolved_rows previous =
     bind_eff (reconcile E False) (\<lambda>snap.
     seq_eff (lift_result (check_flat (ev_settings E) snap ''clear_emergency_stop''))
     (let current_identity = (acc_uid (rr_account_config snap), acc_main_uid (rr_account_config snap))
      in seq_eff (raise_when (case previous of None \<Rightarrow> False | Some (i, os) \<Rightarrow> i \<noteq> current_identity)
           (OkxLiveSafetyError ''okx_live_account_identity_changed_during_recovery''))
         (bind_eff (recovery_order_observations E unresolved_rows) (\<lambda>current_orders.
          seq_eff (raise_when (case previous of None \<Rightarrow> False | Some (i, os) \<Rightarrow> os \<noteq> current_orders)
            (OkxLiveSafetyError ''okx_live_order_state_changed_during_recovery''))
          (ret ((current_identity, current_orders), snap))))))"

fun stable_flat_attempts ::
  "env \<Rightarrow> intent list \<Rightarrow> nat \<Rightarrow> recovery_view option \<Rightarrow> reconcile_result option \<Rightarrow> reconcile_result option live" where
  "stable_flat_attempts E unresolved_rows 0 previous last_snapshot = ret last_snapshot"
| "stable_flat_attempts E unresolved_rows (Suc k) previous last_snapshot =
     bind_eff (recovery_attempt E unresolved_rows previous) (\<lambda>(view, snap).
     seq_eff (if 0 < k then bind_eff (await E) (\<lambda>_. ret ()) else ret ())
       (stable_flat_attempts E unresolved_rows k (Some view) (Some snap)))"

definition stable_flat_recovery_check :: "env \<Rightarrow> intent list \<Rightarrow> reconcile_result live" where
  "stable_flat_recovery_check E unresolved_rows =
     bind_eff (stable_flat_attempts E unresolved_rows
       (okx_live_recovery_flat_poll_attempts (ev_settings E)) None None) (\<lambda>last_snapshot.
     case last_snapshot of
       None \<Rightarrow> raise (OkxLiveUnavailableError ''okx_live_stable_flat_recovery_unavailable'')
     | Some snap \<Rightarrow> ret snap)"

definition clear_latch_after_recovery :: "env \<Rightarrow> safety_latch_state \<Rightarrow> unit live" where
  "clear_latch_after_recovery E st =
     seq_eff
       (if sl_latched st
        then bind_eff (database E (mirror_txn (clear_safety_latch (sl_version st)))) (\<lambda>cleared.
          modify (\<lambda>s. s\<lparr>ls_safety_latch_version := sl_version cleared\<rparr>))
        else bind_eff (database E (mirror_query safety_latch_status)) (\<lambda>current.
          seq_eff (raise_when (sl_latched current \<or> sl_version current \<noteq> sl_version st)
            (OkxLiveSafetyError ''okx_live_safety_latch_changed_during_clear''))
          (modify (\<lambda>s. s\<lparr>ls_safety_latch_version := sl_version current\<rparr>))))
       (modify (\<lambda>s. s\<lparr>ls_safety_latch_code := None\<rparr>))"

definition clear_recovery :: "env \<Rightarrow> clear_stop_request \<Rightarrow> unit live" where
  "clear_recovery E r =
     bind_eff (database E (mirror_query safety_latch_status)) (\<lambda>st.
     bind_eff (load_unresolved E) (\<lambda>unresolved_rows.
     seq_eff (raise_when (\<not> intent_expectations_match unresolved_rows (cq_expected_unresolved_intents r))
        (OkxLiveSafetyError ''okx_live_unresolved_intent_expectation_mismatch''))
     (bind_eff (stable_flat_recovery_check E unresolved_rows) (\<lambda>snap.
      seq_eff (database E (intent_txn (\<lambda>_. mark_unresolved_intents_operator_reconciled
          (cq_expected_unresolved_intents r) (rr_reconciled_at snap) flat_resolution_code)))
      (bind_eff (load_unresolved E) (\<lambda>remaining.
       seq_eff (raise_when (remaining \<noteq> [])
         (OkxLiveSafetyError ''okx_live_unresolved_intents_remain_after_resolution''))
       (clear_latch_after_recovery E st)))))))"

definition clear_failed :: "exn \<Rightarrow> unit live" where
  "clear_failed e =
     seq_eff (engage ''okx_live_intent_recovery_persist_failed'')
     (case e of OkxLiveSafetyError m \<Rightarrow> raise e
      | _ \<Rightarrow> raise (OkxLiveUnavailableError ''okx_live_intent_recovery_persist_failed''))"

definition clear_emergency_stop :: "env \<Rightarrow> clear_stop_request \<Rightarrow> live_status live" where
  "clear_emergency_stop E r =
     seq_eff
       (execution_guard E
         (if \<not> ev_has_repository E \<or> \<not> ev_has_mirror E
          then seq_eff (engage ''okx_live_intent_recovery_unavailable'')
            (raise (OkxLiveSafetyError ''okx_live_execution_persistence_unavailable''))
          else seq_eff (try_except (clear_recovery E r) clear_failed)
            (modify (\<lambda>s. disarm_local False (s\<lparr>ls_unresolved_intent_count := 0,
               ls_emergency_stop := False, ls_last_error := None\<rparr>)))))
       (status E)"

section \<open>Polling\<close>

definition poll_once ::
  "env \<Rightarrow> string \<Rightarrow> string option \<Rightarrow> string option \<Rightarrow> live_order option \<Rightarrow> (live_order option \<times> bool) live" where
  "poll_once E i order_id client_order_id last_observed =
     try_except
       (bind_eff (call E (\<lambda>n. ev_order_detail E n i order_id
            (if truthy order_id then None else client_order_id))) (\<lambda>rows. case rows of
          [] \<Rightarrow> ret (last_observed, False)
        | observed # _ \<Rightarrow>
            seq_eff (raise_when (\<not> order_identity_matches observed i order_id client_order_id)
              (OkxLiveUnavailableError ''okx_live_order_detail_identity_mismatch''))
            (ret (Some observed, lo_state observed \<in> set final_order_states))))
       (\<lambda>_. ret (last_observed, False))"

fun poll_order_attempts ::
  "env \<Rightarrow> string \<Rightarrow> string option \<Rightarrow> string option \<Rightarrow> nat \<Rightarrow> live_order option \<Rightarrow> live_order option live" where
  "poll_order_attempts E i order_id client_order_id 0 last_observed = ret last_observed"
| "poll_order_attempts E i order_id client_order_id (Suc k) last_observed =
     bind_eff (poll_once E i order_id client_order_id last_observed) (\<lambda>(seen, finished).
     if finished then ret seen
     else if 0 < k then seq_eff (await E) (poll_order_attempts E i order_id client_order_id k seen)
     else ret seen)"

definition poll_order :: "env \<Rightarrow> string \<Rightarrow> string option \<Rightarrow> string option \<Rightarrow> live_order option live" where
  "poll_order E i order_id client_order_id =
     poll_order_attempts E i order_id client_order_id
       (okx_live_order_detail_poll_attempts (ev_settings E)) None"

definition snapshot_settled :: "live_order_request \<Rightarrow> string \<Rightarrow> reconcile_result \<Rightarrow> bool" where
  "snapshot_settled r protection_id snap =
     (clean_flat snap \<or> (exposure_present (Some snap) (oq_instrument_id r) \<and>
        post_order_exposure_confirmed (Some snap) r protection_id = Inr True))"

fun poll_post_order_snapshot ::
  "env \<Rightarrow> live_order_request \<Rightarrow> string \<Rightarrow> nat \<Rightarrow> reconcile_result option \<Rightarrow> reconcile_result option live" where
  "poll_post_order_snapshot E r protection_id 0 last_snapshot = ret last_snapshot"
| "poll_post_order_snapshot E r protection_id (Suc k) last_snapshot =
     bind_eff (try_except
         (bind_eff (reconcile E False) (\<lambda>snap. ret (Some snap, snapshot_settled r protection_id snap)))
         (\<lambda>_. ret (last_snapshot, False))) (\<lambda>(seen, finished).
     if finished then ret seen
     else if 0 < k then seq_eff (await E) (poll_post_order_snapshot E r protection_id k seen)
     else ret seen)"

definition best_effort_reconcile :: "env \<Rightarrow> string list \<Rightarrow> (bool \<times> string list) live" where
  "best_effort_reconcile E warnings =
     try_except (bind_eff (reconcile E True) (\<lambda>_. ret (True, warnings)))
       (\<lambda>_. ret (False, warnings @ [''post_write_reconcile_failed'']))"

section \<open>Placing an order\<close>

definition validate_order_market :: "env \<Rightarrow> live_order_request \<Rightarrow> (instrument_info \<times> decimal) live" where
  "validate_order_market E r =
     bind_eff (call E (\<lambda>n. ev_market E n (oq_instrument_id r))) (\<lambda>(instruments, price).
     bind_eff (lift_result (check_instrument instruments)) (\<lambda>instrument.
     seq_eff (lift_result (validate_order_at_price (ev_settings E) r instrument price))
       (ret (instrument, price))))"

definition validate_exchange_max_size :: "env \<Rightarrow> live_order_request \<Rightarrow> unit live" where
  "validate_exchange_max_size E r =
     bind_eff (execution E (call E (ev_max_order_size E))) (\<lambda>rows.
     lift_result (check_exchange_max_size rows (oq_direction r) (oq_size r)))"

definition side_of :: "direction \<Rightarrow> string" where
  "side_of d = (case d of Long \<Rightarrow> ''buy'' | Short \<Rightarrow> ''sell'')"

definition order_reservation :: "env \<Rightarrow> live_order_request \<Rightarrow> string \<Rightarrow> reservation" where
  "order_reservation E r protection_id =
     \<lparr>rv_idempotency_key = oq_client_order_id r,
      rv_request_hash = ev_request_hash E (without_confirmation (OrderRequest r)),
      rv_action = PlaceOrder, rv_instrument_id = oq_instrument_id r,
      rv_client_order_id = Some (oq_client_order_id r),
      rv_protection_client_order_id = Some protection_id,
      rv_expected_protection_size = Some (oq_size r), rv_expected_stop_loss = Some (oq_stop_loss r),
      rv_expected_take_profit = Some (oq_take_profit r),
      rv_expected_trigger_price_type = Some (oq_trigger_price_type r)\<rparr>"

definition order_leverage_payload :: "live_order_request \<Rightarrow> account_config \<Rightarrow> leverage_payload" where
  "order_leverage_payload r config =
     \<lparr>lv_inst_id = oq_instrument_id r, lv_lever = oq_leverage r, lv_mgn_mode = oq_margin_mode r,
      lv_pos_side = (if acc_position_mode config = ''long_short_mode''
        then Some (direction_text (oq_direction r)) else None)\<rparr>"

text \<open>The handler of the \<open>try\<close> block, for the stage in which the exception was raised.\<close>

definition order_failed :: "env \<Rightarrow> live_order_request \<Rightarrow> string \<Rightarrow> exn \<Rightarrow> 'a live" where
  "order_failed E r stage e =
     seq_eff (record_write_failure E (oq_client_order_id r) e stage)
       (seq_eff (disarm_eff False) (raise e))"

definition staged :: "env \<Rightarrow> live_order_request \<Rightarrow> string \<Rightarrow> 'a live \<Rightarrow> 'a live" where
  "staged E r stage m = try_except m (order_failed E r stage)"

definition stage_leverage :: "env \<Rightarrow> live_order_request \<Rightarrow> account_config \<Rightarrow> string \<Rightarrow> unit live" where
  "stage_leverage E r config position_side =
     bind_eff (execution E (send E (SetLeverageWrite (order_leverage_payload r config)) (ev_set_leverage E)))
     (\<lambda>rows. raise_when (\<not> leverage_response_matches rows (oq_instrument_id r) (oq_margin_mode r)
         (oq_leverage r) position_side)
       (OkxLiveSafetyError ''okx_live_leverage_exchange_response_mismatch''))"

definition stage_cancel_all_after :: "env \<Rightarrow> unit live" where
  "stage_cancel_all_after E =
     execution E (send E (CancelAllAfterWrite (okx_live_cancel_all_after_seconds (ev_settings E))
       (okx_live_order_tag (ev_settings E))) (ev_cancel_all_after E))"

definition stage_final_reconcile :: "env \<Rightarrow> unit live" where
  "stage_final_reconcile E =
     bind_eff (reconcile E True) (\<lambda>snap.
     seq_eff (lift_result (validate_write_capability (ev_settings E) (rr_account_config snap)))
     (seq_eff (lift_result (check_flat (ev_settings E) snap ''place_order_final_check''))
     (enforce_session_loss E (bal_total_equity (rr_balance snap)))))"

definition stage_final_market :: "env \<Rightarrow> live_order_request \<Rightarrow> instrument_info \<Rightarrow> unit live" where
  "stage_final_market E r instrument =
     bind_eff (call E (\<lambda>n. ev_mark_price E n (oq_instrument_id r))) (\<lambda>price.
     seq_eff (lift_result (validate_order_at_price (ev_settings E) r instrument price))
     (seq_eff (assert_safety_latch_clear E) (require_armed E)))"

definition submit_order ::
  "env \<Rightarrow> live_order_request \<Rightarrow> account_config \<Rightarrow> string \<Rightarrow> order_payload \<Rightarrow> instrument_info \<Rightarrow> ack_row list live" where
  "submit_order E r config position_side payload instrument =
     seq_eff (staged E r ''order_precheck'' (execution E (call E (ev_order_precheck E))))
     (seq_eff (staged E r ''set_leverage'' (stage_leverage E r config position_side))
     (seq_eff (staged E r ''cancel_all_after'' (stage_cancel_all_after E))
     (seq_eff (staged E r ''final_pre_submit_reconcile'' (stage_final_reconcile E))
     (seq_eff (staged E r ''final_market_recheck'' (stage_final_market E r instrument))
     (staged E r ''place_order''
       (execution E (send E (PlaceOrderWrite payload) (ev_place_order E))))))))"

definition prepare_order ::
  "env \<Rightarrow> live_order_request \<Rightarrow> (account_config \<times> string \<times> order_payload \<times> instrument_info \<times> string) live" where
  "prepare_order E r =
     seq_eff (assert_execution_safe E) (seq_eff (require_armed E)
     (bind_eff (reconcile E True) (\<lambda>snap.
      seq_eff (lift_result (validate_write_capability (ev_settings E) (rr_account_config snap)))
      (seq_eff (lift_result (check_flat (ev_settings E) snap ''place_order''))
      (seq_eff (enforce_session_loss E (bal_total_equity (rr_balance snap)))
      (bind_eff (validate_order_market E r) (\<lambda>(instrument, price).
       bind_eff (lift_result (position_side_of (rr_account_config snap) (Some (oq_direction r))))
         (\<lambda>position_side.
       bind_eff (lift_result (order_payload_of (ev_settings E) r (side_of (oq_direction r)) position_side))
         (\<lambda>payload.
       seq_eff (validate_exchange_max_size E r)
       (bind_eff (lift_result (protection_client_order_id (oq_client_order_id r))) (\<lambda>protection_id.
        ret (rr_account_config snap, position_side, payload, instrument, protection_id))))))))))))"

definition finalize_order ::
  "env \<Rightarrow> live_order_request \<Rightarrow> string \<Rightarrow> acknowledgement \<Rightarrow> live_order option \<Rightarrow> reconcile_result option \<Rightarrow>
   write_result live" where
  "finalize_order E r protection_id ack order post =
     bind_eff (lift_result (protection_confirmed post r protection_id)) (\<lambda>protected.
     bind_eff (lift_result (post_order_exposure_confirmed post r protection_id)) (\<lambda>isolated.
     let final_state = (case order of None \<Rightarrow> False | Some x \<Rightarrow> lo_state x \<in> set final_order_states);
         final_confirmed = (case post of None \<Rightarrow> False
            | Some snap \<Rightarrow> final_state \<and> (clean_flat snap \<or> isolated));
         unprotected = (post \<noteq> None \<and> exposure_present post (oq_instrument_id r) \<and> \<not> isolated);
         warnings = collect
           [(post = None, ''post_order_reconcile_failed''),
            (order = None, ''order_detail_not_confirmed''),
            (order \<noteq> None \<and> \<not> final_state, ''order_final_state_not_confirmed''),
            (post = None, ''post_order_exchange_state_unavailable''),
            (unprotected, ''post_order_state_not_isolated_or_exactly_protected''),
            (unprotected \<and> \<not> protected, ''protection_not_confirmed_for_live_exposure'')]
     in seq_eff
         (if post = None then engage_persistent_emergency_stop E ''post_order_reconcile_unavailable''
          else if unprotected
          then engage_persistent_emergency_stop E ''live_position_protection_not_confirmed''
          else ret ())
        (bind_eff (gets ls_emergency_stop) (\<lambda>stopped.
         seq_eff
           (if \<not> final_confirmed \<and> \<not> stopped
            then engage_persistent_emergency_stop E ''live_order_final_state_unconfirmed'' else ret ())
         (seq_eff (update_intent_or_stop E (oq_client_order_id r)
            ''intent_finalization_failed_after_order_ack''
            (if final_confirmed then Confirmed else Ambiguous) (or_none (ack_order_id ack))
            (if final_confirmed then [''order_state_and_protection_confirmed'']
             else [''order_final_state_or_protection_unconfirmed'']))
         (ret \<lparr>wr_action = PlaceOrder, wr_accepted = True,
               wr_final_state_confirmed = final_confirmed, wr_acknowledgement = Some ack,
               wr_order = map_option order_summary order, wr_reconciled = (post \<noteq> None),
               wr_warnings = warnings\<rparr>))))))"

definition conclude_order ::
  "env \<Rightarrow> live_order_request \<Rightarrow> string \<Rightarrow> ack_row list \<Rightarrow> write_result live" where
  "conclude_order E r protection_id data =
     seq_eff (modify (\<lambda>s. s\<lparr>ls_submissions := ls_submissions s + 1\<rparr>))
     (bind_eff (ack_after_write E (oq_client_order_id r) data
         ''invalid_acknowledgement_after_live_order'' ''place_order_ack_invalid'') (\<lambda>ack.
      seq_eff
        (try_finally
          (update_intent_or_stop E (oq_client_order_id r) ''intent_update_failed_after_order_ack''
             Acknowledged (or_none (ack_order_id ack)) [''okx_rest_acknowledged''])
          (if okx_live_auto_disarm (ev_settings E) then disarm_eff True else ret ()))
      (bind_eff (poll_order E (oq_instrument_id r) (or_none (ack_order_id ack))
          (if ack_order_id ack \<noteq> [] then None else Some (oq_client_order_id r))) (\<lambda>order.
       bind_eff (poll_post_order_snapshot E r protection_id
          (okx_live_order_detail_poll_attempts (ev_settings E)) None) (\<lambda>post.
       finalize_order E r protection_id ack order post)))))"

definition place_order :: "env \<Rightarrow> live_order_request \<Rightarrow> write_result live" where
  "place_order E r =
     seq_eff (ensure_write_configuration E)
     (seq_eff (require_armed E)
     (seq_eff (ensure_symbol E (oq_instrument_id r))
     (bind_eff (gets ls_write_lock) (\<lambda>locked.
      seq_eff (raise_when locked (OkxLiveBusyError ''okx_live_write_in_progress''))
      (execution_guard E
        (bind_eff (prepare_order E r) (\<lambda>(config, position_side, payload, instrument, protection_id).
         seq_eff (reserve_eff E (order_reservation E r protection_id))
         (bind_eff (submit_order E r config position_side payload instrument) (\<lambda>data.
          conclude_order E r protection_id data)))))))))"

section \<open>Cancelling, closing, leverage\<close>

definition plain_reservation ::
  "string \<Rightarrow> string \<Rightarrow> intent_action \<Rightarrow> string \<Rightarrow> string option \<Rightarrow> reservation" where
  "plain_reservation key hash act instrument_id client_order_id =
     \<lparr>rv_idempotency_key = key, rv_request_hash = hash, rv_action = act,
      rv_instrument_id = instrument_id, rv_client_order_id = client_order_id,
      rv_protection_client_order_id = None, rv_expected_protection_size = None,
      rv_expected_stop_loss = None, rv_expected_take_profit = None,
      rv_expected_trigger_price_type = None\<rparr>"

definition first_truthy :: "string option \<Rightarrow> string option \<Rightarrow> string option" where
  "first_truthy a b = (if truthy a then a else b)"

definition write_failed :: "env \<Rightarrow> string \<Rightarrow> string \<Rightarrow> exn \<Rightarrow> 'a live" where
  "write_failed E key stage e = seq_eff (record_write_failure E key e stage) (raise e)"

definition conclude_cancel :: "env \<Rightarrow> live_cancel_request \<Rightarrow> ack_row list \<Rightarrow> write_result live" where
  "conclude_cancel E r data =
     bind_eff (ack_after_write E (xq_idempotency_key r) data
         ''invalid_acknowledgement_after_live_cancel'' ''cancel_order_ack_invalid'') (\<lambda>ack.
     let order_id = first_truthy (or_none (ack_order_id ack)) (xq_order_id r) in
     seq_eff (update_intent_or_stop E (xq_idempotency_key r) ''intent_update_failed_after_cancel_ack''
        Acknowledged order_id [''cancel_rest_acknowledged''])
     (bind_eff (poll_order E (xq_instrument_id r)
         (first_truthy (xq_order_id r) (or_none (ack_order_id ack))) (xq_client_order_id r)) (\<lambda>order.
      let fill_detected = (case order of None \<Rightarrow> False | Some x \<Rightarrow> 0 < lo_accumulated_fill_size x);
          confirmed = (case order of None \<Rightarrow> False
             | Some x \<Rightarrow> lo_state x \<in> set cancel_confirmed_states \<and> \<not> fill_detected);
          warnings = collect
            [(fill_detected, ''order_partially_filled_before_cancel_confirmation''),
             (\<not> confirmed, ''cancel_final_state_not_confirmed'')]
      in seq_eff (if confirmed then ret () else engage ''cancel_final_state_unconfirmed'')
         (bind_eff (best_effort_reconcile E warnings) (\<lambda>(reconciled, warnings).
          seq_eff (update_intent_or_stop E (xq_idempotency_key r)
            ''intent_finalization_failed_after_cancel_ack''
            (if confirmed then Confirmed else Ambiguous) order_id
            [if confirmed then ''cancel_final_state_confirmed''
             else if fill_detected then ''cancel_fill_detected''
             else ''cancel_final_state_unconfirmed''])
          (ret \<lparr>wr_action = CancelOrder, wr_accepted = True, wr_final_state_confirmed = confirmed,
                wr_acknowledgement = Some ack, wr_order = map_option order_summary order,
                wr_reconciled = reconciled, wr_warnings = warnings\<rparr>))))))"

definition cancel_order :: "env \<Rightarrow> live_cancel_request \<Rightarrow> write_result live" where
  "cancel_order E r =
     seq_eff (ensure_write_configuration E)
     (seq_eff (ensure_symbol E (xq_instrument_id r))
     (execution_guard E
       (bind_eff (account_config_eff E) (\<lambda>config.
        seq_eff (lift_result (validate_write_capability (ev_settings E) config))
        (seq_eff (reserve_eff E (plain_reservation (xq_idempotency_key r)
            (ev_request_hash E (without_confirmation (CancelRequest r))) CancelOrder
            (xq_instrument_id r) (xq_client_order_id r)))
        (seq_eff (disarm_eff False)
        (bind_eff
          (try_except
            (execution E (send E
              (if truthy (xq_order_id r) then CancelOrderWrite (xq_instrument_id r) (xq_order_id r) None
               else CancelOrderWrite (xq_instrument_id r) None (xq_client_order_id r))
              (ev_cancel_order E)))
            (write_failed E (xq_idempotency_key r) ''cancel_order''))
          (conclude_cancel E r))))))))"

definition remaining_exposure :: "live_close_request \<Rightarrow> string \<Rightarrow> reconcile_result \<Rightarrow> bool" where
  "remaining_exposure r position_side snap =
     list_ex (\<lambda>p. lp_instrument_id p = zq_instrument_id r \<and> lp_size p \<noteq> 0 \<and>
       (position_side = ''net'' \<or> lp_position_side p = position_side)) (rr_positions snap)"

fun poll_closed ::
  "env \<Rightarrow> live_close_request \<Rightarrow> string \<Rightarrow> nat \<Rightarrow> bool \<Rightarrow> (bool \<times> bool) live" where
  "poll_closed E r position_side 0 reconciled = ret (False, reconciled)"
| "poll_closed E r position_side (Suc k) reconciled =
     bind_eff (try_except
         (bind_eff (reconcile E True) (\<lambda>post. ret (\<not> remaining_exposure r position_side post, True)))
         (\<lambda>_. ret (False, reconciled))) (\<lambda>(finished, reconciled).
     if finished then ret (True, reconciled)
     else if 0 < k then seq_eff (await E) (poll_closed E r position_side k reconciled)
     else ret (False, reconciled))"

definition conclude_close :: "env \<Rightarrow> live_close_request \<Rightarrow> string \<Rightarrow> write_result live" where
  "conclude_close E r position_side =
     seq_eff (update_intent_or_stop E (zq_idempotency_key r) ''intent_update_failed_after_close_ack''
        Acknowledged None [''close_rest_acknowledged''])
     (bind_eff (poll_closed E r position_side
         (okx_live_order_detail_poll_attempts (ev_settings E)) False) (\<lambda>(confirmed, reconciled).
      seq_eff (if confirmed then ret () else engage ''position_close_unconfirmed'')
      (seq_eff (update_intent_or_stop E (zq_idempotency_key r)
         ''intent_finalization_failed_after_close_ack''
         (if confirmed then Confirmed else Ambiguous) None
         [if confirmed then ''position_close_confirmed'' else ''position_close_unconfirmed''])
      (ret \<lparr>wr_action = ClosePosition, wr_accepted = True, wr_final_state_confirmed = confirmed,
            wr_acknowledgement = None, wr_order = None, wr_reconciled = reconciled,
            wr_warnings = collect [(\<not> confirmed, ''position_close_not_yet_confirmed'')]\<rparr>))))"

definition close_position :: "env \<Rightarrow> live_close_request \<Rightarrow> write_result live" where
  "close_position E r =
     seq_eff (ensure_write_configuration E)
     (seq_eff (ensure_symbol E (zq_instrument_id r))
     (execution_guard E
       (bind_eff (reconcile E True) (\<lambda>snap.
        seq_eff (lift_result (validate_write_capability (ev_settings E) (rr_account_config snap)))
        (seq_eff (raise_when (\<not> list_ex (\<lambda>p. lp_instrument_id p = zq_instrument_id r \<and> lp_size p \<noteq> 0)
            (rr_positions snap)) (OkxLiveSafetyError ''okx_live_position_not_found''))
        (bind_eff (lift_result (position_side_of (rr_account_config snap) (zq_direction r)))
          (\<lambda>position_side.
         seq_eff (reserve_eff E (plain_reservation (zq_idempotency_key r)
            (ev_request_hash E (without_confirmation (CloseRequest r))) ClosePosition
            (zq_instrument_id r) None))
         (seq_eff (disarm_eff False)
         (seq_eff
           (try_except
             (execution E (send E (ClosePositionWrite (zq_instrument_id r) (zq_margin_mode r) position_side)
               (ev_close_position E)))
             (write_failed E (zq_idempotency_key r) ''close_position''))
           (conclude_close E r position_side))))))))))"

definition leverage_failed :: "env \<Rightarrow> live_leverage_request \<Rightarrow> exn \<Rightarrow> 'a live" where
  "leverage_failed E r e =
     seq_eff (record_write_failure E (vq_idempotency_key r) e ''set_leverage'')
       (seq_eff (disarm_eff False) (raise e))"

definition submit_leverage :: "env \<Rightarrow> live_leverage_request \<Rightarrow> string \<Rightarrow> unit live" where
  "submit_leverage E r position_side =
     seq_eff (assert_safety_latch_clear E)
     (seq_eff (require_armed E)
     (bind_eff (execution E (send E (SetLeverageWrite
         \<lparr>lv_inst_id = vq_instrument_id r, lv_lever = vq_leverage r, lv_mgn_mode = vq_margin_mode r,
          lv_pos_side = (if position_side \<noteq> ''net'' then Some position_side else None)\<rparr>)
         (ev_set_leverage E))) (\<lambda>rows.
      raise_when (\<not> leverage_response_matches rows (vq_instrument_id r) (vq_margin_mode r)
          (vq_leverage r) position_side)
        (OkxLiveSafetyError ''okx_live_leverage_exchange_response_mismatch''))))"

definition set_leverage :: "env \<Rightarrow> live_leverage_request \<Rightarrow> write_result live" where
  "set_leverage E r =
     seq_eff (ensure_write_configuration E)
     (seq_eff (require_armed E)
     (seq_eff (ensure_symbol E (vq_instrument_id r))
     (seq_eff (raise_when (okx_live_max_leverage (ev_settings E) < vq_leverage r)
        (OkxLiveSafetyError ''requested_leverage_exceeds_live_safety_cap''))
     (execution_guard E
       (seq_eff (assert_execution_safe E)
       (seq_eff (require_armed E)
       (bind_eff (reconcile E True) (\<lambda>snap.
        seq_eff (lift_result (validate_write_capability (ev_settings E) (rr_account_config snap)))
        (seq_eff (lift_result (check_flat (ev_settings E) snap ''set_leverage''))
        (bind_eff (lift_result (position_side_of (rr_account_config snap) (vq_direction r)))
          (\<lambda>position_side.
         seq_eff (reserve_eff E (plain_reservation (vq_idempotency_key r)
            (ev_request_hash E (without_confirmation (LeverageRequest r))) SetLeverage
            (vq_instrument_id r) None))
         (seq_eff (try_except (submit_leverage E r position_side) (leverage_failed E r))
         (seq_eff (update_intent_or_stop E (vq_idempotency_key r)
            ''intent_update_failed_after_leverage_ack'' Acknowledged None [''leverage_rest_acknowledged''])
         (seq_eff (update_intent_or_stop E (vq_idempotency_key r)
            ''intent_finalization_failed_after_leverage_ack'' Confirmed None
            [''leverage_exchange_response_confirmed''])
         (ret \<lparr>wr_action = SetLeverage, wr_accepted = True, wr_final_state_confirmed = True,
               wr_acknowledgement = None, wr_order = None, wr_reconciled = False,
               wr_warnings = []\<rparr>)))))))))))))))"

section \<open>Startup and shutdown\<close>

definition startup :: "env \<Rightarrow> unit live" where
  "startup E =
     seq_eff (disarm_eff False)
     (seq_eff
       (if okx_live_auto_reconcile_on_start (ev_settings E)
        then try_except (bind_eff (reconcile E True) (\<lambda>_. ret ())) (\<lambda>_. ret ()) else ret ())
       (if okx_live_enabled (ev_settings E) \<and>
           (live_trading (ev_settings E) \<or> okx_live_allow_order_writes (ev_settings E))
        then try_except (assert_execution_safe E)
          (\<lambda>e. case e of OkxLiveSafetyError _ \<Rightarrow> ret () | OkxLiveUnavailableError _ \<Rightarrow> ret () | _ \<Rightarrow> raise e)
        else ret ()))"

definition shutdown :: "unit live" where
  "shutdown = seq_eff (disarm_eff False) (set_automation_running False)"

section \<open>Sequences of calls\<close>

datatype live_call =
    CallStatus
  | CallConnectivity
  | CallReconcile
  | CallArm arm_request
  | CallDisarm
  | CallEmergencyStop
  | CallExpectations
  | CallClearStop clear_stop_request
  | CallPlaceOrder live_order_request
  | CallCancelOrder live_cancel_request
  | CallClosePosition live_close_request
  | CallSetLeverage live_leverage_request
  | CallShutdown

definition void :: "'a live \<Rightarrow> unit live" where
  "void m = bind_eff m (\<lambda>_. ret ())"

fun live_call_eff :: "env \<Rightarrow> live_call \<Rightarrow> unit live" where
  "live_call_eff E CallStatus = void (status E)"
| "live_call_eff E CallConnectivity = void (connectivity_check E)"
| "live_call_eff E CallReconcile = void (reconcile E True)"
| "live_call_eff E (CallArm r) = void (arm E r)"
| "live_call_eff E CallDisarm = void (disarm E)"
| "live_call_eff E CallEmergencyStop = void (emergency_stop E)"
| "live_call_eff E CallExpectations = void (unresolved_intent_expectations E)"
| "live_call_eff E (CallClearStop r) = void (clear_emergency_stop E r)"
| "live_call_eff E (CallPlaceOrder r) = void (place_order E r)"
| "live_call_eff E (CallCancelOrder r) = void (cancel_order E r)"
| "live_call_eff E (CallClosePosition r) = void (close_position E r)"
| "live_call_eff E (CallSetLeverage r) = void (set_leverage E r)"
| "live_call_eff E CallShutdown = shutdown"

text \<open>
  A restart keeps the durable stores and the log, and starts a new service object. It may
  follow a call that was cancelled at any of its suspensions, which is the death of the
  process, or be another instance of the service on the same database.
\<close>

datatype live_event = Call live_call | Restart

fun live_event_step :: "env \<Rightarrow> live_state \<Rightarrow> live_event \<Rightarrow> live_state" where
  "live_event_step E s (Call c) = snd (live_call_eff E c s)"
| "live_event_step E s Restart =
     snd (startup E (new_service (ls_intents s) (ls_mirror s) (ls_step s) (ls_sent s)))"

definition run_live_events :: "env \<Rightarrow> live_event list \<Rightarrow> live_state \<Rightarrow> live_state" where
  "run_live_events E es s = foldl (live_event_step E) s es"

end
