(* ===== verification/Live_Frames.thy ===== *)
theory Live_Frames
  imports Live_Handlers
begin

text \<open>
  Frames of the Live service: which methods are calm (no write, no arming, no change of the
  intents) and which are quiet (intents may be added and evolve), proved along the structure
  of the code with the rules of the locale \<open>frame\<close>. Two more frames, for handlers that
  write: \<open>emits W\<close> says that the log grows by writes that satisfy \<open>W\<close> only, and \<open>no_place\<close> that
  no order is placed while the intents keep their invariant.
\<close>

section \<open>Calm methods\<close>

lemma calm_modifies [calm_intros]:
  "stays calm (engage c)" "stays calm (disarm_eff k)" "stays calm (record_error e)"
  "stays calm (set_automation_running b)"
  "stays calm (modify (\<lambda>s. s\<lparr>ls_safety_latch_code := f s\<rparr>))"
  "stays calm (modify (\<lambda>s. s\<lparr>ls_safety_latch_version := g s\<rparr>))"
  "stays calm (modify (\<lambda>s. s\<lparr>ls_safety_latch_code := f s, ls_safety_latch_version := g s\<rparr>))"
  "stays calm (modify (\<lambda>s. s\<lparr>ls_last_capability := h s\<rparr>))"
  "stays calm (modify (\<lambda>s. s\<lparr>ls_last_exchange_ok_at := i s, ls_last_error := j s\<rparr>))"
  "stays calm (modify (\<lambda>s. s\<lparr>ls_unresolved_intent_count := k' s\<rparr>))"
  "stays calm (modify (\<lambda>s. s\<lparr>ls_submissions := l s\<rparr>))"
  by (simp_all add: stays_def modify_def engage_def disarm_eff_def record_error_def
      set_automation_running_def calm_disarm calm_stop calm_fields)

lemma calm_expire [calm_intros]: "stays calm (expire_arm_if_needed E)"
  unfolding expire_arm_if_needed_def by (intro cf.within_intros calm_intros)

lemma calm_require_armed [calm_intros]: "stays calm (require_armed E)"
  unfolding require_armed_def by (intro cf.within_intros calm_intros)

lemma calm_record_success [calm_intros]: "stays calm (record_success E)"
  unfolding record_success_def by (intro cf.within_intros calm_intros)

lemma calm_persistent_stop [calm_intros]: "stays calm (engage_persistent_emergency_stop E c)"
  unfolding engage_persistent_emergency_stop_def by (intro cf.within_intros calm_intros)

lemma calm_ensures [calm_intros]:
  "stays calm (ensure_read_ready E)" "stays calm (ensure_write_configuration E)"
  "stays calm (ensure_symbol E i)" "stays calm (ensure_symbol_opt E j)"
  unfolding ensure_read_ready_def ensure_write_configuration_def ensure_symbol_def ensure_symbol_opt_def
  by (intro cf.within_intros)+

lemma calm_reads [calm_intros]:
  "stays calm (account_config_eff E)" "stays calm (balance_eff E)" "stays calm (positions_eff E i)"
  "stays calm (pending_orders_eff E i)" "stays calm (pending_algo_orders_eff E i)"
  "stays calm (order_detail_eff E j o1 o2)"
  unfolding account_config_eff_def balance_eff_def positions_eff_def pending_orders_eff_def
    pending_algo_orders_eff_def order_detail_eff_def
  by (intro cf.within_intros calm_intros)+

lemma calm_mirror_status [calm_intros]: "stays calm (mirror_status_eff E)"
  unfolding mirror_status_eff_def by (intro cf.within_intros calm_intros)

lemma calm_arm_status [calm_intros]: "stays calm (arm_status E)"
  unfolding arm_status_def by (intro cf.within_intros calm_intros)

lemma calm_status [calm_intros]: "stays calm (status E)"
  unfolding status_def by (intro cf.within_intros calm_intros)

lemma calm_connectivity [calm_intros]: "stays calm (connectivity_check E)"
  unfolding connectivity_check_def by (intro cf.within_intros calm_intros)

lemma calm_protected [calm_intros]: "stays calm (reconciled_positions_protected E snap)"
  unfolding reconciled_positions_protected_def Let_def by (intro cf.within_intros calm_intros)

lemma calm_reconcile [calm_intros]: "stays calm (reconcile E b)"
  unfolding reconcile_def reconcile_body_def reconcile_failed_def Let_def
  by (intro cf.within_intros calm_intros)

lemma calm_load [calm_intros]: "stays calm (load_unresolved E)"
  unfolding load_unresolved_def by (intro calm_intros)

lemma calm_recovery_unavailable [calm_intros]: "stays calm recovery_unavailable"
  unfolding recovery_unavailable_def by (intro cf.within_intros calm_intros)

lemma calm_asserts [calm_intros]:
  "stays calm (assert_safety_latch_clear E)" "stays calm (assert_no_unresolved_intents E)"
  unfolding assert_safety_latch_clear_def assert_no_unresolved_intents_def
  by (intro cf.within_intros calm_intros)+

lemma calm_execution_safe [calm_intros]: "stays calm (assert_execution_safe E)"
  unfolding assert_execution_safe_def by (intro cf.within_intros calm_intros)

lemma calm_session_loss [calm_intros]: "stays calm (enforce_session_loss E q)"
  unfolding enforce_session_loss_def by (intro cf.within_intros calm_intros)

lemma calm_refresh [calm_intros]: "stays calm (refresh_unresolved_intent_count E)"
  unfolding refresh_unresolved_intent_count_def by (intro cf.within_intros calm_intros)

lemma calm_execution: "stays calm m \<Longrightarrow> stays calm (execution E m)"
  unfolding execution_def by (intro cf.within_intros)

lemma calm_expectations [calm_intros]: "stays calm (unresolved_intent_expectations E)"
  unfolding unresolved_intent_expectations_def by (intro cf.within_intros calm_intros)

lemma calm_observe [calm_intros]: "stays calm (observe_order E i)"
  unfolding observe_order_def Let_def by (intro cf.within_intros calm_intros)

lemma calm_observations [calm_intros]: "stays calm (recovery_order_observations E is)"
  by (induction E "is" rule: recovery_order_observations.induct)
    (auto intro!: cf.within_intros calm_intros)

lemma calm_recovery_attempt [calm_intros]: "stays calm (recovery_attempt E is v)"
  unfolding recovery_attempt_def Let_def by (intro cf.within_intros calm_intros)

lemma calm_stable_attempts [calm_intros]: "stays calm (stable_flat_attempts E is k v x)"
  by (induction E "is" k v x rule: stable_flat_attempts.induct)
    (auto intro!: cf.within_intros calm_intros)

lemma calm_stable_flat [calm_intros]: "stays calm (stable_flat_recovery_check E is)"
  unfolding stable_flat_recovery_check_def by (intro cf.within_intros calm_intros)

lemma calm_poll_once [calm_intros]: "stays calm (poll_once E i a b l)"
  unfolding poll_once_def by (intro cf.within_intros calm_intros)

lemma calm_poll_attempts [calm_intros]: "stays calm (poll_order_attempts E i a b k l)"
  by (induction k arbitrary: l) (auto intro!: cf.within_intros calm_intros)

lemma calm_poll_order [calm_intros]: "stays calm (poll_order E i a b)"
  unfolding poll_order_def by (intro calm_intros)

lemma calm_poll_post [calm_intros]: "stays calm (poll_post_order_snapshot E r p k l)"
  by (induction k arbitrary: l) (auto intro!: cf.within_intros calm_intros)

lemma calm_best_effort [calm_intros]: "stays calm (best_effort_reconcile E w)"
  unfolding best_effort_reconcile_def by (intro cf.within_intros calm_intros)

lemma calm_poll_closed [calm_intros]: "stays calm (poll_closed E r p k b)"
  by (induction k arbitrary: b) (auto intro!: cf.within_intros calm_intros)

lemma calm_order_market [calm_intros]: "stays calm (validate_order_market E r)"
  unfolding validate_order_market_def by (intro cf.within_intros calm_intros)

lemma calm_max_size [calm_intros]: "stays calm (validate_exchange_max_size E r)"
  unfolding validate_exchange_max_size_def by (intro cf.within_intros calm_intros calm_execution)

lemma calm_prepare_order [calm_intros]: "stays calm (prepare_order E r)"
  unfolding prepare_order_def by (intro cf.within_intros calm_intros)

lemma calm_final_stages [calm_intros]:
  "stays calm (stage_final_reconcile E)" "stays calm (stage_final_market E r i)"
  unfolding stage_final_reconcile_def stage_final_market_def by (intro cf.within_intros calm_intros)+

lemma calm_startup [calm_intros]: "stays calm (startup E)"
  unfolding startup_def
  by (auto intro!: cf.within_intros calm_intros split: exn.split)

lemma calm_shutdown [calm_intros]: "stays calm shutdown"
  unfolding shutdown_def by (intro cf.within_intros calm_intros)

lemma calm_simple_handlers [calm_intros]: "stays calm (disarm E)" "stays calm (emergency_stop E)"
  unfolding disarm_def emergency_stop_def by (intro cf.within_intros calm_intros)+

section \<open>Quiet methods\<close>

lemmas quiet_of_calm_methods [quiet_intros] = calm_intros [THEN stays_quiet]

lemma quiet_case_exn:
  "(\<And>e. stays quiet (f e)) \<Longrightarrow> (\<And>m. stays quiet (g m)) \<Longrightarrow>
   stays quiet (case e of OkxLiveExecutionIntentConflict m \<Rightarrow> g m | OkxLiveExecutionIntentReplay m \<Rightarrow> g m | _ \<Rightarrow> f e)"
  by (cases e) simp_all

lemma quiet_reserve [quiet_intros]: "stays quiet (reserve_eff E v)"
  unfolding reserve_eff_def
  by (intro qf.within_intros quiet_intros) (auto split: exn.split intro: qf.within_intros)

lemma quiet_update [quiet_intros]: "stays quiet (update_eff E k st x c)"
  unfolding update_eff_def by (intro qf.within_intros quiet_intros)

lemma quiet_update_or_stop [quiet_intros]: "stays quiet (update_intent_or_stop E k sc st x c)"
  unfolding update_intent_or_stop_def by (intro qf.within_intros quiet_intros)

lemma quiet_ack [quiet_intros]: "stays quiet (ack_after_write E k d sc dc)"
  unfolding ack_after_write_def by (intro qf.within_intros quiet_intros)

lemma quiet_write_failure [quiet_intros]: "stays quiet (record_write_failure E k e st)"
  unfolding record_write_failure_def Let_def by (intro qf.within_intros quiet_intros)

lemma quiet_failures [quiet_intros]:
  "stays quiet (order_failed E r st e)" "stays quiet (write_failed E k st e)"
  "stays quiet (leverage_failed E q e)"
  unfolding order_failed_def write_failed_def leverage_failed_def
  by (intro qf.within_intros quiet_intros)+

lemma quiet_staged: "stays quiet m \<Longrightarrow> stays quiet (staged E r st m)"
  unfolding staged_def by (intro qf.within_intros quiet_intros)

lemma quiet_finalize [quiet_intros]: "stays quiet (finalize_order E r p a o' post)"
  unfolding finalize_order_def Let_def by (intro qf.within_intros quiet_intros)

lemma quiet_conclude_order [quiet_intros]: "stays quiet (conclude_order E r p d)"
  unfolding conclude_order_def by (intro qf.within_intros quiet_intros)

lemma quiet_conclude_cancel [quiet_intros]: "stays quiet (conclude_cancel E q d)"
  unfolding conclude_cancel_def Let_def by (intro qf.within_intros quiet_intros)

lemma quiet_conclude_close [quiet_intros]: "stays quiet (conclude_close E z p)"
  unfolding conclude_close_def by (intro qf.within_intros quiet_intros)

lemma quiet_clear_failed [quiet_intros]: "stays quiet (clear_failed e)"
  unfolding clear_failed_def
  by (intro qf.within_intros quiet_intros) (auto split: exn.split intro: qf.within_intros)

lemma stays_recovering: "stays quiet m \<Longrightarrow> stays recovering m"
  by (erule stays_mono) (rule quiet_recovering)

lemma recovering_clear_latch: "stays recovering (clear_latch_after_recovery E st)"
  unfolding clear_latch_after_recovery_def
  by (intro rf.within_intros recovering_clear quiet_intros [THEN stays_recovering])

lemma recovering_clear_recovery: "stays recovering (clear_recovery E r)"
  unfolding clear_recovery_def
  by (intro rf.within_intros recovering_clear_latch quiet_intros [THEN stays_recovering])

section \<open>The log of writes\<close>

definition emits :: "(authority \<times> exchange_write \<Rightarrow> bool) \<Rightarrow> live_state \<Rightarrow> live_state \<Rightarrow> bool" where
  "emits W s t \<longleftrightarrow> (\<exists>xs. ls_sent t = ls_sent s @ xs \<and> list_all W xs)"

interpretation ef: frame "emits W"
proof
  show "emits W s s" for s by (simp add: emits_def)
  show "emits W s t \<Longrightarrow> emits W t u \<Longrightarrow> emits W s u" for s t u
    unfolding emits_def by (metis append.assoc list_all_append)
qed

lemma recovering_emits: "recovering s t \<Longrightarrow> emits W s t"
  by (simp add: recovering_def restrained_def emits_def)

definition placed_ids :: "(authority \<times> exchange_write) list \<Rightarrow> string list" where
  "placed_ids xs = List.map_filter (\<lambda>(a, w). case w of PlaceOrderWrite p \<Rightarrow> Some (op_cl_ord_id p) | _ \<Rightarrow> None) xs"

abbreviation placed :: "live_state \<Rightarrow> string list" where
  "placed s \<equiv> placed_ids (ls_sent s)"

definition no_place :: "live_state \<Rightarrow> live_state \<Rightarrow> bool" where
  "no_place s t \<longleftrightarrow> placed t = placed s \<and>
     (intents_ok (ls_intents s) \<longrightarrow> intents_ok (ls_intents t) \<and> table_le (ls_intents s) (ls_intents t))"

interpretation nf: frame no_place
  by unfold_locales (auto simp: no_place_def intro: table_le_trans)

lemma recovering_no_place: "recovering s t \<Longrightarrow> no_place s t"
  by (simp add: recovering_def restrained_def no_place_def)

lemma placed_ids_append [simp]: "placed_ids (xs @ ys) = placed_ids xs @ placed_ids ys"
  by (simp add: placed_ids_def List.map_filter_def)

lemma placed_ids_simps [simp]:
  "placed_ids [] = []"
  "placed_ids ((a, PlaceOrderWrite p) # xs) = op_cl_ord_id p # placed_ids xs"
  "placed_ids ((a, SetLeverageWrite v) # xs) = placed_ids xs"
  "placed_ids ((a, CancelAllAfterWrite i j) # xs) = placed_ids xs"
  "placed_ids ((a, CancelOrderWrite k l m) # xs) = placed_ids xs"
  "placed_ids ((a, ClosePositionWrite k n q) # xs) = placed_ids xs"
  by (simp_all add: placed_ids_def List.map_filter_simps)

section \<open>Frames of guarded and writing handlers\<close>

text \<open>A preorder that contains calm code, and one that also ignores the write lock.\<close>

locale calm_frame = frame R for R :: "live_state \<Rightarrow> live_state \<Rightarrow> bool" +
  assumes calm_in: "calm s t \<Longrightarrow> R s t"
begin

lemma within_calm: "stays calm m \<Longrightarrow> stays R m"
  by (erule stays_mono) (rule calm_in)

lemma within_send:
  "(\<And>s. R s (s\<lparr>ls_sent := ls_sent s @ [(authority_of s, w)]\<rparr>)) \<Longrightarrow> stays R (send E w f)"
  unfolding send_def by (intro within_seq within_modify calm_intros [THEN within_calm])

lemma within_execution: "stays R m \<Longrightarrow> stays R (execution E m)"
  unfolding execution_def by (intro within_intros)

lemma within_void: "stays R m \<Longrightarrow> stays R (void m)"
  unfolding void_def by (intro within_intros)

lemmas calm_frame_intros = within_intros within_execution within_void

end

locale guard_frame = calm_frame +
  assumes lock_in: "R s (s\<lparr>ls_write_lock := b\<rparr>)"
begin

lemma within_guard: "stays R m \<Longrightarrow> stays R (execution_guard E m)"
  unfolding execution_guard_def execution_lock_def
  by (intro within_intros within_modify lock_in calm_intros [THEN within_calm])
    (auto split: exn.split intro: within_raise)

lemmas guard_intros = calm_frame_intros within_guard

end

text \<open>A preorder that contains recovering code contains quiet and calm code.\<close>

locale quiet_frame = frame R for R :: "live_state \<Rightarrow> live_state \<Rightarrow> bool" +
  assumes recovering_in: "recovering s t \<Longrightarrow> R s t"

sublocale quiet_frame \<subseteq> calm_frame
  by unfold_locales (intro recovering_in quiet_recovering calm_quiet)

context quiet_frame
begin

lemma within_recovering: "stays recovering m \<Longrightarrow> stays R m"
  by (erule stays_mono) (rule recovering_in)

lemma within_quiet: "stays quiet m \<Longrightarrow> stays R m"
  by (rule within_recovering) (rule stays_recovering)

lemma within_staged: "stays R m \<Longrightarrow> stays R (staged E r st m)"
  unfolding staged_def by (intro within_try quiet_intros [THEN within_quiet])

lemmas quiet_frame_intros = calm_frame_intros within_staged

end

locale live_frame = quiet_frame +
  assumes lock_irrelevant: "R s (s\<lparr>ls_write_lock := b\<rparr>)"

sublocale live_frame \<subseteq> guard_frame
  by unfold_locales (rule lock_irrelevant)

context live_frame
begin

lemma within_clear_body: "stays R (try_except (clear_recovery E r) clear_failed)"
  by (intro within_try within_recovering [OF recovering_clear_recovery] quiet_intros [THEN within_quiet])

lemmas live_intros = quiet_frame_intros within_guard within_clear_body

end

text \<open>When the preorder also contains the writes that place no order, so do the other handlers.\<close>

fun places :: "exchange_write \<Rightarrow> bool" where
  "places (PlaceOrderWrite p) = True"
| "places _ = False"

locale write_frame = live_frame +
  assumes other_write_in: "\<not> places w \<Longrightarrow> R s (s\<lparr>ls_sent := ls_sent s @ [(authority_of s, w)]\<rparr>)"
begin

lemma within_other_send: "\<not> places w \<Longrightarrow> stays R (send E w f)"
  by (rule within_send) (rule other_write_in)

lemma within_cancel_order: "stays R (cancel_order E r)"
  unfolding cancel_order_def
  by (intro live_intros quiet_intros [THEN within_quiet] within_other_send) simp

lemma within_close_position: "stays R (close_position E r)"
  unfolding close_position_def
  by (intro live_intros quiet_intros [THEN within_quiet] within_other_send) simp

lemma within_set_leverage: "stays R (set_leverage E r)"
  unfolding set_leverage_def submit_leverage_def
  by (intro live_intros quiet_intros [THEN within_quiet] within_other_send) simp

lemma within_stage_leverage: "stays R (stage_leverage E r c p)"
  unfolding stage_leverage_def by (intro live_intros within_other_send) simp

lemma within_stage_cancel_all: "stays R (stage_cancel_all_after E)"
  unfolding stage_cancel_all_after_def by (intro live_intros within_other_send) simp

end

text \<open>And arming and clearing, when the preorder reads only the stores and the log.\<close>

locale durable_frame = write_frame +
  assumes local_in: "ls_sent t = ls_sent s \<Longrightarrow> ls_intents t = ls_intents s \<Longrightarrow> ls_mirror t = ls_mirror s \<Longrightarrow> R s t"
begin

lemma within_local: "(\<And>s. ls_sent (f s) = ls_sent s \<and> ls_intents (f s) = ls_intents s \<and> ls_mirror (f s) = ls_mirror s) \<Longrightarrow>
  stays R (modify f)"
  by (rule within_modify) (simp add: local_in)

lemma within_arm: "stays R (arm E r)"
  unfolding arm_def grant_arm_def
  by (intro live_intros calm_intros [THEN within_calm] within_local) simp_all

lemma within_clear: "stays R (clear_emergency_stop E r)"
  unfolding clear_emergency_stop_def
  by (intro live_intros quiet_intros [THEN within_quiet] within_local) (simp_all add: disarm_local_def)

lemma within_other_calls:
  assumes "\<And>r. c \<noteq> CallPlaceOrder r"
  shows "stays R (live_call_eff E c)"
  using assms
  by (cases c) (auto intro!: within_void within_arm within_clear within_cancel_order within_close_position
      within_set_leverage intro: calm_intros [THEN within_calm])

lemma restart_in: "R s (snd (startup E (new_service (ls_intents s) (ls_mirror s) (ls_step s) (ls_sent s))))"
proof -
  have "R s (new_service (ls_intents s) (ls_mirror s) (ls_step s) (ls_sent s))"
    by (rule local_in) (simp_all add: new_service_def)
  then show ?thesis
    using within_calm [OF calm_startup, of E] frame_trans unfolding stays_def by blast
qed

end

interpretation no_placing: durable_frame no_place
proof
  show "recovering s t \<Longrightarrow> no_place s t" for s t by (rule recovering_no_place)
  show "no_place s (s\<lparr>ls_write_lock := b\<rparr>)" for s b by (simp add: no_place_def)
  show "\<not> places w \<Longrightarrow> no_place s (s\<lparr>ls_sent := ls_sent s @ [(authority_of s, w)]\<rparr>)" for w s
    by (cases w) (simp_all add: no_place_def)
  show "ls_sent t = ls_sent s \<Longrightarrow> ls_intents t = ls_intents s \<Longrightarrow> ls_mirror t = ls_mirror s \<Longrightarrow> no_place s t" for s t
    by (simp add: no_place_def)
qed

end
