(* ===== verification/Live_Safety.thy ===== *)
theory Live_Safety
  imports Live_Frames
begin

text \<open>
  Safety of the Live service over arbitrary sequences of calls and restarts, in an arbitrary
  environment: an order is handed to the exchange at most once and only after its intent is
  durable; an engaged stop is never armed; orders are placed under a valid arm only; the
  stop is cleared and the service armed only on the evidence the code asks for.
\<close>

section \<open>Transactions in context\<close>

lemma wp_calm: "stays calm m \<Longrightarrow> (\<And>a t. calm s t \<Longrightarrow> Q a t) \<Longrightarrow> (\<And>e t. calm s t \<Longrightarrow> X e t) \<Longrightarrow> wp m Q X s"
  by (rule wp_mono [OF cf.within_wp])

lemma wp_bind_calm:
  "stays calm m \<Longrightarrow> (\<And>a t. calm s t \<Longrightarrow> wp (f a) Q X t) \<Longrightarrow> (\<And>e t. calm s t \<Longrightarrow> X e t) \<Longrightarrow>
   wp (bind_eff m f) Q X s"
  unfolding wp_bind by (rule wp_calm)

lemma wp_seq_calm:
  "stays calm m \<Longrightarrow> (\<And>t. calm s t \<Longrightarrow> wp n Q X t) \<Longrightarrow> (\<And>e t. calm s t \<Longrightarrow> X e t) \<Longrightarrow>
   wp (seq_eff m n) Q X s"
  unfolding wp_seq by (rule wp_calm)

lemma wp_quiet: "stays quiet m \<Longrightarrow> (\<And>a t. quiet s t \<Longrightarrow> Q a t) \<Longrightarrow> (\<And>e t. quiet s t \<Longrightarrow> X e t) \<Longrightarrow> wp m Q X s"
  by (rule wp_mono [OF qf.within_wp])

lemma wp_commit:
  "wp (commit f) Q X s = (case f s of Inl e \<Rightarrow> X e s | Inr (a, t) \<Rightarrow> Q a t)"
  by (simp add: wp_def commit_def split: sum.split)

lemma wp_databaseI:
  assumes X: "\<And>e t. calm s t \<Longrightarrow> X e t"
    and step: "\<And>n t a u v. calm s t \<Longrightarrow> f n t = Inr (a, u) \<Longrightarrow> calm u v \<Longrightarrow> Q a v \<and> (\<forall>e. X e v)"
  shows "wp (database E f) Q X s"
proof -
  have ok: "wp (await E) (\<lambda>_. Q a) X u" "wp (await E) (\<lambda>_. X e) X u"
    if "calm s t" "f n t = Inr (a, u)" for n t a u e
    using step [OF that] by (auto intro!: wp_calm calm_intros)
  have "wp (case ev_db E n of
       FaultBefore e \<Rightarrow> raise e
     | NoFault \<Rightarrow> bind_eff (commit (f (ev_clock E n))) (\<lambda>a. seq_eff (await E) (ret a))
     | FaultAfter e \<Rightarrow> seq_eff (commit (f (ev_clock E n))) (seq_eff (await E) (raise e))) Q X t"
    if "calm s t" for n t
    using ok [OF that] X [OF that]
    by (auto simp: wp_simps wp_commit split: db_fault.split sum.split)
  then show ?thesis
    unfolding database_def wp_bind by (intro wp_calm [OF calm_await] X)
qed

section \<open>An order is sent at most once\<close>

definition placed_inv :: "live_state \<Rightarrow> bool" where
  "placed_inv s \<longleftrightarrow> intents_ok (ls_intents s) \<and> distinct (placed s) \<and>
     set (placed s) \<subseteq> set (intent_keys (ls_intents s))"

text \<open>The intent of an order is reserved and the order has not been sent.\<close>

definition reserved_for :: "string \<Rightarrow> live_state \<Rightarrow> bool" where
  "reserved_for c s \<longleftrightarrow> placed_inv s \<and> c \<in> set (intent_keys (ls_intents s)) \<and> c \<notin> set (placed s)"

lemma placed_inv_no_place: "no_place s t \<Longrightarrow> placed_inv s \<Longrightarrow> placed_inv t"
  using table_le_keys [of "ls_intents s" "ls_intents t"] by (auto simp: no_place_def placed_inv_def)

lemma reserved_for_no_place: "no_place s t \<Longrightarrow> reserved_for c s \<Longrightarrow> reserved_for c t"
  using table_le_keys [of "ls_intents s" "ls_intents t"]
  by (auto simp: no_place_def placed_inv_def reserved_for_def)

lemma reserved_placed_inv: "reserved_for c s \<Longrightarrow> placed_inv s"
  by (simp add: reserved_for_def)

lemma keeps_reserved: "stays no_place m \<Longrightarrow> stays (keeps (reserved_for c)) m"
  by (erule stays_mono) (simp add: keeps_def reserved_for_no_place)

lemma keeps_placed_inv: "stays no_place m \<Longrightarrow> stays (keeps placed_inv) m"
  by (erule stays_mono) (simp add: keeps_def placed_inv_no_place)

lemma calm_no_place: "calm s t \<Longrightarrow> no_place s t"
  by (intro recovering_no_place quiet_recovering calm_quiet)

interpretation pf: live_frame "keeps placed_inv"
proof
  show "recovering s t \<Longrightarrow> keeps placed_inv s t" for s t
    using placed_inv_no_place [OF recovering_no_place] by (simp add: keeps_def)
  show "keeps placed_inv s (s\<lparr>ls_write_lock := b\<rparr>)" for s b
    by (simp add: keeps_def placed_inv_def)
qed

lemma reserve_spec:
  assumes "placed_inv s"
  shows "wp (reserve_eff E v) (\<lambda>_. reserved_for (rv_idempotency_key v)) (\<lambda>_. placed_inv) s"
proof -
  let ?c = "rv_idempotency_key v"
  have commit: "reserved_for ?c w"
    if st: "calm s t" and u: "intent_txn (reserve_intent v) n t = Inr (a, u)" and uw: "calm u w" for n t a u w
  proof -
    obtain i where i: "reserve_intent v n (ls_intents t) = Inr (a, i)" and u': "u = t\<lparr>ls_intents := i\<rparr>"
      using u by (auto simp: intent_txn_def result_simps)
    have t: "placed_inv t" using placed_inv_no_place [OF calm_no_place [OF st] assms] .
    note new = reserve_intent_Inr [OF i]
    have "intents_ok i" using t i unfolding placed_inv_def by (blast intro: intents_ok_reserve)
    then have "reserved_for ?c u"
      using t new u' by (auto simp: reserved_for_def placed_inv_def)
    then show ?thesis using calm_no_place [OF uw] by (rule reserved_for_no_place [rotated])
  qed
  have db: "wp (database E (intent_txn (reserve_intent v))) (\<lambda>_. reserved_for ?c) (\<lambda>_. placed_inv) s"
    by (rule wp_databaseI)
      (auto dest: commit calm_no_place intro: placed_inv_no_place assms simp: reserved_for_def)
  have refresh: "wp (refresh_unresolved_intent_count E) (\<lambda>_. reserved_for ?c) (\<lambda>_. placed_inv) t"
    if "reserved_for ?c t" for t
    by (intro wp_calm calm_intros)
      (use that in \<open>blast intro: reserved_for_no_place calm_no_place reserved_placed_inv\<close>)+
  have "wp (seq_eff (database E (intent_txn (reserve_intent v))) (refresh_unresolved_intent_count E))
      (\<lambda>_. reserved_for ?c) (\<lambda>_. placed_inv) s"
    unfolding wp_seq by (rule wp_mono [OF db]) (auto intro: refresh)
  then show ?thesis
    unfolding reserve_eff_def
    by (auto simp: wp_simps assms elim!: wp_mono split: exn.split)
qed

lemma send_place_spec:
  assumes "reserved_for c s" "op_cl_ord_id p = c"
  shows "wp (send E (PlaceOrderWrite p) f) (\<lambda>_. placed_inv) (\<lambda>_. placed_inv) s"
proof -
  have "placed_inv (s\<lparr>ls_sent := ls_sent s @ [(authority_of s, PlaceOrderWrite p)]\<rparr>)"
    using assms by (auto simp: reserved_for_def placed_inv_def)
  then show ?thesis
    unfolding send_def wp_seq wp_modify
    by (intro wp_calm calm_intros) (auto dest: calm_no_place intro: placed_inv_no_place)
qed

lemma wp_stage:
  assumes "stays no_place m" "reserved_for c s"
    "\<And>t. reserved_for c t \<Longrightarrow> wp n Q X t" "\<And>e t. placed_inv t \<Longrightarrow> X e t"
  shows "wp (seq_eff m n) Q X s"
  unfolding wp_seq using stays_keepsD [OF keeps_reserved [OF assms(1)] assms(2)]
  by (rule wp_mono) (auto intro: assms(3,4) reserved_placed_inv)

lemma submit_spec:
  assumes "reserved_for c s" "op_cl_ord_id p = c"
  shows "wp (submit_order E r config side p i) (\<lambda>_. placed_inv) (\<lambda>_. placed_inv) s"
  unfolding submit_order_def
proof (intro wp_stage [where c = c] no_placing.within_staged)
  show "wp (staged E r ''place_order'' (execution E (send E (PlaceOrderWrite p) (ev_place_order E))))
      (\<lambda>_. placed_inv) (\<lambda>_. placed_inv) t" if t: "reserved_for c t" for t
  proof -
    have fail: "wp (order_failed E r ''place_order'' e) (\<lambda>_. placed_inv) (\<lambda>_. placed_inv) u"
      if "placed_inv u" for e u
      by (rule stays_keepsD [OF pf.within_quiet [OF quiet_failures(1)] that])
    have "wp (execution E (send E (PlaceOrderWrite p) (ev_place_order E)))
        (\<lambda>_. placed_inv) (\<lambda>_. placed_inv) t"
      unfolding execution_def wp_if wp_raise
      using send_place_spec [OF t assms(2)] reserved_placed_inv [OF t] by auto
    then show ?thesis
      unfolding staged_def wp_try_except by (rule wp_mono) (auto intro: fail)
  qed
qed (use assms in \<open>auto intro!: no_placing.live_intros calm_intros [THEN no_placing.within_calm]
    no_placing.within_stage_leverage no_placing.within_stage_cancel_all\<close>)

lemma prepare_result:
  "wp (prepare_order E r) (\<lambda>(config, side, payload, i, pid) _.
     order_payload_of (ev_settings E) r (side_of (oq_direction r)) side = Inr payload \<and>
     protection_client_order_id (oq_client_order_id r) = Inr pid) (\<lambda>_ _. True) s"
  unfolding prepare_order_def wp_simps
  by (auto intro!: wp_any split: sum.split prod.split)

lemma payload_id: "order_payload_of S r sd ps = Inr p \<Longrightarrow> op_cl_ord_id p = oq_client_order_id r"
  by (auto simp: order_payload_of_def result_simps)

lemma placed_inv_place_order: "stays (keeps placed_inv) (place_order E r)"
proof -
  have tail: "wp (seq_eff (reserve_eff E (order_reservation E r pid))
      (bind_eff (submit_order E r config side p i) (conclude_order E r pid)))
      (\<lambda>_. placed_inv) (\<lambda>_. placed_inv) s"
    if "placed_inv s" "op_cl_ord_id p = oq_client_order_id r" for s pid config side p i
    unfolding wp_simps
    by (rule wp_mono [OF reserve_spec [OF that(1)]], rule wp_mono [OF submit_spec])
      (use that(2) in \<open>auto simp: order_reservation_def
        intro: stays_keepsD [OF pf.within_quiet [OF quiet_conclude_order]]\<close>)
  have body: "stays (keeps placed_inv)
      (bind_eff (prepare_order E r) (\<lambda>(config, side, p, i, pid).
         seq_eff (reserve_eff E (order_reservation E r pid))
           (bind_eff (submit_order E r config side p i) (\<lambda>data. conclude_order E r pid data))))"
  proof (rule stays_keepsI)
    fix s assume "placed_inv s"
    from wp_conj [OF prepare_result stays_keepsD [OF pf.within_calm [OF calm_prepare_order] this]]
    show "wp (bind_eff (prepare_order E r) (\<lambda>(config, side, p, i, pid).
         seq_eff (reserve_eff E (order_reservation E r pid))
           (bind_eff (submit_order E r config side p i) (\<lambda>data. conclude_order E r pid data))))
         (\<lambda>_. placed_inv) (\<lambda>_. placed_inv) s"
      unfolding wp_bind [of "prepare_order E r"]
      by (rule wp_mono) (auto intro: tail dest: payload_id)
  qed
  show ?thesis
    unfolding place_order_def
    by (intro pf.live_intros body calm_intros [THEN pf.within_calm])
qed

lemma placed_inv_step: "placed_inv s \<Longrightarrow> placed_inv (live_event_step E s ev)"
proof (cases ev)
  case (Call c)
  assume inv: "placed_inv s"
  have "stays (keeps placed_inv) (live_call_eff E c)"
  proof (cases "\<exists>r. c = CallPlaceOrder r")
    case True
    then show ?thesis using pf.within_void [OF placed_inv_place_order] by auto
  next
    case False
    then show ?thesis by (auto intro: keeps_placed_inv no_placing.within_other_calls)
  qed
  then show ?thesis using inv Call by (simp add: stays_def keeps_def)
next
  case Restart
  assume "placed_inv s"
  then show ?thesis
    using placed_inv_no_place [OF no_placing.restart_in] Restart by simp
qed

lemma placed_inv_run: "placed_inv s \<Longrightarrow> placed_inv (run_live_events E es s)"
  unfolding run_live_events_def by (induction es arbitrary: s) (simp_all add: placed_inv_step)

section \<open>An engaged stop is disarmed\<close>

interpretation sd: write_frame "keeps authority_ok"
proof
  show "recovering s t \<Longrightarrow> keeps authority_ok s t" for s t
    by (simp add: recovering_def restrained_def keeps_def)
  show "keeps authority_ok s (s\<lparr>ls_write_lock := b\<rparr>)" for s b
    by (simp add: keeps_def authority_ok_def)
  show "\<not> places w \<Longrightarrow> keeps authority_ok s (s\<lparr>ls_sent := ls_sent s @ [(authority_of s, w)]\<rparr>)" for w s
    by (simp add: keeps_def authority_ok_def)
qed

lemma sd_send: "stays (keeps authority_ok) (send E w f)"
  by (rule sd.within_send) (simp add: keeps_def authority_ok_def)

lemma sd_place_order: "stays (keeps authority_ok) (place_order E r)"
  unfolding place_order_def submit_order_def
  by (intro sd.live_intros sd_send quiet_intros [THEN sd.within_quiet] sd.within_stage_leverage
      sd.within_stage_cancel_all)

lemma wp_clock_now [wp_simps]:
  "wp (clock_now E) Q X s = Q (ev_clock E (ls_step s)) (s\<lparr>ls_step := Suc (ls_step s)\<rparr>)"
  by (simp add: wp_def clock_now_def)

lemma execution_safe_spec:
  "wp (assert_execution_safe E) (\<lambda>_ t. calm s t \<and> \<not> ls_emergency_stop t) (\<lambda>_ t. calm s t) s"
proof -
  have "wp (assert_execution_safe E) (\<lambda>_ t. \<not> ls_emergency_stop t) (\<lambda>_ _. True) s"
    unfolding assert_execution_safe_def wp_simps by (auto intro!: wp_any simp: wp_simps)
  from wp_conj [OF cf.within_wp [OF calm_execution_safe] this] show ?thesis by simp
qed

lemma sd_grant: "stays (keeps authority_ok) (grant_arm E q d)"
  unfolding grant_arm_def
  by (rule stays_keepsI, unfold wp_seq, rule wp_mono [OF execution_safe_spec])
    (auto simp: wp_simps calm_def restrained_def authority_ok_def)

lemma sd_arm: "stays (keeps authority_ok) (arm E r)"
  unfolding arm_def by (intro sd.live_intros sd_grant calm_intros [THEN sd.within_calm])

lemma sd_clear: "stays (keeps authority_ok) (clear_emergency_stop E r)"
proof -
  have "stays (keeps authority_ok) (modify (\<lambda>s. disarm_local False (s\<lparr>ls_unresolved_intent_count := 0,
      ls_emergency_stop := False, ls_last_error := None\<rparr>)))"
    by (rule kept.within_modify) (simp add: keeps_def authority_ok_def disarm_local_def)
  then show ?thesis
    unfolding clear_emergency_stop_def
    by (intro sd.live_intros quiet_intros [THEN sd.within_quiet])
qed

lemma authority_ok_call: "stays (keeps authority_ok) (live_call_eff E c)"
proof (cases c)
  case (CallArm r)
  then show ?thesis using sd.within_void [OF sd_arm] by simp
next
  case (CallClearStop r)
  then show ?thesis using sd.within_void [OF sd_clear] by simp
next
  case (CallPlaceOrder r)
  then show ?thesis using sd.within_void [OF sd_place_order] by simp
next
  case (CallCancelOrder r)
  then show ?thesis using sd.within_void [OF sd.within_cancel_order] by simp
next
  case (CallClosePosition r)
  then show ?thesis using sd.within_void [OF sd.within_close_position] by simp
next
  case (CallSetLeverage r)
  then show ?thesis using sd.within_void [OF sd.within_set_leverage] by simp
qed (auto intro!: sd.within_void calm_intros [THEN sd.within_calm])

lemma authority_ok_new: "authority_ok (new_service i m n l)"
  by (simp add: authority_ok_def new_service_def)

lemma authority_ok_run: "authority_ok s \<Longrightarrow> authority_ok (run_live_events E es s)"
  unfolding run_live_events_def
proof (induction es arbitrary: s)
  case (Cons ev es)
  have "stays (keeps authority_ok) (startup E)" by (rule calm_startup [THEN sd.within_calm])
  then have "authority_ok (live_event_step E s ev)"
    using Cons.prems authority_ok_call [of E] authority_ok_new
    by (cases ev) (auto simp: stays_def keeps_def)
  then show ?case using Cons.IH by simp
qed simp

end
