(* ===== verification/Live_Authority.thy ===== *)
theory Live_Authority
  imports Live_Safety
begin

text \<open>
  The authority behind every write of the Live service. Each entry of the log carries the
  authority under which it was sent; \<open>write_authorised\<close> says what that authority and the
  request must satisfy, and every entry that a run adds satisfies it: all writes are sent
  under the execution lock and for an allowed instrument, an order only under an unexpired
  arm with submissions left and no stop, within the size and notional caps at a mark price
  that the exchange quoted, with its protection prices on the right sides of that price.
\<close>

section \<open>What authorises a write\<close>

definition may_submit :: "env \<Rightarrow> authority \<Rightarrow> bool" where
  "may_submit E a \<longleftrightarrow> \<not> au_emergency_stop a \<and>
     au_submissions a < okx_live_max_submissions_per_arm (ev_settings E) \<and>
     (\<exists>u. au_armed_until a = Some u \<and> ev_clock E (au_step a - 1) < u)"

definition quoted_instrument :: "env \<Rightarrow> string \<Rightarrow> instrument_info \<Rightarrow> bool" where
  "quoted_instrument E inst i \<longleftrightarrow> in_state i = ''live'' \<and> in_instrument_type i = ''SWAP'' \<and>
     (\<exists>n price. ev_market E n inst = Inr ([i], price))"

definition payload_brackets :: "order_payload \<Rightarrow> decimal \<Rightarrow> bool" where
  "payload_brackets p price \<longleftrightarrow>
     op_side p = ''buy'' \<and> op_sl_trigger_px p < price \<and> price < op_tp_trigger_px p \<or>
     op_side p = ''sell'' \<and> op_tp_trigger_px p < price \<and> price < op_sl_trigger_px p"

text \<open>A snapshot that the exchange returned, and the loss of the session measured on it.\<close>

definition observed :: "env \<Rightarrow> reconcile_result \<Rightarrow> bool" where
  "observed E snap \<longleftrightarrow> (\<exists>n rows. ev_account_rows E n = Inr rows \<and>
     rr_positions snap = rw_positions rows \<and> rr_pending_orders snap = rw_pending rows \<and>
     rr_pending_algo_orders snap = rw_algo rows \<and> rr_balance snap \<in> set (rw_balance rows))"

definition session_backed :: "env \<Rightarrow> decimal option \<Rightarrow> bool" where
  "session_backed E baseline \<longleftrightarrow> (\<exists>b snap. baseline = Some b \<and> 0 < b \<and> observed E snap \<and>
     clean_flat snap \<and> ddiv (max 0 (dsub b (bal_total_equity (rr_balance snap)))) b
       < okx_live_session_loss_limit_pct (ev_settings E))"

definition order_within_limits :: "env \<Rightarrow> order_payload \<Rightarrow> bool" where
  "order_within_limits E p \<longleftrightarrow>
     op_inst_id p \<in> set (okx_live_allowed_symbol_list (ev_settings E)) \<and>
     op_sz p \<le> okx_live_max_order_size_contracts (ev_settings E) \<and>
     protection_client_order_id (op_cl_ord_id p) = Inr (op_attach_algo_cl_ord_id p) \<and>
     (\<exists>i n price v. quoted_instrument E (op_inst_id p) i \<and> ev_mark_price E n (op_inst_id p) = Inr price \<and>
        payload_brackets p price \<and> contract_notional (op_sz p) price i = Inr v \<and>
        v \<le> okx_live_max_notional_usdt (ev_settings E))"

fun write_authorised :: "env \<Rightarrow> authority \<times> exchange_write \<Rightarrow> bool" where
  "write_authorised E (a, PlaceOrderWrite p) \<longleftrightarrow>
     au_write_lock a \<and> may_submit E a \<and> session_backed E (au_baseline_equity a) \<and>
     order_within_limits E p"
| "write_authorised E (a, SetLeverageWrite v) \<longleftrightarrow>
     au_write_lock a \<and> lv_lever v \<le> okx_live_max_leverage (ev_settings E) \<and>
     lv_inst_id v \<in> set (okx_live_allowed_symbol_list (ev_settings E))"
| "write_authorised E (a, CancelAllAfterWrite t tag) \<longleftrightarrow>
     au_write_lock a \<and> t = okx_live_cancel_all_after_seconds (ev_settings E)"
| "write_authorised E (a, CancelOrderWrite i x y) \<longleftrightarrow>
     au_write_lock a \<and> i \<in> set (okx_live_allowed_symbol_list (ev_settings E))"
| "write_authorised E (a, ClosePositionWrite i x y) \<longleftrightarrow>
     au_write_lock a \<and> i \<in> set (okx_live_allowed_symbol_list (ev_settings E))"

section \<open>Code that runs under the lock\<close>

definition locked :: "(authority \<times> exchange_write \<Rightarrow> bool) \<Rightarrow> live_state \<Rightarrow> live_state \<Rightarrow> bool" where
  "locked W s t \<longleftrightarrow> (ls_write_lock s \<longrightarrow> ls_write_lock t \<and> emits W s t)"

lemma recovering_locked: "recovering s t \<Longrightarrow> locked W s t"
  using recovering_emits [of s t W] by (simp add: locked_def recovering_def restrained_def)

interpretation lf: quiet_frame "locked W"
proof
  show "locked W s s" for s by (simp add: locked_def ef.frame_refl)
  show "locked W s t \<Longrightarrow> locked W t u \<Longrightarrow> locked W s u" for s t u
    unfolding locked_def using ef.frame_trans by blast
  show "recovering s t \<Longrightarrow> locked W s t" for s t by (rule recovering_locked)
qed

lemma stays_wpI: "(\<And>s. wp m (\<lambda>_. R s) (\<lambda>_. R s) s) \<Longrightarrow> stays R m"
  unfolding stays_def by (metis (no_types, lifting) wp_Inl wp_Inr sum.exhaust prod.collapse)

lemma emits_lock [simp]: "emits W (s\<lparr>ls_write_lock := b\<rparr>) t = emits W s t"
  "emits W s (t\<lparr>ls_write_lock := b\<rparr>) = emits W s t"
  by (simp_all add: emits_def)

interpretation el: live_frame "emits W"
  by unfold_locales (auto intro: recovering_emits ef.frame_refl)

lemma guard_emits:
  assumes "stays (locked W) m"
  shows "stays (emits W) (execution_guard E m)"
proof (rule stays_wpI)
  fix s
  have "stays (locked W) (try_except (execution_lock E m)
      (\<lambda>e. case e of OkxLiveExecutionAuthorityBusy msg \<Rightarrow> raise (OkxLiveBusyError msg) | _ \<Rightarrow> raise e))"
    unfolding execution_lock_def
    by (intro lf.within_intros assms calm_intros [THEN lf.within_calm])
      (auto split: exn.split intro: lf.within_raise)
  from lf.within_wp [OF this, of "s\<lparr>ls_write_lock := True\<rparr>"]
  have body: "wp (try_finally (try_except (execution_lock E m)
      (\<lambda>e. case e of OkxLiveExecutionAuthorityBusy msg \<Rightarrow> raise (OkxLiveBusyError msg) | _ \<Rightarrow> raise e))
      (modify (\<lambda>s. s\<lparr>ls_write_lock := False\<rparr>))) (\<lambda>_. emits W s) (\<lambda>_. emits W s) (s\<lparr>ls_write_lock := True\<rparr>)"
    unfolding wp_try_finally by (rule wp_mono) (simp_all add: wp_modify locked_def)
  show "wp (execution_guard E m) (\<lambda>_. emits W s) (\<lambda>_. emits W s) s"
    unfolding execution_guard_def wp_bind wp_seq wp_gets wp_raise_when wp_modify
    using body by (simp add: ef.frame_refl)
qed

lemma locked_send:
  "(\<And>a. au_write_lock a \<Longrightarrow> W (a, w)) \<Longrightarrow> stays (locked W) (send E w f)"
  by (rule lf.within_send) (auto simp: locked_def emits_def authority_of_def)

lemma calm_locked: "calm s t \<Longrightarrow> locked W s t"
  by (intro recovering_locked quiet_recovering calm_quiet)

section \<open>The checks right before an order\<close>

lemma wp_seq_any: "(\<And>t. wp n Q X t) \<Longrightarrow> (\<And>e t. X e t) \<Longrightarrow> wp (seq_eff m n) Q X s"
  unfolding wp_seq by (rule wp_any)

lemma wp_bind_any: "(\<And>a t. wp (f a) Q X t) \<Longrightarrow> (\<And>e t. X e t) \<Longrightarrow> wp (bind_eff m f) Q X s"
  unfolding wp_bind by (rule wp_any)

lemma require_armed_spec:
  "wp (require_armed E) (\<lambda>_ t. calm s t \<and> may_submit E (authority_of t)) (\<lambda>_ t. calm s t) s"
proof -
  have "wp (require_armed E) (\<lambda>_ t. may_submit E (authority_of t)) (\<lambda>_ _. True) s"
    by (auto simp: require_armed_def expire_arm_if_needed_def disarm_eff_def disarm_local_def wp_simps
        may_submit_def authority_of_def split: option.split)
  from wp_conj [OF cf.within_wp [OF calm_require_armed] this] show ?thesis by simp
qed

lemma call_spec: "wp (call E f) (\<lambda>a t. calm s t \<and> (\<exists>n. f n = Inr a)) (\<lambda>_ t. calm s t) s"
proof -
  have "wp (call E f) (\<lambda>a t. \<exists>n. f n = Inr a) (\<lambda>_ _. True) s"
    unfolding call_def wp_simps by (auto intro!: wp_any simp: wp_simps split: sum.split)
  from wp_conj [OF cf.within_wp [OF calm_call] this] show ?thesis by simp
qed

definition validated_at_quote :: "env \<Rightarrow> live_order_request \<Rightarrow> instrument_info \<Rightarrow> bool" where
  "validated_at_quote E r i \<longleftrightarrow> (\<exists>n price. ev_mark_price E n (oq_instrument_id r) = Inr price \<and>
     validate_order_at_price (ev_settings E) r i price = Inr ())"

lemma final_market_spec:
  "wp (stage_final_market E r i)
     (\<lambda>_ t. calm s t \<and> validated_at_quote E r i \<and> may_submit E (authority_of t)) (\<lambda>_ t. calm s t) s"
proof -
  have tail: "wp (seq_eff (assert_safety_latch_clear E) (require_armed E))
      (\<lambda>_ u. may_submit E (authority_of u)) (\<lambda>_ _. True) t" for t
    by (rule wp_seq_any, rule wp_mono [OF require_armed_spec]) simp_all
  have "wp (stage_final_market E r i)
      (\<lambda>_ t. validated_at_quote E r i \<and> may_submit E (authority_of t)) (\<lambda>_ _. True) s"
    unfolding stage_final_market_def wp_bind
  proof (rule wp_mono [OF call_spec], goal_cases)
    case (1 price t)
    then have "validate_order_at_price (ev_settings E) r i price = Inr () \<Longrightarrow> validated_at_quote E r i"
      by (auto simp: validated_at_quote_def)
    with tail [of t] show ?case
      unfolding wp_seq wp_lift_result by (auto elim: wp_mono split: sum.split)
  qed simp
  from wp_conj [OF cf.within_wp [OF calm_final_stages(2)] this] show ?thesis by simp
qed

lemma check_instrument_Inr:
  "check_instrument is = Inr i \<longleftrightarrow> is = [i] \<and> in_state i = ''live'' \<and> in_instrument_type i = ''SWAP''"
  by (auto simp: check_instrument_def split: list.splits if_splits)

lemma observedI:
  "ev_account_rows E n = Inr rows \<Longrightarrow> rr_positions snap = rw_positions rows \<Longrightarrow>
   rr_pending_orders snap = rw_pending rows \<Longrightarrow> rr_pending_algo_orders snap = rw_algo rows \<Longrightarrow>
   rr_balance snap \<in> set (rw_balance rows) \<Longrightarrow> observed E snap"
  by (auto simp: observed_def)

lemma reconcile_observed:
  "wp (reconcile E b) (\<lambda>snap _. observed E snap) (\<lambda>_ _. True) s"
proof -
  have body: "wp (reconcile_body E b) (\<lambda>snap _. observed E snap) (\<lambda>_ _. True) t" for t
    unfolding reconcile_body_def Let_def
    by (rule wp_bind_any, unfold wp_bind [of "call E (ev_account_rows E)"], rule wp_mono [OF call_spec])
      (auto intro!: wp_any simp: wp_simps intro: observedI split: list.split)
  have failed: "wp (reconcile_failed E e) (\<lambda>snap _. observed E snap) (\<lambda>_ _. True) t" for e t
    unfolding reconcile_failed_def by (rule wp_seq_any, rule wp_seq_any) (simp_all add: wp_raise)
  show ?thesis
    unfolding reconcile_def
    by (rule wp_seq_any, unfold wp_try_except, rule wp_mono [OF body]) (simp_all add: failed)
qed

lemma session_loss_spec:
  assumes "observed E snap" "clean_flat snap"
  shows "wp (enforce_session_loss E (bal_total_equity (rr_balance snap)))
    (\<lambda>_ t. session_backed E (ls_baseline_equity t)) (\<lambda>_ _. True) s"
  using assms
  by (auto simp: enforce_session_loss_def wp_simps session_backed_def not_le intro!: wp_any
      split: option.split)

lemma final_reconcile_spec:
  "wp (stage_final_reconcile E) (\<lambda>_ t. calm s t \<and> session_backed E (ls_baseline_equity t)) (\<lambda>_ t. calm s t) s"
proof -
  have "wp (stage_final_reconcile E) (\<lambda>_ t. session_backed E (ls_baseline_equity t)) (\<lambda>_ _. True) s"
    unfolding stage_final_reconcile_def wp_bind
    by (rule wp_mono [OF reconcile_observed])
      (auto simp: wp_simps intro: session_loss_spec dest: check_flat_Inr split: sum.split)
  from wp_conj [OF cf.within_wp [OF calm_final_stages(1)] this] show ?thesis by simp
qed

lemma market_result:
  "wp (validate_order_market E r) (\<lambda>(i, price) _. quoted_instrument E (oq_instrument_id r) i \<and>
     validate_order_at_price (ev_settings E) r i price = Inr ()) (\<lambda>_ _. True) s"
  unfolding validate_order_market_def wp_bind
  by (rule wp_mono [OF call_spec])
    (auto simp: wp_simps check_instrument_Inr quoted_instrument_def split: sum.split)

lemma prepare_market_result:
  "wp (prepare_order E r) (\<lambda>(config, side, payload, i, pid) _.
     quoted_instrument E (oq_instrument_id r) i \<and> oq_leverage r \<le> okx_live_max_leverage (ev_settings E))
     (\<lambda>_ _. True) s"
proof -
  have "wp (validate_order_market E r) (\<lambda>(i, price) _. quoted_instrument E (oq_instrument_id r) i \<and>
      oq_leverage r \<le> okx_live_max_leverage (ev_settings E)) (\<lambda>_ _. True) t" for t
    by (rule wp_mono [OF market_result]) (auto dest: validate_order_at_price_Inr(4))
  note market = this
  show ?thesis
    unfolding prepare_order_def
    by (rule wp_seq_any, rule wp_seq_any, rule wp_bind_any, rule wp_seq_any, rule wp_seq_any,
        rule wp_seq_any, unfold wp_bind [of "validate_order_market E r"], rule wp_mono [OF market])
      (auto intro!: wp_any simp: wp_simps split: sum.split)
qed

section \<open>Handlers\<close>

lemma payload_within_limits:
  assumes "order_payload_of (ev_settings E) r (side_of (oq_direction r)) side = Inr p"
    and "quoted_instrument E (oq_instrument_id r) i" "validated_at_quote E r i"
    and "check_symbol (ev_settings E) (oq_instrument_id r) = Inr ()"
  shows "order_within_limits E p"
proof -
  obtain n price where price: "ev_mark_price E n (oq_instrument_id r) = Inr price"
    and v: "validate_order_at_price (ev_settings E) r i price = Inr ()"
    using assms(3) by (auto simp: validated_at_quote_def)
  note valid = validate_order_at_price_Inr [OF v]
  obtain q where "contract_notional (oq_size r) price i = Inr q" "q \<le> okx_live_max_notional_usdt (ev_settings E)"
    using valid(6) by blast
  moreover have p: "op_inst_id p = oq_instrument_id r" "op_sz p = oq_size r"
    "op_cl_ord_id p = oq_client_order_id r" "op_side p = side_of (oq_direction r)"
    "protection_client_order_id (oq_client_order_id r) = Inr (op_attach_algo_cl_ord_id p)"
    "op_sl_trigger_px p = oq_stop_loss r" "op_tp_trigger_px p = oq_take_profit r"
    using assms(1) by (auto simp: order_payload_of_def result_simps)
  moreover have "payload_brackets p price"
    using valid(5) p by (auto simp: payload_brackets_def brackets_def side_of_def split: direction.splits)
  moreover have "oq_instrument_id r \<in> set (okx_live_allowed_symbol_list (ev_settings E))"
    using assms(4) by (auto simp: check_symbol_def raise_if_def split: if_splits)
  ultimately show ?thesis
    unfolding order_within_limits_def using assms(2) price valid(2) by metis
qed

lemma authority_lock [simp]: "au_write_lock (authority_of s) = ls_write_lock s"
  by (simp add: authority_of_def)

lemma send_order_spec:
  assumes "ls_write_lock s \<longrightarrow> W (authority_of s, PlaceOrderWrite p)"
  shows "wp (send E (PlaceOrderWrite p) f) (\<lambda>_. locked W s) (\<lambda>_. locked W s) s"
proof -
  let ?t = "s\<lparr>ls_sent := ls_sent s @ [(authority_of s, PlaceOrderWrite p)]\<rparr>"
  have "locked W s ?t" using assms by (auto simp: locked_def emits_def)
  then have step: "calm ?t u \<Longrightarrow> locked W s u" for u
    using calm_locked lf.frame_trans by blast
  show ?thesis
    unfolding send_def wp_seq wp_modify by (intro wp_calm calm_intros) (auto intro: step)
qed

lemma wp_locked_from:
  "stays (locked W) m \<Longrightarrow> locked W s t \<Longrightarrow> wp m (\<lambda>_. locked W s) (\<lambda>_. locked W s) t"
  by (rule wp_mono [OF lf.within_wp]) (auto intro: lf.frame_trans)

lemma order_failed_locked: "locked W s t \<Longrightarrow> wp (order_failed E r st e) Q (\<lambda>_. locked W s) t"
  unfolding order_failed_def wp_seq wp_raise
  by (rule wp_mono [OF wp_locked_from [OF quiet_write_failure [THEN lf.within_quiet]]], assumption,
      rule wp_mono [OF wp_locked_from [OF calm_modifies(2) [THEN lf.within_calm]]])

lemma staged_locked:
  assumes "wp m Q (\<lambda>_. locked W s) t"
  shows "wp (staged E r st m) Q (\<lambda>_. locked W s) t"
  unfolding staged_def wp_try_except by (rule wp_mono [OF assms]) (auto intro: order_failed_locked)

text \<open>The authority of the last check is the authority of the order.\<close>

lemma place_stage_authorised:
  assumes "W (authority_of t, PlaceOrderWrite p)" "locked W s t"
  shows "wp (staged E r ''place_order'' (execution E (send E (PlaceOrderWrite p) (ev_place_order E))))
      (\<lambda>_. locked W s) (\<lambda>_. locked W s) t"
proof (rule staged_locked)
  have "wp (send E (PlaceOrderWrite p) (ev_place_order E)) (\<lambda>_. locked W t) (\<lambda>_. locked W t) t"
    using assms by (intro send_order_spec) simp
  then show "wp (execution E (send E (PlaceOrderWrite p) (ev_place_order E))) (\<lambda>_. locked W s) (\<lambda>_. locked W s) t"
    unfolding execution_def wp_if wp_raise using assms(2)
    by (auto elim!: wp_mono intro: lf.frame_trans)
qed

lemma armed_baseline:
  "calm s t \<Longrightarrow> may_submit E (authority_of t) \<Longrightarrow> ls_baseline_equity t = ls_baseline_equity s"
  by (auto simp: calm_def restrained_def may_submit_def authority_of_def)

lemma final_stages_authorised:
  assumes W: "\<And>a. au_write_lock a \<Longrightarrow> may_submit E a \<Longrightarrow> session_backed E (au_baseline_equity a) \<Longrightarrow>
      validated_at_quote E r i \<Longrightarrow> W (a, PlaceOrderWrite p)"
  shows "stays (locked W) (seq_eff (staged E r ''final_pre_submit_reconcile'' (stage_final_reconcile E))
     (seq_eff (staged E r ''final_market_recheck'' (stage_final_market E r i))
     (staged E r ''place_order'' (execution E (send E (PlaceOrderWrite p) (ev_place_order E))))))"
proof (rule stays_wpI)
  fix s
  have place: "wp (staged E r ''place_order'' (execution E (send E (PlaceOrderWrite p) (ev_place_order E))))
      (\<lambda>_. locked W s) (\<lambda>_. locked W s) u"
    if "calm s t" "calm t u" "session_backed E (ls_baseline_equity t)" "validated_at_quote E r i"
      "may_submit E (authority_of u)" for t u
  proof (cases "ls_write_lock s")
    case True
    have su: "calm s u" using that(1,2) by (rule cf.frame_trans)
    then have "au_write_lock (authority_of u)" using True by (simp add: calm_def restrained_def)
    moreover have "session_backed E (au_baseline_equity (authority_of u))"
      using that(3) armed_baseline [OF that(2,5)] by (simp add: authority_of_def)
    ultimately show ?thesis using W that(4,5) su by (intro place_stage_authorised calm_locked)
  next
    case False
    then show ?thesis by (auto intro!: wp_any simp: locked_def)
  qed
  have market: "wp (seq_eff (staged E r ''final_market_recheck'' (stage_final_market E r i))
      (staged E r ''place_order'' (execution E (send E (PlaceOrderWrite p) (ev_place_order E)))))
      (\<lambda>_. locked W s) (\<lambda>_. locked W s) t"
    if "calm s t" "session_backed E (ls_baseline_equity t)" for t
    unfolding wp_seq
    by (rule staged_locked, rule wp_mono [OF final_market_spec])
      (use that place cf.frame_trans calm_locked in blast)+
  show "wp (seq_eff (staged E r ''final_pre_submit_reconcile'' (stage_final_reconcile E))
     (seq_eff (staged E r ''final_market_recheck'' (stage_final_market E r i))
     (staged E r ''place_order'' (execution E (send E (PlaceOrderWrite p) (ev_place_order E))))))
     (\<lambda>_. locked W s) (\<lambda>_. locked W s) s"
    unfolding wp_seq [of "staged E r ''final_pre_submit_reconcile'' (stage_final_reconcile E)"]
    by (rule staged_locked, rule wp_mono [OF final_reconcile_spec]) (use market calm_locked in auto)
qed

lemma within_ensure_symbol:
  assumes "check_symbol (ev_settings E) i = Inr () \<Longrightarrow> stays (emits W) n"
  shows "stays (emits W) (seq_eff (ensure_symbol E i) n)"
  unfolding seq_eff_def
  by (rule ef.within_bind_returns [where P = "\<lambda>_. check_symbol (ev_settings E) i = Inr ()"])
    (auto simp: ensure_symbol_def wp_simps intro: assms ef.within_lift split: sum.split)

lemma check_symbol_Inr:
  "check_symbol S i = Inr () \<longleftrightarrow> i \<in> set (okx_live_allowed_symbol_list S)"
  by (auto simp: check_symbol_def raise_if_def)

lemma authorised_submit:
  assumes "order_payload_of (ev_settings E) r (side_of (oq_direction r)) side = Inr p"
    and "quoted_instrument E (oq_instrument_id r) i" "oq_leverage r \<le> okx_live_max_leverage (ev_settings E)"
    and "check_symbol (ev_settings E) (oq_instrument_id r) = Inr ()"
  shows "stays (locked (write_authorised E)) (submit_order E r config side' p i)"
  unfolding submit_order_def stage_leverage_def stage_cancel_all_after_def
  by (intro lf.within_seq [OF lf.within_staged] final_stages_authorised lf.quiet_frame_intros locked_send
      calm_intros [THEN lf.within_calm])
    (use assms in \<open>auto simp: order_leverage_payload_def check_symbol_Inr intro: payload_within_limits\<close>)

lemma authorised_place_order: "stays (emits (write_authorised E)) (place_order E r)"
proof -
  have body: "stays (locked (write_authorised E))
      (bind_eff (prepare_order E r) (\<lambda>(config, side, p, i, pid).
         seq_eff (reserve_eff E (order_reservation E r pid))
           (bind_eff (submit_order E r config side p i) (\<lambda>data. conclude_order E r pid data))))"
    if "check_symbol (ev_settings E) (oq_instrument_id r) = Inr ()"
    by (rule lf.within_bind_returns [OF _ wp_mono [OF wp_conj [OF prepare_result prepare_market_result]]],
        rule calm_prepare_order [THEN lf.within_calm])
      (auto intro!: lf.quiet_frame_intros quiet_intros [THEN lf.within_quiet] authorised_submit intro: that)
  show ?thesis
    unfolding place_order_def
    by (intro ef.within_intros within_ensure_symbol guard_emits body calm_intros [THEN el.within_calm])
qed

lemma within_unless:
  "(\<not> c \<Longrightarrow> stays (emits W) n) \<Longrightarrow> stays (emits W) (seq_eff (raise_when c e) n)"
  by (cases c) (auto simp: stays_def eff_defs emits_def)

lemma authorised_other_writes:
  "stays (emits (write_authorised E)) (cancel_order E x)"
  "stays (emits (write_authorised E)) (close_position E z)"
  "stays (emits (write_authorised E)) (set_leverage E v)"
  unfolding cancel_order_def close_position_def set_leverage_def submit_leverage_def
  by (intro ef.within_seq within_ensure_symbol within_unless guard_emits
      calm_intros [THEN el.within_calm]
      lf.quiet_frame_intros quiet_intros [THEN lf.within_quiet] locked_send; auto simp: check_symbol_Inr)+

lemma authorised_local:
  "stays (emits W) (arm E q)" "stays (emits W) (clear_emergency_stop E c)"
  unfolding arm_def grant_arm_def clear_emergency_stop_def
  by (intro el.live_intros quiet_intros [THEN el.within_quiet] ef.within_modify;
      simp add: emits_def disarm_local_def)+

lemma authorised_call: "stays (emits (write_authorised E)) (live_call_eff E c)"
  by (cases c) (auto intro!: el.within_void authorised_place_order authorised_other_writes authorised_local
      intro: calm_intros [THEN el.within_calm])

lemma authorised_step: "emits (write_authorised E) s (live_event_step E s ev)"
proof (cases ev)
  case Restart
  let ?new = "new_service (ls_intents s) (ls_mirror s) (ls_step s) (ls_sent s)"
  have "emits (write_authorised E) ?new (snd (startup E ?new))"
    using el.within_calm [OF calm_startup] by (simp add: stays_def)
  then show ?thesis using Restart by (simp add: emits_def new_service_def)
qed (use authorised_call in \<open>simp add: stays_def\<close>)

lemma authorised_run: "emits (write_authorised E) s (run_live_events E es s)"
  unfolding run_live_events_def
  by (induction es arbitrary: s) (auto intro: ef.frame_refl ef.frame_trans authorised_step)

text \<open>The instrument that a write names.\<close>

fun write_instrument :: "exchange_write \<Rightarrow> string option" where
  "write_instrument (PlaceOrderWrite p) = Some (op_inst_id p)"
| "write_instrument (SetLeverageWrite v) = Some (lv_inst_id v)"
| "write_instrument (CancelAllAfterWrite t tag) = None"
| "write_instrument (CancelOrderWrite i x y) = Some i"
| "write_instrument (ClosePositionWrite i x y) = Some i"

lemma authorised_instrument:
  "write_authorised E (a, w) \<Longrightarrow> write_instrument w = Some i \<Longrightarrow>
     i \<in> set (okx_live_allowed_symbol_list (ev_settings E))"
  by (cases w) (auto simp: order_within_limits_def)

end
