(* ===== verification/Live_Recovery.thy ===== *)
theory Live_Recovery
  imports Live_Authority
begin

text \<open>
  Failing closed and recovering. While an intent is unresolved or the persisted latch is
  engaged, the handlers that open exposure neither write nor arm; a restart with unresolved
  intents leaves the stop engaged; arming and clearing the stop succeed on the evidence the
  code asks for only.
\<close>

section \<open>What the queries return\<close>

lemma intent_query_spec:
  "wp (database E (intent_query f)) (\<lambda>a t. calm s t \<and> f (ls_intents s) = Inr a) (\<lambda>_ t. calm s t) s"
  by (rule wp_databaseI)
    (auto simp: intent_query_def result_simps calm_def intro: restrained_trans)

text \<open>A query of the mirror reads a latch between the one before and the one after.\<close>

lemma mirror_query_spec:
  "wp (database E (mirror_query f))
     (\<lambda>a t. calm s t \<and> (\<exists>u. calm s u \<and> calm u t \<and> f (ls_mirror u) = Inr a)) (\<lambda>_ t. calm s t) s"
  by (rule wp_databaseI)
    (auto simp: mirror_query_def result_simps intro: cf.frame_trans)

section \<open>The asserts\<close>

definition halted :: "live_state \<Rightarrow> bool" where
  "halted s \<longleftrightarrow> (\<exists>row \<in> set (ls_intents s). unresolved row) \<or> latched (ls_mirror s)"

lemma load_unresolved_spec:
  "wp (load_unresolved E) (\<lambda>rows t. calm s t \<and> rows = take 1000 (by_age (filter unresolved (ls_intents s))))
     (\<lambda>_ t. calm s t) s"
  unfolding load_unresolved_def
  by (rule wp_mono [OF intent_query_spec]) (auto simp: load_unresolved_1000)

lemma no_unresolved_spec:
  "wp (assert_no_unresolved_intents E)
     (\<lambda>_ t. \<forall>row \<in> set (ls_intents s). \<not> unresolved row)
     (\<lambda>e t. e \<noteq> CancelledError \<longrightarrow> ls_emergency_stop t) s"
proof -
  have "wp (try_except (load_unresolved E) (\<lambda>_. recovery_unavailable))
      (\<lambda>rows t. rows = take 1000 (by_age (filter unresolved (ls_intents s))))
      (\<lambda>e t. e \<noteq> CancelledError \<longrightarrow> ls_emergency_stop t) s"
    unfolding wp_try_except
    by (rule wp_mono [OF load_unresolved_spec])
      (auto simp: recovery_unavailable_def engage_def engage_emergency_stop_def disarm_local_def wp_simps)
  then show ?thesis
    unfolding assert_no_unresolved_intents_def
    by (auto simp: recovery_unavailable_def engage_def engage_emergency_stop_def disarm_local_def wp_simps
        load_unresolved_Nil simp del: take_eq_Nil elim!: wp_mono)
qed

lemma latch_clear_spec:
  "wp (assert_safety_latch_clear E) (\<lambda>_ t. \<not> latched (ls_mirror s))
     (\<lambda>e t. e \<noteq> CancelledError \<longrightarrow> ls_emergency_stop t) s"
proof -
  have "wp (try_except (database E (mirror_query safety_latch_status))
          (\<lambda>_. seq_eff (engage ''okx_live_safety_latch_unavailable'')
             (raise (OkxLiveUnavailableError ''okx_live_safety_latch_unavailable''))))
      (\<lambda>st t. latched (ls_mirror s) \<longrightarrow> sl_latched st)
      (\<lambda>e t. e \<noteq> CancelledError \<longrightarrow> ls_emergency_stop t) s"
    unfolding wp_try_except
    by (rule wp_mono [OF mirror_query_spec])
      (auto simp: engage_def engage_emergency_stop_def disarm_local_def wp_simps calm_def dest: status_Inr)
  then show ?thesis
    unfolding assert_safety_latch_clear_def
    by (auto simp: engage_def engage_emergency_stop_def disarm_local_def wp_simps elim!: wp_mono)
qed

text \<open>The safety check passes only when nothing halts the service, and stops it otherwise.\<close>

lemma execution_safe_closed:
  "wp (assert_execution_safe E) (\<lambda>_ t. calm s t \<and> \<not> halted s \<and> \<not> ls_emergency_stop t)
     (\<lambda>e t. calm s t \<and> (e \<noteq> CancelledError \<longrightarrow> ls_emergency_stop t)) s"
proof -
  have two: "wp (assert_no_unresolved_intents E)
      (\<lambda>_ t. calm s t \<and> (\<forall>row \<in> set (ls_intents u). \<not> unresolved row))
      (\<lambda>e t. calm s t \<and> (e \<noteq> CancelledError \<longrightarrow> ls_emergency_stop t)) u" if "calm s u" for u
    by (rule wp_mono [OF wp_conj [OF cf.within_wp [OF calm_asserts(2)] no_unresolved_spec]])
      (use that in \<open>auto intro: cf.frame_trans\<close>)
  have one: "wp (assert_safety_latch_clear E) (\<lambda>_ t. calm s t \<and> \<not> latched (ls_mirror s))
      (\<lambda>e t. calm s t \<and> (e \<noteq> CancelledError \<longrightarrow> ls_emergency_stop t)) s"
    by (rule wp_mono [OF wp_conj [OF cf.within_wp [OF calm_asserts(1)] latch_clear_spec]]) auto
  show ?thesis
    unfolding assert_execution_safe_def wp_seq wp_bind
    by (rule wp_mono [OF one], rule wp_mono [OF two])
      (auto simp: wp_simps halted_def calm_def)
qed

section \<open>A halted service opens no exposure\<close>

text \<open>
  A preorder that constrains only states in which a reason \<open>H\<close> to halt holds: the handlers that
  open exposure stay within it, since their first step under the guard is the safety check.
\<close>

locale halting_frame = guard_frame R for R :: "live_state \<Rightarrow> live_state \<Rightarrow> bool" +
  fixes H :: "live_state \<Rightarrow> bool"
  assumes halts: "H s \<Longrightarrow> halted s"
    and unconstrained: "\<not> H s \<Longrightarrow> R s t"
begin

lemma within_check: "stays R (seq_eff (assert_execution_safe E) n)"
proof (rule stays_wpI)
  fix s
  show "wp (seq_eff (assert_execution_safe E) n) (\<lambda>_. R s) (\<lambda>_. R s) s"
  proof (cases "H s")
    case True
    show ?thesis
      unfolding wp_seq
      by (rule wp_mono [OF execution_safe_closed]) (use halts [OF True] calm_in in auto)
  next
    case False
    then show ?thesis by (intro wp_any unconstrained)
  qed
qed

lemma within_bind_check: "stays R (bind_eff (seq_eff (assert_execution_safe E) n) f)"
proof -
  have "bind_eff (seq_eff (assert_execution_safe E) n) f = seq_eff (assert_execution_safe E) (bind_eff n f)"
    by (auto simp: seq_eff_def bind_eff_def split: prod.splits sum.splits)
  then show ?thesis by (simp add: within_check)
qed

lemma within_exposing:
  "stays R (place_order E r)" "stays R (set_leverage E v)" "stays R (arm E q)"
  unfolding place_order_def set_leverage_def arm_def prepare_order_def grant_arm_def
  by (intro within_bind_check within_check guard_intros calm_intros [THEN within_calm])+

end

text \<open>Nothing is written, no intent changes and no arm is granted while the service is halted.\<close>

definition frozen :: "live_state \<Rightarrow> live_state \<Rightarrow> bool" where
  "frozen s t \<longleftrightarrow> (halted s \<longrightarrow> halted t \<and> ls_sent t = ls_sent s \<and> ls_intents t = ls_intents s \<and>
     (ls_armed_until t = None \<or> ls_armed_until t = ls_armed_until s))"

interpretation zf: halting_frame frozen halted
proof
  show "frozen s s" for s by (simp add: frozen_def)
  show "frozen s t \<Longrightarrow> frozen t u \<Longrightarrow> frozen s u" for s t u
    unfolding frozen_def by metis
  show "calm s t \<Longrightarrow> frozen s t" for s t
    unfolding frozen_def halted_def calm_def restrained_def by metis
  show "frozen s (s\<lparr>ls_write_lock := b\<rparr>)" for s b
    by (simp add: frozen_def halted_def)
qed (simp_all add: frozen_def)

section \<open>The persisted latch holds until it is cleared\<close>

definition latch_held :: "live_state \<Rightarrow> live_state \<Rightarrow> bool" where
  "latch_held s t \<longleftrightarrow> (latched (ls_mirror s) \<longrightarrow> latched (ls_mirror t) \<and> placed t = placed s \<and>
     (ls_armed_until t = None \<or> ls_armed_until t = ls_armed_until s))"

lemma quiet_latch_held: "quiet s t \<Longrightarrow> latch_held s t"
  by (auto simp: latch_held_def quiet_def recovering_def restrained_def)

interpretation hf: halting_frame latch_held "\<lambda>s. latched (ls_mirror s)"
proof
  show "latch_held s s" for s by (simp add: latch_held_def)
  show "latch_held s t \<Longrightarrow> latch_held t u \<Longrightarrow> latch_held s u" for s t u
    unfolding latch_held_def by metis
  show "calm s t \<Longrightarrow> latch_held s t" for s t
    by (intro quiet_latch_held calm_quiet)
  show "latch_held s (s\<lparr>ls_write_lock := b\<rparr>)" for s b
    by (simp add: latch_held_def)
qed (simp_all add: latch_held_def halted_def)

lemma held_quiet: "stays quiet m \<Longrightarrow> stays latch_held m"
  by (erule stays_mono) (rule quiet_latch_held)

lemma held_closing: "stays latch_held (cancel_order E r)" "stays latch_held (close_position E z)"
  unfolding cancel_order_def close_position_def
  by (intro hf.guard_intros quiet_intros [THEN held_quiet] hf.within_send; simp add: latch_held_def)+

lemma held_call: "(\<And>r. c \<noteq> CallClearStop r) \<Longrightarrow> stays latch_held (live_call_eff E c)"
  by (cases c) (auto intro!: hf.within_void hf.within_exposing held_closing
      intro: calm_intros [THEN hf.within_calm])

lemma held_step:
  assumes "\<And>r. ev \<noteq> Call (CallClearStop r)"
  shows "latch_held s (live_event_step E s ev)"
proof (cases ev)
  case Restart
  let ?new = "new_service (ls_intents s) (ls_mirror s) (ls_step s) (ls_sent s)"
  have "latch_held ?new (snd (startup E ?new))"
    using hf.within_calm [OF calm_startup] by (simp add: stays_def)
  moreover have "latch_held s ?new" by (simp add: latch_held_def new_service_def)
  ultimately show ?thesis using Restart hf.frame_trans by simp
qed (use assms held_call in \<open>fastforce simp: stays_def\<close>)

lemma held_run:
  assumes "\<And>r. Call (CallClearStop r) \<notin> set es"
  shows "latch_held s (run_live_events E es s)"
  unfolding run_live_events_def using assms
proof (induction es arbitrary: s)
  case (Cons ev es)
  have "latch_held s (live_event_step E s ev)"
    by (rule held_step) (use Cons.prems in auto)
  moreover have "latch_held (live_event_step E s ev) (foldl (live_event_step E) (live_event_step E s ev) es)"
    by (rule Cons.IH) (use Cons.prems in auto)
  ultimately show ?case using hf.frame_trans by simp
qed (simp add: hf.frame_refl)

section \<open>Startup\<close>

lemma startup_closed:
  assumes "okx_live_enabled (ev_settings E)"
    and "live_trading (ev_settings E) \<or> okx_live_allow_order_writes (ev_settings E)"
  shows "wp (startup E) (\<lambda>_ t. ls_armed_until t = None \<and> (halted s \<longrightarrow> ls_emergency_stop t)) (\<lambda>_ _. True) s"
proof -
  let ?d = "disarm_local False s"
  let ?p = "if okx_live_auto_reconcile_on_start (ev_settings E)
      then try_except (bind_eff (reconcile E True) (\<lambda>_. ret ())) (\<lambda>_. ret ()) else ret ()"
  have d: "ls_armed_until ?d = None" "halted ?d = halted s" by (simp_all add: disarm_local_def halted_def)
  have check: "wp (try_except (assert_execution_safe E) (\<lambda>e. case e of
        OkxLiveSafetyError _ \<Rightarrow> ret () | OkxLiveUnavailableError _ \<Rightarrow> ret () | _ \<Rightarrow> raise e))
      (\<lambda>_ t. ls_armed_until t = None \<and> (halted s \<longrightarrow> ls_emergency_stop t)) (\<lambda>_ _. True) u"
    if u: "calm ?d u" for u
  proof -
    have "halted s \<longrightarrow> halted u" using zf.calm_in [OF u] d by (simp add: frozen_def)
    moreover have "ls_armed_until t = None" if "calm u t" for t
      using cf.frame_trans [OF u that] d by (auto simp: calm_def restrained_def)
    ultimately show ?thesis
      unfolding wp_try_except
      by (intro wp_mono [OF execution_safe_closed]) (auto simp: wp_simps split: exn.split)
  qed
  have "stays calm ?p" by (intro cf.within_intros calm_intros)
  then have p: "wp ?p (\<lambda>_ u. calm ?d u) (\<lambda>_ _. True) ?d" by (rule wp_calm) simp_all
  have enabled: "(okx_live_enabled (ev_settings E) \<and>
      (live_trading (ev_settings E) \<or> okx_live_allow_order_writes (ev_settings E))) = True"
    using assms by simp
  show ?thesis
    unfolding startup_def wp_seq disarm_eff_def wp_modify enabled if_True
    by (rule wp_mono [OF p]) (auto intro: check)
qed

section \<open>Arming\<close>

text \<open>What the body of a guard returns, when it survives calm code and the release of the lock.\<close>

lemma guard_returns:
  assumes body: "\<And>t. calm (s\<lparr>ls_write_lock := True\<rparr>) t \<Longrightarrow> wp m Q (\<lambda>_ _. True) t"
    and calm: "\<And>a t u. Q a t \<Longrightarrow> calm t u \<Longrightarrow> Q a u"
    and lock: "\<And>a t. Q a t \<Longrightarrow> Q a (t\<lparr>ls_write_lock := False\<rparr>)"
  shows "wp (execution_guard E m) Q (\<lambda>_ _. True) s"
proof -
  let ?s = "s\<lparr>ls_write_lock := True\<rparr>"
  let ?free = "try_finally (call E (fault_of E ())) (call E (fault_of E ()))"
  have free: "stays calm ?free" by (intro cf.within_intros calm_intros)
  have "wp (if \<not> acquired then seq_eff (call E (fault_of E ()))
        (raise (OkxLiveExecutionAuthorityBusy ''okx_live_global_execution_lock_busy''))
      else try_finally m ?free) Q (\<lambda>_ _. True) t" if "calm ?s t" for acquired t
    using body [OF that] calm
    by (auto simp: wp_seq wp_raise wp_try_finally [of m] intro!: wp_any wp_calm [OF free] elim!: wp_mono)
  then have "wp (execution_lock E m) Q (\<lambda>_ _. True) ?s"
    unfolding execution_lock_def wp_bind by (intro wp_calm [OF calm_call]) auto
  then have "wp (try_except (execution_lock E m)
      (\<lambda>e. case e of OkxLiveExecutionAuthorityBusy msg \<Rightarrow> raise (OkxLiveBusyError msg) | _ \<Rightarrow> raise e))
      Q (\<lambda>_ _. True) ?s"
    unfolding wp_try_except by (rule wp_mono) (auto simp: wp_raise split: exn.split)
  then show ?thesis
    unfolding execution_guard_def wp_bind wp_seq wp_gets wp_raise_when wp_modify wp_try_finally
    by (auto elim!: wp_mono intro: lock)
qed

definition arm_evidence :: "env \<Rightarrow> arm_request \<Rightarrow> live_state \<Rightarrow> bool" where
  "arm_evidence E r t \<longleftrightarrow> (\<exists>snap. observed E snap \<and> clean_flat snap \<and>
     validate_write_capability (ev_settings E) (rr_account_config snap) = Inr () \<and>
     0 < bal_total_equity (rr_balance snap) \<and>
     (ls_armed_until t = None \<or>
      ls_baseline_equity t = Some (bal_total_equity (rr_balance snap)) \<and>
      (\<exists>n. ls_armed_until t = Some (ev_clock E n + seconds (aq_duration_seconds r)))))"

lemma arm_evidence_calm: "arm_evidence E r t \<Longrightarrow> calm t u \<Longrightarrow> arm_evidence E r u"
  unfolding arm_evidence_def calm_def restrained_def by metis

lemma evidence_lock [simp]:
  "arm_evidence E r (t\<lparr>ls_write_lock := b\<rparr>) = arm_evidence E r t" "halted (t\<lparr>ls_write_lock := b\<rparr>) = halted t"
  by (simp_all add: arm_evidence_def halted_def)

lemma grant_spec:
  assumes "observed E snap" "clean_flat snap"
    "validate_write_capability (ev_settings E) (rr_account_config snap) = Inr ()"
  shows "wp (grant_arm E (bal_total_equity (rr_balance snap)) (aq_duration_seconds r))
    (\<lambda>_ t. arm_evidence E r t \<and> \<not> halted s) (\<lambda>_ _. True) s"
  unfolding grant_arm_def wp_seq
  by (rule wp_mono [OF execution_safe_closed])
    (use assms in \<open>auto simp: wp_simps arm_evidence_def not_le\<close>)

lemma arm_spec:
  "wp (arm E r) (\<lambda>_ t. arm_evidence E r t \<and> \<not> halted s \<and>
     aq_duration_seconds r \<le> okx_live_arm_ttl_seconds (ev_settings E)) (\<lambda>_ _. True) s"
proof -
  let ?body = "bind_eff (reconcile E True) (\<lambda>snap.
     seq_eff (lift_result (validate_write_capability (ev_settings E) (rr_account_config snap)))
     (seq_eff (lift_result (check_flat (ev_settings E) snap ''arm''))
     (grant_arm E (bal_total_equity (rr_balance snap)) (aq_duration_seconds r))))"
  have halt: "halted u \<longrightarrow> halted t" if "calm u t" for u t using zf.calm_in [OF that] by (simp add: frozen_def)
  have body: "wp ?body (\<lambda>_ t. arm_evidence E r t \<and> \<not> halted u) (\<lambda>_ _. True) u" for u
    unfolding wp_bind
    by (rule wp_mono [OF wp_conj [OF reconcile_observed cf.within_wp [OF calm_reconcile]]])
      (auto simp: wp_simps split: sum.split dest!: check_flat_Inr dest: halt
        intro!: wp_mono [OF grant_spec])
  have guard: "wp (execution_guard E ?body) (\<lambda>_ t. arm_evidence E r t \<and> \<not> halted u) (\<lambda>_ _. True) u" for u
    by (rule guard_returns, rule wp_mono [OF body])
      (auto dest: halt intro: arm_evidence_calm)
  have status: "wp (status E) (\<lambda>_ t. arm_evidence E r t) (\<lambda>_ _. True) u" if "arm_evidence E r u" for u
    using that by (intro wp_calm calm_intros) (auto intro: arm_evidence_calm)
  have "calm s s" by (rule cf.frame_refl)
  then show ?thesis
    unfolding arm_def wp_seq wp_bind ensure_write_configuration_def
    by (auto simp: wp_simps split: sum.split intro!: wp_mono [OF guard] wp_mono [OF status])
qed

end
