(* ===== verification/Live_Clearing.thy ===== *)
theory Live_Clearing
  imports Live_Recovery
begin

text \<open>
  Clearing the stop. A clearance that succeeds has seen the configured number of consecutive
  flat snapshots of one account, has marked exactly the unresolved intents that the operator
  listed as reconciled at the last of them, leaves no unresolved intent, and has found or
  made the persisted latch clear; it leaves the service disarmed.
\<close>

section \<open>Stable flat snapshots\<close>

definition identity_of :: "reconcile_result \<Rightarrow> string option \<times> string option" where
  "identity_of snap = (acc_uid (rr_account_config snap), acc_main_uid (rr_account_config snap))"

definition flat_series :: "env \<Rightarrow> (string option \<times> string option) \<Rightarrow> reconcile_result list \<Rightarrow> bool" where
  "flat_series E i snaps \<longleftrightarrow> (\<forall>snap \<in> set snaps. observed E snap \<and> clean_flat snap \<and> identity_of snap = i)"

definition stable_series :: "env \<Rightarrow> reconcile_result list \<Rightarrow> bool" where
  "stable_series E snaps \<longleftrightarrow> snaps \<noteq> [] \<and>
     length snaps = okx_live_recovery_flat_poll_attempts (ev_settings E) \<and> (\<exists>i. flat_series E i snaps)"

lemma recovery_attempt_spec:
  "wp (recovery_attempt E rows prev) (\<lambda>(view, snap) _. observed E snap \<and> clean_flat snap \<and>
     fst view = identity_of snap \<and> (\<forall>i os. prev = Some (i, os) \<longrightarrow> i = identity_of snap))
     (\<lambda>_ _. True) s"
  unfolding recovery_attempt_def wp_bind [of "reconcile E False"] Let_def
  by (rule wp_mono [OF reconcile_observed])
    (auto simp: wp_simps identity_of_def dest: check_flat_Inr intro!: wp_any split: sum.split option.splits)

text \<open>The snapshots that the remaining attempts add to those already seen.\<close>

definition attempts_result ::
  "env \<Rightarrow> nat \<Rightarrow> recovery_view option \<Rightarrow> reconcile_result option \<Rightarrow> reconcile_result option \<Rightarrow> bool" where
  "attempts_result E k prev final x \<longleftrightarrow> (\<exists>snaps i. length snaps = k \<and> flat_series E i snaps \<and>
     (prev = None \<or> map_option fst prev = Some i) \<and> x = (if snaps = [] then final else Some (last snaps)))"

lemma attempts_result_0: "attempts_result E 0 prev final final"
proof -
  have "attempts_result E 0 prev final final = (\<exists>i. prev = None \<or> map_option fst prev = Some i)"
    by (simp add: attempts_result_def flat_series_def)
  then show ?thesis by (cases prev) (simp, metis option.map_disc_iff option.collapse)
qed

lemma attempts_result_Suc:
  assumes "observed E snap" "clean_flat snap" "i = identity_of snap"
    and "prev = None \<or> map_option fst prev = Some i"
    and "attempts_result E k (Some (i, os)) (Some snap) x"
  shows "attempts_result E (Suc k) prev final x"
proof -
  obtain xs where "length xs = k" "flat_series E i xs" "x = (if xs = [] then Some snap else Some (last xs))"
    using assms(5) unfolding attempts_result_def by force
  then have "length (snap # xs) = Suc k \<and> flat_series E i (snap # xs) \<and>
      (prev = None \<or> map_option fst prev = Some i) \<and>
      x = (if snap # xs = [] then final else Some (last (snap # xs)))"
    using assms(1-4) by (simp add: flat_series_def)
  then show ?thesis unfolding attempts_result_def by blast
qed

lemma stable_attempts_spec:
  "wp (stable_flat_attempts E rows k prev final) (\<lambda>x _. attempts_result E k prev final x) (\<lambda>_ _. True) s"
proof (induction k arbitrary: prev final s)
  case 0
  show ?case by (simp add: wp_ret attempts_result_0)
next
  case (Suc k)
  show ?case
    unfolding stable_flat_attempts.simps wp_bind [of "recovery_attempt E rows prev"]
  proof (rule wp_mono [OF recovery_attempt_spec], goal_cases)
    case (1 a t)
    obtain i os snap where a: "a = ((i, os), snap)" by (metis prod.collapse)
    have one: "observed E snap" "clean_flat snap" "i = identity_of snap"
      "prev = None \<or> map_option fst prev = Some i"
      using 1 unfolding a by (cases prev; simp; metis prod.collapse)+
    show ?case
      unfolding a prod.case
      by (rule wp_seq_any, rule wp_mono [OF Suc.IH], rule attempts_result_Suc [OF one]) simp_all
  qed simp
qed

lemma attempts_stable:
  "attempts_result E (okx_live_recovery_flat_poll_attempts (ev_settings E)) None None (Some snap) \<Longrightarrow>
   \<exists>snaps. stable_series E snaps \<and> snap = last snaps"
  unfolding attempts_result_def stable_series_def by (metis option.distinct(1) option.inject)

lemma stable_flat_spec:
  "wp (stable_flat_recovery_check E rows)
     (\<lambda>snap _. \<exists>snaps. stable_series E snaps \<and> snap = last snaps) (\<lambda>_ _. True) s"
  unfolding stable_flat_recovery_check_def wp_bind
  by (rule wp_mono [OF stable_attempts_spec])
    (auto simp: wp_simps dest: attempts_stable split: option.split)

section \<open>Marking the intents and clearing the latch\<close>

definition resolved_table :: "timestamp \<Rightarrow> intent_table \<Rightarrow> intent_table" where
  "resolved_table w t = map (\<lambda>r. if unresolved r then resolved_row w flat_resolution_code r else r) t"

lemma mark_resolves:
  assumes "mark_unresolved_intents_operator_reconciled es w c t = Inr (n, t')"
  shows "t' = resolved_table w t"
    "set (intent_keys (filter unresolved t)) = set (map ie_idempotency_key es)"
  using mark_Inr [OF assms] by (simp_all add: resolved_table_def)

lemma mark_spec:
  "wp (database E (intent_txn (\<lambda>_. mark_unresolved_intents_operator_reconciled es w c)))
     (\<lambda>_ t. ls_intents t = resolved_table w (ls_intents s) \<and>
        set (intent_keys (filter unresolved (ls_intents s))) = set (map ie_idempotency_key es))
     (\<lambda>_ _. True) s"
proof (rule wp_databaseI)
  fix n t a u v
  assume t: "calm s t" and v: "calm u v"
    and u: "intent_txn (\<lambda>_. mark_unresolved_intents_operator_reconciled es w c) n t = Inr (a, u)"
  obtain i where i: "mark_unresolved_intents_operator_reconciled es w c (ls_intents t) = Inr (a, i)"
    and u': "u = t\<lparr>ls_intents := i\<rparr>"
    using u by (auto simp: intent_txn_def result_simps)
  have "ls_intents t = ls_intents s" "ls_intents v = i" using t v u' by (simp_all add: calm_def)
  then show "(ls_intents v = resolved_table w (ls_intents s) \<and>
      set (intent_keys (filter unresolved (ls_intents s))) = set (map ie_idempotency_key es)) \<and> (\<forall>e. True)"
    using mark_resolves [OF i] by simp
qed simp

text \<open>The latch was clear at some moment, and nothing older than it is in the mirror.\<close>

definition latch_seen_clear :: "live_state \<Rightarrow> bool" where
  "latch_seen_clear t \<longleftrightarrow> (\<exists>m. \<not> latched m \<and> latch_le m (ls_mirror t))"

lemma latch_seen_clearI: "\<not> latched (ls_mirror s) \<Longrightarrow> calm s t \<Longrightarrow> latch_seen_clear t"
  unfolding latch_seen_clear_def calm_def restrained_def by blast

lemma clear_latch_spec:
  "wp (clear_latch_after_recovery E st) (\<lambda>_ t. ls_intents t = ls_intents s \<and> latch_seen_clear t) (\<lambda>_ _. True) s"
proof -
  have fields: "latch_seen_clear (t\<lparr>ls_safety_latch_version := v, ls_safety_latch_code := c\<rparr>) = latch_seen_clear t" for t v c
    by (simp add: latch_seen_clear_def)
  have clear: "wp (database E (mirror_txn (clear_safety_latch (sl_version st))))
      (\<lambda>_ t. ls_intents t = ls_intents s \<and> latch_seen_clear t) (\<lambda>_ _. True) s"
  proof (rule wp_databaseI)
    fix n t a u v
    assume t: "calm s t" and v: "calm u v"
      and u: "mirror_txn (clear_safety_latch (sl_version st)) n t = Inr (a, u)"
    then obtain m where "clear_safety_latch (sl_version st) n (ls_mirror t) = Inr (a, m)"
      and u': "u = t\<lparr>ls_mirror := m\<rparr>"
      by (auto simp: mirror_txn_def result_simps)
    then have "latch_seen_clear v" using clear_Inr(3) latch_seen_clearI [OF _ v] by simp
    with v t u' show "(ls_intents v = ls_intents s \<and> latch_seen_clear v) \<and> (\<forall>e. True)"
      by (simp add: calm_def)
  qed simp
  have query: "wp (database E (mirror_query safety_latch_status))
      (\<lambda>a t. ls_intents t = ls_intents s \<and> (\<not> sl_latched a \<longrightarrow> latch_seen_clear t)) (\<lambda>_ _. True) s"
  proof (rule wp_mono [OF mirror_query_spec], goal_cases)
    case (1 a t)
    then show ?case using status_Inr(1) latch_seen_clearI by (auto simp: calm_def)
  qed simp
  show ?thesis
    unfolding clear_latch_after_recovery_def wp_seq [of "if _ then _ else _"] wp_if wp_bind
    by (simp, intro conjI impI) (rule wp_mono [OF clear] wp_mono [OF query]; simp add: wp_simps fields)+
qed

section \<open>The whole clearance\<close>

definition clearance :: "env \<Rightarrow> clear_stop_request \<Rightarrow> live_state \<Rightarrow> live_state \<Rightarrow> bool" where
  "clearance E r s t \<longleftrightarrow> (\<exists>snaps. stable_series E snaps \<and>
     ls_intents t = resolved_table (rr_reconciled_at (last snaps)) (ls_intents s) \<and>
     set (intent_keys (filter unresolved (ls_intents s))) =
       set (map ie_idempotency_key (cq_expected_unresolved_intents r)) \<and>
     latch_seen_clear t)"

lemma clear_recovery_spec:
  "wp (clear_recovery E r) (\<lambda>_ t. clearance E r s t) (\<lambda>_ _. True) s"
proof -
  let ?es = "cq_expected_unresolved_intents r"
  have tail: "wp (seq_eff (database E (intent_txn (\<lambda>_. mark_unresolved_intents_operator_reconciled
          ?es (rr_reconciled_at snap) flat_resolution_code)))
      (bind_eff (load_unresolved E) (\<lambda>remaining.
       seq_eff (raise_when (remaining \<noteq> [])
         (OkxLiveSafetyError ''okx_live_unresolved_intents_remain_after_resolution''))
       (clear_latch_after_recovery E st)))) (\<lambda>_ t. clearance E r s t) (\<lambda>_ _. True) u"
    if u: "calm s u" and snaps: "stable_series E snaps" "snap = last snaps" for u snaps snap st
  proof -
    have s: "ls_intents u = ls_intents s" using u by (simp add: calm_def)
    have cleared: "clearance E r s w"
      if "ls_intents w = resolved_table (rr_reconciled_at snap) (ls_intents u)" "latch_seen_clear w"
        "set (intent_keys (filter unresolved (ls_intents u))) = set (map ie_idempotency_key ?es)" for w
      using that snaps s unfolding clearance_def by metis
    show ?thesis
      unfolding wp_seq [of "database E _"] wp_bind [of "load_unresolved E"]
    proof (rule wp_mono [OF mark_spec], goal_cases)
      case (1 a v)
      have "wp (clear_latch_after_recovery E st) (\<lambda>_ t. clearance E r s t) (\<lambda>_ _. True) w" if "calm v w" for w
        by (rule wp_mono [OF clear_latch_spec]) (use 1 that cleared in \<open>auto simp: calm_def\<close>)
      then show ?case
        by (intro wp_calm [OF calm_load]) (simp_all add: wp_seq wp_raise_when)
    qed simp
  qed
  have "wp (bind_eff (stable_flat_recovery_check E rows) (\<lambda>snap.
      seq_eff (database E (intent_txn (\<lambda>_. mark_unresolved_intents_operator_reconciled
          ?es (rr_reconciled_at snap) flat_resolution_code)))
      (bind_eff (load_unresolved E) (\<lambda>remaining.
       seq_eff (raise_when (remaining \<noteq> [])
         (OkxLiveSafetyError ''okx_live_unresolved_intents_remain_after_resolution''))
       (clear_latch_after_recovery E st))))) (\<lambda>_ t. clearance E r s t) (\<lambda>_ _. True) u"
    if u: "calm s u" for u rows st
    unfolding wp_bind [of "stable_flat_recovery_check E rows"]
    by (rule wp_mono [OF wp_conj [OF stable_flat_spec cf.within_wp [OF calm_stable_flat]]])
      (use u cf.frame_trans tail in blast)+
  note stable = this
  show ?thesis
    unfolding clear_recovery_def wp_bind [of "database E (mirror_query safety_latch_status)"]
      wp_bind [of "load_unresolved E"]
    by (rule wp_calm [OF calm_queries(2)], rule wp_calm [OF calm_load], unfold wp_seq wp_raise_when)
      (auto intro: cf.frame_trans stable)
qed

lemma clearance_stable: "clearance E r s t \<Longrightarrow> calm t u \<Longrightarrow> clearance E r s u"
  unfolding clearance_def latch_seen_clear_def calm_def restrained_def by (metis latch_le_trans)

lemma clear_stop_spec:
  "wp (clear_emergency_stop E r) (\<lambda>_ t. clearance E r s t \<and> ls_armed_until t = None) (\<lambda>_ _. True) s"
proof -
  let ?m = "modify (\<lambda>s. disarm_local False (s\<lparr>ls_unresolved_intent_count := 0,
               ls_emergency_stop := False, ls_last_error := None\<rparr>))"
  let ?Q = "\<lambda>_ t. clearance E r s t \<and> ls_armed_until t = None"
  have recover: "wp (seq_eff (try_except (clear_recovery E r) clear_failed) ?m) ?Q (\<lambda>_ _. True) u"
    if u: "ls_intents u = ls_intents s" for u
  proof -
    have "wp (clear_recovery E r) (\<lambda>_ t. clearance E r s t) (\<lambda>_ _. True) u"
      by (rule wp_mono [OF clear_recovery_spec]) (simp_all add: clearance_def u)
    then have "wp (try_except (clear_recovery E r) clear_failed) (\<lambda>_ t. clearance E r s t) (\<lambda>_ _. True) u"
      unfolding wp_try_except
      by (rule wp_mono) (auto simp: clear_failed_def wp_simps engage_def split: exn.split)
    then show ?thesis
      unfolding wp_seq [of "try_except _ _"] wp_modify
      by (rule wp_mono) (simp_all add: clearance_def disarm_local_def latch_seen_clear_def)
  qed
  have stable: "?Q a t \<Longrightarrow> calm t u \<Longrightarrow> ?Q a u" for a t u
    using clearance_stable unfolding calm_def restrained_def by metis
  have guard: "wp (execution_guard E
      (if \<not> ev_has_repository E \<or> \<not> ev_has_mirror E
       then seq_eff (engage ''okx_live_intent_recovery_unavailable'')
         (raise (OkxLiveSafetyError ''okx_live_execution_persistence_unavailable''))
       else seq_eff (try_except (clear_recovery E r) clear_failed) ?m)) ?Q (\<lambda>_ _. True) s"
  proof (rule guard_returns, goal_cases)
    case (1 t)
    then have "ls_intents t = ls_intents s" by (simp add: calm_def)
    from recover [OF this] show ?case by (simp add: wp_seq wp_raise engage_def wp_modify)
  next
    case (2 a t u)
    then show ?case by (rule stable)
  qed (simp add: clearance_def latch_seen_clear_def)
  show ?thesis
    unfolding clear_emergency_stop_def wp_seq [of "execution_guard _ _"]
    by (rule wp_mono [OF guard], rule wp_calm [OF calm_status]) (use stable in blast)+
qed

lemma clearance_resolves: "clearance E r s t \<Longrightarrow> \<forall>row \<in> set (ls_intents t). \<not> unresolved row"
  by (auto simp: clearance_def resolved_table_def unresolved_def)

end
