(* ===== verification/Live_History.thy ===== *)
theory Live_History
  imports Live_Clearing
begin

text \<open>
  What a run does to the durable stores: intents are never removed and their status moves
  along \<open>_TRANSITIONS\<close> only, the version of the latch never decreases and a change of the latch
  changes its version, and the pinned account identity never changes.

  The stores and the log together refine an abstract submission ledger: keys are reserved
  once and for all, and a key is submitted at most once and after its reservation.
\<close>

section \<open>The stores only grow\<close>

definition store_le :: "live_state \<Rightarrow> live_state \<Rightarrow> bool" where
  "store_le s t \<longleftrightarrow>
     (intents_ok (ls_intents s) \<longrightarrow> intents_ok (ls_intents t) \<and> table_le (ls_intents s) (ls_intents t)) \<and>
     latch_le (ls_mirror s) (ls_mirror t) \<and> identity_le (ls_mirror s) (ls_mirror t) \<and>
     (\<exists>ws. ls_sent t = ls_sent s @ ws)"

interpretation stores: durable_frame store_le
proof
  show "store_le s s" for s by (simp add: store_le_def)
  show "store_le s t \<Longrightarrow> store_le t u \<Longrightarrow> store_le s u" for s t u
    unfolding store_le_def using table_le_trans latch_le_trans identity_le_trans by fastforce
  show "recovering s t \<Longrightarrow> store_le s t" for s t
    by (simp add: store_le_def recovering_def restrained_def)
qed (simp_all add: store_le_def)

lemma store_le_send: "stays store_le (send E w f)"
  by (rule stores.within_send) (simp add: store_le_def)

lemma store_le_place_order: "stays store_le (place_order E r)"
  unfolding place_order_def submit_order_def
  by (intro stores.live_intros store_le_send quiet_intros [THEN stores.within_quiet]
      stores.within_stage_leverage stores.within_stage_cancel_all)

lemma store_le_call: "stays store_le (live_call_eff E c)"
proof (cases "\<exists>r. c = CallPlaceOrder r")
  case True
  then show ?thesis using stores.within_void [OF store_le_place_order] by auto
qed (auto intro: stores.within_other_calls)

lemma store_le_step: "store_le s (live_event_step E s ev)"
  using store_le_call stores.restart_in by (cases ev) (auto simp: stays_def)

lemma store_le_run: "store_le s (run_live_events E es s)"
  unfolding run_live_events_def
  by (induction es arbitrary: s) (auto intro: stores.frame_refl stores.frame_trans store_le_step)

section \<open>The submission ledger\<close>

record submission_ledger =
  sg_reserved :: "string set"
  sg_submitted :: "string list"

inductive ledger_step :: "submission_ledger \<Rightarrow> submission_ledger \<Rightarrow> bool" where
  reserve: "k \<notin> sg_reserved g \<Longrightarrow> ledger_step g (g\<lparr>sg_reserved := insert k (sg_reserved g)\<rparr>)"
| submit: "k \<in> sg_reserved g \<Longrightarrow> k \<notin> set (sg_submitted g) \<Longrightarrow>
     ledger_step g (g\<lparr>sg_submitted := sg_submitted g @ [k]\<rparr>)"

definition ledger_of :: "live_state \<Rightarrow> submission_ledger" where
  "ledger_of s = \<lparr>sg_reserved = set (intent_keys (ls_intents s)), sg_submitted = placed s\<rparr>"

lemma ledger_reserves:
  assumes "finite B" "A \<subseteq> B"
  shows "ledger_step\<^sup>*\<^sup>* \<lparr>sg_reserved = A, sg_submitted = xs\<rparr> \<lparr>sg_reserved = B, sg_submitted = xs\<rparr>"
proof -
  have "ledger_step\<^sup>*\<^sup>* \<lparr>sg_reserved = A, sg_submitted = xs\<rparr> \<lparr>sg_reserved = A \<union> C, sg_submitted = xs\<rparr>"
    if "finite C" "A \<inter> C = {}" for C
    using that
  proof (induction C rule: finite_induct)
    case (insert k C)
    have "ledger_step \<lparr>sg_reserved = A \<union> C, sg_submitted = xs\<rparr> \<lparr>sg_reserved = A \<union> insert k C, sg_submitted = xs\<rparr>"
      using ledger_step.reserve [of k "\<lparr>sg_reserved = A \<union> C, sg_submitted = xs\<rparr>"] insert by auto
    with insert show ?case by (auto intro: rtranclp.rtrancl_into_rtrancl)
  qed simp
  from this [of "B - A"] assms show ?thesis by (simp add: Un_absorb1)
qed

lemma ledger_submits:
  assumes "distinct (xs @ ys)" "set ys \<subseteq> B"
  shows "ledger_step\<^sup>*\<^sup>* \<lparr>sg_reserved = B, sg_submitted = xs\<rparr> \<lparr>sg_reserved = B, sg_submitted = xs @ ys\<rparr>"
  using assms
proof (induction ys arbitrary: xs)
  case (Cons y ys)
  have "ledger_step \<lparr>sg_reserved = B, sg_submitted = xs\<rparr> \<lparr>sg_reserved = B, sg_submitted = xs @ [y]\<rparr>"
    using ledger_step.submit [of y "\<lparr>sg_reserved = B, sg_submitted = xs\<rparr>"] Cons.prems by auto
  moreover have "ledger_step\<^sup>*\<^sup>* \<lparr>sg_reserved = B, sg_submitted = xs @ [y]\<rparr>
      \<lparr>sg_reserved = B, sg_submitted = (xs @ [y]) @ ys\<rparr>"
    using Cons.prems by (intro Cons.IH) auto
  ultimately show ?case by (simp add: converse_rtranclp_into_rtranclp)
qed simp

lemma ledger_simulation:
  assumes "placed_inv s" "placed_inv t" "store_le s t"
  shows "ledger_step\<^sup>*\<^sup>* (ledger_of s) (ledger_of t)"
proof -
  obtain ws where sent: "ls_sent t = ls_sent s @ ws" using assms(3) by (auto simp: store_le_def)
  have keys: "set (intent_keys (ls_intents s)) \<subseteq> set (intent_keys (ls_intents t))"
    using assms(1,3) table_le_keys unfolding store_le_def placed_inv_def by blast
  have "ledger_step\<^sup>*\<^sup>* (ledger_of s) \<lparr>sg_reserved = set (intent_keys (ls_intents t)), sg_submitted = placed s\<rparr>"
    unfolding ledger_of_def by (rule ledger_reserves) (use keys in auto)
  also have "ledger_step\<^sup>*\<^sup>* \<dots> (ledger_of t)"
    using ledger_submits [of "placed s" "placed_ids ws" "set (intent_keys (ls_intents t))"] assms(2)
    by (auto simp: ledger_of_def sent placed_inv_def)
  finally show ?thesis .
qed

lemma ledger_run: "placed_inv s \<Longrightarrow> ledger_step\<^sup>*\<^sup>* (ledger_of s) (ledger_of (run_live_events E es s))"
  by (intro ledger_simulation placed_inv_run store_le_run)

end
