(* ===== verification/Live_Outcome.thy ===== *)
theory Live_Outcome
  imports Live_Clearing
begin

text \<open>
  Outcomes: what a reconciliation that does not stop the service has established about the
  protection of open positions, and what \<open>place_order\<close> has established when it returns.
\<close>

section \<open>Protection of open positions\<close>

definition position_protected :: "intent_table \<Rightarrow> reconcile_result \<Rightarrow> live_position \<Rightarrow> bool" where
  "position_protected intents snap p \<longleftrightarrow> (\<exists>i \<in> set intents. \<exists>t. it_instrument_id i = lp_instrument_id p \<and>
     intent_terms i = Some t \<and>
     (\<exists>a \<in> set (rr_pending_algo_orders snap). la_client_algo_order_id a = Some (pt_client_order_id t) \<and>
        algo_fields_match a p t \<and> algo_protects_position a p t = Inr True))"

definition all_protected :: "intent_table \<Rightarrow> reconcile_result \<Rightarrow> bool" where
  "all_protected intents snap \<longleftrightarrow>
     (\<forall>p \<in> set (rr_positions snap). lp_size p \<noteq> 0 \<longrightarrow> position_protected intents snap p)"

lemma filter_result_mem: "filter_result f xs = Inr ys \<Longrightarrow> y \<in> set ys \<Longrightarrow> y \<in> set xs \<and> f y = Inr True"
  by (induction xs arbitrary: ys) (auto simp: result_simps split: if_splits)

lemma intent_protects_True:
  assumes "intent_protects_position snap p i = Inr True" "i \<in> set intents"
  shows "position_protected intents snap p"
proof -
  obtain t where t: "intent_terms i = Some t" "it_instrument_id i = lp_instrument_id p"
    "exact_protection_match_count (rr_pending_algo_orders snap) p t = Inr 1"
    using assms(1) by (auto simp: intent_protects_position_def result_simps split: if_splits option.splits)
  from exact_protection_match [OF t(3)] t(1,2) assms(2) show ?thesis
    unfolding position_protected_def by blast
qed

lemma positions_protected_True:
  assumes "positions_protected snap intents ps = Inr True" "p \<in> set ps"
  shows "position_protected intents snap p"
  using assms
proof (induction ps)
  case (Cons q ps)
  obtain ms where ms: "filter_result (intent_protects_position snap q) intents = Inr ms"
    and one: "length ms = 1" and rest: "positions_protected snap intents ps = Inr True"
    using Cons.prems(1) by (auto simp: result_simps split: if_splits)
  obtain i where "i \<in> set ms" using one by (cases ms) auto
  from filter_result_mem [OF ms this] have "position_protected intents snap q"
    using intent_protects_True by blast
  then show ?case using Cons.IH rest Cons.prems(2) by auto
qed simp

lemma position_protected_mono:
  "position_protected xs snap p \<Longrightarrow> set xs \<subseteq> set ys \<Longrightarrow> position_protected ys snap p"
  unfolding position_protected_def by blast

lemma load_protection_subset: "load_protection_intents n t = Inr xs \<Longrightarrow> set xs \<subseteq> set t"
  using set_take_subset by (fastforce simp: load_protection_intents_def split: if_splits)

lemma protected_spec:
  "wp (reconciled_positions_protected E snap) (\<lambda>ok t. ok \<longrightarrow> all_protected (ls_intents s) snap) (\<lambda>_ _. True) s"
proof -
  let ?open = "filter (\<lambda>p. lp_size p \<noteq> 0) (rr_positions snap)"
  have load: "wp (try_except
        (bind_eff (database E (intent_query (load_protection_intents 1000))) (\<lambda>is. ret (Some is)))
        (\<lambda>_. ret None))
      (\<lambda>x t. \<forall>xs. x = Some xs \<longrightarrow> set xs \<subseteq> set (ls_intents s)) (\<lambda>_ _. True) s"
    unfolding wp_try_except wp_bind
    by (rule wp_mono [OF intent_query_spec]) (auto simp: wp_ret dest: load_protection_subset)
  have found: "all_protected (ls_intents s) snap"
    if "positions_protected snap xs ?open = Inr True" "set xs \<subseteq> set (ls_intents s)" for xs
    using positions_protected_True [OF that(1)] position_protected_mono [OF _ that(2)]
    by (auto simp: all_protected_def)
  have none: "?open = [] \<Longrightarrow> all_protected (ls_intents s) snap"
    by (auto simp: all_protected_def filter_empty_conv)
  show ?thesis
    unfolding reconciled_positions_protected_def Let_def
    by (auto simp: wp_ret wp_bind none wp_lift_result intro!: wp_mono [OF load] split: option.split sum.split)
      (use found in blast)
qed

lemma persistent_stop_stops:
  "wp (engage_persistent_emergency_stop E c) (\<lambda>_ t. ls_emergency_stop t) (\<lambda>_ t. ls_emergency_stop t) s"
proof -
  have calm: "calm u t \<Longrightarrow> ls_emergency_stop u \<Longrightarrow> ls_emergency_stop t" for u t
    by (auto simp: calm_def restrained_def)
  have "ls_emergency_stop (engage_emergency_stop c s)"
    by (simp add: engage_emergency_stop_def disarm_local_def)
  then show ?thesis
    unfolding engage_persistent_emergency_stop_def wp_seq engage_def wp_modify
    by (auto simp: wp_raise wp_bind wp_try_except wp_modify
        intro!: wp_calm [OF calm_mirror_txns(1)] dest: calm)
qed

text \<open>A reconciliation that enforces protection leaves the service stopped or every position protected.\<close>

lemma enforce_spec:
  "wp (bind_eff (reconciled_positions_protected E snap) (\<lambda>ok. if ok then ret ()
      else engage_persistent_emergency_stop E ''live_position_protection_not_confirmed''))
     (\<lambda>_ t. ls_emergency_stop t \<or> all_protected (ls_intents s) snap) (\<lambda>_ _. True) s"
  unfolding wp_bind
  by (rule wp_mono [OF protected_spec])
    (auto simp: wp_ret intro: wp_mono [OF persistent_stop_stops])

definition protection_enforced :: "env \<Rightarrow> intent_table \<Rightarrow> reconcile_result \<Rightarrow> live_state \<Rightarrow> bool" where
  "protection_enforced E intents snap t \<longleftrightarrow>
     (okx_live_require_protection (ev_settings E) \<longrightarrow> ls_emergency_stop t \<or> all_protected intents snap)"

lemma reconcile_body_protects:
  "wp (reconcile_body E True) (\<lambda>snap t. protection_enforced E (ls_intents s) snap t) (\<lambda>_ _. True) s"
proof -
  have check: "wp (seq_eff (if True \<and> okx_live_require_protection (ev_settings E)
        then bind_eff (reconciled_positions_protected E snap) (\<lambda>ok. if ok then ret ()
          else engage_persistent_emergency_stop E ''live_position_protection_not_confirmed'')
        else ret ()) (ret snap)) (\<lambda>x t. protection_enforced E (ls_intents s) x t) (\<lambda>_ _. True) u"
    if "ls_intents u = ls_intents s" for u snap
    using enforce_spec [of E snap u] that
    by (auto simp: wp_seq wp_ret protection_enforced_def elim!: wp_mono)
  have sync: "stays calm (if ev_has_mirror E
      then seq_eff (database E (mirror_txn (sync_snapshot (ev_sha256 E) i))) (ret True) else ret False)" for i
    by (intro cf.within_intros calm_intros)
  have tail: "wp (case rw_balance rows of
       [] \<Rightarrow> raise (OkxLiveUnavailableError ''okx_live_balance_empty'')
     | balance # _ \<Rightarrow>
       bind_eff (if ev_has_mirror E
          then seq_eff (database E (mirror_txn (sync_snapshot (ev_sha256 E) (i balance)))) (ret True)
          else ret False) (\<lambda>persisted.
       bind_eff (clock_now E) (\<lambda>now. seq_eff (modify (\<lambda>s. s\<lparr>ls_last_exchange_ok_at := Some now, ls_last_error := None\<rparr>))
         (seq_eff (if True \<and> okx_live_require_protection (ev_settings E)
           then bind_eff (reconciled_positions_protected E (snap balance persisted now)) (\<lambda>ok. if ok then ret ()
             else engage_persistent_emergency_stop E ''live_position_protection_not_confirmed'')
           else ret ()) (ret (snap balance persisted now))))))
      (\<lambda>x t. protection_enforced E (ls_intents s) x t) (\<lambda>_ _. True) u"
    if "calm s u" for u rows i snap
  proof (cases "rw_balance rows")
    case (Cons b bs)
    show ?thesis
      unfolding Cons list.case
      by (rule wp_bind_calm [OF sync], unfold wp_bind wp_clock_now wp_seq [of "modify _"] wp_modify)
        (rule check, use that in \<open>simp_all add: calm_def\<close>)
  qed (simp add: wp_raise)
  show ?thesis
    unfolding reconcile_body_def Let_def
    by (rule wp_bind_calm [OF calm_reads(1)], rule wp_bind_calm [OF calm_call], rule tail)
      (auto intro: cf.frame_trans)
qed

lemma reconcile_protects:
  "wp (reconcile E True) (\<lambda>snap t. protection_enforced E (ls_intents s) snap t) (\<lambda>_ _. True) s"
proof -
  have failed: "wp (reconcile_failed E e) Q (\<lambda>_ _. True) t" for e t Q
    unfolding reconcile_failed_def by (rule wp_seq_any, rule wp_seq_any) (simp_all add: wp_raise)
  show ?thesis
    unfolding reconcile_def ensure_read_ready_def wp_seq wp_lift_result wp_try_except
    by (auto split: sum.split intro!: wp_mono [OF reconcile_body_protects] failed)
qed

section \<open>Polling\<close>

definition order_seen :: "env \<Rightarrow> string \<Rightarrow> string option \<Rightarrow> string option \<Rightarrow> live_order \<Rightarrow> bool" where
  "order_seen E i order_id client_order_id x \<longleftrightarrow>
     (\<exists>n rows c. ev_order_detail E n i order_id c = Inr (x # rows) \<and>
        order_identity_matches x i order_id client_order_id)"

lemma poll_once_spec:
  "wp (poll_once E i oid cid prev) (\<lambda>(x, fin) _. \<forall>y. x = Some y \<longrightarrow> prev = Some y \<or> order_seen E i oid cid y)
     (\<lambda>_ _. True) s"
  unfolding poll_once_def wp_try_except wp_bind
  by (rule wp_mono [OF call_spec])
    (auto simp: wp_simps order_seen_def split: list.split)

lemma poll_attempts_spec:
  "wp (poll_order_attempts E i oid cid k prev) (\<lambda>x _. \<forall>y. x = Some y \<longrightarrow> prev = Some y \<or> order_seen E i oid cid y)
     (\<lambda>_ _. True) s"
proof (induction k arbitrary: prev s)
  case (Suc k)
  show ?case
    unfolding poll_order_attempts.simps wp_bind
  proof (rule wp_mono [OF poll_once_spec], goal_cases)
    case (1 a t)
    then show ?case
      by (cases a) (auto simp: wp_ret wp_if intro!: wp_seq_any wp_mono [OF Suc.IH])
  qed simp
qed (simp add: wp_ret)

lemma poll_snapshot_spec:
  "wp (poll_post_order_snapshot E r pid k prev) (\<lambda>x _. \<forall>y. x = Some y \<longrightarrow> prev = Some y \<or> observed E y)
     (\<lambda>_ _. True) s"
proof (induction k arbitrary: prev s)
  case (Suc k)
  have one: "wp (try_except
      (bind_eff (reconcile E False) (\<lambda>snap. ret (Some snap, snapshot_settled r pid snap)))
      (\<lambda>_. ret (prev, False))) (\<lambda>(x, fin) _. \<forall>y. x = Some y \<longrightarrow> prev = Some y \<or> observed E y) (\<lambda>_ _. True) s" for s
    unfolding wp_try_except wp_bind by (rule wp_mono [OF reconcile_observed]) (auto simp: wp_ret)
  show ?case
    unfolding poll_post_order_snapshot.simps wp_bind [of "try_except _ _"]
  proof (rule wp_mono [OF one], goal_cases)
    case (1 a t)
    then show ?case
      by (cases a) (auto simp: wp_ret wp_if intro!: wp_seq_any wp_mono [OF Suc.IH])
  qed simp
qed (simp add: wp_ret)

section \<open>What a placed order has established\<close>

definition order_evidence :: "env \<Rightarrow> live_order_request \<Rightarrow> bool" where
  "order_evidence E r \<longleftrightarrow> (\<exists>x oid cid snap pid. order_seen E (oq_instrument_id r) oid cid x \<and>
     lo_state x \<in> set final_order_states \<and> observed E snap \<and>
     protection_client_order_id (oq_client_order_id r) = Inr pid \<and>
     (clean_flat snap \<or> post_order_exposure_confirmed (Some snap) r pid = Inr True))"

text \<open>A returned order is confirmed on evidence, or the service is stopped.\<close>

definition order_settled :: "env \<Rightarrow> live_order_request \<Rightarrow> write_result \<Rightarrow> live_state \<Rightarrow> bool" where
  "order_settled E r w t \<longleftrightarrow>
     (if wr_final_state_confirmed w then order_evidence E r else ls_emergency_stop t)"

definition order_outcome :: "env \<Rightarrow> live_order_request \<Rightarrow> write_result \<Rightarrow> live_state \<Rightarrow> bool" where
  "order_outcome E r w t \<longleftrightarrow> order_settled E r w t \<and>
     (okx_live_auto_disarm (ev_settings E) \<longrightarrow> ls_armed_until t = None)"

lemma quiet_stop: "quiet s t \<Longrightarrow> ls_emergency_stop s \<Longrightarrow> ls_emergency_stop t"
  by (auto simp: quiet_def recovering_def restrained_def)

lemma quiet_disarmed: "quiet s t \<Longrightarrow> ls_armed_until s = None \<Longrightarrow> ls_armed_until t = None"
  by (auto simp: quiet_def recovering_def restrained_def)

lemma order_settled_quiet: "order_settled E r w s \<Longrightarrow> quiet s t \<Longrightarrow> order_settled E r w t"
  by (auto simp: order_settled_def dest: quiet_stop split: if_splits)

lemma finalize_tail:
  assumes "wr_final_state_confirmed w = c" "c \<Longrightarrow> order_evidence E r"
  shows "wp (seq_eff m (bind_eff (gets ls_emergency_stop) (\<lambda>stopped.
      seq_eff (if \<not> c \<and> \<not> stopped then engage_persistent_emergency_stop E code else ret ())
        (seq_eff (update_intent_or_stop E k sc st oid codes) (ret w))))) (order_settled E r) (\<lambda>_ _. True) s"
proof -
  have update: "wp (seq_eff (update_intent_or_stop E k sc st oid codes) (ret w)) (order_settled E r) (\<lambda>_ _. True) u"
    if "c \<or> ls_emergency_stop u" for u
  proof -
    have "order_settled E r w u" using that assms by (auto simp: order_settled_def)
    then show ?thesis
      unfolding wp_seq wp_ret by (intro wp_quiet [OF quiet_update_or_stop]) (auto intro: order_settled_quiet)
  qed
  show ?thesis
    by (rule wp_seq_any)
      (auto simp: wp_bind wp_gets wp_seq [of "if _ then _ else _"] wp_ret
        intro: update wp_mono [OF persistent_stop_stops])
qed

lemma finalize_spec:
  assumes "\<And>x. order = Some x \<Longrightarrow> order_seen E (oq_instrument_id r) oid cid x"
    and "\<And>snap. post = Some snap \<Longrightarrow> observed E snap"
    and "protection_client_order_id (oq_client_order_id r) = Inr pid"
  shows "wp (finalize_order E r pid ack order post) (order_settled E r) (\<lambda>_ _. True) s"
proof (cases "protection_confirmed post r pid")
  case (Inr protected)
  note one = this
  show ?thesis
  proof (cases "post_order_exposure_confirmed post r pid")
    case (Inr isolated)
    have evidence: "order_evidence E r"
      if final: "case post of None \<Rightarrow> False
        | Some snap \<Rightarrow> (case order of None \<Rightarrow> False | Some x \<Rightarrow> lo_state x \<in> set final_order_states) \<and>
            (clean_flat snap \<or> isolated)"
    proof -
      obtain snap x where "post = Some snap" "order = Some x" "lo_state x \<in> set final_order_states"
        "clean_flat snap \<or> isolated"
        using final by (auto split: option.splits)
      then show ?thesis unfolding order_evidence_def using assms Inr by metis
    qed
    show ?thesis
      unfolding finalize_order_def Let_def wp_bind [of "lift_result _"] wp_lift_result one Inr sum.case
      by (rule finalize_tail) (simp, rule evidence)
  qed (simp add: finalize_order_def wp_bind wp_lift_result one)
qed (simp add: finalize_order_def wp_bind wp_lift_result)

lemma conclude_spec:
  assumes "protection_client_order_id (oq_client_order_id r) = Inr pid"
  shows "wp (conclude_order E r pid data) (\<lambda>w t. order_outcome E r w t) (\<lambda>_ _. True) s"
proof -
  let ?i = "oq_instrument_id r"
  let ?S = "ev_settings E"
  have rest: "wp (bind_eff (poll_order E ?i oid cid) (\<lambda>order.
       bind_eff (poll_post_order_snapshot E r pid (okx_live_order_detail_poll_attempts ?S) None)
         (finalize_order E r pid ack order))) (\<lambda>w t. order_outcome E r w t) (\<lambda>_ _. True) u"
    if "okx_live_auto_disarm ?S \<longrightarrow> ls_armed_until u = None" for oid cid ack u
  proof -
    have settled: "wp (bind_eff (poll_order E ?i oid cid) (\<lambda>order.
       bind_eff (poll_post_order_snapshot E r pid (okx_live_order_detail_poll_attempts ?S) None)
         (finalize_order E r pid ack order)))
       (order_settled E r) (\<lambda>_ _. True) u"
      unfolding wp_bind poll_order_def
      by (rule wp_mono [OF poll_attempts_spec], rule wp_mono [OF poll_snapshot_spec])
        (auto intro!: finalize_spec [OF _ _ assms])
    have quiet: "stays quiet (bind_eff (poll_order E ?i oid cid) (\<lambda>order.
       bind_eff (poll_post_order_snapshot E r pid (okx_live_order_detail_poll_attempts ?S) None)
         (finalize_order E r pid ack order)))"
      by (intro qf.within_intros quiet_intros)
    show ?thesis
      by (rule wp_mono [OF wp_conj [OF settled qf.within_wp [OF quiet]]])
        (use that quiet_disarmed in \<open>auto simp: order_outcome_def\<close>)
  qed
  have disarm: "wp (if okx_live_auto_disarm ?S then disarm_eff True else ret ())
      (\<lambda>_ t. okx_live_auto_disarm ?S \<longrightarrow> ls_armed_until t = None) (\<lambda>_ _. True) t" for t
    by (simp add: wp_ret disarm_eff_def wp_modify disarm_local_def)
  have ack: "wp (seq_eff (try_finally m (if okx_live_auto_disarm ?S then disarm_eff True else ret ())) n)
      Q (\<lambda>_ _. True) t"
    if "\<And>u. (okx_live_auto_disarm ?S \<longrightarrow> ls_armed_until u = None) \<Longrightarrow> wp n Q (\<lambda>_ _. True) u"
    for m n Q t
    unfolding wp_seq wp_try_finally
    by (rule wp_any, rule wp_mono [OF disarm]) (use that in \<open>simp_all add: wp_any\<close>)
  show ?thesis
    unfolding conclude_order_def
    by (rule wp_seq_any, rule wp_bind_any, rule ack, rule rest) simp_all
qed

lemma place_order_spec:
  "wp (place_order E r) (\<lambda>w t. order_outcome E r w t) (\<lambda>_ _. True) s"
proof -
  let ?body = "bind_eff (prepare_order E r) (\<lambda>(config, side, p, i, pid).
     seq_eff (reserve_eff E (order_reservation E r pid))
       (bind_eff (submit_order E r config side p i) (\<lambda>data. conclude_order E r pid data)))"
  have body: "wp ?body (\<lambda>w t. order_outcome E r w t) (\<lambda>_ _. True) u" for u
    unfolding wp_bind [of "prepare_order E r"]
    by (rule wp_mono [OF prepare_result]) (auto intro!: wp_seq_any wp_bind_any conclude_spec)
  have "wp (execution_guard E ?body) (\<lambda>w t. order_outcome E r w t) (\<lambda>_ _. True) u" for u
    by (rule guard_returns, rule body)
      (auto simp: order_outcome_def order_settled_def dest: calm_quiet [THEN quiet_stop]
        calm_quiet [THEN quiet_disarmed] split: if_splits)
  then show ?thesis
    unfolding place_order_def
    by (intro wp_seq_any wp_bind_any) simp_all
qed

section \<open>Replays\<close>

text \<open>A key that already has an intent: the handler sends nothing and leaves the intents alone.\<close>

definition replay_refused :: "string \<Rightarrow> live_state \<Rightarrow> live_state \<Rightarrow> bool" where
  "replay_refused c s t \<longleftrightarrow> (c \<in> set (intent_keys (ls_intents s)) \<longrightarrow>
     ls_sent t = ls_sent s \<and> ls_intents t = ls_intents s)"

interpretation replay: guard_frame "replay_refused c"
  by unfold_locales (auto simp: replay_refused_def calm_def restrained_def)

lemma reserve_replay:
  assumes "rv_idempotency_key v = c"
  shows "stays (replay_refused c) (seq_eff (reserve_eff E v) n)"
proof (rule stays_wpI)
  fix s
  show "wp (seq_eff (reserve_eff E v) n) (\<lambda>_. replay_refused c s) (\<lambda>_. replay_refused c s) s"
  proof (cases "c \<in> set (intent_keys (ls_intents s))")
    case True
    have "wp (database E (intent_txn (reserve_intent v))) (\<lambda>_ _. False) (\<lambda>_ t. calm s t) s"
    proof (rule wp_databaseI)
      fix k t a u w
      assume "calm s t" and u: "intent_txn (reserve_intent v) k t = Inr (a, u)"
      then have "rv_idempotency_key v \<in> set (intent_keys (ls_intents t))"
        using True assms by (simp add: calm_def)
      from reserve_used_key [OF this, of k] u show "False \<and> (\<forall>e. calm s w)"
        by (auto simp: intent_txn_def)
    qed
    then have "wp (seq_eff (database E (intent_txn (reserve_intent v))) (refresh_unresolved_intent_count E))
        (\<lambda>_ _. False) (\<lambda>_ t. calm s t) s"
      unfolding wp_seq by (rule wp_mono) simp_all
    then have "wp (reserve_eff E v) (\<lambda>_ _. False) (\<lambda>_ t. calm s t) s"
      unfolding reserve_eff_def
      by (auto simp: wp_raise wp_try_except cf.frame_refl elim!: wp_mono split: exn.split)
    then show ?thesis
      unfolding wp_seq by (rule wp_mono) (auto intro: replay.calm_in)
  next
    case False
    then show ?thesis by (auto intro!: wp_any simp: replay_refused_def)
  qed
qed

lemma replay_place_order: "stays (replay_refused (oq_client_order_id r)) (place_order E r)"
  unfolding place_order_def
  by (intro reserve_replay replay.guard_intros calm_intros [THEN replay.within_calm])
    (simp add: order_reservation_def)

end
