(* ===== verification/Live_Bounds.thy ===== *)
theory Live_Bounds
  imports Live_Recovery
begin

text \<open>
  Termination of the handlers with a bound. \<open>costs n m\<close> says that \<open>m\<close> reads the clock or suspends at
  most \<open>n\<close> times, in any state and any environment; the bounds of the parts add up along the
  code. The only loops poll, so the bound of a handler is linear in the configured attempts.
\<close>

definition costs :: "nat \<Rightarrow> 'a live \<Rightarrow> bool" where
  "costs n m \<longleftrightarrow> (\<forall>s. ls_step (snd (m s)) \<le> ls_step s + n)"

named_theorems cost_intros "bounds on the suspensions of a method"

lemma costs_le: "costs n m \<Longrightarrow> n \<le> k \<Longrightarrow> costs k m"
  unfolding costs_def by (meson add_left_mono le_trans)

lemma cost_returns [cost_intros]:
  "costs 0 (ret a)" "costs 0 (raise e)" "costs 0 (gets f)" "costs 0 (lift_result r)" "costs 0 (raise_when c e)"
  by (simp_all add: costs_def eff_defs)

lemma cost_bind [cost_intros]: "costs a m \<Longrightarrow> (\<And>x. costs b (f x)) \<Longrightarrow> costs (a + b) (bind_eff m f)"
  unfolding costs_def bind_eff_def
  by (auto split: prod.splits sum.splits) (metis add_le_cancel_right le_trans snd_conv trans_le_add1 add.assoc)+

lemma cost_seq [cost_intros]: "costs a m \<Longrightarrow> costs b n \<Longrightarrow> costs (a + b) (seq_eff m n)"
  unfolding seq_eff_def by (rule cost_bind)

lemma cost_try [cost_intros]: "costs a m \<Longrightarrow> (\<And>e. costs b (h e)) \<Longrightarrow> costs (a + b) (try_except m h)"
  unfolding costs_def try_except_def
  by (auto split: prod.splits sum.splits) (metis add_le_cancel_right le_trans snd_conv trans_le_add1 add.assoc)+

lemma cost_finally [cost_intros]: "costs a m \<Longrightarrow> costs b f \<Longrightarrow> costs (a + b) (try_finally m f)"
  unfolding costs_def try_finally_def
  by (auto split: prod.splits sum.splits) (metis add_le_cancel_right le_trans snd_conv trans_le_add1 add.assoc)+

lemma cost_if [cost_intros]: "costs a m \<Longrightarrow> costs b n \<Longrightarrow> costs (max a b) (if c then m else n)"
  by (auto intro: costs_le)

lemma cost_case_option [cost_intros]:
  "costs a m \<Longrightarrow> (\<And>x. costs b (f x)) \<Longrightarrow> costs (max a b) (case y of None \<Rightarrow> m | Some x \<Rightarrow> f x)"
  by (cases y) (simp_all, (metis costs_le max.cobounded1 max.cobounded2)+)

lemma cost_case_list [cost_intros]:
  "costs a m \<Longrightarrow> (\<And>x xs. costs b (f x xs)) \<Longrightarrow> costs (max a b) (case y of [] \<Rightarrow> m | x # xs \<Rightarrow> f x xs)"
  by (cases y) (simp_all, (metis costs_le max.cobounded1 max.cobounded2)+)

lemma cost_case_sum [cost_intros]:
  "(\<And>x. costs a (f x)) \<Longrightarrow> (\<And>x. costs b (g x)) \<Longrightarrow> costs (max a b) (case y of Inl x \<Rightarrow> f x | Inr x \<Rightarrow> g x)"
  by (cases y) (simp_all, (metis costs_le max.cobounded1 max.cobounded2)+)

lemma cost_case_prod [cost_intros]: "(\<And>x y. costs a (f x y)) \<Longrightarrow> costs a (case p of (x, y) \<Rightarrow> f x y)"
  by (cases p) simp

lemma cost_modify: "(\<And>s. ls_step (f s) = ls_step s) \<Longrightarrow> costs 0 (modify f)"
  by (simp add: costs_def modify_def)

lemma interfere_step: "ls_step (interfere E i s) = ls_step s"
  by (cases i) (simp_all add: disarm_local_def engage_emergency_stop_def split: sum.split)

lemma others_step: "ls_step (foldl (\<lambda>s i. interfere E i s) s is) = ls_step s"
  by (induction "is" arbitrary: s) (simp_all add: interfere_step)

lemma cost_await [cost_intros]: "costs 1 (await E)"
  by (simp add: costs_def await_def Let_def others_step)

lemma cost_clock [cost_intros]: "costs 1 (clock_now E)"
  by (simp add: costs_def clock_now_def)

lemma cost_call [cost_intros]: "costs 1 (call E f)"
  unfolding call_def by (rule costs_le, (rule cost_intros)+) simp

lemma cost_send [cost_intros]: "costs 1 (send E w f)"
  unfolding send_def by (rule costs_le, rule cost_seq [OF cost_modify cost_call]) simp_all

lemma cost_database:
  assumes "\<And>n s a t. f n s = Inr (a, t) \<Longrightarrow> ls_step t = ls_step s"
  shows "costs 2 (database E f)"
proof -
  have commit: "costs 0 (commit (f n))" for n
    using assms by (auto simp: costs_def commit_def split: sum.split)
  have "costs 1 (case ev_db E n of
       FaultBefore e \<Rightarrow> raise e
     | NoFault \<Rightarrow> bind_eff (commit (f (ev_clock E n))) (\<lambda>a. seq_eff (await E) (ret a))
     | FaultAfter e \<Rightarrow> seq_eff (commit (f (ev_clock E n))) (seq_eff (await E) (raise e)))" for n
    by (cases "ev_db E n"; simp; rule costs_le, (rule cost_intros commit)+, simp)
  from cost_bind [OF cost_await this] show ?thesis
    unfolding database_def by (rule costs_le) simp
qed

lemma cost_transactions [cost_intros]:
  "costs 2 (database E (intent_txn f))" "costs 2 (database E (intent_query g))"
  "costs 2 (database E (mirror_txn h))" "costs 2 (database E (mirror_query k))"
  by (auto intro!: cost_database simp: intent_txn_def intent_query_def mirror_txn_def mirror_query_def
      result_simps)

lemma cost_updates [cost_intros]:
  "costs 0 (engage c)" "costs 0 (disarm_eff k)" "costs 0 (record_error e)" "costs 0 (set_automation_running b)"
  "costs 0 (modify (\<lambda>s. s\<lparr>ls_safety_latch_code := f s\<rparr>))"
  "costs 0 (modify (\<lambda>s. s\<lparr>ls_safety_latch_version := g s\<rparr>))"
  "costs 0 (modify (\<lambda>s. s\<lparr>ls_safety_latch_code := f s, ls_safety_latch_version := g s\<rparr>))"
  "costs 0 (modify (\<lambda>s. s\<lparr>ls_last_capability := h s\<rparr>))"
  "costs 0 (modify (\<lambda>s. s\<lparr>ls_last_exchange_ok_at := i s, ls_last_error := j s\<rparr>))"
  "costs 0 (modify (\<lambda>s. s\<lparr>ls_unresolved_intent_count := l s\<rparr>))"
  "costs 0 (modify (\<lambda>s. s\<lparr>ls_submissions := m s\<rparr>))"
  "costs 0 (modify (\<lambda>s. s\<lparr>ls_write_lock := n s\<rparr>))"
  "costs 0 (modify (\<lambda>s. s\<lparr>ls_baseline_equity := p s, ls_submissions := m s\<rparr>))"
  "costs 0 (modify (\<lambda>s. s\<lparr>ls_armed_until := q s, ls_last_error := j s\<rparr>))"
  "costs 0 (modify (\<lambda>s. disarm_local False (s\<lparr>ls_unresolved_intent_count := l s,
     ls_emergency_stop := False, ls_last_error := j s\<rparr>)))"
  by (auto intro!: cost_modify simp: engage_def disarm_eff_def record_error_def set_automation_running_def
      disarm_local_def engage_emergency_stop_def)

section \<open>Parts\<close>

lemma cost_parts [cost_intros]:
  "costs 1 (require_armed E)" "costs 1 (record_success E)" "costs 2 (engage_persistent_emergency_stop E c)"
  "costs 0 (ensure_read_ready E)" "costs 0 (ensure_write_configuration E)" "costs 0 (ensure_symbol E i)"
  "costs 0 (ensure_symbol_opt E oi)" "costs 2 (mirror_status_eff E)" "costs 1 (arm_status E)"
  "costs 2 (load_unresolved E)" "costs 0 recovery_unavailable"
  unfolding require_armed_def expire_arm_if_needed_def record_success_def engage_persistent_emergency_stop_def
    ensure_read_ready_def ensure_write_configuration_def ensure_symbol_def ensure_symbol_opt_def
    mirror_status_eff_def arm_status_def load_unresolved_def recovery_unavailable_def
  by (rule costs_le, (rule cost_intros)+, simp)+

lemma cost_account [cost_intros]: "costs 2 (account_config_eff E)" "costs 2 (balance_eff E)"
  unfolding account_config_eff_def balance_eff_def by (rule costs_le, (rule cost_intros)+, simp)+

lemma cost_status [cost_intros]: "costs 3 (status E)"
  unfolding status_def by (rule costs_le, (rule cost_intros)+, simp)

lemma cost_protected [cost_intros]: "costs 2 (reconciled_positions_protected E snap)"
  unfolding reconciled_positions_protected_def Let_def by (rule costs_le, (rule cost_intros)+, simp)

lemma cost_reconcile [cost_intros]: "costs 12 (reconcile E b)"
  unfolding reconcile_def reconcile_body_def reconcile_failed_def Let_def
  by (rule costs_le, (rule cost_intros)+, simp)

lemma cost_asserts [cost_intros]:
  "costs 2 (assert_safety_latch_clear E)" "costs 2 (assert_no_unresolved_intents E)"
  unfolding assert_safety_latch_clear_def assert_no_unresolved_intents_def
  by (rule costs_le, (rule cost_intros)+, simp)+

lemma cost_safe [cost_intros]: "costs 4 (assert_execution_safe E)" "costs 2 (enforce_session_loss E q)"
  unfolding assert_execution_safe_def enforce_session_loss_def by (rule costs_le, (rule cost_intros)+, simp)+

lemma cost_busy: "costs 0 (case e of OkxLiveExecutionAuthorityBusy m \<Rightarrow> raise (OkxLiveBusyError m) | _ \<Rightarrow> raise e)"
  by (cases e) (simp_all add: cost_returns)

lemma cost_guard [cost_intros]: "costs n m \<Longrightarrow> costs (n + 4) (execution_guard E m)"
  unfolding execution_guard_def execution_lock_def
  by (rule costs_le, (rule cost_intros cost_busy | assumption)+, simp)

lemma cost_bookkeeping [cost_intros]:
  "costs 2 (refresh_unresolved_intent_count E)" "costs m p \<Longrightarrow> costs m (execution E p)"
  unfolding refresh_unresolved_intent_count_def execution_def
  by (rule costs_le, (rule cost_intros | assumption)+, simp)+

lemma cost_reserve [cost_intros]: "costs 4 (reserve_eff E v)"
proof -
  have "costs 0 (case e of OkxLiveExecutionIntentConflict m \<Rightarrow> raise (OkxLiveSafetyError m)
      | OkxLiveExecutionIntentReplay m \<Rightarrow> raise (OkxLiveSafetyError m) | _ \<Rightarrow> raise e)" for e
    by (cases e) (simp_all add: cost_returns)
  note handler = this
  show ?thesis unfolding reserve_eff_def by (rule costs_le, (rule cost_intros handler)+, simp)
qed

lemma cost_update [cost_intros]: "costs 4 (update_eff E k st x c)"
  unfolding update_eff_def by (rule costs_le, (rule cost_intros)+, simp)

lemma cost_writes [cost_intros]:
  "costs 4 (update_intent_or_stop E k sc st x c)" "costs 4 (ack_after_write E k d sc dc)"
  "costs 4 (record_write_failure E k e sg)"
  unfolding update_intent_or_stop_def ack_after_write_def record_write_failure_def Let_def
  by (rule costs_le, (rule cost_intros)+, simp)+

section \<open>Polling\<close>

lemma cost_poll_once [cost_intros]: "costs 1 (poll_once E i a b l)"
  unfolding poll_once_def by (rule costs_le, (rule cost_intros)+, simp)

lemma cost_poll_attempts [cost_intros]: "costs (2 * k) (poll_order_attempts E i a b k l)"
proof (induction k arbitrary: l)
  case (Suc k)
  show ?case unfolding poll_order_attempts.simps
    by (rule costs_le, (rule cost_intros Suc)+, simp)
qed (simp add: cost_returns)

lemma cost_poll_post [cost_intros]: "costs (13 * k) (poll_post_order_snapshot E r p k l)"
proof (induction k arbitrary: l)
  case (Suc k)
  show ?case unfolding poll_post_order_snapshot.simps
    by (rule costs_le, (rule cost_intros Suc)+, simp)
qed (simp add: cost_returns)

lemma cost_poll_closed [cost_intros]: "costs (13 * k) (poll_closed E r p k b)"
proof (induction k arbitrary: b)
  case (Suc k)
  show ?case unfolding poll_closed.simps
    by (rule costs_le, (rule cost_intros Suc)+, simp)
qed (simp add: cost_returns)

lemma cost_poll_order [cost_intros]:
  "costs (2 * okx_live_order_detail_poll_attempts (ev_settings E)) (poll_order E i a b)"
  unfolding poll_order_def by (rule cost_intros)

section \<open>Handlers\<close>

lemma cost_order_parts [cost_intros]:
  "costs 1 (validate_order_market E r)" "costs 1 (validate_exchange_max_size E r)"
  "costs 1 (stage_leverage E r c ps)" "costs 1 (stage_cancel_all_after E)"
  "costs 14 (stage_final_reconcile E)" "costs 4 (stage_final_market E r i)"
  "costs 4 (order_failed E r st e)" "costs 4 (write_failed E k st e)" "costs 4 (leverage_failed E lv e)"
  "costs 12 (best_effort_reconcile E ws)"
  unfolding validate_order_market_def validate_exchange_max_size_def stage_leverage_def
    stage_cancel_all_after_def stage_final_reconcile_def stage_final_market_def order_failed_def
    write_failed_def leverage_failed_def best_effort_reconcile_def
  by (rule costs_le, (rule cost_intros)+, simp)+

lemma cost_staged [cost_intros]: "costs n m \<Longrightarrow> costs (n + 4) (staged E r st m)"
  unfolding staged_def by (rule cost_try) (auto intro: cost_intros)

lemma cost_prepare [cost_intros]: "costs 21 (prepare_order E r)"
  unfolding prepare_order_def by (rule costs_le, (rule cost_intros)+, simp)

lemma cost_submit [cost_intros]: "costs 46 (submit_order E r c ps p i)"
  unfolding submit_order_def by (rule costs_le, (rule cost_intros)+, simp)

lemma cost_finalize [cost_intros]: "costs 8 (finalize_order E r p a o' post)"
  unfolding finalize_order_def Let_def by (rule costs_le, (rule cost_intros)+, simp)

lemma cost_conclude [cost_intros]:
  "costs (16 + 15 * okx_live_order_detail_poll_attempts (ev_settings E)) (conclude_order E r p d)"
  unfolding conclude_order_def by (rule costs_le, (rule cost_intros)+, simp)

lemma cost_place_order:
  "costs (92 + 15 * okx_live_order_detail_poll_attempts (ev_settings E)) (place_order E r)"
  unfolding place_order_def by (rule costs_le, (rule cost_intros)+, simp)

lemma cost_cancel_order:
  "costs (50 + 2 * okx_live_order_detail_poll_attempts (ev_settings E)) (cancel_order E r)"
  unfolding cancel_order_def conclude_cancel_def Let_def by (rule costs_le, (rule cost_intros)+, simp)

lemma cost_close_position:
  "costs (50 + 13 * okx_live_order_detail_poll_attempts (ev_settings E)) (Live_Handlers.close_position E r)"
  unfolding close_position_def conclude_close_def by (rule costs_le, (rule cost_intros)+, simp)

lemma cost_set_leverage: "costs 60 (set_leverage E r)"
  unfolding set_leverage_def submit_leverage_def by (rule costs_le, (rule cost_intros)+, simp)

lemma cost_arm: "costs 30 (arm E r)"
  unfolding arm_def grant_arm_def by (rule costs_le, (rule cost_intros)+, simp)

lemma cost_startup: "costs 20 (startup E)"
proof -
  have handler: "costs 0 (case e of OkxLiveSafetyError _ \<Rightarrow> ret () | OkxLiveUnavailableError _ \<Rightarrow> ret () | _ \<Rightarrow> raise e)" for e
    by (cases e) (simp_all add: cost_returns)
  show ?thesis unfolding startup_def by (rule costs_le, (rule cost_intros handler)+, simp)
qed

section \<open>The clearance\<close>

text \<open>A query for the unresolved intents returns at most a thousand of them.\<close>

lemma cost_bind_returns:
  assumes "costs a m" "\<And>s. wp m (\<lambda>x _. P x) (\<lambda>_ _. True) s" "\<And>x. P x \<Longrightarrow> costs b (f x)"
  shows "costs (a + b) (bind_eff m f)"
  unfolding costs_def
proof
  fix s
  show "ls_step (snd (bind_eff m f s)) \<le> ls_step s + (a + b)"
  proof (cases "m s")
    case (Pair r t)
    have t: "ls_step t \<le> ls_step s + a" using assms(1) Pair unfolding costs_def by (metis snd_conv)
    show ?thesis
    proof (cases r)
      case (Inr x)
      have "ls_step (snd (f x t)) \<le> ls_step t + b"
        using assms(3) [of x] wp_Inr [OF assms(2)] Pair Inr by (auto simp: costs_def)
      then show ?thesis using t Pair Inr by (simp add: bind_eff_def)
    qed (use t Pair in \<open>simp add: bind_eff_def\<close>)
  qed
qed

lemma cost_load:
  assumes "\<And>rows. length rows \<le> 1000 \<Longrightarrow> costs b (f rows)"
  shows "costs (2 + b) (bind_eff (load_unresolved E) f)"
  by (rule cost_bind_returns [OF _ wp_mono [OF load_unresolved_spec]])
    (auto intro: cost_intros assms)

lemma cost_observations: "costs (length rows) (recovery_order_observations E rows)"
proof (induction rows)
  case (Cons i rows)
  have "costs 1 (observe_order E i)"
    unfolding observe_order_def Let_def by (rule costs_le, (rule cost_intros)+, simp)
  note observe = this
  show ?case
    unfolding recovery_order_observations.simps
    by (rule costs_le, (rule observe Cons.IH cost_intros)+, simp)
qed (simp add: cost_returns)

lemma cost_stable_attempts:
  "costs (k * (13 + length rows)) (stable_flat_attempts E rows k v x)"
proof (induction k arbitrary: v x)
  case (Suc k)
  have "costs (12 + length rows) (recovery_attempt E rows v)" for v
    unfolding recovery_attempt_def Let_def by (rule costs_le, (rule cost_intros cost_observations)+, simp)
  note attempt = this
  show ?case
    unfolding stable_flat_attempts.simps
    by (rule costs_le, (rule cost_intros attempt Suc)+, simp)
qed (simp add: cost_returns)

lemma cost_clear:
  "costs (40 + 1013 * okx_live_recovery_flat_poll_attempts (ev_settings E)) (clear_emergency_stop E r)"
proof -
  let ?k = "okx_live_recovery_flat_poll_attempts (ev_settings E)"
  have check: "costs (1013 * ?k) (stable_flat_recovery_check E rows)" if "length rows \<le> 1000" for rows
    unfolding stable_flat_recovery_check_def
    by (rule costs_le, (rule cost_intros cost_stable_attempts)+) (use that in \<open>simp add: mult.commute\<close>)
  have latch: "costs 2 (clear_latch_after_recovery E st)" for st
    unfolding clear_latch_after_recovery_def by (rule costs_le, (rule cost_intros)+, simp)
  have "costs (10 + 1013 * ?k) (clear_recovery E r)"
    unfolding clear_recovery_def
    by (rule costs_le, rule cost_bind [OF cost_transactions(4)], rule cost_load,
        (rule cost_intros check latch | assumption)+, simp)
  moreover have "costs 0 (clear_failed e)" for e
    unfolding clear_failed_def by (cases e) (auto intro: costs_le [OF cost_seq] cost_intros)
  ultimately show ?thesis
    unfolding clear_emergency_stop_def
    by (intro costs_le [OF cost_seq [OF cost_guard [OF cost_if [OF _ cost_seq [OF cost_try]]] cost_status]])
      (auto intro: cost_intros)
qed

end
