(* ===== verification/Live_Example.thy ===== *)
theory Live_Example
  imports Live_Clearing
begin

text \<open>
  A concrete environment in which the Live service arms and places one order: accepted
  settings with writes enabled, a flat account, one live swap, and an exchange that reports the
  order as cancelled. The witnesses of the Live properties run in it.
\<close>

definition example_settings :: settings where
  "example_settings = default_settings
     \<lparr>environment := Production, trading_mode := LiveMode, live_trading := True,
      api_token := ''0123456789abcdefghijklmnopqrstuvwxyzABCD'',
      okx_live_enabled := True, okx_live_allow_order_writes := True,
      okx_live_api_key := ''k1234567'', okx_live_api_secret := ''s1234567'', okx_live_api_passphrase := ''p1234567''\<rparr>"

definition example_config :: account_config where
  "example_config = \<lparr>acc_uid = Some ''u1'', acc_main_uid = Some ''m1'', acc_is_sub_account = None,
     acc_account_level = None, acc_position_mode = ''net_mode'', acc_account_stp_mode = None,
     acc_account_type = None,
     acc_capability = \<lparr>cap_permissions = [''read'', ''trade''], cap_unknown_permissions = [],
       cap_read_permission = True, cap_trade_permission = True, cap_withdraw_permission = False,
       cap_ip_bound = True\<rparr>\<rparr>"

definition example_balance :: balance_snapshot where
  "example_balance = \<lparr>bal_total_equity = 1000, bal_isolated_equity = 0, bal_adjusted_equity = 1000,
     bal_available_equity = 1000, bal_captured_at = 0\<rparr>"

definition example_instrument :: instrument_info where
  "example_instrument = \<lparr>in_symbol = ''BTCUSDT'', in_instrument_id = ''BTC-USDT-SWAP'',
     in_instrument_type = ''SWAP'', in_state = ''live'', in_tick_size = 1 / 10, in_lot_size = 1,
     in_minimum_size = 1, in_contract_value = Some (1 / 100), in_contract_currency = Some ''BTC''\<rparr>"

definition example_request :: live_order_request where
  "example_request = \<lparr>oq_instrument_id = ''BTC-USDT-SWAP'', oq_direction = Long, oq_size = 1,
     oq_margin_mode = ''isolated'', oq_leverage = 1, oq_stop_loss = 49000, oq_take_profit = 53000,
     oq_trigger_price_type = ''mark'', oq_client_order_id = ''CTCCL0000000001'',
     oq_confirmation = LIVE_ORDER_PHRASE\<rparr>"

definition example_order :: live_order where
  "example_order = \<lparr>lo_order_id = ''1'', lo_client_order_id = Some ''CTCCL0000000001'',
     lo_instrument_id = ''BTC-USDT-SWAP'', lo_side = ''buy'', lo_position_side = Some ''net'',
     lo_order_type = ''market'', lo_state = ''canceled'', lo_size = 1, lo_accumulated_fill_size = 0,
     lo_price = None, lo_average_fill_price = None, lo_reduce_only = False, lo_attached_algo_orders = 1\<rparr>"

definition example_rows :: account_rows where
  "example_rows = \<lparr>rw_balance = [example_balance], rw_positions = [], rw_pending = [], rw_history = [],
     rw_algo = []\<rparr>"

definition example_env :: env where
  "example_env = \<lparr>ev_settings = example_settings, ev_has_mirror = True, ev_has_client = True,
     ev_has_repository = True, ev_request_hash = (\<lambda>_. ''h''), ev_sha256 = (\<lambda>s. s),
     ev_clock = (\<lambda>n. 1000 + int n), ev_others = (\<lambda>_. []), ev_cancel = (\<lambda>_. False),
     ev_db = (\<lambda>_. NoFault), ev_lock_acquired = (\<lambda>_. True),
     ev_account_config = (\<lambda>_. Inr [example_config]), ev_balance = (\<lambda>_. Inr [example_balance]),
     ev_positions = (\<lambda>_ _. Inr []), ev_pending_orders = (\<lambda>_ _. Inr []),
     ev_pending_algo_orders = (\<lambda>_ _. Inr []), ev_account_rows = (\<lambda>_. Inr example_rows),
     ev_order_detail = (\<lambda>_ _ _ _. Inr [example_order]),
     ev_market = (\<lambda>_ _. Inr ([example_instrument], 50000)), ev_mark_price = (\<lambda>_ _. Inr 50000),
     ev_max_order_size = (\<lambda>_. Inr [\<lparr>mx_max_buy = Some (Inr 10), mx_max_sell = Some (Inr 10)\<rparr>]),
     ev_order_precheck = (\<lambda>_. Inr ()),
     ev_set_leverage = (\<lambda>_. Inr [\<lparr>lr_inst_id = ''BTC-USDT-SWAP'', lr_mgn_mode = ''isolated'',
       lr_pos_side = ''net'', lr_lever = Some 1\<rparr>]),
     ev_cancel_all_after = (\<lambda>_. Inr ()),
     ev_place_order = (\<lambda>_. Inr [\<lparr>ar_ord_id = ''1'', ar_cl_ord_id = ''CTCCL0000000001'', ar_s_code = ''0''\<rparr>]),
     ev_cancel_order = (\<lambda>_. Inr []), ev_close_position = (\<lambda>_. Inr ())\<rparr>"

definition example_mirror :: mirror where
  "example_mirror = \<lparr>mr_account = None, mr_balance = None, mr_positions = [], mr_algo_orders = [],
     mr_orders = [], mr_checkpoint = Some (new_checkpoint ''not_reconciled'' 0)\<rparr>"

definition example_latched_mirror :: mirror where
  "example_latched_mirror = example_mirror\<lparr>mr_checkpoint := Some ((new_checkpoint ''safety_latched'' 0)
     \<lparr>cp_safety_latched := True, cp_safety_latch_code := Some ''operator_emergency_stop'',
      cp_safety_latch_version := 1\<rparr>)\<rparr>"

definition example_arm :: arm_request where
  "example_arm = \<lparr>aq_duration_seconds = 120, aq_confirmation = LIVE_ARM_PHRASE\<rparr>"

definition example_clear :: clear_stop_request where
  "example_clear = \<lparr>cq_confirmation = LIVE_CLEAR_STOP_PHRASE, cq_expected_unresolved_intents = [],
     cq_unresolved_confirmation = None\<rparr>"

definition example_start :: live_state where
  "example_start = new_service [] example_mirror 0 []"

definition example_events :: "live_event list" where
  "example_events = [Call (CallArm example_arm),
     Call (CallPlaceOrder example_request), Call (CallPlaceOrder example_request)]"

section \<open>An account with a protected position\<close>

definition protected_position :: live_position where
  "protected_position = \<lparr>lp_position_id = ''p1'', lp_instrument_id = ''BTC-USDT-SWAP'',
     lp_position_side = ''net'', lp_size = 1, lp_available_size = 1, lp_average_price = Some 50000,
     lp_mark_price = Some 50000, lp_unrealized_pnl = 0, lp_leverage = Some 1,
     lp_margin_mode = Some ''isolated'', lp_liquidation_price = None\<rparr>"

definition protecting_algo :: live_algo_order where
  "protecting_algo = \<lparr>la_algo_order_id = ''a1'', la_client_algo_order_id = Some ''CTCCA7'',
     la_instrument_type = Some ''SWAP'', la_instrument_id = ''BTC-USDT-SWAP'', la_order_type = ''oco'',
     la_state = ''live'', la_side = Some ''sell'', la_position_side = Some ''net'',
     la_margin_mode = Some ''isolated'', la_reduce_only = Some True, la_close_fraction = None,
     la_size = 1, la_actual_size = 0, la_take_profit_trigger_price = Some 53000,
     la_take_profit_trigger_price_type = Some ''mark'', la_take_profit_order_price = Some (- 1),
     la_stop_loss_trigger_price = Some 49000, la_stop_loss_trigger_price_type = Some ''mark'',
     la_stop_loss_order_price = Some (- 1), la_amend_price_on_trigger_type = None,
     la_failure_code = None, la_trigger_time = None\<rparr>"

definition protecting_intent :: intent where
  "protecting_intent = \<lparr>it_idempotency_key = ''CTCCL7'', it_request_hash = ''h'', it_action = PlaceOrder,
     it_status = Confirmed, it_instrument_id = ''BTC-USDT-SWAP'', it_client_order_id = Some ''CTCCL7'',
     it_exchange_order_id = Some ''1'', it_protection_client_order_id = Some ''CTCCA7'',
     it_expected_protection_size = Some 1, it_expected_stop_loss = Some 49000,
     it_expected_take_profit = Some 53000, it_expected_trigger_price_type = Some ''mark'',
     it_detail_codes = [], it_operator_reconciled_at = None, it_operator_resolution_code = None,
     it_created_at = 0, it_updated_at = 0\<rparr>"

definition protected_env :: env where
  "protected_env = example_env\<lparr>ev_account_rows := \<lambda>_. Inr (example_rows
     \<lparr>rw_positions := [protected_position], rw_algo := [protecting_algo]\<rparr>)\<rparr>"

definition protected_start :: live_state where
  "protected_start = new_service [protecting_intent] example_mirror 0 []"

end
