(* ===== verification/Demo_Risk.thy ===== *)
theory Demo_Risk
  imports Settings Strategy_Domain
begin

text \<open>
  The Demo automation's risk policy: score tiers and the downward-only mathematical gate
  (\<^verbatim>\<open>app/demo_automation/risk_profile.py\<close>, \<^verbatim>\<open>app/strategies/mathematical_confirmation.py\<close>),
  capital buckets (\<^verbatim>\<open>capital_bucket.py\<close>) and structural reward/risk and leverage selection
  (\<^verbatim>\<open>structural_risk.py\<close>). The lemmas show that the tiers cover the score range and grow
  with the score, that evidence never raises a score, that buckets never promise more
  margin than the account has, and that more than 10x is selected only when every 20x
  condition holds.
\<close>

section \<open>Score tiers\<close>

record risk_tier =
  rt_name :: string
  rt_minimum_score :: int
  rt_maximum_score :: int
  rt_risk_pct :: decimal
  rt_leverage :: int
  rt_margin_allocation_pct :: decimal

definition validate_risk_tier :: "risk_tier \<Rightarrow> risk_tier result" where
  "validate_risk_tier t =
     (if \<not> (in_range 0 100 (rt_minimum_score t) \<and> in_range 0 100 (rt_maximum_score t) \<and>
            0 < rt_risk_pct t \<and> 1 \<le> rt_leverage t \<and>
            0 < rt_margin_allocation_pct t \<and> rt_margin_allocation_pct t \<le> 1)
      then Inl field_constraint
      else if rt_maximum_score t < rt_minimum_score t
        then Inl (ValueError ''minimum_score cannot exceed maximum_score'')
      else Inr t)"

definition tier :: "string \<Rightarrow> int \<Rightarrow> int \<Rightarrow> decimal \<Rightarrow> int \<Rightarrow> decimal \<Rightarrow> risk_tier" where
  "tier name lo hi risk lev margin =
     \<lparr>rt_name = name, rt_minimum_score = lo, rt_maximum_score = hi, rt_risk_pct = risk,
      rt_leverage = lev, rt_margin_allocation_pct = margin\<rparr>"

fun validate_all :: "risk_tier list \<Rightarrow> risk_tier list result" where
  "validate_all [] = Inr []"
| "validate_all (t # ts) =
     bind_result (validate_risk_tier t) (\<lambda>v. bind_result (validate_all ts) (\<lambda>vs. Inr (v # vs)))"

definition configured_tiers :: "settings \<Rightarrow> risk_tier list" where
  "configured_tiers s =
     (let minimum = strategy_min_score s; medium = okx_demo_score_medium_min s;
          high = okx_demo_score_high_min s
      in if okx_demo_structural_dynamic_leverage_enabled s then
           (let elite = okx_demo_structural_score_elite_min s;
                extreme = okx_demo_structural_score_extreme_min s
            in [tier ''low'' minimum (medium - 1) (okx_demo_structural_low_risk_pct s)
                  (okx_demo_structural_low_leverage_cap s) 1,
                tier ''medium'' medium (high - 1) (okx_demo_structural_medium_risk_pct s)
                  (okx_demo_structural_medium_leverage_cap s) 1,
                tier ''high'' high (elite - 1) (okx_demo_structural_high_risk_pct s)
                  (okx_demo_structural_high_leverage_cap s) 1,
                tier ''elite'' elite (extreme - 1) (okx_demo_structural_elite_risk_pct s)
                  (okx_demo_structural_elite_leverage_cap s) 1,
                tier ''extreme'' extreme 100 (okx_demo_structural_extreme_risk_pct s)
                  (okx_demo_structural_extreme_leverage_cap s) 1])
         else
           [tier ''low'' minimum (medium - 1) (okx_demo_score_low_risk_pct s)
              (okx_demo_score_low_leverage s) (okx_demo_score_low_margin_pct s),
            tier ''medium'' medium (high - 1) (okx_demo_score_medium_risk_pct s)
              (okx_demo_score_medium_leverage s) (okx_demo_score_medium_margin_pct s),
            tier ''high'' high 100 (okx_demo_score_high_risk_pct s)
              (okx_demo_score_high_leverage s) (okx_demo_score_high_margin_pct s)])"

definition configured_score_risk_tiers :: "settings \<Rightarrow> risk_tier list result" where
  "configured_score_risk_tiers s = validate_all (configured_tiers s)"

definition score_risk_tier :: "int \<Rightarrow> settings \<Rightarrow> risk_tier result" where
  "score_risk_tier score s =
     bind_result (configured_score_risk_tiers s) (\<lambda>tiers.
       case find (\<lambda>t. rt_minimum_score t \<le> score \<and> score \<le> rt_maximum_score t) tiers of
         Some t \<Rightarrow> Inr t
       | None \<Rightarrow> Inl (ValueError ''score_outside_configured_demo_risk_tiers''))"

section \<open>The mathematical gate\<close>

definition mathematical_score_cap :: "mathematical_confirmation \<Rightarrow> int \<Rightarrow> int \<Rightarrow> int result" where
  "mathematical_score_cap confirmation medium_minimum high_minimum =
     (if \<not> (0 < medium_minimum \<and> medium_minimum < high_minimum \<and> high_minimum \<le> 100)
        then Inl (ValueError ''invalid mathematical score thresholds'')
      else Inr (case mc_risk_grade confirmation of
          GradeHigh \<Rightarrow> 100 | GradeMedium \<Rightarrow> high_minimum - 1
        | GradeLow \<Rightarrow> medium_minimum - 1 | GradeBlocked \<Rightarrow> 0))"

definition legacy_derivative_adjusted_score ::
  "trade_candidate \<Rightarrow> settings \<Rightarrow> int \<times> string option" where
  "legacy_derivative_adjusted_score c s =
     (if \<not> okx_demo_score_risk_enabled s then (tc_score c, None)
      else case tc_derivative_confirmation c of
        None \<Rightarrow> (min (tc_score c) (okx_demo_score_medium_min s - 1), None)
      | Some d \<Rightarrow>
          if dc_status d = DOpposed
            then (tc_score c, Some ''causal_derivative_opposes_trade_direction'')
          else (min (tc_score c)
             (if dc_status d = DConfirmed \<and> 65 / 100 \<le> dc_confidence d then 100
              else if dc_status d = DConfirmed \<and> 35 / 100 \<le> dc_confidence d
                then okx_demo_score_high_min s - 1
              else okx_demo_score_medium_min s - 1), None))"

definition mathematical_adjusted_score ::
  "trade_candidate \<Rightarrow> settings \<Rightarrow> (int \<times> string option) result" where
  "mathematical_adjusted_score c s =
     (if \<not> okx_demo_score_risk_enabled s then Inr (tc_score c, None)
      else case tc_mathematical_confirmation c of
        None \<Rightarrow> Inr (legacy_derivative_adjusted_score c s)
      | Some m \<Rightarrow>
          if mc_status m = MUnstable
            then Inr (tc_score c, Some ''mathematical_core_regime_instability'')
          else if mc_status m = MOpposed \<or> mc_risk_grade m = GradeBlocked
            then Inr (tc_score c, Some ''mathematical_core_opposes_trade_direction'')
          else bind_result
            (mathematical_score_cap m (okx_demo_score_medium_min s) (okx_demo_score_high_min s))
            (\<lambda>cap. Inr (min (tc_score c) cap, None)))"

section \<open>Capital buckets\<close>

record capital_bucket_plan =
  cb_risk_equity_usdt :: decimal
  cb_available_equity_usdt :: decimal
  cb_configured_bucket_usdt :: decimal
  cb_target_position_margin_usdt :: decimal
  cb_available_position_margin_cap_usdt :: decimal
  cb_capital_slot_count :: int
  cb_effective_position_limit :: int

definition build_demo_capital_bucket_plan ::
  "decimal \<Rightarrow> decimal \<Rightarrow> decimal \<Rightarrow> int \<Rightarrow> capital_bucket_plan result" where
  "build_demo_capital_bucket_plan risk_equity available_equity bucket position_limit =
     bind_result (raise_first
       [(risk_equity \<le> 0, ''risk_equity_usdt_must_be_positive''),
        (available_equity < 0, ''available_equity_usdt_cannot_be_negative''),
        (bucket \<le> 0, ''configured_bucket_usdt_must_be_positive''),
        (position_limit < 1, ''configured_position_limit_must_be_positive'')])
     (\<lambda>_.
       let available = min risk_equity available_equity;
           (target_margin, slots) =
             (if risk_equity \<le> bucket then (risk_equity, 1)
              else (bucket, \<lfloor>ddiv risk_equity bucket\<rfloor>))
       in Inr \<lparr>cb_risk_equity_usdt = risk_equity,
               cb_available_equity_usdt = available,
               cb_configured_bucket_usdt = bucket,
               cb_target_position_margin_usdt = target_margin,
               cb_available_position_margin_cap_usdt = min target_margin available,
               cb_capital_slot_count = slots,
               cb_effective_position_limit = min position_limit slots\<rparr>)"

definition demo_position_notional_ceiling ::
  "capital_bucket_plan \<Rightarrow> int \<Rightarrow> decimal \<Rightarrow> decimal result" where
  "demo_position_notional_ceiling plan leverage global_ceiling =
     bind_result (raise_first
       [(leverage < 1, ''leverage_must_be_positive''),
        (global_ceiling \<le> 0, ''global_notional_ceiling_usdt_must_be_positive'')])
     (\<lambda>_. Inr (min (dmul (cb_available_position_margin_cap_usdt plan) (of_int leverage))
       global_ceiling))"

section \<open>Structural reward/risk\<close>

definition structural_cost_rate :: "settings \<Rightarrow> decimal" where
  "structural_cost_rate s =
     ddiv (dadd (dadd (okx_demo_structural_round_trip_fee_bps s)
         (okx_demo_structural_round_trip_slippage_bps s))
       (okx_demo_structural_funding_buffer_bps s)) 10000"

definition candidate_with_structural_prices ::
  "trade_candidate \<Rightarrow> decimal \<Rightarrow> trade_candidate option result" where
  "candidate_with_structural_prices c reference_price =
     (case tc_structural_protection c of
        None \<Rightarrow> Inr None
      | Some g \<Rightarrow>
          if \<not> brackets (tc_direction c) (sg_stop_loss g) reference_price (sg_take_profit g)
            then Inr None
          else
            let risk_reward =
                  (case tc_direction c of
                     Long \<Rightarrow> ddiv (dsub (sg_take_profit g) reference_price)
                               (dsub reference_price (sg_stop_loss g))
                   | Short \<Rightarrow> ddiv (dsub reference_price (sg_take_profit g))
                               (dsub (sg_stop_loss g) reference_price))
            in bind_result (validate_trade_candidate
                 (c\<lparr>tc_entry := reference_price, tc_stop_loss := sg_stop_loss g,
                    tc_take_profit := sg_take_profit g, tc_protection_model := Structure,
                    tc_gross_risk_reward := None, tc_net_risk_reward := None,
                    tc_estimated_round_trip_cost_pct := 0, tc_risk_reward := risk_reward\<rparr>))
               (\<lambda>v. Inr (Some v)))"

definition apply_cost_adjusted_reward_risk ::
  "trade_candidate \<Rightarrow> settings \<Rightarrow> (trade_candidate option \<times> string option) result" where
  "apply_cost_adjusted_reward_risk c s =
     (if tc_protection_model c \<noteq> Structure
        then Inr (None, Some ''structural_protection_geometry_unavailable'')
      else
        bind_result (ddiv_checked (dabs (dsub (tc_entry c) (tc_stop_loss c))) (tc_entry c))
          (\<lambda>price_risk.
        bind_result (ddiv_checked (dabs (dsub (tc_take_profit c) (tc_entry c))) (tc_entry c))
          (\<lambda>gross_reward.
        let costs = structural_cost_rate s in
        if price_risk \<le> 0 then Inr (None, Some ''structural_stop_distance_invalid'')
        else if gross_reward \<le> costs then Inr (None, Some ''net_reward_nonpositive_after_costs'')
        else
          let gross_rr = ddiv gross_reward price_risk;
              net_rr = ddiv (dsub gross_reward costs) (dadd price_risk costs)
          in if net_rr < okx_demo_structural_min_net_risk_reward s
               then Inr (None, Some ''net_risk_reward_below_minimum'')
             else bind_result (validate_trade_candidate
                 (c\<lparr>tc_risk_reward := net_rr, tc_gross_risk_reward := Some gross_rr,
                    tc_net_risk_reward := Some net_rr,
                    tc_estimated_round_trip_cost_pct := costs\<rparr>))
               (\<lambda>v. Inr (Some v, None)))))"

section \<open>Leverage selection\<close>

definition leverage_ladder :: "int list" where
  "leverage_ladder = [3, 5, 8, 10, 20]"

record leverage_selection =
  ls_selected_leverage :: int
  ls_required_leverage :: int
  ls_leverage_cap :: int
  ls_twenty_x_eligible :: bool
  ls_cap_reasons :: "string list"

text \<open>\<open>candidate.risk_score or candidate.score\<close>: a risk score of zero falls back to the raw score.\<close>

definition risk_score_or_score :: "trade_candidate \<Rightarrow> int" where
  "risk_score_or_score c =
     (case tc_risk_score c of None \<Rightarrow> tc_score c | Some r \<Rightarrow> if r = 0 then tc_score c else r)"

definition twenty_x_reasons :: "trade_candidate \<Rightarrow> settings \<Rightarrow> string list" where
  "twenty_x_reasons c s =
     collect [(risk_score_or_score c < okx_demo_structural_score_extreme_min s,
        ''effective_score_below_20x_threshold'')] @
     (case tc_mathematical_confirmation c of
        None \<Rightarrow> [''mathematical_grade_below_20x_threshold'']
      | Some m \<Rightarrow>
          if mc_status m \<noteq> MConfirmed \<or> mc_risk_grade m \<noteq> GradeHigh
            then [''mathematical_grade_below_20x_threshold'']
          else collect
            [(mc_confidence m < okx_demo_structural_20x_min_confidence s,
               ''mathematical_confidence_below_20x_threshold''),
             (mc_reliability m < okx_demo_structural_20x_min_reliability s,
               ''mathematical_reliability_below_20x_threshold''),
             (okx_demo_structural_20x_max_instability s < mc_instability m,
               ''mathematical_instability_above_20x_threshold'')]) @
     collect
       [((case tc_derivative_confirmation c of None \<Rightarrow> True
          | Some d \<Rightarrow> dc_status d \<noteq> DConfirmed \<or>
              dc_confidence d < okx_demo_structural_20x_min_confidence s),
          ''derivative_confirmation_below_20x_threshold''),
        (tc_protection_model c \<noteq> Structure, ''structural_protection_required_for_20x''),
        ((case tc_net_risk_reward c of None \<Rightarrow> True
          | Some n \<Rightarrow> n < okx_demo_structural_min_net_risk_reward s),
          ''net_risk_reward_below_20x_threshold'')]"

text \<open>\<open>dict.fromkeys\<close>: the first occurrence of each code, in order.\<close>

definition dedup_first :: "'a list \<Rightarrow> 'a list" where
  "dedup_first xs = rev (remdups (rev xs))"

definition effective_leverage_cap :: "risk_tier \<Rightarrow> string list \<Rightarrow> int" where
  "effective_leverage_cap t reasons =
     (if 20 \<le> rt_leverage t \<and> reasons \<noteq> [] then min 10 (rt_leverage t) else rt_leverage t)"

definition select_from_ladder :: "int \<Rightarrow> int \<Rightarrow> int" where
  "select_from_ladder cap required =
     (let ladder = filter (\<lambda>v. v \<le> cap) leverage_ladder;
          allowed = (if ladder = [] then [cap] else ladder)
      in case find (\<lambda>v. required \<le> v) allowed of Some v \<Rightarrow> v | None \<Rightarrow> last allowed)"

definition select_structural_leverage ::
  "trade_candidate \<Rightarrow> risk_tier \<Rightarrow> settings \<Rightarrow> decimal \<Rightarrow> decimal \<Rightarrow> leverage_selection result" where
  "select_structural_leverage c t s account_equity position_margin_cap =
     bind_result (raise_first
       [(account_equity \<le> 0, ''structural_account_equity_must_be_positive''),
        (position_margin_cap \<le> 0, ''structural_position_margin_cap_must_be_positive'')])
     (\<lambda>_. bind_result (ddiv_checked (dabs (dsub (tc_entry c) (tc_stop_loss c))) (tc_entry c))
     (\<lambda>stop_rate.
       let total_risk_rate = dadd stop_rate (tc_estimated_round_trip_cost_pct c) in
       if total_risk_rate \<le> 0
         then Inl (ValueError ''structural_total_risk_rate_must_be_positive'')
       else
         let required = \<lceil>ddiv (dmul account_equity (rt_risk_pct t))
                           (dmul position_margin_cap total_risk_rate)\<rceil>;
             reasons = twenty_x_reasons c s;
             cap = effective_leverage_cap t reasons;
             cap_reasons =
               (if 20 \<le> rt_leverage t \<and> reasons \<noteq> [] then reasons else []) @
               (if 20 < required then [''required_leverage_exceeds_20x_safety_cap'']
                else if cap < required then
                  [if cap < rt_leverage t then ''required_leverage_exceeds_approved_leverage_cap''
                   else ''required_leverage_exceeds_score_tier_cap'']
                else [])
         in Inr \<lparr>ls_selected_leverage = select_from_ladder cap required,
                 ls_required_leverage = max 1 required,
                 ls_leverage_cap = cap,
                 ls_twenty_x_eligible = (reasons = []),
                 ls_cap_reasons = dedup_first cap_reasons\<rparr>))"

section \<open>The tiers cover the scores and grow with them\<close>

lemma validate_all_id:
  "(\<And>t. t \<in> set ts \<Longrightarrow> validate_risk_tier t = Inr t) \<Longrightarrow> validate_all ts = Inr ts"
  by (induction ts) auto

lemma validate_tierI:
  "0 \<le> lo \<Longrightarrow> lo \<le> hi \<Longrightarrow> hi \<le> 100 \<Longrightarrow> 0 < r \<Longrightarrow> 1 \<le> v \<Longrightarrow> 0 < m \<Longrightarrow> m \<le> 1 \<Longrightarrow>
     validate_risk_tier (tier n lo hi r v m) = Inr (tier n lo hi r v m)"
  by (simp add: validate_risk_tier_def tier_def in_range_def)

lemma score_tiers_valid:
  assumes "accepted s" "ranges_ok s" "okx_demo_score_risk_enabled s"
  shows "configured_score_risk_tiers s = Inr (configured_tiers s)"
  unfolding configured_score_risk_tiers_def
proof (rule validate_all_id)
  fix t assume t: "t \<in> set (configured_tiers s)"
  have score: "strategy_min_score s < okx_demo_score_medium_min s"
    "okx_demo_score_medium_min s < okx_demo_score_high_min s" "okx_demo_score_high_min s \<le> 100"
    using acceptedD(6) [OF assms(1)] assms(3) by (simp_all add: score_risk_checks_def)
  have lo: "0 \<le> strategy_min_score s" "okx_demo_structural_score_extreme_min s \<le> 100"
    using assms(2) by (simp_all add: ranges_ok_def)
  show "validate_risk_tier t = Inr t"
  proof (cases "okx_demo_structural_dynamic_leverage_enabled s")
    case True
    then have str: "okx_demo_score_high_min s < okx_demo_structural_score_elite_min s"
      "okx_demo_structural_score_elite_min s < okx_demo_structural_score_extreme_min s"
      using acceptedD(7) [OF assms(1)] by (simp_all add: structural_checks_def)
    have "list_all (\<lambda>r. 0 < r \<and> r \<le> 10 / 100) (structural_risks s)"
      "list_all (\<lambda>l. 1 \<le> l \<and> l \<le> 20) (structural_leverages s)"
      using assms(2) by (simp_all add: ranges_ok_def)
    then show ?thesis using t True score str lo
      by (auto simp: configured_tiers_def Let_def structural_risks_def structural_leverages_def
          intro!: validate_tierI)
  next
    case False
    have "0 < okx_demo_score_low_risk_pct s" "0 < okx_demo_score_medium_risk_pct s"
      "0 < okx_demo_score_high_risk_pct s" "1 \<le> okx_demo_score_low_leverage s"
      "1 \<le> okx_demo_score_medium_leverage s" "1 \<le> okx_demo_score_high_leverage s"
      "0 < okx_demo_score_low_margin_pct s" "okx_demo_score_low_margin_pct s \<le> 50 / 100"
      "0 < okx_demo_score_medium_margin_pct s" "okx_demo_score_medium_margin_pct s \<le> 50 / 100"
      "0 < okx_demo_score_high_margin_pct s" "okx_demo_score_high_margin_pct s \<le> 50 / 100"
      using assms(2) by (simp_all add: ranges_ok_def)
    then show ?thesis using t False score lo
      by (auto simp: configured_tiers_def Let_def intro!: validate_tierI)
  qed
qed

lemma sort_eq_sorted: "sort xs = xs \<Longrightarrow> sorted xs"
  by (metis sorted_sort)

lemma configured_tiers_chain:
  assumes "accepted s" "okx_demo_score_risk_enabled s"
  shows "sorted (map rt_minimum_score (configured_tiers s))"
    and "sorted (map rt_risk_pct (configured_tiers s))"
    and "sorted (map rt_leverage (configured_tiers s))"
proof -
  have sc: "\<forall>(b, m) \<in> set (score_risk_checks s). \<not> b" and st: "\<forall>(b, m) \<in> set (structural_checks s). \<not> b"
    using acceptedD(6,7) [OF assms(1)] by auto
  show "sorted (map rt_minimum_score (configured_tiers s))"
    using sc st assms(2) by (auto simp: configured_tiers_def Let_def tier_def score_risk_checks_def
        structural_checks_def)
  show "sorted (map rt_risk_pct (configured_tiers s))"
  proof (cases "okx_demo_structural_dynamic_leverage_enabled s")
    case True
    then have "sorted (structural_risks s)"
      using st by (intro sort_eq_sorted) (simp add: structural_checks_def)
    then show ?thesis using True
      by (simp add: configured_tiers_def Let_def tier_def structural_risks_def)
  next
    case False
    then show ?thesis using sc assms(2)
      by (auto simp: configured_tiers_def Let_def tier_def score_risk_checks_def)
  qed
  show "sorted (map rt_leverage (configured_tiers s))"
  proof (cases "okx_demo_structural_dynamic_leverage_enabled s")
    case True
    then have "sorted (structural_leverages s)"
      using st by (intro sort_eq_sorted) (simp add: structural_checks_def)
    then show ?thesis using True
      by (simp add: configured_tiers_def Let_def tier_def structural_leverages_def)
  next
    case False
    then show ?thesis using sc assms(2)
      by (auto simp: configured_tiers_def Let_def tier_def score_risk_checks_def)
  qed
qed

lemma score_risk_tier_Inr:
  "score_risk_tier score s = Inr t \<Longrightarrow>
     \<exists>ts i. configured_score_risk_tiers s = Inr ts \<and> i < length ts \<and> t = ts ! i \<and>
       rt_minimum_score t \<le> score \<and> score \<le> rt_maximum_score t"
proof -
  assume h: "score_risk_tier score s = Inr t"
  then obtain ts where ts: "configured_score_risk_tiers s = Inr ts"
    "find (\<lambda>t. rt_minimum_score t \<le> score \<and> score \<le> rt_maximum_score t) ts = Some t"
    by (auto simp: score_risk_tier_def result_simps split: option.splits)
  then show ?thesis by (auto simp: find_Some_iff)
qed

lemma score_risk_tier_total:
  assumes "accepted s" "ranges_ok s" "okx_demo_score_risk_enabled s"
    and "strategy_min_score s \<le> score" "score \<le> 100"
  shows "\<exists>t. score_risk_tier score s = Inr t \<and> rt_minimum_score t \<le> score \<and> score \<le> rt_maximum_score t"
proof -
  let ?p = "\<lambda>t. rt_minimum_score t \<le> score \<and> score \<le> rt_maximum_score t"
  have "\<exists>t \<in> set (configured_tiers s). ?p t"
    using assms(4,5) by (auto simp: configured_tiers_def Let_def tier_def)
  then obtain t where t: "find ?p (configured_tiers s) = Some t"
    by (cases "find ?p (configured_tiers s)") (auto simp: find_None_iff)
  then have "?p t" by (auto simp: find_Some_iff)
  moreover have "score_risk_tier score s = Inr t"
    using t score_tiers_valid [OF assms(1-3)] by (simp add: score_risk_tier_def)
  ultimately show ?thesis by blast
qed

lemma tier_chain_order:
  assumes "sorted (map rt_minimum_score ts)" "i < length ts" "j < length ts"
    and "\<And>k. Suc k < length ts \<Longrightarrow> rt_maximum_score (ts ! k) < rt_minimum_score (ts ! Suc k)"
    and "rt_minimum_score (ts ! i) \<le> a" "b \<le> rt_maximum_score (ts ! j)" "a \<le> b"
  shows "i \<le> j"
proof (rule ccontr)
  assume "\<not> i \<le> j"
  then have "Suc j \<le> i" by simp
  then have "rt_minimum_score (ts ! Suc j) \<le> rt_minimum_score (ts ! i)"
    using assms(1,2) by (simp add: sorted_iff_nth_mono)
  moreover have "rt_maximum_score (ts ! j) < rt_minimum_score (ts ! Suc j)"
    using assms(2,4) \<open>Suc j \<le> i\<close> by simp
  ultimately show False using assms(5-7) by linarith
qed

lemma configured_tiers_gap:
  "Suc k < length (configured_tiers s) \<Longrightarrow>
     rt_maximum_score (configured_tiers s ! k) < rt_minimum_score (configured_tiers s ! Suc k)"
  by (cases "okx_demo_structural_dynamic_leverage_enabled s")
    (auto simp: configured_tiers_def Let_def tier_def less_Suc_eq)

lemma score_risk_tier_mono:
  assumes ok: "accepted s" "ranges_ok s" "okx_demo_score_risk_enabled s"
    and t: "score_risk_tier a s = Inr t" and u: "score_risk_tier b s = Inr u" and le: "a \<le> b"
  shows "rt_risk_pct t \<le> rt_risk_pct u \<and> rt_leverage t \<le> rt_leverage u"
proof -
  let ?ts = "configured_tiers s"
  have ts: "configured_score_risk_tiers s = Inr ?ts" using ok by (rule score_tiers_valid)
  obtain i where i: "i < length ?ts" "t = ?ts ! i" "rt_minimum_score t \<le> a"
    using score_risk_tier_Inr [OF t] ts by auto
  obtain j where j: "j < length ?ts" "u = ?ts ! j" "b \<le> rt_maximum_score u"
    using score_risk_tier_Inr [OF u] ts by auto
  note chain = configured_tiers_chain [OF ok(1,3)]
  have "i \<le> j"
    using tier_chain_order [OF chain(1) i(1) j(1) configured_tiers_gap] i j le by auto
  then show ?thesis using chain(2,3) i j by (simp add: sorted_iff_nth_mono)
qed

section \<open>Evidence only lowers a score\<close>

lemma mathematical_adjusted_score_le:
  "mathematical_adjusted_score c s = Inr (score, reason) \<Longrightarrow> score \<le> tc_score c"
  by (auto simp: mathematical_adjusted_score_def legacy_derivative_adjusted_score_def result_simps
      split: if_splits option.splits)

lemma mathematical_adjusted_score_cap:
  assumes "mathematical_adjusted_score c s = Inr (score, None)" "okx_demo_score_risk_enabled s"
    and "tc_mathematical_confirmation c = Some m"
  shows "mc_risk_grade m \<noteq> GradeBlocked"
    and "mc_risk_grade m = GradeMedium \<Longrightarrow> score < okx_demo_score_high_min s"
    and "mc_risk_grade m = GradeLow \<Longrightarrow> score < okx_demo_score_medium_min s"
  using assms
  by (auto simp: mathematical_adjusted_score_def mathematical_score_cap_def result_simps
      split: if_splits)

section \<open>Buckets\<close>

lemma capital_plan_Inr:
  assumes "build_demo_capital_bucket_plan eq av bucket plim = Inr p"
  shows "0 < eq" "0 \<le> av" "0 < bucket" "1 \<le> plim"
    "p = \<lparr>cb_risk_equity_usdt = eq, cb_available_equity_usdt = min eq av,
          cb_configured_bucket_usdt = bucket,
          cb_target_position_margin_usdt = (if eq \<le> bucket then eq else bucket),
          cb_available_position_margin_cap_usdt = min (if eq \<le> bucket then eq else bucket) (min eq av),
          cb_capital_slot_count = (if eq \<le> bucket then 1 else \<lfloor>ddiv eq bucket\<rfloor>),
          cb_effective_position_limit = min plim (if eq \<le> bucket then 1 else \<lfloor>ddiv eq bucket\<rfloor>)\<rparr>"
  using assms unfolding build_demo_capital_bucket_plan_def
  by (auto simp: result_simps Let_def not_le not_less split: if_splits)

lemma capital_slots_bounds:
  assumes "0 < bucket" "bucket < eq"
  shows "1 \<le> \<lfloor>ddiv eq bucket\<rfloor>" "of_int \<lfloor>ddiv eq bucket\<rfloor> * bucket \<le> eq * (1 + eps)"
proof -
  have "is_dec 1" by (rule is_decI [of 1 1 0]) simp_all
  then have "1 \<le> ddiv eq bucket"
    unfolding ddiv_def using assms by (intro dec.rnd_ge_rep) simp_all
  then show "1 \<le> \<lfloor>ddiv eq bucket\<rfloor>" by (simp add: le_floor_iff)
  have "of_int \<lfloor>ddiv eq bucket\<rfloor> \<le> ddiv eq bucket" by simp
  also have "\<dots> \<le> eq / bucket * (1 + eps)"
    unfolding ddiv_def using assms by (intro dround_le_eps) simp
  finally have "of_int \<lfloor>ddiv eq bucket\<rfloor> * bucket \<le> eq / bucket * (1 + eps) * bucket"
    using assms by (intro mult_right_mono) auto
  then show "of_int \<lfloor>ddiv eq bucket\<rfloor> * bucket \<le> eq * (1 + eps)" using assms by simp
qed

lemma capital_plan_bounds:
  assumes "build_demo_capital_bucket_plan equity available bucket plim = Inr p"
  shows "1 \<le> cb_capital_slot_count p \<and>
    of_int (cb_capital_slot_count p) * cb_target_position_margin_usdt p \<le> equity * (1 + eps) \<and>
    cb_available_position_margin_cap_usdt p \<le> min bucket (min equity available) \<and>
    1 \<le> cb_effective_position_limit p \<and> cb_effective_position_limit p \<le> min plim (cb_capital_slot_count p)"
proof -
  note p = capital_plan_Inr [OF assms]
  show ?thesis
  proof (cases "equity \<le> bucket")
    case True
    then show ?thesis using p eps_bounds by simp
  next
    case False
    then show ?thesis using p capital_slots_bounds [of bucket equity] by simp
  qed
qed

section \<open>Leverage\<close>

lemma select_from_ladder_le: "select_from_ladder cap required \<le> cap"
  by (auto simp: select_from_ladder_def leverage_ladder_def Let_def)

lemma select_from_ladder_ge_required:
  assumes "required \<le> cap" "cap \<in> set leverage_ladder"
  shows "required \<le> select_from_ladder cap required"
  using assms by (auto simp: select_from_ladder_def leverage_ladder_def Let_def)

lemma select_from_ladder_least:
  assumes "v \<in> set leverage_ladder" "v \<le> cap" "required \<le> v"
  shows "select_from_ladder cap required \<le> v"
  using assms by (auto simp: select_from_ladder_def leverage_ladder_def Let_def)

lemma select_from_ladder_gt10:
  "10 < select_from_ladder cap required \<Longrightarrow> select_from_ladder cap required = 20"
  by (auto simp: select_from_ladder_def leverage_ladder_def Let_def split: if_splits)

text \<open>The reference: the least sufficient rung of the ladder, or the greatest one allowed.\<close>

definition reference_leverage :: "int \<Rightarrow> int \<Rightarrow> int" where
  "reference_leverage cap required =
     (let rungs = {v \<in> set leverage_ladder. v \<le> cap}; sufficient = {v \<in> rungs. required \<le> v}
      in if rungs = {} then cap else if sufficient = {} then Max rungs else Min sufficient)"

lemma find_sorted_Min:
  "sorted xs \<Longrightarrow> find (\<lambda>v. r \<le> v) xs = Some v \<Longrightarrow> v = Min {x \<in> set xs. r \<le> (x :: int)}"
proof (induction xs)
  case (Cons x xs)
  show ?case
  proof (cases "r \<le> x")
    case True
    then have "Min {y \<in> set (x # xs). r \<le> y} = x"
      using Cons.prems(1) by (intro Min_eqI) auto
    then show ?thesis using Cons.prems(2) True by simp
  next
    case False
    then have "{y \<in> set (x # xs). r \<le> y} = {y \<in> set xs. r \<le> y}" by auto
    then show ?thesis using Cons False by simp
  qed
qed simp

lemma last_sorted_Max: "sorted xs \<Longrightarrow> xs \<noteq> [] \<Longrightarrow> last xs = Max (set (xs :: int list))"
proof (induction xs)
  case (Cons x xs)
  then show ?case by (cases "xs = []") (auto simp: max_def)
qed simp

lemma select_from_ladder_reference: "select_from_ladder cap required = reference_leverage cap required"
proof -
  define rungs where "rungs = filter (\<lambda>v. v \<le> cap) leverage_ladder"
  have sorted: "sorted rungs" by (simp add: rungs_def leverage_ladder_def)
  have rungs: "{v \<in> set leverage_ladder. v \<le> cap} = set rungs" by (auto simp: rungs_def)
  have none: "find (\<lambda>v. required \<le> v) rungs = None \<longleftrightarrow> {v \<in> set rungs. required \<le> v} = {}"
    by (auto simp: find_None_iff)
  show ?thesis unfolding reference_leverage_def select_from_ladder_def Let_def rungs rungs_def [symmetric]
    using none find_sorted_Min [OF sorted, of required] last_sorted_Max [OF sorted]
    by (cases "find (\<lambda>v. required \<le> v) rungs"; cases "rungs = []") auto
qed

lemma effective_leverage_cap_le: "effective_leverage_cap t rs \<le> rt_leverage t"
  by (simp add: effective_leverage_cap_def)

lemma select_structural_leverage_Inr:
  assumes "select_structural_leverage c t s eq cap = Inr r"
  obtains required where "0 < eq" "0 < cap" "tc_entry c \<noteq> 0"
    "required = \<lceil>ddiv (dmul eq (rt_risk_pct t)) (dmul cap (dadd
       (ddiv (dabs (dsub (tc_entry c) (tc_stop_loss c))) (tc_entry c))
       (tc_estimated_round_trip_cost_pct c)))\<rceil>"
    "ls_leverage_cap r = effective_leverage_cap t (twenty_x_reasons c s)"
    "ls_selected_leverage r = select_from_ladder (ls_leverage_cap r) required"
    "ls_required_leverage r = max 1 required"
    "ls_twenty_x_eligible r \<longleftrightarrow> twenty_x_reasons c s = []"
  using assms that unfolding select_structural_leverage_def
  by (simp add: result_simps ddiv_checked_def Let_def not_le split: if_splits) (auto split: if_splits)

lemma structural_leverage_bounds:
  assumes "select_structural_leverage c t s eq cap = Inr r"
  shows "ls_selected_leverage r \<le> rt_leverage t \<and>
    (ls_selected_leverage r \<le> 10 \<or> ls_selected_leverage r = 20 \<and> twenty_x_reasons c s = [])"
proof -
  obtain required where *: "ls_leverage_cap r = effective_leverage_cap t (twenty_x_reasons c s)"
    "ls_selected_leverage r = select_from_ladder (ls_leverage_cap r) required"
    using assms by (rule select_structural_leverage_Inr)
  have "ls_selected_leverage r \<le> ls_leverage_cap r" using *(2) select_from_ladder_le by simp
  moreover have "ls_leverage_cap r \<le> rt_leverage t" using *(1) effective_leverage_cap_le by simp
  moreover have "10 < ls_selected_leverage r \<Longrightarrow> ls_selected_leverage r = 20"
    using *(2) select_from_ladder_gt10 by simp
  moreover have "20 \<le> ls_leverage_cap r \<Longrightarrow> twenty_x_reasons c s = []"
    using *(1) by (auto simp: effective_leverage_cap_def split: if_splits)
  ultimately show ?thesis by linarith
qed

section \<open>Cost-adjusted reward/risk\<close>

lemma apply_cost_Some:
  assumes "apply_cost_adjusted_reward_risk c s = Inr (Some v, reason)"
  shows "reason = None" "wf_candidate v" "tc_protection_model v = Structure"
    "tc_net_risk_reward v = Some (tc_risk_reward v)"
    "okx_demo_structural_min_net_risk_reward s \<le> tc_risk_reward v"
    "tc_estimated_round_trip_cost_pct v = structural_cost_rate s"
    "tc_entry v = tc_entry c" "tc_stop_loss v = tc_stop_loss c" "tc_take_profit v = tc_take_profit c"
  using assms unfolding apply_cost_adjusted_reward_risk_def Let_def
  by (auto simp: result_simps wf_simps not_less split: if_splits)

lemma structural_cost_rate_bounds:
  assumes "ranges_ok s"
  shows "0 \<le> structural_cost_rate s" "structural_cost_rate s \<le> 3 / 100"
proof -
  let ?f = "okx_demo_structural_round_trip_fee_bps s"
  let ?l = "okx_demo_structural_round_trip_slippage_bps s"
  let ?b = "okx_demo_structural_funding_buffer_bps s"
  have r: "0 \<le> ?f" "?f \<le> 100" "0 \<le> ?l" "?l \<le> 100" "0 \<le> ?b" "?b \<le> 100"
    using assms by (simp_all add: ranges_ok_def)
  have d: "is_dec 200" "is_dec 300" "is_dec (3 / 100)"
    by (rule is_decI [of _ 200 0], simp, simp) (rule is_decI [of _ 300 0], simp, simp,
      rule is_decI [of _ 3 "- 2"], simp_all add: power_int_def power2_eq_square)
  have a: "0 \<le> dadd ?f ?l" "dadd ?f ?l \<le> 200"
    unfolding dadd_def using r by (auto intro: dec.rnd_nonneg dec.rnd_le_rep [OF d(1)])
  then have b: "0 \<le> dadd (dadd ?f ?l) ?b" "dadd (dadd ?f ?l) ?b \<le> 300"
    using r unfolding dadd_def [of "dadd ?f ?l"]
    by (auto intro: dec.rnd_nonneg dec.rnd_le_rep [OF d(2)])
  show "0 \<le> structural_cost_rate s"
    unfolding structural_cost_rate_def ddiv_def using b by (intro dec.rnd_nonneg) simp
  show "structural_cost_rate s \<le> 3 / 100"
    unfolding structural_cost_rate_def ddiv_def using b by (intro dec.rnd_le_rep [OF d(3)]) simp
qed

end
