(* ===== verification/Demo_Execution.thy ===== *)
theory Demo_Execution
  imports Demo_Risk
begin

text \<open>
  Price-bounded fill-or-kill execution (\<^verbatim>\<open>app/demo_automation/execution_quality.py\<close>): the
  reward/risk of a candidate at an execution price, the candidate re-priced there, the
  boundary price of the order and the adverse slippage of a fill. The lemmas show that
  the reward/risk falls as a long's price rises (and as a short's price falls) even with
  the context's rounding, so that a fill inside the boundary keeps the ratio of the
  boundary, and that the boundary respects both the slippage cap and the floor.
\<close>

record execution_quality =
  eq_price :: decimal
  eq_gross_risk_reward :: decimal
  eq_net_risk_reward :: decimal
  eq_enforced_risk_reward :: decimal
  eq_minimum_risk_reward :: decimal
  eq_estimated_cost_rate :: decimal

record execution_boundary =
  eb_limit_price :: decimal
  eb_quality :: execution_quality
  eb_max_adverse_slippage_bps :: decimal

definition minimum_execution_risk_reward :: "trade_candidate \<Rightarrow> settings \<Rightarrow> decimal" where
  "minimum_execution_risk_reward c s =
     (if tc_protection_model c = Structure then okx_demo_structural_min_net_risk_reward s
      else strategy_min_risk_reward s)"

definition price_risk :: "trade_candidate \<Rightarrow> decimal \<Rightarrow> decimal" where
  "price_risk c price =
     (case tc_direction c of Long \<Rightarrow> dsub price (tc_stop_loss c) | Short \<Rightarrow> dsub (tc_stop_loss c) price)"

definition price_reward :: "trade_candidate \<Rightarrow> decimal \<Rightarrow> decimal" where
  "price_reward c price =
     (case tc_direction c of
        Long \<Rightarrow> dsub (tc_take_profit c) price | Short \<Rightarrow> dsub price (tc_take_profit c))"

definition cost_rate :: "trade_candidate \<Rightarrow> settings \<Rightarrow> decimal" where
  "cost_rate c s = (if tc_protection_model c = Structure then structural_cost_rate s else 0)"

definition execution_quality_at_price ::
  "trade_candidate \<Rightarrow> settings \<Rightarrow> decimal \<Rightarrow> execution_quality option" where
  "execution_quality_at_price c s price =
     (if price \<le> 0 then None
      else let risk = price_risk c price; reward = price_reward c price in
        if risk \<le> 0 \<or> reward \<le> 0 then None
        else let gross = ddiv reward risk; costs = cost_rate c s;
                 risk_rate = ddiv risk price; reward_rate = ddiv reward price in
          if reward_rate \<le> costs then None
          else let net = ddiv (dsub reward_rate costs) (dadd risk_rate costs) in
            Some \<lparr>eq_price = price, eq_gross_risk_reward = gross, eq_net_risk_reward = net,
                  eq_enforced_risk_reward = (if tc_protection_model c = Structure then net else gross),
                  eq_minimum_risk_reward = minimum_execution_risk_reward c s,
                  eq_estimated_cost_rate = costs\<rparr>)"

definition candidate_at_execution_price ::
  "trade_candidate \<Rightarrow> settings \<Rightarrow> decimal \<Rightarrow> (trade_candidate option \<times> string option) result" where
  "candidate_at_execution_price c s price =
     (case execution_quality_at_price c s price of
        None \<Rightarrow> Inr (None, Some ''execution_price_outside_protective_bounds'')
      | Some q \<Rightarrow>
          bind_result (validate_trade_candidate
            (c\<lparr>tc_entry := price, tc_risk_reward := eq_gross_risk_reward q,
               tc_gross_risk_reward := None, tc_net_risk_reward := None,
               tc_estimated_round_trip_cost_pct := 0\<rparr>))
          (\<lambda>priced.
            if tc_protection_model c = Structure then apply_cost_adjusted_reward_risk priced s
            else if eq_enforced_risk_reward q < eq_minimum_risk_reward q
              then Inr (None, Some ''execution_risk_reward_below_minimum'')
            else Inr (Some priced, None)))"

text \<open>The unaligned limit: the tighter of the reward/risk boundary and the slippage cap.\<close>

definition raw_limit :: "trade_candidate \<Rightarrow> settings \<Rightarrow> execution_quality \<Rightarrow> decimal \<Rightarrow> decimal" where
  "raw_limit c s q reference_price =
     (let minimum = eq_minimum_risk_reward q; costs = eq_estimated_cost_rate q;
          weighted = ddiv (dadd (tc_take_profit c) (dmul minimum (tc_stop_loss c))) (dadd 1 minimum);
          slippage_rate = ddiv (okx_demo_execution_max_adverse_slippage_bps s) 10000
      in case tc_direction c of
           Long \<Rightarrow> min (ddiv weighted (dadd 1 costs))
                       (dmul reference_price (dadd 1 slippage_rate))
         | Short \<Rightarrow> max (ddiv weighted (dsub 1 costs))
                       (dmul reference_price (dsub 1 slippage_rate)))"

definition aligned_limit :: "direction \<Rightarrow> decimal \<Rightarrow> decimal \<Rightarrow> decimal" where
  "aligned_limit d tick raw =
     dmul (of_int (case d of Long \<Rightarrow> \<lfloor>ddiv raw tick\<rfloor> | Short \<Rightarrow> \<lceil>ddiv raw tick\<rceil>)) tick"

definition bounded_fok_execution_price ::
  "trade_candidate \<Rightarrow> settings \<Rightarrow> decimal \<Rightarrow> decimal \<Rightarrow> execution_boundary option \<times> string option" where
  "bounded_fok_execution_price c s reference_price tick_size =
     (if reference_price \<le> 0 \<or> tick_size \<le> 0
        then (None, Some ''execution_price_boundary_inputs_invalid'')
      else case execution_quality_at_price c s reference_price of
        None \<Rightarrow> (None, Some ''execution_reference_outside_protective_bounds'')
      | Some rq \<Rightarrow>
          if eq_enforced_risk_reward rq < eq_minimum_risk_reward rq
            then (None, Some ''execution_reference_risk_reward_below_minimum'')
          else if tc_direction c = Short \<and> 1 \<le> eq_estimated_cost_rate rq
            then (None, Some ''execution_cost_rate_invalid'')
          else let limit = aligned_limit (tc_direction c) tick_size (raw_limit c s rq reference_price)
            in if (case tc_direction c of Long \<Rightarrow> limit < reference_price
                   | Short \<Rightarrow> reference_price < limit)
                 then (None, Some ''bounded_fok_price_not_marketable_at_reference'')
               else case execution_quality_at_price c s limit of
                 None \<Rightarrow> (None, Some ''bounded_fok_price_outside_protective_bounds'')
               | Some q \<Rightarrow>
                   if eq_enforced_risk_reward q < eq_minimum_risk_reward q
                     then (None, Some ''bounded_fok_risk_reward_below_minimum'')
                   else (Some \<lparr>eb_limit_price = limit, eb_quality = q,
                               eb_max_adverse_slippage_bps =
                                 okx_demo_execution_max_adverse_slippage_bps s\<rparr>, None))"

definition adverse_fill_slippage_bps :: "string \<Rightarrow> decimal \<Rightarrow> decimal \<Rightarrow> decimal result" where
  "adverse_fill_slippage_bps d reference_price fill_price =
     (if reference_price \<le> 0 \<or> fill_price \<le> 0
        then Inl (ValueError ''fill slippage prices must be positive'')
      else if d = ''long''
        then Inr (dmul (ddiv (dsub fill_price reference_price) reference_price) 10000)
      else if d = ''short''
        then Inr (dmul (ddiv (dsub reference_price fill_price) reference_price) 10000)
      else Inl (ValueError ''fill slippage direction must be long or short''))"

section \<open>Quality at a price\<close>

lemma quality_Some:
  assumes "execution_quality_at_price c s p = Some q"
  shows "0 < p" "brackets (tc_direction c) (tc_stop_loss c) p (tc_take_profit c)"
    "eq_price q = p" "eq_gross_risk_reward q = ddiv (price_reward c p) (price_risk c p)"
    "0 < price_risk c p" "0 < price_reward c p" "0 < eq_gross_risk_reward q"
    "eq_minimum_risk_reward q = minimum_execution_risk_reward c s"
    "tc_protection_model c \<noteq> Structure \<Longrightarrow> eq_enforced_risk_reward q = eq_gross_risk_reward q"
    "tc_protection_model c = Structure \<Longrightarrow> eq_enforced_risk_reward q = eq_net_risk_reward q"
  using assms unfolding execution_quality_at_price_def Let_def
  by (auto simp: not_le dec_simps price_risk_def price_reward_def
      split: if_splits direction.splits)

text \<open>A better price for the position's side.\<close>

definition no_worse :: "direction \<Rightarrow> decimal \<Rightarrow> decimal \<Rightarrow> bool" where
  "no_worse d p limit = (case d of Long \<Rightarrow> p \<le> limit | Short \<Rightarrow> limit \<le> p)"

lemma price_risk_mono: "no_worse (tc_direction c) p l \<Longrightarrow> price_risk c p \<le> price_risk c l"
  by (cases "tc_direction c") (auto simp: no_worse_def price_risk_def dsub_def dec.rnd_mono)

lemma price_reward_antimono: "no_worse (tc_direction c) p l \<Longrightarrow> price_reward c l \<le> price_reward c p"
  by (cases "tc_direction c") (auto simp: no_worse_def price_reward_def dsub_def dec.rnd_mono)

lemma gross_risk_reward_antimono:
  assumes "execution_quality_at_price c s p = Some q" "execution_quality_at_price c s l = Some r"
    and "no_worse (tc_direction c) p l"
  shows "eq_gross_risk_reward r \<le> eq_gross_risk_reward q"
proof -
  note q = quality_Some [OF assms(1)] and r = quality_Some [OF assms(2)]
  have "price_reward c l / price_risk c l \<le> price_reward c p / price_risk c p"
    using price_risk_mono [OF assms(3)] price_reward_antimono [OF assms(3)] q(5,6) r(5,6)
    by (intro frac_le) auto
  then show ?thesis unfolding q(4) r(4) ddiv_def by (rule dec.rnd_mono)
qed

section \<open>The boundary\<close>

lemma bounded_fok_Some:
  assumes "bounded_fok_execution_price c s ref tick = (Some b, reason)"
  obtains rq where "0 < ref" "0 < tick" "reason = None"
    "execution_quality_at_price c s ref = Some rq"
    "eb_limit_price b = aligned_limit (tc_direction c) tick (raw_limit c s rq ref)"
    "execution_quality_at_price c s (eb_limit_price b) = Some (eb_quality b)"
    "eq_minimum_risk_reward (eb_quality b) \<le> eq_enforced_risk_reward (eb_quality b)"
    "no_worse (tc_direction c) ref (eb_limit_price b)"
proof (cases "execution_quality_at_price c s ref")
  case None
  then show thesis using assms by (auto simp: bounded_fok_execution_price_def split: if_splits)
next
  case (Some rq)
  define limit where "limit = aligned_limit (tc_direction c) tick (raw_limit c s rq ref)"
  show thesis
  proof (cases "execution_quality_at_price c s limit")
    case None
    with Some assms show thesis
      by (auto simp: bounded_fok_execution_price_def Let_def limit_def [symmetric] split: if_splits)
  next
    case (Some q)
    show thesis
      by (rule that [of rq])
        (use assms \<open>execution_quality_at_price c s ref = Some rq\<close> Some in
          \<open>auto simp: bounded_fok_execution_price_def Let_def limit_def [symmetric] no_worse_def
             split: if_splits direction.splits\<close>)
  qed
qed

lemma aligned_long_le:
  "0 < tick \<Longrightarrow> 0 \<le> raw \<Longrightarrow> aligned_limit Long tick raw \<le> raw * (1 + eps) ^ 2"
  by (simp add: aligned_limit_def tick_floor_le)

lemma slippage_boundary_le:
  assumes "0 \<le> ref" "0 \<le> bps"
  shows "dmul ref (dadd 1 (ddiv bps 10000)) \<le> ref * (1 + bps / 10000) * (1 + eps) ^ 3"
proof -
  have e: "0 \<le> 1 + eps" "1 \<le> 1 + eps" using eps_bounds by simp_all
  have d: "0 \<le> ddiv bps 10000" unfolding ddiv_def using assms by (intro dec.rnd_nonneg) simp
  have "ddiv bps 10000 \<le> bps / 10000 * (1 + eps)"
    unfolding ddiv_def using assms by (intro dround_le_eps) simp
  moreover have "(1 :: rat) \<le> 1 * (1 + eps)" using e by simp
  ultimately have "1 + ddiv bps 10000 \<le> (1 + bps / 10000) * (1 + eps)"
    by (simp add: distrib_right)
  then have "(1 + ddiv bps 10000) * (1 + eps) \<le> (1 + bps / 10000) * (1 + eps) * (1 + eps)"
    using e by (intro mult_right_mono)
  moreover have "dadd 1 (ddiv bps 10000) \<le> (1 + ddiv bps 10000) * (1 + eps)"
    unfolding dadd_def using d by (intro dround_le_eps) simp
  ultimately have "dadd 1 (ddiv bps 10000) \<le> (1 + bps / 10000) * (1 + eps) * (1 + eps)" by linarith
  then have "ref * dadd 1 (ddiv bps 10000) * (1 + eps)
      \<le> ref * ((1 + bps / 10000) * (1 + eps) * (1 + eps)) * (1 + eps)"
    using assms e by (intro mult_right_mono mult_left_mono)
  moreover have "dmul ref (dadd 1 (ddiv bps 10000)) \<le> ref * dadd 1 (ddiv bps 10000) * (1 + eps)"
    unfolding dmul_def using assms d
    by (intro dround_le_eps mult_nonneg_nonneg) (simp_all add: dec_simps)
  ultimately show ?thesis by (simp add: power3_eq_cube mult.assoc)
qed

lemma aligned_short_ge:
  "0 < tick \<Longrightarrow> 0 \<le> raw \<Longrightarrow> raw * (1 - eps) ^ 2 \<le> aligned_limit Short tick raw"
  by (simp add: aligned_limit_def tick_ceiling_ge)

lemma slippage_boundary_ge:
  assumes "0 \<le> ref" "0 \<le> bps" "bps \<le> 50"
  shows "ref * (1 - bps / 10000 * (1 + eps)) * (1 - eps) ^ 2 \<le> dmul ref (dsub 1 (ddiv bps 10000))"
proof -
  have e: "0 \<le> 1 - eps" "eps \<le> 1" "0 \<le> 1 + eps" using eps_bounds by simp_all
  have up: "ddiv bps 10000 \<le> bps / 10000 * (1 + eps)"
    unfolding ddiv_def using assms by (intro dround_le_eps) simp
  also have "\<dots> \<le> 50 / 10000 * 2" using assms e by (intro mult_mono) auto
  finally have one: "0 \<le> 1 - ddiv bps 10000" by simp
  have "(1 - bps / 10000 * (1 + eps)) * (1 - eps) \<le> (1 - ddiv bps 10000) * (1 - eps)"
    using up e by (intro mult_right_mono) auto
  also have "\<dots> \<le> dsub 1 (ddiv bps 10000)" unfolding dsub_def using one by (rule dround_ge_eps)
  finally have "ref * ((1 - bps / 10000 * (1 + eps)) * (1 - eps)) \<le> ref * dsub 1 (ddiv bps 10000)"
    using assms(1) by (rule mult_left_mono)
  then have "ref * ((1 - bps / 10000 * (1 + eps)) * (1 - eps)) * (1 - eps) \<le> ref * dsub 1 (ddiv bps 10000) * (1 - eps)"
    using e(1) by (rule mult_right_mono)
  also have "\<dots> \<le> dmul ref (dsub 1 (ddiv bps 10000))"
    unfolding dmul_def using assms(1) one by (intro dround_ge_eps mult_nonneg_nonneg) (simp_all add: dsub_def dec.rnd_nonneg)
  finally show ?thesis by (simp add: power2_eq_square mult.assoc)
qed

text \<open>How far the limit may lie from the reference, up to the rounding of the context.\<close>

definition slippage_bounded :: "direction \<Rightarrow> decimal \<Rightarrow> decimal \<Rightarrow> decimal \<Rightarrow> bool" where
  "slippage_bounded d bps ref limit = (case d of
     Long \<Rightarrow> ref \<le> limit \<and> limit \<le> ref * (1 + bps / 10000) * (1 + eps) ^ 5
   | Short \<Rightarrow> ref * (1 - bps / 10000 * (1 + eps)) * (1 - eps) ^ 4 \<le> limit \<and> limit \<le> ref)"

lemma aligned_limit_mono:
  assumes "0 < tick" "a \<le> b"
  shows "aligned_limit d tick a \<le> aligned_limit d tick b"
proof -
  have "ddiv a tick \<le> ddiv b tick"
    unfolding ddiv_def using assms by (intro dec.rnd_mono divide_right_mono) auto
  then have "of_int \<lfloor>ddiv a tick\<rfloor> * tick \<le> of_int \<lfloor>ddiv b tick\<rfloor> * tick"
    "of_int \<lceil>ddiv a tick\<rceil> * tick \<le> of_int \<lceil>ddiv b tick\<rceil> * tick"
    using assms(1) by (auto intro!: mult_right_mono floor_mono ceiling_mono)
  then show ?thesis by (cases d) (simp_all add: aligned_limit_def dmul_def dec.rnd_mono)
qed

lemma limit_slippage_bounded:
  assumes "0 < ref" "0 < tick" "no_worse (tc_direction c) ref (aligned_limit (tc_direction c) tick (raw_limit c s rq ref))"
    and bps: "0 \<le> okx_demo_execution_max_adverse_slippage_bps s" "okx_demo_execution_max_adverse_slippage_bps s \<le> 50"
  shows "slippage_bounded (tc_direction c) (okx_demo_execution_max_adverse_slippage_bps s) ref
    (aligned_limit (tc_direction c) tick (raw_limit c s rq ref))"
proof (cases "tc_direction c")
  case Long
  let ?b = "dmul ref (dadd 1 (ddiv (okx_demo_execution_max_adverse_slippage_bps s) 10000))"
  have nn: "0 \<le> ?b" unfolding dmul_def dadd_def ddiv_def
    using assms(1) bps by (intro dec.rnd_nonneg mult_nonneg_nonneg add_nonneg_nonneg) auto
  have "aligned_limit Long tick (raw_limit c s rq ref) \<le> aligned_limit Long tick ?b"
    by (rule aligned_limit_mono [OF assms(2)]) (simp add: raw_limit_def Let_def Long)
  also have "\<dots> \<le> ?b * (1 + eps) ^ 2" using assms(2) nn by (rule aligned_long_le)
  also have "\<dots> \<le> ref * (1 + okx_demo_execution_max_adverse_slippage_bps s / 10000) * (1 + eps) ^ 3 * (1 + eps) ^ 2"
    by (rule mult_right_mono [OF slippage_boundary_le]) (use assms(1) bps eps_bounds in auto)
  finally show ?thesis using assms(3) Long
    by (simp add: slippage_bounded_def no_worse_def mult.assoc flip: power_add)
next
  case Short
  let ?b = "dmul ref (dsub 1 (ddiv (okx_demo_execution_max_adverse_slippage_bps s) 10000))"
  have le: "ref * (1 - okx_demo_execution_max_adverse_slippage_bps s / 10000 * (1 + eps)) * (1 - eps) ^ 2 \<le> ?b"
    by (rule slippage_boundary_ge) (use assms(1) bps in auto)
  have "okx_demo_execution_max_adverse_slippage_bps s / 10000 * (1 + eps) \<le> 50 / 10000 * 2"
    using bps eps_bounds by (intro mult_mono) auto
  then have "0 \<le> ref * (1 - okx_demo_execution_max_adverse_slippage_bps s / 10000 * (1 + eps)) * (1 - eps) ^ 2"
    using assms(1) by (intro mult_nonneg_nonneg) auto
  then have nn: "0 \<le> ?b" using le by linarith
  have "ref * (1 - okx_demo_execution_max_adverse_slippage_bps s / 10000 * (1 + eps)) * (1 - eps) ^ 2 * (1 - eps) ^ 2
      \<le> ?b * (1 - eps) ^ 2"
    using le by (rule mult_right_mono) simp
  also have "\<dots> \<le> aligned_limit Short tick ?b" using assms(2) nn by (rule aligned_short_ge)
  also have "\<dots> \<le> aligned_limit Short tick (raw_limit c s rq ref)"
    by (rule aligned_limit_mono [OF assms(2)]) (simp add: raw_limit_def Let_def Short)
  finally show ?thesis using assms(3) Short
    by (simp add: slippage_bounded_def no_worse_def mult.assoc flip: power_add)
qed

lemma bounded_limit_spec:
  assumes "bounded_fok_execution_price c s ref tick = (Some b, reason)" "ranges_ok s"
  shows "slippage_bounded (tc_direction c) (okx_demo_execution_max_adverse_slippage_bps s) ref (eb_limit_price b) \<and>
    brackets (tc_direction c) (tc_stop_loss c) (eb_limit_price b) (tc_take_profit c) \<and>
    eq_minimum_risk_reward (eb_quality b) \<le> eq_enforced_risk_reward (eb_quality b)"
proof -
  obtain rq where *: "0 < ref" "0 < tick"
    "eb_limit_price b = aligned_limit (tc_direction c) tick (raw_limit c s rq ref)"
    "execution_quality_at_price c s (eb_limit_price b) = Some (eb_quality b)"
    "eq_minimum_risk_reward (eb_quality b) \<le> eq_enforced_risk_reward (eb_quality b)"
    "no_worse (tc_direction c) ref (eb_limit_price b)"
    using assms(1) by (rule bounded_fok_Some)
  then show ?thesis using limit_slippage_bounded [of ref tick c s rq] quality_Some(2) [OF *(4)] assms(2)
    by (simp add: ranges_ok_def)
qed

end
