(* ===== verification/Risk_Engine.thy ===== *)
theory Risk_Engine
  imports Strategy_Domain
begin

text \<open>
  The risk engine (\<^verbatim>\<open>app/risk/engine.py\<close>) over the account state and the limits of
  \<^verbatim>\<open>app/domain/risk.py\<close>. \<open>evaluate_risk\<close> takes the clock as an argument and returns the
  decision record, or the decimal exception the source would raise. The lemmas show when
  a candidate is approved, and bound the exposure an approval grants.
\<close>

section \<open>Account state and limits\<close>

record account_risk_state =
  ar_equity :: decimal
  ar_daily_realized_pnl :: decimal
  ar_weekly_realized_pnl :: decimal
  ar_peak_equity :: "decimal option"
  ar_consecutive_losses :: int
  ar_open_positions :: int
  ar_same_direction_positions :: int
  ar_correlated_positions :: int

definition validate_account_risk_state :: "account_risk_state \<Rightarrow> account_risk_state result" where
  "validate_account_risk_state a =
     (if \<not> 0 < ar_equity a \<or> ar_consecutive_losses a < 0 \<or> ar_open_positions a < 0 \<or>
         ar_same_direction_positions a < 0 \<or> ar_correlated_positions a < 0
      then Inl field_constraint
      else let b = (case ar_peak_equity a of
                      None \<Rightarrow> a\<lparr>ar_peak_equity := Some (ar_equity a)\<rparr> | Some _ \<Rightarrow> a)
           in if (case ar_peak_equity b of None \<Rightarrow> False | Some p \<Rightarrow> p \<le> 0)
              then Inl (ValueError ''peak_equity must be positive'') else Inr b)"

record risk_limits =
  rl_risk_per_trade_pct :: decimal
  rl_max_daily_loss_pct :: decimal
  rl_max_weekly_loss_pct :: decimal
  rl_max_drawdown_pct :: decimal
  rl_max_consecutive_losses :: int
  rl_max_open_positions :: int
  rl_max_same_direction_positions :: int
  rl_max_correlated_positions :: int
  rl_max_notional :: decimal
  rl_minimum_quantity :: decimal
  rl_minimum_score :: int
  rl_minimum_risk_reward :: decimal

definition default_risk_limits :: risk_limits where
  "default_risk_limits =
     \<lparr>rl_risk_per_trade_pct = 5 / 1000, rl_max_daily_loss_pct = 2 / 100,
      rl_max_weekly_loss_pct = 5 / 100, rl_max_drawdown_pct = 10 / 100,
      rl_max_consecutive_losses = 3, rl_max_open_positions = 2,
      rl_max_same_direction_positions = 1, rl_max_correlated_positions = 1,
      rl_max_notional = 5000, rl_minimum_quantity = 1 / 10 ^ 8, rl_minimum_score = 72,
      rl_minimum_risk_reward = 18 / 10\<rparr>"

definition limits_ok :: "risk_limits \<Rightarrow> bool" where
  "limits_ok l \<longleftrightarrow>
     0 < rl_risk_per_trade_pct l \<and> rl_risk_per_trade_pct l \<le> 10 / 100 \<and>
     0 < rl_max_daily_loss_pct l \<and> rl_max_daily_loss_pct l \<le> 25 / 100 \<and>
     0 < rl_max_weekly_loss_pct l \<and> rl_max_weekly_loss_pct l \<le> 50 / 100 \<and>
     0 < rl_max_drawdown_pct l \<and> rl_max_drawdown_pct l \<le> 80 / 100 \<and>
     in_range 1 20 (rl_max_consecutive_losses l) \<and> in_range 1 20 (rl_max_open_positions l) \<and>
     in_range 1 20 (rl_max_same_direction_positions l) \<and>
     in_range 1 20 (rl_max_correlated_positions l) \<and>
     0 < rl_max_notional l \<and> 0 < rl_minimum_quantity l \<and> in_range 0 100 (rl_minimum_score l) \<and>
     0 < rl_minimum_risk_reward l \<and> rl_minimum_risk_reward l \<le> 10"

definition validate_risk_limits :: "risk_limits \<Rightarrow> risk_limits result" where
  "validate_risk_limits l = (if limits_ok l then Inr l else Inl field_constraint)"

datatype decision = Approved | Rejected

record risk_decision =
  rd_decision :: decision
  rd_candidate :: trade_candidate
  rd_requested_risk_pct :: decimal
  rd_approved_risk_pct :: decimal
  rd_approved_quantity :: decimal
  rd_notional :: decimal
  rd_max_loss_amount :: decimal
  rd_stop_distance :: decimal
  rd_effective_risk_distance :: decimal
  rd_estimated_cost_amount :: decimal
  rd_reason_codes :: "string list"
  rd_evaluated_at :: timestamp

section \<open>Evaluation\<close>

definition loss_ratio :: "decimal \<Rightarrow> decimal \<Rightarrow> decimal" where
  "loss_ratio loss_amount equity = ddiv (max 0 (dneg loss_amount)) equity"

definition drawdown :: "account_risk_state \<Rightarrow> decimal" where
  "drawdown a =
     (let peak = (case ar_peak_equity a of
                    None \<Rightarrow> ar_equity a | Some p \<Rightarrow> if p = 0 then ar_equity a else p)
      in ddiv (max 0 (dsub peak (ar_equity a))) peak)"

definition stop_distance_of :: "trade_candidate \<Rightarrow> decimal" where
  "stop_distance_of c = dabs (dsub (tc_entry c) (tc_stop_loss c))"

definition effective_risk_distance_of :: "trade_candidate \<Rightarrow> decimal" where
  "effective_risk_distance_of c =
     dadd (stop_distance_of c) (dmul (tc_entry c) (tc_estimated_round_trip_cost_pct c))"

definition effective_score :: "trade_candidate \<Rightarrow> int" where
  "effective_score c = (case tc_risk_score c of Some r \<Rightarrow> r | None \<Rightarrow> tc_score c)"

text \<open>The guards in the source's order; each contributes its reason code when it fires.\<close>

definition risk_guards ::
  "timestamp \<Rightarrow> trade_candidate \<Rightarrow> account_risk_state \<Rightarrow> risk_limits \<Rightarrow> (bool \<times> string) list" where
  "risk_guards now c a l =
     [(tc_expires_at c \<le> now, ''candidate_expired''),
      (effective_score c < rl_minimum_score l, ''score_below_minimum''),
      (tc_risk_reward c < rl_minimum_risk_reward l, ''risk_reward_below_minimum''),
      (stop_distance_of c \<le> 0, ''invalid_stop_distance''),
      (rl_max_daily_loss_pct l \<le> loss_ratio (ar_daily_realized_pnl a) (ar_equity a),
         ''daily_loss_limit_reached''),
      (rl_max_weekly_loss_pct l \<le> loss_ratio (ar_weekly_realized_pnl a) (ar_equity a),
         ''weekly_loss_limit_reached''),
      (rl_max_drawdown_pct l \<le> drawdown a, ''drawdown_limit_reached''),
      (rl_max_consecutive_losses l \<le> ar_consecutive_losses a, ''consecutive_loss_limit_reached''),
      (rl_max_open_positions l \<le> ar_open_positions a, ''open_position_limit_reached''),
      (rl_max_same_direction_positions l \<le> ar_same_direction_positions a,
         ''same_direction_limit_reached''),
      (rl_max_correlated_positions l \<le> ar_correlated_positions a,
         ''correlation_limit_reached'')]"

text \<open>The unrounded quantity: the risk budget over the effective distance, capped by notional.\<close>

definition quantity_by_risk :: "trade_candidate \<Rightarrow> account_risk_state \<Rightarrow> risk_limits \<Rightarrow> decimal" where
  "quantity_by_risk c a l =
     (if effective_risk_distance_of c \<le> 0 then 0
      else ddiv (dmul (ar_equity a) (rl_risk_per_trade_pct l)) (effective_risk_distance_of c))"

text \<open>The \<open>RiskDecision\<close> the source builds at the end: amounts only when approved.\<close>

definition build_risk_decision ::
  "timestamp \<Rightarrow> trade_candidate \<Rightarrow> risk_limits \<Rightarrow> string list \<Rightarrow> decimal \<Rightarrow> decimal \<Rightarrow> decimal \<Rightarrow>
   decimal \<Rightarrow> decimal \<Rightarrow> risk_decision" where
  "build_risk_decision now c l reasons quantity notional estimated_cost max_loss approved_risk =
     (let approved = (reasons = [] \<and> quantity > 0)
      in \<lparr>rd_decision = (if approved then Approved else Rejected),
          rd_candidate = c,
          rd_requested_risk_pct = rl_risk_per_trade_pct l,
          rd_approved_risk_pct = (if approved then approved_risk else 0),
          rd_approved_quantity = (if approved then quantity else 0),
          rd_notional = (if approved then notional else 0),
          rd_max_loss_amount = (if approved then max_loss else 0),
          rd_stop_distance = stop_distance_of c,
          rd_effective_risk_distance = effective_risk_distance_of c,
          rd_estimated_cost_amount = (if approved then estimated_cost else 0),
          rd_reason_codes = sorted_set reasons,
          rd_evaluated_at = now\<rparr>)"

definition evaluate_risk ::
  "timestamp \<Rightarrow> trade_candidate \<Rightarrow> account_risk_state \<Rightarrow> risk_limits \<Rightarrow> risk_decision result" where
  "evaluate_risk now c a l =
     (let cost_distance = dmul (tc_entry c) (tc_estimated_round_trip_cost_pct c);
          effective_distance = effective_risk_distance_of c;
          guards = collect (risk_guards now c a l)
      in bind_result (ddiv_checked (rl_max_notional l) (tc_entry c)) (\<lambda>quantity_by_notional.
         bind_result (quantize_down 8 (min (quantity_by_risk c a l) quantity_by_notional))
           (\<lambda>rounded.
         let below = rounded < rl_minimum_quantity l;
             reasons = (if below then guards @ [''quantity_below_minimum''] else guards);
             quantity = (if below then 0 else rounded)
         in
         bind_result (quantize_even 8 (dmul quantity (tc_entry c))) (\<lambda>notional.
         bind_result (quantize_even 8 (dmul quantity cost_distance)) (\<lambda>estimated_cost.
         bind_result (quantize_even 8 (dmul quantity effective_distance)) (\<lambda>max_loss.
         bind_result (if quantity > 0 then quantize_even 8 (ddiv max_loss (ar_equity a)) else Inr 0)
           (\<lambda>approved_risk.
         Inr (build_risk_decision now c l reasons quantity notional estimated_cost max_loss
           approved_risk))))))))"

section \<open>Approval\<close>

lemma build_risk_decision_approved:
  "rd_decision (build_risk_decision now c l rs q n e m r) = Approved \<longleftrightarrow> rs = [] \<and> 0 < q"
  by (simp add: build_risk_decision_def Let_def)

lemma build_risk_decision_fields:
  "rs = [] \<Longrightarrow> 0 < q \<Longrightarrow>
     rd_approved_quantity (build_risk_decision now c l rs q n e m r) = q \<and>
     rd_notional (build_risk_decision now c l rs q n e m r) = n \<and>
     rd_max_loss_amount (build_risk_decision now c l rs q n e m r) = m \<and>
     rd_reason_codes (build_risk_decision now c l rs q n e m r) = []"
  by (simp add: build_risk_decision_def Let_def)

lemma evaluate_risk_Inr:
  assumes "evaluate_risk now c a l = Inr d"
  obtains rounded reasons quantity n e m r where
    "tc_entry c \<noteq> 0"
    "rounded = grid_down 8 (min (quantity_by_risk c a l) (ddiv (rl_max_notional l) (tc_entry c)))"
    "reasons = (if rounded < rl_minimum_quantity l
       then collect (risk_guards now c a l) @ [''quantity_below_minimum'']
       else collect (risk_guards now c a l))"
    "quantity = (if rounded < rl_minimum_quantity l then 0 else rounded)"
    "n = grid_even 8 (dmul quantity (tc_entry c))"
    "m = grid_even 8 (dmul quantity (effective_risk_distance_of c))"
    "d = build_risk_decision now c l reasons quantity n e m r"
proof -
  have nz: "tc_entry c \<noteq> 0"
    using assms by (auto simp: evaluate_risk_def ddiv_checked_def)
  then have "ddiv_checked (rl_max_notional l) (tc_entry c) = Inr (ddiv (rl_max_notional l) (tc_entry c))"
    by (simp add: ddiv_checked_def)
  with assms that [OF nz refl refl refl refl refl] show thesis
    unfolding evaluate_risk_def Let_def by (auto simp only: result_simps bind_result_Inr)
qed

text \<open>An approved decision passed every guard, and its amounts are those of its quantity.\<close>

lemma evaluate_risk_approvedD:
  assumes "evaluate_risk now c a l = Inr d" "rd_decision d = Approved"
  shows "\<forall>p \<in> set (risk_guards now c a l). \<not> fst p"
    and "tc_entry c \<noteq> 0"
    and "rd_approved_quantity d =
      grid_down 8 (min (quantity_by_risk c a l) (ddiv (rl_max_notional l) (tc_entry c)))"
    and "rl_minimum_quantity l \<le> rd_approved_quantity d" and "0 < rd_approved_quantity d"
    and "rd_notional d = grid_even 8 (dmul (rd_approved_quantity d) (tc_entry c))"
    and "rd_max_loss_amount d =
      grid_even 8 (dmul (rd_approved_quantity d) (effective_risk_distance_of c))"
    and "rd_reason_codes d = []"
proof -
  obtain rounded reasons quantity n e m r where *:
    "tc_entry c \<noteq> 0"
    "rounded = grid_down 8 (min (quantity_by_risk c a l) (ddiv (rl_max_notional l) (tc_entry c)))"
    "reasons = (if rounded < rl_minimum_quantity l
       then collect (risk_guards now c a l) @ [''quantity_below_minimum'']
       else collect (risk_guards now c a l))"
    "quantity = (if rounded < rl_minimum_quantity l then 0 else rounded)"
    "n = grid_even 8 (dmul quantity (tc_entry c))"
    "m = grid_even 8 (dmul quantity (effective_risk_distance_of c))"
    "d = build_risk_decision now c l reasons quantity n e m r"
    using assms(1) by (rule evaluate_risk_Inr)
  from assms(2) have ap: "reasons = []" "0 < quantity"
    by (simp_all add: *(7) build_risk_decision_approved)
  then have q: "\<not> rounded < rl_minimum_quantity l" "collect (risk_guards now c a l) = []"
    using *(3) by (auto split: if_splits)
  note f = build_risk_decision_fields [OF ap, of now c l n e m r, folded *(7)]
  show "\<forall>p \<in> set (risk_guards now c a l). \<not> fst p" using q(2) by (simp only: collect_eq_Nil)
  show "tc_entry c \<noteq> 0" by (fact *(1))
  show "rd_approved_quantity d =
      grid_down 8 (min (quantity_by_risk c a l) (ddiv (rl_max_notional l) (tc_entry c)))"
    "rl_minimum_quantity l \<le> rd_approved_quantity d" "0 < rd_approved_quantity d"
    "rd_notional d = grid_even 8 (dmul (rd_approved_quantity d) (tc_entry c))"
    "rd_max_loss_amount d =
      grid_even 8 (dmul (rd_approved_quantity d) (effective_risk_distance_of c))"
    "rd_reason_codes d = []"
    using f ap(2) q(1) *(2,4,5,6) by auto
qed

lemma rejected_grants_nothing:
  assumes "evaluate_risk now c a l = Inr d" "rd_decision d = Rejected"
  shows "rd_approved_quantity d = 0 \<and> rd_notional d = 0 \<and> rd_max_loss_amount d = 0 \<and>
    rd_approved_risk_pct d = 0 \<and> rd_estimated_cost_amount d = 0"
proof -
  obtain reasons quantity n e m r where
    d: "d = build_risk_decision now c l reasons quantity n e m r"
    using assms(1) by (rule evaluate_risk_Inr)
  then have "\<not> (reasons = [] \<and> 0 < quantity)"
    using assms(2) build_risk_decision_approved by (metis decision.distinct(1))
  then show ?thesis unfolding d build_risk_decision_def Let_def by auto
qed

section \<open>Bounds on an approval\<close>

lemma approved_entry_pos:
  assumes "evaluate_risk now c a l = Inr d" "rd_decision d = Approved" "0 < rl_max_notional l"
  shows "0 < tc_entry c"
proof (rule ccontr)
  assume "\<not> 0 < tc_entry c"
  then have "ddiv (rl_max_notional l) (tc_entry c) \<le> 0"
    using assms(3) by (simp add: dec_simps divide_nonneg_nonpos)
  then have "grid_down 8 (min (quantity_by_risk c a l) (ddiv (rl_max_notional l) (tc_entry c))) \<le> 0"
    by (intro q_down.rnd_nonpos) (simp add: min_le_iff_disj)
  then show False using evaluate_risk_approvedD(3,5) [OF assms(1,2)] by linarith
qed

lemma approved_quantity_bounds:
  assumes "evaluate_risk now c a l = Inr d" "rd_decision d = Approved"
  shows "rd_approved_quantity d \<le> quantity_by_risk c a l"
    and "rd_approved_quantity d \<le> ddiv (rl_max_notional l) (tc_entry c)"
proof -
  let ?m = "min (quantity_by_risk c a l) (ddiv (rl_max_notional l) (tc_entry c))"
  have q: "rd_approved_quantity d = grid_down 8 ?m" "0 < rd_approved_quantity d"
    using evaluate_risk_approvedD(3,5) [OF assms] by auto
  then have "0 \<le> ?m" using q_down.rnd_nonpos [of ?m 8] by linarith
  then have "rd_approved_quantity d \<le> ?m" unfolding q(1) by (rule grid_down_bounds(2))
  then show "rd_approved_quantity d \<le> quantity_by_risk c a l"
    "rd_approved_quantity d \<le> ddiv (rl_max_notional l) (tc_entry c)" by auto
qed

lemma approved_loss_within_budget:
  assumes ok: "evaluate_risk now c a l = Inr d" "rd_decision d = Approved"
    and pos: "0 < ar_equity a" "0 < rl_risk_per_trade_pct l"
  shows "rd_approved_quantity d * effective_risk_distance_of c
    \<le> ar_equity a * rl_risk_per_trade_pct l * (1 + eps) ^ 2"
proof -
  let ?D = "effective_risk_distance_of c" and ?B = "ar_equity a * rl_risk_per_trade_pct l"
  have q: "0 < rd_approved_quantity d" "rd_approved_quantity d \<le> quantity_by_risk c a l"
    using evaluate_risk_approvedD(5) [OF ok] approved_quantity_bounds(1) [OF ok] by auto
  then have D: "0 < ?D" by (cases "?D \<le> 0") (auto simp: quantity_by_risk_def)
  have B: "0 < ?B" using pos by simp
  have "dmul (ar_equity a) (rl_risk_per_trade_pct l) \<le> ?B * (1 + eps)"
    unfolding dmul_def using B by (intro dround_le_eps) simp
  then have "dmul (ar_equity a) (rl_risk_per_trade_pct l) / ?D \<le> ?B * (1 + eps) / ?D"
    using D by (intro divide_right_mono) auto
  moreover have "quantity_by_risk c a l
      \<le> dmul (ar_equity a) (rl_risk_per_trade_pct l) / ?D * (1 + eps)"
  proof -
    have "0 \<le> dmul (ar_equity a) (rl_risk_per_trade_pct l) / ?D"
      using D B by (intro divide_nonneg_pos) (simp_all add: dec_simps)
    then show ?thesis unfolding quantity_by_risk_def ddiv_def using D by (simp add: dround_le_eps del: times_divide_eq_left)
  qed
  moreover have "0 \<le> 1 + eps" using eps_bounds by simp
  ultimately have "quantity_by_risk c a l \<le> ?B * (1 + eps) / ?D * (1 + eps)"
    by (meson mult_right_mono order_trans)
  then have "rd_approved_quantity d * ?D \<le> ?B * (1 + eps) / ?D * (1 + eps) * ?D"
    using q D by (intro mult_right_mono) auto
  also have "\<dots> = ?B * (1 + eps) ^ 2" using D by (simp add: power2_eq_square)
  finally show ?thesis .
qed

lemma approved_notional_within_limit:
  assumes ok: "evaluate_risk now c a l = Inr d" "rd_decision d = Approved"
    and pos: "0 < rl_max_notional l"
  shows "rd_approved_quantity d * tc_entry c \<le> rl_max_notional l * (1 + eps)"
proof -
  have e: "0 < tc_entry c" using ok pos by (rule approved_entry_pos)
  have "rd_approved_quantity d \<le> ddiv (rl_max_notional l) (tc_entry c)"
    using ok by (rule approved_quantity_bounds(2))
  also have "\<dots> \<le> rl_max_notional l / tc_entry c * (1 + eps)"
    unfolding ddiv_def using e pos by (intro dround_le_eps) simp
  finally have "rd_approved_quantity d * tc_entry c
      \<le> rl_max_notional l / tc_entry c * (1 + eps) * tc_entry c"
    using e by (intro mult_right_mono) auto
  then show ?thesis using e by simp
qed

text \<open>The exact condition under which a candidate is approved.\<close>

definition sized_quantity :: "trade_candidate \<Rightarrow> account_risk_state \<Rightarrow> risk_limits \<Rightarrow> decimal" where
  "sized_quantity c a l =
     grid_down 8 (min (quantity_by_risk c a l) (ddiv (rl_max_notional l) (tc_entry c)))"

lemma approved_iff:
  assumes "evaluate_risk now c a l = Inr d"
  shows "rd_decision d = Approved \<longleftrightarrow> list_all (\<lambda>(fires, code). \<not> fires) (risk_guards now c a l) \<and>
    rl_minimum_quantity l \<le> sized_quantity c a l \<and> 0 < sized_quantity c a l"
proof -
  obtain rounded reasons quantity n e m r where
    *: "rounded = sized_quantity c a l"
    "reasons = (if rounded < rl_minimum_quantity l
       then collect (risk_guards now c a l) @ [''quantity_below_minimum'']
       else collect (risk_guards now c a l))"
    "quantity = (if rounded < rl_minimum_quantity l then 0 else rounded)"
    "d = build_risk_decision now c l reasons quantity n e m r"
    using assms by (rule evaluate_risk_Inr) (auto simp: sized_quantity_def)
  have "collect (risk_guards now c a l) = [] \<longleftrightarrow> list_all (\<lambda>(fires, code). \<not> fires) (risk_guards now c a l)"
    by (auto simp: collect_def list_all_iff filter_empty_conv)
  then show ?thesis using * by (auto simp: build_risk_decision_approved)
qed

end
