(* ===== verification/Paper_Broker.thy ===== *)
theory Paper_Broker
  imports Py_Decimal Effects Strategy_Domain
begin

text \<open>
  The deterministic paper broker (\<^verbatim>\<open>app/paper/engine.py\<close>) over the models of
  \<^verbatim>\<open>app/domain/paper.py\<close>. The broker object is the record \<open>broker\<close>: its balances and
  rates and its two insertion-ordered dictionaries; each method is an effect on it that
  may raise and then keeps the mutations made before. \<open>uuid4\<close> is a supply of identifiers
  held in the state (\<open>pb_next_id\<close>), and the clock is an argument. The re-entrant lock
  serialises the methods, so each runs to completion.

  Invariant \<open>book_ok\<close>: identifiers are unique and below the supply, every position belongs
  to a filled order, and no two positions share one. Further lemmas: what a tick leaves
  open and pending, and the cash ledger across fills and closes.
\<close>

type_synonym uuid = nat

datatype order_type = Market | Limit

datatype order_status = Pending | Filled | Cancelled | OrderRejected

datatype position_status = Open | Closed

record order_request =
  rq_symbol :: string
  rq_side :: direction
  rq_quantity :: decimal
  rq_reference_price :: decimal
  rq_stop_loss :: decimal
  rq_take_profit :: decimal
  rq_order_type :: order_type
  rq_limit_price :: "decimal option"
  rq_risk_approved :: bool
  rq_strategy :: string
  rq_score :: int
  rq_reasons :: "string list"
  rq_client_order_id :: "string option"

definition request_fields_ok :: "order_request \<Rightarrow> bool" where
  "request_fields_ok r \<longleftrightarrow>
     3 \<le> length (rq_symbol r) \<and> length (rq_symbol r) \<le> 40 \<and> 0 < rq_quantity r \<and>
     0 < rq_reference_price r \<and> 0 < rq_stop_loss r \<and> 0 < rq_take_profit r \<and>
     (case rq_limit_price r of None \<Rightarrow> True | Some p \<Rightarrow> 0 < p) \<and>
     2 \<le> length (rq_strategy r) \<and> length (rq_strategy r) \<le> 100 \<and> in_range 0 100 (rq_score r) \<and>
     (case rq_client_order_id r of None \<Rightarrow> True | Some i \<Rightarrow> 4 \<le> length i \<and> length i \<le> 80)"

definition validate_order :: "order_request \<Rightarrow> order_request result" where
  "validate_order r =
     (if \<not> request_fields_ok r then Inl field_constraint
      else if rq_order_type r = Limit \<and> rq_limit_price r = None
        then Inl (ValueError ''limit_price is required for limit orders'')
      else if \<not> brackets (rq_side r) (rq_stop_loss r) (rq_reference_price r) (rq_take_profit r)
        then Inl (ValueError (case rq_side r of
            Long \<Rightarrow> ''long requires stop_loss < reference_price < take_profit''
          | Short \<Rightarrow> ''short requires take_profit < reference_price < stop_loss''))
      else Inr r)"

record order_view =
  ov_id :: uuid
  ov_client_order_id :: string
  ov_symbol :: string
  ov_side :: direction
  ov_order_type :: order_type
  ov_status :: order_status
  ov_quantity :: decimal
  ov_reference_price :: decimal
  ov_limit_price :: "decimal option"
  ov_average_fill_price :: "decimal option"
  ov_stop_loss :: decimal
  ov_take_profit :: decimal
  ov_fee :: decimal
  ov_strategy :: string
  ov_score :: int
  ov_reasons :: "string list"
  ov_created_at :: timestamp
  ov_filled_at :: "timestamp option"

record stored_order =
  so_view :: order_view
  so_stop_loss :: decimal
  so_take_profit :: decimal

record position_view =
  pv_id :: uuid
  pv_order_id :: uuid
  pv_symbol :: string
  pv_side :: direction
  pv_status :: position_status
  pv_quantity :: decimal
  pv_entry_price :: decimal
  pv_mark_price :: decimal
  pv_stop_loss :: decimal
  pv_take_profit :: decimal
  pv_unrealized_pnl :: decimal
  pv_realized_pnl :: decimal
  pv_fees :: decimal
  pv_opened_at :: timestamp
  pv_closed_at :: "timestamp option"
  pv_close_reason :: "string option"

record account_view =
  av_starting_balance :: decimal
  av_cash_balance :: decimal
  av_equity :: decimal
  av_realized_pnl :: decimal
  av_unrealized_pnl :: decimal
  av_fees_paid :: decimal
  av_open_positions :: nat
  av_pending_orders :: nat
  av_closed_trades :: nat

record tick_result =
  tr_symbol :: string
  tr_price :: decimal
  tr_filled_order_ids :: "uuid list"
  tr_closed_position_ids :: "uuid list"
  tr_account :: account_view

record state_view =
  sv_account :: account_view
  sv_orders :: "order_view list"
  sv_positions :: "position_view list"

record broker =
  pb_starting_balance :: decimal
  pb_cash_balance :: decimal
  pb_taker_fee_rate :: decimal
  pb_maker_fee_rate :: decimal
  pb_slippage_bps :: decimal
  pb_orders :: "(uuid \<times> stored_order) list"
  pb_positions :: "(uuid \<times> position_view) list"
  pb_next_id :: uuid

type_synonym 'a paper = "(broker, 'a) eff"

section \<open>Construction, identifiers and quantisation\<close>

definition new_broker :: "decimal \<Rightarrow> decimal \<Rightarrow> decimal \<Rightarrow> decimal \<Rightarrow> broker result" where
  "new_broker starting_balance taker maker slippage =
     (if starting_balance \<le> 0 then Inl (ValueError ''starting_balance must be positive'')
      else Inr \<lparr>pb_starting_balance = starting_balance, pb_cash_balance = starting_balance,
                pb_taker_fee_rate = taker, pb_maker_fee_rate = maker, pb_slippage_bps = slippage,
                pb_orders = [], pb_positions = [], pb_next_id = 0\<rparr>)"

definition uuid4 :: "uuid paper" where
  "uuid4 = bind_eff (gets pb_next_id) (\<lambda>i.
     seq_eff (modify (\<lambda>b. b\<lparr>pb_next_id := Suc (pb_next_id b)\<rparr>)) (ret i))"

fun hex_digits :: "nat \<Rightarrow> nat \<Rightarrow> string" where
  "hex_digits 0 n = []"
| "hex_digits (Suc k) n = hex_digits k (n div 16) @ [''0123456789abcdef'' ! (n mod 16)]"

definition uuid_hex :: "uuid \<Rightarrow> string" where
  "uuid_hex i = hex_digits 32 i"

abbreviation q8 :: "decimal \<Rightarrow> decimal result" where
  "q8 \<equiv> quantize_down 8"

section \<open>Prices and profit\<close>

definition apply_slippage :: "broker \<Rightarrow> decimal \<Rightarrow> direction \<Rightarrow> bool \<Rightarrow> decimal" where
  "apply_slippage b price side opening =
     (let rate = ddiv (pb_slippage_bps b) 10000;
          is_buy = ((side = Long \<and> opening) \<or> (side = Short \<and> \<not> opening))
      in dmul price (if is_buy then dadd 1 rate else dsub 1 rate))"

definition raw_pnl :: "direction \<Rightarrow> decimal \<Rightarrow> decimal \<Rightarrow> decimal \<Rightarrow> decimal" where
  "raw_pnl side entry exit_price quantity =
     (case side of Long \<Rightarrow> dmul (dsub exit_price entry) quantity
      | Short \<Rightarrow> dmul (dsub entry exit_price) quantity)"

definition gross_pnl :: "direction \<Rightarrow> decimal \<Rightarrow> decimal \<Rightarrow> decimal \<Rightarrow> decimal result" where
  "gross_pnl side entry exit_price quantity = q8 (raw_pnl side entry exit_price quantity)"

section \<open>Lookups and views\<close>

definition require_order :: "uuid \<Rightarrow> stored_order paper" where
  "require_order i = bind_eff (gets (\<lambda>b. map_of (pb_orders b) i)) (\<lambda>r.
     case r of None \<Rightarrow> raise (PaperBrokerError ''order_not_found'') | Some so \<Rightarrow> ret so)"

definition get_order :: "uuid \<Rightarrow> order_view paper" where
  "get_order i = bind_eff (require_order i) (\<lambda>so. ret (so_view so))"

definition get_position :: "uuid \<Rightarrow> position_view paper" where
  "get_position i = bind_eff (gets (\<lambda>b. map_of (pb_positions b) i)) (\<lambda>r.
     case r of None \<Rightarrow> raise (PaperBrokerError ''position_not_found'') | Some p \<Rightarrow> ret p)"

definition set_order :: "uuid \<Rightarrow> stored_order \<Rightarrow> unit paper" where
  "set_order i so = modify (\<lambda>b. b\<lparr>pb_orders := dict_set (pb_orders b) i so\<rparr>)"

definition set_position :: "uuid \<Rightarrow> position_view \<Rightarrow> unit paper" where
  "set_position i p = modify (\<lambda>b. b\<lparr>pb_positions := dict_set (pb_positions b) i p\<rparr>)"

definition account_of :: "broker \<Rightarrow> account_view result" where
  "account_of b =
     (let positions = map snd (pb_positions b);
          open_positions = filter (\<lambda>p. pv_status p = Open) positions;
          closed_positions = filter (\<lambda>p. pv_status p = Closed) positions;
          unrealized = dsum (map pv_unrealized_pnl open_positions);
          fees = dsum (map pv_fees positions);
          realized = dsum (map pv_realized_pnl closed_positions);
          pending = length (filter (\<lambda>so. ov_status (so_view so) = Pending) (map snd (pb_orders b)))
      in bind_result (q8 (pb_starting_balance b)) (\<lambda>starting.
         bind_result (q8 (pb_cash_balance b)) (\<lambda>cash.
         bind_result (q8 (dadd (pb_cash_balance b) unrealized)) (\<lambda>equity.
         bind_result (q8 realized) (\<lambda>real.
         bind_result (q8 unrealized) (\<lambda>unreal.
         bind_result (q8 fees) (\<lambda>paid.
         Inr \<lparr>av_starting_balance = starting, av_cash_balance = cash, av_equity = equity,
              av_realized_pnl = real, av_unrealized_pnl = unreal, av_fees_paid = paid,
              av_open_positions = length open_positions, av_pending_orders = pending,
              av_closed_trades = length closed_positions\<rparr>)))))))"

definition account :: "account_view paper" where
  "account = bind_eff (gets account_of) lift_result"

definition broker_state :: "state_view paper" where
  "broker_state = bind_eff account (\<lambda>a. bind_eff (gets (\<lambda>b. b)) (\<lambda>b.
     ret \<lparr>sv_account = a, sv_orders = map (\<lambda>(_, so). so_view so) (pb_orders b),
          sv_positions = map snd (pb_positions b)\<rparr>))"

section \<open>Filling and closing\<close>

definition fill_price_of :: "broker \<Rightarrow> order_view \<Rightarrow> decimal \<Rightarrow> bool \<Rightarrow> decimal result" where
  "fill_price_of b order price is_maker =
     q8 (if is_maker then price else apply_slippage b price (ov_side order) True)"

definition entry_fee_of :: "broker \<Rightarrow> order_view \<Rightarrow> decimal \<Rightarrow> bool \<Rightarrow> decimal result" where
  "entry_fee_of b order fill_price is_maker =
     q8 (dmul (dmul fill_price (ov_quantity order))
       (if is_maker then pb_maker_fee_rate b else pb_taker_fee_rate b))"

definition filled_order :: "stored_order \<Rightarrow> decimal \<Rightarrow> decimal \<Rightarrow> timestamp \<Rightarrow> stored_order" where
  "filled_order so fill_price fee filled_at =
     so\<lparr>so_view := (so_view so)\<lparr>ov_status := Filled, ov_average_fill_price := Some fill_price,
        ov_fee := fee, ov_filled_at := Some filled_at\<rparr>\<rparr>"

definition opened_position ::
  "uuid \<Rightarrow> stored_order \<Rightarrow> decimal \<Rightarrow> decimal \<Rightarrow> timestamp \<Rightarrow> position_view" where
  "opened_position i so fill_price fee filled_at =
     \<lparr>pv_id = i, pv_order_id = ov_id (so_view so), pv_symbol = ov_symbol (so_view so),
      pv_side = ov_side (so_view so), pv_status = Open, pv_quantity = ov_quantity (so_view so),
      pv_entry_price = fill_price, pv_mark_price = fill_price, pv_stop_loss = so_stop_loss so,
      pv_take_profit = so_take_profit so, pv_unrealized_pnl = 0, pv_realized_pnl = 0,
      pv_fees = fee, pv_opened_at = filled_at, pv_closed_at = None, pv_close_reason = None\<rparr>"

definition fill :: "uuid \<Rightarrow> stored_order \<Rightarrow> decimal \<Rightarrow> bool \<Rightarrow> timestamp \<Rightarrow> unit paper" where
  "fill key so price is_maker filled_at =
     seq_eff (raise_when (ov_status (so_view so) \<noteq> Pending) (PaperBrokerError ''order_not_pending''))
     (bind_eff (gets (\<lambda>b. b)) (\<lambda>b.
      bind_eff (lift_result (fill_price_of b (so_view so) price is_maker)) (\<lambda>fill_price.
      bind_eff (lift_result (entry_fee_of b (so_view so) fill_price is_maker)) (\<lambda>entry_fee.
      seq_eff (modify (\<lambda>b. b\<lparr>pb_cash_balance := dsub (pb_cash_balance b) entry_fee\<rparr>))
      (seq_eff (set_order key (filled_order so fill_price entry_fee filled_at))
      (bind_eff uuid4 (\<lambda>position_id.
       set_position position_id (opened_position position_id so fill_price entry_fee filled_at))))))))"

definition closed_position ::
  "position_view \<Rightarrow> decimal \<Rightarrow> decimal \<Rightarrow> decimal \<Rightarrow> string \<Rightarrow> timestamp \<Rightarrow> position_view" where
  "closed_position p exit_price realized fees reason ts =
     p\<lparr>pv_status := Closed, pv_mark_price := exit_price, pv_unrealized_pnl := 0,
       pv_realized_pnl := realized, pv_fees := fees, pv_closed_at := Some ts,
       pv_close_reason := Some reason\<rparr>"

definition close_position :: "uuid \<Rightarrow> decimal \<Rightarrow> string \<Rightarrow> timestamp \<Rightarrow> position_view paper" where
  "close_position i price reason ts =
     bind_eff (get_position i) (\<lambda>p.
     seq_eff (raise_when (pv_status p \<noteq> Open) (PaperBrokerError ''position_not_open''))
     (bind_eff (gets (\<lambda>b. b)) (\<lambda>b.
      bind_eff (lift_result (q8 (apply_slippage b price (pv_side p) False))) (\<lambda>exit_price.
      bind_eff (lift_result (gross_pnl (pv_side p) (pv_entry_price p) exit_price (pv_quantity p)))
        (\<lambda>gross.
      bind_eff (lift_result (q8 (dmul (dmul exit_price (pv_quantity p)) (pb_taker_fee_rate b))))
        (\<lambda>exit_fee.
      seq_eff (modify (\<lambda>b. b\<lparr>pb_cash_balance := dadd (pb_cash_balance b) (dsub gross exit_fee)\<rparr>))
      (bind_eff (lift_result (q8 (dsub (dsub gross (pv_fees p)) exit_fee))) (\<lambda>realized.
       bind_eff (lift_result (q8 (dadd (pv_fees p) exit_fee))) (\<lambda>fees.
       let closed = closed_position p exit_price realized fees reason ts
       in seq_eff (set_position i closed) (ret closed))))))))))"

section \<open>The methods\<close>

definition new_order :: "uuid \<Rightarrow> order_request \<Rightarrow> timestamp \<Rightarrow> order_view result" where
  "new_order order_id r now =
     bind_result (q8 (rq_quantity r)) (\<lambda>quantity.
     bind_result (q8 (rq_reference_price r)) (\<lambda>reference_price.
     bind_result (case rq_limit_price r of None \<Rightarrow> Inr None
         | Some p \<Rightarrow> bind_result (q8 p) (\<lambda>v. Inr (Some v))) (\<lambda>limit_price.
     bind_result (q8 (rq_stop_loss r)) (\<lambda>stop_loss.
     bind_result (q8 (rq_take_profit r)) (\<lambda>take_profit.
     Inr \<lparr>ov_id = order_id,
          ov_client_order_id = (case rq_client_order_id r of
             None \<Rightarrow> ''paper-'' @ uuid_hex order_id
           | Some i \<Rightarrow> if i = [] then ''paper-'' @ uuid_hex order_id else i),
          ov_symbol = rq_symbol r, ov_side = rq_side r, ov_order_type = rq_order_type r,
          ov_status = Pending, ov_quantity = quantity, ov_reference_price = reference_price,
          ov_limit_price = limit_price, ov_average_fill_price = None, ov_stop_loss = stop_loss,
          ov_take_profit = take_profit, ov_fee = 0, ov_strategy = rq_strategy r,
          ov_score = rq_score r, ov_reasons = rq_reasons r, ov_created_at = now,
          ov_filled_at = None\<rparr>)))))"

definition duplicate_client_id :: "broker \<Rightarrow> order_request \<Rightarrow> bool" where
  "duplicate_client_id b r =
     (case rq_client_order_id r of None \<Rightarrow> False
      | Some i \<Rightarrow> list_ex (\<lambda>(_, so). ov_client_order_id (so_view so) = i) (pb_orders b))"

definition submit :: "order_request \<Rightarrow> timestamp \<Rightarrow> order_view paper" where
  "submit r now =
     seq_eff (raise_when (\<not> rq_risk_approved r) (PaperBrokerError ''risk_decision_rejected''))
     (bind_eff (gets (\<lambda>b. duplicate_client_id b r)) (\<lambda>dup.
      seq_eff (raise_when dup (PaperBrokerError ''duplicate_client_order_id''))
      (bind_eff uuid4 (\<lambda>order_id.
       bind_eff (lift_result (new_order order_id r now)) (\<lambda>order.
       let stored = \<lparr>so_view = order, so_stop_loss = ov_stop_loss order,
                     so_take_profit = ov_take_profit order\<rparr>
       in seq_eff (set_order order_id stored)
          (seq_eff
            (if rq_order_type r = Market
               then fill order_id stored (rq_reference_price r) False now else ret ())
            (get_order order_id)))))))"

definition cancel :: "uuid \<Rightarrow> order_view paper" where
  "cancel i =
     bind_eff (require_order i) (\<lambda>so.
     seq_eff (raise_when (ov_status (so_view so) \<noteq> Pending)
       (PaperBrokerError ''only_pending_orders_can_be_cancelled''))
     (let so' = so\<lparr>so_view := (so_view so)\<lparr>ov_status := Cancelled\<rparr>\<rparr>
      in seq_eff (set_order i so') (ret (so_view so'))))"

definition should_fill :: "order_view \<Rightarrow> string \<Rightarrow> decimal \<Rightarrow> decimal option" where
  "should_fill order symbol price =
     (if ov_symbol order \<noteq> symbol \<or> ov_status order \<noteq> Pending then None
      else case ov_limit_price order of
        None \<Rightarrow> None
      | Some l \<Rightarrow> (if (ov_side order = Long \<and> price \<le> l) \<or> (ov_side order = Short \<and> l \<le> price)
                   then Some l else None))"

fun tick_orders :: "uuid list \<Rightarrow> string \<Rightarrow> decimal \<Rightarrow> timestamp \<Rightarrow> uuid list paper" where
  "tick_orders [] symbol price ts = ret []"
| "tick_orders (i # ids) symbol price ts =
     bind_eff (require_order i) (\<lambda>so.
     case should_fill (so_view so) symbol price of
       None \<Rightarrow> tick_orders ids symbol price ts
     | Some l \<Rightarrow>
         seq_eff (fill i so l True ts)
         (bind_eff (tick_orders ids symbol price ts) (\<lambda>filled. ret (ov_id (so_view so) # filled))))"

definition close_reason :: "position_view \<Rightarrow> decimal \<Rightarrow> string option" where
  "close_reason p price =
     (case pv_side p of
        Long \<Rightarrow> (if price \<le> pv_stop_loss p then Some ''stop_loss''
                 else if pv_take_profit p \<le> price then Some ''take_profit'' else None)
      | Short \<Rightarrow> (if pv_stop_loss p \<le> price then Some ''stop_loss''
                 else if price \<le> pv_take_profit p then Some ''take_profit'' else None))"

fun tick_positions ::
  "(uuid \<times> position_view) list \<Rightarrow> string \<Rightarrow> decimal \<Rightarrow> timestamp \<Rightarrow> uuid list paper" where
  "tick_positions [] symbol price ts = ret []"
| "tick_positions ((i, p) # ps) symbol price ts =
     (if pv_symbol p \<noteq> symbol \<or> pv_status p \<noteq> Open then tick_positions ps symbol price ts
      else
        bind_eff (lift_result (q8 price)) (\<lambda>mark.
        bind_eff (lift_result (gross_pnl (pv_side p) (pv_entry_price p) price (pv_quantity p)))
          (\<lambda>pnl.
        seq_eff (set_position i (p\<lparr>pv_mark_price := mark, pv_unrealized_pnl := pnl\<rparr>))
        (case close_reason p price of
           None \<Rightarrow> tick_positions ps symbol price ts
         | Some reason \<Rightarrow>
             bind_eff (close_position i price reason ts) (\<lambda>_.
             bind_eff (tick_positions ps symbol price ts) (\<lambda>closed. ret (i # closed)))))))"

definition tick :: "string \<Rightarrow> decimal \<Rightarrow> timestamp \<Rightarrow> tick_result paper" where
  "tick symbol price ts =
     bind_eff (gets (\<lambda>b. map fst (pb_orders b))) (\<lambda>ids.
     bind_eff (tick_orders ids symbol price ts) (\<lambda>filled.
     bind_eff (gets pb_positions) (\<lambda>ps.
     bind_eff (tick_positions ps symbol price ts) (\<lambda>closed.
     bind_eff (lift_result (q8 price)) (\<lambda>p.
     bind_eff account (\<lambda>a.
     ret \<lparr>tr_symbol = symbol, tr_price = p, tr_filled_order_ids = filled,
          tr_closed_position_ids = closed, tr_account = a\<rparr>))))))"

definition reset :: "state_view paper" where
  "reset = seq_eff (modify (\<lambda>b. b\<lparr>pb_cash_balance := pb_starting_balance b, pb_orders := [],
      pb_positions := []\<rparr>)) broker_state"

fun restored_orders :: "order_view list \<Rightarrow> (uuid \<times> stored_order) list result" where
  "restored_orders [] = Inr []"
| "restored_orders (order # orders) =
     bind_result (q8 (ov_stop_loss order)) (\<lambda>stop_loss.
     bind_result (q8 (ov_take_profit order)) (\<lambda>take_profit.
     bind_result (restored_orders orders) (\<lambda>rest.
     Inr ((ov_id order, \<lparr>so_view = order, so_stop_loss = stop_loss,
       so_take_profit = take_profit\<rparr>) # rest))))"

definition restore :: "state_view \<Rightarrow> state_view paper" where
  "restore st =
     bind_eff (lift_result (q8 (av_starting_balance (sv_account st)))) (\<lambda>starting.
     seq_eff (modify (\<lambda>b. b\<lparr>pb_starting_balance := starting\<rparr>))
     (bind_eff (lift_result (q8 (av_cash_balance (sv_account st)))) (\<lambda>cash.
     seq_eff (modify (\<lambda>b. b\<lparr>pb_cash_balance := cash\<rparr>))
     (bind_eff (lift_result (restored_orders (sv_orders st))) (\<lambda>orders.
     seq_eff (modify (\<lambda>b. b\<lparr>pb_orders := dict_of orders\<rparr>))
     (seq_eff (modify (\<lambda>b. b\<lparr>pb_positions :=
        dict_of (map (\<lambda>p. (pv_id p, p)) (sv_positions st))\<rparr>))
     broker_state))))))"

section \<open>The book invariant\<close>

abbreviation order_filled :: "stored_order \<Rightarrow> bool" where
  "order_filled so \<equiv> ov_status (so_view so) = Filled"

definition ids_ok ::
  "(uuid \<rightharpoonup> stored_order) \<Rightarrow> (uuid \<rightharpoonup> position_view) \<Rightarrow> uuid \<Rightarrow> bool" where
  "ids_ok orders positions n \<longleftrightarrow>
     (\<forall>k so. orders k = Some so \<longrightarrow> ov_id (so_view so) = k \<and> k < n) \<and>
     (\<forall>k p. positions k = Some p \<longrightarrow> pv_id p = k \<and> k < n)"

definition owner :: "(uuid \<rightharpoonup> position_view) \<Rightarrow> uuid \<rightharpoonup> uuid" where
  "owner positions = map_option pv_order_id \<circ> positions"

definition filled_ids :: "(uuid \<rightharpoonup> stored_order) \<Rightarrow> uuid set" where
  "filled_ids orders = {k. case orders k of None \<Rightarrow> False | Some so \<Rightarrow> order_filled so}"

definition fills_ok :: "(uuid \<rightharpoonup> stored_order) \<Rightarrow> (uuid \<rightharpoonup> position_view) \<Rightarrow> bool" where
  "fills_ok orders positions \<longleftrightarrow>
     ran (owner positions) = filled_ids orders \<and> inj_on (owner positions) (dom (owner positions))"

definition book_ok :: "broker \<Rightarrow> bool" where
  "book_ok b \<longleftrightarrow>
     distinct (map fst (pb_orders b)) \<and> distinct (map fst (pb_positions b)) \<and>
     ids_ok (map_of (pb_orders b)) (map_of (pb_positions b)) (pb_next_id b) \<and>
     fills_ok (map_of (pb_orders b)) (map_of (pb_positions b))"

lemma ids_ok_upd_order:
  "ids_ok os ps n \<Longrightarrow> ov_id (so_view so) = k \<Longrightarrow> k < n \<Longrightarrow> ids_ok (os(k \<mapsto> so)) ps n"
  by (simp add: ids_ok_def)

lemma ids_ok_upd_position:
  "ids_ok os ps n \<Longrightarrow> pv_id p = k \<Longrightarrow> k < n \<Longrightarrow> ids_ok os (ps(k \<mapsto> p)) n"
  by (simp add: ids_ok_def)

lemma ids_ok_mono: "ids_ok os ps n \<Longrightarrow> n \<le> m \<Longrightarrow> ids_ok os ps m"
  unfolding ids_ok_def by (meson less_le_trans)

lemma ids_ok_fresh: "ids_ok os ps n \<Longrightarrow> os n = None \<and> ps n = None"
  unfolding ids_ok_def by (metis less_irrefl not_Some_eq)

lemma owner_upd: "owner (ps(i \<mapsto> p)) = (owner ps)(i \<mapsto> pv_order_id p)"
  by (auto simp: owner_def)

lemma owner_eq_None: "owner ps i = None \<longleftrightarrow> ps i = None"
  by (simp add: owner_def)

lemma filled_ids_upd:
  "filled_ids (os(k \<mapsto> so)) = (if order_filled so then insert k (filled_ids os) else filled_ids os - {k})"
  by (auto simp: filled_ids_def)

lemma fills_ok_upd_unfilled:
  "fills_ok os ps \<Longrightarrow> k \<notin> filled_ids os \<Longrightarrow> \<not> order_filled so \<Longrightarrow> fills_ok (os(k \<mapsto> so)) ps"
  by (simp add: fills_ok_def filled_ids_upd)

lemma fills_ok_upd_position:
  assumes "fills_ok os ps" "ps k = Some p" "pv_order_id p' = pv_order_id p"
  shows "fills_ok os (ps(k \<mapsto> p'))"
proof -
  have "owner ps k = Some (pv_order_id p')"
    using assms(2,3) by (simp add: owner_def)
  then have "owner (ps(k \<mapsto> p')) = owner ps"
    by (simp add: owner_upd fun_upd_idem)
  then show ?thesis using assms(1) by (simp add: fills_ok_def)
qed

lemma fills_ok_upd_fill:
  assumes "fills_ok os ps" "k \<notin> filled_ids os" "ps i = None" "order_filled so'" "pv_order_id p = k"
  shows "fills_ok (os(k \<mapsto> so')) (ps(i \<mapsto> p))"
proof -
  have "owner ps j \<noteq> Some k" for j
    using assms(1,2) unfolding fills_ok_def by (metis ranI)
  moreover have "owner ps i = None" using assms(3) by (simp add: owner_eq_None)
  ultimately show ?thesis
    using assms by (auto simp: fills_ok_def filled_ids_upd owner_upd inj_on_def ran_map_upd)
qed

lemma not_filledI: "os k = Some so \<Longrightarrow> ov_status (so_view so) \<noteq> Filled \<Longrightarrow> k \<notin> filled_ids os"
  by (simp add: filled_ids_def)

lemma not_filled_freshI: "os k = None \<Longrightarrow> k \<notin> filled_ids os"
  by (simp add: filled_ids_def)

section \<open>Every method keeps the book\<close>

lemma wp_uuid4 [wp_simps]:
  "wp uuid4 Q X b = Q (pb_next_id b) (b\<lparr>pb_next_id := Suc (pb_next_id b)\<rparr>)"
  by (simp add: uuid4_def wp_simps)

lemma wp_set_order [wp_simps]:
  "wp (set_order i so) Q X b = Q () (b\<lparr>pb_orders := dict_set (pb_orders b) i so\<rparr>)"
  by (simp add: set_order_def wp_simps)

lemma wp_set_position [wp_simps]:
  "wp (set_position i p) Q X b = Q () (b\<lparr>pb_positions := dict_set (pb_positions b) i p\<rparr>)"
  by (simp add: set_position_def wp_simps)

lemma wp_require_order [wp_simps]:
  "wp (require_order i) Q X b =
     (case map_of (pb_orders b) i of None \<Rightarrow> X (PaperBrokerError ''order_not_found'') b | Some so \<Rightarrow> Q so b)"
  by (cases "map_of (pb_orders b) i") (simp_all add: require_order_def wp_simps)

lemma wp_get_order [wp_simps]:
  "wp (get_order i) Q X b =
     (case map_of (pb_orders b) i of None \<Rightarrow> X (PaperBrokerError ''order_not_found'') b
      | Some so \<Rightarrow> Q (so_view so) b)"
  by (cases "map_of (pb_orders b) i") (simp_all add: get_order_def wp_simps)

lemma wp_get_position [wp_simps]:
  "wp (get_position i) Q X b =
     (case map_of (pb_positions b) i of None \<Rightarrow> X (PaperBrokerError ''position_not_found'') b
      | Some p \<Rightarrow> Q p b)"
  by (cases "map_of (pb_positions b) i") (simp_all add: get_position_def wp_simps)

lemma wp_account [wp_simps]:
  "wp account Q X b = (case account_of b of Inl e \<Rightarrow> X e b | Inr a \<Rightarrow> Q a b)"
  by (simp add: account_def wp_simps)

definition after_fill ::
  "broker \<Rightarrow> uuid \<Rightarrow> stored_order \<Rightarrow> decimal \<Rightarrow> decimal \<Rightarrow> timestamp \<Rightarrow> broker" where
  "after_fill b key so fill_price fee ts =
     b\<lparr>pb_cash_balance := dsub (pb_cash_balance b) fee,
       pb_orders := dict_set (pb_orders b) key (filled_order so fill_price fee ts),
       pb_next_id := Suc (pb_next_id b),
       pb_positions := dict_set (pb_positions b) (pb_next_id b)
         (opened_position (pb_next_id b) so fill_price fee ts)\<rparr>"

lemma wp_fill:
  "wp (fill key so price mk ts) Q X b =
     (if ov_status (so_view so) \<noteq> Pending then X (PaperBrokerError ''order_not_pending'') b
      else case fill_price_of b (so_view so) price mk of
        Inl e \<Rightarrow> X e b
      | Inr fp \<Rightarrow> (case entry_fee_of b (so_view so) fp mk of
          Inl e \<Rightarrow> X e b | Inr fee \<Rightarrow> Q () (after_fill b key so fp fee ts)))"
  by (simp add: fill_def wp_simps after_fill_def split: sum.split)

lemma book_ok_after_fill:
  assumes ok: "book_ok b" and so: "map_of (pb_orders b) key = Some so"
    and pending: "ov_status (so_view so) = Pending"
  shows "book_ok (after_fill b key so fp fee ts)"
proof -
  let ?n = "pb_next_id b" and ?os = "map_of (pb_orders b)" and ?ps = "map_of (pb_positions b)"
  have ids: "ids_ok ?os ?ps ?n" and fills: "fills_ok ?os ?ps"
    and dist: "distinct (map fst (pb_orders b))" "distinct (map fst (pb_positions b))"
    using ok by (simp_all add: book_ok_def)
  have key: "ov_id (so_view so) = key" "key < ?n"
    using ids so by (simp_all add: ids_ok_def)
  have "ids_ok (?os(key \<mapsto> filled_order so fp fee ts)) (?ps(?n \<mapsto> opened_position ?n so fp fee ts)) (Suc ?n)"
    using ids_ok_mono [OF ids, of "Suc ?n"] key
    by (intro ids_ok_upd_order ids_ok_upd_position)
      (simp_all add: filled_order_def opened_position_def)
  moreover have "fills_ok (?os(key \<mapsto> filled_order so fp fee ts)) (?ps(?n \<mapsto> opened_position ?n so fp fee ts))"
    using fills not_filledI [where os = "?os", OF so] pending ids_ok_fresh [OF ids] key(1)
    by (intro fills_ok_upd_fill) (simp_all add: filled_order_def opened_position_def)
  ultimately show ?thesis
    using distinct_dict_set [OF dist(1)] distinct_dict_set [OF dist(2)]
    by (simp add: book_ok_def after_fill_def map_of_dict_set)
qed

lemma book_ok_set_position:
  assumes ok: "book_ok b" and p: "map_of (pb_positions b) i = Some p"
    and p': "pv_id p' = pv_id p" "pv_order_id p' = pv_order_id p"
  shows "book_ok (b\<lparr>pb_positions := dict_set (pb_positions b) i p'\<rparr>)"
proof -
  let ?os = "map_of (pb_orders b)" and ?ps = "map_of (pb_positions b)"
  have ids: "ids_ok ?os ?ps (pb_next_id b)" and fills: "fills_ok ?os ?ps"
    and dist: "distinct (map fst (pb_orders b))" "distinct (map fst (pb_positions b))"
    using ok by (simp_all add: book_ok_def)
  have "ids_ok ?os (?ps(i \<mapsto> p')) (pb_next_id b)"
    using ids p p' unfolding ids_ok_def by (auto simp del: map_of_eq_Some_iff)
  moreover have "fills_ok ?os (?ps(i \<mapsto> p'))"
    by (rule fills_ok_upd_position [OF fills p p'(2)])
  ultimately show ?thesis
    using dist(1) distinct_dict_set [OF dist(2)] by (simp add: book_ok_def map_of_dict_set)
qed

lemma book_ok_cash [simp]: "book_ok (b\<lparr>pb_cash_balance := c\<rparr>) = book_ok b"
  by (simp add: book_ok_def)

lemma book_ok_new_order:
  assumes ok: "book_ok b" and so: "ov_id (so_view so) = pb_next_id b" "ov_status (so_view so) = Pending"
  shows "book_ok (b\<lparr>pb_next_id := Suc (pb_next_id b),
    pb_orders := dict_set (pb_orders b) (pb_next_id b) so\<rparr>)"
proof -
  let ?n = "pb_next_id b" and ?os = "map_of (pb_orders b)" and ?ps = "map_of (pb_positions b)"
  have ids: "ids_ok ?os ?ps ?n" and fills: "fills_ok ?os ?ps"
    and dist: "distinct (map fst (pb_orders b))" "distinct (map fst (pb_positions b))"
    using ok by (simp_all add: book_ok_def)
  have "ids_ok (?os(?n \<mapsto> so)) ?ps (Suc ?n)"
    using ids_ok_mono [OF ids, of "Suc ?n"] so by (intro ids_ok_upd_order) simp_all
  moreover have "fills_ok (?os(?n \<mapsto> so)) ?ps"
    using fills ids_ok_fresh [OF ids] so(2)
    by (intro fills_ok_upd_unfilled not_filled_freshI) simp_all
  ultimately show ?thesis
    using dist(2) distinct_dict_set [OF dist(1)] by (simp add: book_ok_def map_of_dict_set)
qed

lemma book_ok_cancel:
  assumes ok: "book_ok b" and so: "map_of (pb_orders b) i = Some so"
    and pending: "ov_status (so_view so) = Pending"
  shows "book_ok (b\<lparr>pb_orders := dict_set (pb_orders b) i
    (so\<lparr>so_view := (so_view so)\<lparr>ov_status := Cancelled\<rparr>\<rparr>)\<rparr>)" (is "book_ok (b\<lparr>pb_orders := dict_set _ _ ?so\<rparr>)")
proof -
  let ?n = "pb_next_id b" and ?os = "map_of (pb_orders b)" and ?ps = "map_of (pb_positions b)"
  have ids: "ids_ok ?os ?ps ?n" and fills: "fills_ok ?os ?ps"
    and dist: "distinct (map fst (pb_orders b))" "distinct (map fst (pb_positions b))"
    using ok by (simp_all add: book_ok_def)
  have key: "ov_id (so_view so) = i" "i < ?n" using ids so by (simp_all add: ids_ok_def)
  have "ids_ok (?os(i \<mapsto> ?so)) ?ps ?n"
    using key by (intro ids_ok_upd_order [OF ids]) simp_all
  moreover have "fills_ok (?os(i \<mapsto> ?so)) ?ps"
    using not_filledI [where os = "?os", OF so] pending by (intro fills_ok_upd_unfilled [OF fills]) simp_all
  ultimately show ?thesis
    using dist(2) distinct_dict_set [OF dist(1)] by (simp add: book_ok_def map_of_dict_set)
qed

lemma book_ok_next [intro]: "book_ok b \<Longrightarrow> book_ok (b\<lparr>pb_next_id := Suc (pb_next_id b)\<rparr>)"
  by (auto simp: book_ok_def elim: ids_ok_mono)

lemma closed_position_ids [simp]:
  "pv_id (closed_position p e r f c ts) = pv_id p"
  "pv_order_id (closed_position p e r f c ts) = pv_order_id p"
  "pv_status (closed_position p e r f c ts) = Closed"
  by (simp_all add: closed_position_def)

text \<open>
  What closing leaves: on a normal return the position alone has changed and is closed;
  on an exception the book is as before (the cash may have moved).
\<close>

definition same_book :: "broker \<Rightarrow> broker \<Rightarrow> bool" where
  "same_book b b' \<longleftrightarrow> pb_orders b' = pb_orders b \<and> pb_positions b' = pb_positions b \<and>
     pb_next_id b' = pb_next_id b"

lemma close_position_spec:
  "wp (close_position i price reason ts)
     (\<lambda>r b'. \<exists>p. map_of (pb_positions b) i = Some p \<and> pv_status p = Open \<and> pv_status r = Closed \<and>
        pv_id r = pv_id p \<and> pv_order_id r = pv_order_id p \<and>
        pb_orders b' = pb_orders b \<and> pb_next_id b' = pb_next_id b \<and>
        pb_positions b' = dict_set (pb_positions b) i r)
     (\<lambda>e b'. same_book b b') b"
  unfolding close_position_def Let_def
  by (simp add: wp_simps same_book_def split: option.split sum.split)

lemma book_ok_same_book: "same_book b b' \<Longrightarrow> book_ok b \<Longrightarrow> book_ok b'"
  by (simp add: same_book_def book_ok_def)

lemma book_ok_close:
  "book_ok b \<Longrightarrow> wp (close_position i price reason ts) (\<lambda>_. book_ok) (\<lambda>_. book_ok) b"
proof (rule wp_mono [OF close_position_spec])
  fix r :: position_view and b' :: broker
  assume "book_ok b" and *: "\<exists>p. map_of (pb_positions b) i = Some p \<and> pv_status p = Open \<and>
    pv_status r = Closed \<and> pv_id r = pv_id p \<and> pv_order_id r = pv_order_id p \<and>
    pb_orders b' = pb_orders b \<and> pb_next_id b' = pb_next_id b \<and>
    pb_positions b' = dict_set (pb_positions b) i r"
  from * obtain p where "map_of (pb_positions b) i = Some p" "pv_id r = pv_id p"
    "pv_order_id r = pv_order_id p" and b': "pb_orders b' = pb_orders b" "pb_next_id b' = pb_next_id b"
    "pb_positions b' = dict_set (pb_positions b) i r" by blast
  then have "book_ok (b\<lparr>pb_positions := dict_set (pb_positions b) i r\<rparr>)"
    using book_ok_set_position [OF \<open>book_ok b\<close>] by blast
  then show "book_ok b'" using b' by (simp add: book_ok_def)
qed (erule book_ok_same_book)

lemma new_order_Inr:
  "new_order i r now = Inr order \<Longrightarrow> ov_id order = i \<and> ov_status order = Pending"
  by (auto simp: new_order_def result_simps)

lemma book_ok_submit: "book_ok b \<Longrightarrow> wp (submit r now) (\<lambda>_. book_ok) (\<lambda>_. book_ok) b"
  using new_order_Inr
  by (auto simp: submit_def Let_def wp_simps wp_fill dict_simps after_fill_def [symmetric]
      split: sum.split option.split
      intro!: book_ok_new_order book_ok_after_fill)

lemma book_ok_cancel_method: "book_ok b \<Longrightarrow> wp (cancel i) (\<lambda>_. book_ok) (\<lambda>_. book_ok) b"
  by (auto simp: cancel_def Let_def wp_simps split: option.split intro: book_ok_cancel)

section \<open>What a tick leaves\<close>

lemma should_fill_Pending: "should_fill order symbol price = Some l \<Longrightarrow> ov_status order = Pending"
  by (auto simp: should_fill_def split: if_splits)

lemma should_fill_filled [simp]: "should_fill (so_view (filled_order so fp fee ts)) symbol price = None"
  by (simp add: should_fill_def filled_order_def)

lemma pb_orders_after_fill:
  "map_of (pb_orders (after_fill b key so fp fee ts)) = (map_of (pb_orders b))(key \<mapsto> filled_order so fp fee ts)"
  by (simp add: after_fill_def dict_simps)

definition orders_settled :: "uuid list \<Rightarrow> string \<Rightarrow> decimal \<Rightarrow> broker \<Rightarrow> broker \<Rightarrow> bool" where
  "orders_settled ids symbol price b b' \<longleftrightarrow>
     (\<forall>k so. k \<in> set ids \<longrightarrow> map_of (pb_orders b') k = Some so \<longrightarrow>
        should_fill (so_view so) symbol price = None) \<and>
     (\<forall>k. k \<notin> set ids \<longrightarrow> map_of (pb_orders b') k = map_of (pb_orders b) k)"

lemma orders_settled_Cons:
  assumes "orders_settled ids symbol price c b'" "i \<notin> set ids"
    "\<And>so. map_of (pb_orders c) i = Some so \<Longrightarrow> should_fill (so_view so) symbol price = None"
    "\<And>k. k \<noteq> i \<Longrightarrow> map_of (pb_orders c) k = map_of (pb_orders b) k"
  shows "orders_settled (i # ids) symbol price b b'"
  using assms unfolding orders_settled_def by auto

lemma tick_orders_spec:
  assumes "book_ok b" "distinct ids"
  shows "wp (tick_orders ids symbol price ts)
    (\<lambda>_ b'. book_ok b' \<and> orders_settled ids symbol price b b') (\<lambda>_. book_ok) b"
  using assms
proof (induction ids arbitrary: b)
  case Nil
  then show ?case by (simp add: wp_simps orders_settled_def)
next
  case (Cons i ids)
  show ?case
  proof (cases "map_of (pb_orders b) i")
    case None
    then show ?thesis using Cons.prems by (simp add: wp_simps)
  next
    case so: (Some so)
    show ?thesis
    proof (cases "should_fill (so_view so) symbol price")
      case None
      have "wp (tick_orders ids symbol price ts)
        (\<lambda>_ b'. book_ok b' \<and> orders_settled (i # ids) symbol price b b') (\<lambda>_. book_ok) b"
        by (rule wp_mono [OF Cons.IH]) (use Cons.prems so None in \<open>auto intro: orders_settled_Cons\<close>)
      then show ?thesis using so None by (simp add: wp_simps)
    next
      case (Some l)
      have IH: "wp (tick_orders ids symbol price ts)
        (\<lambda>_ b'. book_ok b' \<and> orders_settled (i # ids) symbol price b b') (\<lambda>_. book_ok)
        (after_fill b i so fp fee ts)" for fp fee
        by (rule wp_mono [OF Cons.IH [OF book_ok_after_fill [OF Cons.prems(1) so should_fill_Pending [OF Some]]]])
          (use Cons.prems(2) in \<open>auto simp: pb_orders_after_fill intro!: orders_settled_Cons\<close>)
      show ?thesis
        using so Some IH Cons.prems(1) by (simp add: wp_simps wp_fill split: sum.split)
    qed
  qed
qed

definition position_settled :: "string \<Rightarrow> decimal \<Rightarrow> position_view \<Rightarrow> bool" where
  "position_settled symbol price p \<longleftrightarrow>
     (pv_symbol p = symbol \<longrightarrow> pv_status p = Open \<longrightarrow>
        close_reason p price = None \<and> q8 price = Inr (pv_mark_price p))"

definition positions_settled ::
  "(uuid \<times> position_view) list \<Rightarrow> string \<Rightarrow> decimal \<Rightarrow> broker \<Rightarrow> broker \<Rightarrow> bool" where
  "positions_settled ps symbol price b b' \<longleftrightarrow>
     (\<forall>k p. k \<in> fst ` set ps \<longrightarrow> map_of (pb_positions b') k = Some p \<longrightarrow> position_settled symbol price p) \<and>
     (\<forall>k. k \<notin> fst ` set ps \<longrightarrow> map_of (pb_positions b') k = map_of (pb_positions b) k) \<and>
     pb_orders b' = pb_orders b"

lemma positions_settled_Cons:
  assumes "positions_settled ps symbol price c b'" "i \<notin> fst ` set ps"
    "\<And>p. map_of (pb_positions c) i = Some p \<Longrightarrow> position_settled symbol price p"
    "\<And>k. k \<noteq> i \<Longrightarrow> map_of (pb_positions c) k = map_of (pb_positions b) k"
    "pb_orders c = pb_orders b"
  shows "positions_settled ((i, q) # ps) symbol price b b'"
  using assms unfolding positions_settled_def by auto

lemma close_reason_marked [simp]:
  "close_reason (p\<lparr>pv_mark_price := m, pv_unrealized_pnl := u\<rparr>) price = close_reason p price"
  by (simp add: close_reason_def)

lemma tick_positions_spec:
  assumes "book_ok b" "distinct (map fst ps)" "\<And>i p. (i, p) \<in> set ps \<Longrightarrow> map_of (pb_positions b) i = Some p"
  shows "wp (tick_positions ps symbol price ts)
    (\<lambda>_ b'. book_ok b' \<and> positions_settled ps symbol price b b') (\<lambda>_. book_ok) b"
  using assms
proof (induction ps arbitrary: b)
  case Nil
  then show ?case by (simp add: wp_simps positions_settled_def)
next
  case (Cons ip ps)
  obtain i p where ip: "ip = (i, p)" by fastforce
  let ?post = "\<lambda>b'. book_ok b' \<and> positions_settled ((i, p) # ps) symbol price b b'"
  have p: "map_of (pb_positions b) i = Some p" and i: "i \<notin> fst ` set ps"
    using Cons.prems(2,3) ip by auto
  have IH: "wp (tick_positions ps symbol price ts) (\<lambda>_. ?post) (\<lambda>_. book_ok) c"
    if c: "book_ok c" "\<And>k. k \<noteq> i \<Longrightarrow> map_of (pb_positions c) k = map_of (pb_positions b) k"
      "pb_orders c = pb_orders b"
      "\<And>q. map_of (pb_positions c) i = Some q \<Longrightarrow> position_settled symbol price q" for c
  proof (rule wp_mono [OF Cons.IH [OF c(1)]])
    show "distinct (map fst ps)" using Cons.prems(2) by simp
    show "map_of (pb_positions c) j = Some q" if "(j, q) \<in> set ps" for j q
      using that c(2) [of j] i Cons.prems(3) [of j q] by (force simp del: map_of_eq_Some_iff)
  qed (use c i in \<open>auto intro: positions_settled_Cons simp del: map_of_eq_Some_iff\<close>)
  show ?case
  proof (cases "pv_symbol p \<noteq> symbol \<or> pv_status p \<noteq> Open")
    case True
    then have "position_settled symbol price p" by (auto simp: position_settled_def)
    then have "wp (tick_positions ps symbol price ts) (\<lambda>_. ?post) (\<lambda>_. book_ok) b"
      using Cons.prems(1) p by (intro IH) auto
    then show ?thesis using True by (auto simp: ip)
  next
    case False
    define marked where
      "marked = (\<lambda>mark pnl. b\<lparr>pb_positions := dict_set (pb_positions b) i
         (p\<lparr>pv_mark_price := mark, pv_unrealized_pnl := pnl\<rparr>)\<rparr>)"
    have ok: "book_ok (marked mark pnl)" for mark pnl
      using book_ok_set_position [OF Cons.prems(1) p] by (simp add: marked_def)
    have stay: "wp (tick_positions ps symbol price ts) (\<lambda>_. ?post) (\<lambda>_. book_ok) (marked mark pnl)"
      if "close_reason p price = None" "q8 price = Inr mark" for mark pnl
      using ok that
      by (intro IH) (auto simp: marked_def dict_simps position_settled_def)
    have close: "wp (close_position i price reason ts)
        (\<lambda>_. wp (tick_positions ps symbol price ts) (\<lambda>_. ?post) (\<lambda>_. book_ok)) (\<lambda>_. book_ok)
        (marked mark pnl)" for mark pnl reason
      by (rule wp_mono [OF wp_conj [OF close_position_spec book_ok_close [OF ok]]])
        (auto intro!: IH simp: marked_def dict_simps position_settled_def)
    show ?thesis
      using False stay close Cons.prems(1)
      by (auto simp: ip wp_simps marked_def split: sum.split option.split)
  qed
qed

definition book_settled :: "string \<Rightarrow> decimal \<Rightarrow> broker \<Rightarrow> bool" where
  "book_settled symbol price b \<longleftrightarrow>
     (\<forall>(i, so) \<in> set (pb_orders b). should_fill (so_view so) symbol price = None) \<and>
     (\<forall>(i, p) \<in> set (pb_positions b). position_settled symbol price p)"

lemma book_settledI:
  assumes "book_ok b'" "orders_settled (map fst (pb_orders b)) symbol price b c"
    "positions_settled (pb_positions c) symbol price c b'"
  shows "book_settled symbol price b'"
proof -
  have dist: "distinct (map fst (pb_orders b'))" "distinct (map fst (pb_positions b'))"
    using assms(1) by (simp_all add: book_ok_def)
  have orders: "should_fill (so_view so) symbol price = None" if "(i, so) \<in> set (pb_orders b')" for i so
  proof -
    have c: "map_of (pb_orders c) i = Some so"
      using that assms(3) dist(1) by (simp add: positions_settled_def)
    have "i \<in> fst ` set (pb_orders b)"
      by (rule ccontr)
        (use c assms(2) in \<open>auto simp: orders_settled_def map_of_eq_None_iff [symmetric] simp del: map_of_eq_None_iff\<close>)
    then show ?thesis using c assms(2) by (simp add: orders_settled_def)
  qed
  have positions: "position_settled symbol price p" if "(i, p) \<in> set (pb_positions b')" for i p
  proof -
    have m: "map_of (pb_positions b') i = Some p" using that dist(2) by simp
    have "i \<in> fst ` set (pb_positions c)"
      by (rule ccontr) (use m assms(3) in
        \<open>auto simp: positions_settled_def map_of_eq_None_iff [symmetric] simp del: map_of_eq_None_iff\<close>)
    then show ?thesis using m assms(3) by (simp add: positions_settled_def)
  qed
  show ?thesis using orders positions by (auto simp: book_settled_def)
qed

lemma tick_spec:
  assumes ok: "book_ok b"
  shows "wp (tick symbol price ts) (\<lambda>_ b'. book_ok b' \<and> book_settled symbol price b') (\<lambda>_. book_ok) b"
proof -
  have positions: "wp (tick_positions (pb_positions c) symbol price ts)
      (\<lambda>_ b'. book_ok b' \<and> book_settled symbol price b') (\<lambda>_. book_ok) c"
    if c: "book_ok c" "orders_settled (map fst (pb_orders b)) symbol price b c" for c
    by (rule wp_mono [OF tick_positions_spec [OF c(1)]])
      (use c in \<open>auto simp: book_ok_def intro: book_settledI\<close>)
  have "distinct (map fst (pb_orders b))" using ok by (simp add: book_ok_def)
  from tick_orders_spec [OF ok this]
  have "wp (tick_orders (map fst (pb_orders b)) symbol price ts)
      (\<lambda>_ c. wp (tick_positions (pb_positions c) symbol price ts)
        (\<lambda>_ b'. book_ok b' \<and> book_settled symbol price b') (\<lambda>_. book_ok) c) (\<lambda>_. book_ok) b"
    by (rule wp_mono) (use positions in auto)
  then show ?thesis
    by (auto simp: tick_def wp_simps split: sum.split elim!: wp_mono)
qed

lemma book_ok_tick: "book_ok b \<Longrightarrow> wp (tick symbol price ts) (\<lambda>_. book_ok) (\<lambda>_. book_ok) b"
  by (rule wp_mono [OF tick_spec]) auto

lemma book_ok_reset: "wp reset (\<lambda>_. book_ok) (\<lambda>_. book_ok) b"
  by (auto simp: reset_def broker_state_def wp_simps book_ok_def ids_ok_def fills_ok_def owner_def
      filled_ids_def split: sum.split)

text \<open>The operations a client of the broker can run, and the states they reach.\<close>

datatype broker_call =
    Submit order_request timestamp
  | Cancel uuid
  | Tick string decimal timestamp
  | Close uuid decimal string timestamp
  | Reset

fun run_call :: "broker_call \<Rightarrow> unit paper" where
  "run_call (Submit r now) = bind_eff (submit r now) (\<lambda>_. ret ())"
| "run_call (Cancel i) = bind_eff (cancel i) (\<lambda>_. ret ())"
| "run_call (Tick symbol price ts) = bind_eff (tick symbol price ts) (\<lambda>_. ret ())"
| "run_call (Close i price reason ts) = bind_eff (close_position i price reason ts) (\<lambda>_. ret ())"
| "run_call Reset = bind_eff reset (\<lambda>_. ret ())"

text \<open>A run ignores the exceptions: the API returns them to its caller and serves the next call.\<close>

definition run_calls :: "broker_call list \<Rightarrow> broker \<Rightarrow> broker" where
  "run_calls cs b = foldl (\<lambda>b c. snd (run_call c b)) b cs"

lemma book_ok_call: "stays (keeps book_ok) (run_call c)"
  by (cases c; rule stays_keepsI)
    (auto simp: wp_simps intro: book_ok_submit book_ok_cancel_method book_ok_tick book_ok_close book_ok_reset)

lemma book_ok_new: "new_broker s t m sl = Inr b \<Longrightarrow> book_ok b"
  by (auto simp: new_broker_def book_ok_def ids_ok_def fills_ok_def owner_def filled_ids_def split: if_splits)

lemma book_ok_calls: "book_ok b \<Longrightarrow> book_ok (run_calls cs b)"
  unfolding run_calls_def
proof (induction cs arbitrary: b)
  case (Cons c cs)
  have "book_ok (snd (run_call c b))"
    using within_keepsD [OF book_ok_call Cons.prems] by (metis prod.collapse)
  then show ?case using Cons.IH by simp
qed simp

section \<open>The cash ledger\<close>

definition entry_value :: "position_view \<Rightarrow> decimal" where
  "entry_value p = (case pv_status p of Closed \<Rightarrow> pv_realized_pnl p | Open \<Rightarrow> - pv_fees p)"

definition ledger_sum :: "(uuid \<times> position_view) list \<Rightarrow> decimal" where
  "ledger_sum ps = sum_list (map (\<lambda>(i, p). entry_value p) ps)"

definition ledger :: "broker \<Rightarrow> bool" where
  "ledger b \<longleftrightarrow> pb_cash_balance b = pb_starting_balance b + ledger_sum (pb_positions b)"

lemma ledger_sum_update:
  "map_of d k = Some p \<Longrightarrow> ledger_sum (dict_set d k q) = ledger_sum d - entry_value p + entry_value q"
  by (induction d k q rule: dict_set.induct) (auto simp: ledger_sum_def split: if_splits)

lemma ledger_sum_fresh:
  "map_of d k = None \<Longrightarrow> ledger_sum (dict_set d k q) = ledger_sum d + entry_value q"
  by (simp add: dict_set_fresh map_of_eq_None_iff ledger_sum_def)

text \<open>Amounts on the grid of \<open>_Q\<close> below \<open>10 ^ 20\<close> add and subtract exactly.\<close>

lemma on_grid_add: "on_grid k a \<Longrightarrow> on_grid k b \<Longrightarrow> on_grid k (a + b)"
  unfolding on_grid_def by (metis add_divide_distrib of_int_add)

lemma on_grid_diff: "on_grid k a \<Longrightarrow> on_grid k b \<Longrightarrow> on_grid k (a - b)"
  unfolding on_grid_def by (metis diff_divide_distrib of_int_diff)

lemma is_dec_on_grid:
  assumes "on_grid 8 x" "\<bar>x\<bar> \<le> 10 ^ 20"
  shows "is_dec x"
proof -
  obtain n :: int where n: "x = of_int n / 10 ^ 8" using assms(1) by (auto simp: on_grid_def)
  then have "\<bar>of_int n :: rat\<bar> \<le> of_int (10 ^ 28)" using assms(2) by simp
  then have "\<bar>n\<bar> \<le> 10 ^ 28" by linarith
  moreover have "x = of_int n * 10 powi (- 8)" using n by (simp add: power_int_minus field_simps)
  ultimately show ?thesis by (metis is_decI)
qed

lemma grid_arith:
  assumes "on_grid 8 a" "on_grid 8 b"
  shows "\<bar>a + b\<bar> \<le> 10 ^ 20 \<Longrightarrow> dadd a b = a + b" "\<bar>a - b\<bar> \<le> 10 ^ 20 \<Longrightarrow> dsub a b = a - b"
  using assms by (simp_all add: dadd_def dsub_def dec.rnd_id is_dec_on_grid on_grid_add on_grid_diff)

lemma q8_on_grid: "q8 x = Inr y \<Longrightarrow> on_grid 8 y"
  by (auto simp: quantize_down_Inr q_down.rep_rnd)

lemma q8_exact: "on_grid 8 x \<Longrightarrow> q8 x = Inr y \<Longrightarrow> y = x"
  by (auto simp: quantize_down_Inr q_down.rnd_id)

lemma dround_abs_le: "is_dec B \<Longrightarrow> \<bar>x\<bar> \<le> B \<Longrightarrow> \<bar>dround x\<bar> \<le> B"
  by (simp add: dec.rnd_abs [symmetric] dec.rnd_le_rep)

lemma grid_down_abs_le: "\<bar>grid_down k x\<bar> \<le> \<bar>x\<bar>"
proof (cases "0 \<le> x")
  case False
  have "\<not> (10 :: rat) ^ k \<le> 0" by (simp add: not_le)
  then have "grid_down k x = - grid_down k (- x)"
    using False by (auto simp: grid_down_def trunc_def ceiling_def zero_le_mult_iff mult_le_0_iff)
  then show ?thesis using False grid_down_bounds [of "- x" k] by simp
qed (use grid_down_bounds [of x k] in simp)

lemma q8_abs_le: "q8 x = Inr y \<Longrightarrow> \<bar>y\<bar> \<le> \<bar>x\<bar>"
  by (auto simp: quantize_down_Inr grid_down_abs_le)

lemma q8_bounds: "q8 x = Inr y \<Longrightarrow> 0 \<le> x \<Longrightarrow> 0 \<le> y \<and> y \<le> x"
  by (auto simp: quantize_down_Inr grid_down_bounds)

text \<open>
  Amounts and prices of a size for which no addition of the broker rounds: a price or
  quantity up to \<open>10 ^ 9\<close>, fees and cash up to \<open>10 ^ 19\<close>.
\<close>

definition modest_position :: "position_view \<Rightarrow> bool" where
  "modest_position p \<longleftrightarrow> 0 \<le> pv_entry_price p \<and> pv_entry_price p \<le> 2 * 10 ^ 9 \<and> 0 \<le> pv_quantity p \<and>
     pv_quantity p \<le> 10 ^ 9 \<and> on_grid 8 (pv_fees p) \<and> \<bar>pv_fees p\<bar> \<le> 10 ^ 19"

definition modest_broker :: "broker \<Rightarrow> bool" where
  "modest_broker b \<longleftrightarrow> on_grid 8 (pb_cash_balance b) \<and> \<bar>pb_cash_balance b\<bar> \<le> 10 ^ 19 \<and>
     0 \<le> pb_slippage_bps b \<and> pb_slippage_bps b \<le> 10000 \<and>
     0 \<le> pb_taker_fee_rate b \<and> pb_taker_fee_rate b \<le> 1 \<and>
     0 \<le> pb_maker_fee_rate b \<and> pb_maker_fee_rate b \<le> 1"

lemma is_dec_numerals:
  "is_dec 1" "is_dec 2" "is_dec (2 * 10 ^ 9)" "is_dec (4 * 10 ^ 9)" "is_dec (4 * 10 ^ 18)"
  by (rule is_decI [of _ 1 0] is_decI [of _ 2 0] is_decI [of _ 2 9] is_decI [of _ 4 9] is_decI [of _ 4 18];
      simp)+

lemma apply_slippage_bound:
  assumes "modest_broker b" "0 \<le> price" "price \<le> 10 ^ 9"
  shows "0 \<le> apply_slippage b price side opening" "apply_slippage b price side opening \<le> 2 * 10 ^ 9"
proof -
  define rate where "rate = ddiv (pb_slippage_bps b) 10000"
  have "0 \<le> rate" "rate \<le> 1"
    using assms(1) is_dec_numerals
    by (auto simp: rate_def ddiv_def modest_broker_def intro!: dec.rnd_nonneg dec.rnd_le_rep)
  then have factor: "0 \<le> dadd 1 rate" "dadd 1 rate \<le> 2" "0 \<le> dsub 1 rate" "dsub 1 rate \<le> 2"
    using is_dec_numerals
    by (auto simp: dadd_def dsub_def intro!: dec.rnd_nonneg dec.rnd_le_rep)
  have "0 \<le> dmul price f \<and> dmul price f \<le> 2 * 10 ^ 9" if "0 \<le> f" "f \<le> 2" for f
    using that assms(2,3) is_dec_numerals mult_mono [of price "10 ^ 9" f 2]
    by (auto simp: dmul_def intro!: dec.rnd_nonneg dec.rnd_le_rep)
  then show "0 \<le> apply_slippage b price side opening" "apply_slippage b price side opening \<le> 2 * 10 ^ 9"
    using factor by (auto simp: apply_slippage_def Let_def rate_def [symmetric])
qed

lemma fee_bound:
  assumes "0 \<le> price" "price \<le> 2 * 10 ^ 9" "0 \<le> quantity" "quantity \<le> 10 ^ 9" "0 \<le> rate" "rate \<le> 1"
  shows "\<bar>dmul (dmul price quantity) rate\<bar> \<le> 4 * 10 ^ 18"
proof -
  have "\<bar>price * quantity\<bar> \<le> 4 * 10 ^ 18"
    using assms mult_mono [of price "2 * 10 ^ 9" quantity "10 ^ 9"] by simp
  then have "\<bar>dmul price quantity\<bar> \<le> 4 * 10 ^ 18"
    unfolding dmul_def by (intro dround_abs_le is_dec_numerals)
  then have "\<bar>dmul price quantity * rate\<bar> \<le> 4 * 10 ^ 18"
    using assms(5,6) mult_mono [of "\<bar>dmul price quantity\<bar>" "4 * 10 ^ 18" rate 1] by (simp add: abs_mult)
  then show ?thesis unfolding dmul_def [of "dmul price quantity"] by (intro dround_abs_le is_dec_numerals)
qed

lemma raw_pnl_bound:
  assumes "0 \<le> entry" "entry \<le> 2 * 10 ^ 9" "0 \<le> e" "e \<le> 2 * 10 ^ 9" "0 \<le> quantity" "quantity \<le> 10 ^ 9"
  shows "\<bar>raw_pnl side entry e quantity\<bar> \<le> 4 * 10 ^ 18"
proof -
  have *: "\<bar>dmul (dsub x y) quantity\<bar> \<le> 4 * 10 ^ 18"
    if "0 \<le> x" "x \<le> 2 * 10 ^ 9" "0 \<le> y" "y \<le> 2 * 10 ^ 9" for x y
  proof -
    have "\<bar>dsub x y\<bar> \<le> 4 * 10 ^ 9"
      unfolding dsub_def by (rule dround_abs_le) (use that is_dec_numerals in auto)
    then have "\<bar>dsub x y * quantity\<bar> \<le> 4 * 10 ^ 18"
      using assms(5,6) mult_mono [of "\<bar>dsub x y\<bar>" "4 * 10 ^ 9" quantity "10 ^ 9"] by (simp add: abs_mult)
    then show ?thesis unfolding dmul_def by (intro dround_abs_le is_dec_numerals)
  qed
  show ?thesis using assms * by (cases side) (auto simp: raw_pnl_def)
qed

lemma closed_amounts:
  assumes cash: "on_grid 8 cash" "\<bar>cash\<bar> \<le> 10 ^ 19" and fees: "on_grid 8 fees" "\<bar>fees\<bar> \<le> 10 ^ 19"
    and gross: "on_grid 8 gross" "\<bar>gross\<bar> \<le> 4 * 10 ^ 18" and fee: "on_grid 8 fee" "\<bar>fee\<bar> \<le> 4 * 10 ^ 18"
  shows "dadd cash (dsub gross fee) = cash + gross - fee"
    "q8 (dsub (dsub gross fees) fee) = Inr r \<Longrightarrow> r = gross - fees - fee"
proof -
  have "dsub gross fee = gross - fee" "dsub gross fees = gross - fees"
    using gross fee fees by (auto intro!: grid_arith)
  moreover from this have "dsub (dsub gross fees) fee = gross - fees - fee"
    using gross fee fees by (auto intro!: grid_arith on_grid_diff)
  moreover have "dadd cash (gross - fee) = cash + (gross - fee)"
    using cash gross fee by (intro grid_arith on_grid_diff) auto
  ultimately show "dadd cash (dsub gross fee) = cash + gross - fee"
    "q8 (dsub (dsub gross fees) fee) = Inr r \<Longrightarrow> r = gross - fees - fee"
    using gross fee fees q8_exact [of "gross - fees - fee" r] by (auto simp: on_grid_diff)
qed

lemma ledger_close:
  assumes run: "close_position i price reason ts b = (Inr r, b')" and led: "ledger b" and m: "modest_broker b"
    and p: "map_of (pb_positions b) i = Some p" "modest_position p" and price: "0 \<le> price" "price \<le> 10 ^ 9"
  shows "ledger b'"
proof -
  have post: "wp (close_position i price reason ts) (\<lambda>r b'. ledger b') (\<lambda>_ _. True) b"
  proof -
    have "ledger (b\<lparr>pb_cash_balance := dadd (pb_cash_balance b) (dsub gross fee),
        pb_positions := dict_set (pb_positions b) i (closed_position p e realized fees reason ts)\<rparr>)"
      if open_p: "pv_status p = Open" and e: "q8 (apply_slippage b price (pv_side p) False) = Inr e"
        and g: "gross_pnl (pv_side p) (pv_entry_price p) e (pv_quantity p) = Inr gross"
        and f: "q8 (dmul (dmul e (pv_quantity p)) (pb_taker_fee_rate b)) = Inr fee"
        and r: "q8 (dsub (dsub gross (pv_fees p)) fee) = Inr realized" for e gross fee realized fees
    proof -
      have "0 \<le> e" "e \<le> 2 * 10 ^ 9"
        using q8_bounds [OF e] apply_slippage_bound [OF m price, of "pv_side p" False] by linarith+
      then have "\<bar>gross\<bar> \<le> 4 * 10 ^ 18" "\<bar>fee\<bar> \<le> 4 * 10 ^ 18"
        using q8_abs_le [OF g [unfolded gross_pnl_def]] q8_abs_le [OF f] p(2) m
          raw_pnl_bound [of "pv_entry_price p" e "pv_quantity p" "pv_side p"]
          fee_bound [of e "pv_quantity p" "pb_taker_fee_rate b"]
        by (auto simp: modest_position_def modest_broker_def)
      then have "dadd (pb_cash_balance b) (dsub gross fee) = pb_cash_balance b + gross - fee"
        "realized = gross - pv_fees p - fee"
        using closed_amounts(1) [of "pb_cash_balance b" "pv_fees p" gross fee]
          closed_amounts(2) [of "pb_cash_balance b" "pv_fees p" gross fee realized]
          q8_on_grid [OF g [unfolded gross_pnl_def]] q8_on_grid [OF f] p(2) m r
        by (auto simp: modest_position_def modest_broker_def)
      then show ?thesis
        using led open_p p(1)
        by (simp add: ledger_def ledger_sum_update) (simp add: entry_value_def closed_position_def)
    qed
    then show ?thesis using p(1)
      by (auto simp: close_position_def Let_def wp_simps split: sum.split)
  qed
  from wp_Inr [OF post run] show ?thesis .
qed


lemma ledger_after_fill:
  assumes "ledger b" "modest_broker b" "on_grid 8 fee" "\<bar>fee\<bar> \<le> 4 * 10 ^ 18"
    "map_of (pb_positions b) (pb_next_id b) = None"
  shows "ledger (after_fill b key so fp fee ts)"
proof -
  have "dsub (pb_cash_balance b) fee = pb_cash_balance b - fee"
    using assms(2-4) by (intro grid_arith) (auto simp: modest_broker_def)
  moreover have "entry_value (opened_position i so fp fee ts) = - fee" for i
    by (simp add: entry_value_def opened_position_def)
  ultimately show ?thesis
    using assms(1,5) by (simp add: ledger_def after_fill_def ledger_sum_fresh)
qed

lemma market_fee_bound:
  assumes "modest_broker b" "0 \<le> price" "price \<le> 10 ^ 9" "0 \<le> ov_quantity v" "ov_quantity v \<le> 10 ^ 9"
    "fill_price_of b v price False = Inr fp" "entry_fee_of b v fp False = Inr fee"
  shows "on_grid 8 fee" "\<bar>fee\<bar> \<le> 4 * 10 ^ 18"
proof -
  have "0 \<le> fp" "fp \<le> 2 * 10 ^ 9"
    using q8_bounds [OF assms(6) [unfolded fill_price_of_def if_False]]
      apply_slippage_bound [OF assms(1-3), of "ov_side v" True] by linarith+
  then show "on_grid 8 fee" "\<bar>fee\<bar> \<le> 4 * 10 ^ 18"
    using q8_on_grid [OF assms(7) [unfolded entry_fee_of_def]]
      q8_abs_le [OF assms(7) [unfolded entry_fee_of_def]] assms(1,4,5)
      fee_bound [of fp "ov_quantity v" "pb_taker_fee_rate b"]
    by (auto simp: modest_broker_def)
qed

lemma new_order_quantity: "new_order i r now = Inr order \<Longrightarrow> q8 (rq_quantity r) = Inr (ov_quantity order)"
  by (auto simp: new_order_def result_simps)

lemma ledger_submit:
  assumes "book_ok b" "ledger b" "modest_broker b" "0 \<le> rq_reference_price r" "rq_reference_price r \<le> 10 ^ 9"
    "0 \<le> rq_quantity r" "rq_quantity r \<le> 10 ^ 9"
  shows "wp (submit r now) (\<lambda>_. ledger) (\<lambda>_. ledger) b"
proof -
  have fresh: "map_of (pb_positions b) (Suc (pb_next_id b)) = None"
    using assms(1) unfolding book_ok_def ids_ok_def
    by (metis Suc_n_not_le_n less_imp_le_nat not_Some_eq)
  have fill: "ledger (after_fill c key so fp fee ts)"
    if "new_order (pb_next_id b) r now = Inr (so_view so)"
      "fill_price_of c (so_view so) (rq_reference_price r) False = Inr fp"
      "entry_fee_of c (so_view so) fp False = Inr fee"
      "c = b\<lparr>pb_next_id := Suc (pb_next_id b), pb_orders := os\<rparr>" for c key so fp fee ts os
  proof -
    have c: "modest_broker c" "ledger c" using assms(2,3) that(4) by (simp_all add: modest_broker_def ledger_def)
    have "0 \<le> ov_quantity (so_view so)" "ov_quantity (so_view so) \<le> 10 ^ 9"
      using q8_bounds [OF new_order_quantity [OF that(1)] assms(6)] assms(7) by linarith+
    from market_fee_bound [OF c(1) assms(4,5) this that(2,3)]
    show ?thesis using c fresh that(4) by (intro ledger_after_fill) auto
  qed
  show ?thesis
    using assms(2)
    by (auto simp: submit_def Let_def wp_simps wp_fill ledger_def split: sum.split option.split
        intro: fill [unfolded ledger_def])
qed

end
