(* ===== verification/Lifecycle.thy ===== *)
theory Lifecycle
  imports Effects
begin

text \<open>
  The trade lifecycle: the state machine of \<^verbatim>\<open>app/domain/state_machine.py\<close> over the
  enumeration of \<^verbatim>\<open>app/domain/enums.py\<close>, and the repository of
  \<^verbatim>\<open>app/database/repositories/lifecycle.py\<close>, whose transition locks the row, compares the
  version and moves along the machine. The table is an association list from lifecycle
  identifiers to rows; the identifier the database draws for a new row is an argument.

  The history of a row is a path of the machine from \<open>CANDIDATE\<close>; the invariant
  \<open>rows_ok\<close> says that every row is the end of such a path whose length is its version.
\<close>

datatype lifecycle_state =
    CANDIDATE | RISK_APPROVED | SUBMITTED | ACCEPTED | PARTIAL_FILLED | FILLED | PROTECTED
  | CLOSING | CLOSED | ARCHIVED | REJECTED | CANCELLED | FAILED

section \<open>The state machine\<close>

fun allowed_transitions :: "lifecycle_state \<Rightarrow> lifecycle_state list" where
  "allowed_transitions CANDIDATE = [RISK_APPROVED, REJECTED, CANCELLED, FAILED]"
| "allowed_transitions RISK_APPROVED = [SUBMITTED, CANCELLED, FAILED]"
| "allowed_transitions SUBMITTED = [ACCEPTED, PARTIAL_FILLED, FILLED, REJECTED, CANCELLED, FAILED]"
| "allowed_transitions ACCEPTED = [PARTIAL_FILLED, FILLED, CANCELLED, FAILED]"
| "allowed_transitions PARTIAL_FILLED = [PARTIAL_FILLED, FILLED, CLOSING, FAILED]"
| "allowed_transitions FILLED = [PROTECTED, CLOSING, FAILED]"
| "allowed_transitions PROTECTED = [CLOSING, FAILED]"
| "allowed_transitions CLOSING = [CLOSED, FAILED]"
| "allowed_transitions CLOSED = [ARCHIVED]"
| "allowed_transitions ARCHIVED = []"
| "allowed_transitions REJECTED = [ARCHIVED]"
| "allowed_transitions CANCELLED = [ARCHIVED]"
| "allowed_transitions FAILED = [CLOSING, ARCHIVED]"

fun state_value :: "lifecycle_state \<Rightarrow> string" where
  "state_value CANDIDATE = ''candidate''"
| "state_value RISK_APPROVED = ''risk_approved''"
| "state_value SUBMITTED = ''submitted''"
| "state_value ACCEPTED = ''accepted''"
| "state_value PARTIAL_FILLED = ''partial_filled''"
| "state_value FILLED = ''filled''"
| "state_value PROTECTED = ''protected''"
| "state_value CLOSING = ''closing''"
| "state_value CLOSED = ''closed''"
| "state_value ARCHIVED = ''archived''"
| "state_value REJECTED = ''rejected''"
| "state_value CANCELLED = ''cancelled''"
| "state_value FAILED = ''failed''"

definition all_states :: "lifecycle_state list" where
  "all_states = [CANDIDATE, RISK_APPROVED, SUBMITTED, ACCEPTED, PARTIAL_FILLED, FILLED, PROTECTED,
     CLOSING, CLOSED, ARCHIVED, REJECTED, CANCELLED, FAILED]"

text \<open>\<open>LifecycleState(value)\<close>.\<close>

definition parse_state :: "string \<Rightarrow> lifecycle_state result" where
  "parse_state v = (case find (\<lambda>s. state_value s = v) all_states of
     None \<Rightarrow> Inl (ValueError ''is not a valid LifecycleState'') | Some s \<Rightarrow> Inr s)"

definition ensure_transition :: "lifecycle_state \<Rightarrow> lifecycle_state \<Rightarrow> unit result" where
  "ensure_transition current target =
     raise_if (target \<notin> set (allowed_transitions current))
       (InvalidStateTransition (state_value current) (state_value target))"

definition transition_map :: "(string \<times> string list) list" where
  "transition_map = map (\<lambda>s. (state_value s, sort (map state_value (allowed_transitions s)))) all_states"

lemma parse_state_value [simp]: "parse_state (state_value s) = Inr s"
  by (cases s) (simp_all add: parse_state_def all_states_def)

lemma parse_state_Inr: "parse_state v = Inr s \<Longrightarrow> state_value s = v"
  by (auto simp: parse_state_def find_Some_iff split: option.splits)

section \<open>Histories\<close>

text \<open>A history lists the states a lifecycle has been in, the current one first.\<close>

inductive history :: "lifecycle_state list \<Rightarrow> bool" where
  start: "history [CANDIDATE]"
| step: "history (s # h) \<Longrightarrow> t \<in> set (allowed_transitions s) \<Longrightarrow> history (t # s # h)"

inductive_cases history_ConsE: "history (s # h)"

text \<open>The states that follow an accepted order, and what each of them presupposes.\<close>

definition on_exchange :: "lifecycle_state \<Rightarrow> bool" where
  "on_exchange s \<longleftrightarrow> s \<in> {ACCEPTED, PARTIAL_FILLED, FILLED, PROTECTED}"

lemma history_prereq:
  assumes "history h"
  shows "(SUBMITTED \<in> set h \<longrightarrow> RISK_APPROVED \<in> set h) \<and>
     ((\<exists>s \<in> set h. on_exchange s) \<longrightarrow> SUBMITTED \<in> set h) \<and>
     (PROTECTED \<in> set h \<longrightarrow> FILLED \<in> set h) \<and> (CLOSED \<in> set h \<longrightarrow> CLOSING \<in> set h) \<and>
     last h = CANDIDATE \<and> h \<noteq> []"
  using assms
proof induction
  case (step s h t)
  then show ?case by (cases s) (auto simp: on_exchange_def)
qed (auto simp: on_exchange_def)

text \<open>Each state at most once, except those on the failure loop and partial fills.\<close>

lemma history_once:
  assumes "history h" "h = t # r" "t \<notin> {PARTIAL_FILLED, FAILED, CLOSING}"
  shows "t \<notin> set r"
proof -
  define rank where "rank s = (case s of CANDIDATE \<Rightarrow> 0 | RISK_APPROVED \<Rightarrow> 1 | SUBMITTED \<Rightarrow> 2 | ACCEPTED \<Rightarrow> 3
    | PARTIAL_FILLED \<Rightarrow> 4 | FILLED \<Rightarrow> 5 | PROTECTED \<Rightarrow> 6 | FAILED \<Rightarrow> 7 | CLOSING \<Rightarrow> 7 | REJECTED \<Rightarrow> 8
    | CANCELLED \<Rightarrow> 8 | CLOSED \<Rightarrow> 8 | ARCHIVED \<Rightarrow> (9 :: nat))" for s
  have mono: "history h \<Longrightarrow> \<forall>s \<in> set h. rank s \<le> rank (hd h)" for h
  proof (induction rule: history.induct)
    case (step s h t)
    have "rank s \<le> rank t" using step.hyps(2) by (cases s) (auto simp: rank_def)
    then show ?case using step.IH by auto
  qed simp
  from \<open>history h\<close> \<open>h = t # r\<close> show ?thesis
  proof (cases rule: history.cases)
    case (step s h' t')
    have "rank s < rank t"
      using step(3) assms(2,3) step(1) by (cases s) (auto simp: rank_def)
    moreover have "\<forall>u \<in> set r. rank u \<le> rank s" using mono [OF step(2)] step(1) assms(2) by simp
    ultimately show ?thesis by auto
  qed (use assms in simp)
qed

section \<open>The repository\<close>

record lifecycle_row =
  lr_candidate_id :: nat
  lr_state :: string
  lr_version :: nat
  lr_failure_code :: "string option"
  lr_last_event_at :: int

record lifecycle_record =
  lc_id :: nat
  lc_candidate_id :: nat
  lc_state :: lifecycle_state
  lc_version :: nat
  lc_failure_code :: "string option"

type_synonym lifecycle_table = "(nat \<times> lifecycle_row) list"

definition to_record :: "nat \<Rightarrow> lifecycle_row \<Rightarrow> lifecycle_record result" where
  "to_record i row = bind_result (parse_state (lr_state row)) (\<lambda>s.
     Inr \<lparr>lc_id = i, lc_candidate_id = lr_candidate_id row, lc_state = s,
          lc_version = lr_version row, lc_failure_code = lr_failure_code row\<rparr>)"

definition lifecycle_get :: "nat \<Rightarrow> (lifecycle_table, lifecycle_record option) eff" where
  "lifecycle_get i = bind_eff (gets (\<lambda>t. map_of t i)) (\<lambda>r. case r of
     None \<Rightarrow> ret None
   | Some row \<Rightarrow> bind_eff (lift_result (to_record i row)) (\<lambda>x. ret (Some x)))"

text \<open>
  \<open>add\<close> inserts a row; the unique constraint on \<open>candidate_id\<close> rejects a second
  lifecycle of the same candidate. The new primary key is drawn by the database.
\<close>

definition lifecycle_add :: "nat \<Rightarrow> nat \<Rightarrow> int \<Rightarrow> (lifecycle_table, lifecycle_record) eff" where
  "lifecycle_add new_id candidate_id now =
     bind_eff (gets (\<lambda>t. list_ex (\<lambda>(_, r). lr_candidate_id r = candidate_id) t \<or> map_of t new_id \<noteq> None))
     (\<lambda>dup. seq_eff (raise_when dup (OtherException ''IntegrityError''))
     (let row = \<lparr>lr_candidate_id = candidate_id, lr_state = state_value CANDIDATE, lr_version = 1,
                 lr_failure_code = None, lr_last_event_at = now\<rparr>
      in seq_eff (modify (\<lambda>t. dict_set t new_id row)) (lift_result (to_record new_id row))))"

definition lifecycle_transition ::
  "nat \<Rightarrow> nat \<Rightarrow> lifecycle_state \<Rightarrow> string option \<Rightarrow> int \<Rightarrow> (lifecycle_table, lifecycle_record) eff" where
  "lifecycle_transition i expected_version target failure_code now =
     bind_eff (gets (\<lambda>t. map_of t i)) (\<lambda>r. case r of
       None \<Rightarrow> raise (ValueError ''lifecycle not found'')
     | Some row \<Rightarrow>
         seq_eff (raise_when (lr_version row \<noteq> expected_version)
           (ValueError ''lifecycle version conflict''))
         (bind_eff (lift_result (parse_state (lr_state row))) (\<lambda>current.
          seq_eff (lift_result (ensure_transition current target))
          (let row' = row\<lparr>lr_state := state_value target, lr_version := lr_version row + 1,
                          lr_failure_code := failure_code, lr_last_event_at := now\<rparr>
           in seq_eff (modify (\<lambda>t. dict_set t i row')) (lift_result (to_record i row'))))))"

section \<open>Invariants of the table\<close>

definition row_ok :: "lifecycle_row \<Rightarrow> bool" where
  "row_ok row \<longleftrightarrow> (\<exists>s h. history (s # h) \<and> lr_state row = state_value s \<and> lr_version row = Suc (length h))"

definition rows_ok :: "lifecycle_table \<Rightarrow> bool" where
  "rows_ok t \<longleftrightarrow> (\<forall>i row. map_of t i = Some row \<longrightarrow> row_ok row)"

lemma row_ok_new:
  "row_ok \<lparr>lr_candidate_id = c, lr_state = state_value CANDIDATE, lr_version = Suc 0,
     lr_failure_code = f, lr_last_event_at = n\<rparr>"
  unfolding row_ok_def by (intro exI [of _ CANDIDATE] exI [of _ "[]"]) (simp add: history.start)

lemma row_ok_step:
  assumes "row_ok row" "parse_state (lr_state row) = Inr s" "ensure_transition s t = Inr u"
  shows "row_ok (row\<lparr>lr_state := state_value t, lr_version := Suc (lr_version row),
    lr_failure_code := f, lr_last_event_at := n\<rparr>)"
proof -
  obtain s' h where h: "history (s' # h)" "lr_state row = state_value s'" "lr_version row = Suc (length h)"
    using assms(1) by (auto simp: row_ok_def)
  with assms(2) have "s' = s" by simp
  with h(1) assms(3) have "history (t # s # h)"
    by (auto simp: ensure_transition_def result_simps intro: history.step)
  with h \<open>s' = s\<close> show ?thesis
    unfolding row_ok_def by (intro exI [of _ t] exI [of _ "s # h"]) simp
qed

lemma rows_ok_set: "rows_ok t \<Longrightarrow> row_ok row \<Longrightarrow> rows_ok (dict_set t i row)"
  by (simp add: rows_ok_def dict_simps)

lemma rows_ok_transition:
  "rows_ok t \<Longrightarrow> wp (lifecycle_transition i v target f now) (\<lambda>_. rows_ok) (\<lambda>_. rows_ok) t"
  by (auto simp: lifecycle_transition_def Let_def wp_simps split: option.split sum.split
      intro!: rows_ok_set row_ok_step) (simp add: rows_ok_def)

lemma rows_ok_add: "rows_ok t \<Longrightarrow> wp (lifecycle_add i c now) (\<lambda>_. rows_ok) (\<lambda>_. rows_ok) t"
  by (auto simp: lifecycle_add_def Let_def wp_simps split: sum.split intro!: rows_ok_set row_ok_new [simplified])

text \<open>A run of the repository; an operation that raises leaves the table as it was.\<close>

datatype lifecycle_op =
    AddRow nat nat int
  | MoveRow nat nat lifecycle_state "string option" int

fun lifecycle_step :: "lifecycle_table \<Rightarrow> lifecycle_op \<Rightarrow> lifecycle_table" where
  "lifecycle_step t (AddRow i c now) = snd (lifecycle_add i c now t)"
| "lifecycle_step t (MoveRow i v target f now) = snd (lifecycle_transition i v target f now t)"

definition run_lifecycle :: "lifecycle_op list \<Rightarrow> lifecycle_table \<Rightarrow> lifecycle_table" where
  "run_lifecycle ops t = foldl lifecycle_step t ops"

lemma rows_ok_lifecycle_step: "rows_ok t \<Longrightarrow> rows_ok (lifecycle_step t op)"
  by (cases op) (simp_all add: wp_snd rows_ok_add rows_ok_transition)

lemma rows_ok_run: "rows_ok (run_lifecycle ops [])"
proof -
  have "rows_ok t \<Longrightarrow> rows_ok (foldl lifecycle_step t ops)" for t
    by (induction ops arbitrary: t) (simp_all add: rows_ok_lifecycle_step)
  moreover have "rows_ok []" by (simp add: rows_ok_def)
  ultimately show ?thesis unfolding run_lifecycle_def by blast
qed

definition prerequisites_met :: "lifecycle_state set \<Rightarrow> bool" where
  "prerequisites_met S \<longleftrightarrow> (SUBMITTED \<in> S \<longrightarrow> RISK_APPROVED \<in> S) \<and>
     (S \<inter> {ACCEPTED, PARTIAL_FILLED, FILLED, PROTECTED} \<noteq> {} \<longrightarrow> SUBMITTED \<in> S) \<and>
     (PROTECTED \<in> S \<longrightarrow> FILLED \<in> S) \<and> (CLOSED \<in> S \<longrightarrow> CLOSING \<in> S)"

lemma history_prerequisites: "history h \<Longrightarrow> prerequisites_met (set h)"
  using history_prereq [of h] by (auto simp: prerequisites_met_def on_exchange_def)

lemma lifecycle_transition_Inr:
  assumes "lifecycle_transition i v target f now t = (Inr rec, t')"
  shows "\<exists>row. map_of t i = Some row \<and> lr_version row = v \<and>
    (\<exists>s. parse_state (lr_state row) = Inr s \<and> target \<in> set (allowed_transitions s)) \<and>
    lc_state rec = target \<and> lc_version rec = Suc v \<and>
    (\<exists>row'. map_of t' = (map_of t)(i \<mapsto> row') \<and> lr_version row' = Suc v \<and> lr_state row' = state_value target)"
proof -
  have "wp (lifecycle_transition i v target f now) (\<lambda>rec t'. \<exists>row. map_of t i = Some row \<and> lr_version row = v \<and>
    (\<exists>s. parse_state (lr_state row) = Inr s \<and> target \<in> set (allowed_transitions s)) \<and>
    lc_state rec = target \<and> lc_version rec = Suc v \<and>
    (\<exists>row'. map_of t' = (map_of t)(i \<mapsto> row') \<and> lr_version row' = Suc v \<and> lr_state row' = state_value target))
    (\<lambda>_ _. True) t"
    by (auto simp: lifecycle_transition_def Let_def wp_simps to_record_def result_simps dict_simps
        ensure_transition_def raise_if_def split: option.split sum.split)
  then show ?thesis using assms by (rule wp_Inr)
qed

text \<open>A version serves one transition: a second caller with the same version is refused.\<close>

lemma lifecycle_stale_version:
  assumes "map_of t i = Some row" "lr_version row \<noteq> v"
  shows "lifecycle_transition i v target f now t = (Inl (ValueError ''lifecycle version conflict''), t)"
  using assms by (simp add: lifecycle_transition_def eff_defs)

end
