(* ===== verification/Example_Data.thy ===== *)
theory Example_Data
  imports Demo_Execution Risk_Engine Paper_Broker Lifecycle
begin

text \<open>
  Concrete inputs of the components outside the Live service: a candidate and an account, Demo
  settings with the score tiers enabled, a paper broker with one order, and a lifecycle
  table. The witnesses of the properties of those components use them.
\<close>

definition example_candidate :: trade_candidate where
  "example_candidate = \<lparr>tc_strategy = ''trend'', tc_direction = Long, tc_score = 85, tc_entry = 50000,
     tc_stop_loss = 49000, tc_take_profit = 53000, tc_risk_reward = 3, tc_invalidation = ''stop'',
     tc_expires_at = 2000, tc_reasons = [], tc_counter_evidence = [],
     tc_derivative_confirmation = None, tc_mathematical_confirmation = None, tc_risk_score = None,
     tc_protection_model = Atr, tc_structural_protection = None,
     tc_estimated_round_trip_cost_pct = 0, tc_gross_risk_reward = None, tc_net_risk_reward = None\<rparr>"

definition example_account :: account_risk_state where
  "example_account = \<lparr>ar_equity = 1000, ar_daily_realized_pnl = 0, ar_weekly_realized_pnl = 0,
     ar_peak_equity = Some 1000, ar_consecutive_losses = 0, ar_open_positions = 0,
     ar_same_direction_positions = 0, ar_correlated_positions = 0\<rparr>"

definition scored_settings :: settings where
  "scored_settings = default_settings\<lparr>okx_demo_score_risk_enabled := True, okx_demo_max_open_positions := 2,
     okx_demo_portfolio_max_risk_pct := 1 / 100\<rparr>"

definition example_grade :: mathematical_confirmation where
  "example_grade = \<lparr>mc_status = MConfirmed, mc_risk_grade = GradeMedium, mc_confidence = 1 / 2,
     mc_directional_support = 1 / 2, mc_reliability = 1 / 2, mc_coverage = 1, mc_consensus = 1,
     mc_instability = 0, mc_component_codes = [''slope''], mc_auxiliary_bonus = 0,
     mc_auxiliary_directional_support = 0, mc_auxiliary_component_codes = []\<rparr>"

definition graded_candidate :: trade_candidate where
  "graded_candidate = example_candidate\<lparr>tc_score := 99, tc_mathematical_confirmation := Some example_grade\<rparr>"

definition example_broker :: broker where
  "example_broker = \<lparr>pb_starting_balance = 10000, pb_cash_balance = 10000, pb_taker_fee_rate = 5 / 10000,
     pb_maker_fee_rate = 2 / 10000, pb_slippage_bps = 2, pb_orders = [], pb_positions = [],
     pb_next_id = 0\<rparr>"

definition example_paper_request :: order_request where
  "example_paper_request = \<lparr>rq_symbol = ''BTC-USDT-SWAP'', rq_side = Long, rq_quantity = 1 / 100,
     rq_reference_price = 50000, rq_stop_loss = 49000, rq_take_profit = 53000,
     rq_order_type = Market, rq_limit_price = None, rq_risk_approved = True, rq_strategy = ''trend'',
     rq_score = 85, rq_reasons = [], rq_client_order_id = Some ''paper-1''\<rparr>"

definition example_position :: position_view where
  "example_position = \<lparr>pv_id = 1, pv_order_id = 0, pv_symbol = ''BTC-USDT-SWAP'', pv_side = Long,
     pv_status = Open, pv_quantity = 1 / 100, pv_entry_price = 50000, pv_mark_price = 50000,
     pv_stop_loss = 49000, pv_take_profit = 53000, pv_unrealized_pnl = 0, pv_realized_pnl = 0,
     pv_fees = 1 / 4, pv_opened_at = 0, pv_closed_at = None, pv_close_reason = None\<rparr>"

definition open_broker :: broker where
  "open_broker = example_broker\<lparr>pb_cash_balance := 10000 - 1 / 4,
     pb_positions := [(1, example_position)], pb_next_id := 2\<rparr>"

definition example_table :: lifecycle_table where
  "example_table = [(7, \<lparr>lr_candidate_id = 1, lr_state = ''candidate'', lr_version = 1,
     lr_failure_code = None, lr_last_event_at = 0\<rparr>)]"

section \<open>Evaluation\<close>

lemma example_approved: "\<exists>d. evaluate_risk 0 example_candidate example_account default_risk_limits = Inr d \<and> rd_decision d = Approved"
proof -
  have g: "collect (risk_guards 0 example_candidate example_account default_risk_limits) = []" 
   "quantity_by_risk example_candidate example_account default_risk_limits = 1 / 200" 
   "ddiv_checked (rl_max_notional default_risk_limits) (tc_entry example_candidate) = Inr (1 / 10)"
   "min (1 / 200) (1 / 10) = (1 / 200 :: decimal)"
   "quantize_down 8 (1 / 200) = Inr (1 / 200)"
   "\<not> 1 / 200 < rl_minimum_quantity default_risk_limits"
   "\<not> 1 < rl_minimum_quantity default_risk_limits * 200"
   "quantize_even 8 (dmul (1 / 200) (tc_entry example_candidate)) = Inr 250"
   "quantize_even 8 (dmul (1 / 200) (dmul (tc_entry example_candidate) (tc_estimated_round_trip_cost_pct example_candidate))) = Inr 0"
   "quantize_even 8 (dmul (1 / 200) (effective_risk_distance_of example_candidate)) = Inr 5"
   "quantize_even 8 (ddiv 5 (ar_equity example_account)) = Inr (1 / 200)"
   by code_simp+
  show ?thesis unfolding evaluate_risk_def Let_def g by (simp add: g build_risk_decision_approved)
qed

end
