(* ===== verification/Market_Data.thy ===== *)
theory Market_Data
  imports Strategy_Domain
begin

text \<open>
  Market data and its quality gate: the models of \<^verbatim>\<open>app/domain/market.py\<close> that the analysis
  reads, and \<open>inspect_candles\<close> of \<^verbatim>\<open>app/market/quality/candles.py\<close>. Timestamps are UTC
  microseconds. A series is a list of candles in the order of the source.

  Lemmas: a report is ok exactly when the series has a closed candle that is fresh, no two
  candles share a second, consecutive seconds differ by the interval, and every candle has
  positive prices in a valid geometry.
\<close>

section \<open>Models\<close>

record candle =
  cd_timestamp :: timestamp
  cd_open :: decimal
  cd_high :: decimal
  cd_low :: decimal
  cd_close :: decimal
  cd_volume_contracts :: decimal
  cd_volume_currency :: decimal
  cd_volume_quote :: decimal
  cd_confirmed :: bool

record ticker =
  tk_last :: decimal
  tk_bid :: decimal
  tk_ask :: decimal

definition spread_pct :: "ticker \<Rightarrow> decimal" where
  "spread_pct t =
     (let midpoint = ddiv (dadd (tk_ask t) (tk_bid t)) 2
      in if midpoint \<le> 0 then 0 else dmul (ddiv (dsub (tk_ask t) (tk_bid t)) midpoint) 100)"

datatype severity = Warning | Critical

fun severity_text :: "severity \<Rightarrow> string" where
  "severity_text Warning = ''warning''"
| "severity_text Critical = ''critical''"

record market_issue =
  mi_code :: string
  mi_severity :: severity
  mi_detail :: string

record quality_report =
  qr_ok :: bool
  qr_candle_count :: nat
  qr_confirmed_count :: nat
  qr_expected_interval_seconds :: int
  qr_issues :: "market_issue list"

record market_snapshot =
  ms_symbol :: string
  ms_instrument_id :: string
  ms_ticker :: ticker
  ms_funding_rate :: decimal
  ms_candles :: "(string \<times> candle list) list"
  ms_quality :: "(string \<times> quality_report) list"

section \<open>Intervals\<close>

definition bar_seconds :: "(string \<times> int) list" where
  "bar_seconds = [(''5m'', 300), (''15m'', 900), (''1H'', 3600), (''4H'', 14400)]"

definition bar_interval :: "string \<Rightarrow> int result" where
  "bar_interval bar =
     (case map_of bar_seconds bar of
        None \<Rightarrow> Inl (ValueError (''unsupported bar: '' @ bar)) | Some n \<Rightarrow> Inr n)"

definition candle_closed_at :: "candle \<Rightarrow> string \<Rightarrow> timestamp result" where
  "candle_closed_at c bar = bind_result (bar_interval bar) (\<lambda>n. Inr (cd_timestamp c + seconds n))"

section \<open>Numbers in messages\<close>

fun nat_text :: "nat \<Rightarrow> string" where
  "nat_text n = (if n < 10 then [] else nat_text (n div 10)) @ [char_of (48 + n mod 10)]"

declare nat_text.simps [simp del]

definition int_text :: "int \<Rightarrow> string" where
  "int_text n = (if n < 0 then ''-'' @ nat_text (nat (- n)) else nat_text (nat n))"

text \<open>\<open>int(x)\<close> of a number of microseconds in seconds: towards zero.\<close>

definition whole_seconds :: "int \<Rightarrow> int" where
  "whole_seconds t = (if 0 \<le> t then t div 1000000 else - (- t div 1000000))"

section \<open>The quality gate\<close>

definition critical_issue :: "string \<Rightarrow> string \<Rightarrow> market_issue" where
  "critical_issue code detail = \<lparr>mi_code = code, mi_severity = Critical, mi_detail = detail\<rparr>"

fun gap_issue :: "int \<Rightarrow> int list \<Rightarrow> market_issue list" where
  "gap_issue interval (previous # current # rest) =
     (if current - previous \<noteq> interval
      then [critical_issue ''CANDLE_GAP'' (''expected '' @ int_text interval @ ''s interval, received '' @
        int_text (current - previous) @ ''s'')]
      else gap_issue interval (current # rest))"
| "gap_issue interval _ = []"

definition candle_non_positive :: "candle \<Rightarrow> bool" where
  "candle_non_positive c \<longleftrightarrow> min (min (min (cd_open c) (cd_high c)) (cd_low c)) (cd_close c) \<le> 0"

definition candle_bad_geometry :: "candle \<Rightarrow> bool" where
  "candle_bad_geometry c \<longleftrightarrow>
     cd_high c < max (cd_open c) (cd_close c) \<or> min (cd_open c) (cd_close c) < cd_low c"

fun candle_issue :: "candle list \<Rightarrow> market_issue list" where
  "candle_issue [] = []"
| "candle_issue (c # cs) =
     (if candle_non_positive c
      then [critical_issue ''NON_POSITIVE_PRICE'' ''candle price must be positive'']
      else if candle_bad_geometry c
      then [critical_issue ''INVALID_OHLC'' ''OHLC geometry is invalid'']
      else candle_issue cs)"

definition stale_issue :: "timestamp \<Rightarrow> int \<Rightarrow> candle list \<Rightarrow> market_issue list" where
  "stale_issue now interval confirmed =
     (if confirmed = [] then []
      else let age = now - (cd_timestamp (last confirmed) + seconds interval)
           in if seconds (interval * 3) < age
              then [critical_issue ''STALE_CANDLE'' (''latest confirmed candle is '' @
                int_text (whole_seconds age) @ '' seconds old'')]
              else [])"

definition inspect_candles :: "timestamp \<Rightarrow> candle list \<Rightarrow> string \<Rightarrow> quality_report result" where
  "inspect_candles now candles bar =
     bind_result (bar_interval bar) (\<lambda>interval.
     let confirmed = filter cd_confirmed candles;
         timestamps = map (\<lambda>c. whole_seconds (cd_timestamp c)) candles;
         issues =
           collect
             [(candles = [], critical_issue ''NO_CANDLES'' ''no candles received''),
              (candles \<noteq> [] \<and> confirmed = [],
               critical_issue ''NO_CONFIRMED_CANDLES'' ''no closed candle available''),
              (\<not> distinct timestamps, critical_issue ''DUPLICATE_CANDLE'' ''duplicate candle timestamp'')] @
           gap_issue interval (sort timestamps) @ candle_issue candles @ stale_issue now interval confirmed
     in Inr \<lparr>qr_ok = \<not> list_ex (\<lambda>i. mi_severity i = Critical) issues, qr_candle_count = length candles,
          qr_confirmed_count = length confirmed, qr_expected_interval_seconds = interval,
          qr_issues = issues\<rparr>)"

section \<open>What an accepted series looks like\<close>

text \<open>Consecutive elements differ by \<open>d\<close>.\<close>

fun spaced :: "int \<Rightarrow> int list \<Rightarrow> bool" where
  "spaced d (x # y # ys) \<longleftrightarrow> y = x + d \<and> spaced d (y # ys)"
| "spaced d _ \<longleftrightarrow> True"

definition sound_candle :: "candle \<Rightarrow> bool" where
  "sound_candle c \<longleftrightarrow> 0 < cd_low c \<and> cd_low c \<le> cd_open c \<and> cd_low c \<le> cd_close c \<and>
     cd_open c \<le> cd_high c \<and> cd_close c \<le> cd_high c"

definition sound_series :: "timestamp \<Rightarrow> int \<Rightarrow> candle list \<Rightarrow> bool" where
  "sound_series now interval candles \<longleftrightarrow>
     filter cd_confirmed candles \<noteq> [] \<and>
     distinct (map (\<lambda>c. whole_seconds (cd_timestamp c)) candles) \<and>
     spaced interval (sort (map (\<lambda>c. whole_seconds (cd_timestamp c)) candles)) \<and>
     list_all sound_candle candles \<and>
     now \<le> cd_timestamp (last (filter cd_confirmed candles)) + seconds interval + seconds (interval * 3)"

lemma gap_issue_Nil: "gap_issue d xs = [] \<longleftrightarrow> spaced d xs"
  by (induction d xs rule: gap_issue.induct) auto

lemma candle_issue_Nil: "candle_issue cs = [] \<longleftrightarrow> list_all sound_candle cs"
  by (induction cs) (auto simp: candle_non_positive_def candle_bad_geometry_def sound_candle_def)

lemma issues_critical:
  "list_all (\<lambda>i. mi_severity i = Critical) (gap_issue d xs)"
  "list_all (\<lambda>i. mi_severity i = Critical) (candle_issue cs)"
  "list_all (\<lambda>i. mi_severity i = Critical) (stale_issue now d cs)"
proof -
  show "list_all (\<lambda>i. mi_severity i = Critical) (gap_issue d xs)"
    by (induction d xs rule: gap_issue.induct) (auto simp: critical_issue_def)
  show "list_all (\<lambda>i. mi_severity i = Critical) (candle_issue cs)"
    by (induction cs) (auto simp: critical_issue_def)
  show "list_all (\<lambda>i. mi_severity i = Critical) (stale_issue now d cs)"
    by (auto simp: stale_issue_def Let_def critical_issue_def)
qed

lemma critical_list_ex: "list_all (\<lambda>i. mi_severity i = Critical) is \<Longrightarrow> list_ex (\<lambda>i. mi_severity i = Critical) is \<longleftrightarrow> is \<noteq> []"
  by (cases "is") auto

lemma list_ex_collect: "list_ex P (collect cs) \<longleftrightarrow> list_ex (\<lambda>(b, x). b \<and> P x) cs"
  by (induction cs) (auto split: prod.splits)

lemma inspect_candles_ok:
  assumes "inspect_candles now candles bar = Inr r" "bar_interval bar = Inr interval"
  shows "qr_ok r \<longleftrightarrow> sound_series now interval candles"
proof -
  note ex = critical_list_ex [OF issues_critical(1)] critical_list_ex [OF issues_critical(2)]
    critical_list_ex [OF issues_critical(3)]
  have stale: "stale_issue now interval cs = [] \<longleftrightarrow>
      cs = [] \<or> now \<le> cd_timestamp (last cs) + seconds interval + seconds (interval * 3)" for cs
    by (auto simp: stale_issue_def Let_def)
  have "qr_ok r \<longleftrightarrow> candles \<noteq> [] \<and> filter cd_confirmed candles \<noteq> [] \<and>
      distinct (map (\<lambda>c. whole_seconds (cd_timestamp c)) candles) \<and>
      gap_issue interval (sort (map (\<lambda>c. whole_seconds (cd_timestamp c)) candles)) = [] \<and>
      candle_issue candles = [] \<and> stale_issue now interval (filter cd_confirmed candles) = []"
    using assms by (auto simp: inspect_candles_def Let_def ex list_ex_collect critical_issue_def simp del: collect_Cons)
  then show ?thesis
    unfolding sound_series_def gap_issue_Nil candle_issue_Nil stale by auto
qed

lemma inspect_candles_returns: "bar_interval bar = Inr interval \<Longrightarrow> \<exists>r. inspect_candles now candles bar = Inr r"
  by (simp add: inspect_candles_def Let_def)

end
