(* ===== verification/Indicators.thy ===== *)
theory Indicators
  imports Market_Data
begin

text \<open>
  The indicators of \<^verbatim>\<open>app/indicators/core.py\<close>: moving averages, true range, RSI, MACD, ADX,
  VWAP and the volume ratio, over decimals that every operation rounds. The periods are
  positive in every call of the source.

  Lemmas: the series form of the exponential average ends in the scalar form; an exponential
  average stays between the least and the greatest value up to the rounding of its seed;
  RSI and ADX lie between 0 and 100 and the ATR is not negative, rounding included.
\<close>

section \<open>Averages\<close>

definition sma :: "decimal list \<Rightarrow> nat \<Rightarrow> decimal option" where
  "sma xs period =
     (if period = 0 \<or> length xs < period then None
      else Some (ddiv (dsum (drop (length xs - period) xs)) (of_nat period)))"

definition ema_step :: "nat \<Rightarrow> decimal \<Rightarrow> decimal \<Rightarrow> decimal" where
  "ema_step period r v = dadd (dmul (dsub v r) (ddiv 2 (of_nat (period + 1)))) r"

definition ema_seed :: "decimal list \<Rightarrow> nat \<Rightarrow> decimal" where
  "ema_seed xs period = ddiv (dsum (take period xs)) (of_nat period)"

definition ema :: "decimal list \<Rightarrow> nat \<Rightarrow> decimal option" where
  "ema xs period =
     (if period = 0 \<or> length xs < period then None
      else Some (foldl (ema_step period) (ema_seed xs period) (drop period xs)))"

fun running :: "('a \<Rightarrow> 'b \<Rightarrow> 'a) \<Rightarrow> 'a \<Rightarrow> 'b list \<Rightarrow> 'a list" where
  "running f a [] = []"
| "running f a (x # xs) = f a x # running f (f a x) xs"

definition ema_series :: "decimal list \<Rightarrow> nat \<Rightarrow> decimal option list" where
  "ema_series xs period =
     (if period = 0 \<or> length xs < period then replicate (length xs) None
      else replicate (period - 1) None @ Some (ema_seed xs period) #
        map Some (running (ema_step period) (ema_seed xs period) (drop period xs)))"

definition wilder_step :: "nat \<Rightarrow> decimal \<Rightarrow> decimal \<Rightarrow> decimal" where
  "wilder_step period r v = ddiv (dadd (dmul r (of_nat (period - 1))) v) (of_nat period)"

definition wilder_average :: "decimal list \<Rightarrow> nat \<Rightarrow> decimal option" where
  "wilder_average xs period =
     (if length xs < period then None
      else Some (foldl (wilder_step period) (ddiv (dsum (take period xs)) (of_nat period)) (drop period xs)))"

section \<open>Ranges and oscillators\<close>

definition range_of :: "candle \<Rightarrow> candle \<Rightarrow> decimal" where
  "range_of previous current =
     max (max (dsub (cd_high current) (cd_low current)) (dabs (dsub (cd_high current) (cd_close previous))))
       (dabs (dsub (cd_low current) (cd_close previous)))"

definition true_ranges :: "candle list \<Rightarrow> decimal list" where
  "true_ranges cs =
     (case cs of [] \<Rightarrow> [] | c # _ \<Rightarrow> dsub (cd_high c) (cd_low c) # map2 range_of cs (tl cs))"

definition atr :: "candle list \<Rightarrow> nat \<Rightarrow> decimal option" where
  "atr cs period = wilder_average (true_ranges cs) period"

definition rsi :: "decimal list \<Rightarrow> nat \<Rightarrow> decimal option" where
  "rsi closes period =
     (if length closes < period + 1 then None
      else
        let changes = map2 (\<lambda>previous current. dsub current previous) closes (tl closes);
            gains = map (\<lambda>c. max c 0) changes;
            losses = map (\<lambda>c. max (dneg c) 0) changes;
            avg_gain = foldl (wilder_step period) (ddiv (dsum (take period gains)) (of_nat period)) (drop period gains);
            avg_loss = foldl (wilder_step period) (ddiv (dsum (take period losses)) (of_nat period)) (drop period losses)
        in if avg_loss = 0 then Some (if 0 < avg_gain then 100 else 50)
           else Some (dsub 100 (ddiv 100 (dadd 1 (ddiv avg_gain avg_loss)))))"

definition macd_values :: "decimal list \<Rightarrow> nat \<Rightarrow> nat \<Rightarrow> decimal list" where
  "macd_values closes fast slow =
     concat (map2 (\<lambda>f s. case (f, s) of (Some x, Some y) \<Rightarrow> [dsub x y] | _ \<Rightarrow> [])
       (ema_series closes fast) (ema_series closes slow))"

definition macd :: "decimal list \<Rightarrow> nat \<Rightarrow> nat \<Rightarrow> nat \<Rightarrow> decimal option \<times> decimal option \<times> decimal option" where
  "macd closes fast slow signal =
     (let xs = macd_values closes fast slow
      in if xs = [] then (None, None, None)
         else (Some (last xs), ema xs signal, map_option (\<lambda>s. dsub (last xs) s) (ema xs signal)))"

definition up_move :: "candle \<Rightarrow> candle \<Rightarrow> decimal" where
  "up_move previous current = dsub (cd_high current) (cd_high previous)"

definition down_move :: "candle \<Rightarrow> candle \<Rightarrow> decimal" where
  "down_move previous current = dsub (cd_low previous) (cd_low current)"

definition plus_dm :: "candle \<Rightarrow> candle \<Rightarrow> decimal" where
  "plus_dm p c = (if down_move p c < up_move p c \<and> 0 < up_move p c then up_move p c else 0)"

definition minus_dm :: "candle \<Rightarrow> candle \<Rightarrow> decimal" where
  "minus_dm p c = (if up_move p c < down_move p c \<and> 0 < down_move p c then down_move p c else 0)"

definition dx_of :: "decimal \<Rightarrow> decimal \<Rightarrow> decimal \<Rightarrow> decimal" where
  "dx_of tr_avg plus_avg minus_avg =
     (let plus_di = ddiv (dmul 100 plus_avg) tr_avg;
          minus_di = ddiv (dmul 100 minus_avg) tr_avg;
          denominator = dadd plus_di minus_di
      in if denominator = 0 then 0
         else ddiv (dmul 100 (dabs (dsub plus_di minus_di))) denominator)"

definition adx :: "candle list \<Rightarrow> nat \<Rightarrow> decimal option" where
  "adx cs period =
     (if length cs < period * 2 then None
      else case (wilder_average (map2 range_of cs (tl cs)) period,
          wilder_average (map2 plus_dm cs (tl cs)) period, wilder_average (map2 minus_dm cs (tl cs)) period) of
        (Some tr_avg, Some plus_avg, Some minus_avg) \<Rightarrow>
          if tr_avg = 0 then None else Some (dx_of tr_avg plus_avg minus_avg)
      | _ \<Rightarrow> None)"

section \<open>Volume\<close>

definition typical_price :: "candle \<Rightarrow> decimal" where
  "typical_price c = ddiv (dadd (dadd (cd_high c) (cd_low c)) (cd_close c)) 3"

definition vwap :: "candle list \<Rightarrow> nat \<Rightarrow> decimal option" where
  "vwap cs period =
     (if length cs < period then None
      else
        let subset = drop (length cs - period) cs;
            quote_volume = dsum (map cd_volume_quote subset);
            volume_of = (if quote_volume \<le> 0 then cd_volume_contracts else cd_volume_quote);
            total_volume = (if quote_volume \<le> 0 then dsum (map cd_volume_contracts subset) else quote_volume)
        in if total_volume \<le> 0 then None
           else Some (ddiv (dsum (map (\<lambda>c. dmul (typical_price c) (volume_of c)) subset)) total_volume))"

definition volume_ratio :: "candle list \<Rightarrow> nat \<Rightarrow> decimal option" where
  "volume_ratio cs period =
     (if length cs < period + 1 then None
      else
        let baseline = ddiv (dsum (map cd_volume_contracts (butlast (drop (length cs - period - 1) cs)))) (of_nat period)
        in if baseline \<le> 0 then None else Some (ddiv (cd_volume_contracts (last cs)) baseline))"

section \<open>The series form and the scalar form agree\<close>

lemma length_running [simp]: "length (running f a xs) = length xs"
  by (induction xs arbitrary: a) auto

lemma last_running: "last (a # running f a xs) = foldl f a xs"
  by (induction xs arbitrary: a) auto

lemma length_ema_series [simp]: "length (ema_series xs period) = length xs"
  by (auto simp: ema_series_def)

lemma ema_series_last: "xs \<noteq> [] \<Longrightarrow> last (ema_series xs period) = ema xs period"
proof -
  assume "xs \<noteq> []"
  have "last (Some a # map Some (running f a ys)) = Some (foldl f a ys)" for f ys and a :: decimal
    using last_running [of a f ys] last_map [of "a # running f a ys" Some] by (simp del: last.simps)
  then show ?thesis using \<open>xs \<noteq> []\<close> by (auto simp: ema_series_def ema_def simp del: last.simps)
qed

section \<open>Bounds\<close>

lemma is_dec_small_numerals: "is_dec 0" "is_dec 1" "is_dec 2" "is_dec 50" "is_dec 100"
  by (rule is_decI [of _ _ 0], simp, simp)+

lemma is_dec_hundred: "is_dec d \<Longrightarrow> is_dec (100 * d)"
proof -
  assume "is_dec d"
  then obtain n e where d: "d = of_int n * 10 powi e" "\<bar>n\<bar> < 10 ^ 28" by (auto simp: is_dec_def)
  have "(10 :: rat) powi (e + 2) = 100 * 10 powi e" by (simp add: power_int_add)
  then have "100 * d = of_int n * 10 powi (e + 2)" using d(1) by simp
  then show ?thesis using d(2) by (auto simp: is_dec_def)
qed

lemma wilder_nonneg: "0 \<le> r \<Longrightarrow> list_all (\<lambda>x. 0 \<le> x) xs \<Longrightarrow> 0 \<le> foldl (wilder_step p) r xs"
  by (induction xs arbitrary: r) (auto simp: wilder_step_def dec_simps intro!: divide_nonneg_nonneg add_nonneg_nonneg)

lemma list_all_take_drop: "list_all P xs \<Longrightarrow> list_all P (take n xs) \<and> list_all P (drop n xs)"
  by (metis append_take_drop_id list_all_append)

lemma wilder_mean_nonneg:
  "list_all (\<lambda>x. 0 \<le> x) xs \<Longrightarrow>
     0 \<le> foldl (wilder_step p) (ddiv (dsum (take p xs)) (of_nat p)) (drop p xs)"
  using list_all_take_drop [of "\<lambda>x. 0 \<le> x" xs p]
  by (intro wilder_nonneg) (auto simp: dec_simps intro!: divide_nonneg_nonneg dsum_nonneg)

lemma wilder_average_nonneg:
  "wilder_average xs p = Some r \<Longrightarrow> list_all (\<lambda>x. 0 \<le> x) xs \<Longrightarrow> 0 \<le> r"
  by (auto simp: wilder_average_def wilder_mean_nonneg split: if_splits)

lemma list_all_map2: "(\<And>x y. P (f x y)) \<Longrightarrow> list_all P (map2 f xs ys)"
  by (induction xs ys rule: list_induct2') auto

lemma range_of_nonneg: "0 \<le> range_of p c"
  by (simp add: range_of_def dabs_dsub le_max_iff_disj)

lemma atr_nonneg:
  assumes "atr cs p = Some r" "list_all sound_candle cs"
  shows "0 \<le> r"
proof -
  have "list_all (\<lambda>x. 0 \<le> x) (true_ranges cs)"
    using assms(2)
    by (cases cs) (auto simp: true_ranges_def dec_simps sound_candle_def range_of_nonneg intro!: list_all_map2)
  then show ?thesis using wilder_average_nonneg assms(1) by (simp add: atr_def)
qed

lemma rsi_bounds:
  assumes "rsi closes p = Some r"
  shows "0 \<le> r \<and> r \<le> 100"
proof -
  define changes where "changes = map2 (\<lambda>x y. dsub y x) closes (tl closes)"
  define gain where "gain = foldl (wilder_step p) (ddiv (dsum (take p (map (\<lambda>c. max c 0) changes))) (of_nat p))
    (drop p (map (\<lambda>c. max c 0) changes))"
  define loss where "loss = foldl (wilder_step p) (ddiv (dsum (take p (map (\<lambda>c. max (dneg c) 0) changes))) (of_nat p))
    (drop p (map (\<lambda>c. max (dneg c) 0) changes))"
  have nn: "0 \<le> gain" "0 \<le> loss"
    unfolding gain_def loss_def by (rule wilder_mean_nonneg, simp add: list_all_iff)+
  have r: "r = (if loss = 0 then if 0 < gain then 100 else 50 else dsub 100 (ddiv 100 (dadd 1 (ddiv gain loss))))"
    using assms by (auto simp: rsi_def Let_def changes_def gain_def loss_def split: if_splits)
  have rs: "0 \<le> ddiv gain loss" using nn by (simp add: dec_simps)
  then have "1 \<le> dadd 1 (ddiv gain loss)"
    unfolding dadd_def by (intro dec.rnd_ge_rep is_dec_small_numerals) simp
  then have "0 \<le> 100 / dadd 1 (ddiv gain loss)" "100 / dadd 1 (ddiv gain loss) \<le> 100"
    by (simp_all add: divide_le_eq)
  then have "0 \<le> ddiv 100 (dadd 1 (ddiv gain loss))" "ddiv 100 (dadd 1 (ddiv gain loss)) \<le> 100"
    unfolding ddiv_def by (auto intro: dec.rnd_nonneg dec.rnd_le_rep is_dec_small_numerals)
  then show ?thesis
    unfolding r dsub_def by (auto intro: dec.rnd_nonneg dec.rnd_le_rep is_dec_small_numerals)
qed

lemma dx_bounds:
  assumes "0 < t" "0 \<le> p" "0 \<le> m"
  shows "0 \<le> dx_of t p m \<and> dx_of t p m \<le> 100"
proof -
  define P where "P = ddiv (dmul 100 p) t"
  define M where "M = ddiv (dmul 100 m) t"
  have nn: "0 \<le> P" "0 \<le> M" using assms by (simp_all add: P_def M_def dec_simps)
  have "dabs (dsub P M) \<le> dadd P M"
    using nn unfolding dabs_dsub unfolding dsub_def dadd_def dec.rnd_abs [symmetric] by (intro dround_mono) simp
  then have "100 * dabs (dsub P M) \<le> 100 * dadd P M" by simp
  then have num: "dmul 100 (dabs (dsub P M)) \<le> 100 * dadd P M"
    unfolding dmul_def by (rule dec.rnd_le_rep [rotated]) (simp add: is_dec_hundred dadd_def is_dec_dround)
  show ?thesis
  proof (cases "dadd P M = 0")
    case False
    then have pos: "0 < dadd P M" using nn by (simp add: dec_simps less_le)
    have "0 \<le> dmul 100 (dabs (dsub P M)) / dadd P M" "dmul 100 (dabs (dsub P M)) / dadd P M \<le> 100"
      using pos num by (simp_all add: dec_simps dabs_dsub divide_le_eq)
    then have "0 \<le> ddiv (dmul 100 (dabs (dsub P M))) (dadd P M)" "ddiv (dmul 100 (dabs (dsub P M))) (dadd P M) \<le> 100"
      unfolding ddiv_def by (auto intro: dec.rnd_nonneg dec.rnd_le_rep is_dec_small_numerals)
    then show ?thesis using False by (simp add: dx_of_def P_def M_def Let_def)
  qed (simp add: dx_of_def P_def M_def Let_def)
qed

lemma adx_bounds:
  assumes "adx cs period = Some r"
  shows "0 \<le> r \<and> r \<le> 100"
proof -
  obtain t p m where avg: "wilder_average (map2 range_of cs (tl cs)) period = Some t" "t \<noteq> 0"
    "wilder_average (map2 plus_dm cs (tl cs)) period = Some p"
    "wilder_average (map2 minus_dm cs (tl cs)) period = Some m" "r = dx_of t p m"
    using assms by (auto simp: adx_def split: if_splits option.splits)
  have "0 \<le> t" "0 \<le> p" "0 \<le> m"
    by (rule wilder_average_nonneg [OF avg(1)] wilder_average_nonneg [OF avg(3)] wilder_average_nonneg [OF avg(4)],
        rule list_all_map2, simp add: range_of_nonneg plus_dm_def minus_dm_def)+
  then show ?thesis using dx_bounds avg(2,5) by (simp add: less_le)
qed

text \<open>One step of the exponential average ends between the old average and the new value.\<close>

lemma multiplier_bound: "2 \<le> p \<Longrightarrow> 0 \<le> ddiv 2 (of_nat (p + 1)) \<and> ddiv 2 (of_nat (p + 1)) * (1 + eps) ^ 2 \<le> 1"
proof -
  assume "2 \<le> p"
  then have p: "(3 :: rat) \<le> of_nat (p + 1)" by simp
  then have "2 / of_nat (p + 1) \<le> (2 / 3 :: rat)" by (intro frac_le) auto
  then have "ddiv 2 (of_nat (p + 1)) \<le> dround (2 / 3)" unfolding ddiv_def by (rule dround_mono)
  also have "\<dots> \<le> 2 / 3 * (1 + eps)" by (rule dround_le_eps) simp
  finally have "ddiv 2 (of_nat (p + 1)) * (1 + eps) ^ 2 \<le> 2 / 3 * (1 + eps) * (1 + eps) ^ 2"
    using eps_bounds by (intro mult_right_mono) auto
  moreover have "2 / 3 * (1 + eps) * (1 + eps) ^ 2 \<le> 1" by (simp add: eps_def power2_eq_square)
  ultimately show ?thesis by (simp add: dec_simps)
qed

lemma scaled_step:
  assumes "0 \<le> d" "0 \<le> m" "m * (1 + eps) ^ 2 \<le> 1"
  shows "dmul (dround d) m \<le> d"
proof -
  have "dmul (dround d) m \<le> dround d * m * (1 + eps)"
    unfolding dmul_def using assms dec.rnd_nonneg by (intro dround_le_eps) simp
  also have "\<dots> \<le> d * (1 + eps) * m * (1 + eps)"
    using assms dround_le_eps [OF assms(1)] eps_bounds by (intro mult_right_mono) auto
  also have "\<dots> = d * (m * (1 + eps) ^ 2)" by (simp add: power2_eq_square mult_ac)
  also have "\<dots> \<le> d" using assms by (simp add: mult_left_le)
  finally show ?thesis .
qed

lemma ema_step_between:
  assumes "2 \<le> p" "is_dec r" "is_dec v"
  shows "min r v \<le> ema_step p r v \<and> ema_step p r v \<le> max r v"
proof -
  define m where "m = ddiv 2 (of_nat (p + 1))"
  note m = multiplier_bound [OF assms(1), folded m_def]
  note step = ema_step_def [of p r v, folded m_def]
  show ?thesis
  proof (cases "r \<le> v")
    case True
    have "0 \<le> dmul (dsub v r) m" "dmul (dsub v r) m \<le> v - r"
      using m True scaled_step [of "v - r" m] by (simp_all add: dec_simps) (simp add: dsub_def)
    then show ?thesis
      using True assms by (auto simp: step dadd_def intro: dec.rnd_ge_rep dec.rnd_le_rep)
  next
    case False
    have "dsub v r = - dround (r - v)" using dround_minus [of "r - v"] by (simp add: dsub_def)
    then have neg: "dmul (dsub v r) m = - dmul (dround (r - v)) m"
      by (simp add: dmul_def dround_minus)
    have "0 \<le> dmul (dround (r - v)) m" "dmul (dround (r - v)) m \<le> r - v"
      using m False scaled_step [of "r - v" m] by (simp_all add: dmul_def dec.rnd_nonneg)
    then show ?thesis
      using False assms by (auto simp: step neg dadd_def intro: dec.rnd_ge_rep dec.rnd_le_rep)
  qed
qed

lemma ema_fold_between:
  assumes "2 \<le> p" "is_dec r" "list_all is_dec xs" "lo \<le> r" "r \<le> hi" "list_all (\<lambda>x. lo \<le> x \<and> x \<le> hi) xs"
  shows "lo \<le> foldl (ema_step p) r xs \<and> foldl (ema_step p) r xs \<le> hi"
  using assms
proof (induction xs arbitrary: r)
  case (Cons x xs)
  have "min r x \<le> ema_step p r x \<and> ema_step p r x \<le> max r x"
    using Cons.prems by (intro ema_step_between) auto
  moreover have "is_dec (ema_step p r x)" by (simp add: ema_step_def dadd_def is_dec_dround)
  ultimately show ?case using Cons.prems Cons.IH [of "ema_step p r x"] by auto
qed simp

lemma foldl_dadd_le:
  assumes "0 \<le> a" "0 \<le> hi" "list_all (\<lambda>x. 0 \<le> x \<and> x \<le> hi) xs"
  shows "foldl dadd a xs \<le> (a + of_nat (length xs) * hi) * (1 + eps) ^ length xs"
  using assms
proof (induction xs arbitrary: a)
  case (Cons x xs)
  let ?n = "length xs"
  have e: "1 \<le> (1 + eps) ^ ?n" "0 \<le> eps" using eps_bounds by (simp_all add: one_le_power)
  have step: "dadd a x \<le> (a + hi) * (1 + eps)"
  proof -
    have "dadd a x \<le> (a + x) * (1 + eps)" unfolding dadd_def using Cons.prems by (intro dround_le_eps) simp
    also have "\<dots> \<le> (a + hi) * (1 + eps)" using Cons.prems e by (intro mult_right_mono) auto
    finally show ?thesis .
  qed
  have n: "of_nat ?n * hi \<le> of_nat ?n * hi * (1 + eps)"
    using Cons.prems e by (simp add: algebra_simps)
  have "foldl dadd (dadd a x) xs \<le> (dadd a x + of_nat ?n * hi) * (1 + eps) ^ ?n"
    using Cons.prems by (intro Cons.IH) (auto simp: dec_simps)
  also have "\<dots> \<le> ((a + hi) * (1 + eps) + of_nat ?n * hi * (1 + eps)) * (1 + eps) ^ ?n"
    using step n e by (intro mult_right_mono add_mono) auto
  also have "\<dots> = (a + of_nat (length (x # xs)) * hi) * (1 + eps) ^ length (x # xs)"
    by (simp add: algebra_simps)
  finally show ?case by simp
qed simp

lemma foldl_dadd_ge:
  assumes "0 \<le> a" "0 \<le> lo" "list_all (\<lambda>x. lo \<le> x) xs"
  shows "(a + of_nat (length xs) * lo) * (1 - eps) ^ length xs \<le> foldl dadd a xs"
  using assms
proof (induction xs arbitrary: a)
  case (Cons x xs)
  let ?n = "length xs"
  have e: "0 \<le> (1 - eps) ^ ?n" "0 \<le> 1 - eps" "1 - eps \<le> 1" using eps_bounds by simp_all
  have step: "(a + lo) * (1 - eps) \<le> dadd a x"
  proof -
    have "(a + lo) * (1 - eps) \<le> (a + x) * (1 - eps)" using Cons.prems e by (intro mult_right_mono) auto
    also have "\<dots> \<le> dadd a x" unfolding dadd_def using Cons.prems by (intro dround_ge_eps) simp
    finally show ?thesis .
  qed
  have n: "of_nat ?n * lo * (1 - eps) \<le> of_nat ?n * lo"
    using Cons.prems e by (intro mult_left_le) auto
  have "(a + of_nat (length (x # xs)) * lo) * (1 - eps) ^ length (x # xs) =
      ((a + lo) * (1 - eps) + of_nat ?n * lo * (1 - eps)) * (1 - eps) ^ ?n"
    by (simp add: algebra_simps)
  also have "\<dots> \<le> (dadd a x + of_nat ?n * lo) * (1 - eps) ^ ?n"
    using step n e by (intro mult_right_mono add_mono) auto
  also have "\<dots> \<le> foldl dadd (dadd a x) xs"
    using Cons.prems by (intro Cons.IH) (auto simp: dec_simps)
  finally show ?case by simp
qed simp

lemma ema_seed_bounds:
  assumes "0 < p" "p \<le> length xs" "0 \<le> lo" "list_all (\<lambda>x. lo \<le> x \<and> x \<le> hi) xs"
  shows "lo * (1 - eps) ^ (p + 1) \<le> ema_seed xs p \<and> ema_seed xs p \<le> hi * (1 + eps) ^ (p + 1)"
proof -
  have part: "list_all (\<lambda>x. lo \<le> x \<and> x \<le> hi) (take p xs)" using list_all_take_drop assms(4) by blast
  have len: "length (take p xs) = p" using assms(2) by simp
  then obtain y where "y \<in> set (take p xs)" using assms(1) by (cases "take p xs") auto
  then have hi: "0 \<le> hi" using part assms(3) by (auto simp: list_all_iff intro: order_trans)
  have low: "list_all (\<lambda>x. lo \<le> x) (take p xs)" "list_all (\<lambda>x. 0 \<le> x \<and> x \<le> hi) (take p xs)"
    using part assms(3) by (auto simp: list_all_iff)
  have sum: "of_nat p * lo * (1 - eps) ^ p \<le> dsum (take p xs)" "dsum (take p xs) \<le> of_nat p * hi * (1 + eps) ^ p"
    using foldl_dadd_ge [OF order_refl assms(3) low(1)] foldl_dadd_le [OF order_refl hi low(2)]
    by (simp_all add: dsum_def len del: length_take)
  have e: "0 \<le> 1 - eps" "0 \<le> 1 + eps" using eps_bounds by simp_all
  have q: "lo * (1 - eps) ^ p \<le> dsum (take p xs) / of_nat p" "dsum (take p xs) / of_nat p \<le> hi * (1 + eps) ^ p"
    using sum assms(1) by (simp_all add: field_simps)
  have nn: "0 \<le> dsum (take p xs) / of_nat p"
    using part assms(3) by (intro divide_nonneg_nonneg dsum_nonneg) (auto simp: list_all_iff)
  have "lo * (1 - eps) ^ p * (1 - eps) \<le> dsum (take p xs) / of_nat p * (1 - eps)"
    "dsum (take p xs) / of_nat p * (1 + eps) \<le> hi * (1 + eps) ^ p * (1 + eps)"
    using q e by (simp_all only: mult_right_mono)
  then show ?thesis
    unfolding ema_seed_def ddiv_def using dround_le_eps [OF nn] dround_ge_eps [OF nn] by (simp add: mult_ac)
qed

lemma ema_bounds:
  assumes "ema xs p = Some r" "2 \<le> p" "list_all is_dec xs" "0 \<le> lo" "list_all (\<lambda>x. lo \<le> x \<and> x \<le> hi) xs"
  shows "lo * (1 - eps) ^ (p + 1) \<le> r \<and> r \<le> hi * (1 + eps) ^ (p + 1)"
proof -
  have p: "0 < p" "p \<le> length xs" "r = foldl (ema_step p) (ema_seed xs p) (drop p xs)"
    using assms(1,2) by (auto simp: ema_def split: if_splits)
  note seed = ema_seed_bounds [OF p(1,2) assms(4,5)]
  obtain y where "y \<in> set xs" using p by (cases xs) auto
  then have hi: "0 \<le> hi" using assms(4,5) by (auto simp: list_all_iff intro: order_trans)
  have lo: "lo * (1 - eps) ^ (p + 1) \<le> lo"
    using assms(4) eps_bounds by (intro mult_left_le power_le_one) auto
  have up: "hi \<le> hi * (1 + eps) ^ (p + 1)"
    using hi eps_bounds mult_left_mono [of 1 "(1 + eps) ^ (p + 1)" hi] by (simp add: one_le_power del: power_Suc)
  have tail: "list_all is_dec (drop p xs)" "list_all (\<lambda>x. lo \<le> x \<and> x \<le> hi) (drop p xs)"
    using list_all_take_drop assms(3,5) by blast+
  have "list_all (\<lambda>x. lo * (1 - eps) ^ (p + 1) \<le> x \<and> x \<le> hi * (1 + eps) ^ (p + 1)) (drop p xs)"
    using tail(2) lo up by (auto simp: list_all_iff simp del: power_Suc intro: order_trans)
  moreover have "is_dec (ema_seed xs p)" by (simp add: ema_seed_def ddiv_def is_dec_dround)
  ultimately show ?thesis unfolding p(3) using seed tail(1) assms(2) by (intro ema_fold_between) auto
qed

end
