(* ===== verification/Market_Structure.thy ===== *)
theory Market_Structure
  imports Market_Data
begin

text \<open>
  Market structure (\<^verbatim>\<open>app/structure/engine.py\<close>): swing points, fair value gaps, order blocks
  and the structure snapshot of a series of closed candles, with the models of
  \<^verbatim>\<open>app/domain/analysis.py\<close> they fill.

  Lemmas: a swing is a strict extreme of its neighbourhood; an open fair value gap is a gap
  between the first and the third of three candles that no later candle has closed; a
  reported order block has not been traded through since; a snapshot reports a break of
  structure only beyond the last swing and a change of character only against the trend.
\<close>

section \<open>Models\<close>

datatype swing_kind = SwingHigh | SwingLow

record swing_point =
  sw_kind :: swing_kind
  sw_timestamp :: timestamp
  sw_price :: decimal
  sw_index :: nat

datatype zone = Bullish | Bearish

record fair_value_gap =
  fv_direction :: zone
  fv_lower :: decimal
  fv_upper :: decimal
  fv_created_at :: timestamp
  fv_filled_ratio :: decimal

record order_block =
  ob_direction :: zone
  ob_lower :: decimal
  ob_upper :: decimal
  ob_created_at :: timestamp
  ob_mitigated :: bool

datatype trend = StrongBullish | BullishTrend | NeutralTrend | BearishTrend | StrongBearish

datatype move = Up | Down

record structure_snapshot =
  st_trend :: trend
  st_swing_structure :: string
  st_bos :: "move option"
  st_choch :: "move option"
  st_last_swing_high :: "decimal option"
  st_last_swing_low :: "decimal option"
  st_fair_value_gaps :: "fair_value_gap list"
  st_order_blocks :: "order_block list"
  st_support_levels :: "decimal list"
  st_resistance_levels :: "decimal list"

section \<open>Swings\<close>

definition neighbourhood :: "nat \<Rightarrow> candle list \<Rightarrow> nat \<Rightarrow> candle list" where
  "neighbourhood window cs index = take (2 * window + 1) (drop (index - window) cs)"

text \<open>The value of the candle is the greatest of the neighbourhood and occurs once in it.\<close>

definition lone_extreme :: "(candle \<Rightarrow> decimal) \<Rightarrow> candle \<Rightarrow> candle list \<Rightarrow> bool" where
  "lone_extreme f c ns \<longleftrightarrow>
     list_all (\<lambda>n. f n \<le> f c) ns \<and> length (filter (\<lambda>n. f n = f c) ns) = 1"

definition swings_at :: "nat \<Rightarrow> candle list \<Rightarrow> nat \<Rightarrow> swing_point list" where
  "swings_at window cs index =
     (let c = cs ! index; ns = neighbourhood window cs index
      in collect
        [(lone_extreme cd_high c ns,
          \<lparr>sw_kind = SwingHigh, sw_timestamp = cd_timestamp c, sw_price = cd_high c, sw_index = index\<rparr>),
         (lone_extreme (\<lambda>x. - cd_low x) c ns,
          \<lparr>sw_kind = SwingLow, sw_timestamp = cd_timestamp c, sw_price = cd_low c, sw_index = index\<rparr>)])"

definition find_swings :: "candle list \<Rightarrow> nat \<Rightarrow> swing_point list" where
  "find_swings cs window =
     (if length cs < window * 2 + 1 then []
      else concat (map (swings_at window cs) [window..<length cs - window]))"

definition prices_of :: "swing_kind \<Rightarrow> swing_point list \<Rightarrow> decimal list" where
  "prices_of k swings = map sw_price (filter (\<lambda>s. sw_kind s = k) swings)"

definition extreme_label :: "string \<Rightarrow> string \<Rightarrow> decimal list \<Rightarrow> string" where
  "extreme_label higher lower prices =
     (if length prices < 2 then ''NA''
      else if prices ! (length prices - 2) < last prices then higher else lower)"

definition structure_label :: "swing_point list \<Rightarrow> string" where
  "structure_label swings =
     extreme_label ''HH'' ''LH'' (prices_of SwingHigh swings) @ ''/'' @
     extreme_label ''HL'' ''LL'' (prices_of SwingLow swings)"

section \<open>Fair value gaps\<close>

definition last_five :: "'a list \<Rightarrow> 'a list" where
  "last_five xs = drop (length xs - 5) xs"

text \<open>\<open>min((c.low for c in later), default=upper)\<close> and its mirror image.\<close>

definition lowest :: "decimal \<Rightarrow> candle list \<Rightarrow> decimal" where
  "lowest d cs = (if cs = [] then d else Min (set (map cd_low cs)))"

definition highest :: "decimal \<Rightarrow> candle list \<Rightarrow> decimal" where
  "highest d cs = (if cs = [] then d else Max (set (map cd_high cs)))"

definition filled_ratio :: "zone \<Rightarrow> decimal \<Rightarrow> decimal \<Rightarrow> candle list \<Rightarrow> decimal" where
  "filled_ratio z lower upper later =
     (let width = dsub upper lower;
          depth = (case z of Bullish \<Rightarrow> dsub upper (lowest upper later) | Bearish \<Rightarrow> dsub (highest lower later) lower)
      in max 0 (min 1 (ddiv depth width)))"

definition gap_between :: "candle \<Rightarrow> candle \<Rightarrow> (zone \<times> decimal \<times> decimal) option" where
  "gap_between first third =
     (if cd_high first < cd_low third then Some (Bullish, cd_high first, cd_low third)
      else if cd_high third < cd_low first then Some (Bearish, cd_high third, cd_low first)
      else None)"

definition fvg_at :: "candle list \<Rightarrow> nat \<Rightarrow> fair_value_gap list" where
  "fvg_at cs i =
     (case gap_between (cs ! (i - 2)) (cs ! i) of
        None \<Rightarrow> []
      | Some (z, lower, upper) \<Rightarrow>
          if dsub upper lower \<le> 0 then []
          else let filled = filled_ratio z lower upper (drop (i + 1) cs)
               in if filled < 1
                  then [\<lparr>fv_direction = z, fv_lower = lower, fv_upper = upper,
                         fv_created_at = cd_timestamp (cs ! i), fv_filled_ratio = filled\<rparr>]
                  else [])"

definition detect_fvg :: "candle list \<Rightarrow> nat \<Rightarrow> fair_value_gap list" where
  "detect_fvg cs lookback = last_five (concat (map (fvg_at cs) [max 2 (length cs - lookback)..<length cs]))"

section \<open>Order blocks\<close>

definition block_at :: "candle list \<Rightarrow> nat \<Rightarrow> order_block list" where
  "block_at cs i =
     (let source = cs ! (i - 1); impulse = cs ! i; prior = take 3 (drop (i - 4) cs);
          bullish = (cd_close source < cd_open source \<and> list_all (\<lambda>c. cd_high c < cd_close impulse) prior \<and>
            cd_open impulse < cd_close impulse);
          bearish = (cd_open source < cd_close source \<and> list_all (\<lambda>c. cd_close impulse < cd_low c) prior \<and>
            cd_close impulse < cd_open impulse);
          later = drop (i + 1) cs;
          mitigated = (if bullish then list_ex (\<lambda>c. cd_low c \<le> cd_low source) later
                       else list_ex (\<lambda>c. cd_high source \<le> cd_high c) later)
      in if \<not> bullish \<and> \<not> bearish \<or> mitigated then []
         else [\<lparr>ob_direction = (if bullish then Bullish else Bearish), ob_lower = cd_low source,
                ob_upper = cd_high source, ob_created_at = cd_timestamp source, ob_mitigated = False\<rparr>])"

definition detect_order_blocks :: "candle list \<Rightarrow> nat \<Rightarrow> order_block list" where
  "detect_order_blocks cs lookback =
     last_five (concat (map (block_at cs) [max 4 (length cs - lookback)..<length cs]))"

section \<open>The snapshot\<close>

definition ema_trend :: "decimal \<Rightarrow> decimal option \<Rightarrow> decimal option \<Rightarrow> decimal option \<Rightarrow> trend" where
  "ema_trend close ema20 ema50 ema200 =
     (case (ema20, ema50, ema200) of
        (Some e20, Some e50, Some e200) \<Rightarrow>
          if e200 < close \<and> e50 < e20 \<and> e200 < e50 then StrongBullish
          else if e200 < close \<and> e50 < e20 then BullishTrend
          else if close < e200 \<and> e20 < e50 \<and> e50 < e200 then StrongBearish
          else if close < e200 \<and> e20 < e50 then BearishTrend
          else NeutralTrend
      | _ \<Rightarrow> NeutralTrend)"

definition last_option :: "'a list \<Rightarrow> 'a option" where
  "last_option xs = (if xs = [] then None else Some (last xs))"

definition last_three :: "'a list \<Rightarrow> 'a list" where
  "last_three xs = drop (length xs - 3) xs"

definition break_of_structure :: "decimal \<Rightarrow> decimal option \<Rightarrow> decimal option \<Rightarrow> move option" where
  "break_of_structure close last_high last_low =
     (if (case last_high of None \<Rightarrow> False | Some h \<Rightarrow> h < close) then Some Up
      else if (case last_low of None \<Rightarrow> False | Some l \<Rightarrow> close < l) then Some Down
      else None)"

definition change_of_character :: "move option \<Rightarrow> trend \<Rightarrow> move option" where
  "change_of_character bos t =
     (if bos = Some Down \<and> t \<in> {BullishTrend, StrongBullish} then Some Down
      else if bos = Some Up \<and> t \<in> {BearishTrend, StrongBearish} then Some Up
      else None)"

definition analyze_structure ::
  "candle list \<Rightarrow> decimal option \<Rightarrow> decimal option \<Rightarrow> decimal option \<Rightarrow> structure_snapshot" where
  "analyze_structure cs ema20 ema50 ema200 =
     (let close = cd_close (last cs);
          t = ema_trend close ema20 ema50 ema200;
          swings = find_swings cs 2;
          highs = prices_of SwingHigh swings;
          lows = prices_of SwingLow swings;
          bos = break_of_structure close (last_option highs) (last_option lows)
      in \<lparr>st_trend = t, st_swing_structure = structure_label swings, st_bos = bos,
          st_choch = change_of_character bos t, st_last_swing_high = last_option highs,
          st_last_swing_low = last_option lows, st_fair_value_gaps = detect_fvg cs 30,
          st_order_blocks = detect_order_blocks cs 50,
          st_support_levels = rev (sorted_set (last_three lows)),
          st_resistance_levels = sorted_set (last_three highs)\<rparr>)"

section \<open>What the detectors report\<close>

lemma last_five_facts: "set (last_five xs) \<subseteq> set xs" "length (last_five xs) \<le> 5"
  by (auto simp: last_five_def dest: in_set_dropD)

lemma single_filter:
  assumes "length (filter P xs) = 1" "i < length xs" "j < length xs" "P (xs ! i)" "P (xs ! j)"
  shows "i = j"
proof -
  have "card {k. k < length xs \<and> P (xs ! k)} = 1" using assms(1) by (simp add: length_filter_conv_card)
  then obtain k where k: "{k. k < length xs \<and> P (xs ! k)} = {k}" by (rule card_1_singletonE)
  have "i \<in> {k. k < length xs \<and> P (xs ! k)}" "j \<in> {k. k < length xs \<and> P (xs ! k)}" using assms(2-) by simp_all
  then show ?thesis unfolding k by simp
qed

text \<open>A value of a candle exceeds the values of its neighbours on both sides.\<close>

definition strict_peak :: "(candle \<Rightarrow> decimal) \<Rightarrow> candle list \<Rightarrow> nat \<Rightarrow> nat \<Rightarrow> bool" where
  "strict_peak f cs w i \<longleftrightarrow>
     w \<le> i \<and> i + w < length cs \<and>
     list_all (\<lambda>j. j = i \<or> f (cs ! j) < f (cs ! i)) [i - w..<i + w + 1]"

lemma lone_extreme_peak:
  assumes "lone_extreme f (cs ! i) (neighbourhood w cs i)" "w \<le> i" "i + w < length cs"
  shows "strict_peak f cs w i"
proof -
  let ?ns = "neighbourhood w cs i"
  have len: "length ?ns = 2 * w + 1" using assms(2,3) by (simp add: neighbourhood_def)
  have nth: "k < 2 * w + 1 \<Longrightarrow> ?ns ! k = cs ! (i - w + k)" for k
    using assms(2,3) by (simp add: neighbourhood_def)
  have "f (cs ! j) < f (cs ! i)" if j: "i - w \<le> j" "j < i + w + 1" "j \<noteq> i" for j
  proof -
    have k: "j - (i - w) < 2 * w + 1" "?ns ! (j - (i - w)) = cs ! j" "?ns ! w = cs ! i"
      using j nth [of "j - (i - w)"] nth [of w] assms(2) by auto
    have "f (cs ! j) \<le> f (cs ! i)"
      using assms(1) k len unfolding lone_extreme_def list_all_length by (metis k(1,2))
    moreover have "f (cs ! j) \<noteq> f (cs ! i)"
      using single_filter [of "\<lambda>n. f n = f (cs ! i)" ?ns "j - (i - w)" w] assms(1) k len j assms(2)
      by (auto simp: lone_extreme_def)
    ultimately show ?thesis by simp
  qed
  then show ?thesis
    unfolding strict_peak_def list_all_iff using assms(2,3) by (metis atLeastLessThan_iff set_upt)
qed

definition sound_swing :: "candle list \<Rightarrow> nat \<Rightarrow> swing_point \<Rightarrow> bool" where
  "sound_swing cs w s \<longleftrightarrow>
     (case sw_kind s of
        SwingHigh \<Rightarrow> strict_peak cd_high cs w (sw_index s) \<and> sw_price s = cd_high (cs ! sw_index s)
      | SwingLow \<Rightarrow> strict_peak (\<lambda>c. - cd_low c) cs w (sw_index s) \<and> sw_price s = cd_low (cs ! sw_index s))"

lemma find_swings_sound: "list_all (sound_swing cs w) (find_swings cs w)"
proof -
  have "sound_swing cs w s" if "s \<in> set (swings_at w cs i)" "w \<le> i" "i < length cs - w" for s i
    using that lone_extreme_peak [of _ cs i w]
    by (auto simp: swings_at_def Let_def sound_swing_def split: if_splits)
  then show ?thesis by (auto simp: find_swings_def list_all_iff)
qed

definition sound_gap :: "candle list \<Rightarrow> fair_value_gap \<Rightarrow> bool" where
  "sound_gap cs g \<longleftrightarrow> fv_lower g < fv_upper g \<and> 0 \<le> fv_filled_ratio g \<and> fv_filled_ratio g < 1 \<and>
     list_ex (\<lambda>i. gap_between (cs ! (i - 2)) (cs ! i) = Some (fv_direction g, fv_lower g, fv_upper g) \<and>
       list_all (\<lambda>c. case fv_direction g of Bullish \<Rightarrow> fv_lower g < cd_low c | Bearish \<Rightarrow> cd_high c < fv_upper g)
         (drop (i + 1) cs)) [2..<length cs]"

lemma depth_below_width: "0 < dsub u l \<Longrightarrow> max 0 (min 1 (ddiv d (dsub u l))) < 1 \<Longrightarrow> d < dsub u l"
proof -
  assume w: "0 < dsub u l" and "max 0 (min 1 (ddiv d (dsub u l))) < 1"
  then have "ddiv d (dsub u l) < 1" by (simp add: max_def min_def split: if_splits)
  moreover have "1 \<le> ddiv d (dsub u l)" if "dsub u l \<le> d"
    unfolding ddiv_def using that w by (intro dec.rnd_ge_rep is_decI [of 1 1 0]) (simp_all add: le_divide_eq)
  ultimately show ?thesis by fastforce
qed

lemma unfilled_bullish:
  assumes "0 < dsub u l" "filled_ratio Bullish l u later < 1" "c \<in> set later"
  shows "l < cd_low c"
proof -
  have "dsub u (lowest u later) < dsub u l"
    using depth_below_width [OF assms(1)] assms(2) by (simp add: filled_ratio_def Let_def)
  then have "l < lowest u later"
    unfolding dsub_def using dround_mono [of "u - l" "u - lowest u later"] by (meson diff_left_mono not_le)
  moreover have "lowest u later \<le> cd_low c" using assms(3) by (auto simp: lowest_def)
  ultimately show ?thesis by simp
qed

lemma unfilled_bearish:
  assumes "0 < dsub u l" "filled_ratio Bearish l u later < 1" "c \<in> set later"
  shows "cd_high c < u"
proof -
  have "dsub (highest l later) l < dsub u l"
    using depth_below_width [OF assms(1)] assms(2) by (simp add: filled_ratio_def Let_def)
  then have "highest l later < u"
    unfolding dsub_def using dround_mono [of "u - l" "highest l later - l"] by (meson diff_right_mono not_le)
  moreover have "cd_high c \<le> highest l later" using assms(3) by (auto simp: highest_def)
  ultimately show ?thesis by simp
qed

lemma fvg_at_sound: "g \<in> set (fvg_at cs i) \<Longrightarrow> 2 \<le> i \<Longrightarrow> i < length cs \<Longrightarrow> sound_gap cs g"
proof -
  assume g: "g \<in> set (fvg_at cs i)" and i: "2 \<le> i" "i < length cs"
  then obtain z l u where gap: "gap_between (cs ! (i - 2)) (cs ! i) = Some (z, l, u)" "0 < dsub u l"
    "filled_ratio z l u (drop (i + 1) cs) < 1"
    "g = \<lparr>fv_direction = z, fv_lower = l, fv_upper = u, fv_created_at = cd_timestamp (cs ! i),
      fv_filled_ratio = filled_ratio z l u (drop (i + 1) cs)\<rparr>"
    by (auto simp: fvg_at_def Let_def split: option.splits if_splits)
  have "list_all (\<lambda>c. case z of Bullish \<Rightarrow> l < cd_low c | Bearish \<Rightarrow> cd_high c < u) (drop (i + 1) cs)"
    using unfilled_bullish [OF gap(2)] unfilled_bearish [OF gap(2)] gap(3)
    by (cases z) (auto simp: list_all_iff)
  moreover have "l < u" using gap(2) by (simp add: dec_simps)
  moreover have "0 \<le> filled_ratio z l u (drop (i + 1) cs)" by (simp add: filled_ratio_def Let_def)
  moreover have f: "fv_direction g = z" "fv_lower g = l" "fv_upper g = u"
    "fv_filled_ratio g = filled_ratio z l u (drop (i + 1) cs)" by (simp_all add: gap(4))
  ultimately show ?thesis
    unfolding sound_gap_def f list_ex_iff using gap(1,3) i by (intro conjI bexI [of _ i]) auto
qed

lemma detect_fvg_sound: "list_all (sound_gap cs) (detect_fvg cs n) \<and> length (detect_fvg cs n) \<le> 5"
  using last_five_facts fvg_at_sound [of _ cs] by (fastforce simp: detect_fvg_def list_all_iff)

definition sound_block :: "candle list \<Rightarrow> order_block \<Rightarrow> bool" where
  "sound_block cs b \<longleftrightarrow> \<not> ob_mitigated b \<and>
     list_ex (\<lambda>i. ob_lower b = cd_low (cs ! (i - 1)) \<and> ob_upper b = cd_high (cs ! (i - 1)) \<and>
       (case ob_direction b of
          Bullish \<Rightarrow> cd_close (cs ! (i - 1)) < cd_open (cs ! (i - 1)) \<and> cd_open (cs ! i) < cd_close (cs ! i) \<and>
            list_all (\<lambda>c. cd_high c < cd_close (cs ! i)) (take 3 (drop (i - 4) cs)) \<and>
            list_all (\<lambda>c. ob_lower b < cd_low c) (drop (i + 1) cs)
        | Bearish \<Rightarrow> cd_open (cs ! (i - 1)) < cd_close (cs ! (i - 1)) \<and> cd_close (cs ! i) < cd_open (cs ! i) \<and>
            list_all (\<lambda>c. cd_close (cs ! i) < cd_low c) (take 3 (drop (i - 4) cs)) \<and>
            list_all (\<lambda>c. cd_high c < ob_upper b) (drop (i + 1) cs))) [4..<length cs]"

lemma block_at_sound: "b \<in> set (block_at cs i) \<Longrightarrow> 4 \<le> i \<Longrightarrow> i < length cs \<Longrightarrow> sound_block cs b"
  unfolding block_at_def Let_def sound_block_def
  by (auto simp: list_all_iff list_ex_iff not_le split: if_splits)

lemma detect_order_blocks_sound:
  "list_all (sound_block cs) (detect_order_blocks cs n) \<and> length (detect_order_blocks cs n) \<le> 5"
  using last_five_facts block_at_sound [of _ cs] by (fastforce simp: detect_order_blocks_def list_all_iff)

lemma choch_against_trend:
  assumes "st_choch (analyze_structure cs e20 e50 e200) = Some m"
  shows "st_bos (analyze_structure cs e20 e50 e200) = Some m \<and>
    (case m of
       Up \<Rightarrow> st_trend (analyze_structure cs e20 e50 e200) \<in> {BearishTrend, StrongBearish}
     | Down \<Rightarrow> st_trend (analyze_structure cs e20 e50 e200) \<in> {BullishTrend, StrongBullish})"
  using assms by (auto simp: analyze_structure_def Let_def change_of_character_def split: if_splits)

end
