(* ===== verification/Analysis_Domain.thy ===== *)
theory Analysis_Domain
  imports Indicators Market_Structure
begin

text \<open>
  The models of \<^verbatim>\<open>app/domain/analysis.py\<close>: the causal estimates, the mathematical core, the
  indicators and the analysis of a timeframe and of all timeframes, each with the constraints of
  its fields and its model validator. A dict is an association list in insertion order.
\<close>

section \<open>Causal estimates\<close>

datatype drift = Rising | Falling | Flat

fun drift_text :: "drift \<Rightarrow> string" where
  "drift_text Rising = ''rising''"
| "drift_text Falling = ''falling''"
| "drift_text Flat = ''flat''"

datatype outlook = IntervalRising | IntervalFalling | IntervalUncertain

record causal_trend =
  ct_window :: int
  ct_log_velocity_per_bar :: decimal
  ct_log_acceleration_per_bar2 :: decimal
  ct_log_return_rms_per_bar :: decimal
  ct_velocity_to_volatility :: decimal
  ct_acceleration_to_volatility :: decimal
  ct_fit_r2 :: decimal
  ct_residual_std :: decimal
  ct_confidence :: decimal
  ct_direction :: drift

definition trend_fields_ok :: "causal_trend \<Rightarrow> bool" where
  "trend_fields_ok t \<longleftrightarrow> 5 \<le> ct_window t \<and> 0 \<le> ct_log_return_rms_per_bar t \<and>
     in_range 0 1 (ct_fit_r2 t) \<and> 0 \<le> ct_residual_std t \<and> in_range 0 1 (ct_confidence t)"

record causal_state =
  ce_window :: int
  ce_log_velocity_per_bar :: decimal
  ce_log_acceleration_per_bar2 :: decimal
  ce_velocity_std :: decimal
  ce_acceleration_std :: decimal
  ce_velocity_z :: decimal
  ce_acceleration_z :: decimal
  ce_innovation_z :: decimal
  ce_shock_score :: decimal
  ce_confidence :: decimal
  ce_direction :: drift
  ce_outlier_count :: int

definition state_fields_ok :: "causal_state \<Rightarrow> bool" where
  "state_fields_ok s \<longleftrightarrow> 20 \<le> ce_window s \<and> 0 \<le> ce_velocity_std s \<and> 0 \<le> ce_acceleration_std s \<and>
     in_range (- 20) 20 (ce_velocity_z s) \<and> in_range (- 20) 20 (ce_acceleration_z s) \<and>
     in_range (- 20) 20 (ce_innovation_z s) \<and> in_range 0 1 (ce_shock_score s) \<and>
     in_range 0 1 (ce_confidence s) \<and> 0 \<le> ce_outlier_count s"

record return_interval =
  ri_horizon_bars :: int
  ri_confidence_level :: decimal
  ri_predicted_log_return :: decimal
  ri_lower_log_return :: decimal
  ri_upper_log_return :: decimal
  ri_half_width :: decimal
  ri_calibration_size :: int
  ri_coverage_sample_size :: int
  ri_empirical_coverage :: decimal
  ri_direction :: outlook

definition interval_fields_ok :: "return_interval \<Rightarrow> bool" where
  "interval_fields_ok i \<longleftrightarrow> ri_horizon_bars i = 1 \<and> in_range 0 1 (ri_confidence_level i) \<and>
     0 \<le> ri_half_width i \<and> 20 \<le> ri_calibration_size i \<and> 1 \<le> ri_coverage_sample_size i \<and>
     in_range 0 1 (ri_empirical_coverage i)"

definition validate_interval_geometry :: "return_interval \<Rightarrow> return_interval result" where
  "validate_interval_geometry i =
     (if \<not> interval_fields_ok i then Inl field_constraint
      else if \<not> (ri_lower_log_return i \<le> ri_predicted_log_return i \<and>
          ri_predicted_log_return i \<le> ri_upper_log_return i)
        then Inl (ValueError ''predicted return must lie inside conformal interval'')
      else if ri_direction i = IntervalRising \<and> ri_lower_log_return i \<le> 0
        then Inl (ValueError ''rising conformal interval must be strictly positive'')
      else if ri_direction i = IntervalFalling \<and> 0 \<le> ri_upper_log_return i
        then Inl (ValueError ''falling conformal interval must be strictly negative'')
      else if ri_direction i = IntervalUncertain \<and> \<not> (ri_lower_log_return i \<le> 0 \<and> 0 \<le> ri_upper_log_return i)
        then Inl (ValueError ''uncertain conformal interval must cross zero'')
      else Inr i)"

section \<open>The mathematical core\<close>

datatype validation_level = Analytical | Prequential | Auxiliary

record core_component =
  cc_code :: string
  cc_signal :: decimal
  cc_reliability :: decimal
  cc_validation_level :: validation_level
  cc_validation_sample_size :: int
  cc_validation_metric :: "decimal option"
  cc_detail :: string

definition component_fields_ok :: "core_component \<Rightarrow> bool" where
  "component_fields_ok c \<longleftrightarrow> in_range (- 1) 1 (cc_signal c) \<and> in_range 0 1 (cc_reliability c) \<and>
     0 \<le> cc_validation_sample_size c \<and>
     (case cc_validation_metric c of None \<Rightarrow> True | Some m \<Rightarrow> in_range 0 1 m)"

datatype core_status = CoreLong | CoreShort | CoreNeutral | CoreUnstable | CoreInsufficient

record core_snapshot =
  co_status :: core_status
  co_directional_score :: decimal
  co_confidence :: decimal
  co_coverage :: decimal
  co_consensus :: decimal
  co_instability :: decimal
  co_auxiliary_directional_score :: decimal
  co_auxiliary_confidence :: decimal
  co_components :: "core_component list"

definition core_fields_ok :: "core_snapshot \<Rightarrow> bool" where
  "core_fields_ok c \<longleftrightarrow> in_range (- 1) 1 (co_directional_score c) \<and> in_range 0 1 (co_confidence c) \<and>
     in_range 0 1 (co_coverage c) \<and> in_range 0 1 (co_consensus c) \<and> in_range 0 1 (co_instability c) \<and>
     in_range (- 1) 1 (co_auxiliary_directional_score c) \<and> in_range 0 1 (co_auxiliary_confidence c) \<and>
     list_all component_fields_ok (co_components c)"

text \<open>The components that may carry an execution: validated and reliable.\<close>

definition executable_component :: "core_component \<Rightarrow> bool" where
  "executable_component c \<longleftrightarrow> cc_validation_level c \<noteq> Auxiliary \<and> 0 < cc_reliability c"

definition validate_status_geometry :: "core_snapshot \<Rightarrow> core_snapshot result" where
  "validate_status_geometry c =
     (if \<not> core_fields_ok c then Inl field_constraint
      else if \<not> distinct (map cc_code (co_components c))
        then Inl (ValueError ''mathematical core component codes must be unique'')
      else if co_status c = CoreLong \<and> \<not> (25 / 100 \<le> co_directional_score c \<and> 20 / 100 \<le> co_confidence c \<and>
          list_ex executable_component (co_components c))
        then Inl (ValueError ''long mathematical state lacks directional support'')
      else if co_status c = CoreShort \<and> \<not> (co_directional_score c \<le> - (25 / 100) \<and> 20 / 100 \<le> co_confidence c \<and>
          list_ex executable_component (co_components c))
        then Inl (ValueError ''short mathematical state lacks directional support'')
      else if co_status c = CoreUnstable \<and> co_instability c < 65 / 100
        then Inl (ValueError ''unstable mathematical state requires instability'')
      else if co_status c = CoreInsufficient \<and> 35 / 100 \<le> co_coverage c
        then Inl (ValueError ''insufficient mathematical state requires low coverage'')
      else Inr c)"

section \<open>Indicators and analyses\<close>

record indicator_snapshot =
  ix_ema20 :: "decimal option"
  ix_ema50 :: "decimal option"
  ix_ema200 :: "decimal option"
  ix_atr14 :: "decimal option"
  ix_atr_pct :: "decimal option"
  ix_rsi14 :: "decimal option"
  ix_macd :: "decimal option"
  ix_macd_signal :: "decimal option"
  ix_macd_histogram :: "decimal option"
  ix_adx14 :: "decimal option"
  ix_vwap :: "decimal option"
  ix_volume_ratio20 :: "decimal option"
  ix_causal_trend :: "causal_trend option"
  ix_causal_state :: "causal_state option"
  ix_return_interval :: "return_interval option"

datatype volatility = LowVolatility | NormalVolatility | HighVolatility | ExtremeVolatility

datatype bias = LongBias | ShortBias | NeutralBias

record timeframe_analysis =
  ta_timeframe :: string
  ta_candle_count :: nat
  ta_last_closed_at :: timestamp
  ta_close :: decimal
  ta_data_quality_ok :: bool
  ta_data_quality_issues :: "string list"
  ta_indicators :: indicator_snapshot
  ta_structure :: structure_snapshot
  ta_volatility :: volatility
  ta_directional_bias :: bias
  ta_evidence :: "string list"
  ta_counter_evidence :: "string list"

type_synonym views = "(string \<times> timeframe_analysis) list"

record multi_analysis =
  ma_symbol :: string
  ma_instrument_id :: string
  ma_price :: decimal
  ma_regime :: string
  ma_overall_bias :: bias
  ma_alignment_score :: int
  ma_trade_ready :: bool
  ma_blockers :: "string list"
  ma_timeframe_analyses :: views
  ma_mathematical_core :: "core_snapshot option"

text \<open>The estimates inside a view satisfy the constraints of their models.\<close>

definition view_ok :: "timeframe_analysis \<Rightarrow> bool" where
  "view_ok v \<longleftrightarrow>
     (case ix_causal_trend (ta_indicators v) of None \<Rightarrow> True | Some t \<Rightarrow> trend_fields_ok t) \<and>
     (case ix_causal_state (ta_indicators v) of None \<Rightarrow> True | Some s \<Rightarrow> state_fields_ok s) \<and>
     (case ix_return_interval (ta_indicators v) of None \<Rightarrow> True | Some i \<Rightarrow> interval_fields_ok i)"

definition views_ok :: "views \<Rightarrow> bool" where
  "views_ok vs \<longleftrightarrow> list_all (\<lambda>(_, v). view_ok v) vs"

lemma views_ok_get: "views_ok vs \<Longrightarrow> map_of vs tf = Some v \<Longrightarrow> view_ok v"
  by (auto simp: views_ok_def list_all_iff dest: map_of_SomeD)

end
