(* ===== verification/Mathematical_Core.thy ===== *)
theory Mathematical_Core
  imports Analysis_Domain
begin

text \<open>
  The fusion of the analysis families into one snapshot (\<^verbatim>\<open>app/analysis/mathematical_core.py\<close>) and
  its reading for one direction (\<open>mathematical_confirmation\<close> and \<open>derivative_confirmation\<close> in
  \<^verbatim>\<open>app/strategies/\<close>).

  Lemmas: over views whose estimates satisfy their models, the fusion returns a snapshot that
  passes its own validator, and both confirmations pass theirs: none of these models raises.
\<close>

section \<open>Weights\<close>

definition timeframe_weights :: "(string \<times> decimal) list" where
  "timeframe_weights = [(''4H'', 35 / 100), (''1H'', 30 / 100), (''15m'', 25 / 100), (''5m'', 10 / 100)]"

definition execution_method_weights :: "(string \<times> decimal) list" where
  "execution_method_weights = [(''derivative'', ddiv 1 3), (''state'', ddiv 1 3), (''conformal'', ddiv 1 3)]"

definition auxiliary_method_weights :: "(string \<times> decimal) list" where
  "auxiliary_method_weights = [(''structure'', ddiv 1 2), (''momentum'', ddiv 1 2)]"

definition min_prequential_coverage_samples :: int where
  "min_prequential_coverage_samples = 30"

definition wilson_z :: decimal where
  "wilson_z = 1959963984540054 / 1000000000000000"

definition core_epsilon :: decimal where
  "core_epsilon = 1 / 10 ^ 30"

fun volatility_reliability :: "volatility \<Rightarrow> decimal" where
  "volatility_reliability LowVolatility = 85 / 100"
| "volatility_reliability NormalVolatility = 1"
| "volatility_reliability HighVolatility = 70 / 100"
| "volatility_reliability ExtremeVolatility = 20 / 100"

definition quality_weight :: "timeframe_analysis \<Rightarrow> decimal" where
  "quality_weight v = (if ta_data_quality_ok v then 1 else 0)"

section \<open>Coverage of the conformal interval\<close>

definition conformal_coverage_is_valid :: "return_interval \<Rightarrow> bool result" where
  "conformal_coverage_is_valid i =
     (if ri_coverage_sample_size i < min_prequential_coverage_samples then Inr False
      else
        let n = of_int (ri_coverage_sample_size i);
            observed = ri_empirical_coverage i;
            z2 = dmul wilson_z wilson_z;
            denominator = dadd 1 (ddiv z2 n);
            center = ddiv (dadd observed (ddiv z2 (dmul 2 n))) denominator;
            variance = dadd (ddiv (dmul observed (dsub 1 observed)) n) (ddiv z2 (dmul (dmul 4 n) n))
        in bind_result (dsqrt variance) (\<lambda>root.
          let half_width = ddiv (dmul wilson_z root) denominator
          in Inr (dsub center half_width \<le> ri_confidence_level i \<and>
               ri_confidence_level i \<le> dadd center half_width)))"

fun all_result :: "('a \<Rightarrow> bool result) \<Rightarrow> 'a list \<Rightarrow> bool result" where
  "all_result f [] = Inr True"
| "all_result f (x # xs) = bind_result (f x) (\<lambda>b. if b then all_result f xs else Inr False)"

definition intervals_of :: "views \<Rightarrow> return_interval list" where
  "intervals_of views =
     concat (map (\<lambda>(tf, _). case map_of views tf of None \<Rightarrow> []
       | Some v \<Rightarrow> (case ix_return_interval (ta_indicators v) of None \<Rightarrow> [] | Some i \<Rightarrow> [i])) timeframe_weights)"

definition component_validation ::
  "string \<Rightarrow> views \<Rightarrow> (validation_level \<times> int \<times> decimal option) result" where
  "component_validation code views =
     (if code = ''derivative'' \<or> code = ''state'' then Inr (Analytical, 0, None)
      else if code \<noteq> ''conformal'' then Inr (Auxiliary, 0, None)
      else
        let intervals = intervals_of views
        in if intervals = [] then Inr (Auxiliary, 0, None)
           else
             let sample_size = Min (set (map ri_coverage_sample_size intervals));
                 mean_coverage = ddiv (dsum (map ri_empirical_coverage intervals)) (of_nat (length intervals))
             in bind_result (all_result conformal_coverage_is_valid intervals) (\<lambda>valid.
                  Inr (if valid then Prequential else Auxiliary, sample_size, Some mean_coverage)))"

section \<open>Local signals\<close>

fun trend_signal :: "trend \<Rightarrow> decimal" where
  "trend_signal StrongBullish = 1"
| "trend_signal BullishTrend = 70 / 100"
| "trend_signal NeutralTrend = 0"
| "trend_signal BearishTrend = - (70 / 100)"
| "trend_signal StrongBearish = - 1"

definition shifted :: "move option \<Rightarrow> decimal \<Rightarrow> decimal \<Rightarrow> decimal" where
  "shifted m d x = (case m of None \<Rightarrow> x | Some Up \<Rightarrow> dadd x d | Some Down \<Rightarrow> dsub x d)"

definition vwap_move :: "timeframe_analysis \<Rightarrow> move option" where
  "vwap_move v = (case ix_vwap (ta_indicators v) of None \<Rightarrow> None
     | Some w \<Rightarrow> if w < ta_close v then Some Up else if ta_close v < w then Some Down else None)"

definition structure_signal :: "timeframe_analysis \<Rightarrow> (decimal \<times> decimal) option" where
  "structure_signal v =
     (let signal = shifted (vwap_move v) (10 / 100)
            (shifted (st_choch (ta_structure v)) (25 / 100)
              (shifted (st_bos (ta_structure v)) (15 / 100) (trend_signal (st_trend (ta_structure v)))));
          strength = (case ix_adx14 (ta_indicators v) of None \<Rightarrow> 50 / 100
            | Some a \<Rightarrow> dadd (50 / 100) (dmul (50 / 100) (dclamp (ddiv (dsub a 15) 20) 0 1)))
      in Some (dclamp signal (- 1) 1,
           dmul (dmul (quality_weight v) strength) (volatility_reliability (ta_volatility v))))"

definition momentum_signal :: "timeframe_analysis \<Rightarrow> (decimal \<times> decimal) option" where
  "momentum_signal v =
     (case (ix_macd_histogram (ta_indicators v), ix_rsi14 (ta_indicators v)) of
        (Some histogram, Some r) \<Rightarrow>
          let histogram_signal = (if 0 < histogram then 1 else if histogram < 0 then - 1 else 0);
              rsi_signal = dclamp (ddiv (dsub r 50) 22) (- 1) 1;
              signal = dadd (dmul (65 / 100) histogram_signal) (dmul (35 / 100) rsi_signal);
              volume = (case ix_volume_ratio20 (ta_indicators v) of None \<Rightarrow> 50 / 100
                | Some x \<Rightarrow> dclamp x (25 / 100) 1)
          in Some (dclamp signal (- 1) 1,
               dmul (dmul (quality_weight v) (volatility_reliability (ta_volatility v))) volume)
      | _ \<Rightarrow> None)"

definition derivative_signal :: "timeframe_analysis \<Rightarrow> (decimal \<times> decimal) option" where
  "derivative_signal v =
     (case ix_causal_trend (ta_indicators v) of None \<Rightarrow> None
      | Some t \<Rightarrow>
          let signal = dclamp (dadd (dmul (80 / 100) (dclamp (ct_velocity_to_volatility t) (- 1) 1))
                (dmul (20 / 100) (dclamp (ct_acceleration_to_volatility t) (- 1) 1))) (- 1) 1;
              stability = (case ix_causal_state (ta_indicators v) of None \<Rightarrow> 1 | Some s \<Rightarrow> dsub 1 (ce_shock_score s));
              reliability = dmul (dmul (dmul (quality_weight v) (ct_confidence t))
                (dadd (50 / 100) (dmul (50 / 100) (ct_fit_r2 t)))) stability
          in Some (signal, dclamp reliability 0 1))"

definition state_signal :: "timeframe_analysis \<Rightarrow> (decimal \<times> decimal) option" where
  "state_signal v =
     (case ix_causal_state (ta_indicators v) of None \<Rightarrow> None
      | Some s \<Rightarrow>
          let signal = dclamp (dadd (dmul (80 / 100) (dclamp (ddiv (ce_velocity_z s) 3) (- 1) 1))
                (dmul (20 / 100) (dclamp (ddiv (ce_acceleration_z s) 3) (- 1) 1))) (- 1) 1;
              reliability = dmul (dmul (dmul (quality_weight v) (ce_confidence s)) (dsub 1 (ce_shock_score s)))
                (volatility_reliability (ta_volatility v))
          in Some (signal, dclamp reliability 0 1))"

definition conformal_signal :: "timeframe_analysis \<Rightarrow> (decimal \<times> decimal) option" where
  "conformal_signal v =
     (case ix_return_interval (ta_indicators v) of None \<Rightarrow> None
      | Some i \<Rightarrow>
          let denominator = dadd (dadd (dabs (ri_predicted_log_return i)) (ri_half_width i)) core_epsilon;
              signal = (if 0 < ri_lower_log_return i then 1 else if ri_upper_log_return i < 0 then - 1
                else ddiv (ri_predicted_log_return i) denominator);
              strength = ddiv (dabs (ri_predicted_log_return i)) denominator;
              reliability = dmul (dmul (dmul (quality_weight v) (ri_empirical_coverage i)) strength)
                (volatility_reliability (ta_volatility v))
          in Some (dclamp signal (- 1) 1, dclamp reliability 0 1))"

section \<open>Fusion\<close>

definition aggregate_step ::
  "views \<Rightarrow> (timeframe_analysis \<Rightarrow> (decimal \<times> decimal) option) \<Rightarrow> decimal \<times> decimal \<Rightarrow> string \<times> decimal \<Rightarrow> decimal \<times> decimal" where
  "aggregate_step views extractor acc entry =
     (case acc of (numerator, effective_weight) \<Rightarrow> case entry of (tf, tf_weight) \<Rightarrow>
        case map_of views tf of None \<Rightarrow> acc
        | Some v \<Rightarrow> (case extractor v of None \<Rightarrow> acc
          | Some (signal, reliability) \<Rightarrow>
              let weight = dmul tf_weight reliability
              in (dadd numerator (dmul weight signal), dadd effective_weight weight)))"

definition aggregate_component ::
  "string \<Rightarrow> views \<Rightarrow> (timeframe_analysis \<Rightarrow> (decimal \<times> decimal) option) \<Rightarrow> core_component result" where
  "aggregate_component code views extractor =
     (case foldl (aggregate_step views extractor) (0, 0) timeframe_weights of (numerator, effective_weight) \<Rightarrow>
        let signal = (if effective_weight = 0 then 0 else ddiv numerator effective_weight)
        in bind_result (component_validation code views) (\<lambda>(level, sample_size, metric).
             let c = \<lparr>cc_code = code, cc_signal = dclamp signal (- 1) 1, cc_reliability = dclamp effective_weight 0 1,
                   cc_validation_level = level, cc_validation_sample_size = sample_size,
                   cc_validation_metric = metric, cc_detail = code @ ''_multi_timeframe_causal_aggregate''\<rparr>
             in if component_fields_ok c then Inr c else Inl field_constraint))"

definition fuse_components ::
  "core_component list \<Rightarrow> (string \<times> decimal) list \<Rightarrow> bool \<Rightarrow> decimal \<Rightarrow> decimal \<times> decimal \<times> decimal" where
  "fuse_components components weights auxiliary coverage_scale =
     (let selected = filter (\<lambda>c. cc_code c \<in> fst ` set weights \<and>
            (if auxiliary then cc_validation_level c = Auxiliary else cc_validation_level c \<noteq> Auxiliary)) components;
          effective_weights = map (\<lambda>c. dmul (the (map_of weights (cc_code c))) (cc_reliability c)) selected;
          denominator = dsum effective_weights
      in if denominator = 0 then (0, 0, 0)
         else
           let directional_score = ddiv (dsum (map2 (\<lambda>w c. dmul w (cc_signal c)) effective_weights selected)) denominator;
               disagreement = ddiv (dsum (map2 (\<lambda>w c. dmul w (dabs (dsub (cc_signal c) directional_score)))
                 effective_weights selected)) (dmul 2 denominator)
           in (dclamp directional_score (- 1) 1, dclamp (ddiv denominator coverage_scale) 0 1,
               dclamp (dsub 1 disagreement) 0 1))"

fun volatility_risk :: "volatility \<Rightarrow> decimal" where
  "volatility_risk LowVolatility = 0"
| "volatility_risk NormalVolatility = 0"
| "volatility_risk HighVolatility = 25 / 100"
| "volatility_risk ExtremeVolatility = 80 / 100"

definition instability_step :: "views \<Rightarrow> decimal \<times> decimal \<Rightarrow> string \<times> decimal \<Rightarrow> decimal \<times> decimal" where
  "instability_step views acc entry =
     (case acc of (numerator, denominator) \<Rightarrow> case entry of (tf, weight) \<Rightarrow>
        case map_of views tf of None \<Rightarrow> acc
        | Some v \<Rightarrow>
            let shock = (case ix_causal_state (ta_indicators v) of None \<Rightarrow> 0 | Some s \<Rightarrow> ce_shock_score s);
                data_risk = (if ta_data_quality_ok v then 0 else 1)
            in (dadd numerator (dmul weight (max (max shock (volatility_risk (ta_volatility v))) data_risk)),
                dadd denominator weight))"

definition instability_of :: "views \<Rightarrow> decimal" where
  "instability_of views =
     (case foldl (instability_step views) (0, 0) timeframe_weights of (numerator, denominator) \<Rightarrow>
        if denominator = 0 then 1 else dclamp (ddiv numerator denominator) 0 1)"

definition core_confidence :: "decimal \<Rightarrow> decimal \<Rightarrow> decimal \<Rightarrow> decimal \<Rightarrow> decimal" where
  "core_confidence coverage consensus score instability =
     dclamp (dmul (dmul (dmul coverage consensus) (dabs score)) (dsub 1 instability)) 0 1"

definition core_status_of :: "views \<Rightarrow> decimal \<Rightarrow> decimal \<Rightarrow> decimal \<Rightarrow> decimal \<Rightarrow> core_status" where
  "core_status_of views instability coverage score confidence =
     (if \<not> list_ex (\<lambda>(tf, _). map_of views tf \<noteq> None) timeframe_weights then CoreInsufficient
      else if 65 / 100 \<le> instability then CoreUnstable
      else if coverage < 35 / 100 then CoreInsufficient
      else if 25 / 100 \<le> score \<and> 20 / 100 \<le> confidence then CoreLong
      else if score \<le> - (25 / 100) \<and> 20 / 100 \<le> confidence then CoreShort
      else CoreNeutral)"

definition core_components :: "views \<Rightarrow> core_component list result" where
  "core_components views =
     bind_result (aggregate_component ''structure'' views structure_signal) (\<lambda>a.
     bind_result (aggregate_component ''momentum'' views momentum_signal) (\<lambda>b.
     bind_result (aggregate_component ''derivative'' views derivative_signal) (\<lambda>c.
     bind_result (aggregate_component ''state'' views state_signal) (\<lambda>d.
     bind_result (aggregate_component ''conformal'' views conformal_signal) (\<lambda>e.
     Inr [a, b, c, d, e])))))"

definition mathematical_core_snapshot :: "views \<Rightarrow> core_snapshot result" where
  "mathematical_core_snapshot views =
     bind_result (core_components views) (\<lambda>components.
     case fuse_components components execution_method_weights False 1 of (score, coverage, consensus) \<Rightarrow>
     case fuse_components components auxiliary_method_weights True 1 of (aux_score, aux_coverage, aux_consensus) \<Rightarrow>
     let instability = instability_of views;
         confidence = core_confidence coverage consensus score instability
     in validate_status_geometry
          \<lparr>co_status = core_status_of views instability coverage score confidence,
           co_directional_score = dclamp score (- 1) 1, co_confidence = confidence, co_coverage = coverage,
           co_consensus = consensus, co_instability = instability, co_auxiliary_directional_score = aux_score,
           co_auxiliary_confidence = core_confidence aux_coverage aux_consensus aux_score instability,
           co_components = components\<rparr>)"

section \<open>Confirmations\<close>

definition signed :: "direction \<Rightarrow> decimal \<Rightarrow> decimal" where
  "signed d x = dmul (case d of Long \<Rightarrow> 1 | Short \<Rightarrow> - 1) x"

definition insufficient_confirmation :: mathematical_confirmation where
  "insufficient_confirmation =
     \<lparr>mc_status = MInsufficient, mc_risk_grade = GradeLow, mc_confidence = 0, mc_directional_support = 0,
      mc_reliability = 0, mc_coverage = 0, mc_consensus = 0, mc_instability = 0, mc_component_codes = [],
      mc_auxiliary_bonus = 0, mc_auxiliary_directional_support = 0, mc_auxiliary_component_codes = []\<rparr>"

definition confirmation_grade :: "core_snapshot \<Rightarrow> decimal \<Rightarrow> decimal \<Rightarrow> math_status \<times> risk_grade" where
  "confirmation_grade core support reliability =
     (if co_status core = CoreUnstable then (MUnstable, GradeBlocked)
      else if support \<le> - (25 / 100) \<and> 20 / 100 \<le> co_confidence core then (MOpposed, GradeBlocked)
      else if 25 / 100 \<le> support \<and> 20 / 100 \<le> co_confidence core then
        (MConfirmed,
         if 65 / 100 \<le> co_confidence core \<and> 65 / 100 \<le> reliability \<and> co_instability core \<le> 20 / 100 then GradeHigh
         else if 35 / 100 \<le> co_confidence core \<and> 45 / 100 \<le> reliability then GradeMedium
         else GradeLow)
      else if co_status core = CoreInsufficient then (MInsufficient, GradeLow)
      else (MMixed, GradeLow))"

definition confirmation_of_core :: "core_snapshot \<Rightarrow> direction \<Rightarrow> mathematical_confirmation" where
  "confirmation_of_core core d =
     (let support = signed d (co_directional_score core);
          reliability = dmul (dmul (co_coverage core) (co_consensus core)) (dsub 1 (co_instability core));
          aux_support = signed d (co_auxiliary_directional_score core);
          aux_codes = map cc_code (filter (\<lambda>c. cc_validation_level c = Auxiliary \<and> 0 < cc_reliability c) (co_components core));
          (st, grade) = confirmation_grade core support reliability;
          bonus = (if 0 < aux_support \<and> aux_codes \<noteq> [] then min 5 (trunc (dmul 5 (co_auxiliary_confidence core))) else 0)
      in \<lparr>mc_status = st, mc_risk_grade = grade, mc_confidence = co_confidence core,
          mc_directional_support = max (- 1) (min 1 support), mc_reliability = max 0 (min 1 reliability),
          mc_coverage = co_coverage core, mc_consensus = co_consensus core, mc_instability = co_instability core,
          mc_component_codes = map cc_code (filter executable_component (co_components core)),
          mc_auxiliary_bonus = (if grade = GradeBlocked then 0 else bonus),
          mc_auxiliary_directional_support = max (- 1) (min 1 aux_support), mc_auxiliary_component_codes = aux_codes\<rparr>)"

definition mathematical_confirmation_of :: "core_snapshot option \<Rightarrow> direction \<Rightarrow> mathematical_confirmation result" where
  "mathematical_confirmation_of core d =
     validate_monotonic_risk_grade (case core of None \<Rightarrow> insufficient_confirmation | Some c \<Rightarrow> confirmation_of_core c d)"

record derivative_tally =
  dt_qualified :: "string list"
  dt_aligned :: "string list"
  dt_opposed :: "string list"
  dt_qualified_weight :: decimal
  dt_confidence :: decimal
  dt_support_numerator :: decimal
  dt_support_weight :: decimal

definition empty_tally :: derivative_tally where
  "empty_tally = \<lparr>dt_qualified = [], dt_aligned = [], dt_opposed = [], dt_qualified_weight = 0,
     dt_confidence = 0, dt_support_numerator = 0, dt_support_weight = 0\<rparr>"

definition derivative_step ::
  "views \<Rightarrow> direction \<Rightarrow> derivative_tally \<Rightarrow> string \<times> decimal \<Rightarrow> derivative_tally" where
  "derivative_step views d acc entry =
     (case entry of (tf, tf_weight) \<Rightarrow>
        case map_of views tf of None \<Rightarrow> acc
        | Some v \<Rightarrow> (case ix_causal_trend (ta_indicators v) of None \<Rightarrow> acc
          | Some t \<Rightarrow>
              if ct_confidence t < 20 / 100 \<or> ct_fit_r2 t < 35 / 100 then acc
              else
                let velocity = dclamp (signed d (ct_velocity_to_volatility t)) (- 1) 1;
                    acceleration = dclamp (signed d (ct_acceleration_to_volatility t)) (- 1) 1;
                    local = dclamp (dadd (dmul (80 / 100) velocity) (dmul (20 / 100) acceleration)) (- 1) 1;
                    weighted = dmul tf_weight (ct_confidence t)
                in acc\<lparr>dt_qualified := dt_qualified acc @ [tf],
                     dt_qualified_weight := dadd (dt_qualified_weight acc) tf_weight,
                     dt_confidence := dadd (dt_confidence acc) weighted,
                     dt_support_numerator := dadd (dt_support_numerator acc) (dmul weighted local),
                     dt_support_weight := dadd (dt_support_weight acc) weighted,
                     dt_aligned := dt_aligned acc @ (if 10 / 100 \<le> local then [tf] else []),
                     dt_opposed := dt_opposed acc @
                       (if \<not> 10 / 100 \<le> local \<and> local \<le> - (10 / 100) then [tf] else [])\<rparr>))"

definition derivative_confirmation_of :: "views \<Rightarrow> direction \<Rightarrow> derivative_confirmation result" where
  "derivative_confirmation_of views d =
     (let t = foldl (derivative_step views d) empty_tally timeframe_weights;
          score = (if dt_support_weight t = 0 then 0
            else dclamp (ddiv (dt_support_numerator t) (dt_support_weight t)) (- 1) 1);
          st = (if length (dt_qualified t) < 2 \<or> dt_qualified_weight t < 50 / 100 then DInsufficient
            else if 35 / 100 \<le> score \<and> 2 \<le> length (dt_aligned t) \<and>
                (''15m'' \<in> set (dt_aligned t) \<or> ''5m'' \<in> set (dt_aligned t)) then DConfirmed
            else if score \<le> - (35 / 100) \<and> 2 \<le> length (dt_opposed t) then DOpposed
            else DMixed)
      in validate_derivative_confirmation
           \<lparr>dc_status = st, dc_confidence = dclamp (dt_confidence t) 0 1, dc_alignment_score = score,
            dc_qualified_timeframes = dt_qualified t, dc_aligned_timeframes = dt_aligned t,
            dc_opposed_timeframes = dt_opposed t\<rparr>)"

section \<open>The fusion passes its validator\<close>

lemma in_range_dclamp [simp]: "lo \<le> hi \<Longrightarrow> in_range lo hi (dclamp x lo hi)"
  using dclamp_bounds [of lo hi x] by (simp add: in_range_def)

lemma foldl_dadd_zero: "list_all (\<lambda>x. x = 0) xs \<Longrightarrow> foldl dadd 0 xs = 0"
  by (induction xs) (simp_all add: dadd_def)

lemma foldl_dadd_count:
  "list_all (\<lambda>x. x \<le> 1) xs \<Longrightarrow> a \<le> of_nat k \<Longrightarrow> k + length xs < 10 ^ 28 \<Longrightarrow> foldl dadd a xs \<le> of_nat (k + length xs)"
proof (induction xs arbitrary: a k)
  case (Cons x xs)
  have "is_dec (of_nat (k + 1))"
    using Cons.prems(3) by (intro is_decI [of _ "int (k + 1)" 0]) (auto simp: of_nat_less_iff [symmetric] simp del: of_nat_less_iff)
  then have "dadd a x \<le> of_nat (k + 1)" unfolding dadd_def using Cons.prems by (intro dec.rnd_le_rep) auto
  then show ?case using Cons.IH [of "dadd a x" "k + 1"] Cons.prems by simp
qed simp

lemma mean_of_unit:
  assumes "list_all (in_range 0 1) xs" "xs \<noteq> []" "length xs < 10 ^ 28"
  shows "in_range 0 1 (ddiv (dsum xs) (of_nat (length xs)))"
proof -
  have "dsum xs \<le> of_nat (length xs)" "0 \<le> dsum xs"
    using foldl_dadd_count [of xs 0 0] assms
    by (auto simp: dsum_def in_range_def list_all_iff intro!: foldl_dadd_nonneg)
  then have "0 \<le> dsum xs / of_nat (length xs)" "dsum xs / of_nat (length xs) \<le> 1"
    using assms(2) by (simp_all add: divide_le_eq)
  then show ?thesis
    unfolding in_range_def ddiv_def by (auto intro: dec.rnd_nonneg dec.rnd_le_rep is_dec_small_numerals)
qed

lemma conformal_coverage_returns:
  assumes "interval_fields_ok i"
  shows "\<exists>b. conformal_coverage_is_valid i = Inr b"
proof (cases "ri_coverage_sample_size i < min_prequential_coverage_samples")
  case False
  let ?n = "of_int (ri_coverage_sample_size i) :: decimal"
  have n: "0 < ?n" using False by (simp add: min_prequential_coverage_samples_def)
  have o: "0 \<le> ri_empirical_coverage i" "ri_empirical_coverage i \<le> 1"
    using assms by (auto simp: interval_fields_ok_def in_range_def)
  have "0 \<le> dadd (ddiv (dmul (ri_empirical_coverage i) (dsub 1 (ri_empirical_coverage i))) ?n)
      (ddiv (dmul wilson_z wilson_z) (dmul (dmul 4 ?n) ?n))"
    using n o by (auto simp: dec_simps intro!: add_nonneg_nonneg divide_nonneg_nonneg mult_nonneg_nonneg)
  from dsqrt_Inr [OF this] show ?thesis using False by (auto simp: conformal_coverage_is_valid_def Let_def)
qed (auto simp: conformal_coverage_is_valid_def)

lemma all_result_returns: "list_all (\<lambda>x. \<exists>b. f x = Inr b) xs \<Longrightarrow> \<exists>b. all_result f xs = Inr b"
  by (induction xs) auto

lemma intervals_ok:
  assumes "views_ok vs"
  shows "list_all interval_fields_ok (intervals_of vs)"
proof -
  have "interval_fields_ok i" if i: "i \<in> set (intervals_of vs)" for i
  proof -
    obtain tf where tf: "i \<in> set (case map_of vs tf of None \<Rightarrow> []
        | Some v \<Rightarrow> (case ix_return_interval (ta_indicators v) of None \<Rightarrow> [] | Some i \<Rightarrow> [i]))"
      using i by (auto simp: intervals_of_def)
    obtain v where v: "map_of vs tf = Some v" "ix_return_interval (ta_indicators v) = Some i"
      using tf by (cases "map_of vs tf") (auto split: option.split_asm)
    show ?thesis using views_ok_get [OF assms v(1)] v(2) by (simp add: view_ok_def)
  qed
  then show ?thesis by (simp add: list_all_iff)
qed

lemma intervals_few: "length (intervals_of vs) \<le> 4"
  by (simp add: intervals_of_def timeframe_weights_def split: option.split)

lemma component_validation_ok:
  assumes "views_ok vs"
  shows "\<exists>l n m. component_validation code vs = Inr (l, n, m) \<and> 0 \<le> n \<and>
    (case m of None \<Rightarrow> True | Some x \<Rightarrow> in_range 0 1 x)"
proof (cases "code = ''conformal'' \<and> intervals_of vs \<noteq> []")
  case True
  let ?is = "intervals_of vs"
  have ok: "list_all interval_fields_ok ?is" using intervals_ok assms by blast
  obtain b where b: "all_result conformal_coverage_is_valid ?is = Inr b"
    using all_result_returns [of conformal_coverage_is_valid ?is] conformal_coverage_returns ok
    by (auto simp: list_all_iff)
  have "in_range 0 1 (ddiv (dsum (map ri_empirical_coverage ?is)) (of_nat (length ?is)))"
    using mean_of_unit [of "map ri_empirical_coverage ?is"] ok True intervals_few [of vs]
    by (simp add: list_all_iff interval_fields_ok_def)
  moreover have "0 \<le> Min (set (map ri_coverage_sample_size ?is))"
    using True ok by (auto simp: list_all_iff interval_fields_ok_def intro!: Min.boundedI)
  ultimately show ?thesis using True b by (simp add: component_validation_def Let_def)
qed (auto simp: component_validation_def Let_def)

lemma aggregate_component_ok:
  assumes "views_ok vs"
  shows "\<exists>c. aggregate_component code vs f = Inr c \<and> component_fields_ok c \<and> cc_code c = code \<and>
    ((\<forall>tf \<in> fst ` set timeframe_weights. map_of vs tf = None) \<longrightarrow> cc_reliability c = 0)"
proof -
  obtain num wt where acc: "foldl (aggregate_step vs f) (0, 0) timeframe_weights = (num, wt)"
    by (cases "foldl (aggregate_step vs f) (0, 0) timeframe_weights")
  obtain l n m where v: "component_validation code vs = Inr (l, n, m)" "0 \<le> n"
    "case m of None \<Rightarrow> True | Some x \<Rightarrow> in_range 0 1 x"
    using component_validation_ok [OF assms] by blast
  have "wt = 0" if "\<forall>tf \<in> fst ` set timeframe_weights. map_of vs tf = None"
    using acc that by (simp add: timeframe_weights_def aggregate_step_def)
  then show ?thesis
    using v by (auto simp: aggregate_component_def acc Let_def component_fields_ok_def dclamp_id)
qed

lemma core_components_ok:
  assumes "views_ok vs"
  shows "\<exists>cs. core_components vs = Inr cs \<and> list_all component_fields_ok cs \<and> distinct (map cc_code cs) \<and>
    ((\<forall>tf \<in> fst ` set timeframe_weights. map_of vs tf = None) \<longrightarrow> list_all (\<lambda>c. cc_reliability c = 0) cs)"
proof -
  obtain a b c d e where parts:
    "aggregate_component ''structure'' vs structure_signal = Inr a" "aggregate_component ''momentum'' vs momentum_signal = Inr b"
    "aggregate_component ''derivative'' vs derivative_signal = Inr c" "aggregate_component ''state'' vs state_signal = Inr d"
    "aggregate_component ''conformal'' vs conformal_signal = Inr e"
    using aggregate_component_ok [OF assms] by metis
  have "core_components vs = Inr [a, b, c, d, e]" by (simp add: core_components_def parts)
  moreover have "list_all component_fields_ok [a, b, c, d, e]" "distinct (map cc_code [a, b, c, d, e])"
    "(\<forall>tf \<in> fst ` set timeframe_weights. map_of vs tf = None) \<longrightarrow> list_all (\<lambda>c. cc_reliability c = 0) [a, b, c, d, e]"
    using aggregate_component_ok [OF assms, of "''structure''" structure_signal]
      aggregate_component_ok [OF assms, of "''momentum''" momentum_signal]
      aggregate_component_ok [OF assms, of "''derivative''" derivative_signal]
      aggregate_component_ok [OF assms, of "''state''" state_signal]
      aggregate_component_ok [OF assms, of "''conformal''" conformal_signal]
    by (auto simp: parts)
  ultimately show ?thesis by (intro exI [of _ "[a, b, c, d, e]"] conjI)
qed

lemma fuse_bounds:
  assumes "fuse_components cs w aux scale = (score, coverage, consensus)"
  shows "in_range (- 1) 1 score" "in_range 0 1 coverage" "in_range 0 1 consensus"
  using assms by (auto simp: fuse_components_def Let_def in_range_def [of _ _ 0] split: if_splits)

lemma fuse_covered:
  assumes "fuse_components cs w False scale = (score, coverage, consensus)" "coverage \<noteq> 0"
    "list_all component_fields_ok cs"
  shows "list_ex executable_component cs"
proof (rule ccontr)
  assume none: "\<not> list_ex executable_component cs"
  have "cc_reliability c = 0" if "c \<in> set cs" "cc_validation_level c \<noteq> Auxiliary" for c
    using none assms(3) that
    by (force simp: list_ex_iff list_all_iff executable_component_def component_fields_ok_def in_range_def)
  then have "dsum (map (\<lambda>c. dmul (the (map_of w (cc_code c))) (cc_reliability c))
      (filter (\<lambda>c. cc_code c \<in> fst ` set w \<and> cc_validation_level c \<noteq> Auxiliary) cs)) = 0"
    unfolding dsum_def by (intro foldl_dadd_zero) (auto simp: list_all_iff dmul_def)
  then show False using assms(1,2) by (simp add: fuse_components_def Let_def)
qed

definition wf_core :: "core_snapshot \<Rightarrow> bool" where
  "wf_core c \<longleftrightarrow> validate_status_geometry c = Inr c \<and>
     (0 < co_confidence c \<longrightarrow> list_ex executable_component (co_components c))"

lemma core_confidence_facts:
  "in_range 0 1 (core_confidence coverage consensus score instability)"
  "0 < core_confidence coverage consensus score instability \<Longrightarrow> coverage \<noteq> 0"
  by (auto simp: core_confidence_def dmul_def dclamp_def in_range_def)

lemma instability_range: "in_range 0 1 (instability_of vs)"
  by (auto simp: instability_of_def in_range_def [of _ _ 1] split: prod.split)

theorem core_snapshot_wf:
  assumes "views_ok vs"
  shows "\<exists>c. mathematical_core_snapshot vs = Inr c \<and> wf_core c"
proof -
  obtain cs where cs: "core_components vs = Inr cs" "list_all component_fields_ok cs" "distinct (map cc_code cs)"
    "(\<forall>tf \<in> fst ` set timeframe_weights. map_of vs tf = None) \<longrightarrow> list_all (\<lambda>c. cc_reliability c = 0) cs"
    using core_components_ok [OF assms] by (elim exE conjE)
  obtain s v n where f: "fuse_components cs execution_method_weights False 1 = (s, v, n)"
    by (cases "fuse_components cs execution_method_weights False 1")
  obtain s' v' n' where g: "fuse_components cs auxiliary_method_weights True 1 = (s', v', n')"
    by (cases "fuse_components cs auxiliary_method_weights True 1")
  let ?i = "instability_of vs"
  let ?k = "core_confidence v n s ?i"
  let ?st = "core_status_of vs ?i v s ?k"
  define c where "c = \<lparr>co_status = ?st, co_directional_score = dclamp s (- 1) 1, co_confidence = ?k,
    co_coverage = v, co_consensus = n, co_instability = ?i, co_auxiliary_directional_score = s',
    co_auxiliary_confidence = core_confidence v' n' s' ?i, co_components = cs\<rparr>"
  note fr = fuse_bounds [OF f] fuse_bounds [OF g]
  have score: "dclamp s (- 1) 1 = s" using fr(1) by (simp add: in_range_def dclamp_id)
  have fields: "core_fields_ok c"
    using fr cs(2) instability_range core_confidence_facts(1) by (simp add: core_fields_ok_def c_def)
  have covered: "v \<noteq> 0 \<Longrightarrow> list_ex executable_component cs" by (rule fuse_covered [OF f _ cs(2)])
  have uncovered: "v = 0" if "\<forall>tf \<in> fst ` set timeframe_weights. map_of vs tf = None"
  proof (rule ccontr)
    assume "v \<noteq> 0"
    then show False using covered mp [OF cs(4) that] by (auto simp: list_ex_iff list_all_iff executable_component_def)
  qed
  have low: "v < 35 / 100" if "?st = CoreInsufficient"
    using that uncovered by (auto simp: core_status_of_def list_ex_iff split: if_splits) fastforce
  have supported: "25 / 100 \<le> s \<and> 20 / 100 \<le> ?k \<and> 35 / 100 \<le> v" if "?st = CoreLong"
    using that by (simp add: core_status_of_def not_less split: if_split_asm)
  have opposed: "s \<le> - (25 / 100) \<and> 20 / 100 \<le> ?k \<and> 35 / 100 \<le> v" if "?st = CoreShort"
    using that by (simp add: core_status_of_def not_less split: if_split_asm)
  have unstable: "65 / 100 \<le> ?i" if "?st = CoreUnstable"
    using that by (simp add: core_status_of_def split: if_split_asm)
  have exec: "list_ex executable_component cs" if "35 / 100 \<le> v" using covered that by fastforce
  have "validate_status_geometry c = Inr c"
  proof (cases ?st)
    case CoreLong then show ?thesis
      using fields cs(3) supported exec score by (simp add: validate_status_geometry_def c_def)
  next
    case CoreShort then show ?thesis
      using fields cs(3) opposed exec score by (simp add: validate_status_geometry_def c_def)
  next
    case CoreNeutral then show ?thesis using fields cs(3) by (simp add: validate_status_geometry_def c_def)
  next
    case CoreUnstable then show ?thesis
      using fields cs(3) unstable by (simp add: validate_status_geometry_def c_def)
  next
    case CoreInsufficient then show ?thesis
      using fields cs(3) low by (simp add: validate_status_geometry_def c_def)
  qed
  moreover have "mathematical_core_snapshot vs = validate_status_geometry c"
    by (simp add: mathematical_core_snapshot_def cs(1) f g Let_def c_def)
  moreover have "0 < co_confidence c \<longrightarrow> list_ex executable_component (co_components c)"
    using covered core_confidence_facts(2) by (auto simp: c_def)
  ultimately show ?thesis by (auto simp: wf_core_def)
qed

section \<open>The confirmations pass their validators\<close>

lemma derivative_confirmation_returns: "\<exists>c. derivative_confirmation_of vs d = Inr c"
  by (auto simp: derivative_confirmation_of_def Let_def validate_derivative_confirmation_def in_range_def [of _ _ 0])

lemma bonus_range:
  assumes "in_range 0 1 x"
  shows "0 \<le> min 5 (trunc (dmul 5 x)) \<and> min 5 (trunc (dmul 5 x)) \<le> 5"
proof -
  have "0 \<le> dmul 5 x" using assms by (simp add: dec_simps in_range_def)
  then have "0 \<le> trunc (dmul 5 x)" by (simp add: trunc_def)
  then show ?thesis by simp
qed

lemma clamp_range: "in_range (- 1) 1 (max (- 1) (min 1 x :: decimal))" "in_range 0 1 (max 0 (min 1 x :: decimal))"
  by (auto simp: in_range_def)

lemma validate_grade_ok:
  assumes "mathematical_fields_ok m" "distinct (mc_component_codes m)" "distinct (mc_auxiliary_component_codes m)"
    "set (mc_component_codes m) \<inter> set (mc_auxiliary_component_codes m) = {}"
    "\<not> (mc_auxiliary_bonus m > 0 \<and> (mc_auxiliary_directional_support m \<le> 0 \<or> mc_auxiliary_component_codes m = []))"
    "mc_risk_grade m = GradeBlocked \<longleftrightarrow> mc_status m \<in> {MOpposed, MUnstable}"
    "mc_risk_grade m = GradeBlocked \<longrightarrow> mc_auxiliary_bonus m = 0"
    "mc_risk_grade m \<in> {GradeHigh, GradeMedium} \<longrightarrow> mc_status m = MConfirmed \<and> mc_component_codes m \<noteq> []"
    "mc_risk_grade m = GradeHigh \<longrightarrow> 65 / 100 \<le> mc_confidence m \<and> 65 / 100 \<le> mc_reliability m \<and> mc_instability m \<le> 20 / 100"
    "mc_risk_grade m = GradeMedium \<longrightarrow> 35 / 100 \<le> mc_confidence m \<and> 45 / 100 \<le> mc_reliability m"
  shows "validate_monotonic_risk_grade m = Inr m"
  using assms by (cases "mc_risk_grade m") (simp_all add: validate_monotonic_risk_grade_def not_less)

lemma confirmation_fields:
  "mc_directional_support (confirmation_of_core c d) = max (- 1) (min 1 (signed d (co_directional_score c)))"
  "mc_reliability (confirmation_of_core c d) =
     max 0 (min 1 (dmul (dmul (co_coverage c) (co_consensus c)) (dsub 1 (co_instability c))))"
  "mc_auxiliary_directional_support (confirmation_of_core c d) =
     max (- 1) (min 1 (signed d (co_auxiliary_directional_score c)))"
  by (simp_all add: confirmation_of_core_def Let_def split: prod.split)

lemma confirmation_copies:
  "mc_confidence (confirmation_of_core c d) = co_confidence c"
  "mc_coverage (confirmation_of_core c d) = co_coverage c"
  "mc_consensus (confirmation_of_core c d) = co_consensus c"
  "mc_instability (confirmation_of_core c d) = co_instability c"
  by (simp_all add: confirmation_of_core_def Let_def split: prod.split)

theorem confirmation_wf:
  assumes "wf_core c"
  shows "\<exists>m. mathematical_confirmation_of (Some c) d = Inr m \<and> wf_mathematical m"
proof -
  let ?m = "confirmation_of_core c d"
  have fields: "core_fields_ok c" "distinct (map cc_code (co_components c))"
    using assms by (auto simp: wf_core_def validate_status_geometry_def split: if_splits)
  have exec: "0 < co_confidence c \<Longrightarrow> list_ex executable_component (co_components c)"
    using assms by (simp add: wf_core_def)
  have supports: "in_range (- 1) 1 (mc_directional_support ?m)" "in_range 0 1 (mc_reliability ?m)"
    "in_range (- 1) 1 (mc_auxiliary_directional_support ?m)"
    unfolding confirmation_fields by (rule clamp_range)+
  have "in_range 0 5 (mc_auxiliary_bonus ?m)"
    using fields(1) bonus_range [of "co_auxiliary_confidence c"]
    by (simp add: confirmation_of_core_def Let_def core_fields_ok_def in_range_def [of 0 5] split: prod.split)
  then have ok: "mathematical_fields_ok ?m"
    using fields(1) supports by (simp add: mathematical_fields_ok_def core_fields_ok_def confirmation_copies)
  have codes: "distinct (mc_component_codes ?m)" "distinct (mc_auxiliary_component_codes ?m)"
    using fields(2) by (auto simp: confirmation_of_core_def Let_def distinct_map inj_on_def split: prod.split)
  have apart: "set (mc_component_codes ?m) \<inter> set (mc_auxiliary_component_codes ?m) = {}"
    using fields(2)
    by (auto simp: confirmation_of_core_def Let_def executable_component_def distinct_map inj_on_def split: prod.split)
  have bonus: "\<not> (mc_auxiliary_bonus ?m > 0 \<and>
      (mc_auxiliary_directional_support ?m \<le> 0 \<or> mc_auxiliary_component_codes ?m = []))"
    by (auto simp: confirmation_of_core_def Let_def split: prod.split if_splits)
  have blocked: "mc_risk_grade ?m = GradeBlocked \<longleftrightarrow> mc_status ?m \<in> {MOpposed, MUnstable}"
    "mc_risk_grade ?m = GradeBlocked \<longrightarrow> mc_auxiliary_bonus ?m = 0"
    by (auto simp: confirmation_of_core_def Let_def confirmation_grade_def)
  have graded: "mc_risk_grade ?m \<in> {GradeHigh, GradeMedium} \<longrightarrow>
      mc_status ?m = MConfirmed \<and> mc_component_codes ?m \<noteq> []"
    using exec by (auto simp: confirmation_of_core_def Let_def confirmation_grade_def filter_empty_conv list_ex_iff)
  have high: "mc_risk_grade ?m = GradeHigh \<longrightarrow>
      65 / 100 \<le> mc_confidence ?m \<and> 65 / 100 \<le> mc_reliability ?m \<and> mc_instability ?m \<le> 20 / 100"
    and medium: "mc_risk_grade ?m = GradeMedium \<longrightarrow> 35 / 100 \<le> mc_confidence ?m \<and> 45 / 100 \<le> mc_reliability ?m"
    by (auto simp: confirmation_of_core_def Let_def confirmation_grade_def)
  have "validate_monotonic_risk_grade ?m = Inr ?m"
    by (rule validate_grade_ok [OF ok codes apart bonus blocked graded high medium])
  then show ?thesis by (auto simp: mathematical_confirmation_of_def wf_mathematical_def)
qed

end
