(* ===== verification/Analysis_Service.thy ===== *)
theory Analysis_Service
  imports Mathematical_Core
begin

text \<open>
  The analysis of a market snapshot: \<^verbatim>\<open>app/analysis/service.py\<close> and
  \<^verbatim>\<open>app/regime/classifier.py\<close>. The three causal estimators are a record of functions from the
  closes, so that the analysis can be read with any of them.

  Lemmas: the quantized estimates pass the validators of their models, an unconfirmed candle
  changes nothing, the fusion step never raises, and an analysis that reports itself ready for
  trading has sound data on every timeframe, three aligned biases with the two slowest among them
  and a core that neither opposes them nor is unstable.
\<close>

section \<open>Estimators and quantization\<close>

record estimators =
  es_trend :: "decimal list \<Rightarrow> causal_trend option result"
  es_state :: "decimal list \<Rightarrow> causal_state option result"
  es_interval :: "decimal list \<Rightarrow> return_interval option result"

definition q_opt :: "decimal option \<Rightarrow> decimal option result" where
  "q_opt value = (case value of None \<Rightarrow> Inr None | Some x \<Rightarrow> bind_result (quantize_half_up 8 x) (\<lambda>y. Inr (Some y)))"

definition checked :: "('a \<Rightarrow> bool) \<Rightarrow> 'a \<Rightarrow> 'a result" where
  "checked ok x = (if ok x then Inr x else Inl field_constraint)"

definition trend_snapshot :: "causal_trend \<Rightarrow> causal_trend result" where
  "trend_snapshot t =
     bind_result (quantize_half_up 12 (ct_log_velocity_per_bar t)) (\<lambda>velocity.
     bind_result (quantize_half_up 12 (ct_log_acceleration_per_bar2 t)) (\<lambda>acceleration.
     bind_result (quantize_half_up 12 (ct_log_return_rms_per_bar t)) (\<lambda>rms.
     bind_result (quantize_half_up 8 (ct_velocity_to_volatility t)) (\<lambda>velocity_ratio.
     bind_result (quantize_half_up 8 (ct_acceleration_to_volatility t)) (\<lambda>acceleration_ratio.
     bind_result (quantize_half_up 8 (ct_fit_r2 t)) (\<lambda>r2.
     bind_result (quantize_half_up 12 (ct_residual_std t)) (\<lambda>residual.
     bind_result (quantize_half_up 8 (ct_confidence t)) (\<lambda>confidence.
     checked trend_fields_ok
       \<lparr>ct_window = ct_window t, ct_log_velocity_per_bar = velocity, ct_log_acceleration_per_bar2 = acceleration,
        ct_log_return_rms_per_bar = rms, ct_velocity_to_volatility = velocity_ratio,
        ct_acceleration_to_volatility = acceleration_ratio, ct_fit_r2 = r2, ct_residual_std = residual,
        ct_confidence = confidence, ct_direction = ct_direction t\<rparr>))))))))"

definition state_snapshot :: "causal_state \<Rightarrow> causal_state result" where
  "state_snapshot s =
     bind_result (quantize_half_up 12 (ce_log_velocity_per_bar s)) (\<lambda>velocity.
     bind_result (quantize_half_up 12 (ce_log_acceleration_per_bar2 s)) (\<lambda>acceleration.
     bind_result (quantize_half_up 12 (ce_velocity_std s)) (\<lambda>velocity_std.
     bind_result (quantize_half_up 12 (ce_acceleration_std s)) (\<lambda>acceleration_std.
     bind_result (quantize_half_up 8 (ce_velocity_z s)) (\<lambda>velocity_z.
     bind_result (quantize_half_up 8 (ce_acceleration_z s)) (\<lambda>acceleration_z.
     bind_result (quantize_half_up 8 (ce_innovation_z s)) (\<lambda>innovation_z.
     bind_result (quantize_half_up 8 (ce_shock_score s)) (\<lambda>shock.
     bind_result (quantize_half_up 8 (ce_confidence s)) (\<lambda>confidence.
     checked state_fields_ok
       \<lparr>ce_window = ce_window s, ce_log_velocity_per_bar = velocity, ce_log_acceleration_per_bar2 = acceleration,
        ce_velocity_std = velocity_std, ce_acceleration_std = acceleration_std, ce_velocity_z = velocity_z,
        ce_acceleration_z = acceleration_z, ce_innovation_z = innovation_z, ce_shock_score = shock,
        ce_confidence = confidence, ce_direction = ce_direction s, ce_outlier_count = ce_outlier_count s\<rparr>)))))))))"

definition outlook_of :: "decimal \<Rightarrow> decimal \<Rightarrow> outlook" where
  "outlook_of lower upper =
     (if 0 < lower then IntervalRising else if upper < 0 then IntervalFalling else IntervalUncertain)"

definition interval_snapshot :: "return_interval \<Rightarrow> return_interval result" where
  "interval_snapshot i =
     bind_result (quantize_half_up 8 (ri_confidence_level i)) (\<lambda>level.
     bind_result (quantize_half_up 12 (ri_predicted_log_return i)) (\<lambda>predicted.
     bind_result (quantize_half_up 12 (ri_lower_log_return i)) (\<lambda>lower.
     bind_result (quantize_half_up 12 (ri_upper_log_return i)) (\<lambda>upper.
     bind_result (quantize_half_up 12 (ri_half_width i)) (\<lambda>width.
     bind_result (quantize_half_up 8 (ri_empirical_coverage i)) (\<lambda>coverage.
     validate_interval_geometry
       \<lparr>ri_horizon_bars = ri_horizon_bars i, ri_confidence_level = level, ri_predicted_log_return = predicted,
        ri_lower_log_return = lower, ri_upper_log_return = upper, ri_half_width = width,
        ri_calibration_size = ri_calibration_size i, ri_coverage_sample_size = ri_coverage_sample_size i,
        ri_empirical_coverage = coverage, ri_direction = outlook_of lower upper\<rparr>))))))"

definition optional :: "('a \<Rightarrow> 'b result) \<Rightarrow> 'a option \<Rightarrow> 'b option result" where
  "optional f x = (case x of None \<Rightarrow> Inr None | Some a \<Rightarrow> bind_result (f a) (\<lambda>b. Inr (Some b)))"

section \<open>One timeframe\<close>

definition volatility_of :: "decimal option \<Rightarrow> volatility" where
  "volatility_of atr_pct =
     (case atr_pct of None \<Rightarrow> NormalVolatility
      | Some p \<Rightarrow>
          if p < 20 / 100 then LowVolatility else if p < 1 then NormalVolatility
          else if p < 250 / 100 then HighVolatility else ExtremeVolatility)"

definition atr_percent :: "candle list \<Rightarrow> decimal option" where
  "atr_percent confirmed =
     (case atr confirmed 14 of None \<Rightarrow> None
      | Some a \<Rightarrow> if cd_close (last confirmed) \<le> 0 then None
          else Some (dmul (ddiv a (cd_close (last confirmed))) 100))"

definition indicators_of :: "estimators \<Rightarrow> candle list \<Rightarrow> indicator_snapshot result" where
  "indicators_of E confirmed =
     (let closes = map cd_close confirmed;
          (macd_value, macd_signal, macd_hist) = macd closes 12 26 9
      in bind_result (es_trend E closes) (\<lambda>trend.
         bind_result (es_state E closes) (\<lambda>state.
         bind_result (es_interval E closes) (\<lambda>interval.
         bind_result (q_opt (ema closes 20)) (\<lambda>e20.
         bind_result (q_opt (ema closes 50)) (\<lambda>e50.
         bind_result (q_opt (ema closes 200)) (\<lambda>e200.
         bind_result (q_opt (atr confirmed 14)) (\<lambda>a14.
         bind_result (q_opt (atr_percent confirmed)) (\<lambda>apct.
         bind_result (q_opt (rsi closes 14)) (\<lambda>r14.
         bind_result (q_opt macd_value) (\<lambda>m.
         bind_result (q_opt macd_signal) (\<lambda>ms.
         bind_result (q_opt macd_hist) (\<lambda>mh.
         bind_result (q_opt (adx confirmed 14)) (\<lambda>x14.
         bind_result (q_opt (vwap confirmed 20)) (\<lambda>w.
         bind_result (q_opt (volume_ratio confirmed 20)) (\<lambda>v20.
         bind_result (optional trend_snapshot trend) (\<lambda>trend.
         bind_result (optional state_snapshot state) (\<lambda>state.
         bind_result (optional interval_snapshot interval) (\<lambda>interval.
         Inr \<lparr>ix_ema20 = e20, ix_ema50 = e50, ix_ema200 = e200, ix_atr14 = a14, ix_atr_pct = apct,
              ix_rsi14 = r14, ix_macd = m, ix_macd_signal = ms, ix_macd_histogram = mh, ix_adx14 = x14,
              ix_vwap = w, ix_volume_ratio20 = v20, ix_causal_trend = trend, ix_causal_state = state,
              ix_return_interval = interval\<rparr>)))))))))))))))))))"

text \<open>A confidence of at least 0.35 in messages: one digit, the point and eight places.\<close>

definition confidence_text :: "decimal \<Rightarrow> string" where
  "confidence_text x =
     (let n = nat \<lfloor>x * 10 ^ 8\<rfloor>; digits = nat_text (n mod 10 ^ 8)
      in nat_text (n div 10 ^ 8) @ ''.'' @ replicate (8 - length digits) (CHR ''0'') @ digits)"

definition bullish_trend :: "trend \<Rightarrow> bool" where
  "bullish_trend t \<longleftrightarrow> t \<in> {StrongBullish, BullishTrend}"

definition bearish_trend :: "trend \<Rightarrow> bool" where
  "bearish_trend t \<longleftrightarrow> t \<in> {StrongBearish, BearishTrend}"

fun move_text :: "move \<Rightarrow> string" where
  "move_text Up = ''up''"
| "move_text Down = ''down''"

definition evidence_of :: "indicator_snapshot \<Rightarrow> structure_snapshot \<Rightarrow> string list" where
  "evidence_of ix st =
     (if bullish_trend (st_trend st) then [''EMA trend supports long bias'']
      else if bearish_trend (st_trend st) then [''EMA trend supports short bias''] else []) @
     (case st_bos st of None \<Rightarrow> []
      | Some m \<Rightarrow> [''confirmed close is beyond latest swing: BOS '' @ move_text m]) @
     (case ix_macd_histogram ix of None \<Rightarrow> []
      | Some h \<Rightarrow> if 0 < h then [''MACD histogram is positive''] else []) @
     (case ix_causal_trend ix of None \<Rightarrow> []
      | Some t \<Rightarrow> if 35 / 100 \<le> ct_confidence t
          then [''causal log-price derivative is '' @ drift_text (ct_direction t) @ '' with confidence '' @
            confidence_text (ct_confidence t)] else []) @
     (case ix_causal_state ix of None \<Rightarrow> []
      | Some s \<Rightarrow> if \<not> 65 / 100 \<le> ce_shock_score s \<and> 35 / 100 \<le> ce_confidence s
          then [''robust causal state is '' @ drift_text (ce_direction s) @ '' with confidence '' @
            confidence_text (ce_confidence s)] else [])"

definition counter_evidence_of :: "indicator_snapshot \<Rightarrow> string list" where
  "counter_evidence_of ix =
     (case ix_macd_histogram ix of None \<Rightarrow> []
      | Some h \<Rightarrow> if 0 < h then [] else [''MACD histogram is negative'']) @
     (case ix_rsi14 ix of None \<Rightarrow> []
      | Some r \<Rightarrow> collect [(70 \<le> r, ''RSI is overbought''), (r \<le> 30, ''RSI is oversold'')]) @
     (case ix_volume_ratio20 ix of None \<Rightarrow> []
      | Some v \<Rightarrow> if v < 8 / 10 then [''latest volume is below its 20-candle baseline''] else []) @
     (case ix_causal_trend ix of None \<Rightarrow> []
      | Some t \<Rightarrow> if \<not> 35 / 100 \<le> ct_confidence t \<and> ct_fit_r2 t < 35 / 100
          then [''causal derivative fit is noise-dominated''] else []) @
     (case ix_causal_state ix of None \<Rightarrow> []
      | Some s \<Rightarrow> if 65 / 100 \<le> ce_shock_score s
          then [''robust state filter detects endpoint instability''] else []) @
     (case ix_return_interval ix of None \<Rightarrow> []
      | Some i \<Rightarrow> if ri_direction i = IntervalUncertain then [''causal return interval crosses zero''] else [])"

definition bias_of :: "structure_snapshot \<Rightarrow> bias" where
  "bias_of st =
     (if bullish_trend (st_trend st) \<and> st_choch st \<noteq> Some Down then LongBias
      else if bearish_trend (st_trend st) \<and> st_choch st \<noteq> Some Up then ShortBias
      else NeutralBias)"

definition analyze_timeframe ::
  "estimators \<Rightarrow> string \<Rightarrow> candle list \<Rightarrow> quality_report \<Rightarrow> timeframe_analysis result" where
  "analyze_timeframe E tf candles quality =
     (let confirmed = filter cd_confirmed candles;
          closes = map cd_close confirmed
      in if length confirmed < 30 then Inl (ValueError (tf @ '' requires at least 30 confirmed candles''))
         else bind_result (indicators_of E confirmed) (\<lambda>ix.
           let st = analyze_structure confirmed (ema closes 20) (ema closes 50) (ema closes 200)
           in bind_result (candle_closed_at (last confirmed) tf) (\<lambda>closed_at.
             Inr \<lparr>ta_timeframe = tf, ta_candle_count = length confirmed, ta_last_closed_at = closed_at,
                  ta_close = cd_close (last confirmed), ta_data_quality_ok = qr_ok quality,
                  ta_data_quality_issues = map (\<lambda>i. severity_text (mi_severity i) @ '':'' @ mi_code i) (qr_issues quality),
                  ta_indicators = ix, ta_structure = st, ta_volatility = volatility_of (atr_percent confirmed),
                  ta_directional_bias = bias_of st, ta_evidence = evidence_of ix st,
                  ta_counter_evidence = counter_evidence_of ix\<rparr>)))"

section \<open>Regime\<close>

definition state_shocked :: "timeframe_analysis \<Rightarrow> bool" where
  "state_shocked v \<longleftrightarrow> (case ix_causal_state (ta_indicators v) of None \<Rightarrow> False | Some s \<Rightarrow> 65 / 100 \<le> ce_shock_score s)"

definition classify_regime :: "views \<Rightarrow> string" where
  "classify_regime views =
     (case (map_of views ''4H'', map_of views ''1H'') of
        (Some h4, Some h1) \<Rightarrow>
          if state_shocked h4 \<or> state_shocked h1 then ''unstable_transition''
          else if ta_volatility h4 \<in> {HighVolatility, ExtremeVolatility} \<or> ta_volatility h1 = ExtremeVolatility
            then ''high_volatility''
          else if bullish_trend (st_trend (ta_structure h4)) \<and> bullish_trend (st_trend (ta_structure h1))
            then ''bull_trend''
          else if bearish_trend (st_trend (ta_structure h4)) \<and> bearish_trend (st_trend (ta_structure h1))
            then ''bear_trend''
          else if ta_volatility h4 = LowVolatility \<and> ta_volatility h1 = LowVolatility then ''compression''
          else ''range_or_transition''
      | _ \<Rightarrow> ''insufficient_data'')"

section \<open>All timeframes\<close>

fun analyze_all ::
  "estimators \<Rightarrow> (string \<times> quality_report) list \<Rightarrow> (string \<times> candle list) list \<Rightarrow> views result" where
  "analyze_all E quality [] = Inr []"
| "analyze_all E quality ((bar, cs) # rest) =
     (case map_of quality bar of
        None \<Rightarrow> Inl (OtherException ''KeyError'')
      | Some q \<Rightarrow>
          bind_result (analyze_timeframe E bar cs q) (\<lambda>v.
          bind_result (analyze_all E quality rest) (\<lambda>vs. Inr ((bar, v) # vs))))"

definition ordered_biases :: "views \<Rightarrow> bias list" where
  "ordered_biases views =
     concat (map (\<lambda>bar. case map_of views bar of None \<Rightarrow> [] | Some v \<Rightarrow> [ta_directional_bias v])
       [''4H'', ''1H'', ''15m'', ''5m''])"

definition alignment_of :: "bias list \<Rightarrow> bias \<times> int" where
  "alignment_of ordered =
     (let long_count = count_list ordered LongBias; short_count = count_list ordered ShortBias
      in if 3 \<le> long_count \<and> take 2 ordered = [LongBias, LongBias] then (LongBias, int long_count * 25)
         else if 3 \<le> short_count \<and> take 2 ordered = [ShortBias, ShortBias] then (ShortBias, int short_count * 25)
         else (NeutralBias, int (max long_count short_count) * 25))"

definition core_blockers :: "bias \<Rightarrow> core_status \<Rightarrow> string list" where
  "core_blockers overall st =
     (if st = CoreUnstable then [''mathematical_core_regime_instability'']
      else if overall = LongBias \<and> st = CoreShort \<or> overall = ShortBias \<and> st = CoreLong
        then [''mathematical_core_opposes_alignment''] else [])"

definition quality_blockers :: "(string \<times> quality_report) list \<Rightarrow> string list" where
  "quality_blockers quality = map (\<lambda>(bar, _). bar @ ''_data_quality'') (filter (\<lambda>(_, r). \<not> qr_ok r) quality)"

definition analyze_snapshot :: "estimators \<Rightarrow> market_snapshot \<Rightarrow> multi_analysis result" where
  "analyze_snapshot E snapshot =
     bind_result (analyze_all E (ms_quality snapshot) (ms_candles snapshot)) (\<lambda>views.
     bind_result (mathematical_core_snapshot views) (\<lambda>core.
     case alignment_of (ordered_biases views) of (overall, score) \<Rightarrow>
     let blockers = quality_blockers (ms_quality snapshot) @
           (if overall = NeutralBias then [''multi_timeframe_not_aligned''] else []) @
           core_blockers overall (co_status core)
     in Inr \<lparr>ma_symbol = ms_symbol snapshot, ma_instrument_id = ms_instrument_id snapshot,
          ma_price = tk_last (ms_ticker snapshot), ma_regime = classify_regime views,
          ma_overall_bias = overall, ma_alignment_score = score,
          ma_trade_ready = (blockers = [] \<and> overall \<noteq> NeutralBias), ma_blockers = sorted_set blockers,
          ma_timeframe_analyses = views, ma_mathematical_core = Some core\<rparr>))"

section \<open>Quantized estimates pass their models\<close>

lemma on_grid_int: "on_grid k (of_int n)"
  unfolding on_grid_def by (intro exI [of _ "n * 10 ^ k"]) simp

lemma grid_half_up_range:
  assumes "in_range (of_int a) (of_int b) x"
  shows "in_range (of_int a) (of_int b) (grid_half_up k x)"
  using assms q_half.rnd_le_rep [OF on_grid_int] q_half.rnd_ge_rep [OF on_grid_int]
  by (simp add: in_range_def)

lemmas grid_half_up_unit = grid_half_up_range [of 0 1, simplified]

lemmas grid_half_up_score = grid_half_up_range [of "- 20" 20, simplified]

lemma trend_snapshot_ok:
  assumes "trend_fields_ok t"
  shows "trend_snapshot t = Inl DecimalInvalidOperation \<or> (\<exists>t'. trend_snapshot t = Inr t' \<and> trend_fields_ok t')"
proof -
  have ok: "in_range 0 1 (ct_fit_r2 t)" "in_range 0 1 (ct_confidence t)" "0 \<le> ct_log_return_rms_per_bar t"
    "0 \<le> ct_residual_std t" "5 \<le> ct_window t" using assms by (auto simp: trend_fields_ok_def)
  show ?thesis
    using ok grid_half_up_unit [OF ok(1)] grid_half_up_unit [OF ok(2)] q_half.rnd_nonneg [OF ok(3)] q_half.rnd_nonneg [OF ok(4)]
    by (simp add: trend_snapshot_def quantize_half_up_def checked_def trend_fields_ok_def)
qed

lemma state_snapshot_ok:
  assumes "state_fields_ok s"
  shows "state_snapshot s = Inl DecimalInvalidOperation \<or> (\<exists>s'. state_snapshot s = Inr s' \<and> state_fields_ok s')"
proof -
  have ok: "in_range 0 1 (ce_shock_score s)" "in_range 0 1 (ce_confidence s)" "0 \<le> ce_velocity_std s"
    "0 \<le> ce_acceleration_std s" "in_range (- 20) 20 (ce_velocity_z s)" "in_range (- 20) 20 (ce_acceleration_z s)"
    "in_range (- 20) 20 (ce_innovation_z s)" "20 \<le> ce_window s" "0 \<le> ce_outlier_count s"
    using assms by (auto simp: state_fields_ok_def)
  show ?thesis
    using ok grid_half_up_unit [OF ok(1)] grid_half_up_unit [OF ok(2)] q_half.rnd_nonneg [OF ok(3)]
      q_half.rnd_nonneg [OF ok(4)] grid_half_up_score [OF ok(5)] grid_half_up_score [OF ok(6)] grid_half_up_score [OF ok(7)]
    by (simp add: state_snapshot_def quantize_half_up_def checked_def state_fields_ok_def)
qed

text \<open>
  An estimated interval contains its prediction. Quantization keeps that order, and the direction
  is read from the quantized bounds.
\<close>

definition interval_estimate_ok :: "return_interval \<Rightarrow> bool" where
  "interval_estimate_ok i \<longleftrightarrow> interval_fields_ok i \<and> ri_lower_log_return i \<le> ri_predicted_log_return i \<and>
     ri_predicted_log_return i \<le> ri_upper_log_return i"

lemma validate_outlook:
  assumes "interval_fields_ok j" "ri_lower_log_return j \<le> ri_predicted_log_return j"
    "ri_predicted_log_return j \<le> ri_upper_log_return j"
    "ri_direction j = outlook_of (ri_lower_log_return j) (ri_upper_log_return j)"
  shows "validate_interval_geometry j = Inr j"
proof -
  have "ri_direction j = IntervalRising \<Longrightarrow> 0 < ri_lower_log_return j"
    "ri_direction j = IntervalFalling \<Longrightarrow> ri_upper_log_return j < 0"
    "ri_direction j = IntervalUncertain \<Longrightarrow> ri_lower_log_return j \<le> 0 \<and> 0 \<le> ri_upper_log_return j"
    unfolding assms(4) by (simp_all add: outlook_of_def split: if_split_asm)
  then show ?thesis using assms(1-3)
    by (cases "ri_direction j") (simp_all add: validate_interval_geometry_def)
qed

lemma interval_snapshot_ok:
  assumes "interval_estimate_ok i"
  shows "interval_snapshot i = Inl DecimalInvalidOperation \<or>
    (\<exists>i'. interval_snapshot i = Inr i' \<and> validate_interval_geometry i' = Inr i')"
proof -
  have ok: "in_range 0 1 (ri_confidence_level i)" "in_range 0 1 (ri_empirical_coverage i)" "0 \<le> ri_half_width i"
    "ri_lower_log_return i \<le> ri_predicted_log_return i" "ri_predicted_log_return i \<le> ri_upper_log_return i"
    "ri_horizon_bars i = 1" "20 \<le> ri_calibration_size i" "1 \<le> ri_coverage_sample_size i"
    using assms by (auto simp: interval_estimate_ok_def interval_fields_ok_def)
  define j where "j =
       \<lparr>ri_horizon_bars = ri_horizon_bars i, ri_confidence_level = grid_half_up 8 (ri_confidence_level i),
        ri_predicted_log_return = grid_half_up 12 (ri_predicted_log_return i),
        ri_lower_log_return = grid_half_up 12 (ri_lower_log_return i),
        ri_upper_log_return = grid_half_up 12 (ri_upper_log_return i),
        ri_half_width = grid_half_up 12 (ri_half_width i), ri_calibration_size = ri_calibration_size i,
        ri_coverage_sample_size = ri_coverage_sample_size i,
        ri_empirical_coverage = grid_half_up 8 (ri_empirical_coverage i),
        ri_direction = outlook_of (grid_half_up 12 (ri_lower_log_return i)) (grid_half_up 12 (ri_upper_log_return i))\<rparr>"
  have "interval_fields_ok j"
    using ok(6-8) grid_half_up_unit [OF ok(1)] grid_half_up_unit [OF ok(2)] q_half.rnd_nonneg [OF ok(3)]
    by (simp add: interval_fields_ok_def j_def)
  then have "validate_interval_geometry j = Inr j"
    by (rule validate_outlook) (simp_all add: j_def q_half.rnd_mono ok(4,5))
  moreover have "interval_snapshot i = Inl DecimalInvalidOperation \<or> interval_snapshot i = validate_interval_geometry j"
    by (simp add: interval_snapshot_def quantize_half_up_def j_def)
  ultimately show ?thesis by auto
qed

section \<open>Errors of an analysis\<close>

definition decimal_error :: "exn \<Rightarrow> bool" where
  "decimal_error e \<longleftrightarrow> e \<in> {DecimalInvalidOperation, DecimalDivisionByZero}"

definition decimal_safe :: "'a result \<Rightarrow> bool" where
  "decimal_safe r \<longleftrightarrow> (\<forall>e. r = Inl e \<longrightarrow> decimal_error e)"

lemma decimal_safe_Inr: "decimal_safe (Inr a)"
  by (simp add: decimal_safe_def)

lemma decimal_safe_bind: "decimal_safe m \<Longrightarrow> (\<And>a. m = Inr a \<Longrightarrow> decimal_safe (f a)) \<Longrightarrow> decimal_safe (bind_result m f)"
  by (cases m) (auto simp: decimal_safe_def)

lemma decimal_safe_q_opt: "decimal_safe (q_opt x)"
  by (simp add: decimal_safe_def q_opt_def quantize_half_up_def decimal_error_def split: option.split)

text \<open>What the analysis needs of its estimators: decimal errors at most, and estimates within their models.\<close>

locale sound_estimators =
  fixes E :: estimators
  assumes trend_safe: "decimal_safe (es_trend E closes)"
    and state_safe: "decimal_safe (es_state E closes)"
    and interval_safe: "decimal_safe (es_interval E closes)"
    and trend_ok: "es_trend E closes = Inr (Some t) \<Longrightarrow> trend_fields_ok t"
    and state_ok: "es_state E closes = Inr (Some s) \<Longrightarrow> state_fields_ok s"
    and interval_ok: "es_interval E closes = Inr (Some i) \<Longrightarrow> interval_estimate_ok i"
begin

lemma snapshot_stages:
  "es_trend E closes = Inr t \<Longrightarrow> decimal_safe (optional trend_snapshot t)"
  "es_state E closes = Inr s \<Longrightarrow> decimal_safe (optional state_snapshot s)"
  "es_interval E closes = Inr i \<Longrightarrow> decimal_safe (optional interval_snapshot i)"
  using trend_snapshot_ok [OF trend_ok] state_snapshot_ok [OF state_ok] interval_snapshot_ok [OF interval_ok]
  by (fastforce simp: optional_def decimal_safe_def decimal_error_def split: option.split)+

lemma indicators_safe: "decimal_safe (indicators_of E confirmed)"
proof -
  obtain m ms mh where macd: "macd (map cd_close confirmed) 12 26 9 = (m, ms, mh)" by (metis prod_cases3)
  show ?thesis
    unfolding indicators_of_def Let_def macd prod.case
    by (intro decimal_safe_bind decimal_safe_Inr decimal_safe_q_opt trend_safe state_safe interval_safe snapshot_stages)
qed

theorem analyze_timeframe_errors:
  assumes "analyze_timeframe E tf cs q = Inl e"
  shows "decimal_error e \<or>
    length (filter cd_confirmed cs) < 30 \<and> e = ValueError (tf @ '' requires at least 30 confirmed candles'') \<or>
    map_of bar_seconds tf = None \<and> e = ValueError (''unsupported bar: '' @ tf)"
  using assms indicators_safe [of "filter cd_confirmed cs"]
  by (auto simp: analyze_timeframe_def Let_def result_simps decimal_safe_def candle_closed_at_def bar_interval_def
      split: if_splits option.splits)

end

section \<open>What an analysis guarantees\<close>

lemma optional_checked:
  assumes "optional f x = Inr y" "\<And>a b. f a = Inr b \<Longrightarrow> P b"
  shows "case y of None \<Rightarrow> True | Some b \<Rightarrow> P b"
  using assms by (auto simp: optional_def result_simps split: option.splits)

lemma snapshots_checked:
  "trend_snapshot t = Inr t' \<Longrightarrow> trend_fields_ok t'"
  "state_snapshot s = Inr s' \<Longrightarrow> state_fields_ok s'"
  by (auto simp: trend_snapshot_def state_snapshot_def checked_def result_simps split: if_splits)

lemma interval_snapshot_checked: "interval_snapshot i = Inr i' \<Longrightarrow> interval_fields_ok i'"
  by (auto simp: interval_snapshot_def validate_interval_geometry_def result_simps split: if_splits)

lemma indicators_ok:
  assumes "indicators_of E cs = Inr ix"
  shows "(case ix_causal_trend ix of None \<Rightarrow> True | Some t \<Rightarrow> trend_fields_ok t) \<and>
     (case ix_causal_state ix of None \<Rightarrow> True | Some s \<Rightarrow> state_fields_ok s) \<and>
     (case ix_return_interval ix of None \<Rightarrow> True | Some i \<Rightarrow> interval_fields_ok i)"
proof -
  obtain t s i where "optional trend_snapshot t = Inr (ix_causal_trend ix)"
    "optional state_snapshot s = Inr (ix_causal_state ix)"
    "optional interval_snapshot i = Inr (ix_return_interval ix)"
    using assms by (auto simp: indicators_of_def Let_def bind_result_eq_Inr split: prod.splits)
  then show ?thesis
    using optional_checked [where f = trend_snapshot] optional_checked [where f = state_snapshot]
      optional_checked [where f = interval_snapshot] snapshots_checked interval_snapshot_checked
    by (intro conjI) blast+
qed

lemma analyze_timeframe_facts:
  assumes "analyze_timeframe E tf cs q = Inr v"
  shows "view_ok v" "ta_data_quality_ok v = qr_ok q" "30 \<le> ta_candle_count v"
    "ta_candle_count v = length (filter cd_confirmed cs)"
  using assms indicators_ok
  by (auto simp: analyze_timeframe_def Let_def result_simps view_ok_def split: if_splits)

lemma unconfirmed_candles_ignored:
  "filter cd_confirmed cs = filter cd_confirmed cs' \<Longrightarrow> analyze_timeframe E tf cs q = analyze_timeframe E tf cs' q"
  by (simp add: analyze_timeframe_def)

lemma analyze_all_facts:
  assumes "analyze_all E quality cs = Inr vs"
  shows "views_ok vs" "map fst vs = map fst cs"
    "\<And>bar v. map_of vs bar = Some v \<Longrightarrow> \<exists>q. map_of quality bar = Some q \<and> ta_data_quality_ok v = qr_ok q"
proof -
  have "views_ok vs \<and> map fst vs = map fst cs \<and>
    (\<forall>bar v. map_of vs bar = Some v \<longrightarrow> (\<exists>q. map_of quality bar = Some q \<and> ta_data_quality_ok v = qr_ok q))"
    using assms
  proof (induction cs arbitrary: vs)
    case (Cons c cs)
    obtain bar series where c: "c = (bar, series)" by fastforce
    obtain q v ws where q: "map_of quality bar = Some q" and v: "analyze_timeframe E bar series q = Inr v"
      and ws: "analyze_all E quality cs = Inr ws" "vs = (bar, v) # ws"
      using Cons.prems by (auto simp: c result_simps split: option.splits)
    show ?case using Cons.IH [OF ws(1)] analyze_timeframe_facts [OF v] q
      by (auto simp: ws(2) c views_ok_def)
  qed (simp add: views_ok_def)
  then show "views_ok vs" "map fst vs = map fst cs"
    "\<And>bar v. map_of vs bar = Some v \<Longrightarrow> \<exists>q. map_of quality bar = Some q \<and> ta_data_quality_ok v = qr_ok q"
    by blast+
qed

theorem analysis_fusion_returns:
  assumes "analyze_all E (ms_quality s) (ms_candles s) = Inr vs"
  shows "\<exists>a c. analyze_snapshot E s = Inr a \<and> ma_timeframe_analyses a = vs \<and>
    ma_mathematical_core a = Some c \<and> wf_core c"
  using core_snapshot_wf [OF analyze_all_facts(1) [OF assms]]
  by (auto simp: analyze_snapshot_def assms Let_def split: prod.split)

text \<open>The four biases agree on \<open>d\<close>: the two slowest and one of the two others.\<close>

definition biases_agree :: "views \<Rightarrow> bias \<Rightarrow> bool" where
  "biases_agree vs d \<longleftrightarrow>
     (let bias = (\<lambda>bar. map_option ta_directional_bias (map_of vs bar))
      in bias ''4H'' = Some d \<and> bias ''1H'' = Some d \<and> (bias ''15m'' = Some d \<or> bias ''5m'' = Some d))"

definition all_timeframes :: "views \<Rightarrow> bool" where
  "all_timeframes vs \<longleftrightarrow> list_all (\<lambda>bar. map_of vs bar \<noteq> None) [''4H'', ''1H'', ''15m'', ''5m'']"

lemma alignment_of_four:
  "fst (alignment_of [a, b, c, d]) = LongBias \<longleftrightarrow> a = LongBias \<and> b = LongBias \<and> (c = LongBias \<or> d = LongBias)"
  "fst (alignment_of [a, b, c, d]) = ShortBias \<longleftrightarrow> a = ShortBias \<and> b = ShortBias \<and> (c = ShortBias \<or> d = ShortBias)"
  by (cases a; cases b; cases c; cases d; simp add: alignment_of_def)+

lemma alignment_of_views:
  assumes "all_timeframes vs" "d \<noteq> NeutralBias"
  shows "fst (alignment_of (ordered_biases vs)) = d \<longleftrightarrow> biases_agree vs d"
  using assms
  by (cases d) (auto simp: all_timeframes_def ordered_biases_def alignment_of_four biases_agree_def)

lemma core_blockers_Nil:
  "core_blockers d st = [] \<longleftrightarrow> st \<noteq> CoreUnstable \<and> \<not> (d = LongBias \<and> st = CoreShort) \<and> \<not> (d = ShortBias \<and> st = CoreLong)"
  by (auto simp: core_blockers_def)

theorem trade_ready_iff:
  assumes "analyze_snapshot E s = Inr a" "all_timeframes (ma_timeframe_analyses a)"
  shows "ma_trade_ready a \<longleftrightarrow>
    list_all (\<lambda>(_, q). qr_ok q) (ms_quality s) \<and>
    (\<exists>d c. d \<noteq> NeutralBias \<and> biases_agree (ma_timeframe_analyses a) d \<and> ma_overall_bias a = d \<and>
       ma_mathematical_core a = Some c \<and> co_status c \<noteq> CoreUnstable \<and>
       \<not> (d = LongBias \<and> co_status c = CoreShort) \<and> \<not> (d = ShortBias \<and> co_status c = CoreLong))"
proof -
  obtain vs c where vs: "analyze_all E (ms_quality s) (ms_candles s) = Inr vs" and c: "mathematical_core_snapshot vs = Inr c"
    using assms(1) by (auto simp: analyze_snapshot_def result_simps)
  obtain d n where d: "alignment_of (ordered_biases vs) = (d, n)" by fastforce
  have a: "ma_timeframe_analyses a = vs" "ma_overall_bias a = d" "ma_mathematical_core a = Some c"
    "ma_trade_ready a \<longleftrightarrow> quality_blockers (ms_quality s) = [] \<and> d \<noteq> NeutralBias \<and> core_blockers d (co_status c) = []"
    using assms(1) by (auto simp: analyze_snapshot_def vs c d Let_def)
  have "quality_blockers (ms_quality s) = [] \<longleftrightarrow> list_all (\<lambda>(_, q). qr_ok q) (ms_quality s)"
    by (auto simp: quality_blockers_def filter_empty_conv list_all_iff)
  moreover have "biases_agree vs d" if "d \<noteq> NeutralBias"
    using alignment_of_views [of vs d] assms(2) that d by (simp add: a)
  ultimately show ?thesis unfolding a core_blockers_Nil by auto
qed

lemma quality_blockers_kept:
  assumes "analyze_snapshot E s = Inr a"
  shows "set (quality_blockers (ms_quality s)) \<subseteq> set (ma_blockers a)"
proof -
  obtain vs c where vs: "analyze_all E (ms_quality s) (ms_candles s) = Inr vs" "mathematical_core_snapshot vs = Inr c"
    using assms by (auto simp: analyze_snapshot_def result_simps)
  obtain d n where "alignment_of (ordered_biases vs) = (d, n)" by fastforce
  then show ?thesis using assms by (auto simp: analyze_snapshot_def vs Let_def)
qed

text \<open>The alignment score is 25 points for each timeframe with the leading bias.\<close>

lemma alignment_score_range:
  "snd (alignment_of bs) = 25 * int (max (count_list bs LongBias) (count_list bs ShortBias)) \<or>
   fst (alignment_of bs) \<noteq> NeutralBias \<and> snd (alignment_of bs) = 25 * int (count_list bs (fst (alignment_of bs)))"
  by (auto simp: alignment_of_def Let_def)

end
