(* ===== verification/Strategies.thy ===== *)
theory Strategies
  imports Analysis_Service
begin

text \<open>
  The strategies (\<^verbatim>\<open>app/strategies/\<close>): the context they read, the helper predicates, the eight
  evaluators, the structural protection and the candidate they build. A direction is a bias:
  long, short or neutral. The clock is a field of the context.

  Lemmas: the structural bracket is the nearest one of the first timeframe that has one and passes
  its validator, a candidate satisfies the invariant of its model, and the score of a
  strategy is the sum of the points of the conditions that hold.
\<close>

section \<open>Context\<close>

record strategy_context =
  cx_analysis :: multi_analysis
  cx_market :: market_snapshot
  cx_minimum_score :: int
  cx_minimum_risk_reward :: decimal
  cx_now :: timestamp

abbreviation cx_views :: "strategy_context \<Rightarrow> views" where
  "cx_views ctx \<equiv> ma_timeframe_analyses (cx_analysis ctx)"

definition cx_price :: "strategy_context \<Rightarrow> decimal" where
  "cx_price ctx = tk_last (ms_ticker (cx_market ctx))"

definition cx_tf :: "strategy_context \<Rightarrow> string \<Rightarrow> timeframe_analysis result" where
  "cx_tf ctx tf = (case map_of (cx_views ctx) tf of None \<Rightarrow> Inl (OtherException ''KeyError'') | Some v \<Rightarrow> Inr v)"

record condition =
  cn_code :: string
  cn_label :: string
  cn_maximum :: int
  cn_passed :: bool
  cn_detail :: string
  cn_veto :: bool

definition Condition :: "string \<Rightarrow> string \<Rightarrow> int \<Rightarrow> bool \<Rightarrow> string \<Rightarrow> condition" where
  "Condition code label maximum passed detail =
     \<lparr>cn_code = code, cn_label = label, cn_maximum = maximum, cn_passed = passed, cn_detail = detail, cn_veto = False\<rparr>"

definition VetoCondition :: "string \<Rightarrow> string \<Rightarrow> int \<Rightarrow> bool \<Rightarrow> string \<Rightarrow> condition" where
  "VetoCondition code label maximum passed detail = (Condition code label maximum passed detail)\<lparr>cn_veto := True\<rparr>"

record score_component =
  sc_code :: string
  sc_label :: string
  sc_points :: int
  sc_maximum :: int
  sc_passed :: bool
  sc_detail :: string

record strategy_evaluation =
  se_strategy :: string
  se_direction :: bias
  se_eligible :: bool
  se_completion_ratio :: decimal
  se_score :: int
  se_passed_conditions :: "string list"
  se_failed_conditions :: "string list"
  se_vetoes :: "string list"
  se_score_components :: "score_component list"
  se_candidate :: "trade_candidate option"

section \<open>Helpers\<close>

definition trend_matches :: "timeframe_analysis \<Rightarrow> bias \<Rightarrow> bool" where
  "trend_matches v d \<longleftrightarrow> ta_directional_bias v = d"

definition expected_move :: "bias \<Rightarrow> move" where
  "expected_move d = (if d = LongBias then Up else Down)"

definition bos_matches :: "timeframe_analysis \<Rightarrow> bias \<Rightarrow> bool" where
  "bos_matches v d \<longleftrightarrow> st_bos (ta_structure v) = Some (expected_move d)"

definition choch_matches :: "timeframe_analysis \<Rightarrow> bias \<Rightarrow> bool" where
  "choch_matches v d \<longleftrightarrow> st_choch (ta_structure v) = Some (expected_move d)"

definition momentum_matches :: "timeframe_analysis \<Rightarrow> bias \<Rightarrow> bool" where
  "momentum_matches v d =
     (case (ix_macd_histogram (ta_indicators v), ix_rsi14 (ta_indicators v)) of
        (Some hist, Some r) \<Rightarrow>
          if d = LongBias then 0 < hist \<and> 50 \<le> r \<and> r < 72 else hist < 0 \<and> 28 < r \<and> r \<le> 50
      | _ \<Rightarrow> False)"

definition volume_confirmed :: "timeframe_analysis \<Rightarrow> decimal \<Rightarrow> bool" where
  "volume_confirmed v minimum =
     (case ix_volume_ratio20 (ta_indicators v) of None \<Rightarrow> False | Some ratio \<Rightarrow> minimum \<le> ratio)"

definition near_ema20 :: "timeframe_analysis \<Rightarrow> bool" where
  "near_ema20 v =
     (case ix_ema20 (ta_indicators v) of None \<Rightarrow> False
      | Some e \<Rightarrow> \<not> e \<le> 0 \<and> dmul (ddiv (dabs (dsub (ta_close v) e)) e) 100 \<le> 6 / 10)"

definition expected_zone :: "bias \<Rightarrow> zone" where
  "expected_zone d = (if d = LongBias then Bullish else Bearish)"

definition has_fvg :: "timeframe_analysis \<Rightarrow> bias \<Rightarrow> bool" where
  "has_fvg v d \<longleftrightarrow>
     list_ex (\<lambda>g. fv_direction g = expected_zone d \<and> fv_filled_ratio g < 1) (st_fair_value_gaps (ta_structure v))"

text \<open>\<open>sub in s\<close>.\<close>

definition contains :: "string \<Rightarrow> string \<Rightarrow> bool" where
  "contains sub s \<longleftrightarrow> list_ex (\<lambda>i. take (length sub) (drop i s) = sub) [0..<length s + 1]"

text \<open>\<open>value or fallback\<close> of an optional decimal: zero counts as absent.\<close>

definition or_decimal :: "decimal option \<Rightarrow> decimal \<Rightarrow> decimal" where
  "or_decimal value fallback = (case value of None \<Rightarrow> fallback | Some x \<Rightarrow> if x = 0 then fallback else x)"

section \<open>Structural protection\<close>

definition support_set :: "timeframe_analysis \<Rightarrow> decimal list" where
  "support_set v = st_support_levels (ta_structure v) @
     (case st_last_swing_low (ta_structure v) of None \<Rightarrow> [] | Some x \<Rightarrow> [x])"

definition resistance_set :: "timeframe_analysis \<Rightarrow> decimal list" where
  "resistance_set v = st_resistance_levels (ta_structure v) @
     (case st_last_swing_high (ta_structure v) of None \<Rightarrow> [] | Some x \<Rightarrow> [x])"

definition structural_bracket ::
  "direction \<Rightarrow> decimal \<Rightarrow> decimal \<Rightarrow> string \<Rightarrow> timeframe_analysis \<Rightarrow> structural_geometry option" where
  "structural_bracket d entry buffer tf v =
     (let below = filter (\<lambda>l. l < entry) (support_set v);
          above = filter (\<lambda>l. entry < l) (resistance_set v)
      in if below = [] \<or> above = [] then None
         else
           let stop_anchor = (case d of Long \<Rightarrow> Max (set below) | Short \<Rightarrow> Min (set above));
               target_anchor = (case d of Long \<Rightarrow> Min (set above) | Short \<Rightarrow> Max (set below));
               stop_loss = (case d of Long \<Rightarrow> dsub stop_anchor buffer | Short \<Rightarrow> dadd stop_anchor buffer);
               risk = (case d of Long \<Rightarrow> dsub entry stop_loss | Short \<Rightarrow> dsub stop_loss entry);
               reward = (case d of Long \<Rightarrow> dsub target_anchor entry | Short \<Rightarrow> dsub entry target_anchor)
           in if d = Long \<and> stop_loss \<le> 0 \<or> \<not> brackets d stop_loss entry target_anchor then None
              else if risk \<le> 0 \<or> reward \<le> 0 then None
              else Some \<lparr>sg_timeframe = tf, sg_source_closed_at = ta_last_closed_at v, sg_reference_entry = entry,
                     sg_stop_anchor = stop_anchor, sg_target_anchor = target_anchor, sg_volatility_buffer = buffer,
                     sg_stop_loss = stop_loss, sg_take_profit = target_anchor,
                     sg_gross_risk_reward = ddiv reward risk\<rparr>)"

definition structural_candidate ::
  "views \<Rightarrow> direction \<Rightarrow> decimal \<Rightarrow> decimal \<Rightarrow> decimal \<Rightarrow> string \<Rightarrow> structural_geometry option" where
  "structural_candidate views d entry minimum_buffer multiplier tf =
     (case map_of views tf of None \<Rightarrow> None
      | Some v \<Rightarrow>
          if \<not> ta_data_quality_ok v then None
          else structural_bracket d entry
            (max minimum_buffer (dmul (or_decimal (ix_atr14 (ta_indicators v)) 0) multiplier)) tf v)"

fun first_bracket :: "(string \<Rightarrow> structural_geometry option) \<Rightarrow> string list \<Rightarrow> structural_geometry option" where
  "first_bracket f [] = None"
| "first_bracket f (tf # tfs) = (case f tf of None \<Rightarrow> first_bracket f tfs | Some g \<Rightarrow> Some g)"

definition structural_protection_geometry ::
  "views \<Rightarrow> direction \<Rightarrow> decimal \<Rightarrow> string list \<Rightarrow> decimal \<Rightarrow> decimal \<Rightarrow> structural_geometry option result" where
  "structural_protection_geometry views d entry timeframes atr_buffer_multiplier minimum_buffer_bps =
     (if entry \<le> 0 \<or> atr_buffer_multiplier < 0 \<or> minimum_buffer_bps \<le> 0
      then Inl (ValueError ''invalid structural protection configuration'')
      else optional validate_structural_geometry
        (first_bracket (structural_candidate views d entry
           (ddiv (dmul entry minimum_buffer_bps) 10000) atr_buffer_multiplier) timeframes))"

definition protection_timeframes :: "string list" where
  "protection_timeframes = [''15m'', ''1H'', ''4H'']"

section \<open>Candidates\<close>

definition atr_distance :: "strategy_context \<Rightarrow> decimal result" where
  "atr_distance ctx =
     bind_result (cx_tf ctx ''15m'') (\<lambda>v.
     let fallback = dmul (cx_price ctx) (5 / 1000)
     in Inr (max fallback (dmul (or_decimal (ix_atr14 (ta_indicators v)) fallback) (15 / 10))))"

fun side_text :: "direction \<Rightarrow> string" where
  "side_text Long = ''long''"
| "side_text Short = ''short''"

definition build_candidate ::
  "strategy_context \<Rightarrow> string \<Rightarrow> direction \<Rightarrow> int \<Rightarrow> string list \<Rightarrow> string list \<Rightarrow> trade_candidate result" where
  "build_candidate ctx strategy d score reasons counter_evidence =
     bind_result (atr_distance ctx) (\<lambda>distance.
     let entry = cx_price ctx;
         rr = cx_minimum_risk_reward ctx;
         stop = (case d of Long \<Rightarrow> dsub entry distance | Short \<Rightarrow> dadd entry distance);
         take = (case d of Long \<Rightarrow> dadd entry (dmul distance rr) | Short \<Rightarrow> dsub entry (dmul distance rr))
     in bind_result (quantize_half_up 8 entry) (\<lambda>q_entry.
        bind_result (quantize_half_up 8 stop) (\<lambda>q_stop.
        bind_result (quantize_half_up 8 take) (\<lambda>q_take.
        bind_result (derivative_confirmation_of (cx_views ctx) d) (\<lambda>derivative.
        bind_result (mathematical_confirmation_of (ma_mathematical_core (cx_analysis ctx)) d) (\<lambda>mathematical.
        bind_result (structural_protection_geometry (cx_views ctx) d q_entry protection_timeframes (25 / 100) 5) (\<lambda>structural.
        validate_trade_candidate
          \<lparr>tc_strategy = strategy, tc_direction = d, tc_score = score, tc_entry = q_entry, tc_stop_loss = q_stop,
           tc_take_profit = q_take, tc_risk_reward = rr,
           tc_invalidation = side_text d @ '' setup invalidates at stop loss'',
           tc_expires_at = cx_now ctx + seconds 1200, tc_reasons = reasons, tc_counter_evidence = counter_evidence,
           tc_derivative_confirmation = Some derivative, tc_mathematical_confirmation = Some mathematical,
           tc_risk_score = None, tc_protection_model = Atr, tc_structural_protection = structural,
           tc_estimated_round_trip_cost_pct = 0, tc_gross_risk_reward = None, tc_net_risk_reward = None\<rparr>)))))))"

section \<open>Scoring\<close>

fun side_of :: "bias \<Rightarrow> direction option" where
  "side_of LongBias = Some Long"
| "side_of ShortBias = Some Short"
| "side_of NeutralBias = None"

definition points :: "condition list \<Rightarrow> int" where
  "points cs = sum_list (map cn_maximum cs)"

text \<open>
  \<open>round(earned / total * 100)\<close>: the quotient and the product are exact here. The conditions of
  every registered strategy add up to 100 points (lemma \<open>strategy_totals\<close>), where the rounded
  binary product is the same integer.
\<close>

definition condition_score :: "condition list \<Rightarrow> int" where
  "condition_score conditions =
     (let total = (if points conditions = 0 then 1 else points conditions);
          earned = points (filter cn_passed conditions)
      in min 100 (round_half_even (of_int earned / of_int total * 100)))"

definition completion_ratio :: "condition list \<Rightarrow> decimal result" where
  "completion_ratio conditions =
     (let total = (if points conditions = 0 then 1 else points conditions)
      in quantize_even 4 (ddiv (of_int (points (filter cn_passed conditions))) (of_int total)))"

definition evaluation_fields_ok :: "strategy_evaluation \<Rightarrow> bool" where
  "evaluation_fields_ok e \<longleftrightarrow> in_range 0 1 (se_completion_ratio e) \<and> in_range 0 100 (se_score e)"

definition evaluate_conditions ::
  "strategy_context \<Rightarrow> string \<Rightarrow> bias \<Rightarrow> condition list \<Rightarrow> string list \<Rightarrow> strategy_evaluation result" where
  "evaluate_conditions ctx strategy direction conditions extra_vetoes =
     (let score = condition_score conditions;
          passed = map cn_label (filter cn_passed conditions);
          failed = map cn_label (filter (\<lambda>c. \<not> cn_passed c) conditions);
          vetoes = map cn_detail (filter (\<lambda>c. cn_veto c \<and> \<not> cn_passed c) conditions) @ extra_vetoes;
          eligible = (cx_minimum_score ctx \<le> score \<and> vetoes = [] \<and> side_of direction \<noteq> None)
      in bind_result
           (if eligible then optional (\<lambda>d. build_candidate ctx strategy d score passed failed) (side_of direction)
            else Inr None)
           (\<lambda>candidate. bind_result (completion_ratio conditions) (\<lambda>ratio.
             checked evaluation_fields_ok
               \<lparr>se_strategy = strategy, se_direction = direction, se_eligible = eligible,
                se_completion_ratio = ratio, se_score = score, se_passed_conditions = passed,
                se_failed_conditions = failed, se_vetoes = sorted_set vetoes,
                se_score_components = map (\<lambda>c. \<lparr>sc_code = cn_code c, sc_label = cn_label c,
                  sc_points = (if cn_passed c then cn_maximum c else 0), sc_maximum = cn_maximum c,
                  sc_passed = cn_passed c, sc_detail = cn_detail c\<rparr>) conditions,
                se_candidate = candidate\<rparr>)))"

definition common_vetoes :: "strategy_context \<Rightarrow> bias \<Rightarrow> string list result" where
  "common_vetoes ctx direction =
     bind_result (cx_tf ctx ''5m'') (\<lambda>v.
     Inr (filter (contains ''data_quality'') (ma_blockers (cx_analysis ctx)) @
       collect
         [(8 / 100 < spread_pct (ms_ticker (cx_market ctx)), ''spread_above_0.08_percent''),
          (ta_volatility v = ExtremeVolatility, ''5m_extreme_volatility''),
          (direction = LongBias \<and> 15 / 10000 < ms_funding_rate (cx_market ctx),
           ''funding_excessively_positive_for_long''),
          (direction = ShortBias \<and> ms_funding_rate (cx_market ctx) < - (15 / 10000),
           ''funding_excessively_negative_for_short'')]))"

text \<open>
  The last two steps of every strategy. Every strategy looks up at most the four timeframes, and
  a missing one raises the same exception at whichever of its uses comes first.
\<close>

definition scored ::
  "strategy_context \<Rightarrow> string \<Rightarrow> bias \<Rightarrow> condition list \<Rightarrow> strategy_evaluation result" where
  "scored ctx strategy direction conditions =
     bind_result (common_vetoes ctx direction) (evaluate_conditions ctx strategy direction conditions)"

definition quality_passes :: "strategy_context \<Rightarrow> bool" where
  "quality_passes ctx \<longleftrightarrow> list_all (\<lambda>(_, v). ta_data_quality_ok v) (cx_views ctx)"

section \<open>Trend pullback\<close>

definition trend_pullback_conditions ::
  "strategy_context \<Rightarrow> bias \<Rightarrow> timeframe_analysis \<Rightarrow> timeframe_analysis \<Rightarrow> timeframe_analysis \<Rightarrow> timeframe_analysis \<Rightarrow> condition list" where
  "trend_pullback_conditions ctx d h4 h1 m15 m5 =
     [Condition ''4h_trend'' ''4H trend agrees'' 25 (trend_matches h4 d) ''4H trend does not agree'',
      Condition ''1h_trend'' ''1H trend agrees'' 20 (trend_matches h1 d) ''1H trend does not agree'',
      Condition ''15m_pullback'' ''15m price is near EMA20'' 20 (near_ema20 m15) ''15m is not at a controlled pullback'',
      Condition ''5m_momentum'' ''5m momentum resumes'' 20 (momentum_matches m5 d) ''5m momentum has not resumed'',
      VetoCondition ''quality'' ''All timeframe data quality passes'' 15 (ma_blockers (cx_analysis ctx) = [])
        ''market data quality or alignment is blocked'']"

definition evaluate_trend_pullback :: "strategy_context \<Rightarrow> strategy_evaluation result" where
  "evaluate_trend_pullback ctx =
     (let d = ma_overall_bias (cx_analysis ctx)
      in bind_result (cx_tf ctx ''4H'') (\<lambda>h4. bind_result (cx_tf ctx ''1H'') (\<lambda>h1.
         bind_result (cx_tf ctx ''15m'') (\<lambda>m15. bind_result (cx_tf ctx ''5m'') (\<lambda>m5.
         scored ctx ''trend_pullback'' d (trend_pullback_conditions ctx d h4 h1 m15 m5))))))"

section \<open>Breakout continuation\<close>

definition breakout_conditions ::
  "strategy_context \<Rightarrow> bias \<Rightarrow> timeframe_analysis \<Rightarrow> timeframe_analysis \<Rightarrow> timeframe_analysis \<Rightarrow> condition list" where
  "breakout_conditions ctx d h4 m15 m5 =
     [Condition ''4h_permission'' ''4H direction permits trade'' 20 (trend_matches h4 d) ''4H does not permit direction'',
      Condition ''15m_bos'' ''15m confirmed BOS'' 30 (bos_matches m15 d) ''15m confirmed BOS is missing'',
      Condition ''5m_trend'' ''5m trend follows breakout'' 20 (trend_matches m5 d) ''5m trend does not follow breakout'',
      Condition ''5m_volume'' ''5m volume confirms breakout'' 20 (volume_confirmed m5 1) ''5m volume ratio is below 1.0'',
      VetoCondition ''quality'' ''Data and MTF alignment pass'' 10 (ma_blockers (cx_analysis ctx) = [])
        ''analysis contains blockers'']"

definition evaluate_breakout :: "strategy_context \<Rightarrow> strategy_evaluation result" where
  "evaluate_breakout ctx =
     (let d = ma_overall_bias (cx_analysis ctx)
      in bind_result (cx_tf ctx ''4H'') (\<lambda>h4. bind_result (cx_tf ctx ''15m'') (\<lambda>m15.
         bind_result (cx_tf ctx ''5m'') (\<lambda>m5.
         scored ctx ''breakout_continuation'' d (breakout_conditions ctx d h4 m15 m5)))))"

section \<open>Liquidity sweep reversal\<close>

definition reversal_direction :: "timeframe_analysis \<Rightarrow> bias" where
  "reversal_direction v =
     (case st_choch (ta_structure v) of Some Up \<Rightarrow> LongBias | Some Down \<Rightarrow> ShortBias | None \<Rightarrow> NeutralBias)"

definition sweep_reclaimed :: "timeframe_analysis \<Rightarrow> bias \<Rightarrow> bool" where
  "sweep_reclaimed v d =
     (case (d, st_last_swing_low (ta_structure v), st_last_swing_high (ta_structure v)) of
        (LongBias, Some low, _) \<Rightarrow> low < ta_close v \<and> st_choch (ta_structure v) = Some Up
      | (ShortBias, _, Some high) \<Rightarrow> ta_close v < high \<and> st_choch (ta_structure v) = Some Down
      | _ \<Rightarrow> False)"

definition liquidity_sweep_conditions ::
  "strategy_context \<Rightarrow> bias \<Rightarrow> timeframe_analysis \<Rightarrow> timeframe_analysis \<Rightarrow> condition list" where
  "liquidity_sweep_conditions ctx d m15 m5 =
     [Condition ''15m_sweep'' ''15m liquidity sweep is reclaimed'' 30 (sweep_reclaimed m15 d) ''no reclaim after a liquidity sweep'',
      Condition ''15m_choch'' ''15m CHoCH confirms reversal'' 25 (choch_matches m15 d) ''15m CHoCH is missing'',
      Condition ''5m_momentum'' ''5m momentum confirms reversal'' 20 (momentum_matches m5 d) ''5m momentum has not confirmed'',
      VetoCondition ''not_extreme'' ''5m volatility is not extreme'' 15 (ta_volatility m5 \<noteq> ExtremeVolatility) ''5m volatility is extreme'',
      VetoCondition ''quality'' ''Data quality passes'' 10 (quality_passes ctx) ''data quality failed'']"

definition evaluate_liquidity_sweep :: "strategy_context \<Rightarrow> strategy_evaluation result" where
  "evaluate_liquidity_sweep ctx =
     bind_result (cx_tf ctx ''15m'') (\<lambda>m15. bind_result (cx_tf ctx ''5m'') (\<lambda>m5.
     let d = reversal_direction m15
     in scored ctx ''liquidity_sweep_reversal'' d (liquidity_sweep_conditions ctx d m15 m5)))"

section \<open>Fair value gap return\<close>

definition fvg_conditions ::
  "strategy_context \<Rightarrow> bias \<Rightarrow> timeframe_analysis \<Rightarrow> timeframe_analysis \<Rightarrow> timeframe_analysis \<Rightarrow> timeframe_analysis \<Rightarrow> condition list" where
  "fvg_conditions ctx d h4 h1 m15 m5 =
     [Condition ''4h_direction'' ''4H direction agrees'' 20 (trend_matches h4 d) ''4H direction disagrees'',
      Condition ''15m_fvg'' ''15m has an unfilled directional FVG'' 30 (has_fvg m15 d) ''no suitable 15m FVG'',
      Condition ''1h_context'' ''1H context agrees'' 15 (trend_matches h1 d) ''1H context disagrees'',
      Condition ''5m_trigger'' ''5m momentum triggers from zone'' 20 (momentum_matches m5 d) ''5m trigger is missing'',
      VetoCondition ''quality'' ''Data and alignment pass'' 15 (ma_blockers (cx_analysis ctx) = []) ''analysis contains blockers'']"

definition evaluate_fvg :: "strategy_context \<Rightarrow> strategy_evaluation result" where
  "evaluate_fvg ctx =
     (let d = ma_overall_bias (cx_analysis ctx)
      in bind_result (cx_tf ctx ''4H'') (\<lambda>h4. bind_result (cx_tf ctx ''15m'') (\<lambda>m15.
         bind_result (cx_tf ctx ''1H'') (\<lambda>h1. bind_result (cx_tf ctx ''5m'') (\<lambda>m5.
         scored ctx ''fvg_return'' d (fvg_conditions ctx d h4 h1 m15 m5))))))"

section \<open>Order block return\<close>

definition at_directional_block :: "timeframe_analysis \<Rightarrow> bias \<Rightarrow> bool" where
  "at_directional_block v d =
     (let price = ta_close v;
          margin = dmul (or_decimal (ix_atr14 (ta_indicators v)) (dmul price (5 / 1000))) (25 / 100)
      in list_ex (\<lambda>b. ob_direction b = expected_zone d \<and> \<not> ob_mitigated b \<and>
           dsub (ob_lower b) margin \<le> price \<and> price \<le> dadd (ob_upper b) margin) (st_order_blocks (ta_structure v)))"

definition order_block_conditions ::
  "strategy_context \<Rightarrow> bias \<Rightarrow> timeframe_analysis \<Rightarrow> timeframe_analysis \<Rightarrow> timeframe_analysis \<Rightarrow> timeframe_analysis \<Rightarrow> condition list" where
  "order_block_conditions ctx d h4 h1 m15 m5 =
     [Condition ''4h_direction'' ''4H direction agrees'' 20 (trend_matches h4 d) ''4H direction disagrees'',
      Condition ''1h_context'' ''1H direction agrees'' 15 (trend_matches h1 d) ''1H context disagrees'',
      Condition ''15m_order_block'' ''15m price is retesting an unmitigated directional order block'' 35
        (at_directional_block m15 d) ''price is not retesting a valid 15m order block'',
      Condition ''5m_trigger'' ''5m momentum confirms the return'' 15 (momentum_matches m5 d) ''5m trigger is missing'',
      VetoCondition ''quality'' ''Data quality passes'' 15 (quality_passes ctx) ''data quality failed'']"

definition evaluate_order_block :: "strategy_context \<Rightarrow> strategy_evaluation result" where
  "evaluate_order_block ctx =
     (let d = ma_overall_bias (cx_analysis ctx)
      in bind_result (cx_tf ctx ''4H'') (\<lambda>h4. bind_result (cx_tf ctx ''1H'') (\<lambda>h1.
         bind_result (cx_tf ctx ''15m'') (\<lambda>m15. bind_result (cx_tf ctx ''5m'') (\<lambda>m5.
         scored ctx ''order_block_return'' d (order_block_conditions ctx d h4 h1 m15 m5))))))"

section \<open>Range reversal\<close>

definition range_direction :: "strategy_context \<Rightarrow> timeframe_analysis \<Rightarrow> bias" where
  "range_direction ctx v =
     (let reach = or_decimal (ix_atr14 (ta_indicators v)) (dmul (cx_price ctx) (5 / 1000));
          near = (\<lambda>levels. case levels of [] \<Rightarrow> False | l # _ \<Rightarrow> dabs (dsub (ta_close v) l) \<le> reach)
      in if near (st_support_levels (ta_structure v)) then LongBias
         else if near (st_resistance_levels (ta_structure v)) then ShortBias
         else NeutralBias)"

definition range_conditions ::
  "strategy_context \<Rightarrow> bias \<Rightarrow> timeframe_analysis \<Rightarrow> timeframe_analysis \<Rightarrow> condition list" where
  "range_conditions ctx d m15 m5 =
     [Condition ''range_regime'' ''Market regime is range'' 30 (contains ''range'' (ma_regime (cx_analysis ctx)))
        ''market is not classified as range'',
      Condition ''range_edge'' ''15m price is near a range edge'' 25 (d \<noteq> NeutralBias) ''price is not near support or resistance'',
      Condition ''5m_turn'' ''5m momentum turns from the edge'' 20 (momentum_matches m5 d) ''5m reversal momentum is missing'',
      VetoCondition ''normal_vol'' ''15m volatility is not high/extreme'' 15
        (ta_volatility m15 \<in> {LowVolatility, NormalVolatility}) ''range reversal blocked by high volatility'',
      VetoCondition ''quality'' ''Data quality passes'' 10 (quality_passes ctx) ''data quality failed'']"

definition evaluate_range :: "strategy_context \<Rightarrow> strategy_evaluation result" where
  "evaluate_range ctx =
     bind_result (cx_tf ctx ''15m'') (\<lambda>m15. bind_result (cx_tf ctx ''5m'') (\<lambda>m5.
     let d = range_direction ctx m15
     in scored ctx ''range_reversal'' d (range_conditions ctx d m15 m5)))"

section \<open>Structure reversal\<close>

definition structure_reversal_conditions ::
  "strategy_context \<Rightarrow> bias \<Rightarrow> timeframe_analysis \<Rightarrow> timeframe_analysis \<Rightarrow> timeframe_analysis \<Rightarrow> timeframe_analysis \<Rightarrow> condition list" where
  "structure_reversal_conditions ctx d h4 h1 m15 m5 =
     [Condition ''1h_choch'' ''1H CHoCH confirms structural reversal'' 35 (choch_matches h1 d) ''1H CHoCH is missing'',
      Condition ''15m_follow'' ''15m bias follows reversal'' 25 (ta_directional_bias m15 = d) ''15m does not follow reversal'',
      Condition ''5m_trigger'' ''5m momentum confirms entry'' 20 (momentum_matches m5 d) ''5m trigger is missing'',
      VetoCondition ''4h_not_opposed'' ''4H is not strongly opposed'' 10
        (\<not> (d = LongBias \<and> st_trend (ta_structure h4) = StrongBearish \<or>
            d = ShortBias \<and> st_trend (ta_structure h4) = StrongBullish)) ''4H strongly opposes reversal'',
      VetoCondition ''quality'' ''Data quality passes'' 10 (quality_passes ctx) ''data quality failed'']"

definition evaluate_structure_reversal :: "strategy_context \<Rightarrow> strategy_evaluation result" where
  "evaluate_structure_reversal ctx =
     bind_result (cx_tf ctx ''1H'') (\<lambda>h1. bind_result (cx_tf ctx ''15m'') (\<lambda>m15.
     bind_result (cx_tf ctx ''5m'') (\<lambda>m5. bind_result (cx_tf ctx ''4H'') (\<lambda>h4.
     let d = reversal_direction h1
     in scored ctx ''structure_reversal'' d (structure_reversal_conditions ctx d h4 h1 m15 m5)))))"

section \<open>Volatility expansion\<close>

definition volatility_expansion_conditions ::
  "strategy_context \<Rightarrow> bias \<Rightarrow> timeframe_analysis \<Rightarrow> timeframe_analysis \<Rightarrow> condition list" where
  "volatility_expansion_conditions ctx d m15 m5 =
     [Condition ''15m_expansion'' ''15m volatility expands'' 25 (ta_volatility m15 = HighVolatility)
        ''15m volatility is not in controlled expansion'',
      Condition ''15m_bos'' ''15m BOS confirms expansion direction'' 25 (bos_matches m15 d) ''15m BOS is missing'',
      Condition ''5m_volume'' ''5m volume confirms expansion'' 20 (volume_confirmed m5 (12 / 10)) ''5m volume ratio is below 1.2'',
      Condition ''5m_momentum'' ''5m momentum agrees'' 15 (momentum_matches m5 d) ''5m momentum disagrees'',
      VetoCondition ''not_extreme'' ''5m volatility is not extreme'' 15 (ta_volatility m5 \<noteq> ExtremeVolatility) ''5m volatility is extreme'']"

definition evaluate_volatility_expansion :: "strategy_context \<Rightarrow> strategy_evaluation result" where
  "evaluate_volatility_expansion ctx =
     (let d = ma_overall_bias (cx_analysis ctx)
      in bind_result (cx_tf ctx ''15m'') (\<lambda>m15. bind_result (cx_tf ctx ''5m'') (\<lambda>m5.
         scored ctx ''volatility_expansion'' d (volatility_expansion_conditions ctx d m15 m5))))"

section \<open>Registry\<close>

definition STRATEGIES :: "(strategy_context \<Rightarrow> strategy_evaluation result) list" where
  "STRATEGIES =
     [evaluate_trend_pullback, evaluate_breakout, evaluate_liquidity_sweep, evaluate_fvg,
      evaluate_order_block, evaluate_range, evaluate_structure_reversal, evaluate_volatility_expansion]"

definition STRATEGY_NAMES :: "string list" where
  "STRATEGY_NAMES =
     [''trend_pullback'', ''breakout_continuation'', ''liquidity_sweep_reversal'', ''fvg_return'',
      ''order_block_return'', ''range_reversal'', ''structure_reversal'', ''volatility_expansion'']"

section \<open>Points\<close>

lemmas condition_defs = Condition_def VetoCondition_def

lemmas strategy_conditions = trend_pullback_conditions_def breakout_conditions_def liquidity_sweep_conditions_def
  fvg_conditions_def order_block_conditions_def range_conditions_def structure_reversal_conditions_def
  volatility_expansion_conditions_def

definition full_scale :: "condition list \<Rightarrow> bool" where
  "full_scale cs \<longleftrightarrow> points cs = 100 \<and> list_all (\<lambda>c. 0 \<le> cn_maximum c) cs"

lemma strategy_totals [simp]:
  "full_scale (trend_pullback_conditions ctx d h4 h1 m15 m5)" "full_scale (breakout_conditions ctx d h4 m15 m5)"
  "full_scale (liquidity_sweep_conditions ctx d m15 m5)" "full_scale (fvg_conditions ctx d h4 h1 m15 m5)"
  "full_scale (order_block_conditions ctx d h4 h1 m15 m5)" "full_scale (range_conditions ctx d m15 m5)"
  "full_scale (structure_reversal_conditions ctx d h4 h1 m15 m5)" "full_scale (volatility_expansion_conditions ctx d m15 m5)"
  by (simp_all add: full_scale_def points_def strategy_conditions condition_defs)

lemma points_filter:
  assumes "list_all (\<lambda>c. 0 \<le> cn_maximum c) cs"
  shows "0 \<le> points (filter P cs)" "points (filter P cs) \<le> points cs"
  using assms by (induction cs) (auto simp: points_def)

lemma full_scale_score:
  assumes "full_scale cs"
  shows "condition_score cs = points (filter cn_passed cs)" "in_range 0 100 (condition_score cs)"
proof -
  have "points (filter cn_passed cs) \<le> 100" "0 \<le> points (filter cn_passed cs)"
    using points_filter [of cs cn_passed] assms by (auto simp: full_scale_def)
  moreover have "round_half_even (of_int n / 100 * 100) = n" for n
    using round_half_even_of_int [of n] by simp
  ultimately show "condition_score cs = points (filter cn_passed cs)" "in_range 0 100 (condition_score cs)"
    using assms by (auto simp: condition_score_def full_scale_def in_range_def)
qed

section \<open>The structural bracket\<close>

lemma first_bracket_Some:
  assumes "first_bracket f tfs = Some g"
  shows "\<exists>before tf after. tfs = before @ tf # after \<and> list_all (\<lambda>t. f t = None) before \<and> f tf = Some g"
  using assms
proof (induction tfs)
  case (Cons t tfs)
  show ?case
  proof (cases "f t")
    case None
    then obtain before tf after where "tfs = before @ tf # after" "list_all (\<lambda>t. f t = None) before" "f tf = Some g"
      using Cons by auto
    with None show ?thesis by (intro exI [of _ "t # before"] exI [of _ tf] exI [of _ after]) simp
  next
    case (Some x)
    with Cons.prems show ?thesis by (intro exI [of _ "[]"] exI [of _ t] exI [of _ tfs]) simp
  qed
qed simp

text \<open>The anchors are levels of the view, and no level lies between an anchor and the entry.\<close>

definition nearest_below :: "decimal \<Rightarrow> decimal list \<Rightarrow> decimal \<Rightarrow> bool" where
  "nearest_below p levels x \<longleftrightarrow> x \<in> set levels \<and> x < p \<and> list_all (\<lambda>l. l < p \<longrightarrow> l \<le> x) levels"

definition nearest_above :: "decimal \<Rightarrow> decimal list \<Rightarrow> decimal \<Rightarrow> bool" where
  "nearest_above p levels x \<longleftrightarrow> x \<in> set levels \<and> p < x \<and> list_all (\<lambda>l. p < l \<longrightarrow> x \<le> l) levels"

lemma nearest_Max:
  "filter (\<lambda>l. l < p) ls \<noteq> [] \<Longrightarrow> nearest_below p ls (Max (set (filter (\<lambda>l. l < p) ls)))"
  "filter (\<lambda>l. p < l) ls \<noteq> [] \<Longrightarrow> nearest_above p ls (Min (set (filter (\<lambda>l. p < l) ls)))"
proof -
  assume "filter (\<lambda>l. l < p) ls \<noteq> []"
  then have "Max (set (filter (\<lambda>l. l < p) ls)) \<in> set (filter (\<lambda>l. l < p) ls)"
    by (intro Max_in) (simp_all only: finite_set set_empty not_False_eq_True)
  then show "nearest_below p ls (Max (set (filter (\<lambda>l. l < p) ls)))"
    by (auto simp: nearest_below_def list_all_iff)
next
  assume "filter (\<lambda>l. p < l) ls \<noteq> []"
  then have "Min (set (filter (\<lambda>l. p < l) ls)) \<in> set (filter (\<lambda>l. p < l) ls)"
    by (intro Min_in) (simp_all only: finite_set set_empty not_False_eq_True)
  then show "nearest_above p ls (Min (set (filter (\<lambda>l. p < l) ls)))"
    by (auto simp: nearest_above_def list_all_iff)
qed

definition sound_bracket :: "direction \<Rightarrow> decimal \<Rightarrow> timeframe_analysis \<Rightarrow> structural_geometry \<Rightarrow> bool" where
  "sound_bracket d entry v g \<longleftrightarrow>
     sg_reference_entry g = entry \<and> sg_source_closed_at g = ta_last_closed_at v \<and>
     brackets d (sg_stop_loss g) entry (sg_take_profit g) \<and> sg_take_profit g = sg_target_anchor g \<and>
     (case d of
        Long \<Rightarrow> nearest_below entry (support_set v) (sg_stop_anchor g) \<and>
          nearest_above entry (resistance_set v) (sg_target_anchor g) \<and> 0 < sg_stop_loss g
      | Short \<Rightarrow> nearest_above entry (resistance_set v) (sg_stop_anchor g) \<and>
          nearest_below entry (support_set v) (sg_target_anchor g))"

lemma structural_bracket_sound:
  "structural_bracket d entry buffer tf v = Some g \<Longrightarrow> sound_bracket d entry v g \<and> sg_timeframe g = tf"
  using nearest_Max
  by (cases d) (auto simp: structural_bracket_def sound_bracket_def Let_def not_le split: if_splits)

theorem structural_protection_first:
  assumes "structural_protection_geometry views d entry tfs multiplier bps = Inr (Some g)"
  shows "\<exists>before v after. tfs = before @ sg_timeframe g # after \<and> map_of views (sg_timeframe g) = Some v \<and>
      ta_data_quality_ok v \<and> sound_bracket d entry v g \<and> validate_structural_geometry g = Inr g \<and>
      list_all (\<lambda>tf. structural_candidate views d entry (ddiv (dmul entry bps) 10000) multiplier tf = None) before"
proof -
  let ?f = "structural_candidate views d entry (ddiv (dmul entry bps) 10000) multiplier"
  have same: "validate_structural_geometry x = Inr y \<Longrightarrow> y = x" for x y
    by (auto simp: validate_structural_geometry_def split: if_splits)
  have first: "first_bracket ?f tfs = Some g" and valid: "validate_structural_geometry g = Inr g"
    using assms same
    by (auto simp: structural_protection_geometry_def optional_def result_simps split: if_splits option.splits)
  obtain before tf after where tfs: "tfs = before @ tf # after" "list_all (\<lambda>t. ?f t = None) before" "?f tf = Some g"
    using first_bracket_Some [OF first] by (elim exE conjE)
  obtain v buffer where v: "map_of views tf = Some v" "ta_data_quality_ok v" "structural_bracket d entry buffer tf v = Some g"
    using tfs(3) by (auto simp: structural_candidate_def split: option.splits if_splits)
  show ?thesis using tfs v valid structural_bracket_sound [OF v(3)] by blast
qed

section \<open>Candidates and evaluations\<close>

definition sound_candidate :: "strategy_context \<Rightarrow> trade_candidate \<Rightarrow> bool" where
  "sound_candidate ctx c \<longleftrightarrow>
     wf_candidate c \<and> tc_entry c = grid_half_up 8 (cx_price ctx) \<and> tc_risk_reward c = cx_minimum_risk_reward ctx \<and>
     tc_expires_at c = cx_now ctx + seconds 1200 \<and> tc_protection_model c = Atr \<and>
     (\<exists>m. tc_mathematical_confirmation c = Some m \<and>
        mathematical_confirmation_of (ma_mathematical_core (cx_analysis ctx)) (tc_direction c) = Inr m) \<and>
     (\<exists>dc. tc_derivative_confirmation c = Some dc \<and> derivative_confirmation_of (cx_views ctx) (tc_direction c) = Inr dc) \<and>
     structural_protection_geometry (cx_views ctx) (tc_direction c) (tc_entry c) protection_timeframes (25 / 100) 5 =
       Inr (tc_structural_protection c)"

lemma build_candidate_sound:
  assumes "build_candidate ctx strategy d score reasons counter = Inr c"
  shows "sound_candidate ctx c" "tc_strategy c = strategy" "tc_direction c = d" "tc_score c = score"
    "tc_reasons c = reasons" "tc_counter_evidence c = counter"
  using assms
  by (auto simp: build_candidate_def Let_def result_simps wf_simps sound_candidate_def)

text \<open>No veto of the market: data quality, spread, volatility, funding.\<close>

definition market_clean :: "strategy_context \<Rightarrow> bias \<Rightarrow> bool" where
  "market_clean ctx d \<longleftrightarrow>
     list_all (\<lambda>b. \<not> contains ''data_quality'' b) (ma_blockers (cx_analysis ctx)) \<and>
     spread_pct (ms_ticker (cx_market ctx)) \<le> 8 / 100 \<and>
     (\<exists>v. cx_tf ctx ''5m'' = Inr v \<and> ta_volatility v \<noteq> ExtremeVolatility) \<and>
     (d = LongBias \<longrightarrow> ms_funding_rate (cx_market ctx) \<le> 15 / 10000) \<and>
     (d = ShortBias \<longrightarrow> - (15 / 10000) \<le> ms_funding_rate (cx_market ctx))"

lemma common_vetoes_Nil: "common_vetoes ctx d = Inr [] \<longleftrightarrow> market_clean ctx d"
  by (auto simp: common_vetoes_def market_clean_def result_simps filter_empty_conv list_all_iff collect_def not_less
      split: if_splits)

definition sound_evaluation :: "strategy_context \<Rightarrow> strategy_evaluation \<Rightarrow> bool" where
  "sound_evaluation ctx e \<longleftrightarrow>
     evaluation_fields_ok e \<and> (se_eligible e \<longleftrightarrow> se_candidate e \<noteq> None) \<and>
     (\<forall>c. se_candidate e = Some c \<longrightarrow>
        cx_minimum_score ctx \<le> se_score e \<and> se_vetoes e = [] \<and> market_clean ctx (se_direction e) \<and>
        side_of (se_direction e) = Some (tc_direction c) \<and> tc_strategy c = se_strategy e \<and>
        tc_score c = se_score e \<and> sound_candidate ctx c)"

lemma evaluate_conditions_facts:
  assumes "evaluate_conditions ctx strategy d conditions extra = Inr e"
  shows "se_strategy e = strategy" "se_direction e = d" "se_score e = condition_score conditions"
    "evaluation_fields_ok e" "se_eligible e \<longleftrightarrow> se_candidate e \<noteq> None"
    "se_candidate e = Some c \<Longrightarrow> cx_minimum_score ctx \<le> se_score e \<and> se_vetoes e = [] \<and> extra = [] \<and>
       side_of d = Some (tc_direction c) \<and> tc_strategy c = strategy \<and> tc_score c = se_score e \<and> sound_candidate ctx c"
  using assms build_candidate_sound
  by (auto simp: evaluate_conditions_def Let_def result_simps checked_def optional_def split: if_splits option.splits)

lemma scored_sound:
  assumes "scored ctx strategy d conditions = Inr e"
  shows "sound_evaluation ctx e" "se_strategy e = strategy" "se_score e = condition_score conditions"
proof -
  obtain extra where extra: "common_vetoes ctx d = Inr extra" "evaluate_conditions ctx strategy d conditions extra = Inr e"
    using assms by (auto simp: scored_def result_simps)
  note facts = evaluate_conditions_facts [OF extra(2)]
  show "se_strategy e = strategy" "se_score e = condition_score conditions" by (rule facts)+
  show "sound_evaluation ctx e"
    unfolding sound_evaluation_def using facts common_vetoes_Nil [of ctx d] extra(1) by auto
qed

lemmas strategy_defs = evaluate_trend_pullback_def evaluate_breakout_def evaluate_liquidity_sweep_def evaluate_fvg_def
  evaluate_order_block_def evaluate_range_def evaluate_structure_reversal_def evaluate_volatility_expansion_def

text \<open>
  Every registered strategy scores a list of conditions worth 100 points; its evaluation is sound
  and carries its own name.
\<close>

definition scored_by_registry :: "strategy_context \<Rightarrow> strategy_evaluation \<Rightarrow> bool" where
  "scored_by_registry ctx e \<longleftrightarrow> (\<exists>name d cs. name \<in> set STRATEGY_NAMES \<and> full_scale cs \<and> scored ctx name d cs = Inr e)"

lemma scored_by_registryI:
  "scored ctx name d cs = Inr e \<Longrightarrow> full_scale cs \<Longrightarrow> name \<in> set STRATEGY_NAMES \<Longrightarrow> scored_by_registry ctx e"
  by (auto simp: scored_by_registry_def)

lemma strategy_names [simp]:
  "''trend_pullback'' \<in> set STRATEGY_NAMES" "''breakout_continuation'' \<in> set STRATEGY_NAMES"
  "''liquidity_sweep_reversal'' \<in> set STRATEGY_NAMES" "''fvg_return'' \<in> set STRATEGY_NAMES"
  "''order_block_return'' \<in> set STRATEGY_NAMES" "''range_reversal'' \<in> set STRATEGY_NAMES"
  "''structure_reversal'' \<in> set STRATEGY_NAMES" "''volatility_expansion'' \<in> set STRATEGY_NAMES"
  by (simp_all add: STRATEGY_NAMES_def)

lemma strategy_scored_each:
  "evaluate_trend_pullback ctx = Inr e \<Longrightarrow> scored_by_registry ctx e"
  "evaluate_breakout ctx = Inr e \<Longrightarrow> scored_by_registry ctx e"
  "evaluate_liquidity_sweep ctx = Inr e \<Longrightarrow> scored_by_registry ctx e"
  "evaluate_fvg ctx = Inr e \<Longrightarrow> scored_by_registry ctx e"
  "evaluate_order_block ctx = Inr e \<Longrightarrow> scored_by_registry ctx e"
  "evaluate_range ctx = Inr e \<Longrightarrow> scored_by_registry ctx e"
  "evaluate_structure_reversal ctx = Inr e \<Longrightarrow> scored_by_registry ctx e"
  "evaluate_volatility_expansion ctx = Inr e \<Longrightarrow> scored_by_registry ctx e"
  unfolding strategy_defs Let_def bind_result_eq_Inr
  by (elim exE conjE, erule scored_by_registryI, simp, simp)+

lemma strategy_scored:
  assumes "f \<in> set STRATEGIES" "f ctx = Inr e"
  shows "scored_by_registry ctx e"
  using assms strategy_scored_each unfolding STRATEGIES_def by auto

theorem strategies_sound:
  assumes "f \<in> set STRATEGIES" "f ctx = Inr e"
  shows "sound_evaluation ctx e \<and> se_strategy e \<in> set STRATEGY_NAMES"
  using strategy_scored [OF assms] scored_sound by (auto simp: scored_by_registry_def)

end
