(* ===== verification/Strategy_Service.thy ===== *)
theory Strategy_Service
  imports Strategies Demo_Risk "HOL-Library.Product_Lexorder"
begin

text \<open>
  \<open>StrategyService.evaluate\<close> (\<^verbatim>\<open>app/strategies/service.py\<close>) from the market snapshot on: the analysis,
  the eight evaluations, the strategies an operator has disabled, the removal of candidates
  the mathematical core opposes, and the choice of the best remaining one.

  The choice is Python's \<open>max\<close> with a key (\<open>pick_max\<close>, interpreted as \<open>best\<close>). Lemmas: the selected candidate comes from a registered strategy that is
  not disabled, met the minimum score without a veto in a clean market, is not opposed by the
  core, and has the greatest key; no trade is decided exactly when nothing is eligible.
\<close>

section \<open>Decision\<close>

record strategy_decision =
  sd_symbol :: string
  sd_instrument_id :: string
  sd_decision :: "bias option"
  sd_selected_strategy :: "string option"
  sd_selected_candidate :: "trade_candidate option"
  sd_minimum_score :: int
  sd_evaluations :: "strategy_evaluation list"
  sd_blockers :: "string list"

section \<open>Evaluation\<close>

fun evaluate_all ::
  "(strategy_context \<Rightarrow> strategy_evaluation result) list \<Rightarrow> strategy_context \<Rightarrow> strategy_evaluation list result" where
  "evaluate_all [] ctx = Inr []"
| "evaluate_all (f # fs) ctx =
     bind_result (f ctx) (\<lambda>e. bind_result (evaluate_all fs ctx) (\<lambda>es. Inr (e # es)))"

definition disable :: "string list \<Rightarrow> strategy_evaluation \<Rightarrow> strategy_evaluation" where
  "disable disabled item =
     (if se_strategy item \<in> set disabled
      then item\<lparr>se_eligible := False, se_candidate := None,
             se_vetoes := sorted_set (se_vetoes item @ [''strategy_disabled_by_operator''])\<rparr>
      else item)"

definition blocked_status :: "strategy_evaluation \<Rightarrow> math_status option" where
  "blocked_status item =
     (case se_candidate item of None \<Rightarrow> None
      | Some c \<Rightarrow> (case tc_mathematical_confirmation c of None \<Rightarrow> None
        | Some m \<Rightarrow> if mc_status m \<in> {MOpposed, MUnstable} then Some (mc_status m) else None))"

definition remove_opposed :: "strategy_evaluation \<Rightarrow> strategy_evaluation" where
  "remove_opposed item =
     (case blocked_status item of None \<Rightarrow> item
      | Some st \<Rightarrow> item\<lparr>se_eligible := False,
          se_vetoes := sorted_set (se_vetoes item @
            [if st = MUnstable then ''mathematical_core_regime_instability''
             else ''mathematical_core_opposes_trade_direction''])\<rparr>)"

definition selection_key :: "settings \<Rightarrow> strategy_evaluation \<Rightarrow> (int \<times> int \<times> decimal \<times> int) result" where
  "selection_key s item =
     (case se_candidate item of
        None \<Rightarrow> Inr (- 1, se_score item, 0, 0)
      | Some c \<Rightarrow> (case tc_mathematical_confirmation c of
          None \<Rightarrow> Inr (se_score item, se_score item, 0, 0)
        | Some m \<Rightarrow>
            bind_result (mathematical_score_cap m (okx_demo_score_medium_min s) (okx_demo_score_high_min s)) (\<lambda>cap.
            Inr (min (se_score item) cap, se_score item, mc_confidence m, mc_auxiliary_bonus m))))"

fun with_keys :: "settings \<Rightarrow> strategy_evaluation list \<Rightarrow> ((int \<times> int \<times> decimal \<times> int) \<times> strategy_evaluation) list result" where
  "with_keys s [] = Inr []"
| "with_keys s (e # es) =
     bind_result (selection_key s e) (\<lambda>k. bind_result (with_keys s es) (\<lambda>ks. Inr ((k, e) # ks)))"

definition eligible_evaluations :: "strategy_evaluation list \<Rightarrow> strategy_evaluation list" where
  "eligible_evaluations es = filter (\<lambda>e. se_eligible e \<and> se_candidate e \<noteq> None) es"

definition reviewed :: "string list \<Rightarrow> strategy_evaluation list \<Rightarrow> strategy_evaluation list" where
  "reviewed disabled es = map (\<lambda>e. remove_opposed (disable disabled e)) es"

definition context_of :: "settings \<Rightarrow> timestamp \<Rightarrow> multi_analysis \<Rightarrow> market_snapshot \<Rightarrow> strategy_context" where
  "context_of s now analysis snapshot =
     \<lparr>cx_analysis = analysis, cx_market = snapshot, cx_minimum_score = strategy_min_score s,
      cx_minimum_risk_reward = strategy_min_risk_reward s, cx_now = now\<rparr>"

definition decide :: "settings \<Rightarrow> string list \<Rightarrow> strategy_context \<Rightarrow> strategy_decision result" where
  "decide s disabled ctx =
     bind_result (evaluate_all STRATEGIES ctx) (\<lambda>evaluations.
     let evaluations = reviewed disabled evaluations; analysis = cx_analysis ctx
     in bind_result (with_keys s (eligible_evaluations evaluations)) (\<lambda>keyed.
        let selected = map_option snd (pick_max fst keyed);
            blockers = ma_blockers analysis @
              map (\<lambda>name. ''strategy_disabled:'' @ name) (sorted_set disabled) @
              (if selected = None then [''no_strategy_met_minimum_score_and_veto_rules''] else [])
        in Inr \<lparr>sd_symbol = ma_symbol analysis, sd_instrument_id = ma_instrument_id analysis,
             sd_decision = map_option se_direction selected, sd_selected_strategy = map_option se_strategy selected,
             sd_selected_candidate = (case selected of None \<Rightarrow> None | Some e \<Rightarrow> se_candidate e),
             sd_minimum_score = strategy_min_score s, sd_evaluations = evaluations,
             sd_blockers = sorted_set blockers\<rparr>))"

definition evaluate_snapshot ::
  "estimators \<Rightarrow> settings \<Rightarrow> timestamp \<Rightarrow> string list \<Rightarrow> market_snapshot \<Rightarrow> strategy_decision result" where
  "evaluate_snapshot E s now disabled snapshot =
     bind_result (analyze_snapshot E snapshot) (\<lambda>analysis. decide s disabled (context_of s now analysis snapshot))"

text \<open>The service reads the snapshot of the exchange first (\<open>MarketDataService.snapshot\<close>).\<close>

definition strategy_evaluate ::
  "estimators \<Rightarrow> (string \<Rightarrow> int \<Rightarrow> market_snapshot result) \<Rightarrow> settings \<Rightarrow> timestamp \<Rightarrow> string list \<Rightarrow> string \<Rightarrow> int \<Rightarrow>
   strategy_decision result" where
  "strategy_evaluate E snapshot_of s now disabled symbol candle_limit =
     bind_result (snapshot_of symbol candle_limit) (evaluate_snapshot E s now disabled)"

section \<open>What a decision guarantees\<close>

lemma evaluate_all_mem:
  "evaluate_all fs ctx = Inr es \<Longrightarrow> e \<in> set es \<Longrightarrow> \<exists>f \<in> set fs. f ctx = Inr e"
  by (induction fs arbitrary: es) (auto simp: result_simps)

lemma evaluate_all_returns: "(\<And>f. f \<in> set fs \<Longrightarrow> \<exists>e. f ctx = Inr e) \<Longrightarrow> \<exists>es. evaluate_all fs ctx = Inr es"
  by (induction fs) force+

lemma with_keys_facts:
  "with_keys s es = Inr ks \<Longrightarrow> map snd ks = es \<and> list_all (\<lambda>(k, e). selection_key s e = Inr k) ks"
  by (induction es arbitrary: ks) (auto simp: result_simps)

lemma disable_facts [simp]:
  "se_strategy (disable ds e) = se_strategy e" "se_score (disable ds e) = se_score e"
  "se_direction (disable ds e) = se_direction e"
  by (simp_all add: disable_def)

lemma remove_opposed_facts [simp]:
  "se_strategy (remove_opposed e) = se_strategy e" "se_score (remove_opposed e) = se_score e"
  "se_direction (remove_opposed e) = se_direction e" "se_candidate (remove_opposed e) = se_candidate e"
  by (simp_all add: remove_opposed_def split: option.split)

lemma reviewed_eligible:
  assumes "se_eligible (remove_opposed (disable ds e))" "se_candidate (remove_opposed (disable ds e)) = Some c"
  shows "remove_opposed (disable ds e) = e" "se_strategy e \<notin> set ds" "blocked_status e = None" "se_candidate e = Some c"
proof -
  show d: "se_strategy e \<notin> set ds" using assms(2) by (auto simp: disable_def split: if_splits)
  then have e: "disable ds e = e" by (simp add: disable_def)
  show "blocked_status e = None" using assms(1) by (auto simp: e remove_opposed_def split: option.splits)
  then show "remove_opposed (disable ds e) = e" by (simp add: e remove_opposed_def)
  then show "se_candidate e = Some c" using assms(2) by simp
qed

text \<open>
  What makes an evaluation tradable: it is a sound evaluation of a registered strategy with a
  candidate, the operator has not disabled it and the core does not block it.
\<close>

definition tradable :: "strategy_context \<Rightarrow> string list \<Rightarrow> strategy_evaluation \<Rightarrow> bool" where
  "tradable ctx disabled e \<longleftrightarrow>
     sound_evaluation ctx e \<and> se_candidate e \<noteq> None \<and> se_strategy e \<in> set STRATEGY_NAMES \<and>
     se_strategy e \<notin> set disabled \<and> blocked_status e = None"

lemma eligible_tradable:
  assumes "evaluate_all STRATEGIES ctx = Inr es" "e \<in> set (eligible_evaluations (reviewed disabled es))"
  shows "tradable ctx disabled e \<and> e \<in> set es"
proof -
  obtain e0 c where e0: "e0 \<in> set es" "e = remove_opposed (disable disabled e0)" "se_eligible e" "se_candidate e = Some c"
    using assms(2) by (auto simp: eligible_evaluations_def reviewed_def)
  note r = reviewed_eligible [OF e0(3,4) [unfolded e0(2)]]
  obtain f where "f \<in> set STRATEGIES" "f ctx = Inr e0" using evaluate_all_mem [OF assms(1) e0(1)] by blast
  from strategies_sound [OF this] r e0 show ?thesis by (simp add: tradable_def)
qed

lemma tradable_eligible:
  assumes "tradable ctx disabled e" "e \<in> set es"
  shows "e \<in> set (eligible_evaluations (reviewed disabled es))"
proof -
  have "disable disabled e = e" "remove_opposed e = e" "se_eligible e" "se_candidate e \<noteq> None"
    using assms(1) by (auto simp: tradable_def disable_def remove_opposed_def sound_evaluation_def)
  then have "e \<in> (\<lambda>e. remove_opposed (disable disabled e)) ` set es" using assms(2) by force
  then show ?thesis using \<open>se_eligible e\<close> \<open>se_candidate e \<noteq> None\<close> by (simp add: eligible_evaluations_def reviewed_def)
qed

definition best_tradable ::
  "settings \<Rightarrow> strategy_context \<Rightarrow> string list \<Rightarrow> strategy_evaluation list \<Rightarrow> strategy_evaluation \<Rightarrow> bool" where
  "best_tradable s ctx disabled es e \<longleftrightarrow>
     e \<in> set es \<and> tradable ctx disabled e \<and>
     (\<exists>k. selection_key s e = Inr k \<and>
        (\<forall>e' \<in> set es. tradable ctx disabled e' \<longrightarrow> (\<exists>k'. selection_key s e' = Inr k' \<and> k' \<le> k)))"

theorem selected_is_best:
  assumes "decide s disabled ctx = Inr d"
  shows "\<exists>es. evaluate_all STRATEGIES ctx = Inr es \<and>
    (case sd_selected_candidate d of
       None \<Rightarrow> sd_decision d = None \<and> (\<forall>e \<in> set es. \<not> tradable ctx disabled e)
     | Some c \<Rightarrow> \<exists>e. best_tradable s ctx disabled es e \<and> se_candidate e = Some c \<and>
         sd_decision d = Some (se_direction e) \<and> sd_selected_strategy d = Some (se_strategy e))"
proof -
  obtain es ks where es: "evaluate_all STRATEGIES ctx = Inr es"
    and ks: "with_keys s (eligible_evaluations (reviewed disabled es)) = Inr ks"
    using assms by (auto simp: decide_def Let_def result_simps)
  note keys = with_keys_facts [OF ks]
  have d: "sd_decision d = map_option se_direction (map_option snd (pick_max fst ks))"
    "sd_selected_strategy d = map_option se_strategy (map_option snd (pick_max fst ks))"
    "sd_selected_candidate d = (case map_option snd (pick_max fst ks) of None \<Rightarrow> None | Some e \<Rightarrow> se_candidate e)"
    using assms by (simp_all add: decide_def Let_def es ks) (auto)
  have all: "\<exists>k'. (k', e') \<in> set ks \<and> selection_key s e' = Inr k'" if "e' \<in> set es" "tradable ctx disabled e'" for e'
  proof -
    have "e' \<in> snd ` set ks" using tradable_eligible [OF that(2,1)] keys by (metis set_map)
    then show ?thesis using keys by (auto simp: list_all_iff)
  qed
  show ?thesis
  proof (cases "pick_max fst ks")
    case None
    then have "ks = []" by (simp add: best.pick_None)
    then have "\<forall>e \<in> set es. \<not> tradable ctx disabled e" using all by fastforce
    then show ?thesis using es d None by (intro exI [of _ es]) simp
  next
    case (Some p)
    obtain k e where p: "p = (k, e)" by fastforce
    have mem: "(k, e) \<in> set ks" using best.pick_mem Some p by metis
    then have "e \<in> set (eligible_evaluations (reviewed disabled es))" using keys by (metis image_eqI set_map snd_conv)
    then have e: "tradable ctx disabled e" "e \<in> set es" using eligible_tradable [OF es] by blast+
    then obtain c where c: "se_candidate e = Some c" by (auto simp: tradable_def)
    have k: "selection_key s e = Inr k" using keys mem by (auto simp: list_all_iff)
    have "\<exists>k'. selection_key s e' = Inr k' \<and> k' \<le> k" if "e' \<in> set es" "tradable ctx disabled e'" for e'
      using all [OF that] best.pick_greatest [OF Some] p by fastforce
    then have "best_tradable s ctx disabled es e" unfolding best_tradable_def using e k by blast
    then show ?thesis using es d Some p c by (intro exI [of _ es]) auto
  qed
qed

text \<open>
  The key of a candidate is the score its confirmation allows, its own score, the confidence of
  the core, and last the auxiliary bonus: without the bonus no other tradable evaluation
  is ahead of the selected one.
\<close>

lemma bonus_breaks_ties_only:
  assumes "best_tradable s ctx disabled es e" "e' \<in> set es" "tradable ctx disabled e'"
  shows "\<exists>a b c n a' b' c' n'. selection_key s e = Inr (a, b, c, n) \<and> selection_key s e' = Inr (a', b', c', n') \<and>
    (a', b', c') \<le> (a, b, c)"
proof -
  obtain a b c n a' b' c' n' where "selection_key s e = Inr (a, b, c, n)" "selection_key s e' = Inr (a', b', c', n')"
    "(a', b', c', n') \<le> (a, b, c, n)"
    using assms by (metis best_tradable_def prod_cases4)
  moreover from this have "(a', b', c') \<le> (a, b, c)" by auto
  ultimately show ?thesis by blast
qed

lemma contains_suffix: "contains sub (xs @ sub)"
  unfolding contains_def list_ex_iff by (intro bexI [of _ "length xs"]) auto

text \<open>From the snapshot of the market to the selected candidate.\<close>

definition snapshot_clean :: "market_snapshot \<Rightarrow> direction \<Rightarrow> bool" where
  "snapshot_clean m d \<longleftrightarrow>
     list_all (\<lambda>(_, q). qr_ok q) (ms_quality m) \<and> spread_pct (ms_ticker m) \<le> 8 / 100 \<and>
     (d = Long \<longrightarrow> ms_funding_rate m \<le> 15 / 10000) \<and> (d = Short \<longrightarrow> - (15 / 10000) \<le> ms_funding_rate m)"

lemma analysis_quality_blocks:
  assumes "analyze_snapshot E m = Inr a" "list_all (\<lambda>b. \<not> contains ''data_quality'' b) (ma_blockers a)"
  shows "list_all (\<lambda>(_, q). qr_ok q) (ms_quality m)"
proof (rule ccontr)
  assume "\<not> ?thesis"
  then obtain bar q where q: "(bar, q) \<in> set (ms_quality m)" "\<not> qr_ok q" by (auto simp: list_all_iff)
  then have "bar @ ''_data_quality'' \<in> set (quality_blockers (ms_quality m))" by (force simp: quality_blockers_def)
  then have "bar @ ''_data_quality'' \<in> set (ma_blockers a)"
    using quality_blockers_kept [OF assms(1)] by blast
  then have "\<not> contains ''data_quality'' ((bar @ ''_'') @ ''data_quality'')"
    using assms(2) by (simp add: list_all_iff)
  then show False using contains_suffix by blast
qed

lemma analysis_core_wf:
  assumes "analyze_snapshot E m = Inr a"
  shows "\<exists>c. ma_mathematical_core a = Some c \<and> wf_core c"
proof -
  obtain vs where "analyze_all E (ms_quality m) (ms_candles m) = Inr vs"
    using assms by (auto simp: analyze_snapshot_def result_simps)
  from analysis_fusion_returns [OF this] show ?thesis using assms by auto
qed

definition sound_selection :: "settings \<Rightarrow> timestamp \<Rightarrow> string list \<Rightarrow> market_snapshot \<Rightarrow> trade_candidate \<Rightarrow> bool" where
  "sound_selection s now disabled m c \<longleftrightarrow>
     wf_candidate c \<and> strategy_min_score s \<le> tc_score c \<and> tc_strategy c \<in> set STRATEGY_NAMES \<and>
     tc_strategy c \<notin> set disabled \<and> tc_risk_reward c = strategy_min_risk_reward s \<and>
     tc_expires_at c = now + seconds 1200 \<and> snapshot_clean m (tc_direction c) \<and>
     (\<exists>mc. tc_mathematical_confirmation c = Some mc \<and> wf_mathematical mc \<and> mc_risk_grade mc \<noteq> GradeBlocked)"

theorem selected_candidate_sound:
  assumes "evaluate_snapshot E s now disabled m = Inr d" "sd_selected_candidate d = Some c"
  shows "sound_selection s now disabled m c"
proof -
  obtain a where a: "analyze_snapshot E m = Inr a" "decide s disabled (context_of s now a m) = Inr d"
    using assms(1) by (auto simp: evaluate_snapshot_def result_simps)
  let ?ctx = "context_of s now a m"
  obtain es e where best: "best_tradable s ?ctx disabled es e" and c: "se_candidate e = Some c"
    using selected_is_best [OF a(2)] assms(2) by auto
  have e: "sound_evaluation ?ctx e" "se_strategy e \<in> set STRATEGY_NAMES" "se_strategy e \<notin> set disabled"
    "blocked_status e = None"
    using best by (auto simp: best_tradable_def tradable_def)
  then have f: "strategy_min_score s \<le> se_score e" "market_clean ?ctx (se_direction e)"
    "side_of (se_direction e) = Some (tc_direction c)" "tc_strategy c = se_strategy e" "tc_score c = se_score e"
    "sound_candidate ?ctx c"
    using c by (auto simp: sound_evaluation_def context_of_def)
  obtain co where core: "ma_mathematical_core a = Some co" "wf_core co" using analysis_core_wf [OF a(1)] by blast
  obtain mc where mc: "tc_mathematical_confirmation c = Some mc" "mathematical_confirmation_of (Some co) (tc_direction c) = Inr mc"
    using f(6) core by (auto simp: sound_candidate_def context_of_def)
  then have wf: "wf_mathematical mc" using confirmation_wf [OF core(2), of "tc_direction c"] by auto
  have "mc_status mc \<notin> {MOpposed, MUnstable}"
    using e(4) c mc(1) by (auto simp: blocked_status_def split: if_splits)
  then have "mc_risk_grade mc \<noteq> GradeBlocked" using wf_mathematical_blocked [OF wf] by simp
  moreover have "snapshot_clean m (tc_direction c)"
    using f(2,3) analysis_quality_blocks [OF a(1)]
    by (cases "se_direction e") (auto simp: market_clean_def snapshot_clean_def context_of_def)
  ultimately show ?thesis using f e mc(1) wf by (auto simp: sound_selection_def sound_candidate_def context_of_def)
qed

end
