(* ===== verification/Automation_Pricing.thy ===== *)
theory Automation_Pricing
  imports Live_Checks Risk_Engine
begin

text \<open>
  The decisions of the controlled Live automation (\<^verbatim>\<open>app/okx_live/automation.py\<close>) that need no
  I/O: the reference price of a candidate and the reasons to refuse it, the candidate re-priced
  at the reference, the protection prices on the tick grid, the risk limits, the number of
  contracts, the fingerprint of an order and the text of an error. \<open>RealtimeSnapshot\<close>
  (\<^verbatim>\<open>app/domain/realtime.py\<close>) is given by the fields that are read.

  The lemmas: a reference that is accepted for execution comes from a fresh two-sided quote
  near the mark and the entry and lies inside the protection prices; re-pricing keeps the
  protection on its sides; rounding to ticks never tightens the stop or the target; the
  contracts never exceed the size cap nor the approved quantity.
\<close>

section \<open>Reference price\<close>

record realtime_snapshot =
  rs_last :: "decimal option"
  rs_bid :: "decimal option"
  rs_ask :: "decimal option"
  rs_mark_price :: "decimal option"
  rs_quote_received_at :: "timestamp option"
  rs_mark_price_received_at :: "timestamp option"

text \<open>A number or none that is missing or not positive.\<close>

definition not_positive :: "decimal option \<Rightarrow> bool" where
  "not_positive v \<longleftrightarrow> (case v of None \<Rightarrow> True | Some x \<Rightarrow> x \<le> 0)"

definition executable_quote_of :: "trade_candidate \<Rightarrow> realtime_snapshot \<Rightarrow> decimal option" where
  "executable_quote_of c snap = (case tc_direction c of Long \<Rightarrow> rs_ask snap | Short \<Rightarrow> rs_bid snap)"

text \<open>\<open>snapshot.last or candidate.entry\<close>.\<close>

definition last_or_entry :: "trade_candidate \<Rightarrow> realtime_snapshot \<Rightarrow> decimal" where
  "last_or_entry c snap = (case rs_last snap of None \<Rightarrow> tc_entry c | Some l \<Rightarrow> if l = 0 then tc_entry c else l)"

definition stale :: "settings \<Rightarrow> timestamp \<Rightarrow> timestamp \<Rightarrow> bool" where
  "stale S now received \<longleftrightarrow> seconds (okx_live_scan_max_snapshot_age_seconds S) < now - received"

definition bps_between :: "decimal \<Rightarrow> decimal \<Rightarrow> decimal" where
  "bps_between x base = dmul (ddiv (dabs (dsub x base)) base) 10000"

text \<open>The checks of a quote that an order will be executed on, in the order of the source.\<close>

definition quote_error ::
  "settings \<Rightarrow> trade_candidate \<Rightarrow> realtime_snapshot \<Rightarrow> decimal \<Rightarrow> timestamp \<Rightarrow> timestamp \<Rightarrow> string option" where
  "quote_error S c snap q quote_now mark_now =
     (case rs_quote_received_at snap of
        None \<Rightarrow> Some ''realtime_quote_timestamp_missing''
      | Some received \<Rightarrow>
          if stale S quote_now received then Some ''realtime_executable_quote_stale''
          else if not_positive (rs_bid snap) \<or> not_positive (rs_ask snap) \<or>
              the (rs_ask snap) < the (rs_bid snap)
            then Some ''realtime_quote_geometry_invalid''
          else if not_positive (rs_mark_price snap) then Some ''realtime_mark_price_not_available''
          else case rs_mark_price_received_at snap of
            None \<Rightarrow> Some ''realtime_mark_price_timestamp_missing''
          | Some mark_received \<Rightarrow>
              let mark = the (rs_mark_price snap) in
              if stale S mark_now mark_received then Some ''realtime_mark_price_stale''
              else if okx_live_scan_max_entry_drift_bps S < bps_between mark q
                then Some ''mark_execution_basis_exceeds_live_limit''
              else if \<not> brackets (tc_direction c) (tc_stop_loss c) mark (tc_take_profit c)
                then Some ''mark_price_outside_live_protective_bounds''
              else None)"

text \<open>
  The price and the error of \<open>_reference_price\<close> once the connection and the snapshot are known;
  the clock readings of the two ages are arguments. The drift divides by the entry, which
  raises when the entry is zero.
\<close>

definition drift_error :: "settings \<Rightarrow> trade_candidate \<Rightarrow> decimal \<Rightarrow> string option result" where
  "drift_error S c q =
     bind_result (ddiv_checked (dabs (dsub q (tc_entry c))) (tc_entry c)) (\<lambda>ratio.
       Inr (if okx_live_scan_max_entry_drift_bps S < dmul ratio 10000
            then Some ''entry_price_drift_exceeds_live_limit'' else None))"

definition reference_of ::
  "settings \<Rightarrow> trade_candidate \<Rightarrow> bool \<Rightarrow> realtime_snapshot option \<Rightarrow> timestamp \<Rightarrow> timestamp \<Rightarrow>
   (decimal \<times> string option) result" where
  "reference_of S c require_realtime snapshot quote_now mark_now =
     (case snapshot of
        None \<Rightarrow> Inr (tc_entry c, if require_realtime then Some ''realtime_snapshot_not_available'' else None)
      | Some snap \<Rightarrow>
          if not_positive (executable_quote_of c snap) \<and> require_realtime
          then Inr (tc_entry c, Some ''realtime_executable_quote_not_available'')
          else
            let q = (if not_positive (executable_quote_of c snap) then last_or_entry c snap
                     else the (executable_quote_of c snap));
                refused = (if require_realtime then quote_error S c snap q quote_now mark_now else None)
            in case refused of
                 Some e \<Rightarrow> Inr (q, Some e)
               | None \<Rightarrow> bind_result (drift_error S c q) (\<lambda>e. Inr (q, e)))"

section \<open>Re-pricing, protection and size\<close>

definition candidate_at_reference :: "trade_candidate \<Rightarrow> decimal \<Rightarrow> trade_candidate option" where
  "candidate_at_reference c reference =
     (if \<not> brackets (tc_direction c) (tc_stop_loss c) reference (tc_take_profit c) then None
      else
        let risk = (case tc_direction c of
              Long \<Rightarrow> dsub reference (tc_stop_loss c) | Short \<Rightarrow> dsub (tc_stop_loss c) reference);
            reward = (case tc_direction c of
              Long \<Rightarrow> dsub (tc_take_profit c) reference | Short \<Rightarrow> dsub reference (tc_take_profit c))
        in if risk \<le> 0 \<or> reward \<le> 0 then None
           else Some (c\<lparr>tc_entry := reference, tc_risk_reward := ddiv reward risk\<rparr>))"

definition contracts_from_base_quantity ::
  "settings \<Rightarrow> decimal \<Rightarrow> decimal \<Rightarrow> instrument_info \<Rightarrow> (decimal \<times> string option) result" where
  "contracts_from_base_quantity S base_quantity reference instrument =
     (let currency = str_upper (case in_contract_currency instrument of None \<Rightarrow> [] | Some c \<Rightarrow> c) in
      if not_positive (in_contract_value instrument) \<or> in_lot_size instrument \<le> 0
      then Inr (0, Some ''instrument_contract_metadata_invalid'')
      else case split_dash 2 (in_instrument_id instrument) of
        [base, quote, _] \<Rightarrow>
          if currency \<noteq> base \<and> currency \<noteq> quote
          then Inr (0, Some ''unsupported_contract_value_currency'')
          else
            let val = the (in_contract_value instrument);
                raw = (if currency = base then ddiv base_quantity val
                       else ddiv (dmul base_quantity reference) val);
                lots = dmul (of_int (trunc (ddiv raw (in_lot_size instrument)))) (in_lot_size instrument);
                contracts = min lots (okx_live_max_order_size_contracts S)
            in Inr (contracts,
                 if contracts < in_minimum_size instrument \<or> contracts \<le> 0
                 then Some ''risk_sized_contracts_below_exchange_minimum'' else None)
      | _ \<Rightarrow> Inl (ValueError ''not enough values to unpack''))"

definition align_protection :: "trade_candidate \<Rightarrow> decimal \<Rightarrow> (decimal \<times> decimal) result" where
  "align_protection c tick_size =
     (if tick_size \<le> 0 then Inl (OkxLiveSafetyError ''live_instrument_tick_size_invalid'')
      else
        let down = (\<lambda>x. dmul (of_int \<lfloor>ddiv x tick_size\<rfloor>) tick_size);
            up = (\<lambda>x. dmul (of_int \<lceil>ddiv x tick_size\<rceil>) tick_size)
        in Inr (case tc_direction c of
             Long \<Rightarrow> (down (tc_stop_loss c), up (tc_take_profit c))
           | Short \<Rightarrow> (up (tc_stop_loss c), down (tc_take_profit c))))"

definition live_risk_limits :: "settings \<Rightarrow> risk_limits" where
  "live_risk_limits S = default_risk_limits
     \<lparr>rl_risk_per_trade_pct := risk_per_trade_pct S,
      rl_max_daily_loss_pct := okx_live_session_loss_limit_pct S,
      rl_max_weekly_loss_pct := max_weekly_loss_pct S,
      rl_max_drawdown_pct := max_drawdown_pct S,
      rl_max_consecutive_losses := 1, rl_max_open_positions := 1,
      rl_max_same_direction_positions := 1, rl_max_correlated_positions := 1,
      rl_max_notional := okx_live_max_notional_usdt S,
      rl_minimum_score := strategy_min_score S,
      rl_minimum_risk_reward := strategy_min_risk_reward S\<rparr>"

definition flat_account :: "decimal \<Rightarrow> account_risk_state" where
  "flat_account equity =
     \<lparr>ar_equity = equity, ar_daily_realized_pnl = 0, ar_weekly_realized_pnl = 0,
      ar_peak_equity = Some equity, ar_consecutive_losses = 0, ar_open_positions = 0,
      ar_same_direction_positions = 0, ar_correlated_positions = 0\<rparr>"

section \<open>Identifiers and errors\<close>

fun join_with :: "string \<Rightarrow> string list \<Rightarrow> string" where
  "join_with sep [] = []"
| "join_with sep [w] = w"
| "join_with sep (w # v # ws) = w @ sep @ join_with sep (v # ws)"

text \<open>
  \<open>_fingerprint\<close>: the hash of the text of an order. The hash, the text of a decimal and the text of
  a time are functions of the standard library and stand as arguments.
\<close>

definition order_fingerprint ::
  "(string \<Rightarrow> string) \<Rightarrow> (decimal \<Rightarrow> string) \<Rightarrow> (timestamp \<Rightarrow> string) \<Rightarrow> string \<Rightarrow> trade_candidate \<Rightarrow> string" where
  "order_fingerprint sha256 str isoformat instrument_id c =
     sha256 (join_with ''|'' [instrument_id, tc_strategy c, direction_text (tc_direction c),
       str (tc_entry c), str (tc_stop_loss c), str (tc_take_profit c), isoformat (tc_expires_at c)])"

definition code_char :: "char \<Rightarrow> bool" where
  "code_char x \<longleftrightarrow> alnum x \<or> x = CHR ''_''"

definition safe_api_code :: "string option \<Rightarrow> string" where
  "safe_api_code code =
     (let text = (case code of None \<Rightarrow> [] | Some t \<Rightarrow> t)
      in if list_all code_char text \<and> 1 \<le> length text \<and> length text \<le> 32 then text else ''unknown'')"

fun class_name :: "exn \<Rightarrow> string" where
  "class_name (ValueError m) = ''ValueError''"
| "class_name DecimalInvalidOperation = ''InvalidOperation''"
| "class_name DecimalDivisionByZero = ''DivisionByZero''"
| "class_name (PaperBrokerError m) = ''PaperBrokerError''"
| "class_name (InvalidStateTransition a b) = ''InvalidStateTransition''"
| "class_name (OkxLiveSafetyError m) = ''OkxLiveSafetyError''"
| "class_name (OkxLiveUnavailableError m) = ''OkxLiveUnavailableError''"
| "class_name (OkxLiveBusyError m) = ''OkxLiveBusyError''"
| "class_name (OkxPrivateApiError c) = ''OkxPrivateApiError''"
| "class_name (OkxPublicApiError c) = ''OkxPublicApiError''"
| "class_name (OkxLiveRepositoryError m) = ''OkxLiveRepositoryError''"
| "class_name (OkxLiveAccountIdentityError m) = ''OkxLiveAccountIdentityError''"
| "class_name (OkxLiveSafetyLatchConflict m) = ''OkxLiveSafetyLatchConflict''"
| "class_name (OkxLiveExecutionRepositoryError m) = ''OkxLiveExecutionRepositoryError''"
| "class_name (OkxLiveExecutionIntentConflict m) = ''OkxLiveExecutionIntentConflict''"
| "class_name (OkxLiveExecutionIntentReplay m) = ''OkxLiveExecutionIntentReplay''"
| "class_name (OkxLiveExecutionAuthorityBusy m) = ''OkxLiveExecutionAuthorityBusy''"
| "class_name (PaperPersistenceError m) = ''PaperPersistenceError''"
| "class_name (OrchestratorConfigurationError m) = ''OrchestratorConfigurationError''"
| "class_name (OrchestratorBusyError m) = ''OrchestratorBusyError''"
| "class_name (OtherException n) = n"
| "class_name CancelledError = ''CancelledError''"

definition safe_error :: "exn \<Rightarrow> string" where
  "safe_error e = (case e of
     OkxPrivateApiError code \<Rightarrow> ''okx_live_private_api_error:'' @ safe_api_code code
   | OkxPublicApiError code \<Rightarrow> ''okx_live_public_api_error:'' @ safe_api_code code
   | OkxLiveSafetyError m \<Rightarrow> take 250 m
   | _ \<Rightarrow> take 250 (''okx_live_automation_error:'' @ class_name e))"

section \<open>What the decisions guarantee\<close>

definition executable_reference ::
  "settings \<Rightarrow> trade_candidate \<Rightarrow> realtime_snapshot \<Rightarrow> decimal \<Rightarrow> timestamp \<Rightarrow> timestamp \<Rightarrow> bool" where
  "executable_reference S c snap q quote_now mark_now \<longleftrightarrow>
     executable_quote_of c snap = Some q \<and> 0 < q \<and>
     (\<exists>t bid ask. rs_quote_received_at snap = Some t \<and> \<not> stale S quote_now t \<and>
        rs_bid snap = Some bid \<and> rs_ask snap = Some ask \<and> 0 < bid \<and> bid \<le> ask) \<and>
     (\<exists>t mark. rs_mark_price_received_at snap = Some t \<and> \<not> stale S mark_now t \<and>
        rs_mark_price snap = Some mark \<and> bps_between mark q \<le> okx_live_scan_max_entry_drift_bps S \<and>
        brackets (tc_direction c) (tc_stop_loss c) mark (tc_take_profit c)) \<and>
     tc_entry c \<noteq> 0 \<and> bps_between q (tc_entry c) \<le> okx_live_scan_max_entry_drift_bps S"

lemma not_positive_False: "\<not> not_positive v \<Longrightarrow> \<exists>x. v = Some x \<and> 0 < x"
  by (auto simp: not_positive_def not_le split: option.splits)

lemma quote_error_None:
  assumes "quote_error S c snap q quote_now mark_now = None"
  shows "(\<exists>t bid ask. rs_quote_received_at snap = Some t \<and> \<not> stale S quote_now t \<and>
        rs_bid snap = Some bid \<and> rs_ask snap = Some ask \<and> 0 < bid \<and> bid \<le> ask) \<and>
     (\<exists>t mark. rs_mark_price_received_at snap = Some t \<and> \<not> stale S mark_now t \<and>
        rs_mark_price snap = Some mark \<and> bps_between mark q \<le> okx_live_scan_max_entry_drift_bps S \<and>
        brackets (tc_direction c) (tc_stop_loss c) mark (tc_take_profit c))"
  using assms unfolding quote_error_def
  by (auto simp: Let_def not_less dest!: not_positive_False split: option.splits if_splits)

lemma reference_of_accepted:
  assumes "reference_of S c True snapshot quote_now mark_now = Inr (q, None)"
  shows "\<exists>snap. snapshot = Some snap \<and> executable_reference S c snap q quote_now mark_now"
proof -
  obtain snap where snap: "snapshot = Some snap"
    using assms by (cases snapshot) (auto simp: reference_of_def)
  have pos: "\<not> not_positive (executable_quote_of c snap)"
    using assms by (auto simp: reference_of_def snap)
  have run: "quote_error S c snap q quote_now mark_now = None" "drift_error S c q = Inr None"
    "executable_quote_of c snap = Some q"
    using assms pos not_positive_False [OF pos]
    by (auto simp: reference_of_def snap Let_def result_simps split: option.splits)
  then show ?thesis
    using quote_error_None [OF run(1)] not_positive_False [OF pos] snap
    by (auto simp: executable_reference_def drift_error_def ddiv_checked_def bps_between_def result_simps
        split: if_splits)
qed

lemma candidate_at_reference_Some:
  assumes "candidate_at_reference c q = Some d"
  shows "tc_entry d = q" "tc_direction d = tc_direction c" "tc_stop_loss d = tc_stop_loss c"
    "tc_take_profit d = tc_take_profit c" "tc_expires_at d = tc_expires_at c" "0 < tc_risk_reward d"
    "brackets (tc_direction d) (tc_stop_loss d) (tc_entry d) (tc_take_profit d)"
  using assms
  by (auto simp: candidate_at_reference_def Let_def not_le dec_simps split: if_splits direction.splits)

lemma align_protection_bounds:
  assumes "align_protection c tick_size = Inr (stop, profit)" "0 \<le> tc_stop_loss c" "0 \<le> tc_take_profit c"
  shows "case tc_direction c of
      Long \<Rightarrow> stop \<le> tc_stop_loss c * (1 + eps) ^ 2 \<and> tc_take_profit c * (1 - eps) ^ 2 \<le> profit
    | Short \<Rightarrow> tc_stop_loss c * (1 - eps) ^ 2 \<le> stop \<and> profit \<le> tc_take_profit c * (1 + eps) ^ 2"
  using assms tick_floor_le [of tick_size] tick_ceiling_ge [of tick_size]
  by (auto simp: align_protection_def Let_def split: if_splits direction.splits)

text \<open>The base quantity behind a number of contracts, in the currency of the contract.\<close>

definition contract_base :: "decimal \<Rightarrow> decimal \<Rightarrow> instrument_info \<Rightarrow> decimal" where
  "contract_base n reference instrument =
     (case split_dash 2 (in_instrument_id instrument) of
        base # _ \<Rightarrow>
          if str_upper (case in_contract_currency instrument of None \<Rightarrow> [] | Some c \<Rightarrow> c) = base
          then n * the (in_contract_value instrument)
          else n * the (in_contract_value instrument) / reference
      | [] \<Rightarrow> 0)"

lemma ddiv_le_eps: "0 \<le> a \<Longrightarrow> 0 < b \<Longrightarrow> ddiv a b * b \<le> a * (1 + eps)"
proof -
  assume ab: "0 \<le> a" "0 < b"
  then have "ddiv a b \<le> a / b * (1 + eps)" unfolding ddiv_def by (intro dround_le_eps) simp
  then have "ddiv a b * b \<le> a / b * (1 + eps) * b" using ab(2) by (intro mult_right_mono) auto
  then show ?thesis using ab(2) by simp
qed

lemma lots_le:
  assumes "0 < lot" "0 \<le> raw"
  shows "dmul (of_int (trunc (ddiv raw lot))) lot \<le> raw * (1 + eps) ^ 2"
proof -
  have "0 \<le> ddiv raw lot" unfolding ddiv_def using assms by (intro dec.rnd_nonneg) simp
  then have "trunc (ddiv raw lot) = \<lfloor>ddiv raw lot\<rfloor>" by (simp add: trunc_def)
  then show ?thesis using tick_floor_le [OF assms] by simp
qed

lemma contracts_bounds:
  assumes "contracts_from_base_quantity S base_quantity reference instrument = Inr (n, None)"
    and "0 \<le> base_quantity" "0 < reference"
  shows "0 < n" "n \<le> okx_live_max_order_size_contracts S" "in_minimum_size instrument \<le> n"
    "contract_base n reference instrument \<le> base_quantity * (1 + eps) ^ 4"
proof -
  obtain base quote rest where split: "split_dash 2 (in_instrument_id instrument) = [base, quote, rest]"
    using assms(1) by (auto simp: contracts_from_base_quantity_def Let_def split: if_splits list.splits)
  define val where "val = the (in_contract_value instrument)"
  define cur where "cur = str_upper (case in_contract_currency instrument of None \<Rightarrow> [] | Some c \<Rightarrow> c)"
  define raw where "raw = (if cur = base then ddiv base_quantity val else ddiv (dmul base_quantity reference) val)"
  have facts: "\<not> not_positive (in_contract_value instrument)" "0 < in_lot_size instrument"
    "n = min (dmul (of_int (trunc (ddiv raw (in_lot_size instrument)))) (in_lot_size instrument))
      (okx_live_max_order_size_contracts S)"
    "in_minimum_size instrument \<le> n" "0 < n"
    using assms(1)
    by (auto simp: contracts_from_base_quantity_def Let_def split raw_def cur_def val_def not_le not_less
        split: if_splits)
  then show "0 < n" "n \<le> okx_live_max_order_size_contracts S" "in_minimum_size instrument \<le> n" by simp_all
  have val: "0 < val" using not_positive_False [OF facts(1)] by (auto simp: val_def)
  have e: "1 \<le> 1 + eps" "0 \<le> 1 + eps" using eps_bounds by simp_all
  have prod: "0 \<le> dmul base_quantity reference" "dmul base_quantity reference \<le> base_quantity * reference * (1 + eps)"
    unfolding dmul_def using assms(2,3) by (auto intro!: dec.rnd_nonneg dround_le_eps)
  have raw0: "0 \<le> raw"
    unfolding raw_def ddiv_def using assms(2) prod(1) val by (auto intro!: dec.rnd_nonneg divide_nonneg_pos)
  have "n \<le> raw * (1 + eps) ^ 2" using lots_le [OF facts(2) raw0] facts(3) by simp
  then have n: "n * val \<le> raw * val * (1 + eps) ^ 2"
    using val mult_right_mono [of n "raw * (1 + eps) ^ 2" val] by (simp add: mult_ac)
  show "contract_base n reference instrument \<le> base_quantity * (1 + eps) ^ 4"
  proof (cases "cur = base")
    case True
    have "raw * val * (1 + eps) ^ 2 \<le> base_quantity * (1 + eps) * (1 + eps) ^ 2"
      using ddiv_le_eps [OF assms(2) val] True by (intro mult_right_mono) (simp_all add: raw_def)
    also have "\<dots> \<le> base_quantity * (1 + eps) * (1 + eps) ^ 2 * (1 + eps)"
      by (rule order_trans [OF _ mult_left_mono [OF e(1)]]) (use assms(2) e in auto)
    finally have "n * val \<le> base_quantity * (1 + eps) ^ 4" using n by (simp add: power_numeral_reduce mult_ac)
    then show ?thesis using True by (simp add: contract_base_def split cur_def val_def)
  next
    case False
    have "raw * val \<le> dmul base_quantity reference * (1 + eps)"
      using ddiv_le_eps [OF prod(1) val] False by (simp add: raw_def)
    also have "\<dots> \<le> base_quantity * reference * (1 + eps) * (1 + eps)" using prod(2) e(2) by (rule mult_right_mono)
    finally have "raw * val * (1 + eps) ^ 2 \<le> base_quantity * reference * (1 + eps) * (1 + eps) * (1 + eps) ^ 2"
      by (rule mult_right_mono) simp
    then have "n * val \<le> base_quantity * (1 + eps) ^ 4 * reference" using n by (simp add: power_numeral_reduce mult_ac)
    then have "n * val / reference \<le> base_quantity * (1 + eps) ^ 4" using assms(3) by (simp add: pos_divide_le_eq)
    then show ?thesis using False by (simp add: contract_base_def split cur_def val_def)
  qed
qed

end
