(* ===== verification/Live_Automation.thy ===== *)
theory Live_Automation
  imports Strategy_Service Live_History Live_Outcome Live_Bounds Automation_Pricing
begin

text \<open>
  The controlled Live automation (\<^verbatim>\<open>app/okx_live/automation.py\<close>): one scan evaluates the strategies
  of its instruments, prices and sizes a candidate, and hands at most one order to the Live
  service; the scheduled loop repeats scans until an order is submitted, the arm is gone or
  a stop is requested.

  The record \<open>automation\<close> is the object with the Live service inside it. Its environment supplies
  the strategy service, the market hub, the public client and, for every suspension outside of
  the Live service, the calls that other tasks complete on that service meanwhile. The clock
  and the state of the connection are read at a step of the service's counter. The loop may
  run forever, so it is a partial function.

  The locale \<open>service_client\<close> states what the automation needs of a relation between states of the
  service: it is a preorder that calm code and every call respect. Then every operation of
  the automation respects it; the interpretations carry the properties of the service over.
\<close>

section \<open>The object and its environment\<close>

record auto_env =
  ae_live :: env
  ae_calls :: "nat \<Rightarrow> live_call list"
  ae_connected :: "nat \<Rightarrow> bool"
  ae_snapshot :: "nat \<Rightarrow> string \<Rightarrow> realtime_snapshot option result"
  ae_strategy :: "nat \<Rightarrow> string \<Rightarrow> int \<Rightarrow> strategy_decision result"
  ae_instruments :: "nat \<Rightarrow> string \<Rightarrow> instrument_info list result"
  ae_stop_requested :: "nat \<Rightarrow> bool"
  ae_str :: "decimal \<Rightarrow> string"
  ae_isoformat :: "timestamp \<Rightarrow> string"

abbreviation auto_settings :: "auto_env \<Rightarrow> settings" where
  "auto_settings A \<equiv> ev_settings (ae_live A)"

text \<open>\<open>am_task\<close> is the background task, if any; a task that is done keeps its result or exception.\<close>

datatype task = TaskRunning | TaskDone "unit result"

record automation =
  am_live :: live_state
  am_task :: "task option"
  am_stop :: bool
  am_run_lock :: bool
  am_next_run_at :: "timestamp option"
  am_last_started_at :: "timestamp option"
  am_last_completed_at :: "timestamp option"
  am_last_error :: "string option"
  am_scheduled_symbols :: "string list"

type_synonym 'a auto = "(automation, 'a) eff"

definition new_automation :: "settings \<Rightarrow> live_state \<Rightarrow> automation" where
  "new_automation S s =
     \<lparr>am_live = s, am_task = None, am_stop = False, am_run_lock = False, am_next_run_at = None,
      am_last_started_at = None, am_last_completed_at = None, am_last_error = None,
      am_scheduled_symbols = okx_live_scan_symbol_list S\<rparr>"

definition on_service :: "'a live \<Rightarrow> 'a auto" where
  "on_service m = (\<lambda>a. case m (am_live a) of (r, s) \<Rightarrow> (r, a\<lparr>am_live := s\<rparr>))"

definition other_calls :: "auto_env \<Rightarrow> live_call list \<Rightarrow> live_state \<Rightarrow> live_state" where
  "other_calls A cs s = foldl (\<lambda>s c. snd (live_call_eff (ae_live A) c s)) s cs"

definition suspend :: "auto_env \<Rightarrow> nat auto" where
  "suspend A = (\<lambda>a. let n = ls_step (am_live a);
       b = a\<lparr>am_live := other_calls A (ae_calls A n) ((am_live a)\<lparr>ls_step := Suc n\<rparr>)\<rparr>
     in if ev_cancel (ae_live A) n then (Inl CancelledError, b) else (Inr n, b))"

definition ask :: "auto_env \<Rightarrow> (nat \<Rightarrow> 'a result) \<Rightarrow> 'a auto" where
  "ask A f = bind_eff (suspend A) (\<lambda>n. lift_result (f n))"

definition auto_clock :: "auto_env \<Rightarrow> timestamp auto" where
  "auto_clock A = on_service (clock_now (ae_live A))"

definition market_connected :: "auto_env \<Rightarrow> bool auto" where
  "market_connected A = on_service (\<lambda>s. (Inr (ae_connected A (ls_step s)), s\<lparr>ls_step := Suc (ls_step s)\<rparr>))"

section \<open>Results\<close>

datatype automation_outcome =
    Submitted | ApprovedDryRun | NoTrade | RiskRejected | Blocked | Duplicate | Monitoring | Failed

record symbol_result =
  sy_symbol :: string
  sy_instrument_id :: "string option"
  sy_outcome :: automation_outcome
  sy_direction :: "direction option"
  sy_strategy :: "string option"
  sy_score :: "int option"
  sy_reference_price :: "decimal option"
  sy_stop_loss :: "decimal option"
  sy_take_profit :: "decimal option"
  sy_approved_contracts :: "decimal option"
  sy_client_order_id :: "string option"
  sy_exchange_order_id :: "string option"
  sy_reason_codes :: "string list"
  sy_detail :: string

record run_result =
  ru_scheduled :: bool
  ru_execute :: bool
  ru_started_at :: timestamp
  ru_completed_at :: timestamp
  ru_results :: "symbol_result list"
  ru_total_equity :: "decimal option"

record automation_status =
  ax_capability_enabled :: bool
  ax_running :: bool
  ax_armed :: bool
  ax_emergency_stop :: bool
  ax_symbols :: "string list"
  ax_scan_interval_seconds :: int
  ax_next_run_at :: "timestamp option"
  ax_last_started_at :: "timestamp option"
  ax_last_completed_at :: "timestamp option"
  ax_last_error :: "string option"

definition plain_result ::
  "string \<Rightarrow> string option \<Rightarrow> automation_outcome \<Rightarrow> decimal option \<Rightarrow> string \<Rightarrow> symbol_result" where
  "plain_result symbol instrument_id outcome reference detail =
     \<lparr>sy_symbol = symbol, sy_instrument_id = instrument_id, sy_outcome = outcome, sy_direction = None,
      sy_strategy = None, sy_score = None, sy_reference_price = reference, sy_stop_loss = None,
      sy_take_profit = None, sy_approved_contracts = None, sy_client_order_id = None,
      sy_exchange_order_id = None, sy_reason_codes = [], sy_detail = detail\<rparr>"

definition candidate_result ::
  "string \<Rightarrow> string \<Rightarrow> trade_candidate \<Rightarrow> automation_outcome \<Rightarrow> decimal \<Rightarrow> string \<Rightarrow> symbol_result" where
  "candidate_result symbol instrument_id c outcome reference detail =
     (plain_result symbol (Some instrument_id) outcome (Some reference) detail)
     \<lparr>sy_direction := Some (tc_direction c), sy_strategy := Some (tc_strategy c), sy_score := Some (tc_score c),
      sy_stop_loss := Some (tc_stop_loss c), sy_take_profit := Some (tc_take_profit c)\<rparr>"

section \<open>One instrument\<close>

definition ensure_execute_ready :: "auto_env \<Rightarrow> unit auto" where
  "ensure_execute_ready A =
     seq_eff (raise_when (\<not> okx_live_auto_execution (auto_settings A))
       (OkxLiveSafetyError ''okx_live_auto_execution_disabled''))
     (seq_eff (raise_when (\<not> okx_ws_enabled (auto_settings A))
       (OkxLiveSafetyError ''okx_live_realtime_websocket_required''))
     (bind_eff (market_connected A) (\<lambda>connected.
      seq_eff (raise_when (\<not> connected) (OkxLiveSafetyError ''okx_live_realtime_websocket_not_connected''))
      (bind_eff (on_service (arm_status (ae_live A))) (\<lambda>v.
       seq_eff (raise_when (\<not> as_armed v) (OkxLiveSafetyError ''okx_live_not_armed''))
       (raise_when (as_emergency_stop v) (OkxLiveSafetyError ''okx_live_emergency_stop_engaged'')))))))"

definition reference_price ::
  "auto_env \<Rightarrow> string \<Rightarrow> trade_candidate \<Rightarrow> bool \<Rightarrow> (decimal \<times> string option) auto" where
  "reference_price A instrument_id c require_realtime =
     bind_eff (if require_realtime then market_connected A else ret True) (\<lambda>connected.
       if \<not> connected then ret (tc_entry c, Some ''realtime_websocket_not_connected'')
       else bind_eff (ask A (\<lambda>n. ae_snapshot A n instrument_id)) (\<lambda>snapshot.
         bind_eff (auto_clock A) (\<lambda>quote_now. bind_eff (auto_clock A) (\<lambda>mark_now.
           lift_result (reference_of (auto_settings A) c require_realtime snapshot quote_now mark_now)))))"

text \<open>A candidate that is priced and aligned; every early return of the scan is a result.\<close>

record prepared =
  pc_symbol :: string
  pc_candidate :: trade_candidate
  pc_reference :: decimal
  pc_instrument :: instrument_info

definition price_candidate ::
  "auto_env \<Rightarrow> string \<Rightarrow> bool \<Rightarrow> string \<Rightarrow> trade_candidate \<Rightarrow> (symbol_result + trade_candidate \<times> decimal) auto" where
  "price_candidate A instrument_id execute symbol c =
     bind_eff (reference_price A instrument_id c execute) (\<lambda>(reference, err).
       ret (case err of
         Some e \<Rightarrow> Inl (candidate_result symbol instrument_id c Blocked reference e)
       | None \<Rightarrow> (case candidate_at_reference c reference of
           None \<Rightarrow> Inl (plain_result symbol (Some instrument_id) Blocked (Some reference)
             ''reference_price_outside_protective_bounds'')
         | Some d \<Rightarrow> Inr (d, reference))))"

definition align_candidate ::
  "string \<Rightarrow> string \<Rightarrow> instrument_info list \<Rightarrow> trade_candidate \<Rightarrow> decimal \<Rightarrow> (symbol_result + prepared) result" where
  "align_candidate symbol instrument_id instruments c reference =
     (case instruments of
        [i] \<Rightarrow>
          if in_state i \<noteq> ''live''
          then Inr (Inl (candidate_result symbol instrument_id c Blocked reference ''live_instrument_metadata_unavailable''))
          else bind_result (align_protection c (in_tick_size i)) (\<lambda>(stop_loss, take_profit).
            Inr (case candidate_at_reference (c\<lparr>tc_stop_loss := stop_loss, tc_take_profit := take_profit\<rparr>) reference of
              None \<Rightarrow> Inl (candidate_result symbol instrument_id c Blocked reference
                ''tick_aligned_live_protection_geometry_invalid'')
            | Some aligned \<Rightarrow> Inr \<lparr>pc_symbol = symbol, pc_candidate = aligned, pc_reference = reference,
                pc_instrument = i\<rparr>))
      | _ \<Rightarrow> Inr (Inl (candidate_result symbol instrument_id c Blocked reference ''live_instrument_metadata_unavailable'')))"

definition prepare_candidate ::
  "auto_env \<Rightarrow> string \<Rightarrow> bool \<Rightarrow> (symbol_result + prepared) auto" where
  "prepare_candidate A instrument_id execute =
     bind_eff (ask A (\<lambda>n. ae_strategy A n instrument_id (okx_live_scan_candle_limit (auto_settings A)))) (\<lambda>strategy.
     case sd_selected_candidate strategy of
       None \<Rightarrow> ret (Inl (plain_result (sd_symbol strategy) (Some instrument_id) NoTrade None
         (or_else (Some (join_semicolon (sd_blockers strategy))) ''no_strategy_candidate'')))
     | Some c \<Rightarrow>
         bind_eff (price_candidate A instrument_id execute (sd_symbol strategy) c) (\<lambda>priced. case priced of
           Inl r \<Rightarrow> ret (Inl r)
         | Inr (d, reference) \<Rightarrow>
             bind_eff (ask A (\<lambda>n. ae_instruments A n instrument_id)) (\<lambda>instruments.
             lift_result (align_candidate (sd_symbol strategy) instrument_id instruments d reference))))"

text \<open>A pydantic model raises \<open>ValidationError\<close> where its validator raises.\<close>

definition pydantic :: "'a result \<Rightarrow> 'a result" where
  "pydantic r = (case r of Inl _ \<Rightarrow> Inl (OtherException ''ValidationError'') | Inr a \<Rightarrow> Inr a)"

definition size_prepared ::
  "settings \<Rightarrow> timestamp \<Rightarrow> decimal \<Rightarrow> string \<Rightarrow> prepared \<Rightarrow> (symbol_result + decimal) result" where
  "size_prepared S now equity instrument_id p =
     bind_result (pydantic (validate_account_risk_state (flat_account equity))) (\<lambda>account.
     bind_result (pydantic (validate_risk_limits (live_risk_limits S))) (\<lambda>limits.
     bind_result (evaluate_risk now (pc_candidate p) account limits) (\<lambda>d.
       if rd_decision d \<noteq> Approved
       then Inr (Inl ((candidate_result (pc_symbol p) instrument_id (pc_candidate p) RiskRejected (pc_reference p)
         ''live_risk_engine_rejected_candidate'')\<lparr>sy_reason_codes := rd_reason_codes d\<rparr>))
       else bind_result (contracts_from_base_quantity S (rd_approved_quantity d) (pc_reference p) (pc_instrument p))
         (\<lambda>(contracts, err). Inr (case err of
            Some e \<Rightarrow> Inl ((candidate_result (pc_symbol p) instrument_id (pc_candidate p) Blocked (pc_reference p) e)
              \<lparr>sy_approved_contracts := Some contracts\<rparr>)
          | None \<Rightarrow> Inr contracts)))))"

definition automation_order :: "auto_env \<Rightarrow> string \<Rightarrow> prepared \<Rightarrow> decimal \<Rightarrow> live_order_request" where
  "automation_order A instrument_id p contracts =
     \<lparr>oq_instrument_id = instrument_id, oq_direction = tc_direction (pc_candidate p), oq_size = contracts,
      oq_margin_mode = ''cross'', oq_leverage = okx_live_automation_leverage (auto_settings A),
      oq_stop_loss = tc_stop_loss (pc_candidate p), oq_take_profit = tc_take_profit (pc_candidate p),
      oq_trigger_price_type = ''mark'',
      oq_client_order_id = ''CTCCL'' @ take 27 (order_fingerprint (ev_sha256 (ae_live A)) (ae_str A)
        (ae_isoformat A) instrument_id (pc_candidate p)),
      oq_confirmation = LIVE_ORDER_PHRASE\<rparr>"

definition execute_prepared :: "auto_env \<Rightarrow> string \<Rightarrow> prepared \<Rightarrow> decimal \<Rightarrow> symbol_result auto" where
  "execute_prepared A instrument_id p contracts =
     bind_eff (lift_result (pydantic (validate_protection (automation_order A instrument_id p contracts)))) (\<lambda>r.
     bind_eff (on_service (place_order (ae_live A) r)) (\<lambda>w.
     ret ((candidate_result (pc_symbol p) instrument_id (pc_candidate p) Submitted (pc_reference p)
         ''protected_okx_live_market_order_submitted'')
       \<lparr>sy_approved_contracts := Some contracts, sy_client_order_id := Some (oq_client_order_id r),
        sy_exchange_order_id := map_option ack_order_id (wr_acknowledgement w)\<rparr>)))"

definition scan_instrument :: "auto_env \<Rightarrow> string \<Rightarrow> bool \<Rightarrow> decimal \<Rightarrow> symbol_result auto" where
  "scan_instrument A instrument_id execute equity =
     bind_eff (prepare_candidate A instrument_id execute) (\<lambda>prep. case prep of
       Inl r \<Rightarrow> ret r
     | Inr p \<Rightarrow>
         bind_eff (auto_clock A) (\<lambda>now.
         bind_eff (lift_result (size_prepared (auto_settings A) now equity instrument_id p)) (\<lambda>sized. case sized of
           Inl r \<Rightarrow> ret r
         | Inr contracts \<Rightarrow>
             if \<not> execute
             then ret ((candidate_result (pc_symbol p) instrument_id (pc_candidate p) ApprovedDryRun (pc_reference p)
               ''live_risk_approved_but_execution_not_requested'')\<lparr>sy_approved_contracts := Some contracts\<rparr>)
             else execute_prepared A instrument_id p contracts)))"

definition process_symbol :: "auto_env \<Rightarrow> string \<Rightarrow> bool \<Rightarrow> decimal \<Rightarrow> symbol_result auto" where
  "process_symbol A raw_symbol execute equity =
     (case to_instrument_id raw_symbol of
        Inl _ \<Rightarrow> ret (plain_result raw_symbol None Blocked None ''invalid_live_scan_symbol'')
      | Inr instrument_id \<Rightarrow>
          if instrument_id \<notin> set (okx_live_allowed_symbol_list (auto_settings A))
          then ret (plain_result raw_symbol (Some instrument_id) Blocked None ''instrument_not_in_okx_live_allowlist'')
          else try_except (scan_instrument A instrument_id execute equity)
            (\<lambda>e. ret (plain_result raw_symbol (Some instrument_id) Failed None (safe_error e))))"

section \<open>A run\<close>

fun scan_symbols :: "auto_env \<Rightarrow> string list \<Rightarrow> bool \<Rightarrow> decimal \<Rightarrow> symbol_result list auto" where
  "scan_symbols A [] execute equity = ret []"
| "scan_symbols A (x # xs) execute equity =
     bind_eff (process_symbol A x execute equity) (\<lambda>r.
       if sy_outcome r = Submitted then seq_eff (modify (\<lambda>a. a\<lparr>am_stop := True\<rparr>)) (ret [r])
       else bind_eff (scan_symbols A xs execute equity) (\<lambda>rs. ret (r # rs)))"

definition scan :: "auto_env \<Rightarrow> string list \<Rightarrow> bool \<Rightarrow> (symbol_result list \<times> decimal option) auto" where
  "scan A symbols execute =
     bind_eff (on_service (reconcile (ae_live A) True)) (\<lambda>snap.
     let equity = bal_total_equity (rr_balance snap) in
     if list_ex (\<lambda>p. lp_size p \<noteq> 0) (rr_positions snap) \<or> rr_pending_orders snap \<noteq> [] \<or>
        rr_pending_algo_orders snap \<noteq> []
     then ret ([plain_result ''*'' None Monitoring None ''live_exchange_exposure_blocks_new_automation_order''],
       Some equity)
     else bind_eff (scan_symbols A
         (if symbols = [] then okx_live_scan_symbol_list (auto_settings A) else symbols) execute equity)
       (\<lambda>results. ret (results, Some equity)))"

text \<open>
  Only the reconciliation can raise into the handler: a symbol turns its exceptions into a
  result. So the handler finds no results yet and no equity.
\<close>

definition run_locked :: "auto_env \<Rightarrow> string list \<Rightarrow> bool \<Rightarrow> bool \<Rightarrow> run_result auto" where
  "run_locked A symbols execute scheduled =
     bind_eff (auto_clock A) (\<lambda>started.
     seq_eff (modify (\<lambda>a. a\<lparr>am_last_started_at := Some started\<rparr>))
     (bind_eff (try_except (scan A symbols execute)
         (\<lambda>e. seq_eff (modify (\<lambda>a. a\<lparr>am_last_error := Some (safe_error e)\<rparr>))
            (ret ([plain_result ''*'' None Failed None (safe_error e)], None)))) (\<lambda>(results, equity).
      bind_eff (auto_clock A) (\<lambda>completed.
      seq_eff (modify (\<lambda>a. a\<lparr>am_last_completed_at := Some completed\<rparr>))
      (ret \<lparr>ru_scheduled = scheduled, ru_execute = execute, ru_started_at = started,
            ru_completed_at = completed, ru_results = results, ru_total_equity = equity\<rparr>)))))"

definition run_once :: "auto_env \<Rightarrow> string list \<Rightarrow> bool \<Rightarrow> bool \<Rightarrow> run_result auto" where
  "run_once A symbols execute scheduled =
     bind_eff (gets am_run_lock) (\<lambda>held.
     seq_eff (raise_when held (OkxLiveBusyError ''okx_live_automation_run_in_progress''))
     (seq_eff (if execute then ensure_execute_ready A else ret ())
     (seq_eff (modify (\<lambda>a. a\<lparr>am_run_lock := True\<rparr>))
       (try_finally (run_locked A symbols execute scheduled) (modify (\<lambda>a. a\<lparr>am_run_lock := False\<rparr>))))))"

section \<open>Starting, stopping and the loop\<close>

definition task_running :: "automation \<Rightarrow> bool" where
  "task_running a \<longleftrightarrow> am_task a = Some TaskRunning"

definition automation_status_of :: "auto_env \<Rightarrow> automation_status auto" where
  "automation_status_of A = bind_eff (on_service (arm_status (ae_live A))) (\<lambda>v. gets (\<lambda>a.
     \<lparr>ax_capability_enabled = okx_live_auto_execution (auto_settings A), ax_running = task_running a,
      ax_armed = as_armed v, ax_emergency_stop = as_emergency_stop v, ax_symbols = am_scheduled_symbols a,
      ax_scan_interval_seconds = okx_live_scan_interval_seconds (auto_settings A),
      ax_next_run_at = am_next_run_at a, ax_last_started_at = am_last_started_at a,
      ax_last_completed_at = am_last_completed_at a, ax_last_error = am_last_error a\<rparr>))"

fun check_scan_symbols :: "settings \<Rightarrow> string list \<Rightarrow> unit result" where
  "check_scan_symbols S [] = Inr ()"
| "check_scan_symbols S (x # xs) = (case to_instrument_id x of
     Inl _ \<Rightarrow> Inl (OkxLiveSafetyError ''invalid_live_scan_symbol'')
   | Inr i \<Rightarrow> if i \<notin> set (okx_live_allowed_symbol_list S)
       then Inl (OkxLiveSafetyError ''instrument_not_in_okx_live_allowlist'')
       else check_scan_symbols S xs)"

definition start_automation :: "auto_env \<Rightarrow> string list option \<Rightarrow> automation_status auto" where
  "start_automation A symbols =
     seq_eff (ensure_execute_ready A)
     (bind_eff (gets task_running) (\<lambda>running.
       if running then automation_status_of A
       else
         let selected = (case symbols of None \<Rightarrow> okx_live_scan_symbol_list (auto_settings A) | Some xs \<Rightarrow> xs)
         in seq_eff (raise_when (selected = []) (OkxLiveSafetyError ''okx_live_scan_symbols_empty''))
           (seq_eff (lift_result (check_scan_symbols (auto_settings A) selected))
           (seq_eff (modify (\<lambda>a. a\<lparr>am_scheduled_symbols := selected, am_stop := False, am_task := Some TaskRunning\<rparr>))
           (seq_eff (on_service (set_automation_running True))
           (automation_status_of A))))))"

text \<open>
  The end of the background task: its \<open>finally\<close> block runs, and the task is done with a result.
  Awaiting a running task that was cancelled suspends until that end; awaiting a task that is
  done raises its exception again. Only the cancellation is suppressed.
\<close>

definition finish_task :: "unit result \<Rightarrow> automation \<Rightarrow> automation" where
  "finish_task r a = a\<lparr>am_next_run_at := None, am_live := snd (set_automation_running False (am_live a)),
     am_task := map_option (\<lambda>_. TaskDone r) (am_task a)\<rparr>"

definition await_task :: "auto_env \<Rightarrow> task \<Rightarrow> unit auto" where
  "await_task A t = (case t of
     TaskRunning \<Rightarrow> (\<lambda>a. (Inr (), finish_task (Inl CancelledError) (snd (suspend A a))))
   | TaskDone r \<Rightarrow> lift_result (if r = Inl CancelledError then Inr () else r))"

definition stop_automation :: "auto_env \<Rightarrow> automation_status auto" where
  "stop_automation A =
     bind_eff (gets am_task) (\<lambda>task.
     seq_eff (case task of None \<Rightarrow> ret ()
        | Some t \<Rightarrow>
            seq_eff (modify (\<lambda>a. a\<lparr>am_stop := True\<rparr>))
            (seq_eff (await_task A t)
            (modify (\<lambda>a. a\<lparr>am_task := None\<rparr>))))
     (seq_eff (modify (\<lambda>a. a\<lparr>am_next_run_at := None\<rparr>))
     (seq_eff (on_service (set_automation_running False))
     (automation_status_of A))))"

text \<open>\<open>asyncio.wait_for(self._stop.wait(), timeout)\<close>: the event may be set meanwhile.\<close>

definition wait_for_stop :: "auto_env \<Rightarrow> bool auto" where
  "wait_for_stop A = bind_eff (suspend A) (\<lambda>n.
     seq_eff (modify (\<lambda>a. a\<lparr>am_stop := am_stop a \<or> ae_stop_requested A n\<rparr>)) (gets am_stop))"

definition schedule_next :: "auto_env \<Rightarrow> int \<Rightarrow> unit auto" where
  "schedule_next A delay = bind_eff (auto_clock A) (\<lambda>now.
     modify (\<lambda>a. a\<lparr>am_next_run_at := Some (now + seconds delay)\<rparr>))"

text \<open>One turn of the loop; it returns whether the loop goes on.\<close>

definition loop_round :: "auto_env \<Rightarrow> bool auto" where
  "loop_round A =
     bind_eff (gets am_scheduled_symbols) (\<lambda>symbols.
     bind_eff (run_once A symbols True True) (\<lambda>run.
       if list_ex (\<lambda>r. sy_outcome r = Submitted) (ru_results run) then ret False
       else bind_eff (on_service (arm_status (ae_live A))) (\<lambda>v.
         if \<not> as_armed v then ret False
         else seq_eff (schedule_next A (okx_live_scan_interval_seconds (auto_settings A)))
           (seq_eff (wait_for_stop A) (ret True)))))"

partial_function (option) loop_rounds :: "auto_env \<Rightarrow> automation \<Rightarrow> (unit result \<times> automation) option" where
  "loop_rounds A a =
     (if am_stop a then Some (Inr (), a)
      else case loop_round A a of
        (Inl e, b) \<Rightarrow> Some (Inl e, b)
      | (Inr go_on, b) \<Rightarrow> if go_on then loop_rounds A b else Some (Inr (), b))"

text \<open>A turn of the background task between two of its waits.\<close>

definition task_turn :: "auto_env \<Rightarrow> automation \<Rightarrow> automation" where
  "task_turn A a =
     (if \<not> task_running a then a
      else if am_stop a then finish_task (Inr ()) a
      else case loop_round A a of
        (Inl e, b) \<Rightarrow> finish_task (Inl e) b
      | (Inr go_on, b) \<Rightarrow> if go_on then b else finish_task (Inr ()) b)"

definition first_wait :: "auto_env \<Rightarrow> bool auto" where
  "first_wait A =
     (if okx_live_scan_initial_delay_seconds (auto_settings A) = 0 then ret False
      else seq_eff (schedule_next A (okx_live_scan_initial_delay_seconds (auto_settings A))) (wait_for_stop A))"

definition automation_loop :: "auto_env \<Rightarrow> automation \<Rightarrow> (unit result \<times> automation) option" where
  "automation_loop A a =
     map_option (\<lambda>(r, b). (r, finish_task r b))
       (case first_wait A a of
          (Inl e, b) \<Rightarrow> Some (Inl e, b)
        | (Inr stopped, b) \<Rightarrow> if stopped then Some (Inr (), b) else loop_rounds A b)"

end
