(* ===== verification/Live_Api.thy ===== *)
theory Live_Api
  imports Live_Automation
begin

text \<open>
  The HTTP surface of the Live boundary (\<^verbatim>\<open>app/api/routers/okx_live.py\<close>,
  \<^verbatim>\<open>app/api/security.py\<close>) and the part of the lifespan in \<^verbatim>\<open>app/main.py\<close> that concerns it.
  A request carries the header of the token and a call; the token is checked before anything
  else, then the model of the body, then the endpoint runs on the automation and the service
  inside it. An endpoint answers, raises an HTTP error, or lets an exception escape to the
  framework. The route table and the encoding of the bodies are the framework's.

  Lemmas: what an error discloses, and that a stop, a disarming or an emergency stop cannot get
  past a background task that ended with an exception.
\<close>

section \<open>Errors\<close>

record http_error =
  he_status :: nat
  he_detail :: string
  he_exchange_code :: "string option"

definition plain_error :: "nat \<Rightarrow> string \<Rightarrow> http_error" where
  "plain_error code detail = \<lparr>he_status = code, he_detail = detail, he_exchange_code = None\<rparr>"

definition safe_exchange_code :: "string option \<Rightarrow> string option" where
  "safe_exchange_code code =
     (let text = (case code of None \<Rightarrow> [] | Some t \<Rightarrow> t)
      in if list_all code_char text \<and> 1 \<le> length text \<and> length text \<le> 32 then Some text else None)"

definition exchange_error :: "string option \<Rightarrow> http_error" where
  "exchange_error code = \<lparr>he_status = 502, he_detail = ''okx_live_exchange_request_failed'',
     he_exchange_code = safe_exchange_code code\<rparr>"

definition http_error_of :: "exn \<Rightarrow> http_error" where
  "http_error_of e = (case e of
     OkxLiveSafetyError m \<Rightarrow> plain_error 409 m
   | OkxLiveBusyError m \<Rightarrow> plain_error 423 m
   | OkxLiveUnavailableError _ \<Rightarrow> plain_error 503 ''okx_live_service_unavailable''
   | OkxLiveRepositoryError _ \<Rightarrow> plain_error 503 ''okx_live_service_unavailable''
   | OkxLiveAccountIdentityError _ \<Rightarrow> plain_error 503 ''okx_live_service_unavailable''
   | OkxLiveSafetyLatchConflict _ \<Rightarrow> plain_error 503 ''okx_live_service_unavailable''
   | OkxLiveExecutionRepositoryError _ \<Rightarrow> plain_error 503 ''okx_live_service_unavailable''
   | OkxLiveExecutionIntentConflict _ \<Rightarrow> plain_error 503 ''okx_live_service_unavailable''
   | OkxLiveExecutionIntentReplay _ \<Rightarrow> plain_error 503 ''okx_live_service_unavailable''
   | OkxLiveExecutionAuthorityBusy _ \<Rightarrow> plain_error 503 ''okx_live_service_unavailable''
   | OkxPrivateApiError code \<Rightarrow> exchange_error code
   | OkxPublicApiError code \<Rightarrow> exchange_error code
   | _ \<Rightarrow> plain_error 500 ''okx_live_internal_error'')"

section \<open>Requests and answers\<close>

definition LIVE_DISARM_PHRASE :: string where
  "LIVE_DISARM_PHRASE = ''DISARM_OKX_LIVE''"

definition LIVE_EMERGENCY_STOP_PHRASE :: string where
  "LIVE_EMERGENCY_STOP_PHRASE = ''EMERGENCY_STOP_OKX_LIVE''"

record run_request =
  rn_symbols :: "string list option"
  rn_execute :: bool
  rn_confirmation :: "string option"

definition require_execute_confirmation :: "run_request \<Rightarrow> run_request result" where
  "require_execute_confirmation r =
     (if \<not> (case rn_symbols r of None \<Rightarrow> True | Some xs \<Rightarrow> in_range 1 2 (int (length xs)))
      then Inl field_constraint
      else if rn_execute r \<and> rn_confirmation r \<noteq> Some LIVE_AUTOMATION_EXECUTE_PHRASE
      then Inl (ValueError (''execute=true requires confirmation='' @ LIVE_AUTOMATION_EXECUTE_PHRASE))
      else Inr r)"

datatype api_call =
    ApiStatus
  | ApiConnectivity
  | ApiAccountConfig
  | ApiBalance
  | ApiPositions "string option"
  | ApiPendingOrders "string option"
  | ApiPendingAlgoOrders "string option"
  | ApiOrderDetail string "string option" "string option"
  | ApiReconcile
  | ApiArm arm_request
  | ApiDisarm string
  | ApiEmergencyStop string
  | ApiClearStop clear_stop_request
  | ApiUnresolvedIntents
  | ApiPlaceOrder live_order_request
  | ApiCancelOrder live_cancel_request
  | ApiClosePosition live_close_request
  | ApiSetLeverage live_leverage_request
  | ApiAutomationStatus
  | ApiAutomationStart run_request
  | ApiAutomationStop
  | ApiAutomationRun run_request

definition at_most :: "nat \<Rightarrow> string option \<Rightarrow> bool" where
  "at_most n v \<longleftrightarrow> (case v of None \<Rightarrow> True | Some t \<Rightarrow> length t \<le> n)"

text \<open>The body of a call is accepted by its model.\<close>

fun body_ok :: "api_call \<Rightarrow> bool" where
  "body_ok (ApiPositions i) = at_most 40 i"
| "body_ok (ApiPendingOrders i) = at_most 40 i"
| "body_ok (ApiPendingAlgoOrders i) = at_most 40 i"
| "body_ok (ApiOrderDetail i oid cid) = (length i \<le> 40 \<and> at_most 100 oid \<and> at_most 32 cid)"
| "body_ok (ApiArm r) = (\<not> isl (validate_arm_request r))"
| "body_ok (ApiDisarm phrase) = (phrase = LIVE_DISARM_PHRASE)"
| "body_ok (ApiEmergencyStop phrase) = (phrase = LIVE_EMERGENCY_STOP_PHRASE)"
| "body_ok (ApiClearStop r) = (\<not> isl (validate_unresolved_confirmation r))"
| "body_ok (ApiPlaceOrder r) = (\<not> isl (validate_protection r))"
| "body_ok (ApiCancelOrder r) = (\<not> isl (validate_identifier r))"
| "body_ok (ApiClosePosition r) = (\<not> isl (validate_close_request r))"
| "body_ok (ApiSetLeverage r) = (\<not> isl (validate_leverage_request r))"
| "body_ok (ApiAutomationStart r) = (\<not> isl (require_execute_confirmation r))"
| "body_ok (ApiAutomationRun r) = (\<not> isl (require_execute_confirmation r))"
| "body_ok _ = True"

record algo_summary_view =
  gsv_algo_order_id :: string
  gsv_client_algo_order_id :: "string option"
  gsv_instrument_id :: string
  gsv_order_type :: string
  gsv_state :: string
  gsv_side :: "string option"
  gsv_position_side :: "string option"
  gsv_size :: decimal
  gsv_take_profit_trigger_price :: "decimal option"
  gsv_stop_loss_trigger_price :: "decimal option"

definition algo_summary :: "live_algo_order \<Rightarrow> algo_summary_view" where
  "algo_summary v =
     \<lparr>gsv_algo_order_id = la_algo_order_id v, gsv_client_algo_order_id = la_client_algo_order_id v,
      gsv_instrument_id = la_instrument_id v, gsv_order_type = la_order_type v, gsv_state = la_state v,
      gsv_side = la_side v, gsv_position_side = la_position_side v, gsv_size = la_size v,
      gsv_take_profit_trigger_price = la_take_profit_trigger_price v,
      gsv_stop_loss_trigger_price = la_stop_loss_trigger_price v\<rparr>"

text \<open>
  The summaries of a balance and of a position keep every field that the model of them has, so
  the answers carry those records.
\<close>

datatype api_body =
    StatusBody live_status
  | AccountBody account_summary_view
  | BalanceBody balance_snapshot
  | PositionsBody "live_position list"
  | OrdersBody "order_summary_view list"
  | AlgoOrdersBody "algo_summary_view list"
  | OrderBody order_summary_view
  | ReconcileBody reconcile_summary_view
  | ExpectationsBody "intent_expectation list"
  | WriteBody write_result
  | AutomationBody automation_status
  | RunBody run_result

datatype response = Answer api_body | HttpError http_error | Escaped exn

section \<open>The token\<close>

text \<open>
  \<open>hmac.compare_digest\<close> raises \<open>TypeError\<close> on strings with characters outside ASCII.
\<close>

definition is_ascii :: "string \<Rightarrow> bool" where
  "is_ascii t = list_all (\<lambda>c. of_char c < (128 :: nat)) t"

definition require_ctcc_token :: "settings \<Rightarrow> string option \<Rightarrow> response option" where
  "require_ctcc_token S token =
     (if \<not> api_token_is_safe S then Some (HttpError (plain_error 503 ''api_token_not_safely_configured''))
      else case token of
        None \<Rightarrow> Some (HttpError (plain_error 401 ''invalid_ctcc_api_token''))
      | Some t \<Rightarrow>
          if \<not> is_ascii t \<or> \<not> is_ascii (api_token S) then Some (Escaped (OtherException ''TypeError''))
          else if t \<noteq> api_token S then Some (HttpError (plain_error 401 ''invalid_ctcc_api_token''))
          else None)"

section \<open>Endpoints\<close>

definition answer :: "('a \<Rightarrow> api_body) \<Rightarrow> 'a auto \<Rightarrow> api_body auto" where
  "answer f m = bind_eff m (\<lambda>v. ret (f v))"

definition on_service_answer :: "('a \<Rightarrow> api_body) \<Rightarrow> 'a live \<Rightarrow> api_body auto" where
  "on_service_answer f m = answer f (on_service m)"

definition disarm_endpoint :: "auto_env \<Rightarrow> api_body auto" where
  "disarm_endpoint A = seq_eff (stop_automation A) (on_service_answer StatusBody (disarm (ae_live A)))"

definition emergency_stop_endpoint :: "auto_env \<Rightarrow> api_body auto" where
  "emergency_stop_endpoint A =
     seq_eff (stop_automation A) (on_service_answer StatusBody (emergency_stop (ae_live A)))"

fun endpoint :: "auto_env \<Rightarrow> api_call \<Rightarrow> api_body auto" where
  "endpoint A ApiStatus = on_service_answer StatusBody (status (ae_live A))"
| "endpoint A ApiConnectivity = on_service_answer StatusBody (connectivity_check (ae_live A))"
| "endpoint A ApiAccountConfig = on_service_answer (AccountBody \<circ> account_summary) (account_config_eff (ae_live A))"
| "endpoint A ApiBalance = on_service_answer BalanceBody (balance_eff (ae_live A))"
| "endpoint A (ApiPositions i) = on_service_answer PositionsBody (positions_eff (ae_live A) i)"
| "endpoint A (ApiPendingOrders i) =
     on_service_answer (OrdersBody \<circ> map order_summary) (pending_orders_eff (ae_live A) i)"
| "endpoint A (ApiPendingAlgoOrders i) =
     on_service_answer (AlgoOrdersBody \<circ> map algo_summary) (pending_algo_orders_eff (ae_live A) i)"
| "endpoint A (ApiOrderDetail i oid cid) =
     on_service_answer (OrderBody \<circ> order_summary) (order_detail_eff (ae_live A) i oid cid)"
| "endpoint A ApiReconcile =
     on_service_answer (ReconcileBody \<circ> reconcile_summary) (reconcile (ae_live A) True)"
| "endpoint A (ApiArm r) = on_service_answer StatusBody (arm (ae_live A) r)"
| "endpoint A (ApiDisarm _) = disarm_endpoint A"
| "endpoint A (ApiEmergencyStop _) = emergency_stop_endpoint A"
| "endpoint A (ApiClearStop r) = on_service_answer StatusBody (clear_emergency_stop (ae_live A) r)"
| "endpoint A ApiUnresolvedIntents =
     on_service_answer ExpectationsBody (unresolved_intent_expectations (ae_live A))"
| "endpoint A (ApiPlaceOrder r) = on_service_answer WriteBody (place_order (ae_live A) r)"
| "endpoint A (ApiCancelOrder r) = on_service_answer WriteBody (cancel_order (ae_live A) r)"
| "endpoint A (ApiClosePosition r) = on_service_answer WriteBody (close_position (ae_live A) r)"
| "endpoint A (ApiSetLeverage r) = on_service_answer WriteBody (set_leverage (ae_live A) r)"
| "endpoint A ApiAutomationStatus = answer AutomationBody (automation_status_of A)"
| "endpoint A (ApiAutomationStart r) = answer AutomationBody (start_automation A (rn_symbols r))"
| "endpoint A ApiAutomationStop = answer AutomationBody (stop_automation A)"
| "endpoint A (ApiAutomationRun r) =
     answer RunBody (run_once A (case rn_symbols r of None \<Rightarrow> [] | Some xs \<Rightarrow> xs) (rn_execute r) False)"

text \<open>The endpoints whose body is not inside \<open>try ... except Exception\<close>.\<close>

fun unguarded :: "api_call \<Rightarrow> bool" where
  "unguarded ApiStatus = True"
| "unguarded ApiAutomationStatus = True"
| "unguarded ApiAutomationStop = True"
| "unguarded _ = False"

definition respond :: "api_call \<Rightarrow> api_body result \<Rightarrow> response" where
  "respond c r = (case r of
     Inr v \<Rightarrow> Answer v
   | Inl e \<Rightarrow> if unguarded c \<or> e = CancelledError then Escaped e else HttpError (http_error_of e))"

definition start_without_execute :: "api_call \<Rightarrow> bool" where
  "start_without_execute c \<longleftrightarrow> (case c of ApiAutomationStart r \<Rightarrow> \<not> rn_execute r | _ \<Rightarrow> False)"

definition api_request :: "auto_env \<Rightarrow> string option \<Rightarrow> api_call \<Rightarrow> automation \<Rightarrow> response \<times> automation" where
  "api_request A token c a =
     (case require_ctcc_token (auto_settings A) token of
        Some r \<Rightarrow> (r, a)
      | None \<Rightarrow>
          if \<not> body_ok c then (HttpError (plain_error 422 ''request_validation_error''), a)
          else if start_without_execute c
          then (HttpError (plain_error 422 ''automation_start_requires_execute_true''), a)
          else case endpoint A c a of (r, b) \<Rightarrow> (respond c r, b))"

section \<open>Startup and shutdown\<close>

definition lifespan_shutdown :: "auto_env \<Rightarrow> unit auto" where
  "lifespan_shutdown A = seq_eff (stop_automation A) (on_service shutdown)"

section \<open>What an error discloses\<close>

lemma http_error_discloses:
  "he_status (http_error_of e) \<in> {409, 423} \<and> he_exchange_code (http_error_of e) = None \<or>
   he_status (http_error_of e) \<in> {500, 502, 503} \<and>
   he_detail (http_error_of e) \<in> {''okx_live_service_unavailable'', ''okx_live_exchange_request_failed'', ''okx_live_internal_error''} \<and>
   (case he_exchange_code (http_error_of e) of None \<Rightarrow> True
    | Some t \<Rightarrow> t \<noteq> [] \<and> length t \<le> 32 \<and> list_all code_char t)"
  by (cases e) (auto simp: http_error_of_def plain_error_def exchange_error_def safe_exchange_code_def Let_def)

section \<open>A background task that ended with an exception\<close>

lemma stop_reraises:
  assumes "am_task a = Some (TaskDone (Inl e))" "e \<noteq> CancelledError"
  shows "stop_automation A a = (Inl e, a\<lparr>am_stop := True\<rparr>)"
  using assms
  by (simp add: stop_automation_def await_task_def eff_defs lift_result_def)

lemma endpoints_blocked:
  assumes "am_task a = Some (TaskDone (Inl e))" "e \<noteq> CancelledError"
  shows "disarm_endpoint A a = (Inl e, a\<lparr>am_stop := True\<rparr>)"
    "emergency_stop_endpoint A a = (Inl e, a\<lparr>am_stop := True\<rparr>)"
    "lifespan_shutdown A a = (Inl e, a\<lparr>am_stop := True\<rparr>)"
  using stop_reraises [OF assms]
  by (simp_all add: disarm_endpoint_def emergency_stop_endpoint_def lifespan_shutdown_def seq_eff_def bind_eff_def)

section \<open>The emergency stop\<close>

definition task_failed :: "automation \<Rightarrow> bool" where
  "task_failed a \<longleftrightarrow> (case am_task a of Some (TaskDone (Inl e)) \<Rightarrow> e \<noteq> CancelledError | _ \<Rightarrow> False)"

lemma stop_automation_returns: "\<not> task_failed a \<Longrightarrow> wp (stop_automation A) (\<lambda>_ _. True) (\<lambda>_ _. False) a"
proof -
  assume ok: "\<not> task_failed a"
  have arm: "wp (arm_status E) (\<lambda>_ _. True) (\<lambda>_ _. False) s" for E s
    by (simp add: arm_status_def expire_arm_if_needed_def disarm_eff_def wp_simps split: option.split)
  have service: "wp (on_service m) (\<lambda>r b. Q r b) (\<lambda>_ _. False) b"
    if "wp m (\<lambda>_ _. True) (\<lambda>_ _. False) (am_live b)" "\<And>r b. Q r b" for m :: "'b live" and Q b
    using that by (auto simp: wp_def on_service_def split: prod.splits sum.splits)
  have status: "wp (automation_status_of A) (\<lambda>_ _. True) (\<lambda>_ _. False) b" for b
    unfolding automation_status_of_def wp_bind by (rule service [OF arm]) (simp add: wp_gets)
  have tail: "wp (on_service (set_automation_running False))
      (\<lambda>_. wp (automation_status_of A) (\<lambda>_ _. True) (\<lambda>_ _. False)) (\<lambda>_ _. False) b" for b
    by (rule service) (simp_all add: set_automation_running_def wp_modify status)
  show ?thesis
    using ok
    by (auto simp: stop_automation_def wp_simps await_task_def task_failed_def tail wp_def [of "\<lambda>a. (Inr (), _ a)"]
        split: option.splits task.splits sum.splits)
qed

lemma emergency_stop_engages:
  "ls_emergency_stop (snd (emergency_stop E s)) \<and> ls_armed_until (snd (emergency_stop E s)) = None"
proof -
  let ?P = "\<lambda>t. ls_emergency_stop t \<and> ls_armed_until t = None"
  have keep: "?P u" if "?P t" "calm t u" for t u
    using that by (auto simp: calm_def restrained_def)
  have status: "wp (status E) (\<lambda>_. ?P) (\<lambda>_. ?P) t" if "?P t" for t
    by (rule wp_mono [OF cf.within_wp]) (use keep [OF that] in \<open>auto intro: calm_intros\<close>)
  have persist: "wp (if \<not> ev_has_mirror E
      then raise (OkxLiveUnavailableError ''okx_live_safety_latch_persist_failed'')
      else bind_eff (try_except (database E (mirror_txn (engage_safety_latch code)))
          (\<lambda>_. raise (OkxLiveUnavailableError ''okx_live_safety_latch_persist_failed'')))
        (\<lambda>st. modify (\<lambda>s. s\<lparr>ls_safety_latch_code := sl_code st, ls_safety_latch_version := sl_version st\<rparr>)))
      (\<lambda>_. ?P) (\<lambda>_. ?P) t" if "?P t" for code t
    by (rule wp_mono [OF cf.within_wp]) (use keep [OF that] in \<open>auto intro!: cf.within_intros intro: calm_intros\<close>)
  have "wp (emergency_stop E) (\<lambda>_. ?P) (\<lambda>_. ?P) s"
    unfolding emergency_stop_def engage_persistent_emergency_stop_def engage_def wp_seq wp_modify
    by (rule wp_mono [OF persist]) (auto simp: engage_emergency_stop_def disarm_local_def intro!: status)
  then show ?thesis by (rule wp_snd)
qed

lemma seq_snd:
  "wp m (\<lambda>_ _. True) (\<lambda>_ _. False) s \<Longrightarrow> \<exists>t. snd (seq_eff m n s) = snd (n t)"
  by (auto simp: wp_def seq_eff_def bind_eff_def split: prod.splits sum.splits)

lemma emergency_stop_endpoint_engages:
  assumes "\<not> task_failed a"
  shows "ls_emergency_stop (am_live (snd (emergency_stop_endpoint A a))) \<and>
    ls_armed_until (am_live (snd (emergency_stop_endpoint A a))) = None"
proof -
  obtain b where "snd (emergency_stop_endpoint A a) = snd (on_service_answer StatusBody (emergency_stop (ae_live A)) b)"
    using seq_snd [OF stop_automation_returns [OF assms]] unfolding emergency_stop_endpoint_def by blast
  then show ?thesis
    using emergency_stop_engages [of "ae_live A" "am_live b"]
    by (auto simp: on_service_answer_def answer_def on_service_def bind_eff_def ret_def split: prod.splits sum.splits)
qed

section \<open>Requests without the token\<close>

lemma token_needed: "require_ctcc_token S token = None \<longleftrightarrow> token = Some (api_token S) \<and> api_token_is_safe S \<and> is_ascii (api_token S)"
  by (auto simp: require_ctcc_token_def split: option.split)

lemma request_without_token:
  "token \<noteq> Some (api_token (auto_settings A)) \<Longrightarrow> snd (api_request A token c a) = a"
  using token_needed [of "auto_settings A" token] by (auto simp: api_request_def split: option.splits)

end
