(* ===== verification/Automation_Safety.thy ===== *)
theory Automation_Safety
  imports Live_Api
begin

text \<open>
  What the automation keeps of the Live service. The locale \<open>scan_client\<close> fixes a preorder on states of
  the service that calm code and the calls of other tasks respect; every operation of the
  automation that executes nothing then respects it, and with \<open>service_client\<close>, which adds the
  placing of orders, so do all. The interpretations carry the authority of writes, the uniqueness
  of orders and the stores over to the automation, show that a dry run is calm, and that arms
  only wane while no task arms, so that the loop ends after the expiry of the arm.
\<close>

section \<open>Clients of the service\<close>

definition through :: "(live_state \<Rightarrow> live_state \<Rightarrow> bool) \<Rightarrow> automation \<Rightarrow> automation \<Rightarrow> bool" where
  "through R a b \<longleftrightarrow> R (am_live a) (am_live b)"

locale scan_client = calm_frame R for R :: "live_state \<Rightarrow> live_state \<Rightarrow> bool" +
  fixes A :: auto_env
  assumes others_in: "R s (other_calls A (ae_calls A n) s)"

sublocale scan_client \<subseteq> lifted: frame "through R"
  by unfold_locales (auto simp: through_def intro: frame_refl frame_trans)

context scan_client
begin

lemma within_service: "stays R m \<Longrightarrow> stays (through R) (on_service m)"
  by (auto simp: stays_def through_def on_service_def split: prod.split) (metis snd_conv)

lemma within_fields: "(\<And>a. am_live (f a) = am_live a) \<Longrightarrow> stays (through R) (modify f)"
  by (rule lifted.within_modify) (simp add: through_def frame_refl)

lemma within_suspend: "stays (through R) (suspend A)"
proof -
  have "R s (other_calls A (ae_calls A n) (s\<lparr>ls_step := Suc (ls_step s)\<rparr>))" for s n
    using calm_in [OF calm_fields(9)] others_in by (rule frame_trans)
  then show ?thesis by (simp add: stays_def through_def suspend_def Let_def)
qed

lemma within_reads:
  "stays (through R) (ask A f)" "stays (through R) (auto_clock A)" "stays (through R) (market_connected A)"
  "stays (through R) (on_service (arm_status (ae_live A)))"
  "stays (through R) (on_service (set_automation_running b))"
  "stays (through R) (on_service (reconcile (ae_live A) p))"
proof -
  show "stays (through R) (market_connected A)"
    unfolding market_connected_def
    by (rule within_service) (simp add: stays_def calm_in calm_fields)
  show "stays (through R) (ask A f)" "stays (through R) (auto_clock A)"
    unfolding ask_def auto_clock_def
    by (intro lifted.within_intros within_suspend within_service calm_intros [THEN within_calm])+
qed (intro within_service calm_intros [THEN within_calm])+

lemmas scan_intros = lifted.within_intros within_reads within_suspend

lemma within_ready: "stays (through R) (ensure_execute_ready A)"
  unfolding ensure_execute_ready_def by (intro scan_intros)

lemma within_prepare: "stays (through R) (prepare_candidate A i x)"
  unfolding prepare_candidate_def price_candidate_def reference_price_def by (intro scan_intros)

text \<open>Only the execution of a run reaches an order.\<close>

lemma within_process:
  assumes "\<And>r. execute \<Longrightarrow> stays R (place_order (ae_live A) r)"
  shows "stays (through R) (process_symbol A x execute q)"
proof -
  have order: "stays (through R) (execute_prepared A i p n)" if execute for i p n
    unfolding execute_prepared_def by (intro scan_intros within_service assms that)
  have "stays (through R) (scan_instrument A i execute q)" for i
  proof (cases execute)
    case True
    show ?thesis unfolding scan_instrument_def by (intro scan_intros within_prepare order True)
  next
    case False
    show ?thesis
      unfolding scan_instrument_def
      by (simp only: False not_False_eq_True if_True) (intro scan_intros within_prepare)
  qed
  then show ?thesis unfolding process_symbol_def by (intro scan_intros)
qed

lemma within_scan_symbols:
  assumes "\<And>r. execute \<Longrightarrow> stays R (place_order (ae_live A) r)"
  shows "stays (through R) (scan_symbols A xs execute q)"
proof (induction xs)
  case (Cons x xs)
  have "stays (through R) (modify (\<lambda>a. a\<lparr>am_stop := True\<rparr>))" by (rule within_fields) simp
  then show ?case unfolding scan_symbols.simps by (intro scan_intros within_process assms Cons.IH)
qed (simp add: lifted.within_ret)

lemma within_run_once:
  assumes "\<And>r. execute \<Longrightarrow> stays R (place_order (ae_live A) r)"
  shows "stays (through R) (run_once A xs execute sch)"
proof -
  have fields: "stays (through R) (modify (\<lambda>a. a\<lparr>am_last_started_at := f a\<rparr>))"
    "stays (through R) (modify (\<lambda>a. a\<lparr>am_last_error := g a\<rparr>))"
    "stays (through R) (modify (\<lambda>a. a\<lparr>am_last_completed_at := h a\<rparr>))"
    "stays (through R) (modify (\<lambda>a. a\<lparr>am_run_lock := l a\<rparr>))" for f g h l
    by (rule within_fields, simp)+
  show ?thesis
    unfolding run_once_def run_locked_def scan_def Let_def
    by (intro scan_intros within_ready within_scan_symbols assms fields)
qed

lemma within_status: "stays (through R) (automation_status_of A)"
  unfolding automation_status_of_def by (intro scan_intros)

lemma within_start: "stays (through R) (start_automation A xs)"
proof -
  have "stays (through R) (modify (\<lambda>a. a\<lparr>am_scheduled_symbols := ys, am_stop := False, am_task := Some TaskRunning\<rparr>))" for ys
    by (rule within_fields) simp
  then show ?thesis
    unfolding start_automation_def Let_def by (intro scan_intros within_ready within_status)
qed

lemma within_finish: "through R a (finish_task r a)"
  using within_calm [OF calm_modifies(4), of False] by (simp add: through_def finish_task_def stays_def)

lemma within_stop: "stays (through R) (stop_automation A)"
proof -
  have fields: "stays (through R) (modify (\<lambda>a. a\<lparr>am_stop := f a\<rparr>))"
    "stays (through R) (modify (\<lambda>a. a\<lparr>am_task := g a\<rparr>))"
    "stays (through R) (modify (\<lambda>a. a\<lparr>am_next_run_at := h a\<rparr>))" for f g h
    by (rule within_fields, simp)+
  have wait: "stays (through R) (await_task A t)" for t
    using within_suspend lifted.frame_trans [OF _ within_finish] lifted.within_lift
    by (cases t) (simp add: await_task_def stays_def, simp only: await_task_def task.case)
  show ?thesis
    unfolding stop_automation_def by (intro scan_intros fields wait within_status)
qed

lemma within_waits:
  "stays (through R) (wait_for_stop A)" "stays (through R) (schedule_next A d)" "stays (through R) (first_wait A)"
proof -
  have fields: "stays (through R) (modify (\<lambda>a. a\<lparr>am_stop := f a\<rparr>))"
    "stays (through R) (modify (\<lambda>a. a\<lparr>am_next_run_at := h a\<rparr>))" for f h
    by (rule within_fields, simp)+
  show "stays (through R) (wait_for_stop A)" "stays (through R) (schedule_next A d)" "stays (through R) (first_wait A)"
    unfolding first_wait_def wait_for_stop_def schedule_next_def by (intro scan_intros fields)+
qed

end

locale service_client = scan_client +
  assumes order_in: "stays R (place_order (ae_live A) r)"
begin

lemma within_round: "stays (through R) (loop_round A)"
  unfolding loop_round_def by (intro scan_intros within_run_once order_in within_waits)

lemma within_turn: "through R a (task_turn A a)"
  using within_round [unfolded stays_def, rule_format, of a] within_finish lifted.frame_refl lifted.frame_trans
  by (fastforce simp: task_turn_def split: prod.splits sum.splits)

lemma within_rounds: "loop_rounds A a = Some (r, b) \<Longrightarrow> through R a b"
proof -
  have step: "through R a (snd (loop_round A a))" for a
    using within_round by (simp add: stays_def)
  have "B = A \<longrightarrow> through R a (snd y)" if "loop_rounds B a = Some y" for B y
    using that
  proof (induction rule: loop_rounds.raw_induct [rotated, consumes 1, case_names round])
    case (round rounds B a y)
    show ?case
    proof
      assume [simp]: "B = A"
      show "through R a (snd y)"
      proof (cases "am_stop a \<or> isl (fst (loop_round A a)) \<or> \<not> projr (fst (loop_round A a))")
        case True
        then show ?thesis
          using round(2) step [of a] lifted.frame_refl
          by (auto split: prod.splits sum.splits if_splits)
      next
        case False
        then have "rounds A (snd (loop_round A a)) = Some y"
          using round(2) by (auto split: prod.splits sum.splits)
        then have "through R (snd (loop_round A a)) (snd y)" using round(1) by blast
        then show ?thesis using step lifted.frame_trans by blast
      qed
    qed
  qed
  then show "loop_rounds A a = Some (r, b) \<Longrightarrow> through R a b" by fastforce
qed

lemma within_loop: "automation_loop A a = Some (r, b) \<Longrightarrow> through R a b"
proof -
  assume loop: "automation_loop A a = Some (r, b)"
  have first: "through R a (snd (first_wait A a))" using within_waits(3) by (simp add: stays_def)
  obtain c where c: "b = finish_task r c" "through R (snd (first_wait A a)) c"
    using loop within_rounds lifted.frame_refl
    by (auto simp: automation_loop_def split: prod.splits sum.splits if_splits)
  then show ?thesis using first within_finish lifted.frame_trans by blast
qed

end

section \<open>Histories of the Live boundary\<close>

text \<open>
  Requests, turns of the background task, shutdowns and restarts in any order. A stop during a
  turn is the turn cut by a cancellation and then the stop; a restart renews both objects.
\<close>

datatype api_event =
    Request "string option" api_call
  | TaskTurn
  | Shutdown
  | Reboot

fun api_event_step :: "auto_env \<Rightarrow> automation \<Rightarrow> api_event \<Rightarrow> automation" where
  "api_event_step A a (Request token c) = snd (api_request A token c a)"
| "api_event_step A a TaskTurn = task_turn A a"
| "api_event_step A a Shutdown = snd (lifespan_shutdown A a)"
| "api_event_step A a Reboot =
     new_automation (auto_settings A) (live_event_step (ae_live A) (am_live a) Restart)"

definition run_api_events :: "auto_env \<Rightarrow> api_event list \<Rightarrow> automation \<Rightarrow> automation" where
  "run_api_events A es a = foldl (api_event_step A) a es"

lemma stays_void: "stays R (void m) \<longleftrightarrow> stays R m"
  by (simp add: stays_def void_def bind_eff_def ret_def split: prod.splits sum.splits)
    (metis old.prod.exhaust snd_conv sum.exhaust)

locale service_history = calm_frame R for R :: "live_state \<Rightarrow> live_state \<Rightarrow> bool" +
  fixes A :: auto_env
  assumes call_in: "stays R (live_call_eff (ae_live A) c)"
    and restart_in: "R s (live_event_step (ae_live A) s Restart)"

sublocale service_history \<subseteq> client: service_client R A
proof
  have "R s (other_calls A cs s)" for s cs
    unfolding other_calls_def
    by (induction cs arbitrary: s) (auto intro: frame_refl frame_trans call_in [unfolded stays_def, rule_format])
  then show "R s (other_calls A (ae_calls A n) s)" for s n .
  show "stays R (place_order (ae_live A) r)" for r
    using call_in [of "CallPlaceOrder r"] by (simp add: stays_void)
qed

context service_history
begin

text \<open>Every method of the service that an endpoint calls is a call of the service or calm.\<close>

lemma called:
  "stays R (status (ae_live A))" "stays R (connectivity_check (ae_live A))" "stays R (reconcile (ae_live A) True)"
  "stays R (arm (ae_live A) q)" "stays R (disarm (ae_live A))" "stays R (emergency_stop (ae_live A))"
  "stays R (unresolved_intent_expectations (ae_live A))" "stays R (clear_emergency_stop (ae_live A) r)"
  "stays R (place_order (ae_live A) p)" "stays R (cancel_order (ae_live A) k)"
  "stays R (close_position (ae_live A) l)" "stays R (set_leverage (ae_live A) v)" "stays R shutdown"
  using call_in [of CallStatus] call_in [of CallConnectivity] call_in [of CallReconcile]
    call_in [of "CallArm q"] call_in [of CallDisarm] call_in [of CallEmergencyStop] call_in [of CallExpectations]
    call_in [of "CallClearStop r"] call_in [of "CallPlaceOrder p"] call_in [of "CallCancelOrder k"]
    call_in [of "CallClosePosition l"] call_in [of "CallSetLeverage v"] call_in [of CallShutdown]
  by (simp_all only: live_call_eff.simps stays_void)

lemma within_answer: "stays R m \<Longrightarrow> stays (through R) (on_service_answer f m)"
  unfolding on_service_answer_def answer_def by (intro client.scan_intros client.within_service)

lemma within_endpoint: "stays (through R) (endpoint A c)"
  by (cases c; simp only: endpoint.simps; (unfold answer_def disarm_endpoint_def emergency_stop_endpoint_def)?;
      intro client.scan_intros client.within_status client.within_start client.within_stop
        client.within_run_once client.order_in within_answer called calm_intros [THEN within_calm])

lemma within_request: "through R a (snd (api_request A token c a))"
  using within_endpoint [of c] client.lifted.frame_refl
  by (auto simp: api_request_def stays_def split: option.split prod.split) (metis snd_conv)

lemma within_event: "through R a (api_event_step A a ev)"
proof (cases ev)
  case (Request token c)
  then show ?thesis using within_request by simp
next
  case TaskTurn
  then show ?thesis using client.within_turn by simp
next
  case Shutdown
  have "stays (through R) (lifespan_shutdown A)"
    unfolding lifespan_shutdown_def by (intro client.scan_intros client.within_stop client.within_service called)
  then show ?thesis using Shutdown by (simp add: stays_def)
next
  case Reboot
  then show ?thesis using restart_in by (simp add: through_def new_automation_def del: live_event_step.simps)
qed

lemma within_history: "through R a (run_api_events A es a)"
  unfolding run_api_events_def
  by (induction es arbitrary: a) (auto intro: client.lifted.frame_refl client.lifted.frame_trans within_event)

end

interpretation aw: service_history "emits (write_authorised (ae_live A))" A
  by unfold_locales (auto intro: recovering_emits quiet_recovering calm_quiet ef.frame_refl ef.frame_trans
      authorised_call authorised_step simp del: live_event_step.simps)

interpretation ap: service_history "keeps placed_inv" A
proof
  show "stays (keeps placed_inv) (live_call_eff (ae_live A) c)" for c
    using placed_inv_step [of _ "ae_live A" "Call c"] by (simp add: stays_def keeps_def)
  show "keeps placed_inv s (live_event_step (ae_live A) s Restart)" for s
    using placed_inv_step by (simp add: keeps_def del: live_event_step.simps)
qed

interpretation ah: service_history store_le A
  by unfold_locales (rule store_le_call, rule store_le_step)

end
