(* ===== verification/Automation_Outcome.thy ===== *)
theory Automation_Outcome
  imports Automation_Safety
begin

text \<open>
  What a run of the automation returns and when its loop ends: a dry run is calm and submits
  nothing; a history without the token is idle; an approved result carries the trade that the
  strategy service selected, at a size within the limits of the configuration and the risk budget;
  only the last result of a run is a submission, which requests the stop of the loop; and while no
  other task arms the service, the loop ends once the clock has passed the expiry of the arm.
\<close>

section \<open>Dry runs\<close>

definition undisturbed :: "auto_env \<Rightarrow> auto_env" where
  "undisturbed A = A\<lparr>ae_calls := (\<lambda>_. [])\<rparr>"

interpretation dry: scan_client calm "undisturbed A"
  by unfold_locales (simp_all add: other_calls_def undisturbed_def cf.frame_refl)

lemma dry_run_calm: "calm (am_live a) (am_live (snd (run_once (undisturbed A) xs False sch a)))"
  using dry.within_run_once [of False A xs sch] by (simp add: stays_def through_def)

section \<open>Histories without the token\<close>

text \<open>Nothing is sent, no intent changes and no arm is granted; at most one goes.\<close>

definition idle :: "live_state \<Rightarrow> live_state \<Rightarrow> bool" where
  "idle s t \<longleftrightarrow> ls_sent t = ls_sent s \<and> ls_intents t = ls_intents s \<and>
     (ls_armed_until t = None \<or> ls_armed_until t = ls_armed_until s)"

interpretation il: scan_client idle "undisturbed A"
  by unfold_locales (auto simp: idle_def calm_def restrained_def other_calls_def undisturbed_def)

definition rests :: "automation \<Rightarrow> automation \<Rightarrow> bool" where
  "rests a b \<longleftrightarrow> (task_running b \<longrightarrow> task_running a)"

interpretation rs: frame rests
  by unfold_locales (auto simp: rests_def)

lemma rests_stop: "stays rests (stop_automation A)"
proof -
  have service: "stays rests (on_service m)" for m :: "'a live"
    by (simp add: stays_def rests_def on_service_def task_running_def split: prod.split)
  have fields: "stays rests (modify (\<lambda>a. a\<lparr>am_stop := True\<rparr>))" "stays rests (modify (\<lambda>a. a\<lparr>am_task := None\<rparr>))"
    "stays rests (modify (\<lambda>a. a\<lparr>am_next_run_at := None\<rparr>))"
    by (rule rs.within_modify, simp add: rests_def task_running_def)+
  have wait: "stays rests (await_task A t)" for t
  proof (cases t)
    case TaskRunning
    have "\<not> task_running (finish_task r a)" for r a by (simp add: finish_task_def task_running_def)
    then show ?thesis using TaskRunning by (simp add: await_task_def stays_def rests_def)
  qed (simp only: await_task_def task.case rs.within_lift)
  show ?thesis
    unfolding stop_automation_def automation_status_of_def by (intro rs.within_intros service fields wait)
qed

definition without_token :: "settings \<Rightarrow> api_event \<Rightarrow> bool" where
  "without_token S ev \<longleftrightarrow> (case ev of Request token c \<Rightarrow> token \<noteq> Some (api_token S) | _ \<Rightarrow> True)"

lemma undisturbed_live [simp]: "ae_live (undisturbed A) = ae_live A"
  by (simp add: undisturbed_def)

lemma idle_reboot: "idle s (live_event_step E s Restart)"
proof -
  let ?n = "new_service (ls_intents s) (ls_mirror s) (ls_step s) (ls_sent s)"
  have "calm ?n (snd (startup E ?n))" using calm_startup by (simp add: stays_def)
  then show ?thesis by (auto simp: idle_def calm_def restrained_def new_service_def)
qed

lemma idle_event:
  assumes "\<not> task_running a" "without_token (auto_settings A) ev"
  shows "through idle a (api_event_step (undisturbed A) a ev) \<and> \<not> task_running (api_event_step (undisturbed A) a ev)"
proof (cases ev)
  case (Request token c)
  then show ?thesis using assms request_without_token [of token "undisturbed A"]
    by (simp add: without_token_def il.lifted.frame_refl)
next
  case TaskTurn
  then show ?thesis using assms(1) by (simp add: task_turn_def il.lifted.frame_refl)
next
  case Shutdown
  have "stays (through idle) (lifespan_shutdown (undisturbed A))"
    unfolding lifespan_shutdown_def
    by (intro il.scan_intros il.within_stop il.within_service calm_intros [THEN il.within_calm])
  moreover have "stays rests (lifespan_shutdown (undisturbed A))"
    unfolding lifespan_shutdown_def
    by (intro rs.within_intros rests_stop) (simp add: stays_def rests_def on_service_def task_running_def split: prod.split)
  ultimately show ?thesis using Shutdown assms(1) by (auto simp: stays_def rests_def)
next
  case Reboot
  then show ?thesis using idle_reboot
    by (simp add: through_def new_automation_def task_running_def del: live_event_step.simps)
qed

lemma idle_history:
  assumes "\<not> task_running a" "list_all (without_token (auto_settings A)) es"
  shows "through idle a (run_api_events (undisturbed A) es a)"
  using assms
proof (induction es arbitrary: a)
  case (Cons ev es)
  then have "through idle a (api_event_step (undisturbed A) a ev)" "\<not> task_running (api_event_step (undisturbed A) a ev)"
    using idle_event by simp_all
  then show ?case using Cons il.lifted.frame_trans by (auto simp: run_api_events_def)
qed (simp add: run_api_events_def il.lifted.frame_refl)

section \<open>Results\<close>

definition approves :: "symbol_result \<Rightarrow> bool" where
  "approves r \<longleftrightarrow> sy_outcome r = Submitted \<or> sy_outcome r = ApprovedDryRun"

lemma results_approve [simp]:
  "approves (plain_result x i out ref d) \<longleftrightarrow> out = Submitted \<or> out = ApprovedDryRun"
  "approves (candidate_result x j c out q d) \<longleftrightarrow> out = Submitted \<or> out = ApprovedDryRun"
  "sy_outcome (plain_result x i out ref d) = out" "sy_outcome (candidate_result x j c out q d) = out"
  by (simp_all add: approves_def plain_result_def candidate_result_def)

lemma approves_update [simp]:
  "approves (r\<lparr>sy_reason_codes := cs\<rparr>) = approves r" "approves (r\<lparr>sy_approved_contracts := n\<rparr>) = approves r"
  by (simp_all add: approves_def)

section \<open>Approved sizes\<close>

definition priced :: "prepared \<Rightarrow> bool" where
  "priced p \<longleftrightarrow> tc_entry (pc_candidate p) = pc_reference p \<and>
     brackets (tc_direction (pc_candidate p)) (tc_stop_loss (pc_candidate p)) (pc_reference p)
       (tc_take_profit (pc_candidate p))"

definition sized_within :: "settings \<Rightarrow> decimal \<Rightarrow> prepared \<Rightarrow> decimal \<Rightarrow> bool" where
  "sized_within S equity p n \<longleftrightarrow>
     0 < n \<and> n \<le> okx_live_max_order_size_contracts S \<and> in_minimum_size (pc_instrument p) \<le> n \<and>
     contract_base n (pc_reference p) (pc_instrument p) * effective_risk_distance_of (pc_candidate p)
       \<le> equity * risk_per_trade_pct S * (1 + eps) ^ 6 \<and>
     contract_base n (pc_reference p) (pc_instrument p) * pc_reference p
       \<le> okx_live_max_notional_usdt S * (1 + eps) ^ 5"

lemma pydantic_Inr [simp]: "pydantic r = Inr a \<longleftrightarrow> r = Inr a"
  by (simp add: pydantic_def split: sum.split)

lemma flat_account_valid: "validate_account_risk_state (flat_account q) = Inr v \<Longrightarrow> v = flat_account q \<and> 0 < q"
  by (auto simp: validate_account_risk_state_def flat_account_def Let_def split: if_splits)

lemma scaled_bound:
  assumes "x \<le> q * (1 + eps) ^ k" "q * y \<le> z * (1 + eps) ^ l" "0 \<le> y"
  shows "x * y \<le> z * (1 + eps) ^ (k + l)"
proof -
  have "x * y \<le> q * (1 + eps) ^ k * y" using assms(1,3) by (rule mult_right_mono)
  also have "\<dots> = q * y * (1 + eps) ^ k" by (simp add: mult_ac)
  also have "\<dots> \<le> z * (1 + eps) ^ l * (1 + eps) ^ k"
    using assms(2) eps_bounds by (intro mult_right_mono) auto
  finally show ?thesis by (simp add: power_add mult_ac)
qed

lemma size_prepared_within:
  assumes "size_prepared S now equity i p = Inr (Inr n)" "tc_entry (pc_candidate p) = pc_reference p"
  shows "sized_within S equity p n"
proof -
  obtain account limits d where run: "validate_account_risk_state (flat_account equity) = Inr account"
    "validate_risk_limits (live_risk_limits S) = Inr limits"
    "evaluate_risk now (pc_candidate p) account limits = Inr d" "rd_decision d = Approved"
    "contracts_from_base_quantity S (rd_approved_quantity d) (pc_reference p) (pc_instrument p) = Inr (n, None)"
    using assms(1) by (auto simp: size_prepared_def result_simps split: if_splits option.splits)
  have acc: "account = flat_account equity" "0 < equity" using flat_account_valid [OF run(1)] by auto
  have lim: "limits = live_risk_limits S" "limits_ok limits"
    using run(2) by (auto simp: validate_risk_limits_def split: if_splits)
  have pos: "0 < ar_equity account" "0 < rl_risk_per_trade_pct limits" "0 < rl_max_notional limits"
    using acc lim by (auto simp: limits_ok_def flat_account_def)
  have entry: "0 < pc_reference p" using approved_entry_pos [OF run(3,4) pos(3)] assms(2) by simp
  have q: "0 < rd_approved_quantity d" using evaluate_risk_approvedD(5) [OF run(3,4)] .
  then have dist: "0 \<le> effective_risk_distance_of (pc_candidate p)"
    using approved_quantity_bounds(1) [OF run(3,4)] by (auto simp: quantity_by_risk_def split: if_splits)
  note bounds = contracts_bounds [OF run(5) less_imp_le [OF q] entry]
  have "rd_approved_quantity d * effective_risk_distance_of (pc_candidate p) \<le> equity * risk_per_trade_pct S * (1 + eps) ^ 2"
    using approved_loss_within_budget [OF run(3,4) pos(1,2)] acc(1) lim(1)
    by (simp add: flat_account_def live_risk_limits_def)
  from scaled_bound [OF bounds(4) this dist]
  have risk: "contract_base n (pc_reference p) (pc_instrument p) * effective_risk_distance_of (pc_candidate p)
    \<le> equity * risk_per_trade_pct S * (1 + eps) ^ 6" by simp
  have "rd_approved_quantity d * pc_reference p \<le> okx_live_max_notional_usdt S * (1 + eps) ^ 1"
    using approved_notional_within_limit [OF run(3,4) pos(3)] lim(1) assms(2) by (simp add: live_risk_limits_def)
  from scaled_bound [OF bounds(4) this less_imp_le [OF entry]]
  show ?thesis using bounds(1-3) risk by (simp add: sized_within_def)
qed

text \<open>
  Pricing and alignment move the prices of the selected candidate; its strategy, direction,
  score, expiry and confirmation stay.
\<close>

definition same_trade :: "trade_candidate \<Rightarrow> trade_candidate \<Rightarrow> bool" where
  "same_trade c d \<longleftrightarrow> tc_strategy d = tc_strategy c \<and> tc_direction d = tc_direction c \<and> tc_score d = tc_score c \<and>
     tc_expires_at d = tc_expires_at c \<and> tc_mathematical_confirmation d = tc_mathematical_confirmation c"

definition selected_by :: "auto_env \<Rightarrow> string \<Rightarrow> prepared \<Rightarrow> bool" where
  "selected_by A i p \<longleftrightarrow> (\<exists>n d c. ae_strategy A n i (okx_live_scan_candle_limit (auto_settings A)) = Inr d \<and>
     sd_selected_candidate d = Some c \<and> same_trade c (pc_candidate p))"

lemma selected_byI:
  "ae_strategy A n i (okx_live_scan_candle_limit (auto_settings A)) = Inr d \<Longrightarrow> sd_selected_candidate d = Some c \<Longrightarrow>
   same_trade c (pc_candidate p) \<Longrightarrow> selected_by A i p"
  by (auto simp: selected_by_def)

lemma same_trade_reference: "candidate_at_reference c q = Some d \<Longrightarrow> same_trade c d"
  by (auto simp: candidate_at_reference_def Let_def same_trade_def split: if_splits)

text \<open>An approving result reports a selected, priced candidate with a size within the limits.\<close>

definition backed :: "auto_env \<Rightarrow> decimal \<Rightarrow> symbol_result \<Rightarrow> bool" where
  "backed A equity r \<longleftrightarrow> (approves r \<longrightarrow> (\<exists>i p n. selected_by A i p \<and> priced p \<and>
     sized_within (auto_settings A) equity p n \<and> sy_instrument_id r = Some i \<and>
     sy_direction r = Some (tc_direction (pc_candidate p)) \<and> sy_strategy r = Some (tc_strategy (pc_candidate p)) \<and>
     sy_score r = Some (tc_score (pc_candidate p)) \<and>
     sy_approved_contracts r = Some n \<and> sy_reference_price r = Some (pc_reference p) \<and>
     sy_stop_loss r = Some (tc_stop_loss (pc_candidate p)) \<and>
     sy_take_profit r = Some (tc_take_profit (pc_candidate p))))"

lemma align_candidate_spec:
  assumes "align_candidate x i is c q = Inr r"
  shows "case r of Inl r \<Rightarrow> \<not> approves r | Inr p \<Rightarrow> priced p \<and> same_trade c (pc_candidate p)"
proof (cases r)
  case (Inl r')
  then show ?thesis
    using assms by (auto simp: align_candidate_def result_simps split: list.splits if_splits option.splits)
next
  case (Inr p)
  then obtain sl tp where c': "candidate_at_reference (c\<lparr>tc_stop_loss := sl, tc_take_profit := tp\<rparr>) q = Some (pc_candidate p)"
    "pc_reference p = q"
    using assms by (auto simp: align_candidate_def result_simps split: list.splits if_splits option.splits)
  have "priced p" using candidate_at_reference_Some [OF c'(1)] c'(2) by (simp add: priced_def)
  then show ?thesis using same_trade_reference [OF c'(1)] Inr by (simp add: same_trade_def)
qed

lemma ask_value: "wp (ask A f) (\<lambda>x _. \<exists>n. f n = Inr x) (\<lambda>_ _. True) a"
  unfolding ask_def wp_bind by (rule wp_any) (auto simp: wp_simps split: sum.split)

lemma prepare_candidate_spec:
  "wp (prepare_candidate A i x)
     (\<lambda>r _. case r of Inl r \<Rightarrow> \<not> approves r | Inr p \<Rightarrow> priced p \<and> selected_by A i p) (\<lambda>_ _. True) a"
proof -
  have price: "wp (price_candidate A i x y c)
      (\<lambda>r b. case r of Inl r \<Rightarrow> \<not> approves r | Inr (d, q) \<Rightarrow> same_trade c d) (\<lambda>_ _. True) b" for y c b
    unfolding price_candidate_def wp_bind
    by (rule wp_any) (auto simp: wp_simps dest: same_trade_reference split: option.split)
  have trans: "same_trade c d \<Longrightarrow> same_trade d e \<Longrightarrow> same_trade c e" for c d e by (simp add: same_trade_def)
  have tail: "wp (ask A f) (\<lambda>is. wp (lift_result (align_candidate y i is d q))
      (\<lambda>r _. case r of Inl r \<Rightarrow> \<not> approves r | Inr p \<Rightarrow> priced p \<and> same_trade c (pc_candidate p)) (\<lambda>_ _. True))
      (\<lambda>_ _. True) b" if "same_trade c d" for f y c d q b
    by (rule wp_any) (auto simp: wp_simps dest!: align_candidate_spec intro: trans [OF that] split: sum.splits)
  have rest: "wp (bind_eff (price_candidate A i x y c) (\<lambda>priced. case priced of
           Inl r \<Rightarrow> ret (Inl r)
         | Inr (d, q) \<Rightarrow>
             bind_eff (ask A (\<lambda>n. ae_instruments A n i)) (\<lambda>is. lift_result (align_candidate y i is d q))))
      (\<lambda>r _. case r of Inl r \<Rightarrow> \<not> approves r | Inr p \<Rightarrow> priced p \<and> same_trade c (pc_candidate p)) (\<lambda>_ _. True) b"
    for y c b
    unfolding wp_bind [of "price_candidate A i x y c"]
    by (rule wp_mono [OF price])
      (auto simp: wp_ret wp_bind split: sum.splits intro!: tail)
  show ?thesis
    unfolding prepare_candidate_def wp_bind [of "ask A (\<lambda>n. ae_strategy A n i (okx_live_scan_candle_limit (auto_settings A)))"]
    by (rule wp_mono [OF ask_value])
      (auto simp: wp_ret split: option.split sum.splits intro!: wp_mono [OF rest] intro: selected_byI)
qed

lemma execute_prepared_spec:
  "wp (execute_prepared A i p n) (\<lambda>r _. sy_instrument_id r = Some i \<and>
     sy_direction r = Some (tc_direction (pc_candidate p)) \<and> sy_strategy r = Some (tc_strategy (pc_candidate p)) \<and>
     sy_score r = Some (tc_score (pc_candidate p)) \<and> sy_approved_contracts r = Some n \<and> sy_reference_price r = Some (pc_reference p) \<and>
     sy_stop_loss r = Some (tc_stop_loss (pc_candidate p)) \<and>
     sy_take_profit r = Some (tc_take_profit (pc_candidate p))) (\<lambda>_ _. True) a"
  unfolding execute_prepared_def wp_bind
  by (rule wp_any, rule wp_any) (simp_all add: wp_simps candidate_result_def plain_result_def)

lemma process_symbol_backed:
  "wp (process_symbol A x execute q) (\<lambda>r _. backed A q r) (\<lambda>_ _. True) a"
proof -
  let ?S = "auto_settings A"
  have final: "wp (if \<not> execute
      then ret ((candidate_result (pc_symbol p) i (pc_candidate p) ApprovedDryRun (pc_reference p)
        ''live_risk_approved_but_execution_not_requested'')\<lparr>sy_approved_contracts := Some n\<rparr>)
      else execute_prepared A i p n) (\<lambda>r _. backed A q r) (\<lambda>_ _. True) b"
    if "priced p" "selected_by A i p" "sized_within ?S q p n" for i p n b
    using that
    by (auto simp: wp_simps backed_def candidate_result_def plain_result_def intro: wp_mono [OF execute_prepared_spec])
  have sized: "wp (lift_result (size_prepared ?S t q i p))
      (\<lambda>r _. case r of Inl r \<Rightarrow> \<not> approves r | Inr n \<Rightarrow> sized_within ?S q p n) (\<lambda>_ _. True) b"
    if "priced p" for t i p b
    using size_prepared_within that
    by (auto simp: wp_simps priced_def size_prepared_def result_simps split: sum.split if_splits option.splits)
  have scanned: "wp (scan_instrument A i execute q) (\<lambda>r _. backed A q r) (\<lambda>_ _. True) b" for i b
    unfolding scan_instrument_def wp_bind [of "prepare_candidate A i execute"]
  proof (rule wp_mono [OF prepare_candidate_spec])
    fix r c assume r: "case r of Inl r \<Rightarrow> \<not> approves r | Inr p \<Rightarrow> priced p \<and> selected_by A i p"
    show "wp (case r of Inl r \<Rightarrow> ret r
       | Inr p \<Rightarrow> bind_eff (auto_clock A) (\<lambda>now.
           bind_eff (lift_result (size_prepared ?S now q i p)) (\<lambda>sized. case sized of Inl r \<Rightarrow> ret r
             | Inr contracts \<Rightarrow> if \<not> execute
                 then ret ((candidate_result (pc_symbol p) i (pc_candidate p) ApprovedDryRun (pc_reference p)
                   ''live_risk_approved_but_execution_not_requested'')\<lparr>sy_approved_contracts := Some contracts\<rparr>)
                 else execute_prepared A i p contracts))) (\<lambda>r _. backed A q r) (\<lambda>_ _. True) c"
    proof (cases r)
      case (Inl r')
      then show ?thesis using r by (simp add: wp_simps backed_def)
    next
      case (Inr p)
      then have p: "priced p" "selected_by A i p" using r by simp_all
      have close: "wp (case v of Inl r \<Rightarrow> ret r
          | Inr n \<Rightarrow> if \<not> execute
              then ret ((candidate_result (pc_symbol p) i (pc_candidate p) ApprovedDryRun (pc_reference p)
                ''live_risk_approved_but_execution_not_requested'')\<lparr>sy_approved_contracts := Some n\<rparr>)
              else execute_prepared A i p n) (\<lambda>r _. backed A q r) (\<lambda>_ _. True) b"
        if "case v of Inl r \<Rightarrow> \<not> approves r | Inr n \<Rightarrow> sized_within ?S q p n" for v b
        using that final [OF p]
        by (cases v) (simp add: wp_ret backed_def, simp only: sum.case)
      show ?thesis
        unfolding Inr sum.case wp_bind
        by (rule wp_any, rule wp_mono [OF sized [OF p(1)]]) (rule close | simp)+
    qed
  qed simp
  show ?thesis
    unfolding process_symbol_def
    by (auto simp: wp_try_except wp_ret backed_def [of _ _ "plain_result _ _ _ _ _"] split: sum.split
        intro!: wp_mono [OF scanned])
qed

section \<open>A run\<close>

text \<open>Only the last result may be a submission, and every approval is backed by the equity.\<close>

definition orderly :: "auto_env \<Rightarrow> decimal option \<Rightarrow> symbol_result list \<Rightarrow> bool" where
  "orderly A equity rs \<longleftrightarrow>
     list_all (\<lambda>r. sy_outcome r \<noteq> Submitted) (butlast rs) \<and>
     list_all (\<lambda>r. case equity of None \<Rightarrow> \<not> approves r | Some q \<Rightarrow> backed A q r) rs"

definition has_submission :: "symbol_result list \<Rightarrow> bool" where
  "has_submission rs = list_ex (\<lambda>r. sy_outcome r = Submitted) rs"

lemma scan_symbols_spec:
  "wp (scan_symbols A xs execute q)
     (\<lambda>rs b. orderly A (Some q) rs \<and> (has_submission rs \<longrightarrow> am_stop b)) (\<lambda>_ _. True) a"
proof (induction xs arbitrary: a)
  case (Cons x xs)
  show ?case
    unfolding scan_symbols.simps wp_bind
    by (rule wp_mono [OF process_symbol_backed])
      (auto simp: wp_simps orderly_def has_submission_def intro!: wp_mono [OF Cons.IH])
qed (simp add: wp_simps orderly_def has_submission_def)

lemma single_result [simp]:
  "\<not> approves r \<Longrightarrow> orderly A e [r]" "\<not> approves r \<Longrightarrow> \<not> has_submission [r]"
  by (auto simp: orderly_def backed_def has_submission_def approves_def split: option.split)

lemma scan_spec:
  "wp (scan A xs execute)
     (\<lambda>(rs, e) b. orderly A e rs \<and> (has_submission rs \<longrightarrow> am_stop b)) (\<lambda>_ _. True) a"
  unfolding scan_def wp_bind Let_def
  by (rule wp_any) (auto simp: wp_simps intro!: wp_mono [OF scan_symbols_spec])

lemma am_stop_clock: "wp (auto_clock A) (\<lambda>_ b. am_stop b = am_stop a) (\<lambda>_ b. am_stop b = am_stop a) a"
  by (simp add: auto_clock_def on_service_def wp_def split: prod.splits sum.splits)

lemma run_once_spec:
  "wp (run_once A xs execute sch)
     (\<lambda>run b. orderly A (ru_total_equity run) (ru_results run) \<and>
        (has_submission (ru_results run) \<longrightarrow> am_stop b)) (\<lambda>_ _. True) a"
proof -
  let ?post = "\<lambda>run b. orderly A (ru_total_equity run) (ru_results run) \<and>
        (has_submission (ru_results run) \<longrightarrow> am_stop b)"
  have tail: "wp (auto_clock A) (\<lambda>completed b. wp (modify (\<lambda>a. a\<lparr>am_last_completed_at := Some completed\<rparr>))
      (\<lambda>_. wp (ret \<lparr>ru_scheduled = sch, ru_execute = execute, ru_started_at = started,
            ru_completed_at = completed, ru_results = rs, ru_total_equity = e\<rparr>)
         (\<lambda>run b. ?post run b) (\<lambda>_ _. True)) (\<lambda>_ _. True) b) (\<lambda>_ _. True) b"
    if "orderly A e rs" "has_submission rs \<longrightarrow> am_stop b" for started rs e b
    by (rule wp_mono [OF am_stop_clock]) (use that in \<open>auto simp: wp_simps\<close>)
  have handled: "wp (try_except (scan A xs execute)
         (\<lambda>e. seq_eff (modify (\<lambda>a. a\<lparr>am_last_error := Some (safe_error e)\<rparr>))
            (ret ([plain_result ''*'' None Failed None (safe_error e)], None))))
      (\<lambda>(rs, e) b. orderly A e rs \<and> (has_submission rs \<longrightarrow> am_stop b)) (\<lambda>_ _. True) b" for b
    unfolding wp_try_except by (rule wp_mono [OF scan_spec]) (auto simp: wp_simps)
  have locked: "wp (run_locked A xs execute sch) ?post (\<lambda>_ _. True) b" for b
    unfolding run_locked_def wp_bind wp_seq
    by (rule wp_any, subst wp_modify, rule wp_mono [OF handled]) (auto simp: wp_bind wp_seq wp_case_prod intro!: tail)
  have "wp (try_finally (run_locked A xs execute sch) (modify (\<lambda>a. a\<lparr>am_run_lock := False\<rparr>)))
      ?post (\<lambda>_ _. True) b" for b
    unfolding wp_try_finally by (rule wp_mono [OF locked]) (simp_all add: wp_modify)
  then show ?thesis unfolding run_once_def by (intro wp_bind_any wp_seq_any TrueI)
qed

text \<open>
  The strategy service of the program as the decision maker of the automation: at every step it
  evaluates the snapshot that a market source returns, with the clock and the disabled
  strategies of that step.
\<close>

definition decides_from ::
  "auto_env \<Rightarrow> estimators \<Rightarrow> (nat \<Rightarrow> string \<Rightarrow> int \<Rightarrow> market_snapshot result) \<Rightarrow> (nat \<Rightarrow> timestamp) \<Rightarrow>
   (nat \<Rightarrow> string list) \<Rightarrow> bool" where
  "decides_from A E source now disabled \<longleftrightarrow>
     (\<forall>n i k. ae_strategy A n i k = strategy_evaluate E (source n) (auto_settings A) (now n) (disabled n) i k)"

definition strategy_auto_env ::
  "auto_env \<Rightarrow> estimators \<Rightarrow> (nat \<Rightarrow> string \<Rightarrow> int \<Rightarrow> market_snapshot result) \<Rightarrow> (nat \<Rightarrow> timestamp) \<Rightarrow>
   (nat \<Rightarrow> string list) \<Rightarrow> auto_env" where
  "strategy_auto_env A E source now disabled =
     A\<lparr>ae_strategy := (\<lambda>n i k. strategy_evaluate E (source n) (auto_settings A) (now n) (disabled n) i k)\<rparr>"

lemma strategy_auto_env_settings [simp]: "ae_live (strategy_auto_env A E source now disabled) = ae_live A"
  by (simp add: strategy_auto_env_def)

lemma strategy_auto_env_decides: "decides_from (strategy_auto_env A E source now disabled) E source now disabled"
  by (simp add: decides_from_def strategy_auto_env_def)

definition snapshot_backed ::
  "settings \<Rightarrow> (nat \<Rightarrow> string \<Rightarrow> int \<Rightarrow> market_snapshot result) \<Rightarrow> (nat \<Rightarrow> timestamp) \<Rightarrow> (nat \<Rightarrow> string list) \<Rightarrow>
   symbol_result \<Rightarrow> bool" where
  "snapshot_backed S source now disabled r \<longleftrightarrow> (approves r \<longrightarrow>
     (\<exists>i n m c. source n i (okx_live_scan_candle_limit S) = Inr m \<and> sound_selection S (now n) (disabled n) m c \<and>
        sy_instrument_id r = Some i \<and> sy_direction r = Some (tc_direction c) \<and>
        sy_strategy r = Some (tc_strategy c) \<and> sy_score r = Some (tc_score c)))"

lemma backed_snapshot:
  assumes "decides_from A E source now disabled" "backed A q r"
  shows "snapshot_backed (auto_settings A) source now disabled r"
  unfolding snapshot_backed_def
proof
  assume "approves r"
  then obtain i p where p: "selected_by A i p" "sy_instrument_id r = Some i"
    "sy_direction r = Some (tc_direction (pc_candidate p))" "sy_strategy r = Some (tc_strategy (pc_candidate p))"
    "sy_score r = Some (tc_score (pc_candidate p))"
    using assms(2) unfolding backed_def by (elim impE exE conjE) auto
  obtain n d c where d: "ae_strategy A n i (okx_live_scan_candle_limit (auto_settings A)) = Inr d"
    "sd_selected_candidate d = Some c" "same_trade c (pc_candidate p)"
    using p(1) by (auto simp: selected_by_def)
  then obtain m where m: "source n i (okx_live_scan_candle_limit (auto_settings A)) = Inr m"
    "evaluate_snapshot E (auto_settings A) (now n) (disabled n) m = Inr d"
    using assms(1) by (auto simp: decides_from_def strategy_evaluate_def result_simps)
  have "sound_selection (auto_settings A) (now n) (disabled n) m c"
    using selected_candidate_sound [OF m(2) d(2)] .
  then show "\<exists>i n m c. source n i (okx_live_scan_candle_limit (auto_settings A)) = Inr m \<and>
      sound_selection (auto_settings A) (now n) (disabled n) m c \<and>
      sy_instrument_id r = Some i \<and> sy_direction r = Some (tc_direction c) \<and>
      sy_strategy r = Some (tc_strategy c) \<and> sy_score r = Some (tc_score c)"
    using m(1) p d(3) by (intro exI conjI) (auto simp: same_trade_def)
qed

lemma snapshot_backed_refused: "\<not> approves r \<Longrightarrow> snapshot_backed S source now disabled r"
  by (simp add: snapshot_backed_def)

lemma run_once_snapshot_backed:
  assumes "decides_from A E source now disabled"
  shows "wp (run_once A xs execute sch)
    (\<lambda>run b. list_all (snapshot_backed (auto_settings A) source now disabled) (ru_results run)) (\<lambda>_ _. True) a"
proof (rule wp_mono [OF run_once_spec])
  fix run b
  assume "orderly A (ru_total_equity run) (ru_results run) \<and> (has_submission (ru_results run) \<longrightarrow> am_stop b)"
  then have "list_all (\<lambda>r. case ru_total_equity run of None \<Rightarrow> \<not> approves r | Some q \<Rightarrow> backed A q r) (ru_results run)"
    by (simp add: orderly_def)
  then show "list_all (snapshot_backed (auto_settings A) source now disabled) (ru_results run)"
    using backed_snapshot [OF assms] snapshot_backed_refused
    by (cases "ru_total_equity run") (auto simp: list_all_iff)
qed simp

section \<open>The loop ends\<close>

text \<open>Steps of the service advance, and without a new arm the old one stays or goes.\<close>

definition wanes :: "live_state \<Rightarrow> live_state \<Rightarrow> bool" where
  "wanes s t \<longleftrightarrow> ls_step s \<le> ls_step t \<and> (ls_armed_until t = None \<or> ls_armed_until t = ls_armed_until s)"

interpretation wf: write_frame wanes
proof
  show "recovering s t \<Longrightarrow> wanes s t" for s t by (auto simp: wanes_def recovering_def restrained_def)
qed (auto simp: wanes_def)

lemma wanes_send: "stays wanes (send E w f)"
  by (rule wf.within_send) (simp add: wanes_def)

lemma wanes_place_order: "stays wanes (place_order E r)"
  unfolding place_order_def submit_order_def
  by (intro wf.live_intros wanes_send quiet_intros [THEN wf.within_quiet] wf.within_stage_leverage
      wf.within_stage_cancel_all)

lemma wanes_clear: "stays wanes (clear_emergency_stop E r)"
proof -
  have "stays wanes (modify (\<lambda>s. disarm_local False (s\<lparr>ls_unresolved_intent_count := 0,
      ls_emergency_stop := False, ls_last_error := None\<rparr>)))"
    by (rule wf.within_modify) (simp add: wanes_def disarm_local_def)
  then show ?thesis
    unfolding clear_emergency_stop_def
    by (intro wf.live_intros quiet_intros [THEN wf.within_quiet])
qed

fun arms :: "live_call \<Rightarrow> bool" where
  "arms (CallArm r) = True"
| "arms _ = False"

lemma wanes_call: "\<not> arms c \<Longrightarrow> stays wanes (live_call_eff E c)"
  by (cases c) (auto intro!: wf.within_void wanes_place_order wanes_clear wf.within_cancel_order
      wf.within_close_position wf.within_set_leverage intro: calm_intros [THEN wf.within_calm])

definition without_arming :: "auto_env \<Rightarrow> auto_env" where
  "without_arming A = A\<lparr>ae_calls := \<lambda>n. filter (\<lambda>c. \<not> arms c) (ae_calls A n)\<rparr>"

interpretation wa: service_client wanes "without_arming A"
proof
  have "list_all (\<lambda>c. \<not> arms c) cs \<Longrightarrow> wanes s (other_calls B cs s)" for B cs s
    unfolding other_calls_def
  proof (induction cs arbitrary: s)
    case (Cons c cs)
    then have "wanes s (snd (live_call_eff (ae_live B) c s))" using wanes_call by (simp add: stays_def)
    then show ?case using Cons by (auto intro: wf.frame_trans)
  qed (simp add: wf.frame_refl)
  then show "wanes s (other_calls (without_arming A) (ae_calls (without_arming A) n) s)" for s n
    by (simp add: without_arming_def list_all_iff)
qed (rule wanes_place_order)

definition armed_by :: "timestamp \<Rightarrow> live_state \<Rightarrow> bool" where
  "armed_by u s \<longleftrightarrow> (case ls_armed_until s of None \<Rightarrow> True | Some v \<Rightarrow> v \<le> u)"

lemma wanes_armed_by: "wanes s t \<Longrightarrow> armed_by u s \<Longrightarrow> armed_by u t \<and> ls_step s \<le> ls_step t"
  by (auto simp: wanes_def armed_by_def)

text \<open>Whoever finds an arm that runs to \<open>u\<close> at the latest read the clock before \<open>u\<close>.\<close>

lemma arm_status_armed:
  assumes "armed_by u s" "\<And>n. N \<le> n \<Longrightarrow> u \<le> ev_clock E n"
  shows "wp (arm_status E) (\<lambda>v t. as_armed v \<longrightarrow> ls_step s < N \<and> armed_by u t \<and> ls_step s < ls_step t) (\<lambda>_ _. True) s"
proof (cases "ls_armed_until s")
  case (Some v)
  have "u \<le> ev_clock E (ls_step s)" if "\<not> ls_step s < N" using assms(2) that by simp
  then show ?thesis
    using assms(1) Some
    by (force simp: wp_simps arm_status_def expire_arm_if_needed_def disarm_eff_def disarm_local_def armed_by_def
        arm_view_def)
qed (simp add: wp_simps arm_status_def expire_arm_if_needed_def arm_view_def)

lemma wp_on_service: "wp (on_service m) Q X a = wp m (\<lambda>r s. Q r (a\<lparr>am_live := s\<rparr>)) (\<lambda>e s. X e (a\<lparr>am_live := s\<rparr>)) (am_live a)"
  by (simp add: wp_def on_service_def split: prod.splits sum.splits)

lemma without_arming_live [simp]: "ae_live (without_arming A) = ae_live A"
  by (simp add: without_arming_def)

lemma loop_round_goes_on:
  assumes "armed_by u (am_live a)" "\<And>n. N \<le> n \<Longrightarrow> u \<le> ev_clock (ae_live A) n"
  shows "wp (loop_round (without_arming A)) (\<lambda>go_on b. go_on \<longrightarrow> ls_step (am_live a) < N \<and>
    armed_by u (am_live b) \<and> ls_step (am_live a) < ls_step (am_live b)) (\<lambda>_ _. True) a"
proof -
  let ?A = "without_arming A"
  let ?good = "\<lambda>b. ls_step (am_live a) < N \<and> armed_by u (am_live b) \<and> ls_step (am_live a) < ls_step (am_live b)"
  have keep: "?good d" if "?good b" "through wanes b d" for b d
    using that wanes_armed_by [of "am_live b" "am_live d" u] by (auto simp: through_def)
  have wait: "wp (seq_eff (schedule_next ?A k) (seq_eff (wait_for_stop ?A) (ret True)))
      (\<lambda>go_on d. go_on \<longrightarrow> ?good d) (\<lambda>_ _. True) b" if "?good b" for k b
    by (rule wp_mono [OF wa.lifted.within_wp])
      (use keep [OF that] in \<open>auto intro!: wa.scan_intros wa.within_waits\<close>)
  have check: "wp (on_service (arm_status (ae_live A))) (\<lambda>v d. as_armed v \<longrightarrow> ?good d) (\<lambda>_ _. True) b"
    if "through wanes a b" for b
  proof -
    have b: "armed_by u (am_live b)" "ls_step (am_live a) \<le> ls_step (am_live b)"
      using wanes_armed_by [of "am_live a" "am_live b"] that assms(1) by (auto simp: through_def)
    show ?thesis
      unfolding wp_on_service
      by (rule wp_mono [OF arm_status_armed [OF b(1) assms(2)]]) (use b(2) in auto)
  qed
  have run: "wp (run_once ?A xs True True) (\<lambda>_. through wanes a) (\<lambda>_. through wanes a) a" for xs
    by (rule wa.lifted.within_wp [OF wa.within_run_once [OF wa.order_in]])
  show ?thesis
    unfolding loop_round_def wp_bind wp_gets
    by (rule wp_mono [OF run])
      (auto simp: wp_if wp_bind wp_ret intro!: wp_mono [OF check] wp_mono [OF wait])
qed

lemma loop_rounds_end:
  assumes "armed_by u (am_live a)" "\<And>n. N \<le> n \<Longrightarrow> u \<le> ev_clock (ae_live A) n"
  shows "\<exists>r b. loop_rounds (without_arming A) a = Some (r, b)"
  using assms(1)
proof (induction "N - ls_step (am_live a)" arbitrary: a rule: less_induct)
  case (less a)
  show ?case
  proof (cases "am_stop a \<or> isl (fst (loop_round (without_arming A) a)) \<or> \<not> projr (fst (loop_round (without_arming A) a))")
    case True
    then show ?thesis
      by (subst loop_rounds.simps) (auto split: prod.splits sum.splits)
  next
    case False
    then obtain b where step: "loop_round (without_arming A) a = (Inr True, b)"
      by (metis (full_types) prod.collapse sum.collapse(2))
    have b: "ls_step (am_live a) < N" "armed_by u (am_live b)" "ls_step (am_live a) < ls_step (am_live b)"
      using wp_Inr [OF loop_round_goes_on [OF less.prems assms(2)] step] by auto
    then have "\<exists>r c. loop_rounds (without_arming A) b = Some (r, c)" by (intro less.hyps) auto
    then show ?thesis by (subst loop_rounds.simps) (use False step in simp)
  qed
qed

lemma automation_loop_ends:
  assumes "armed_by u (am_live a)" "\<And>n. N \<le> n \<Longrightarrow> u \<le> ev_clock (ae_live A) n"
  shows "\<exists>r b. automation_loop (without_arming A) a = Some (r, b)"
proof -
  have "through wanes a (snd (first_wait (without_arming A) a))"
    using wa.within_waits(3) by (simp add: stays_def)
  then have "armed_by u (am_live (snd (first_wait (without_arming A) a)))"
    using wanes_armed_by assms(1) by (auto simp: through_def)
  then show ?thesis
    using loop_rounds_end [OF _ assms(2)]
    by (fastforce simp: automation_loop_def split: prod.splits sum.splits)
qed

end
