(* ===== verification/Automation_Example.thy ===== *)
theory Automation_Example
  imports Automation_Outcome Live_Example Example_Data
begin

text \<open>
  A concrete environment of the automation over the one of the Live service, and an automation
  whose arm expires between its start and the first turn of its task. The witnesses of the
  properties of the automation and of the HTTP surface use them.
\<close>

definition example_snapshot :: realtime_snapshot where
  "example_snapshot = \<lparr>rs_last = Some 50000, rs_bid = Some 49990, rs_ask = Some 50000,
     rs_mark_price = Some 50000, rs_quote_received_at = Some 1000, rs_mark_price_received_at = Some 1000\<rparr>"

definition example_auto_env :: auto_env where
  "example_auto_env =
     \<lparr>ae_live = example_env\<lparr>ev_settings := example_settings\<lparr>okx_live_auto_execution := True, okx_ws_enabled := True\<rparr>\<rparr>,
      ae_calls = (\<lambda>_. []), ae_connected = (\<lambda>_. True), ae_snapshot = (\<lambda>_ _. Inr (Some example_snapshot)),
      ae_strategy = (\<lambda>_ i _. Inr \<lparr>sd_symbol = ''BTCUSDT'', sd_instrument_id = i, sd_decision = Some LongBias,
        sd_selected_strategy = Some ''trend_pullback'', sd_selected_candidate = Some example_candidate,
        sd_minimum_score = 72, sd_evaluations = [], sd_blockers = []\<rparr>),
      ae_instruments = (\<lambda>_ _. Inr [example_instrument]), ae_stop_requested = (\<lambda>_. False),
      ae_str = (\<lambda>_. ''1''), ae_isoformat = (\<lambda>_. ''t'')\<rparr>"

definition example_token :: "string option" where
  "example_token = Some ''0123456789abcdefghijklmnopqrstuvwxyzABCD''"

definition example_run_request :: run_request where
  "example_run_request = \<lparr>rn_symbols = None, rn_execute = True,
     rn_confirmation = Some LIVE_AUTOMATION_EXECUTE_PHRASE\<rparr>"

definition armed_automation :: automation where
  "armed_automation = new_automation (auto_settings example_auto_env)
     (example_start\<lparr>ls_armed_until := Some 1003, ls_baseline_equity := Some 1000\<rparr>)"

definition expiring_history :: "api_event list" where
  "expiring_history = [Request example_token (ApiAutomationStart example_run_request), TaskTurn]"

definition stop_call :: api_call where
  "stop_call = ApiEmergencyStop LIVE_EMERGENCY_STOP_PHRASE"

section \<open>Evaluation\<close>

lemma expired_task:
  "am_task (run_api_events example_auto_env expiring_history armed_automation) =
     Some (TaskDone (Inl (OkxLiveSafetyError ''okx_live_not_armed'')))"
  by code_simp

end
