(* ===== verification/Causal_Trend.thy ===== *)
theory Causal_Trend
  imports Analysis_Service
begin

text \<open>
  The causal trend estimator (\<^verbatim>\<open>app/indicators/causal_trend.py\<close>) and the one-bar conformal interval
  built on it (\<^verbatim>\<open>app/indicators/conformal_return.py\<close>). Both compute with 50 significant digits; an
  integer power is computed with three more digits and then rounded. The natural logarithm of
  the decimal module is an argument of the estimators: nothing below depends on its values.

  Lemmas: neither estimator raises, whatever the logarithms are; a trend satisfies the
  constraints of its model and reads only the last window of closes; an interval contains its
  prediction and satisfies the constraints of its model.
\<close>

section \<open>Arithmetic with 50 digits\<close>

abbreviation hround :: "rat \<Rightarrow> decimal" where
  "hround \<equiv> round_sig 49"

definition hadd :: "decimal \<Rightarrow> decimal \<Rightarrow> decimal" where
  "hadd a b = hround (a + b)"

definition hsub :: "decimal \<Rightarrow> decimal \<Rightarrow> decimal" where
  "hsub a b = hround (a - b)"

definition hmul :: "decimal \<Rightarrow> decimal \<Rightarrow> decimal" where
  "hmul a b = hround (a * b)"

definition hdiv :: "decimal \<Rightarrow> decimal \<Rightarrow> decimal" where
  "hdiv a b = hround (a / b)"

definition hdiv_checked :: "decimal \<Rightarrow> decimal \<Rightarrow> decimal result" where
  "hdiv_checked a b =
     (if b = 0 then Inl (if a = 0 then DecimalInvalidOperation else DecimalDivisionByZero)
      else Inr (hdiv a b))"

definition habs :: "decimal \<Rightarrow> decimal" where
  "habs a = hround \<bar>a\<bar>"

definition hneg :: "decimal \<Rightarrow> decimal" where
  "hneg a = hround (- a)"

abbreviation hsqrt :: "decimal \<Rightarrow> decimal result" where
  "hsqrt \<equiv> sqrt_sig 49"

definition hsum :: "decimal list \<Rightarrow> decimal" where
  "hsum xs = foldl hadd 0 xs"

text \<open>Square and multiply with 53 digits, as the decimal module raises to a small power.\<close>

definition hsquare :: "decimal \<Rightarrow> decimal" where
  "hsquare x = hround (round_sig 52 (x * x))"

fun hpow :: "decimal \<Rightarrow> nat \<Rightarrow> decimal" where
  "hpow x 0 = 1"
| "hpow x (Suc 0) = hround x"
| "hpow x (Suc (Suc 0)) = hsquare x"
| "hpow x (Suc (Suc (Suc 0))) = hround (round_sig 52 (round_sig 52 (x * x) * x))"
| "hpow x n = hround (round_sig 52 (round_sig 52 (x * x) * round_sig 52 (x * x)))"

definition causal_epsilon :: decimal where
  "causal_epsilon = 1 / 10 ^ 30"

section \<open>Linear system\<close>

text \<open>One column of the elimination with a pivot; \<open>None\<close> when the pivot is negligible.\<close>

definition eliminate_column :: "decimal list list \<Rightarrow> nat \<Rightarrow> decimal list list option" where
  "eliminate_column m column =
     (case pick_max (\<lambda>row. habs (m ! row ! column)) [column..<3] of
        None \<Rightarrow> None
      | Some pivot_row \<Rightarrow>
          if habs (m ! pivot_row ! column) \<le> causal_epsilon then None
          else
            let swapped = m[column := m ! pivot_row, pivot_row := m ! column];
                pivot = swapped ! column ! column;
                normalized = map (\<lambda>v. hdiv v pivot) (swapped ! column)
            in Some (map (\<lambda>row.
                 if row = column then normalized
                 else let current = swapped ! row; factor = current ! column
                      in if factor = 0 then current
                         else map2 (\<lambda>c source. hsub c (hmul factor source)) current normalized) [0..<3]))"

definition solve_3x3 :: "decimal list list \<Rightarrow> decimal list \<Rightarrow> (decimal \<times> decimal \<times> decimal) option" where
  "solve_3x3 matrix rhs =
     Option.bind (eliminate_column (map2 (\<lambda>row v. row @ [v]) matrix rhs) 0) (\<lambda>a.
     Option.bind (eliminate_column a 1) (\<lambda>b.
     Option.bind (eliminate_column b 2) (\<lambda>c.
     Some (c ! 0 ! 3, c ! 1 ! 3, c ! 2 ! 3))))"

section \<open>Trend\<close>

definition last_n :: "nat \<Rightarrow> 'a list \<Rightarrow> 'a list" where
  "last_n n xs = drop (length xs - n) xs"

text \<open>A sample is its position, its offset from the endpoint and its weight.\<close>

definition trend_samples :: "decimal list \<Rightarrow> nat \<Rightarrow> (decimal \<times> decimal \<times> decimal) list" where
  "trend_samples logs window =
     (let bars = of_int (int window - 1)
      in map2 (\<lambda>index v.
           (hdiv (of_int (int index - (int window - 1))) bars, hsub v (last logs),
            hadd 1 (hdiv (hmul 2 (of_nat index)) bars))) [0..<length logs] logs)"

definition moment :: "(decimal \<times> decimal \<times> decimal) list \<Rightarrow> nat \<Rightarrow> decimal" where
  "moment samples degree = hsum (map (\<lambda>(x, _, weight). hmul weight (hpow x degree)) samples)"

definition regression_target :: "(decimal \<times> decimal \<times> decimal) list \<Rightarrow> nat \<Rightarrow> decimal" where
  "regression_target samples degree = hsum (map (\<lambda>(x, y, weight). hmul (hmul weight y) (hpow x degree)) samples)"

definition fitted_value :: "decimal \<times> decimal \<times> decimal \<Rightarrow> decimal \<Rightarrow> decimal" where
  "fitted_value coefficients x =
     (case coefficients of (intercept, slope, quadratic) \<Rightarrow>
        hadd (hadd intercept (hmul slope x)) (hmul (hmul quadratic x) x))"

definition squared_error :: "decimal \<times> decimal \<times> decimal \<Rightarrow> (decimal \<times> decimal \<times> decimal) list \<Rightarrow> decimal" where
  "squared_error coefficients samples =
     foldl (\<lambda>acc (x, y, weight). hadd acc (hmul weight (hsquare (hsub y (fitted_value coefficients x))))) 0 samples"

definition total_variation :: "decimal \<Rightarrow> (decimal \<times> decimal \<times> decimal) list \<Rightarrow> decimal" where
  "total_variation mean samples =
     foldl (\<lambda>acc (x, y, weight). hadd acc (hmul weight (hsquare (hsub y mean)))) 0 samples"

definition fit_quality :: "decimal \<Rightarrow> decimal \<Rightarrow> decimal" where
  "fit_quality error variation =
     (if variation \<le> causal_epsilon then (if error \<le> causal_epsilon then 1 else 0)
      else dclamp (hsub 1 (hdiv error variation)) 0 1)"

definition log_returns :: "decimal list \<Rightarrow> decimal list" where
  "log_returns logs = map2 (\<lambda>previous current. hsub current previous) (butlast logs) (tl logs)"

definition drift_of :: "decimal \<Rightarrow> decimal \<Rightarrow> drift" where
  "drift_of velocity threshold =
     (if threshold < velocity then Rising else if velocity < hneg threshold then Falling else Flat)"

definition trend_estimate ::
  "nat \<Rightarrow> decimal \<Rightarrow> decimal \<times> decimal \<times> decimal \<Rightarrow> decimal \<Rightarrow> decimal \<Rightarrow> decimal \<Rightarrow> causal_trend" where
  "trend_estimate window bars coefficients fit_r2 residual_std return_rms =
     (case coefficients of (_, slope, quadratic) \<Rightarrow>
        let velocity = hdiv slope bars;
            acceleration = hdiv (hmul 2 quadratic) (hmul bars bars);
            scale = max return_rms causal_epsilon;
            velocity_ratio = dclamp (hdiv velocity scale) (- 10) 10;
            acceleration_ratio = dclamp (hdiv acceleration scale) (- 10) 10;
            signal_strength = min 1 (habs velocity_ratio);
            confidence = dclamp (hmul fit_r2 signal_strength) 0 1;
            flat_threshold = max causal_epsilon (hmul return_rms (10 / 100))
        in \<lparr>ct_window = int window, ct_log_velocity_per_bar = hround velocity,
            ct_log_acceleration_per_bar2 = hround acceleration, ct_log_return_rms_per_bar = hround return_rms,
            ct_velocity_to_volatility = hround velocity_ratio, ct_acceleration_to_volatility = hround acceleration_ratio,
            ct_fit_r2 = hround fit_r2, ct_residual_std = hround residual_std, ct_confidence = hround confidence,
            ct_direction = drift_of velocity flat_threshold\<rparr>)"

definition causal_log_trend_from_logs :: "decimal list \<Rightarrow> nat \<Rightarrow> causal_trend option result" where
  "causal_log_trend_from_logs log_prices window =
     (if window < 5 \<or> length log_prices < window then Inr None
      else
        let logs = last_n window log_prices;
            bars = of_int (int window - 1);
            samples = trend_samples logs window;
            m = moment samples;
            t = regression_target samples
        in case solve_3x3 [[m 0, m 1, m 2], [m 1, m 2, m 3], [m 2, m 3, m 4]] [t 0, t 1, t 2] of
             None \<Rightarrow> Inr None
           | Some coefficients \<Rightarrow>
               bind_result (hdiv_checked (t 0) (m 0)) (\<lambda>mean.
               let error = squared_error coefficients samples;
                   variation = total_variation mean samples
               in bind_result (hsqrt (hdiv (max 0 error) (m 0))) (\<lambda>residual_std.
                  bind_result (hsqrt (hdiv (hsum (map (\<lambda>v. hmul v v) (log_returns logs))) bars)) (\<lambda>return_rms.
                  Inr (Some (trend_estimate window bars coefficients (fit_quality error variation)
                    residual_std return_rms))))))"

definition causal_log_trend :: "(decimal \<Rightarrow> decimal) \<Rightarrow> decimal list \<Rightarrow> nat \<Rightarrow> causal_trend option result" where
  "causal_log_trend ln_of closes window =
     (if window < 5 \<or> length closes < window then Inr None
      else if list_ex (\<lambda>v. v \<le> 0) (last_n window closes) then Inr None
      else causal_log_trend_from_logs (map ln_of (last_n window closes)) window)"

section \<open>Conformal interval\<close>

definition finite_sample_quantile :: "decimal list \<Rightarrow> decimal \<Rightarrow> decimal" where
  "finite_sample_quantile residuals confidence_level =
     (let ordered = sort residuals;
          rank = \<lceil>hmul (of_nat (length ordered + 1)) confidence_level\<rceil>
      in ordered ! nat (min (int (length ordered)) (max 1 rank) - 1))"

definition predicted_return :: "causal_trend \<Rightarrow> decimal" where
  "predicted_return t = hadd (ct_log_velocity_per_bar t) (hdiv (ct_log_acceleration_per_bar2 t) 2)"

text \<open>The residuals of the calibration; \<open>None\<close> as soon as a trend is missing.\<close>

fun calibration_residuals :: "decimal list \<Rightarrow> nat \<Rightarrow> nat list \<Rightarrow> decimal list option result" where
  "calibration_residuals logs window [] = Inr (Some [])"
| "calibration_residuals logs window (index # rest) =
     bind_result (causal_log_trend_from_logs (take index logs) window) (\<lambda>estimate.
     case estimate of None \<Rightarrow> Inr None
     | Some t \<Rightarrow>
         let observed = hsub (logs ! index) (logs ! (index - 1));
             residual = max (1 / 10 ^ 24) (habs (hsub observed (predicted_return t)))
         in bind_result (calibration_residuals logs window rest) (\<lambda>r. Inr (map_option (\<lambda>rs. residual # rs) r)))"

definition covered_count :: "decimal list \<Rightarrow> decimal \<Rightarrow> nat" where
  "covered_count residuals confidence_level =
     length (filter (\<lambda>i. residuals ! i \<le> finite_sample_quantile (take i residuals) confidence_level) [20..<length residuals])"

definition causal_return_interval ::
  "(decimal \<Rightarrow> decimal) \<Rightarrow> decimal list \<Rightarrow> nat \<Rightarrow> nat \<Rightarrow> decimal \<Rightarrow> return_interval option result" where
  "causal_return_interval ln_of closes trend_window calibration_size confidence_level =
     (if trend_window < 5 \<or> calibration_size < 20 \<or> \<not> (50 / 100 < confidence_level \<and> confidence_level < 1) \<or>
         length closes < trend_window + calibration_size then Inr None
      else if list_ex (\<lambda>v. v \<le> 0) closes then Inr None
      else
        let logs = map ln_of closes
        in bind_result (calibration_residuals logs trend_window [length closes - calibration_size..<length closes]) (\<lambda>found.
           case found of None \<Rightarrow> Inr None
           | Some residuals \<Rightarrow>
               if length residuals - 20 = 0 then Inr None
               else
                 let samples = length residuals - 20;
                     coverage = hdiv (of_nat (covered_count residuals confidence_level)) (of_nat samples);
                     half_width = finite_sample_quantile residuals confidence_level
                 in bind_result (causal_log_trend_from_logs logs trend_window) (\<lambda>endpoint.
                    case endpoint of None \<Rightarrow> Inr None
                    | Some t \<Rightarrow>
                        let predicted = predicted_return t;
                            lower = hsub predicted half_width;
                            upper = hadd predicted half_width
                        in Inr (Some \<lparr>ri_horizon_bars = 1, ri_confidence_level = hround confidence_level,
                             ri_predicted_log_return = hround predicted, ri_lower_log_return = hround lower,
                             ri_upper_log_return = hround upper, ri_half_width = hround half_width,
                             ri_calibration_size = int (length residuals), ri_coverage_sample_size = int samples,
                             ri_empirical_coverage = hround coverage, ri_direction = outlook_of lower upper\<rparr>))))"

section \<open>The trend satisfies its model\<close>

lemmas sig_signs = sig.rnd_pos_iff sig.rnd_neg_iff sig.rnd_nonneg_iff sig.rnd_nonpos_iff sig.rnd_eq_0_iff

lemmas h_defs = hadd_def hsub_def hmul_def hdiv_def habs_def hneg_def hsquare_def

lemma foldl_hadd_pos:
  "0 \<le> a \<Longrightarrow> list_all (\<lambda>x. 0 < x) xs \<Longrightarrow> 0 < a \<or> xs \<noteq> [] \<Longrightarrow> 0 < foldl hadd a xs"
proof (induction xs arbitrary: a)
  case (Cons x xs)
  then have "0 < hadd a x" by (simp add: hadd_def sig_signs)
  then show ?case using Cons.IH [of "hadd a x"] Cons.prems by simp
qed simp

lemma foldl_hadd_nonneg: "0 \<le> a \<Longrightarrow> list_all (\<lambda>x. 0 \<le> x) xs \<Longrightarrow> 0 \<le> foldl hadd a xs"
  by (induction xs arbitrary: a) (auto simp: hadd_def sig_signs)

lemma sample_weights:
  assumes "5 \<le> window"
  shows "list_all (\<lambda>(x, y, weight). 0 < weight) (trend_samples logs window)"
  using assms by (auto simp: trend_samples_def Let_def list_all_iff h_defs sig_signs set_zip
      intro!: add_pos_nonneg)

lemma moment_pos:
  assumes "5 \<le> window" "logs \<noteq> []"
  shows "0 < moment (trend_samples logs window) 0"
proof -
  let ?s = "trend_samples logs window"
  have "?s \<noteq> []" using assms(2) by (simp add: trend_samples_def Let_def)
  moreover have "list_all (\<lambda>x. 0 < x) (map (\<lambda>(x, _, weight). hmul weight (hpow x 0)) ?s)"
    using sample_weights [OF assms(1), of logs] by (auto simp: list_all_iff hmul_def sig_signs)
  ultimately show ?thesis unfolding moment_def hsum_def by (intro foldl_hadd_pos) auto
qed

lemma is_sig_small: "\<bar>n\<bar> \<le> 10 \<Longrightarrow> is_sig 49 (of_int n)"
  by (rule is_sigI [of _ n 0]) (auto intro: order_trans)

lemma hround_range:
  assumes "in_range (of_int a) (of_int b) x" "\<bar>a\<bar> \<le> 10" "\<bar>b\<bar> \<le> 10"
  shows "in_range (of_int a) (of_int b) (hround x)"
  using assms sig.rnd_le_rep [OF is_sig_small] sig.rnd_ge_rep [OF is_sig_small] by (simp add: in_range_def)

lemmas hround_unit = hround_range [of 0 1, simplified]

lemma fit_quality_unit: "in_range 0 1 (fit_quality e v)"
  by (simp add: fit_quality_def in_range_def [of 0 1 0] in_range_def [of 0 1 1])

lemma trend_estimate_ok:
  assumes "5 \<le> window" "in_range 0 1 r2" "0 \<le> residual" "0 \<le> rms"
  shows "trend_fields_ok (trend_estimate window bars k r2 residual rms)"
  using assms
  by (simp add: trend_fields_ok_def trend_estimate_def Let_def hround_unit sig_signs split: prod.split)

theorem trend_from_logs_returns:
  "\<exists>r. causal_log_trend_from_logs logs window = Inr r \<and>
     (case r of None \<Rightarrow> True | Some t \<Rightarrow> trend_fields_ok t \<and> ct_window t = int window)"
proof (cases "window < 5 \<or> length logs < window")
  case False
  then have w: "5 \<le> window" "last_n window logs \<noteq> []" by (auto simp: last_n_def)
  let ?l = "last_n window logs"
  let ?s = "trend_samples ?l window"
  let ?bars = "of_int (int window - 1) :: decimal"
  let ?m = "moment ?s" and ?t = "regression_target ?s"
  have m: "0 < ?m 0" using moment_pos w by blast
  have bars: "0 < ?bars" using w by simp
  have "0 \<le> hdiv (hsum (map (\<lambda>v. hmul v v) (log_returns ?l))) ?bars"
    unfolding hsum_def hdiv_def sig_signs
    using bars by (intro divide_nonneg_pos foldl_hadd_nonneg) (auto simp: list_all_iff hmul_def sig_signs)
  from sqrt_sig_Inr [OF this] obtain rms
    where rms: "0 \<le> rms" "hsqrt (hdiv (hsum (map (\<lambda>v. hmul v v) (log_returns ?l))) ?bars) = Inr rms" by blast
  show ?thesis
  proof (cases "solve_3x3 [[?m 0, ?m 1, ?m 2], [?m 1, ?m 2, ?m 3], [?m 2, ?m 3, ?m 4]] [?t 0, ?t 1, ?t 2]")
    case None
    then show ?thesis using False by (simp add: causal_log_trend_from_logs_def Let_def)
  next
    case (Some k)
    let ?e = "squared_error k ?s" and ?v = "total_variation (hdiv (?t 0) (?m 0)) ?s"
    have "0 \<le> hdiv (max 0 ?e) (?m 0)" using m by (simp add: hdiv_def sig_signs)
    from sqrt_sig_Inr [OF this] obtain sd where sd: "0 \<le> sd" "hsqrt (hdiv (max 0 ?e) (?m 0)) = Inr sd" by blast
    have "causal_log_trend_from_logs logs window = Inr (Some (trend_estimate window ?bars k (fit_quality ?e ?v) sd rms))"
      using False Some m sd(2) rms(2)
      by (simp add: causal_log_trend_from_logs_def Let_def hdiv_checked_def)
    moreover have "trend_fields_ok (trend_estimate window ?bars k (fit_quality ?e ?v) sd rms)"
      by (rule trend_estimate_ok [OF w(1) fit_quality_unit sd(1) rms(1)])
    moreover have "ct_window (trend_estimate window ?bars k (fit_quality ?e ?v) sd rms) = int window"
      by (simp add: trend_estimate_def Let_def split: prod.split)
    ultimately show ?thesis by simp
  qed
qed (simp add: causal_log_trend_from_logs_def)

lemma causal_log_trend_returns:
  "\<exists>r. causal_log_trend ln_of closes window = Inr r \<and> (case r of None \<Rightarrow> True | Some t \<Rightarrow> trend_fields_ok t)"
  using trend_from_logs_returns [of "map ln_of (last_n window closes)" window]
  by (auto simp: causal_log_trend_def split: option.splits)

text \<open>Only the last window of the closes is read.\<close>

lemma causal_log_trend_local:
  assumes "window \<le> length closes"
  shows "causal_log_trend ln_of closes window = causal_log_trend ln_of (last_n window closes) window"
  using assms by (simp add: causal_log_trend_def last_n_def)

section \<open>The interval satisfies its model\<close>

lemma calibration_residuals_returns:
  "\<exists>r. calibration_residuals logs window is = Inr r \<and>
     (case r of None \<Rightarrow> True | Some rs \<Rightarrow> length rs = length is \<and> list_all (\<lambda>x. 0 < x) rs)"
proof (induction "is")
  case (Cons i "is")
  obtain r where r: "causal_log_trend_from_logs (take i logs) window = Inr r" using trend_from_logs_returns by blast
  obtain q where q: "calibration_residuals logs window is = Inr q"
    "case q of None \<Rightarrow> True | Some rs \<Rightarrow> length rs = length is \<and> list_all (\<lambda>x. 0 < x) rs"
    using Cons.IH by blast
  show ?case using q by (cases r) (auto simp: r Let_def less_max_iff_disj split: option.splits)
qed simp

lemma quantile_mem:
  assumes "rs \<noteq> []"
  shows "finite_sample_quantile rs c \<in> set rs"
proof -
  let ?k = "nat (min (int (length (sort rs))) (max 1 \<lceil>hmul (of_nat (length (sort rs) + 1)) c\<rceil>) - 1)"
  have "?k < length (sort rs)" using assms by (cases rs) auto
  then have "sort rs ! ?k \<in> set (sort rs)" by (rule nth_mem)
  then show ?thesis unfolding finite_sample_quantile_def Let_def by simp
qed

lemma coverage_unit:
  assumes "0 < n" "c \<le> n"
  shows "in_range 0 1 (hround (hdiv (of_nat c) (of_nat n)))"
proof -
  have "in_range 0 1 (of_nat c / of_nat n :: decimal)" using assms by (simp add: in_range_def divide_le_eq)
  then show ?thesis unfolding hdiv_def by (intro hround_unit)
qed

lemma covered_count_le: "covered_count rs c \<le> length rs - 20"
  unfolding covered_count_def by (rule order_trans [OF length_filter_le]) simp

theorem return_interval_returns:
  "\<exists>r. causal_return_interval ln_of closes window calibration level = Inr r \<and>
     (case r of None \<Rightarrow> True | Some i \<Rightarrow> interval_estimate_ok i \<and>
        ri_direction i = outlook_of (ri_lower_log_return i) (ri_upper_log_return i) \<and> ri_calibration_size i = int calibration)"
proof (cases "window < 5 \<or> calibration < 20 \<or> \<not> (50 / 100 < level \<and> level < 1) \<or> length closes < window + calibration \<or>
    list_ex (\<lambda>v. v \<le> 0) closes")
  case False
  let ?logs = "map ln_of closes"
  have span: "length [length closes - calibration..<length closes] = calibration" using False by auto
  obtain q where q: "calibration_residuals ?logs window [length closes - calibration..<length closes] = Inr q"
    "case q of None \<Rightarrow> True | Some rs \<Rightarrow> length rs = calibration \<and> list_all (\<lambda>x. 0 < x) rs"
    using calibration_residuals_returns [of ?logs window "[length closes - calibration..<length closes]", unfolded span] by blast
  obtain e where e: "causal_log_trend_from_logs ?logs window = Inr e" using trend_from_logs_returns by blast
  show ?thesis
  proof (cases "q = None \<or> calibration - 20 = 0 \<or> e = None")
    case True
    then show ?thesis using False q e
      by (cases q; cases e) (auto simp: causal_return_interval_def Let_def)
  next
    case more: False
    then obtain rs t where rs: "q = Some rs" "e = Some t" by auto
    have len: "length rs = calibration" "rs \<noteq> []" "20 < calibration" using q rs more by auto
    let ?w = "finite_sample_quantile rs level" and ?p = "predicted_return t"
    have w: "0 < ?w" using quantile_mem [OF len(2)] q(2) rs(1) by (auto simp: list_all_iff)
    have p: "hround ?p = ?p" "is_sig 49 ?p" by (simp_all add: predicted_return_def hadd_def sig.rnd_idem is_sig_round_sig)
    define i where "i = \<lparr>ri_horizon_bars = 1, ri_confidence_level = hround level,
      ri_predicted_log_return = hround ?p, ri_lower_log_return = hround (hsub ?p ?w),
      ri_upper_log_return = hround (hadd ?p ?w), ri_half_width = hround ?w,
      ri_calibration_size = int (length rs), ri_coverage_sample_size = int (length rs - 20),
      ri_empirical_coverage = hround (hdiv (of_nat (covered_count rs level)) (of_nat (length rs - 20))),
      ri_direction = outlook_of (hsub ?p ?w) (hadd ?p ?w)\<rparr>"
    have "causal_return_interval ln_of closes window calibration level = Inr (Some i)"
      using False q(1) e rs len by (simp add: causal_return_interval_def Let_def i_def)
    moreover have "in_range 0 1 (ri_empirical_coverage i)"
      unfolding i_def return_interval.simps
      by (rule coverage_unit) (use covered_count_le [of rs level] len in auto)
    then have "interval_fields_ok i"
      using hround_unit [of level] False w len by (simp add: interval_fields_ok_def i_def in_range_def [of 0 1 level] sig_signs)
    moreover have "ri_lower_log_return i \<le> ri_predicted_log_return i" "ri_predicted_log_return i \<le> ri_upper_log_return i"
      using w by (auto simp: i_def p hsub_def hadd_def sig.rnd_idem intro: sig.rnd_le_rep sig.rnd_ge_rep p(2))
    moreover have "ri_direction i = outlook_of (ri_lower_log_return i) (ri_upper_log_return i)"
      by (simp add: i_def hsub_def hadd_def sig.rnd_idem)
    ultimately show ?thesis using len by (simp add: interval_estimate_ok_def i_def)
  qed
qed (auto simp: causal_return_interval_def)

end
