(* ===== verification/Causal_State.thy ===== *)
theory Causal_State
  imports Causal_Trend
begin

text \<open>
  The robust constant-acceleration filter (\<^verbatim>\<open>app/indicators/causal_state.py\<close>) with the 50 digits of
  \<open>Causal_Trend\<close>, and the three estimators together as the analysis calls them.

  Lemmas: the filter raises at most where an innovation variance is zero, and what it returns
  satisfies the constraints of its model; so with these estimators the analysis of a timeframe
  fails for too few candles, an unknown bar or a decimal operation, never for a model
  constraint.
\<close>

section \<open>Matrices\<close>

type_synonym matrix = "decimal list list"

definition median :: "decimal list \<Rightarrow> decimal" where
  "median values =
     (let ordered = sort values; middle = length ordered div 2
      in if odd (length ordered) then ordered ! middle
         else hdiv (hadd (ordered ! (middle - 1)) (ordered ! middle)) 2)"

definition transposed :: "matrix \<Rightarrow> matrix" where
  "transposed m = map (\<lambda>column. map (\<lambda>row. row ! column) m) [0..<length (hd m)]"

definition multiply :: "matrix \<Rightarrow> matrix \<Rightarrow> matrix" where
  "multiply left right =
     map (\<lambda>row. map (\<lambda>column. hsum (map2 hmul row column)) (transposed right)) left"

definition add_matrix :: "matrix \<Rightarrow> matrix \<Rightarrow> matrix" where
  "add_matrix left right = map2 (map2 hadd) left right"

definition predict_covariance :: "matrix \<Rightarrow> matrix \<Rightarrow> matrix \<Rightarrow> matrix" where
  "predict_covariance covariance transition process_noise =
     add_matrix (multiply (multiply transition covariance) (transposed transition)) process_noise"

definition joseph_update :: "matrix \<Rightarrow> decimal list \<Rightarrow> decimal \<Rightarrow> matrix" where
  "joseph_update predicted gain observation_variance =
     (let identity_minus_kh = map (\<lambda>row. map (\<lambda>column.
            hsub (if row = column then 1 else 0) (if column = 0 then gain ! row else 0)) [0..<3]) [0..<3];
          product = multiply (multiply identity_minus_kh predicted) (transposed identity_minus_kh);
          entry = (\<lambda>row column. hadd (product ! row ! column)
            (hmul (hmul (gain ! row) observation_variance) (gain ! column)))
      in map (\<lambda>row. map (\<lambda>column.
           if row = column then max (entry row row) causal_epsilon
           else hdiv (hadd (entry (min row column) (max row column)) (entry (max row column) (min row column))) 2)
         [0..<3]) [0..<3])"

section \<open>The filter\<close>

definition huber_z :: decimal where "huber_z = 25 / 10"

definition credible_z :: decimal where "credible_z = 196 / 100"

record filter_state =
  fs_state :: "decimal list"
  fs_covariance :: matrix
  fs_innovations :: "decimal list"
  fs_shocks :: "decimal list"
  fs_outliers :: int

definition filter_transition :: matrix where
  "filter_transition = [[1, 1, 5 / 10], [0, 1, 1], [0, 0, 1]]"

definition process_noise_of :: "decimal \<Rightarrow> matrix" where
  "process_noise_of s = [[hdiv s 36, hdiv s 12, hdiv s 6], [hdiv s 12, hdiv s 4, hdiv s 2], [hdiv s 6, hdiv s 2, s]]"

definition robust_weight :: "decimal \<Rightarrow> decimal" where
  "robust_weight absolute_z = (if huber_z < absolute_z then hdiv huber_z absolute_z else 1)"

definition filter_step ::
  "decimal \<Rightarrow> matrix \<Rightarrow> filter_state \<Rightarrow> decimal \<Rightarrow> filter_state result" where
  "filter_step variance noise fs observation =
     (let x = fs_state fs;
          predicted_state = [hadd (hadd (x ! 0) (x ! 1)) (hdiv (x ! 2) 2), hadd (x ! 1) (x ! 2), x ! 2];
          predicted = predict_covariance (fs_covariance fs) filter_transition noise;
          innovation = hsub observation (predicted_state ! 0)
      in bind_result (hsqrt (max (hadd (predicted ! 0 ! 0) variance) causal_epsilon)) (\<lambda>nominal_std.
         let nominal_z = hdiv innovation nominal_std;
             absolute_z = habs nominal_z;
             w = robust_weight absolute_z;
             effective = hdiv variance (hmul w w);
             innovation_variance = hadd (predicted ! 0 ! 0) effective
         in bind_result (hdiv_checked (predicted ! 0 ! 0) innovation_variance) (\<lambda>g0.
            bind_result (hdiv_checked (predicted ! 1 ! 0) innovation_variance) (\<lambda>g1.
            bind_result (hdiv_checked (predicted ! 2 ! 0) innovation_variance) (\<lambda>g2.
            let gain = [g0, g1, g2]
            in Inr \<lparr>fs_state = map2 (\<lambda>p g. hadd p (hmul g innovation)) predicted_state gain,
                 fs_covariance = joseph_update predicted gain effective,
                 fs_innovations = fs_innovations fs @ [dclamp nominal_z (- 20) 20],
                 fs_shocks = fs_shocks fs @ [dclamp (hdiv (hsub absolute_z huber_z) 5) 0 1],
                 fs_outliers = fs_outliers fs + (if huber_z < absolute_z then 1 else 0)\<rparr>)))))"

fun filter_run :: "decimal \<Rightarrow> matrix \<Rightarrow> filter_state \<Rightarrow> decimal list \<Rightarrow> filter_state result" where
  "filter_run variance noise fs [] = Inr fs"
| "filter_run variance noise fs (x # xs) =
     bind_result (filter_step variance noise fs x) (\<lambda>fs. filter_run variance noise fs xs)"

definition shock_weights :: "decimal list" where
  "shock_weights = [625 / 10000, 625 / 10000, 125 / 1000, 25 / 100, 50 / 100]"

definition shock_score_of :: "decimal list \<Rightarrow> decimal" where
  "shock_score_of shocks =
     (let recent = last_n 5 shocks;
          active = last_n (length recent) shock_weights;
          weighted = (if recent = [] then 0 else hdiv (hsum (map2 hmul active recent)) (hsum active))
      in dclamp (max weighted (if recent = [] then 0 else last recent)) 0 1)"

definition return_scale :: "decimal list \<Rightarrow> decimal \<Rightarrow> decimal result" where
  "return_scale returns median_return =
     (let deviations = map (\<lambda>v. habs (hsub v median_return)) returns;
          mad_scale = hmul (median deviations) (14826 / 10000)
      in bind_result (hsqrt (hdiv (hsum (map (\<lambda>v. hsquare (hsub v median_return)) returns)) (of_nat (length returns))))
           (\<lambda>residual_rms.
             Inr (max (max (max mad_scale (hmul residual_rms (50 / 100))) (hmul (habs median_return) (2 / 100)))
               (1 / 10 ^ 10))))"

definition state_estimate :: "nat \<Rightarrow> filter_state \<Rightarrow> decimal \<Rightarrow> decimal \<Rightarrow> causal_state" where
  "state_estimate window fs velocity_std acceleration_std =
     (let velocity = fs_state fs ! 1;
          acceleration = fs_state fs ! 2;
          velocity_z = dclamp (hdiv velocity (max velocity_std causal_epsilon)) (- 20) 20;
          acceleration_z = dclamp (hdiv acceleration (max acceleration_std causal_epsilon)) (- 20) 20;
          innovation_z = (if fs_innovations fs = [] then 0 else last (fs_innovations fs));
          shock_score = shock_score_of (fs_shocks fs);
          significance = dclamp (hdiv (hsub (habs velocity_z) 1) 3) 0 1;
          confidence = dclamp (hmul significance (hsub 1 shock_score)) 0 1;
          lower_velocity = hsub velocity (hmul credible_z velocity_std);
          upper_velocity = hadd velocity (hmul credible_z velocity_std)
      in \<lparr>ce_window = int window, ce_log_velocity_per_bar = hround velocity, ce_log_acceleration_per_bar2 = hround acceleration,
          ce_velocity_std = hround velocity_std, ce_acceleration_std = hround acceleration_std,
          ce_velocity_z = hround velocity_z, ce_acceleration_z = hround acceleration_z,
          ce_innovation_z = hround innovation_z, ce_shock_score = hround shock_score, ce_confidence = hround confidence,
          ce_direction = (if 0 < lower_velocity then Rising else if upper_velocity < 0 then Falling else Flat),
          ce_outlier_count = fs_outliers fs\<rparr>)"

definition initial_filter :: "decimal \<Rightarrow> decimal \<Rightarrow> decimal \<Rightarrow> filter_state" where
  "initial_filter variance level velocity =
     \<lparr>fs_state = [level, velocity, 0],
      fs_covariance = [[hmul variance 4, 0, 0], [0, variance, 0], [0, 0, hdiv variance 4]],
      fs_innovations = [], fs_shocks = [], fs_outliers = 0\<rparr>"

definition causal_state_estimate :: "(decimal \<Rightarrow> decimal) \<Rightarrow> decimal list \<Rightarrow> nat \<Rightarrow> causal_state option result" where
  "causal_state_estimate ln_of closes window =
     (if window < 20 \<or> length closes < window then Inr None
      else if list_ex (\<lambda>v. v \<le> 0) (last_n window closes) then Inr None
      else
        let logs = map ln_of (last_n window closes);
            returns = log_returns logs;
            median_return = median returns
        in bind_result (return_scale returns median_return) (\<lambda>scale.
           let variance = hmul scale scale;
               noise = process_noise_of (hmul variance (2 / 100))
           in bind_result (filter_run variance noise (initial_filter variance (hd logs) median_return) (tl logs)) (\<lambda>fs.
              bind_result (hsqrt (fs_covariance fs ! 1 ! 1)) (\<lambda>velocity_std.
              bind_result (hsqrt (fs_covariance fs ! 2 ! 2)) (\<lambda>acceleration_std.
              Inr (Some (state_estimate window fs velocity_std acceleration_std)))))))"

section \<open>The estimators of the analysis\<close>

definition causal_estimators :: "(decimal \<Rightarrow> decimal) \<Rightarrow> estimators" where
  "causal_estimators ln_of =
     \<lparr>es_trend = (\<lambda>closes. causal_log_trend ln_of closes 21),
      es_state = (\<lambda>closes. causal_state_estimate ln_of closes 34),
      es_interval = (\<lambda>closes. causal_return_interval ln_of closes 21 60 (90 / 100))\<rparr>"

section \<open>The state satisfies its model\<close>

text \<open>The filter keeps its scores in range, its outlier count natural and the variances positive.\<close>

definition filter_ok :: "filter_state \<Rightarrow> bool" where
  "filter_ok fs \<longleftrightarrow>
     list_all (in_range (- 20) 20) (fs_innovations fs) \<and> 0 \<le> fs_outliers fs \<and>
     0 \<le> fs_covariance fs ! 1 ! 1 \<and> 0 \<le> fs_covariance fs ! 2 ! 2"

lemma causal_epsilon_pos: "0 < causal_epsilon"
  by (simp add: causal_epsilon_def)

lemma joseph_diagonal: "i < 3 \<Longrightarrow> causal_epsilon \<le> joseph_update p g v ! i ! i"
  by (simp add: joseph_update_def Let_def)

lemma filter_step_spec:
  assumes "filter_ok fs"
  shows "(\<exists>fs'. filter_step variance noise fs x = Inr fs' \<and> filter_ok fs') \<or>
    (\<exists>e. filter_step variance noise fs x = Inl e \<and> decimal_error e)"
proof -
  let ?p = "predict_covariance (fs_covariance fs) filter_transition noise"
  have "0 < max (hadd (?p ! 0 ! 0) variance) causal_epsilon" using causal_epsilon_pos by (simp add: less_max_iff_disj)
  then obtain sd where sd: "hsqrt (max (hadd (?p ! 0 ! 0) variance) causal_epsilon) = Inr sd"
    using sqrt_sig_pos by blast
  have diag: "0 \<le> joseph_update q g v ! 1 ! 1" "0 \<le> joseph_update q g v ! 2 ! 2" for q g v
    using joseph_diagonal [of 1 q g v] joseph_diagonal [of 2 q g v] causal_epsilon_pos by linarith+
  show ?thesis
    using assms diag
    by (auto simp: filter_step_def Let_def sd filter_ok_def hdiv_checked_def decimal_error_def)
qed

lemma filter_run_spec:
  assumes "filter_ok fs"
  shows "(\<exists>fs'. filter_run variance noise fs xs = Inr fs' \<and> filter_ok fs') \<or>
    (\<exists>e. filter_run variance noise fs xs = Inl e \<and> decimal_error e)"
  using assms
proof (induction xs arbitrary: fs)
  case (Cons x xs)
  from filter_step_spec [OF Cons.prems, of variance noise x] show ?case
  proof (elim disjE exE conjE)
    fix fs' assume "filter_step variance noise fs x = Inr fs'" "filter_ok fs'"
    then show ?thesis using Cons.IH [of fs'] by simp
  qed simp
qed simp

lemma shock_score_unit: "in_range 0 1 (shock_score_of shocks)"
  by (simp add: shock_score_of_def Let_def)

lemma hround_score: "in_range (- 20) 20 x \<Longrightarrow> in_range (- 20) 20 (hround x)"
proof -
  have "is_sig 49 (of_int n)" if "\<bar>n\<bar> \<le> 20" for n
    by (rule is_sigI [of _ n 0]) (use that in \<open>auto intro: order_trans\<close>)
  from sig.rnd_le_rep [OF this [of 20]] sig.rnd_ge_rep [OF this [of "- 20"]]
  show "in_range (- 20) 20 x \<Longrightarrow> in_range (- 20) 20 (hround x)" by (simp add: in_range_def)
qed

lemma state_estimate_ok:
  assumes "20 \<le> window" "filter_ok fs" "0 \<le> vs" "0 \<le> as"
  shows "state_fields_ok (state_estimate window fs vs as)"
proof -
  have "in_range (- 20) 20 (if fs_innovations fs = [] then 0 else last (fs_innovations fs))"
    using assms(2) by (auto simp: filter_ok_def list_all_iff in_range_def [of "- 20" 20 0])
  then show ?thesis
    using assms by (simp add: state_fields_ok_def state_estimate_def Let_def hround_score hround_unit shock_score_unit
        sig_signs filter_ok_def)
qed

lemma return_scale_returns: "\<exists>scale. return_scale returns m = Inr scale"
proof -
  have "0 \<le> hdiv (hsum (map (\<lambda>v. hsquare (hsub v m)) returns)) (of_nat (length returns))"
    unfolding hsum_def hdiv_def sig_signs
    by (intro divide_nonneg_nonneg foldl_hadd_nonneg) (auto simp: list_all_iff hsquare_def sig_signs)
  from sqrt_sig_Inr [OF this, of 49] show ?thesis by (auto simp: return_scale_def Let_def)
qed

theorem state_estimate_spec:
  "(\<exists>r. causal_state_estimate ln_of closes window = Inr r \<and> (case r of None \<Rightarrow> True | Some s \<Rightarrow> state_fields_ok s)) \<or>
   (\<exists>e. causal_state_estimate ln_of closes window = Inl e \<and> decimal_error e)"
proof (cases "window < 20 \<or> length closes < window \<or> list_ex (\<lambda>v. v \<le> 0) (last_n window closes)")
  case False
  let ?logs = "map ln_of (last_n window closes)"
  let ?r = "log_returns ?logs"
  obtain scale where scale: "return_scale ?r (median ?r) = Inr scale" using return_scale_returns by blast
  let ?v = "hmul scale scale"
  have "0 \<le> ?v" by (simp add: hmul_def sig_signs)
  then have "filter_ok (initial_filter ?v (hd ?logs) (median ?r))"
    by (simp add: filter_ok_def initial_filter_def hdiv_def sig_signs)
  from filter_run_spec [OF this, of ?v "process_noise_of (hmul ?v (2 / 100))" "tl ?logs"]
  consider fs where "filter_run ?v (process_noise_of (hmul ?v (2 / 100))) (initial_filter ?v (hd ?logs) (median ?r)) (tl ?logs) = Inr fs"
      "filter_ok fs"
    | e where "filter_run ?v (process_noise_of (hmul ?v (2 / 100))) (initial_filter ?v (hd ?logs) (median ?r)) (tl ?logs) = Inl e"
      "decimal_error e" by blast
  then show ?thesis
  proof cases
    case 1
    obtain vs as where "0 \<le> vs" "hsqrt (fs_covariance fs ! 1 ! 1) = Inr vs" "0 \<le> as" "hsqrt (fs_covariance fs ! 2 ! 2) = Inr as"
      using sqrt_sig_Inr 1(2) unfolding filter_ok_def by metis
    then show ?thesis using False 1 scale state_estimate_ok [of window fs vs as]
      by (simp add: causal_state_estimate_def Let_def)
  next
    case 2
    then show ?thesis using False scale by (simp add: causal_state_estimate_def Let_def)
  qed
qed (auto simp: causal_state_estimate_def)

section \<open>The analysis with these estimators\<close>

interpretation causal: sound_estimators "causal_estimators ln_of"
proof unfold_locales
  fix closes
  show "decimal_safe (es_trend (causal_estimators ln_of) closes)" "decimal_safe (es_interval (causal_estimators ln_of) closes)"
    using causal_log_trend_returns [of ln_of closes 21] return_interval_returns [of ln_of closes 21 60 "90 / 100"]
    by (auto simp: causal_estimators_def decimal_safe_def)
  show "decimal_safe (es_state (causal_estimators ln_of) closes)"
    using state_estimate_spec [of ln_of closes 34] by (auto simp: causal_estimators_def decimal_safe_def)
  show "es_trend (causal_estimators ln_of) closes = Inr (Some t) \<Longrightarrow> trend_fields_ok t" for t
    using causal_log_trend_returns [of ln_of closes 21] by (auto simp: causal_estimators_def)
  show "es_state (causal_estimators ln_of) closes = Inr (Some s) \<Longrightarrow> state_fields_ok s" for s
    using state_estimate_spec [of ln_of closes 34] by (auto simp: causal_estimators_def)
  show "es_interval (causal_estimators ln_of) closes = Inr (Some i) \<Longrightarrow> interval_estimate_ok i" for i
    using return_interval_returns [of ln_of closes 21 60 "90 / 100"] by (auto simp: causal_estimators_def)
qed

end
