(* ===== verification/Analysis_Example.thy ===== *)
theory Analysis_Example
  imports Causal_State Strategy_Service Example_Data
begin

text \<open>
  Concrete views of the four timeframes and a market snapshot, on which the witnesses of the
  properties of the analysis and of the strategies are evaluated.
\<close>

definition example_structure :: structure_snapshot where
  "example_structure = \<lparr>st_trend = BullishTrend, st_swing_structure = ''higher_highs_higher_lows'', st_bos = Some Up,
     st_choch = None, st_last_swing_high = Some 103, st_last_swing_low = Some 97, st_fair_value_gaps = [],
     st_order_blocks = [], st_support_levels = [98, 95], st_resistance_levels = [104, 108]\<rparr>"

definition example_trend :: causal_trend where
  "example_trend = \<lparr>ct_window = 20, ct_log_velocity_per_bar = 1 / 1000, ct_log_acceleration_per_bar2 = 0,
     ct_log_return_rms_per_bar = 1 / 1000, ct_velocity_to_volatility = 1, ct_acceleration_to_volatility = 0,
     ct_fit_r2 = 9 / 10, ct_residual_std = 1 / 10000, ct_confidence = 9 / 10, ct_direction = Rising\<rparr>"

definition example_indicators :: indicator_snapshot where
  "example_indicators = \<lparr>ix_ema20 = Some 100, ix_ema50 = Some 99, ix_ema200 = Some 96, ix_atr14 = Some (1 / 2),
     ix_atr_pct = Some (1 / 2), ix_rsi14 = Some 60, ix_macd = Some 1, ix_macd_signal = Some (1 / 2),
     ix_macd_histogram = Some (1 / 2), ix_adx14 = Some 30, ix_vwap = Some 100, ix_volume_ratio20 = Some (3 / 2),
     ix_causal_trend = Some example_trend, ix_causal_state = None, ix_return_interval = None\<rparr>"

definition example_view :: "string \<Rightarrow> timeframe_analysis" where
  "example_view tf = \<lparr>ta_timeframe = tf, ta_candle_count = 40, ta_last_closed_at = 0, ta_close = 100,
     ta_data_quality_ok = True, ta_data_quality_issues = [], ta_indicators = example_indicators,
     ta_structure = example_structure, ta_volatility = NormalVolatility, ta_directional_bias = LongBias,
     ta_evidence = [], ta_counter_evidence = []\<rparr>"

definition example_views :: views where
  "example_views = map (\<lambda>tf. (tf, example_view tf)) [''5m'', ''15m'', ''1H'', ''4H'']"

definition example_market :: market_snapshot where
  "example_market = \<lparr>ms_symbol = ''BTCUSDT'', ms_instrument_id = ''BTC-USDT-SWAP'',
     ms_ticker = \<lparr>tk_last = 100, tk_bid = 100, tk_ask = 100\<rparr>, ms_funding_rate = 0, ms_candles = [], ms_quality = []\<rparr>"

end
