(* ===== verification/Paper_Store.thy ===== *)
theory Paper_Store
  imports Paper_Broker "HOL-Library.Multiset"
begin

text \<open>
  The repository of the paper state, of the runs of the orchestrator and of its fingerprints
  (\<^verbatim>\<open>app/database/repositories/persistence.py\<close>) over the tables of
  \<^verbatim>\<open>app/database/models/persistence.py\<close>. A method that begins a transaction is a function on
  the tables that fails as a whole; the constraints of the tables are branches of it. The
  checksum is a hash of the durable part of the state, a parameter here. Rows of one table that
  share a timestamp are read in the order of the table; nothing depends on it.

  Lemmas: what is loaded after a save has the durable part that was saved; a saved run
  leaves at most the configured number of runs, the newest ones; fingerprints that are loaded
  have not expired.
\<close>

section \<open>The durable part of the state\<close>

text \<open>\<open>model_dump\<close> without the mark price and the unrealised result: runtime values.\<close>

record durable_position =
  dp_id :: uuid
  dp_order_id :: uuid
  dp_symbol :: string
  dp_side :: direction
  dp_status :: position_status
  dp_quantity :: decimal
  dp_entry_price :: decimal
  dp_stop_loss :: decimal
  dp_take_profit :: decimal
  dp_realized_pnl :: decimal
  dp_fees :: decimal
  dp_opened_at :: timestamp
  dp_closed_at :: "timestamp option"
  dp_close_reason :: "string option"

definition durable_position_of :: "position_view \<Rightarrow> durable_position" where
  "durable_position_of p =
     \<lparr>dp_id = pv_id p, dp_order_id = pv_order_id p, dp_symbol = pv_symbol p, dp_side = pv_side p,
      dp_status = pv_status p, dp_quantity = pv_quantity p, dp_entry_price = pv_entry_price p,
      dp_stop_loss = pv_stop_loss p, dp_take_profit = pv_take_profit p,
      dp_realized_pnl = pv_realized_pnl p, dp_fees = pv_fees p, dp_opened_at = pv_opened_at p,
      dp_closed_at = pv_closed_at p, dp_close_reason = pv_close_reason p\<rparr>"

record durable_state =
  du_starting_balance :: decimal
  du_cash_balance :: decimal
  du_orders :: "order_view list"
  du_positions :: "durable_position list"

text \<open>Identifiers have 32 hexadecimal digits, so their texts sort as the numbers do.\<close>

definition durable_state_payload :: "state_view \<Rightarrow> durable_state" where
  "durable_state_payload st =
     \<lparr>du_starting_balance = av_starting_balance (sv_account st),
      du_cash_balance = av_cash_balance (sv_account st),
      du_orders = sort_key ov_id (sv_orders st),
      du_positions = map durable_position_of (sort_key pv_id (sv_positions st))\<rparr>"

type_synonym digest = "durable_state \<Rightarrow> string"

definition state_checksum :: "digest \<Rightarrow> state_view \<Rightarrow> string" where
  "state_checksum digest st = digest (durable_state_payload st)"

section \<open>Runs of the orchestrator\<close>

datatype run_outcome =
  RunSubmitted | RunApprovedDryRun | RunNoTrade | RunRiskRejected | RunBlocked | RunDuplicate | RunError

datatype trigger = ManualRun | ScheduledRun

record run_symbol_result =
  os_symbol :: string
  os_instrument_id :: "string option"
  os_outcome :: run_outcome
  os_strategy_decision :: "string option"
  os_selected_strategy :: "string option"
  os_score :: "int option"
  os_candidate_entry :: "decimal option"
  os_reference_price :: "decimal option"
  os_risk_approved :: "bool option"
  os_risk_reason_codes :: "string list"
  os_approved_quantity :: "decimal option"
  os_order_id :: "uuid option"
  os_client_order_id :: "string option"
  os_detail :: string

record orchestrator_run =
  ou_run_id :: uuid
  ou_trigger :: trigger
  ou_execute :: bool
  ou_started_at :: timestamp
  ou_completed_at :: timestamp
  ou_results :: "run_symbol_result list"
  ou_account_after :: account_view

section \<open>Tables\<close>

record paper_account_row =
  pa_view :: account_view
  pa_revision :: int
  pa_state_checksum :: string
  pa_persisted_at :: timestamp

record paper_order_row =
  po_view :: order_view
  po_persisted_at :: timestamp

record paper_position_row =
  pp_view :: position_view
  pp_persisted_at :: timestamp

datatype audit_details =
    NoDetails
  | TickDetails string decimal "uuid list" "uuid list"
  | CloseDetails string decimal

record save_summary =
  sm_checksum :: string
  sm_orders :: nat
  sm_positions :: nat
  sm_cash_balance :: decimal
  sm_details :: audit_details

record audit_row =
  ad_actor :: string
  ad_action :: string
  ad_resource_id :: "string option"
  ad_after :: save_summary
  ad_occurred_at :: timestamp

record dashboard_audit =
  da_snapshot_id :: string
  da_contract_version :: string
  da_generated_at :: timestamp
  da_duration_ms :: int
  da_complete :: bool
  da_failed_sources :: "string list"
  da_timed_out_sources :: "string list"

datatype event_severity = InfoEvent | WarningEvent

datatype system_event =
    PaperStateEvent string save_summary
  | PaperRecoveredEvent string nat nat
  | DashboardEvent event_severity dashboard_audit

record recovery_checkpoint =
  rc_status :: string
  rc_state_checksum :: string
  rc_recovered_at :: "timestamp option"
  rc_persisted_at :: "timestamp option"

record paper_tables =
  pt_account :: "paper_account_row option"
  pt_orders :: "(uuid \<times> paper_order_row) list"
  pt_positions :: "(uuid \<times> paper_position_row) list"
  pt_runs :: "(uuid \<times> orchestrator_run) list"
  pt_fingerprints :: "(string \<times> timestamp) list"
  pt_checkpoint :: "recovery_checkpoint option"
  pt_audit :: "audit_row list"
  pt_events :: "system_event list"

definition empty_tables :: paper_tables where
  "empty_tables = \<lparr>pt_account = None, pt_orders = [], pt_positions = [], pt_runs = [], pt_fingerprints = [],
     pt_checkpoint = None, pt_audit = [], pt_events = []\<rparr>"

section \<open>Columns and constraints\<close>

abbreviation integrity_error :: exn where
  "integrity_error \<equiv> OtherException ''IntegrityError''"

definition text_column :: "nat \<Rightarrow> string \<Rightarrow> string result" where
  "text_column n s = (if length s \<le> n then Inr s else Inl (OtherException ''DataError''))"

definition store_account :: "account_view \<Rightarrow> account_view result" where
  "store_account a =
     bind_result (numeric_28_10 (av_starting_balance a)) (\<lambda>starting.
     bind_result (numeric_28_10 (av_cash_balance a)) (\<lambda>cash.
     bind_result (numeric_28_10 (av_equity a)) (\<lambda>equity.
     bind_result (numeric_28_10 (av_realized_pnl a)) (\<lambda>realized.
     bind_result (numeric_28_10 (av_unrealized_pnl a)) (\<lambda>unrealized.
     bind_result (numeric_28_10 (av_fees_paid a)) (\<lambda>fees.
     if starting \<le> 0 then Inl integrity_error
     else Inr (a\<lparr>av_starting_balance := starting, av_cash_balance := cash, av_equity := equity,
       av_realized_pnl := realized, av_unrealized_pnl := unrealized, av_fees_paid := fees\<rparr>)))))))"

definition store_order :: "order_view \<Rightarrow> order_view result" where
  "store_order v =
     bind_result (text_column 80 (ov_client_order_id v)) (\<lambda>client.
     bind_result (text_column 40 (ov_symbol v)) (\<lambda>symbol.
     bind_result (numeric_28_10 (ov_quantity v)) (\<lambda>quantity.
     bind_result (numeric_28_10 (ov_reference_price v)) (\<lambda>reference.
     bind_result (numeric_opt (ov_limit_price v)) (\<lambda>limit.
     bind_result (numeric_opt (ov_average_fill_price v)) (\<lambda>average.
     bind_result (numeric_28_10 (ov_stop_loss v)) (\<lambda>stop.
     bind_result (numeric_28_10 (ov_take_profit v)) (\<lambda>take.
     bind_result (numeric_28_10 (ov_fee v)) (\<lambda>fee.
     bind_result (text_column 100 (ov_strategy v)) (\<lambda>strategy.
     if quantity \<le> 0 \<or> reference \<le> 0 \<or> stop \<le> 0 \<or> take \<le> 0 \<or> fee < 0 then Inl integrity_error
     else Inr (v\<lparr>ov_quantity := quantity, ov_reference_price := reference, ov_limit_price := limit,
       ov_average_fill_price := average, ov_stop_loss := stop, ov_take_profit := take, ov_fee := fee\<rparr>)))))))))))"

definition store_position :: "position_view \<Rightarrow> position_view result" where
  "store_position p =
     bind_result (text_column 40 (pv_symbol p)) (\<lambda>symbol.
     bind_result (numeric_28_10 (pv_quantity p)) (\<lambda>quantity.
     bind_result (numeric_28_10 (pv_entry_price p)) (\<lambda>entry.
     bind_result (numeric_28_10 (pv_mark_price p)) (\<lambda>mark.
     bind_result (numeric_28_10 (pv_stop_loss p)) (\<lambda>stop.
     bind_result (numeric_28_10 (pv_take_profit p)) (\<lambda>take.
     bind_result (numeric_28_10 (pv_unrealized_pnl p)) (\<lambda>unrealized.
     bind_result (numeric_28_10 (pv_realized_pnl p)) (\<lambda>realized.
     bind_result (numeric_28_10 (pv_fees p)) (\<lambda>fees.
     bind_result (case pv_close_reason p of None \<Rightarrow> Inr [] | Some r \<Rightarrow> text_column 100 r) (\<lambda>reason.
     if quantity \<le> 0 \<or> entry \<le> 0 \<or> mark \<le> 0 \<or> stop \<le> 0 \<or> take \<le> 0 \<or> fees < 0 then Inl integrity_error
     else Inr (p\<lparr>pv_quantity := quantity, pv_entry_price := entry, pv_mark_price := mark, pv_stop_loss := stop,
       pv_take_profit := take, pv_unrealized_pnl := unrealized, pv_realized_pnl := realized, pv_fees := fees\<rparr>)))))))))))"

section \<open>Saving and loading the paper state\<close>

definition upsert_account :: "string \<Rightarrow> timestamp \<Rightarrow> account_view \<Rightarrow> paper_tables \<Rightarrow> paper_tables result" where
  "upsert_account checksum now a t =
     bind_result (store_account a) (\<lambda>view.
     Inr (t\<lparr>pt_account := Some \<lparr>pa_view = view,
       pa_revision = (case pt_account t of None \<Rightarrow> 1 | Some row \<Rightarrow> pa_revision row + 1),
       pa_state_checksum = checksum, pa_persisted_at = now\<rparr>\<rparr>))"

definition delete_positions :: "uuid list \<Rightarrow> paper_tables \<Rightarrow> paper_tables" where
  "delete_positions keep t = t\<lparr>pt_positions := filter (\<lambda>(i, _). i \<in> set keep) (pt_positions t)\<rparr>"

text \<open>An order that a remaining position refers to cannot be deleted (\<open>RESTRICT\<close>).\<close>

definition delete_orders :: "uuid list \<Rightarrow> paper_tables \<Rightarrow> paper_tables result" where
  "delete_orders keep t =
     (if list_ex (\<lambda>(_, row). pv_order_id (pp_view row) \<notin> set keep) (pt_positions t) then Inl integrity_error
      else Inr (t\<lparr>pt_orders := filter (\<lambda>(i, _). i \<in> set keep) (pt_orders t)\<rparr>))"

definition upsert_order :: "timestamp \<Rightarrow> order_view \<Rightarrow> paper_tables \<Rightarrow> paper_tables result" where
  "upsert_order now v t =
     bind_result (store_order v) (\<lambda>view.
     if list_ex (\<lambda>(i, row). i \<noteq> ov_id v \<and> ov_client_order_id (po_view row) = ov_client_order_id v) (pt_orders t)
       then Inl integrity_error
     else Inr (t\<lparr>pt_orders := dict_set (pt_orders t) (ov_id v) \<lparr>po_view = view, po_persisted_at = now\<rparr>\<rparr>))"

definition upsert_position :: "timestamp \<Rightarrow> position_view \<Rightarrow> paper_tables \<Rightarrow> paper_tables result" where
  "upsert_position now p t =
     bind_result (store_position p) (\<lambda>view.
     if map_of (pt_orders t) (pv_order_id p) = None then Inl integrity_error
     else if list_ex (\<lambda>(i, row). i \<noteq> pv_id p \<and> pv_order_id (pp_view row) = pv_order_id p) (pt_positions t)
       then Inl integrity_error
     else Inr (t\<lparr>pt_positions := dict_set (pt_positions t) (pv_id p) \<lparr>pp_view = view, pp_persisted_at = now\<rparr>\<rparr>))"

fun upsert_all :: "('a \<Rightarrow> paper_tables \<Rightarrow> paper_tables result) \<Rightarrow> 'a list \<Rightarrow> paper_tables \<Rightarrow> paper_tables result" where
  "upsert_all f [] t = Inr t"
| "upsert_all f (x # xs) t = bind_result (f x t) (upsert_all f xs)"

definition record_save ::
  "string \<Rightarrow> string option \<Rightarrow> string \<Rightarrow> save_summary \<Rightarrow> timestamp \<Rightarrow> paper_tables \<Rightarrow> paper_tables" where
  "record_save action resource_id actor summary now t =
     t\<lparr>pt_audit := pt_audit t @ [\<lparr>ad_actor = actor, ad_action = action, ad_resource_id = resource_id,
         ad_after = summary, ad_occurred_at = now\<rparr>],
       pt_events := pt_events t @ [PaperStateEvent action summary],
       pt_checkpoint := Some \<lparr>rc_status = ''persisted'', rc_state_checksum = sm_checksum summary,
         rc_recovered_at = (case pt_checkpoint t of None \<Rightarrow> None | Some c \<Rightarrow> rc_recovered_at c),
         rc_persisted_at = Some now\<rparr>\<rparr>"

definition save_paper_state ::
  "digest \<Rightarrow> string \<Rightarrow> string option \<Rightarrow> audit_details \<Rightarrow> state_view \<Rightarrow> timestamp \<Rightarrow> paper_tables \<Rightarrow>
   (string \<times> paper_tables) result" where
  "save_paper_state digest action resource_id details st now t =
     (let checksum = state_checksum digest st;
          summary = \<lparr>sm_checksum = checksum, sm_orders = length (sv_orders st), sm_positions = length (sv_positions st),
            sm_cash_balance = av_cash_balance (sv_account st), sm_details = details\<rparr>
      in bind_result (upsert_account checksum now (sv_account st) t) (\<lambda>t.
         bind_result (delete_orders (map ov_id (sv_orders st)) (delete_positions (map pv_id (sv_positions st)) t)) (\<lambda>t.
         bind_result (upsert_all (upsert_order now) (sv_orders st) t) (\<lambda>t.
         bind_result (upsert_all (upsert_position now) (sv_positions st) t) (\<lambda>t.
         Inr (checksum, record_save action resource_id ''ctcc-system'' summary now t))))))"

definition load_paper_state :: "paper_tables \<Rightarrow> state_view option" where
  "load_paper_state t =
     (case pt_account t of None \<Rightarrow> None
      | Some row \<Rightarrow> Some \<lparr>sv_account = pa_view row,
          sv_orders = sort_key ov_created_at (map (\<lambda>(_, row). po_view row) (pt_orders t)),
          sv_positions = sort_key pv_opened_at (map (\<lambda>(_, row). pp_view row) (pt_positions t))\<rparr>)"

definition mark_recovered :: "string \<Rightarrow> nat \<Rightarrow> nat \<Rightarrow> timestamp \<Rightarrow> paper_tables \<Rightarrow> paper_tables" where
  "mark_recovered checksum orders positions now t =
     t\<lparr>pt_checkpoint := Some \<lparr>rc_status = ''recovered'', rc_state_checksum = checksum, rc_recovered_at = Some now,
         rc_persisted_at = (case pt_checkpoint t of None \<Rightarrow> None | Some c \<Rightarrow> rc_persisted_at c)\<rparr>,
       pt_events := pt_events t @ [PaperRecoveredEvent checksum orders positions]\<rparr>"

section \<open>Runs, fingerprints and reports\<close>

text \<open>\<open>ORDER BY completed_at DESC LIMIT n\<close>.\<close>

definition newest_runs :: "nat \<Rightarrow> paper_tables \<Rightarrow> (uuid \<times> orchestrator_run) list" where
  "newest_runs n t = take n (sort_key (\<lambda>(_, run). - ou_completed_at run) (pt_runs t))"

definition save_orchestrator_run :: "orchestrator_run \<Rightarrow> nat \<Rightarrow> paper_tables \<Rightarrow> paper_tables" where
  "save_orchestrator_run run history_limit t =
     (let t = t\<lparr>pt_runs := dict_set (pt_runs t) (ou_run_id run) run\<rparr>;
          keep_ids = map fst (newest_runs history_limit t)
      in if keep_ids = [] then t
         else t\<lparr>pt_runs := filter (\<lambda>(i, _). i \<in> set keep_ids) (pt_runs t)\<rparr>)"

definition load_orchestrator_runs :: "nat \<Rightarrow> paper_tables \<Rightarrow> orchestrator_run list" where
  "load_orchestrator_runs limit t = rev (map snd (newest_runs limit t))"

definition clear_orchestrator_runs :: "paper_tables \<Rightarrow> paper_tables" where
  "clear_orchestrator_runs t = t\<lparr>pt_runs := []\<rparr>"

definition save_fingerprint :: "string \<Rightarrow> timestamp \<Rightarrow> paper_tables \<Rightarrow> paper_tables" where
  "save_fingerprint fingerprint expires_at t =
     t\<lparr>pt_fingerprints := dict_set (pt_fingerprints t) fingerprint expires_at\<rparr>"

definition delete_expired_fingerprints :: "timestamp \<Rightarrow> paper_tables \<Rightarrow> paper_tables" where
  "delete_expired_fingerprints now t =
     t\<lparr>pt_fingerprints := filter (\<lambda>(_, expires_at). \<not> expires_at \<le> now) (pt_fingerprints t)\<rparr>"

definition load_fingerprints :: "timestamp \<Rightarrow> paper_tables \<Rightarrow> (string \<times> timestamp) list \<times> paper_tables" where
  "load_fingerprints now t =
     (let t = delete_expired_fingerprints now t in (pt_fingerprints t, t))"

definition clear_fingerprints :: "paper_tables \<Rightarrow> paper_tables" where
  "clear_fingerprints t = t\<lparr>pt_fingerprints := []\<rparr>"

definition record_dashboard_snapshot_audit :: "dashboard_audit \<Rightarrow> paper_tables \<Rightarrow> paper_tables" where
  "record_dashboard_snapshot_audit a t =
     t\<lparr>pt_events := pt_events t @
       [DashboardEvent (if da_complete a then InfoEvent else WarningEvent)
         (a\<lparr>da_duration_ms := max 0 (da_duration_ms a), da_failed_sources := sorted_set (da_failed_sources a),
            da_timed_out_sources := sorted_set (da_timed_out_sources a)\<rparr>)]\<rparr>"

definition audit_entries :: "nat \<Rightarrow> paper_tables \<Rightarrow> audit_row list" where
  "audit_entries limit t = take limit (sort_key (\<lambda>row. - ad_occurred_at row) (pt_audit t))"

record table_counts =
  tn_orders :: nat
  tn_positions :: nat
  tn_history :: nat
  tn_fingerprints :: nat

definition table_counts_at :: "timestamp \<Rightarrow> paper_tables \<Rightarrow> table_counts" where
  "table_counts_at now t =
     \<lparr>tn_orders = length (pt_orders t), tn_positions = length (pt_positions t), tn_history = length (pt_runs t),
      tn_fingerprints = length (filter (\<lambda>(_, expires_at). now < expires_at) (pt_fingerprints t))\<rparr>"

section \<open>What is loaded after a save\<close>

lemma numeric_exact: "on_grid 8 x \<Longrightarrow> numeric_28_10 x = Inr y \<Longrightarrow> y = x"
proof -
  assume "on_grid 8 x" and y: "numeric_28_10 x = Inr y"
  then obtain n :: int where n: "x = of_int n / 10 ^ 8" by (auto simp: on_grid_def)
  have "\<bar>x\<bar> * 10 ^ 10 = of_int (\<bar>n\<bar> * 100)" by (simp add: n)
  then have "\<lfloor>\<bar>x\<bar> * 10 ^ 10 + 1 / 2\<rfloor> = \<bar>n\<bar> * 100" by linarith
  then show "y = x" using y n by (auto simp: numeric_28_10_def Let_def split: if_splits)
qed

definition opt_on_grid :: "decimal option \<Rightarrow> bool" where
  "opt_on_grid v = (case v of None \<Rightarrow> True | Some x \<Rightarrow> on_grid 8 x)"

lemma numeric_opt_exact: "opt_on_grid v \<Longrightarrow> numeric_opt v = Inr w \<Longrightarrow> w = v"
  by (auto simp: numeric_opt_def opt_on_grid_def result_simps dest: numeric_exact split: option.splits)

definition account_on_grid :: "account_view \<Rightarrow> bool" where
  "account_on_grid a \<longleftrightarrow> list_all (on_grid 8) [av_starting_balance a, av_cash_balance a, av_equity a,
     av_realized_pnl a, av_unrealized_pnl a, av_fees_paid a]"

definition order_on_grid :: "order_view \<Rightarrow> bool" where
  "order_on_grid v \<longleftrightarrow> list_all (on_grid 8) [ov_quantity v, ov_reference_price v, ov_stop_loss v, ov_take_profit v,
     ov_fee v] \<and> opt_on_grid (ov_limit_price v) \<and> opt_on_grid (ov_average_fill_price v)"

definition position_on_grid :: "position_view \<Rightarrow> bool" where
  "position_on_grid p \<longleftrightarrow> list_all (on_grid 8) [pv_quantity p, pv_entry_price p, pv_mark_price p, pv_stop_loss p,
     pv_take_profit p, pv_unrealized_pnl p, pv_realized_pnl p, pv_fees p]"

lemma store_exact:
  "account_on_grid a \<Longrightarrow> store_account a = Inr a' \<Longrightarrow> a' = a"
  "order_on_grid v \<Longrightarrow> store_order v = Inr v' \<Longrightarrow> v' = v"
  "position_on_grid p \<Longrightarrow> store_position p = Inr p' \<Longrightarrow> p' = p"
  by (auto simp: account_on_grid_def order_on_grid_def position_on_grid_def store_account_def store_order_def
      store_position_def result_simps dest!: numeric_exact numeric_opt_exact split: if_splits)

text \<open>A dictionary that is written for every element of a list, on keys of that list only.\<close>

lemma in_dict_set:
  "distinct (map fst d) \<Longrightarrow> set (dict_set d k v) = insert (k, v) {p \<in> set d. fst p \<noteq> k}"
  by (induction d k v rule: dict_set.induct) (auto split: if_splits)

lemma fold_dict_set:
  assumes "distinct (map fst d)" "distinct (map k xs)"
  shows "distinct (map fst (fold (\<lambda>x d. dict_set d (k x) (f x)) xs d)) \<and>
    set (fold (\<lambda>x d. dict_set d (k x) (f x)) xs d) = (\<lambda>x. (k x, f x)) ` set xs \<union> {p \<in> set d. fst p \<notin> k ` set xs}"
  using assms
proof (induction xs arbitrary: d)
  case (Cons x xs)
  let ?d = "dict_set d (k x) (f x)"
  have d: "distinct (map fst ?d)" using Cons.prems(1) by (rule distinct_dict_set)
  have "set ?d = insert (k x, f x) {p \<in> set d. fst p \<noteq> k x}" using Cons.prems(1) by (rule in_dict_set)
  moreover have "k x \<notin> k ` set xs" using Cons.prems(2) by simp
  ultimately show ?case using Cons.IH [OF d] Cons.prems(2) by auto
qed simp

lemma dict_rows:
  assumes "distinct (map fst d)" "set d = (\<lambda>x. (k x, f x)) ` set xs" "distinct (map k xs)" "\<And>x. x \<in> set xs \<Longrightarrow> g (f x) = x"
  shows "mset (map (\<lambda>(_, r). g r) d) = mset xs"
proof -
  have "distinct (map (\<lambda>x. (k x, f x)) xs)" using assms(3) by (auto simp: distinct_map inj_on_def)
  moreover have "distinct d" using assms(1) by (simp add: distinct_map)
  ultimately have "mset d = mset (map (\<lambda>x. (k x, f x)) xs)"
    using assms(2) by (subst set_eq_iff_mset_eq_distinct [symmetric]) auto
  then have "mset (map (\<lambda>(_, r). g r) d) = image_mset (\<lambda>(_, r). g r) (mset (map (\<lambda>x. (k x, f x)) xs))"
    by (metis mset_map)
  also have "\<dots> = image_mset (\<lambda>x. g (f x)) (mset xs)" by (simp add: image_mset.compositionality comp_def)
  also have "\<dots> = image_mset (\<lambda>x. x) (mset xs)" using assms(4) by (intro image_mset_cong) simp
  finally show ?thesis by simp
qed

definition tables_ok :: "paper_tables \<Rightarrow> bool" where
  "tables_ok t \<longleftrightarrow> distinct (map fst (pt_orders t)) \<and> distinct (map fst (pt_positions t))"

definition order_row :: "timestamp \<Rightarrow> order_view \<Rightarrow> paper_order_row" where
  "order_row now v = \<lparr>po_view = v, po_persisted_at = now\<rparr>"

definition position_row :: "timestamp \<Rightarrow> position_view \<Rightarrow> paper_position_row" where
  "position_row now p = \<lparr>pp_view = p, pp_persisted_at = now\<rparr>"

lemma upsert_orders_rows:
  assumes "upsert_all (upsert_order now) vs t = Inr t'" "list_all order_on_grid vs"
  shows "t' = t\<lparr>pt_orders := fold (\<lambda>v d. dict_set d (ov_id v) (order_row now v)) vs (pt_orders t)\<rparr>"
  using assms
proof (induction vs arbitrary: t)
  case (Cons v vs)
  then obtain u where u: "upsert_order now v t = Inr u" "upsert_all (upsert_order now) vs u = Inr t'"
    by (auto simp: result_simps)
  have "v' = v" if "store_order v = Inr v'" for v' using that store_exact(2) Cons.prems(2) by simp
  then have "u = t\<lparr>pt_orders := dict_set (pt_orders t) (ov_id v) (order_row now v)\<rparr>"
    using u(1) by (auto simp: upsert_order_def order_row_def result_simps split: if_splits)
  then show ?case using Cons.IH [OF u(2)] Cons.prems(2) by simp
qed simp

lemma upsert_positions_rows:
  assumes "upsert_all (upsert_position now) ps t = Inr t'" "list_all position_on_grid ps"
  shows "t' = t\<lparr>pt_positions := fold (\<lambda>p d. dict_set d (pv_id p) (position_row now p)) ps (pt_positions t)\<rparr>"
  using assms
proof (induction ps arbitrary: t)
  case (Cons p ps)
  then obtain u where u: "upsert_position now p t = Inr u" "upsert_all (upsert_position now) ps u = Inr t'"
    by (auto simp: result_simps)
  have "p' = p" if "store_position p = Inr p'" for p' using that store_exact(3) Cons.prems(2) by simp
  then have "u = t\<lparr>pt_positions := dict_set (pt_positions t) (pv_id p) (position_row now p)\<rparr>"
    using u(1) by (auto simp: upsert_position_def position_row_def result_simps split: if_splits)
  then show ?case using Cons.IH [OF u(2)] Cons.prems(2) by simp
qed simp

text \<open>A state whose values the columns store exactly and whose identifiers are unique.\<close>

definition storable :: "state_view \<Rightarrow> bool" where
  "storable st \<longleftrightarrow> account_on_grid (sv_account st) \<and> list_all order_on_grid (sv_orders st) \<and>
     list_all position_on_grid (sv_positions st) \<and> distinct (map ov_id (sv_orders st)) \<and>
     distinct (map pv_id (sv_positions st))"

definition same_state :: "state_view \<Rightarrow> state_view \<Rightarrow> bool" where
  "same_state st st' \<longleftrightarrow> sv_account st' = sv_account st \<and> mset (sv_orders st') = mset (sv_orders st) \<and>
     mset (sv_positions st') = mset (sv_positions st)"

lemma save_load:
  assumes "save_paper_state digest action rid details st now t = Inr (c, t')" "tables_ok t" "storable st"
  shows "c = state_checksum digest st \<and> tables_ok t' \<and> (\<exists>st'. load_paper_state t' = Some st' \<and> same_state st st')"
proof -
  let ?os = "fold (\<lambda>v d. dict_set d (ov_id v) (order_row now v)) (sv_orders st)
    (filter (\<lambda>(i, _). i \<in> set (map ov_id (sv_orders st))) (pt_orders t))"
  let ?ps = "fold (\<lambda>p d. dict_set d (pv_id p) (position_row now p)) (sv_positions st)
    (filter (\<lambda>(i, _). i \<in> set (map pv_id (sv_positions st))) (pt_positions t))"
  have account: "a = sv_account st" if "store_account (sv_account st) = Inr a" for a
    using that store_exact(1) assms(3) by (simp add: storable_def)
  have t': "c = state_checksum digest st" "pt_orders t' = ?os" "pt_positions t' = ?ps"
    "map_option pa_view (pt_account t') = Some (sv_account st)"
    using assms(1,3)
    by (auto simp: save_paper_state_def storable_def Let_def result_simps upsert_account_def delete_orders_def
        delete_positions_def record_save_def dest!: account upsert_orders_rows upsert_positions_rows
        split: if_splits)
  have d: "distinct (map fst (filter P d))" if "distinct (map fst d)" for P and d :: "(uuid \<times> 'r) list"
    using that by (rule distinct_map_filter)
  have os: "distinct (map fst ?os)" "set ?os = (\<lambda>v. (ov_id v, order_row now v)) ` set (sv_orders st)"
    using fold_dict_set [OF d, of "pt_orders t" ov_id "sv_orders st"] assms(2,3) by (auto simp: tables_ok_def storable_def)
  have ps: "distinct (map fst ?ps)" "set ?ps = (\<lambda>p. (pv_id p, position_row now p)) ` set (sv_positions st)"
    using fold_dict_set [OF d, of "pt_positions t" pv_id "sv_positions st"] assms(2,3)
    by (auto simp: tables_ok_def storable_def)
  have "mset (map (\<lambda>(_, r). po_view r) ?os) = mset (sv_orders st)"
    using assms(3) by (intro dict_rows [OF os]) (auto simp: storable_def order_row_def)
  moreover have "mset (map (\<lambda>(_, r). pp_view r) ?ps) = mset (sv_positions st)"
    using assms(3) by (intro dict_rows [OF ps]) (auto simp: storable_def position_row_def)
  ultimately show ?thesis
    using t' os(1) ps(1) by (auto simp: tables_ok_def load_paper_state_def same_state_def)
qed

lemma same_state_durable:
  assumes "same_state st st'" "storable st"
  shows "durable_state_payload st' = durable_state_payload st"
proof -
  have sort: "sort_key f xs = sort_key f ys" if "mset xs = mset ys" "distinct (map f ys)" for f :: "'b \<Rightarrow> uuid" and xs ys
  proof (rule sort_key_inj_key_eq)
    show "mset xs = mset (sort_key f ys)" using that(1) by simp
    show "inj_on f (set xs)" using that by (metis distinct_map mset_eq_setD)
  qed simp
  show ?thesis
    using assms sort [of "sv_orders st'" "sv_orders st" ov_id] sort [of "sv_positions st'" "sv_positions st" pv_id]
    by (simp add: durable_state_payload_def same_state_def storable_def)
qed

lemma same_state_storable:
  assumes "same_state st st'" "storable st"
  shows "storable st'"
proof -
  have ids: "distinct (map f xs) = distinct (map f ys)" if "mset xs = mset ys" for f :: "'b \<Rightarrow> uuid" and xs ys
    using that by (metis mset_eq_imp_distinct_iff mset_map)
  have m: "mset (sv_orders st') = mset (sv_orders st)" "mset (sv_positions st') = mset (sv_positions st)"
    using assms(1) by (simp_all add: same_state_def)
  show ?thesis
    using assms ids [OF m(1), of ov_id] ids [OF m(2), of pv_id] mset_eq_setD [OF m(1)] mset_eq_setD [OF m(2)]
    by (simp add: storable_def same_state_def list_all_iff)
qed

section \<open>Runs and fingerprints\<close>

lemma dict_set_not_Nil [simp]: "dict_set d k v \<noteq> []"
  by (induction d k v rule: dict_set.induct) simp_all

lemma saved_runs_bounded:
  assumes "distinct (map fst (pt_runs t))" "0 < n"
  shows "length (pt_runs (save_orchestrator_run run n t)) \<le> n"
proof -
  let ?d = "dict_set (pt_runs t) (ou_run_id run) run"
  let ?keep = "set (map fst (newest_runs n (t\<lparr>pt_runs := ?d\<rparr>)))"
  have d: "distinct (map fst ?d)" using assms(1) by (rule distinct_dict_set)
  have "length (filter (\<lambda>(i, _). i \<in> ?keep) ?d) = card (set (map fst (filter (\<lambda>(i, _). i \<in> ?keep) ?d)))"
    using distinct_card [OF distinct_map_filter [OF d, of "\<lambda>(i, _). i \<in> ?keep"]] by simp
  also have "\<dots> \<le> card ?keep" by (intro card_mono) (simp, force)
  also have "\<dots> \<le> n" using card_length [of "map fst (newest_runs n (t\<lparr>pt_runs := ?d\<rparr>))"] by (simp add: newest_runs_def)
  finally have "length (filter (\<lambda>(i, _). i \<in> ?keep) ?d) \<le> n" .
  moreover have "length (newest_runs n (t\<lparr>pt_runs := ?d\<rparr>)) \<noteq> 0" using assms(2) by (simp add: newest_runs_def)
  ultimately show ?thesis by (simp add: save_orchestrator_run_def Let_def)
qed

lemma loaded_fingerprints_live:
  "list_all (\<lambda>(_, expires_at). now < expires_at) (fst (load_fingerprints now t))"
  by (auto simp: load_fingerprints_def delete_expired_fingerprints_def list_all_iff)

end
