(* ===== verification/Paper_Execution.thy ===== *)
theory Paper_Execution
  imports Paper_Store
begin

text \<open>
  The paper execution service (\<^verbatim>\<open>app/paper/execution_service.py\<close>): the broker behind a lock, its
  state persisted after every mutation and restored when the persistence fails. The service object
  and the tables are the record \<open>paper_service\<close>. The environment \<open>paper_env\<close> has the settings,
  the clock, what each transaction of the database reports, whether the wait for the lock is
  cancelled, and the hash. The lock serialises the methods, so each runs to completion.

  Lemmas: memory and tables are in sync after every call, a failed persistence included,
  unless the broker itself failed in a decimal operation; and a restart recovers the
  durable state.
\<close>

section \<open>State and environment\<close>

record paper_service =
  ps_broker :: broker
  ps_tables :: paper_tables
  ps_initialized :: bool
  ps_recovered :: bool
  ps_last_recovered_at :: "timestamp option"
  ps_last_persisted_at :: "timestamp option"
  ps_last_mark_persist_at :: "timestamp option"
  ps_last_error :: "string option"
  ps_step :: nat

record paper_env =
  pe_enabled :: bool
  pe_persist_mark_interval_seconds :: int
  pe_clock :: "nat \<Rightarrow> timestamp"
  pe_db :: "nat \<Rightarrow> db_fault"
  pe_lock_cancelled :: "nat \<Rightarrow> bool"
  pe_digest :: digest
  pe_error_text :: "exn \<Rightarrow> string"

type_synonym 'a papers = "(paper_service, 'a) eff"

definition new_paper_service :: "broker \<Rightarrow> paper_tables \<Rightarrow> nat \<Rightarrow> paper_service" where
  "new_paper_service b t n =
     \<lparr>ps_broker = b, ps_tables = t, ps_initialized = False, ps_recovered = False, ps_last_recovered_at = None,
      ps_last_persisted_at = None, ps_last_mark_persist_at = None, ps_last_error = None, ps_step = n\<rparr>"

definition paper_now :: "paper_env \<Rightarrow> timestamp papers" where
  "paper_now E = bind_eff (gets ps_step) (\<lambda>n. seq_eff (modify (\<lambda>s. s\<lparr>ps_step := Suc n\<rparr>)) (ret (pe_clock E n)))"

definition paper_lock :: "paper_env \<Rightarrow> unit papers" where
  "paper_lock E = bind_eff (gets ps_step) (\<lambda>n.
     seq_eff (modify (\<lambda>s. s\<lparr>ps_step := Suc n\<rparr>)) (raise_when (pe_lock_cancelled E n) CancelledError))"

definition on_broker :: "'a paper \<Rightarrow> 'a papers" where
  "on_broker m = (\<lambda>s. case m (ps_broker s) of (r, b) \<Rightarrow> (r, s\<lparr>ps_broker := b\<rparr>))"

text \<open>A transaction: its function is applied and committed as a whole or not at all.\<close>

definition paper_txn :: "paper_env \<Rightarrow> (timestamp \<Rightarrow> paper_tables \<Rightarrow> ('a \<times> paper_tables) result) \<Rightarrow> 'a papers" where
  "paper_txn E f =
     bind_eff (gets ps_step) (\<lambda>n.
     seq_eff (modify (\<lambda>s. s\<lparr>ps_step := Suc n\<rparr>))
     (bind_eff (gets ps_tables) (\<lambda>t.
      case pe_db E n of
        FaultBefore e \<Rightarrow> raise e
      | NoFault \<Rightarrow> bind_eff (lift_result (f (pe_clock E n) t)) (\<lambda>(a, t'). seq_eff (modify (\<lambda>s. s\<lparr>ps_tables := t'\<rparr>)) (ret a))
      | FaultAfter e \<Rightarrow> bind_eff (lift_result (f (pe_clock E n) t)) (\<lambda>(a, t'). seq_eff (modify (\<lambda>s. s\<lparr>ps_tables := t'\<rparr>)) (raise e)))))"

definition load_tables :: "paper_env \<Rightarrow> state_view option papers" where
  "load_tables E = paper_txn E (\<lambda>_ t. Inr (load_paper_state t, t))"

section \<open>Methods\<close>

definition persist :: "paper_env \<Rightarrow> string \<Rightarrow> string option \<Rightarrow> audit_details \<Rightarrow> string papers" where
  "persist E action resource_id details =
     bind_eff (on_broker broker_state) (\<lambda>st.
     if \<not> pe_enabled E then ret (state_checksum (pe_digest E) st)
     else bind_eff (paper_txn E (save_paper_state (pe_digest E) action resource_id details st)) (\<lambda>checksum.
       bind_eff (paper_now E) (\<lambda>now.
       seq_eff (modify (\<lambda>s. s\<lparr>ps_last_persisted_at := Some now, ps_last_error := None\<rparr>)) (ret checksum))))"

definition roll_back :: "paper_env \<Rightarrow> state_view \<Rightarrow> string \<Rightarrow> exn \<Rightarrow> 'a papers" where
  "roll_back E before code e =
     seq_eff (on_broker (restore before))
     (seq_eff (modify (\<lambda>s. s\<lparr>ps_last_error := Some (pe_error_text E e)\<rparr>)) (raise (PaperPersistenceError code)))"

text \<open>The operation reads the clock itself where it needs it.\<close>

definition mutate :: "paper_env \<Rightarrow> string \<Rightarrow> (timestamp \<Rightarrow> 'a paper) \<Rightarrow> string option \<Rightarrow> audit_details \<Rightarrow> 'a papers" where
  "mutate E action operation resource_id details =
     seq_eff (paper_lock E)
     (bind_eff (on_broker broker_state) (\<lambda>before.
      bind_eff (paper_now E) (\<lambda>now.
      bind_eff (on_broker (operation now)) (\<lambda>result.
      if pe_enabled E
      then try_except (seq_eff (persist E action resource_id details) (ret result))
        (roll_back E before (action @ ''_persistence_failed''))
      else ret result))))"

definition paper_submit :: "paper_env \<Rightarrow> order_request \<Rightarrow> order_view papers" where
  "paper_submit E r = 
     mutate E ''paper_order_submitted'' (submit r) (rq_client_order_id r) NoDetails"

definition paper_cancel :: "paper_env \<Rightarrow> uuid \<Rightarrow> order_view papers" where
  "paper_cancel E i = mutate E ''paper_order_cancelled'' (\<lambda>_. cancel i) (Some (uuid_hex i)) NoDetails"

definition paper_close :: "paper_env \<Rightarrow> uuid \<Rightarrow> decimal \<Rightarrow> string \<Rightarrow> position_view papers" where
  "paper_close E i price reason = 
     mutate E ''paper_position_closed'' (close_position i price reason) (Some (uuid_hex i)) (CloseDetails reason price)"

definition paper_reset :: "paper_env \<Rightarrow> state_view papers" where
  "paper_reset E = mutate E ''paper_state_reset'' (\<lambda>_. reset) None NoDetails"

definition mark_interval_due :: "paper_env \<Rightarrow> timestamp \<Rightarrow> timestamp option \<Rightarrow> bool" where
  "mark_interval_due E now previous =
     (case previous of None \<Rightarrow> True | Some l \<Rightarrow> seconds (max 1 (pe_persist_mark_interval_seconds E)) \<le> now - l)"

definition paper_tick :: "paper_env \<Rightarrow> string \<Rightarrow> decimal \<Rightarrow> timestamp option \<Rightarrow> tick_result papers" where
  "paper_tick E symbol price timestamp =
     seq_eff (paper_lock E)
     (bind_eff (on_broker broker_state) (\<lambda>before.
      bind_eff (case timestamp of None \<Rightarrow> paper_now E | Some ts \<Rightarrow> ret ts) (\<lambda>ts.
      bind_eff (on_broker (tick symbol price ts)) (\<lambda>result.
      bind_eff (paper_now E) (\<lambda>now.
      bind_eff (gets ps_last_mark_persist_at) (\<lambda>previous.
      if pe_enabled E \<and> (tr_filled_order_ids result \<noteq> [] \<or> tr_closed_position_ids result \<noteq> [] \<or>
           0 < av_open_positions (tr_account result) \<and> mark_interval_due E now previous)
      then try_except
        (seq_eff (persist E ''paper_tick_applied'' None
            (TickDetails symbol price (tr_filled_order_ids result) (tr_closed_position_ids result)))
          (seq_eff (modify (\<lambda>s. s\<lparr>ps_last_mark_persist_at := Some now\<rparr>)) (ret result)))
        (roll_back E before ''paper_tick_persistence_failed'')
      else ret result))))))"

definition persist_now :: "paper_env \<Rightarrow> string \<Rightarrow> string option papers" where
  "persist_now E action =
     (if \<not> pe_enabled E then ret None
      else seq_eff (paper_lock E) (bind_eff (persist E action None NoDetails) (\<lambda>c. ret (Some c))))"

record paper_recovery_status =
  ry_persistence_enabled :: bool
  ry_initialized :: bool
  ry_recovered :: bool
  ry_consistent :: "bool option"
  ry_memory_checksum :: string
  ry_database_checksum :: "string option"
  ry_counts :: table_counts
  ry_last_recovered_at :: "timestamp option"
  ry_last_persisted_at :: "timestamp option"
  ry_last_error :: "string option"
  ry_cash_balance :: decimal
  ry_open_positions :: nat
  ry_pending_orders :: nat

definition note_error :: "paper_env \<Rightarrow> exn \<Rightarrow> unit papers" where
  "note_error E e = modify (\<lambda>s. s\<lparr>ps_last_error := Some (pe_error_text E e)\<rparr>)"

definition database_view :: "paper_env \<Rightarrow> (string option \<times> table_counts option) papers" where
  "database_view E =
     try_except
       (bind_eff (load_tables E) (\<lambda>loaded.
        bind_eff (try_except (bind_eff (paper_txn E (\<lambda>now t. Inr (table_counts_at now t, t))) (\<lambda>c. ret (Some c)))
            (\<lambda>e. seq_eff (note_error E e) (ret None))) (\<lambda>counts.
        ret (map_option (state_checksum (pe_digest E)) loaded, counts))))
       (\<lambda>e. seq_eff (note_error E e) (ret (None, None)))"

definition recovery_status :: "paper_env \<Rightarrow> paper_recovery_status papers" where
  "recovery_status E =
     bind_eff (on_broker broker_state) (\<lambda>memory.
     let memory_sum = state_checksum (pe_digest E) memory;
         defaults = \<lparr>tn_orders = length (sv_orders memory), tn_positions = length (sv_positions memory),
           tn_history = 0, tn_fingerprints = 0\<rparr>
     in bind_eff (if pe_enabled E then database_view E else ret (None, None)) (\<lambda>(database_sum, counts).
        gets (\<lambda>s. \<lparr>ry_persistence_enabled = pe_enabled E, ry_initialized = ps_initialized s,
          ry_recovered = ps_recovered s, ry_consistent = map_option (\<lambda>d. memory_sum = d) database_sum,
          ry_memory_checksum = memory_sum, ry_database_checksum = database_sum,
          ry_counts = (case counts of None \<Rightarrow> defaults | Some c \<Rightarrow> c),
          ry_last_recovered_at = ps_last_recovered_at s, ry_last_persisted_at = ps_last_persisted_at s,
          ry_last_error = ps_last_error s, ry_cash_balance = av_cash_balance (sv_account memory),
          ry_open_positions = av_open_positions (sv_account memory),
          ry_pending_orders = av_pending_orders (sv_account memory)\<rparr>)))"

definition recover_loaded :: "paper_env \<Rightarrow> state_view option \<Rightarrow> unit papers" where
  "recover_loaded E loaded =
     (case loaded of
        None \<Rightarrow> seq_eff (persist E ''paper_state_initialized'' None NoDetails)
          (modify (\<lambda>s. s\<lparr>ps_recovered := False\<rparr>))
      | Some st \<Rightarrow>
          seq_eff (on_broker (restore st))
          (bind_eff (paper_now E) (\<lambda>now.
           seq_eff (paper_txn E (\<lambda>stamp t. Inr ((), mark_recovered (state_checksum (pe_digest E) st)
               (length (sv_orders st)) (length (sv_positions st)) stamp t)))
           (modify (\<lambda>s. s\<lparr>ps_last_recovered_at := Some now, ps_recovered := True\<rparr>)))))"

definition paper_recover :: "paper_env \<Rightarrow> paper_recovery_status papers" where
  "paper_recover E =
     (if \<not> pe_enabled E
      then seq_eff (modify (\<lambda>s. s\<lparr>ps_initialized := True, ps_recovered := False\<rparr>)) (recovery_status E)
      else
        seq_eff (paper_lock E)
        (seq_eff
          (try_except
            (seq_eff (bind_eff (load_tables E) (recover_loaded E))
              (modify (\<lambda>s. s\<lparr>ps_initialized := True, ps_last_error := None\<rparr>)))
            (\<lambda>e. seq_eff (note_error E e) (raise (PaperPersistenceError ''paper_state_recovery_failed''))))
          (recovery_status E)))"

datatype recovery_action = Verify | RestoreFromDatabase | PersistMemory

definition paper_reconcile :: "paper_env \<Rightarrow> recovery_action \<Rightarrow> paper_recovery_status papers" where
  "paper_reconcile E action =
     (case action of
        Verify \<Rightarrow> recovery_status E
      | _ \<Rightarrow>
          seq_eff (raise_when (\<not> pe_enabled E) (PaperPersistenceError ''paper_persistence_disabled''))
          (seq_eff (paper_lock E)
          (seq_eff
            (case action of
               RestoreFromDatabase \<Rightarrow> bind_eff (load_tables E) (\<lambda>loaded.
                 case loaded of
                   None \<Rightarrow> raise (PaperPersistenceError ''persisted_paper_state_not_found'')
                 | Some st \<Rightarrow> seq_eff (on_broker (restore st)) (bind_eff (paper_now E) (\<lambda>now.
                     modify (\<lambda>s. s\<lparr>ps_last_recovered_at := Some now, ps_recovered := True\<rparr>))))
             | _ \<Rightarrow> seq_eff (persist E ''paper_state_manual_reconcile'' None NoDetails) (ret ()))
            (recovery_status E))))"

section \<open>Calls and restarts\<close>

datatype paper_call =
    PaperSubmit order_request
  | PaperCancel uuid
  | PaperTick string decimal "timestamp option"
  | PaperClose uuid decimal string
  | PaperReset
  | PaperPersistNow string
  | PaperReconcile recovery_action
  | PaperStatus

definition ignore :: "('s, 'a) eff \<Rightarrow> ('s, unit) eff" where
  "ignore m = seq_eff m (ret ())"

fun paper_call_eff :: "paper_env \<Rightarrow> paper_call \<Rightarrow> unit papers" where
  "paper_call_eff E (PaperSubmit r) = ignore (paper_submit E r)"
| "paper_call_eff E (PaperCancel i) = ignore (paper_cancel E i)"
| "paper_call_eff E (PaperTick symbol price ts) = ignore (paper_tick E symbol price ts)"
| "paper_call_eff E (PaperClose i price reason) = ignore (paper_close E i price reason)"
| "paper_call_eff E PaperReset = ignore (paper_reset E)"
| "paper_call_eff E (PaperPersistNow action) = ignore (persist_now E action)"
| "paper_call_eff E (PaperReconcile action) = ignore (paper_reconcile E action)"
| "paper_call_eff E PaperStatus = ignore (recovery_status E)"

text \<open>
  A restart: a new broker with the configured balance and rates on the old tables (new identifiers stay
  new), then the recovery that the startup awaits.
\<close>

definition fresh_broker :: "broker \<Rightarrow> broker \<Rightarrow> broker" where
  "fresh_broker configured old = configured\<lparr>pb_next_id := pb_next_id old\<rparr>"

definition paper_restart :: "paper_env \<Rightarrow> broker \<Rightarrow> unit papers" where
  "paper_restart E configured =
     seq_eff (modify (\<lambda>s. new_paper_service (fresh_broker configured (ps_broker s)) (ps_tables s) (ps_step s)))
     (ignore (paper_recover E))"

section \<open>Brokers that a snapshot restores\<close>

definition order_restorable :: "uuid \<Rightarrow> stored_order \<Rightarrow> bool" where
  "order_restorable i so \<longleftrightarrow> ov_id (so_view so) = i \<and> order_on_grid (so_view so) \<and>
     so_stop_loss so = ov_stop_loss (so_view so) \<and> so_take_profit so = ov_take_profit (so_view so) \<and>
     q8 (ov_stop_loss (so_view so)) = Inr (ov_stop_loss (so_view so)) \<and>
     q8 (ov_take_profit (so_view so)) = Inr (ov_take_profit (so_view so))"

definition position_restorable :: "uuid \<Rightarrow> position_view \<Rightarrow> bool" where
  "position_restorable i p \<longleftrightarrow> pv_id p = i \<and> position_on_grid p"

definition restorable :: "broker \<Rightarrow> bool" where
  "restorable b \<longleftrightarrow> on_grid 8 (pb_starting_balance b) \<and> on_grid 8 (pb_cash_balance b) \<and>
     distinct (map fst (pb_orders b)) \<and> distinct (map fst (pb_positions b)) \<and>
     list_all (\<lambda>(i, so). order_restorable i so) (pb_orders b) \<and>
     list_all (\<lambda>(i, p). position_restorable i p) (pb_positions b)"

lemma q8_idem: "q8 x = Inr y \<Longrightarrow> q8 y = Inr y"
  by (auto simp: quantize_down_Inr q_down.rnd_id q_down.rep_rnd)

lemma on_grid_dround:
  assumes "on_grid 8 x"
  shows "on_grid 8 (dround x)"
proof (cases "\<bar>x\<bar> \<le> 10 ^ 20")
  case True
  then show ?thesis using assms is_dec_on_grid by (simp add: dec.rnd_id)
next
  case False
  let ?e = "adjusted \<bar>x\<bar> - 27"
  have "(10 :: rat) powi 20 < \<bar>x\<bar>" using False by simp
  also have "\<bar>x\<bar> < 10 powi (adjusted \<bar>x\<bar> + 1)" using False adjusted_bounds [of "\<bar>x\<bar>"] by auto
  finally have "(10 :: rat) powi 20 < 10 powi (adjusted \<bar>x\<bar> + 1)" .
  then have "20 < adjusted \<bar>x\<bar> + 1" by (simp only: powi10_less)
  then have "0 \<le> ?e + 8" by simp
  then obtain n where n: "?e + 8 = int n" using zero_le_imp_eq_int by blast
  have "(10 :: rat) powi ?e = 10 powi (int n - 8)" using n by (simp add: algebra_simps)
  also have "\<dots> = 10 ^ n / 10 ^ 8" by (simp add: power_int_diff)
  finally have e: "(10 :: rat) powi ?e = of_int (10 ^ n) / 10 ^ 8" by simp
  have "dround x = of_int (\<lfloor>sgn x\<rfloor> * round_half_even (\<bar>x\<bar> * 10 powi (- ?e)) * 10 ^ n) / 10 ^ 8"
    using False e by (auto simp: dround_sig round_sig_def Let_def sgn_if)
  then show ?thesis unfolding on_grid_def by blast
qed

lemma grid_cash: "on_grid 8 a \<Longrightarrow> on_grid 8 b \<Longrightarrow> on_grid 8 (dadd a b) \<and> on_grid 8 (dsub a b)"
  by (simp add: dadd_def dsub_def on_grid_dround on_grid_add on_grid_diff)

lemma restorable_updates:
  "restorable b \<Longrightarrow> order_restorable i so \<Longrightarrow> restorable (b\<lparr>pb_orders := dict_set (pb_orders b) i so\<rparr>)"
  "restorable b \<Longrightarrow> position_restorable i p \<Longrightarrow> restorable (b\<lparr>pb_positions := dict_set (pb_positions b) i p\<rparr>)"
  "restorable b \<Longrightarrow> on_grid 8 c \<Longrightarrow> restorable (b\<lparr>pb_cash_balance := c\<rparr>)"
  "restorable (b\<lparr>pb_next_id := n\<rparr>) = restorable b"
  by (auto simp: restorable_def list_all_iff distinct_dict_set dest!: set_dict_set)

lemma restorable_lookup:
  "restorable b \<Longrightarrow> map_of (pb_orders b) i = Some so \<Longrightarrow> order_restorable i so"
  "restorable b \<Longrightarrow> map_of (pb_positions b) i = Some p \<Longrightarrow> position_restorable i p"
  by (auto simp: restorable_def list_all_iff dest: map_of_SomeD)

lemma restorable_after_fill:
  assumes "restorable b" "order_restorable key so" "on_grid 8 fp" "on_grid 8 fee"
  shows "restorable (after_fill b key so fp fee ts)"
proof -
  have "order_restorable key (filled_order so fp fee ts)"
    using assms(2-4) by (simp add: order_restorable_def filled_order_def order_on_grid_def opt_on_grid_def)
  moreover have "position_restorable n (opened_position n so fp fee ts)" for n
    using assms(2-4)
    by (simp add: position_restorable_def opened_position_def position_on_grid_def order_restorable_def
        order_on_grid_def on_grid_def [of 8 0])
  ultimately show ?thesis
    using assms(1,4) grid_cash [of "pb_cash_balance b" fee]
    unfolding after_fill_def restorable_def
    by (auto simp: list_all_iff distinct_dict_set dest!: set_dict_set)
qed

text \<open>The part of a broker that its snapshot holds.\<close>

definition same_views :: "broker \<Rightarrow> broker \<Rightarrow> bool" where
  "same_views b b' \<longleftrightarrow> pb_starting_balance b' = pb_starting_balance b \<and> pb_cash_balance b' = pb_cash_balance b \<and>
     pb_orders b' = pb_orders b \<and> pb_positions b' = pb_positions b"

text \<open>
  An operation of the broker keeps a restorable broker restorable, and when it raises it has
  changed nothing of the snapshot or it failed in a decimal operation.
\<close>

definition tame :: "'a paper \<Rightarrow> bool" where
  "tame m \<longleftrightarrow> (\<forall>b. restorable b \<longrightarrow>
     wp m (\<lambda>_. restorable) (\<lambda>e b'. restorable b' \<and> (same_views b b' \<or> e = DecimalInvalidOperation)) b)"

lemma tameD:
  "tame m \<Longrightarrow> restorable b \<Longrightarrow>
     wp m (\<lambda>_. restorable) (\<lambda>e b'. restorable b' \<and> (same_views b b' \<or> e = DecimalInvalidOperation)) b"
  by (simp add: tame_def)

lemma q8_errors: "q8 x = Inl e \<Longrightarrow> e = DecimalInvalidOperation"
  by (simp add: quantize_down_def split: if_splits)

lemma new_order_fields:
  assumes "new_order i r now = Inr v"
  shows "ov_id v = i" "ov_fee v = 0" "ov_average_fill_price v = None"
    "q8 (rq_quantity r) = Inr (ov_quantity v)" "q8 (rq_reference_price r) = Inr (ov_reference_price v)"
    "q8 (rq_stop_loss r) = Inr (ov_stop_loss v)" "q8 (rq_take_profit r) = Inr (ov_take_profit v)"
    "opt_on_grid (ov_limit_price v)"
  using assms unfolding new_order_def bind_result_eq_Inr opt_on_grid_def
  by (auto simp: bind_result_eq_Inr split: option.splits dest: q8_on_grid)

lemma new_order_restorable:
  assumes "new_order i r now = Inr v"
  shows "order_restorable i \<lparr>so_view = v, so_stop_loss = ov_stop_loss v, so_take_profit = ov_take_profit v\<rparr>"
proof -
  note f = new_order_fields [OF assms]
  have "order_on_grid v"
    using f(2,3,8) f(4-7) [THEN q8_on_grid] by (simp add: order_on_grid_def opt_on_grid_def on_grid_def [of 8 0])
  then show ?thesis using f(1) f(6,7) [THEN q8_idem] by (simp add: order_restorable_def)
qed

lemma new_order_errors: "new_order i r now = Inl e \<Longrightarrow> e = DecimalInvalidOperation"
  by (auto simp: new_order_def bind_result_eq_Inl dest: q8_errors split: option.splits)

lemma fill_grid:
  "fill_price_of b v price mk = Inr fp \<Longrightarrow> on_grid 8 fp" "entry_fee_of b v fp mk = Inr fee \<Longrightarrow> on_grid 8 fee"
  "fill_price_of b v price mk = Inl e \<Longrightarrow> e = DecimalInvalidOperation"
  "entry_fee_of b v fp mk = Inl e \<Longrightarrow> e = DecimalInvalidOperation"
  unfolding fill_price_of_def entry_fee_of_def by (erule q8_on_grid q8_errors)+

lemma fill_tame:
  assumes "restorable b" "order_restorable key so" "ov_status (so_view so) = Pending"
  shows "wp (fill key so price mk ts) (\<lambda>_. restorable) (\<lambda>e b'. restorable b' \<and> e = DecimalInvalidOperation) b"
  using assms fill_grid by (auto simp: wp_fill intro!: restorable_after_fill split: sum.split)

lemma submit_tame: "tame (submit r now)"
  unfolding tame_def
proof (intro allI impI)
  fix b
  assume b: "restorable b"
  let ?n = "pb_next_id b" and ?so = "\<lambda>v. \<lparr>so_view = v, so_stop_loss = ov_stop_loss v, so_take_profit = ov_take_profit v\<rparr>"
  let ?b = "\<lambda>v. b\<lparr>pb_next_id := Suc ?n, pb_orders := dict_set (pb_orders b) ?n (?so v)\<rparr>"
  let ?X = "\<lambda>e b'. restorable b' \<and> (same_views b b' \<or> e = DecimalInvalidOperation)"
  have placed: "restorable (?b v)" if "new_order ?n r now = Inr v" for v
    using restorable_updates(1) [of "b\<lparr>pb_next_id := Suc ?n\<rparr>"] b new_order_restorable [OF that]
    by (simp add: restorable_updates(4))
  have found: "map_of (pb_orders b') ?n \<noteq> None \<Longrightarrow> restorable b' \<Longrightarrow> wp (get_order ?n) (\<lambda>_. restorable) ?X b'" for b'
    by (auto simp: wp_simps split: option.split)
  have filled: "wp (fill ?n (?so v) (rq_reference_price r) False now) (\<lambda>_. wp (get_order ?n) (\<lambda>_. restorable) ?X) ?X (?b v)"
    if v: "new_order ?n r now = Inr v" for v
    using placed [OF v] new_order_restorable [OF v] new_order_Inr [OF v] fill_grid
    by (auto simp: wp_fill intro!: found restorable_after_fill split: sum.split) (simp add: pb_orders_after_fill)
  show "wp (submit r now) (\<lambda>_. restorable) ?X b"
    using b placed filled new_order_errors found
    by (auto simp: submit_def Let_def wp_simps restorable_updates(4) dict_simps simp del: wp_get_order
        split: sum.split intro!: found) (simp_all add: same_views_def)
qed

lemma cancel_tame: "tame (cancel i)"
  unfolding tame_def
  by (auto simp: cancel_def Let_def wp_simps same_views_def order_restorable_def order_on_grid_def
      split: option.split intro!: restorable_updates(1) dest: restorable_lookup(1))

lemma account_of_errors: "account_of b = Inl e \<Longrightarrow> e = DecimalInvalidOperation"
  by (auto simp: account_of_def Let_def bind_result_eq_Inl dest: q8_errors)

lemma wp_broker_state [wp_simps]:
  "wp broker_state Q X b = (case account_of b of
     Inl e \<Rightarrow> X e b
   | Inr a \<Rightarrow> Q \<lparr>sv_account = a, sv_orders = map (\<lambda>(_, so). so_view so) (pb_orders b),
       sv_positions = map snd (pb_positions b)\<rparr> b)"
  by (cases "account_of b") (simp_all add: broker_state_def wp_simps)

lemma reset_tame: "tame reset"
  unfolding tame_def
  by (auto simp: reset_def wp_simps restorable_def split: sum.split dest: account_of_errors)

lemma closed_restorable:
  assumes "position_restorable i p" "on_grid 8 exit_price" "on_grid 8 realized" "on_grid 8 fees"
  shows "position_restorable i (closed_position p exit_price realized fees reason ts)"
  using assms by (simp add: position_restorable_def position_on_grid_def closed_position_def on_grid_def [of 8 0])

lemma close_position_tame: "tame (close_position i price reason ts)"
  unfolding tame_def
proof (intro allI impI)
  fix b
  assume b: "restorable b"
  have cash: "restorable (b\<lparr>pb_cash_balance := dadd (pb_cash_balance b) (dsub gross fee)\<rparr>)"
    if "q8 x = Inr gross" "q8 y = Inr fee" for x y gross fee
    using that [THEN q8_on_grid] grid_cash b by (intro restorable_updates(3)) (auto simp: restorable_def)
  have "restorable (b\<lparr>pb_cash_balance := dadd (pb_cash_balance b) (dsub gross fee),
      pb_positions := dict_set (pb_positions b) i (closed_position p e r f reason ts)\<rparr>)"
    if "q8 x = Inr gross" "q8 y = Inr fee" "map_of (pb_positions b) i = Some p" "q8 x1 = Inr e" "q8 x2 = Inr r"
      "q8 x3 = Inr f" for x y gross fee p e r f x1 x2 x3
    using restorable_updates(2) [OF cash [OF that(1,2)] closed_restorable
        [OF restorable_lookup(2) [OF b that(3)] that(4-6) [THEN q8_on_grid]]] by simp
  then show "wp (close_position i price reason ts) (\<lambda>_. restorable)
      (\<lambda>e b'. restorable b' \<and> (same_views b b' \<or> e = DecimalInvalidOperation)) b"
    using b cash
    by (auto simp: close_position_def Let_def wp_simps gross_pnl_def same_views_def split: option.split sum.split
        dest: q8_errors)
qed

text \<open>A tick that fills and closes nothing changes the marks only.\<close>

definition durable_book :: "broker \<Rightarrow> decimal \<times> decimal \<times> (uuid \<times> stored_order) list \<times> (uuid \<times> durable_position) list" where
  "durable_book b = (pb_starting_balance b, pb_cash_balance b, pb_orders b,
     map (\<lambda>(i, p). (i, durable_position_of p)) (pb_positions b))"

lemma durable_book_mark:
  assumes "map_of (pb_positions b) i = Some p" "durable_position_of p' = durable_position_of p"
  shows "durable_book (b\<lparr>pb_positions := dict_set (pb_positions b) i p'\<rparr>) = durable_book b"
proof -
  have "map (\<lambda>(i, p). (i, durable_position_of p)) (dict_set d i p') = map (\<lambda>(i, p). (i, durable_position_of p)) d"
    if "map_of d i = Some p" for d
    using that assms(2) by (induction d i p' rule: dict_set.induct) (auto split: if_splits)
  then show ?thesis using assms(1) by (simp add: durable_book_def)
qed

lemma tick_orders_tame:
  assumes "restorable b" "set ids \<subseteq> fst ` set (pb_orders b)"
  shows "wp (tick_orders ids symbol price ts)
    (\<lambda>filled b'. restorable b' \<and> (filled = [] \<longrightarrow> b' = b))
    (\<lambda>e b'. restorable b' \<and> e = DecimalInvalidOperation) b"
  using assms
proof (induction ids arbitrary: b)
  case (Cons i ids)
  obtain so where so: "map_of (pb_orders b) i = Some so" using Cons.prems(2) by (cases "map_of (pb_orders b) i") (auto simp: map_of_eq_None_iff)
  note ok = restorable_lookup(1) [OF Cons.prems(1) so]
  show ?case
  proof (cases "should_fill (so_view so) symbol price")
    case None
    then show ?thesis using Cons.IH [OF Cons.prems(1)] Cons.prems(2) so by (simp add: wp_simps)
  next
    case (Some l)
    have keys: "fst ` set (pb_orders b) \<subseteq> fst ` set (pb_orders (after_fill b i so fp fee ts))" for fp fee
      by (simp add: after_fill_def dom_map_of_conv_image_fst [symmetric] dict_simps) auto
    have ids: "set ids \<subseteq> fst ` set (pb_orders (after_fill b i so fp fee ts))" for fp fee
      using keys Cons.prems(2) by (meson order_trans set_subset_Cons)
    have "wp (tick_orders ids symbol price ts) (\<lambda>_. restorable) (\<lambda>e b'. restorable b' \<and> e = DecimalInvalidOperation)
        (after_fill b i so fp fee ts)" if "on_grid 8 fp" "on_grid 8 fee" for fp fee
      by (rule wp_mono [OF Cons.IH [OF restorable_after_fill [OF Cons.prems(1) ok that] ids]]) simp_all
    then show ?thesis
      using Some so should_fill_Pending [OF Some] Cons.prems(1) fill_grid
      by (auto simp: wp_simps wp_fill split: sum.split intro: wp_mono)
  qed
qed (simp add: wp_simps)

lemma close_open_errors:
  assumes "map_of (pb_positions b) i = Some p" "pv_status p = Open"
  shows "wp (close_position i price reason ts) (\<lambda>_ _. True) (\<lambda>e _. e = DecimalInvalidOperation) b"
  using assms
  by (auto simp: close_position_def Let_def wp_simps gross_pnl_def split: sum.split dest: q8_errors)

text \<open>The snapshot of the positions that a tick walks agrees with the book up to the marks.\<close>

definition walks :: "(uuid \<times> position_view) list \<Rightarrow> broker \<Rightarrow> bool" where
  "walks ps b \<longleftrightarrow> distinct (map fst ps) \<and> list_all (\<lambda>(i, p). position_restorable i p \<and> map_of (pb_positions b) i = Some p) ps"

lemma walks_update:
  assumes "walks ps b" "i \<notin> fst ` set ps" "pb_positions b' = dict_set (pb_positions b) i r"
  shows "walks ps b'"
proof -
  have "map_of (pb_positions b') j = map_of (pb_positions b) j" if "(j, q) \<in> set ps" for j q
    using that assms(2,3) by (cases "j = i") (force simp: dict_simps)+
  then show ?thesis using assms(1) by (fastforce simp: walks_def list_all_iff)
qed

lemma tick_positions_tame:
  assumes "restorable b" "walks ps b"
  shows "wp (tick_positions ps symbol price ts)
    (\<lambda>closed b'. restorable b' \<and> (closed = [] \<longrightarrow> durable_book b' = durable_book b))
    (\<lambda>e b'. restorable b' \<and> e = DecimalInvalidOperation) b"
  using assms
proof (induction ps arbitrary: b)
  case (Cons ip ps)
  obtain i p where ip: "ip = (i, p)" by fastforce
  have p: "map_of (pb_positions b) i = Some p" "position_restorable i p" and rest: "walks ps b"
    using Cons.prems(2) by (simp_all add: ip walks_def)
  show ?case
  proof (cases "pv_symbol p \<noteq> symbol \<or> pv_status p \<noteq> Open")
    case True
    then show ?thesis using Cons.IH [OF Cons.prems(1) rest] by (simp add: ip)
  next
    case False
    have i: "i \<notin> fst ` set ps" using Cons.prems(2) by (simp add: ip walks_def)
    let ?p = "\<lambda>mark pnl. p\<lparr>pv_mark_price := mark, pv_unrealized_pnl := pnl\<rparr>"
    let ?b = "\<lambda>mark pnl. b\<lparr>pb_positions := dict_set (pb_positions b) i (?p mark pnl)\<rparr>"
    have marked: "restorable (?b mark pnl)" "walks ps (?b mark pnl)" "durable_book (?b mark pnl) = durable_book b"
      "map_of (pb_positions (?b mark pnl)) i = Some (?p mark pnl)"
      if "on_grid 8 mark" "on_grid 8 pnl" for mark pnl
    proof -
      show "restorable (?b mark pnl)"
        using Cons.prems(1) p(2) that by (intro restorable_updates(2)) (auto simp: position_restorable_def position_on_grid_def)
      show "walks ps (?b mark pnl)" by (rule walks_update [OF rest i]) simp
      show "durable_book (?b mark pnl) = durable_book b"
        by (rule durable_book_mark [OF p(1)]) (simp add: durable_position_of_def)
      show "map_of (pb_positions (?b mark pnl)) i = Some (?p mark pnl)" by (simp add: dict_simps)
    qed
    have still: "wp (tick_positions ps symbol price ts)
        (\<lambda>closed b'. restorable b' \<and> (closed = [] \<longrightarrow> durable_book b' = durable_book b))
        (\<lambda>e b'. restorable b' \<and> e = DecimalInvalidOperation) (?b mark pnl)"
      if "on_grid 8 mark" "on_grid 8 pnl" for mark pnl
      using Cons.IH [OF marked(1,2) [OF that]] marked(3) [OF that] by simp
    have closing: "wp (close_position i price reason ts)
        (\<lambda>_. wp (tick_positions ps symbol price ts) (\<lambda>_. restorable) (\<lambda>e b'. restorable b' \<and> e = DecimalInvalidOperation))
        (\<lambda>e b'. restorable b' \<and> e = DecimalInvalidOperation) (?b mark pnl)"
      if "on_grid 8 mark" "on_grid 8 pnl" for mark pnl reason
    proof -
      have "wp (close_position i price reason ts) (\<lambda>_ b'. walks ps b') (\<lambda>_ _. True) (?b mark pnl)"
      proof (rule wp_mono [OF close_position_spec])
        fix r :: position_view and b' :: broker
        assume "\<exists>q. map_of (pb_positions (?b mark pnl)) i = Some q \<and> pv_status q = Open \<and> pv_status r = Closed \<and>
          pv_id r = pv_id q \<and> pv_order_id r = pv_order_id q \<and> pb_orders b' = pb_orders (?b mark pnl) \<and>
          pb_next_id b' = pb_next_id (?b mark pnl) \<and> pb_positions b' = dict_set (pb_positions (?b mark pnl)) i r"
        then show "walks ps b'" using walks_update [OF marked(2) [OF that] i] by blast
      qed simp
      moreover have "pv_status (?p mark pnl) = Open" using False by simp
      ultimately have "wp (close_position i price reason ts) (\<lambda>_ b'. (restorable b' \<and> walks ps b') \<and> True)
          (\<lambda>e b'. ((restorable b' \<and> (same_views (?b mark pnl) b' \<or> e = DecimalInvalidOperation)) \<and> True) \<and>
             e = DecimalInvalidOperation) (?b mark pnl)"
        by (intro wp_conj tameD [OF close_position_tame marked(1) [OF that]] close_open_errors [OF marked(4) [OF that]])
      then show ?thesis by (elim wp_mono) (auto intro!: wp_mono [OF Cons.IH])
    qed
    show ?thesis
      using False Cons.prems(1) still closing q8_on_grid q8_errors
      by (auto simp: ip wp_simps gross_pnl_def split: sum.split option.split intro: wp_mono)
  qed
qed (simp add: wp_simps)

lemma tick_tame:
  assumes "restorable b"
  shows "wp (tick symbol price ts)
    (\<lambda>r b'. restorable b' \<and> account_of b' = Inr (tr_account r) \<and>
       (tr_filled_order_ids r = [] \<and> tr_closed_position_ids r = [] \<longrightarrow> durable_book b' = durable_book b))
    (\<lambda>e b'. restorable b' \<and> e = DecimalInvalidOperation) b"
proof -
  have walk: "walks (pb_positions b') b'" if "restorable b'" for b'
    using that by (auto simp: walks_def restorable_def list_all_iff)
  have "wp (tick_positions (pb_positions b') symbol price ts)
      (\<lambda>closed. wp (bind_eff (lift_result (q8 price)) (\<lambda>p. bind_eff account (\<lambda>a.
         ret \<lparr>tr_symbol = symbol, tr_price = p, tr_filled_order_ids = filled, tr_closed_position_ids = closed,
           tr_account = a\<rparr>)))
        (\<lambda>r b'. restorable b' \<and> account_of b' = Inr (tr_account r) \<and>
           (tr_filled_order_ids r = [] \<and> tr_closed_position_ids r = [] \<longrightarrow> durable_book b' = durable_book b))
        (\<lambda>e b'. restorable b' \<and> e = DecimalInvalidOperation))
      (\<lambda>e b'. restorable b' \<and> e = DecimalInvalidOperation) b'"
    if "restorable b'" "filled = [] \<longrightarrow> b' = b" for b' filled
    by (rule wp_mono [OF tick_positions_tame [OF that(1) walk [OF that(1)]]])
      (use that(2) q8_errors account_of_errors in \<open>auto simp: wp_simps split: sum.split\<close>)
  then show ?thesis
    unfolding tick_def
    by (auto simp: wp_bind wp_gets intro!: wp_mono [OF tick_orders_tame [OF assms]])
qed

section \<open>Snapshots\<close>

definition view_of :: "broker \<Rightarrow> state_view result" where
  "view_of b = bind_result (account_of b) (\<lambda>a.
     Inr \<lparr>sv_account = a, sv_orders = map (\<lambda>(_, so). so_view so) (pb_orders b), sv_positions = map snd (pb_positions b)\<rparr>)"

lemma broker_state_view: "broker_state b = (view_of b, b)"
  by (simp add: broker_state_def view_of_def account_def eff_defs split: sum.split)

lemma view_of_errors: "view_of b = Inl e \<Longrightarrow> e = DecimalInvalidOperation"
  by (auto simp: view_of_def bind_result_eq_Inl dest: account_of_errors)

lemma account_on_gridI: "account_of b = Inr a \<Longrightarrow> account_on_grid a"
  unfolding account_of_def account_on_grid_def Let_def bind_result_eq_Inr by (auto dest: q8_on_grid)

lemma view_storable:
  assumes "restorable b" "view_of b = Inr v"
  shows "storable v"
proof -
  have "map ov_id (map (\<lambda>(_, so). so_view so) (pb_orders b)) = map fst (pb_orders b)"
    "map pv_id (map snd (pb_positions b)) = map fst (pb_positions b)"
    using assms(1) by (auto simp: restorable_def list_all_iff order_restorable_def position_restorable_def)
  moreover have "list_all order_on_grid (map (\<lambda>(_, so). so_view so) (pb_orders b))"
    "list_all position_on_grid (map snd (pb_positions b))"
    using assms(1) by (fastforce simp: restorable_def list_all_iff order_restorable_def position_restorable_def)+
  ultimately show ?thesis
    using assms account_on_gridI by (auto simp: storable_def view_of_def bind_result_eq_Inr restorable_def simp del: map_map)
qed

lemma view_balances:
  assumes "restorable b" "view_of b = Inr v"
  shows "av_starting_balance (sv_account v) = pb_starting_balance b" "av_cash_balance (sv_account v) = pb_cash_balance b"
    "q8 (pb_starting_balance b) = Inr (pb_starting_balance b)" "q8 (pb_cash_balance b) = Inr (pb_cash_balance b)"
  using assms unfolding view_of_def account_of_def Let_def bind_result_eq_Inr restorable_def
  by (auto dest: q8_exact)

definition durable_of :: "broker \<Rightarrow> durable_state result" where
  "durable_of b = bind_result (view_of b) (\<lambda>v. Inr (durable_state_payload v))"

lemma map_sort_key: "map f (sort_key (\<lambda>x. g (f x)) xs) = sort_key g (map f xs)"
proof -
  have "map f (insort_key (\<lambda>x. g (f x)) x ys) = insort_key g (f x) (map f ys)" for x ys
    by (induction ys) auto
  then show ?thesis by (induction xs) auto
qed

lemma durable_positions_sorted: "map durable_position_of (sort_key pv_id ps) = sort_key dp_id (map durable_position_of ps)"
  using map_sort_key [of durable_position_of dp_id ps] by (simp add: durable_position_of_def)

lemma durable_book_durable:
  assumes "durable_book b' = durable_book b" "restorable b" "restorable b'" "view_of b = Inr v" "view_of b' = Inr v'"
  shows "durable_state_payload v' = durable_state_payload v"
proof -
  have ps: "map durable_position_of (sv_positions x) = map snd (map (\<lambda>(i, p). (i, durable_position_of p)) (pb_positions c))"
    if "view_of c = Inr x" for c x
    using that by (auto simp: view_of_def bind_result_eq_Inr)
  show ?thesis
    using assms(1) view_balances(1,2) [OF assms(2,4)] view_balances(1,2) [OF assms(3,5)] ps [OF assms(4)] ps [OF assms(5)]
      assms(4,5)
    by (auto simp: durable_state_payload_def durable_positions_sorted durable_book_def view_of_def bind_result_eq_Inr)
qed

section \<open>Restoring\<close>

lemma dict_of_distinct:
  assumes "distinct (map fst kvs)"
  shows "dict_of kvs = kvs"
proof -
  have "foldl (\<lambda>d (k, v). dict_set d k v) d kvs = d @ kvs" if "distinct (map fst (d @ kvs))" for d
    using that by (induction kvs arbitrary: d) (auto simp: dict_set_fresh)
  then show ?thesis using assms by (simp add: dict_of_def)
qed

definition orders_restorable :: "order_view list \<Rightarrow> bool" where
  "orders_restorable os \<longleftrightarrow> list_all (\<lambda>v. order_restorable (ov_id v)
     \<lparr>so_view = v, so_stop_loss = ov_stop_loss v, so_take_profit = ov_take_profit v\<rparr>) os"

definition stored_orders :: "order_view list \<Rightarrow> (uuid \<times> stored_order) list" where
  "stored_orders os = map (\<lambda>v. (ov_id v, \<lparr>so_view = v, so_stop_loss = ov_stop_loss v, so_take_profit = ov_take_profit v\<rparr>)) os"

lemma restored_orders_stored: "orders_restorable os \<Longrightarrow> restored_orders os = Inr (stored_orders os)"
  by (induction os) (simp_all add: orders_restorable_def stored_orders_def order_restorable_def)

definition restored :: "state_view \<Rightarrow> broker \<Rightarrow> broker" where
  "restored st b = b\<lparr>pb_starting_balance := av_starting_balance (sv_account st), pb_cash_balance := av_cash_balance (sv_account st),
     pb_orders := stored_orders (sv_orders st), pb_positions := map (\<lambda>p. (pv_id p, p)) (sv_positions st)\<rparr>"

lemma restored_restorable: "storable st \<Longrightarrow> orders_restorable (sv_orders st) \<Longrightarrow> restorable (restored st b)"
  by (auto simp: restorable_def restored_def storable_def account_on_grid_def orders_restorable_def stored_orders_def
      list_all_iff position_restorable_def comp_def)

lemma restore_balances:
  assumes "storable st" "q8 (av_starting_balance (sv_account st)) = Inr x" "q8 (av_cash_balance (sv_account st)) = Inr y"
  shows "x = av_starting_balance (sv_account st)" "y = av_cash_balance (sv_account st)"
  using assms q8_exact by (auto simp: storable_def account_on_grid_def)

text \<open>Restoring raises nothing but a decimal error, and then may have changed the balances only.\<close>

lemma wp_restore:
  assumes "storable st" "orders_restorable (sv_orders st)"
    and "\<And>v. view_of (restored st b) = Inr v \<Longrightarrow> Q v (restored st b)"
    and "\<And>b'. X DecimalInvalidOperation b'"
  shows "wp (restore st) Q X b"
proof -
  have keys: "dict_of (stored_orders (sv_orders st)) = stored_orders (sv_orders st)"
    "dict_of (map (\<lambda>p. (pv_id p, p)) (sv_positions st)) = map (\<lambda>p. (pv_id p, p)) (sv_positions st)"
    using assms(1) by (auto intro!: dict_of_distinct simp: stored_orders_def storable_def comp_def)
  have "wp broker_state Q X (restored st b)"
    using assms(3,4) by (auto simp: wp_def broker_state_view split: sum.split dest: view_of_errors)
  then show ?thesis
    using restore_balances [OF assms(1)] assms(4)
    by (auto simp: restore_def wp_simps restored_orders_stored [OF assms(2)] keys restored_def simp del: wp_broker_state
        split: sum.split dest!: q8_errors)
qed

lemma view_orders_restorable: "restorable b \<Longrightarrow> view_of b = Inr v \<Longrightarrow> orders_restorable (sv_orders v)"
  by (fastforce simp: orders_restorable_def view_of_def bind_result_eq_Inr restorable_def list_all_iff order_restorable_def)

lemma restored_view:
  assumes "restorable b" "view_of b = Inr v"
  shows "same_views b (restored v b')"
proof -
  have "stored_orders (map (\<lambda>(_, so). so_view so) (pb_orders b)) = pb_orders b"
    "map (\<lambda>p. (pv_id p, p)) (map snd (pb_positions b)) = pb_positions b"
    using assms(1)
    by (auto simp: stored_orders_def restorable_def list_all_iff order_restorable_def position_restorable_def intro!: map_idI)
  then show ?thesis
    using assms(2) view_balances(1,2) [OF assms]
    by (auto simp: same_views_def restored_def view_of_def bind_result_eq_Inr)
qed

lemma same_views_view: "same_views b b' \<Longrightarrow> view_of b' = view_of b \<and> restorable b' = restorable b"
  by (simp add: same_views_def view_of_def account_of_def restorable_def)

lemma same_views_refl [simp]: "same_views b b"
  by (simp add: same_views_def)

text \<open>Rolling back to a snapshot of the broker returns to it.\<close>

lemma roll_back_restores:
  assumes "restorable b" "view_of b = Inr v"
  shows "wp (restore v) (\<lambda>_. same_views b) (\<lambda>_ _. False) b'"
proof -
  have "view_of (restored v b') = Inr v" using restored_view [OF assms] same_views_view assms(2) by metis
  moreover have "wp broker_state (\<lambda>_. same_views b) (\<lambda>_ _. False) (restored v b')"
    using calculation restored_view [OF assms] by (simp add: wp_def broker_state_view)
  moreover have "storable v" "orders_restorable (sv_orders v)"
    using view_storable [OF assms] view_orders_restorable [OF assms] by simp_all
  moreover have "dict_of (stored_orders (sv_orders v)) = stored_orders (sv_orders v)"
    "dict_of (map (\<lambda>p. (pv_id p, p)) (sv_positions v)) = map (\<lambda>p. (pv_id p, p)) (sv_positions v)"
    using calculation(3) by (auto intro!: dict_of_distinct simp: stored_orders_def storable_def comp_def)
  ultimately show ?thesis
    using view_balances [OF assms]
    by (simp add: restore_def wp_simps restored_orders_stored restored_def del: wp_broker_state)
qed

section \<open>Memory and tables in sync\<close>

definition in_sync :: "paper_env \<Rightarrow> paper_service \<Rightarrow> bool" where
  "in_sync E s \<longleftrightarrow> restorable (ps_broker s) \<and> tables_ok (ps_tables s) \<and>
     (pe_enabled E \<longrightarrow> (\<exists>v st. view_of (ps_broker s) = Inr v \<and> load_paper_state (ps_tables s) = Some st \<and>
        storable st \<and> durable_state_payload st = durable_state_payload v))"

text \<open>Faults that the database reports before the commit; no transaction is cancelled.\<close>

definition clean_faults :: "paper_env \<Rightarrow> bool" where
  "clean_faults E \<longleftrightarrow>
     (\<forall>n. case pe_db E n of NoFault \<Rightarrow> True | FaultBefore e \<Rightarrow> e \<noteq> CancelledError | FaultAfter e \<Rightarrow> False)"

lemma in_sync_cong:
  "ps_tables t = ps_tables s \<Longrightarrow> same_views (ps_broker s) (ps_broker t) \<Longrightarrow> in_sync E t = in_sync E s"
  by (simp add: in_sync_def same_views_view)

lemma wp_on_broker:
  "wp (on_broker m) Q X s = wp m (\<lambda>a b. Q a (s\<lparr>ps_broker := b\<rparr>)) (\<lambda>e b. X e (s\<lparr>ps_broker := b\<rparr>)) (ps_broker s)"
  by (simp add: wp_def on_broker_def split: prod.split sum.split)

lemma wp_on_state:
  "wp (on_broker broker_state) Q X s = (case view_of (ps_broker s) of Inl e \<Rightarrow> X e s | Inr v \<Rightarrow> Q v s)"
  by (simp add: wp_def on_broker_def broker_state_view split: sum.split)

lemma wp_paper_now: "wp (paper_now E) Q X s = Q (pe_clock E (ps_step s)) (s\<lparr>ps_step := Suc (ps_step s)\<rparr>)"
  by (simp add: paper_now_def wp_simps)

lemma wp_paper_lock:
  "wp (paper_lock E) Q X s = (if pe_lock_cancelled E (ps_step s) then X CancelledError (s\<lparr>ps_step := Suc (ps_step s)\<rparr>)
     else Q () (s\<lparr>ps_step := Suc (ps_step s)\<rparr>))"
  by (simp add: paper_lock_def wp_simps)

lemma wp_paper_txn:
  assumes "clean_faults E"
    and "\<And>a t'. f (pe_clock E (ps_step s)) (ps_tables s) = Inr (a, t') \<Longrightarrow> Q a (s\<lparr>ps_step := Suc (ps_step s), ps_tables := t'\<rparr>)"
    and "\<And>e. e \<noteq> CancelledError \<or> f (pe_clock E (ps_step s)) (ps_tables s) = Inl e \<Longrightarrow> X e (s\<lparr>ps_step := Suc (ps_step s)\<rparr>)"
  shows "wp (paper_txn E f) Q X s"
proof -
  have "case pe_db E (ps_step s) of NoFault \<Rightarrow> True | FaultBefore e \<Rightarrow> e \<noteq> CancelledError | FaultAfter e \<Rightarrow> False"
    using assms(1) by (simp add: clean_faults_def)
  then show ?thesis
    using assms(2,3)
    by (cases "pe_db E (ps_step s)"; cases "f (pe_clock E (ps_step s)) (ps_tables s)")
      (auto simp: paper_txn_def wp_simps split: prod.split)
qed

lemma store_errors:
  "numeric_28_10 x = Inl e \<Longrightarrow> e \<noteq> CancelledError" "numeric_opt v = Inl e \<Longrightarrow> e \<noteq> CancelledError"
  "text_column n c = Inl e \<Longrightarrow> e \<noteq> CancelledError"
  by (auto simp: numeric_28_10_def numeric_opt_def text_column_def Let_def bind_result_eq_Inl split: if_splits option.splits)

lemma row_errors:
  "store_account a = Inl e \<Longrightarrow> e \<noteq> CancelledError" "store_order v = Inl e \<Longrightarrow> e \<noteq> CancelledError"
  "store_position p = Inl e \<Longrightarrow> e \<noteq> CancelledError"
  unfolding store_account_def store_order_def store_position_def bind_result_eq_Inl
  by (auto dest: store_errors split: if_splits option.splits)

lemma upsert_errors:
  "(\<And>x t e. f x t = Inl e \<Longrightarrow> e \<noteq> CancelledError) \<Longrightarrow> upsert_all f xs t = Inl e \<Longrightarrow> e \<noteq> CancelledError"
  by (induction xs arbitrary: t) (auto simp: bind_result_eq_Inl)

lemma save_errors: "save_paper_state digest action rid details st now t = Inl e \<Longrightarrow> e \<noteq> CancelledError"
  unfolding save_paper_state_def Let_def bind_result_eq_Inl upsert_account_def delete_orders_def
  by (auto simp: bind_result_eq_Inl upsert_order_def upsert_position_def split: if_splits
      dest: row_errors dest!: upsert_errors [rotated])

lemma save_in_sync:
  assumes "save_paper_state digest action rid details v now (ps_tables s) = Inr (c, t')" "tables_ok (ps_tables s)"
    and "restorable (ps_broker s)" "view_of (ps_broker s) = Inr v" "ps_broker t = ps_broker s" "ps_tables t = t'"
  shows "in_sync E t"
proof -
  note v = view_storable [OF assms(3,4)]
  obtain st where st: "tables_ok t'" "load_paper_state t' = Some st" "same_state v st"
    using save_load [OF assms(1,2) v] by blast
  then show ?thesis
    using assms(3-6) same_state_durable [OF st(3) v] same_state_storable [OF st(3) v] by (auto simp: in_sync_def)
qed

lemma wp_persist:
  assumes "clean_faults E" "pe_enabled E" "restorable (ps_broker s)" "tables_ok (ps_tables s)"
    and "\<And>c t. in_sync E t \<Longrightarrow> ps_broker t = ps_broker s \<Longrightarrow> Q c t"
    and "\<And>e t. e \<noteq> CancelledError \<Longrightarrow> ps_broker t = ps_broker s \<Longrightarrow> ps_tables t = ps_tables s \<Longrightarrow> X e t"
  shows "wp (persist E action rid details) Q X s"
proof (cases "view_of (ps_broker s)")
  case (Inl e)
  then show ?thesis using assms(6) [of e s] view_of_errors [OF Inl] by (simp add: persist_def wp_bind wp_on_state)
next
  case (Inr v)
  have "wp (paper_txn E (save_paper_state (pe_digest E) action rid details v))
      (\<lambda>c. wp (bind_eff (paper_now E) (\<lambda>now. seq_eff (modify (\<lambda>s. s\<lparr>ps_last_persisted_at := Some now, ps_last_error := None\<rparr>))
         (ret c))) Q X) X s"
  proof (rule wp_paper_txn [OF assms(1)])
    fix c t'
    assume "save_paper_state (pe_digest E) action rid details v (pe_clock E (ps_step s)) (ps_tables s) = Inr (c, t')"
    note saved = save_in_sync [OF this assms(4,3) Inr]
    show "wp (bind_eff (paper_now E) (\<lambda>now. seq_eff (modify (\<lambda>s. s\<lparr>ps_last_persisted_at := Some now, ps_last_error := None\<rparr>))
        (ret c))) Q X (s\<lparr>ps_step := Suc (ps_step s), ps_tables := t'\<rparr>)"
      by (simp add: wp_simps wp_paper_now) (rule assms(5) [OF saved]; simp)
  qed (auto intro!: assms(6) dest: save_errors)
  then show ?thesis using Inr assms(2) by (simp add: persist_def wp_bind wp_on_state)
qed

text \<open>The postcondition of every method: in sync, or the broker failed in a decimal operation.\<close>

definition sync_or_decimal :: "paper_env \<Rightarrow> exn \<Rightarrow> paper_service \<Rightarrow> bool" where
  "sync_or_decimal E e t \<longleftrightarrow> in_sync E t \<or> e = DecimalInvalidOperation"

definition keeps_sync :: "paper_env \<Rightarrow> 'a papers \<Rightarrow> bool" where
  "keeps_sync E m \<longleftrightarrow> (\<forall>s. in_sync E s \<longrightarrow> wp m (\<lambda>_. in_sync E) (sync_or_decimal E) s)"

lemma roll_back_sync:
  assumes "in_sync E s" "ps_tables t = ps_tables s" "view_of (ps_broker s) = Inr v"
  shows "wp (roll_back E v code e) (\<lambda>_. in_sync E) (sync_or_decimal E) t"
  unfolding roll_back_def wp_seq wp_on_broker wp_raise
proof (rule wp_mono [OF roll_back_restores [OF _ assms(3)]])
  show "restorable (ps_broker s)" using assms(1) by (simp add: in_sync_def)
  fix b'
  assume "same_views (ps_broker s) b'"
  then have "in_sync E (t\<lparr>ps_broker := b', ps_last_error := Some (pe_error_text E e)\<rparr>)"
    using in_sync_cong [of "t\<lparr>ps_broker := b', ps_last_error := Some (pe_error_text E e)\<rparr>" s E] assms(1,2) by simp
  then show "wp (modify (\<lambda>s. s\<lparr>ps_last_error := Some (pe_error_text E e)\<rparr>))
      (\<lambda>_. sync_or_decimal E (PaperPersistenceError code)) (sync_or_decimal E) (t\<lparr>ps_broker := b'\<rparr>)"
    by (simp add: wp_modify sync_or_decimal_def)
qed simp

lemma persist_or_roll_back:
  assumes "clean_faults E" "pe_enabled E" "in_sync E s" "view_of (ps_broker s) = Inr v"
    and "restorable (ps_broker t)" "ps_tables t = ps_tables s"
    and "\<And>u. in_sync E u \<Longrightarrow> wp k (\<lambda>_. in_sync E) (\<lambda>_ _. False) u"
  shows "wp (try_except (seq_eff (persist E action rid details) k) (roll_back E v code)) (\<lambda>_. in_sync E) (sync_or_decimal E) t"
  unfolding wp_try_except wp_seq
proof (rule wp_persist [OF assms(1,2,5)])
  show "tables_ok (ps_tables t)" using assms(3,6) by (simp add: in_sync_def)
next
  fix c :: string and u :: paper_service
  assume "in_sync E u"
  then show "wp k (\<lambda>_. in_sync E) (\<lambda>e t. if e = CancelledError then sync_or_decimal E e t
      else wp (roll_back E v code e) (\<lambda>_. in_sync E) (sync_or_decimal E) t) u"
    by (rule wp_mono [OF assms(7)]) simp_all
next
  fix e :: exn and u :: paper_service
  assume "e \<noteq> CancelledError" "ps_tables u = ps_tables t"
  then show "if e = CancelledError then sync_or_decimal E e u
      else wp (roll_back E v code e) (\<lambda>_. in_sync E) (sync_or_decimal E) u"
    using roll_back_sync [OF assms(3) _ assms(4)] assms(6) by simp
qed

lemma mutate_sync:
  assumes "clean_faults E" "\<And>now. tame (operation now)"
  shows "keeps_sync E (mutate E action operation rid details)"
  unfolding keeps_sync_def
proof (intro allI impI)
  fix s
  assume s: "in_sync E s"
  have after: "wp (if pe_enabled E
        then try_except (seq_eff (persist E action rid details) (ret r)) (roll_back E v code) else ret r)
      (\<lambda>_. in_sync E) (sync_or_decimal E) (t\<lparr>ps_broker := b\<rparr>)"
    if "restorable b" "ps_tables t = ps_tables s" "view_of (ps_broker s) = Inr v" for r v code t b
  proof (cases "pe_enabled E")
    case True
    show ?thesis
      unfolding if_P [OF True]
      by (rule persist_or_roll_back [OF assms(1) True s that(3)]) (use that in \<open>simp_all add: wp_ret\<close>)
  next
    case False
    then show ?thesis using s that by (simp add: wp_ret in_sync_def)
  qed
  have step: "wp (on_broker (operation now))
      (\<lambda>r. wp (if pe_enabled E
        then try_except (seq_eff (persist E action rid details) (ret r)) (roll_back E v code)
        else ret r) (\<lambda>_. in_sync E) (sync_or_decimal E)) (sync_or_decimal E) t"
    if t: "ps_broker t = ps_broker s" "ps_tables t = ps_tables s" and v: "view_of (ps_broker s) = Inr v" for now v code t
    unfolding wp_on_broker
  proof (rule wp_mono [OF tameD [OF assms(2)]])
    show "restorable (ps_broker t)" using s t(1) by (simp add: in_sync_def)
  next
    fix e b'
    assume "restorable b' \<and> (same_views (ps_broker t) b' \<or> e = DecimalInvalidOperation)"
    then show "sync_or_decimal E e (t\<lparr>ps_broker := b'\<rparr>)"
      using in_sync_cong [of "t\<lparr>ps_broker := b'\<rparr>" s E] s t by (auto simp: sync_or_decimal_def)
  qed (rule after [OF _ t(2) v])
  have "in_sync E (s\<lparr>ps_step := n\<rparr>)" for n using s by (simp add: in_sync_def)
  then show "wp (mutate E action operation rid details) (\<lambda>_. in_sync E) (sync_or_decimal E) s"
    unfolding mutate_def wp_seq wp_bind wp_paper_lock wp_on_state wp_paper_now
    by (auto simp: sync_or_decimal_def [of E CancelledError] sync_or_decimal_def [of E DecimalInvalidOperation]
        split: sum.split dest: view_of_errors intro!: step)
qed

lemma tick_sync:
  assumes "clean_faults E"
  shows "keeps_sync E (paper_tick E symbol price timestamp)"
  unfolding keeps_sync_def
proof (intro allI impI)
  fix s
  assume s: "in_sync E s"
  have unsaved: "in_sync E (t\<lparr>ps_broker := b\<rparr>)"
    if "restorable b" "account_of b = Inr a" "ps_tables t = ps_tables s" "durable_book b = durable_book (ps_broker s) \<or> \<not> pe_enabled E"
    for b a and t :: paper_service
    using s that durable_book_durable [of b "ps_broker s"]
    by (cases "pe_enabled E") (auto simp: in_sync_def view_of_def bind_result_eq_Inr)
  let ?save = "\<lambda>r now v. try_except
        (seq_eff (persist E ''paper_tick_applied'' None
            (TickDetails symbol price (tr_filled_order_ids r) (tr_closed_position_ids r)))
          (seq_eff (modify (\<lambda>s. s\<lparr>ps_last_mark_persist_at := Some now\<rparr>)) (ret r)))
        (roll_back E v ''paper_tick_persistence_failed'')"
  have ticked: "wp (on_broker (tick symbol price ts))
      (\<lambda>r. wp (bind_eff (paper_now E) (\<lambda>now. bind_eff (gets ps_last_mark_persist_at) (\<lambda>previous.
        if pe_enabled E \<and> (tr_filled_order_ids r \<noteq> [] \<or> tr_closed_position_ids r \<noteq> [] \<or>
             0 < av_open_positions (tr_account r) \<and> mark_interval_due E now previous)
        then ?save r now v else ret r))) (\<lambda>_. in_sync E) (sync_or_decimal E)) (sync_or_decimal E) t"
    if t: "ps_broker t = ps_broker s" "ps_tables t = ps_tables s" and v: "view_of (ps_broker s) = Inr v" for ts v t
    unfolding wp_on_broker
  proof (rule wp_mono [OF tick_tame])
    show "restorable (ps_broker t)" using s t(1) by (simp add: in_sync_def)
  next
    fix r :: tick_result and b :: broker
    assume r: "restorable b \<and> account_of b = Inr (tr_account r) \<and>
      (tr_filled_order_ids r = [] \<and> tr_closed_position_ids r = [] \<longrightarrow> durable_book b = durable_book (ps_broker t))"
    have saved: "wp (?save r now v) (\<lambda>_. in_sync E) (sync_or_decimal E) (t\<lparr>ps_broker := b, ps_step := n\<rparr>)"
      if "pe_enabled E" for now n
      by (rule persist_or_roll_back [OF assms that s v])
        (use r t in \<open>simp_all add: wp_seq wp_modify wp_ret in_sync_def\<close>)
    have "in_sync E (t\<lparr>ps_broker := b, ps_step := n\<rparr>)"
      if "\<not> (pe_enabled E \<and> (tr_filled_order_ids r \<noteq> [] \<or> tr_closed_position_ids r \<noteq> []))" for n
      using unsaved [of b "tr_account r" "t\<lparr>ps_step := n\<rparr>"] r t that by (auto simp: in_sync_def)
    then show "wp (bind_eff (paper_now E) (\<lambda>now. bind_eff (gets ps_last_mark_persist_at) (\<lambda>previous.
        if pe_enabled E \<and> (tr_filled_order_ids r \<noteq> [] \<or> tr_closed_position_ids r \<noteq> [] \<or>
             0 < av_open_positions (tr_account r) \<and> mark_interval_due E now previous)
        then ?save r now v else ret r))) (\<lambda>_. in_sync E) (sync_or_decimal E) (t\<lparr>ps_broker := b\<rparr>)"
      using saved by (auto simp: wp_bind wp_paper_now wp_gets wp_ret)
  qed (simp add: sync_or_decimal_def)
  have "in_sync E (s\<lparr>ps_step := n\<rparr>)" for n using s by (simp add: in_sync_def)
  then show "wp (paper_tick E symbol price timestamp) (\<lambda>_. in_sync E) (sync_or_decimal E) s"
    unfolding paper_tick_def wp_seq wp_bind wp_paper_lock wp_on_state
    using ticked
    by (cases timestamp) (auto simp: sync_or_decimal_def [of E CancelledError] sync_or_decimal_def [of E DecimalInvalidOperation]
        wp_paper_now wp_ret wp_bind split: sum.split dest: view_of_errors)
qed

end
