(* ===== verification/Paper_Recovery.thy ===== *)
theory Paper_Recovery
  imports Paper_Execution
begin

text \<open>
  Recovery of the paper execution service: the status and the reconciliation read or restore
  what the tables hold, every call leaves memory and tables in sync, and a restart from such tables
  brings back the durable state (\<^verbatim>\<open>recover\<close>, \<^verbatim>\<open>reconcile\<close> and
  \<^verbatim>\<open>recovery_status\<close> of \<^verbatim>\<open>app/paper/execution_service.py\<close>).
\<close>

section \<open>Recovery\<close>

abbreviation contents :: "paper_service \<Rightarrow> broker \<times> paper_tables" where
  "contents s \<equiv> (ps_broker s, ps_tables s)"

lemma within_read:
  assumes "\<And>now t a t'. f now t = Inr (a, t') \<Longrightarrow> t' = t"
  shows "stays (same contents) (paper_txn E f)"
  unfolding stays_def same_def
proof
  fix s
  show "contents (snd (paper_txn E f s)) = contents s"
    using assms [of "pe_clock E (ps_step s)" "ps_tables s"]
    by (auto simp: paper_txn_def eff_defs split: db_fault.split sum.split prod.split)
qed

lemma status_reads: "stays (same contents) (recovery_status E)"
proof -
  have state: "stays (same contents) (on_broker broker_state)"
    by (simp add: stays_def same_def on_broker_def broker_state_view)
  have err: "stays (same contents) (note_error E e)" for e
    unfolding note_error_def by (rule unchanged.within_modify) (simp add: same_def)
  show ?thesis
    unfolding recovery_status_def database_view_def load_tables_def Let_def
    by (intro unchanged.within_intros within_read err state) auto
qed

lemma contents_sync:
  assumes "in_sync E s" "same contents s t"
  shows "in_sync E t"
  using assms by (simp add: in_sync_def same_def)

lemma status_sync: "keeps_sync E (recovery_status E)"
  unfolding keeps_sync_def
proof (intro allI impI)
  fix s
  assume s: "in_sync E s"
  have "wp (recovery_status E) (\<lambda>_. same contents s) (\<lambda>_. same contents s) s"
    using unchanged.within_wp [OF status_reads] .
  then show "wp (recovery_status E) (\<lambda>_. in_sync E) (sync_or_decimal E) s"
    by (rule wp_mono) (use contents_sync [OF s] in \<open>simp_all add: sync_or_decimal_def\<close>)
qed

text \<open>A state that the tables hold and that a broker can be restored from.\<close>

definition recoverable :: "paper_tables \<Rightarrow> durable_state \<Rightarrow> bool" where
  "recoverable t d \<longleftrightarrow> tables_ok t \<and> (\<exists>st. load_paper_state t = Some st \<and> storable st \<and>
     orders_restorable (sv_orders st) \<and> durable_state_payload st = d)"

lemma in_sync_recoverable:
  assumes "in_sync E s" "pe_enabled E"
  shows "\<exists>d. durable_of (ps_broker s) = Inr d \<and> recoverable (ps_tables s) d"
proof -
  obtain v st where v: "view_of (ps_broker s) = Inr v" and st: "load_paper_state (ps_tables s) = Some st" "storable st"
    "durable_state_payload st = durable_state_payload v"
    using assms by (auto simp: in_sync_def)
  have "sort_key ov_id (sv_orders st) = sort_key ov_id (sv_orders v)" using st(3) by (simp add: durable_state_payload_def)
  then have "set (sv_orders st) = set (sv_orders v)" by (metis set_sort)
  then have "orders_restorable (sv_orders st)"
    using view_orders_restorable [OF _ v] assms(1) by (simp add: orders_restorable_def list_all_iff in_sync_def)
  then show ?thesis using v st assms(1) by (auto simp: durable_of_def recoverable_def in_sync_def)
qed

lemma restored_durable:
  assumes "view_of (restored st b) = Inr v" "storable st" "orders_restorable (sv_orders st)"
  shows "durable_state_payload v = durable_state_payload st"
proof -
  have "map (\<lambda>(_, so). so_view so) (stored_orders (sv_orders st)) = sv_orders st"
    "map snd (map (\<lambda>p. (pv_id p, p)) (sv_positions st)) = sv_positions st"
    by (simp_all add: stored_orders_def comp_def)
  then show ?thesis
    using assms(1) view_balances(1,2) [OF restored_restorable [OF assms(2,3)] assms(1)]
    by (auto simp: view_of_def bind_result_eq_Inr restored_def durable_state_payload_def simp del: map_map)
qed

definition recovered_to :: "paper_env \<Rightarrow> durable_state \<Rightarrow> paper_service \<Rightarrow> bool" where
  "recovered_to E d t \<longleftrightarrow> in_sync E t \<and> durable_of (ps_broker t) = Inr d"

lemma restored_sync:
  assumes "recoverable (ps_tables t) d" "load_paper_state (ps_tables t) = Some st" "view_of (restored st b) = Inr v"
    "ps_broker t = restored st b"
  shows "recovered_to E d t"
  using assms restored_durable [OF assms(3)] restored_restorable [of st b]
  by (auto simp: recovered_to_def in_sync_def recoverable_def durable_of_def)

lemma mark_recovered_load [simp]:
  "load_paper_state (mark_recovered c n m now t) = load_paper_state t" "tables_ok (mark_recovered c n m now t) = tables_ok t"
  by (cases "pt_account t"; simp add: mark_recovered_def load_paper_state_def tables_ok_def)+

lemma mark_recovered_recoverable [simp]: "recoverable (mark_recovered c n m now t) d = recoverable t d"
  by (simp add: recoverable_def)

lemma recover_loaded_spec:
  assumes "clean_faults E" "recoverable (ps_tables s) d" "load_paper_state (ps_tables s) = Some st"
  shows "wp (recover_loaded E (Some st)) (\<lambda>_. recovered_to E d) (\<lambda>_ t. recoverable (ps_tables t) d) s"
proof -
  have st: "storable st" "orders_restorable (sv_orders st)" using assms(2,3) by (auto simp: recoverable_def)
  show ?thesis
    unfolding recover_loaded_def option.case wp_seq wp_on_broker
  proof (rule wp_restore [OF st])
    fix v
    assume v: "view_of (restored st (ps_broker s)) = Inr v"
    show "wp (bind_eff (paper_now E) (\<lambda>now.
        seq_eff (paper_txn E (\<lambda>stamp t. Inr ((), mark_recovered (state_checksum (pe_digest E) st)
          (length (sv_orders st)) (length (sv_positions st)) stamp t)))
        (modify (\<lambda>s. s\<lparr>ps_last_recovered_at := Some now, ps_recovered := True\<rparr>))))
      (\<lambda>_. recovered_to E d) (\<lambda>_ t. recoverable (ps_tables t) d) (s\<lparr>ps_broker := restored st (ps_broker s)\<rparr>)"
      unfolding wp_bind wp_paper_now wp_seq
      by (rule wp_paper_txn [OF assms(1)])
        (use assms(2,3) v in \<open>auto simp: wp_modify intro!: restored_sync [OF _ _ v]\<close>)
  qed (use assms(2) in simp)
qed

lemma recover_spec:
  assumes "clean_faults E" "pe_enabled E" "recoverable (ps_tables s) d"
  shows "wp (paper_recover E) (\<lambda>_. recovered_to E d) (\<lambda>_ t. recoverable (ps_tables t) d) s"
proof -
  obtain st where st: "load_paper_state (ps_tables s) = Some st" using assms(3) by (auto simp: recoverable_def)
  have status: "wp (recovery_status E) (\<lambda>_. recovered_to E d) (\<lambda>_ t. recoverable (ps_tables t) d) t" if "recovered_to E d t" for t
  proof (rule wp_mono [OF unchanged.within_wp [OF status_reads]])
    fix u
    assume u: "same contents t u"
    then show "recovered_to E d u" using that contents_sync [of E t u] by (simp add: same_def recovered_to_def)
    then show "recoverable (ps_tables u) d"
      using in_sync_recoverable [of E u] assms(2) by (auto simp: recovered_to_def)
  qed
  have "wp (bind_eff (load_tables E) (recover_loaded E)) (\<lambda>_. recovered_to E d) (\<lambda>_ t. recoverable (ps_tables t) d) t"
    if "ps_tables t = ps_tables s" for t
    unfolding wp_bind load_tables_def
    by (rule wp_paper_txn [OF assms(1)]) (use that assms(1,3) st in \<open>auto intro!: recover_loaded_spec\<close>)
  then have loaded: "wp (bind_eff (load_tables E) (recover_loaded E)) (\<lambda>_. recovered_to E d) (\<lambda>_ t. recoverable (ps_tables t) d)
      (s\<lparr>ps_step := n\<rparr>)" for n
    by simp
  have marked: "recovered_to E d (t\<lparr>ps_initialized := True, ps_last_error := None\<rparr>)" if "recovered_to E d t" for t
    using that by (simp add: recovered_to_def in_sync_def)
  have "wp (try_except
            (seq_eff (bind_eff (load_tables E) (recover_loaded E))
              (modify (\<lambda>s. s\<lparr>ps_initialized := True, ps_last_error := None\<rparr>)))
            (\<lambda>e. seq_eff (note_error E e) (raise (PaperPersistenceError ''paper_state_recovery_failed''))))
          (\<lambda>_. wp (recovery_status E) (\<lambda>_. recovered_to E d) (\<lambda>_ t. recoverable (ps_tables t) d))
          (\<lambda>_ t. recoverable (ps_tables t) d) (s\<lparr>ps_step := n\<rparr>)" for n
    unfolding wp_try_except wp_seq
    by (rule wp_mono [OF loaded]) (simp_all add: wp_modify note_error_def wp_raise marked status)
  then show ?thesis
    using assms(2,3) by (simp add: paper_recover_def wp_seq wp_paper_lock)
qed

text \<open>Once the memory has a view, the status is always returned.\<close>

lemma status_returns:
  assumes "clean_faults E" "view_of (ps_broker s) = Inr v"
  shows "wp (recovery_status E) (\<lambda>_ _. True) (\<lambda>_ _. False) s"
proof -
  have "wp (database_view E) (\<lambda>_ _. True) (\<lambda>_ _. False) t" for t
    unfolding database_view_def load_tables_def wp_try_except wp_bind
    by (auto intro!: wp_paper_txn [OF assms(1)] simp: wp_ret wp_seq note_error_def wp_modify)
  then have "wp (if pe_enabled E then database_view E else ret (None, None)) (\<lambda>_ _. True) (\<lambda>_ _. False) s"
    by (simp add: wp_ret)
  then show ?thesis
    unfolding recovery_status_def wp_bind wp_on_state assms(2) sum.case Let_def
    by (rule wp_mono) (simp_all add: wp_gets split: prod.split)
qed

section \<open>Every call keeps memory and tables in sync\<close>

lemma keeps_syncD: "keeps_sync E m \<Longrightarrow> in_sync E s \<Longrightarrow> wp m (\<lambda>_. in_sync E) (sync_or_decimal E) s"
  by (simp add: keeps_sync_def)

lemma sync_then:
  assumes "keeps_sync E m" "\<And>a. keeps_sync E (k a)"
  shows "keeps_sync E (bind_eff m k)"
  using assms by (auto simp: keeps_sync_def wp_bind intro!: wp_mono [OF keeps_syncD [OF assms(1)]])

lemma sync_ignore: "keeps_sync E m \<Longrightarrow> keeps_sync E (ignore m)"
  unfolding ignore_def seq_eff_def by (rule sync_then) (simp_all add: keeps_sync_def wp_ret)

lemma sync_seq: "keeps_sync E m \<Longrightarrow> keeps_sync E k \<Longrightarrow> keeps_sync E (seq_eff m k)"
  unfolding seq_eff_def by (rule sync_then)

lemma sync_lock: "keeps_sync E (paper_lock E)"
  by (simp add: keeps_sync_def wp_paper_lock sync_or_decimal_def in_sync_def)

lemma sync_raise: "keeps_sync E (raise e)"
  by (simp add: keeps_sync_def wp_raise sync_or_decimal_def)

lemma persist_sync:
  assumes "clean_faults E" "pe_enabled E"
  shows "keeps_sync E (persist E action rid details)"
  unfolding keeps_sync_def
proof (intro allI impI)
  fix s
  assume s: "in_sync E s"
  show "wp (persist E action rid details) (\<lambda>_. in_sync E) (sync_or_decimal E) s"
    by (rule wp_persist [OF assms]) (use s in \<open>simp_all add: in_sync_def sync_or_decimal_def\<close>)
qed

lemma persist_now_sync: "clean_faults E \<Longrightarrow> keeps_sync E (persist_now E action)"
  unfolding persist_now_def
  by (auto intro!: sync_then sync_seq sync_lock persist_sync) (simp_all add: keeps_sync_def wp_ret)

lemma restore_loaded_sync:
  assumes "clean_faults E" "pe_enabled E"
  shows "keeps_sync E (bind_eff (load_tables E) (\<lambda>loaded.
     case loaded of
       None \<Rightarrow> raise (PaperPersistenceError ''persisted_paper_state_not_found'')
     | Some st \<Rightarrow> seq_eff (on_broker (restore st)) (bind_eff (paper_now E) (\<lambda>now.
         modify (\<lambda>s. s\<lparr>ps_last_recovered_at := Some now, ps_recovered := True\<rparr>)))))"
  (is "keeps_sync E (bind_eff (load_tables E) ?use)")
  unfolding keeps_sync_def
proof (intro allI impI)
  fix s
  assume s: "in_sync E s"
  obtain d where d: "recoverable (ps_tables s) d" using in_sync_recoverable [OF s assms(2)] by blast
  then obtain st where st: "load_paper_state (ps_tables s) = Some st" "storable st" "orders_restorable (sv_orders st)"
    by (auto simp: recoverable_def)
  have "wp (?use (Some st)) (\<lambda>_. in_sync E) (sync_or_decimal E) t" if t: "ps_tables t = ps_tables s" for t
    unfolding option.case wp_seq wp_on_broker
  proof (rule wp_restore [OF st(2,3)])
    fix v
    assume v: "view_of (restored st (ps_broker t)) = Inr v"
    have "recovered_to E d u" if "ps_broker u = restored st (ps_broker t)" "ps_tables u = ps_tables s" for u
      using restored_sync [OF _ _ v that(1)] d st(1) that(2) by simp
    then show "wp (bind_eff (paper_now E) (\<lambda>now.
         modify (\<lambda>s. s\<lparr>ps_last_recovered_at := Some now, ps_recovered := True\<rparr>)))
        (\<lambda>_. in_sync E) (sync_or_decimal E) (t\<lparr>ps_broker := restored st (ps_broker t)\<rparr>)"
      using t by (simp add: wp_bind wp_paper_now wp_modify recovered_to_def)
  qed (simp add: sync_or_decimal_def)
  then show "wp (bind_eff (load_tables E) ?use) (\<lambda>_. in_sync E) (sync_or_decimal E) s"
    unfolding wp_bind load_tables_def
    by (intro wp_paper_txn [OF assms(1)]) (use s st(1) in \<open>auto simp: sync_or_decimal_def in_sync_def\<close>)
qed

lemma reconcile_sync:
  assumes "clean_faults E"
  shows "keeps_sync E (paper_reconcile E action)"
proof -
  have guarded: "keeps_sync E (seq_eff (raise_when (\<not> pe_enabled E) e) m)" if "pe_enabled E \<Longrightarrow> keeps_sync E m" for m :: "'b papers" and e
    using that by (cases "pe_enabled E") (auto simp: keeps_sync_def wp_seq wp_raise_when sync_or_decimal_def)
  have unit: "keeps_sync E (ret ())" by (simp add: keeps_sync_def wp_ret)
  show ?thesis
    unfolding paper_reconcile_def
    by (cases action)
      (auto intro!: status_sync guarded sync_seq sync_lock persist_sync restore_loaded_sync unit assms)
qed

theorem paper_call_sync:
  assumes "clean_faults E"
  shows "keeps_sync E (paper_call_eff E c)"
  by (cases c)
    (auto simp: paper_submit_def paper_cancel_def paper_close_def paper_reset_def assms
      intro!: sync_ignore mutate_sync tick_sync persist_now_sync reconcile_sync status_sync
        submit_tame cancel_tame close_position_tame reset_tame)

section \<open>Restarts\<close>

lemma restart_spec:
  assumes "clean_faults E" "pe_enabled E" "recoverable (ps_tables s) d"
  shows "wp (paper_restart E configured) (\<lambda>_. recovered_to E d) (\<lambda>_ t. recoverable (ps_tables t) d) s"
  unfolding paper_restart_def ignore_def wp_seq wp_modify wp_ret
  by (rule recover_spec [OF assms(1,2)]) (use assms(3) in \<open>simp add: new_paper_service_def\<close>)

text \<open>The first start finds no stored state and stores the configured one.\<close>

lemma first_start_spec:
  assumes "clean_faults E" "pe_enabled E" "restorable configured" "tables_ok (ps_tables s)" "load_paper_state (ps_tables s) = None"
  shows "wp (paper_restart E configured) (\<lambda>_. in_sync E) (\<lambda>_ _. True) s"
proof -
  have fresh: "restorable (fresh_broker configured b)" for b
    using assms(3) restorable_updates(4) by (simp add: fresh_broker_def)
  have stored: "wp (recover_loaded E None) (\<lambda>_. in_sync E) (\<lambda>_ _. True) t"
    if "restorable (ps_broker t)" "tables_ok (ps_tables t)" for t
    unfolding recover_loaded_def option.case wp_seq
    by (rule wp_persist [OF assms(1,2) that]) (simp_all add: wp_modify in_sync_def)
  have loaded: "wp (bind_eff (load_tables E) (recover_loaded E)) (\<lambda>_. in_sync E) (\<lambda>_ _. True) t"
    if "restorable (ps_broker t)" "ps_tables t = ps_tables s" for t
    unfolding wp_bind load_tables_def
    by (rule wp_paper_txn [OF assms(1)]) (use that assms(4,5) stored in auto)
  have marked: "in_sync E (t\<lparr>ps_initialized := True, ps_last_error := None\<rparr>)" if "in_sync E t" for t
    using that by (simp add: in_sync_def)
  have "wp (recovery_status E) (\<lambda>_. in_sync E) (\<lambda>_ _. True) t" if "in_sync E t" for t
    by (rule wp_mono [OF keeps_syncD [OF status_sync that]]) simp_all
  then have "wp (paper_recover E) (\<lambda>_. in_sync E) (\<lambda>_ _. True) t"
    if "restorable (ps_broker t)" "ps_tables t = ps_tables s" for t
    using assms(2) that
    by (auto simp: paper_recover_def wp_seq wp_paper_lock wp_try_except wp_modify note_error_def wp_raise marked
        intro!: wp_mono [OF loaded])
  then show ?thesis
    by (simp add: paper_restart_def ignore_def wp_seq wp_modify wp_ret new_paper_service_def fresh)
qed

lemma new_broker_restorable:
  "new_broker balance taker maker slippage = Inr b \<Longrightarrow> on_grid 8 balance \<Longrightarrow> restorable b"
  by (auto simp: new_broker_def restorable_def split: if_splits)

section \<open>Failed mutations\<close>

lemma tables_kept: "wp (on_broker m) (\<lambda>_ t. ps_tables t = ps_tables s) (\<lambda>_ t. ps_tables t = ps_tables s) s"
  by (simp add: wp_def on_broker_def split: prod.split sum.split)

lemma on_broker_tables:
  assumes "\<And>a t. ps_tables t = ps_tables s \<Longrightarrow> Q a t" "\<And>e t. ps_tables t = ps_tables s \<Longrightarrow> X e t"
  shows "wp (on_broker m) Q X s"
  by (rule wp_mono [OF tables_kept]) (use assms in auto)

lemma persist_tables:
  assumes "clean_faults E" "\<And>c t. Q c t" "\<And>e t. e \<noteq> CancelledError \<Longrightarrow> ps_tables t = ps_tables s \<Longrightarrow> X e t"
  shows "wp (persist E action rid details) Q X s"
proof -
  have "wp (paper_txn E (save_paper_state (pe_digest E) action rid details v))
      (\<lambda>c. wp (bind_eff (paper_now E) (\<lambda>now. seq_eff (modify (\<lambda>s. s\<lparr>ps_last_persisted_at := Some now, ps_last_error := None\<rparr>))
         (ret c))) Q X) X s" for v
    by (rule wp_paper_txn [OF assms(1)]) (auto simp: wp_simps wp_paper_now assms(2) intro!: assms(3) dest: save_errors)
  then show ?thesis
    unfolding persist_def wp_bind wp_on_state
    by (auto simp: wp_ret wp_bind assms(2) split: sum.split intro!: assms(3) dest: view_of_errors)
qed

lemma roll_back_tables: "ps_tables t = ps_tables s \<Longrightarrow> wp (roll_back E v code e) Q (\<lambda>_ u. ps_tables u = ps_tables s) t"
  unfolding roll_back_def wp_seq by (rule on_broker_tables) (simp_all add: wp_modify wp_raise)

lemma persist_or_tables:
  assumes "clean_faults E" "ps_tables t = ps_tables s" "\<And>u. wp k (\<lambda>_ _. True) (\<lambda>_ _. False) u"
  shows "wp (try_except (seq_eff (persist E action rid details) k) (roll_back E v code)) (\<lambda>_ _. True)
    (\<lambda>_ u. ps_tables u = ps_tables s) t"
  unfolding wp_try_except wp_seq
  by (rule persist_tables [OF assms(1)])
    (use assms(2) in \<open>auto intro!: roll_back_tables wp_mono [OF assms(3)]\<close>)

definition tables_kept_on_error :: "'a papers \<Rightarrow> bool" where
  "tables_kept_on_error m \<longleftrightarrow> (\<forall>s. wp m (\<lambda>_ _. True) (\<lambda>_ t. ps_tables t = ps_tables s) s)"

lemma mutate_tables:
  assumes "clean_faults E"
  shows "tables_kept_on_error (mutate E action operation rid details)"
  unfolding tables_kept_on_error_def mutate_def wp_seq wp_bind wp_paper_lock wp_paper_now
  by (auto intro!: on_broker_tables persist_or_tables assms simp: wp_ret)

lemma tick_tables:
  assumes "clean_faults E"
  shows "tables_kept_on_error (paper_tick E symbol price timestamp)"
  unfolding tables_kept_on_error_def paper_tick_def wp_seq wp_bind wp_paper_lock
  by (auto intro!: on_broker_tables persist_or_tables assms simp: wp_ret wp_gets wp_bind wp_seq wp_modify wp_paper_now split: option.split)

lemma tables_kept_ignore: "tables_kept_on_error m \<Longrightarrow> tables_kept_on_error (ignore m)"
  by (simp add: tables_kept_on_error_def ignore_def wp_seq wp_ret)

text \<open>The calls that mutate the broker; the others persist, restore or read.\<close>

fun mutating :: "paper_call \<Rightarrow> bool" where
  "mutating (PaperPersistNow action) = False"
| "mutating (PaperReconcile action) = False"
| "mutating PaperStatus = False"
| "mutating c = True"

lemma mutating_tables: "clean_faults E \<Longrightarrow> mutating c \<Longrightarrow> tables_kept_on_error (paper_call_eff E c)"
  by (cases c)
    (auto simp: paper_submit_def paper_cancel_def paper_close_def paper_reset_def
      intro!: tables_kept_ignore mutate_tables tick_tables)

lemma failed_call_spec:
  assumes "clean_faults E" "pe_enabled E" "mutating c" "in_sync E s"
  shows "wp (paper_call_eff E c) (\<lambda>_. in_sync E)
    (\<lambda>e t. e = DecimalInvalidOperation \<or> in_sync E t \<and> durable_of (ps_broker t) = durable_of (ps_broker s)) s"
proof -
  have "in_sync E t \<Longrightarrow> ps_tables t = ps_tables s \<Longrightarrow> durable_of (ps_broker t) = durable_of (ps_broker s)" for t
    using assms(2,4) by (auto simp: in_sync_def durable_of_def)
  then show ?thesis
    using keeps_syncD [OF paper_call_sync [OF assms(1)] assms(4), of c] mutating_tables [OF assms(1,3)]
    by (auto simp: tables_kept_on_error_def wp_def sync_or_decimal_def split: prod.splits sum.splits)
qed

text \<open>A transaction that is cancelled is not rolled back in memory: \<open>except Exception\<close> does not catch it.\<close>

lemma cancelled_persistence_keeps_memory:
  assumes "pe_enabled E" "\<not> pe_lock_cancelled E (ps_step s)" "pe_db E (Suc (Suc (ps_step s))) = FaultBefore CancelledError"
    and "view_of (ps_broker s) = Inr v" "operation (pe_clock E (Suc (ps_step s))) (ps_broker s) = (Inr r, b)" "view_of b = Inr w"
  shows "wp (mutate E action operation rid details) (\<lambda>_ _. False)
    (\<lambda>e t. e = CancelledError \<and> ps_broker t = b \<and> ps_tables t = ps_tables s) s"
  unfolding mutate_def wp_seq wp_bind wp_paper_lock wp_on_state wp_paper_now
  using assms
  by (simp add: wp_on_broker wp_def [of "operation now" for now] wp_try_except wp_seq persist_def wp_bind wp_on_state
      paper_txn_def wp_gets wp_modify wp_raise)
    (simp add: wp_def broker_state_view)

section \<open>Histories of the service\<close>

text \<open>
  The states of a running service: after a first start on empty tables, after any call,
  returned or raised, that did not fail in a decimal operation of the broker, and after any restart
  that succeeds, failed ones before it included (\<open>paper_down\<close>).
\<close>

inductive paper_running :: "paper_env \<Rightarrow> broker \<Rightarrow> paper_service \<Rightarrow> bool"
  and paper_down :: "paper_env \<Rightarrow> broker \<Rightarrow> durable_state \<Rightarrow> paper_service \<Rightarrow> bool"
  for E :: paper_env and configured :: broker where
  started: "paper_restart E configured (new_paper_service configured empty_tables n) = (Inr (), s) \<Longrightarrow> paper_running E configured s"
| called: "paper_running E configured s \<Longrightarrow> paper_call_eff E c s = (r, t) \<Longrightarrow> r \<noteq> Inl DecimalInvalidOperation \<Longrightarrow>
    paper_running E configured t"
| stopped: "paper_running E configured s \<Longrightarrow> durable_of (ps_broker s) = Inr d \<Longrightarrow> paper_down E configured d s"
| failed: "paper_down E configured d s \<Longrightarrow> paper_restart E configured s = (Inl e, t) \<Longrightarrow> paper_down E configured d t"
| restarted: "paper_down E configured d s \<Longrightarrow> paper_restart E configured s = (Inr (), t) \<Longrightarrow> paper_running E configured t"

lemma paper_history:
  assumes "clean_faults E" "pe_enabled E" "restorable configured"
  shows "paper_running E configured s \<Longrightarrow> in_sync E s"
    and "paper_down E configured d s \<Longrightarrow> recoverable (ps_tables s) d"
proof (induction rule: paper_running_paper_down.inducts)
  case (started n s)
  have "tables_ok empty_tables" "load_paper_state empty_tables = None"
    by (simp_all add: tables_ok_def empty_tables_def load_paper_state_def)
  then show ?case
    using first_start_spec [OF assms, of "new_paper_service configured empty_tables n"] started
    by (simp add: wp_def new_paper_service_def)
next
  case (called s c r t)
  then show ?case
    using keeps_syncD [OF paper_call_sync [OF assms(1)], of s c] by (cases r) (auto simp: wp_def sync_or_decimal_def)
next
  case (stopped s d)
  then show ?case using in_sync_recoverable [OF _ assms(2), of s] by auto
next
  case (failed d s e t)
  then show ?case using restart_spec [OF assms(1,2), of s d configured] by (simp add: wp_def)
next
  case (restarted d s t)
  then show ?case using restart_spec [OF assms(1,2), of s d configured] by (simp add: wp_def recovered_to_def)
qed

lemma restart_recovers:
  assumes "clean_faults E" "pe_enabled E" "restorable configured" "paper_down E configured d s"
  shows "wp (paper_restart E configured) (\<lambda>_ t. durable_of (ps_broker t) = Inr d) (\<lambda>_ t. paper_down E configured d t) s"
  using restart_spec [OF assms(1,2) paper_history(2) [OF assms], of configured] paper_running_paper_down.failed [OF assms(4)]
  by (auto simp: wp_def recovered_to_def split: prod.splits sum.splits)

end
