(* ===== verification/Paper_Example.thy ===== *)
theory Paper_Example
  imports Paper_Recovery Example_Data
begin

text \<open>A paper service with a working database, and its first start.\<close>

definition example_paper_env :: paper_env where
  "example_paper_env = \<lparr>pe_enabled = True, pe_persist_mark_interval_seconds = 30, pe_clock = int, pe_db = (\<lambda>_. NoFault),
     pe_lock_cancelled = (\<lambda>_. False), pe_digest = (\<lambda>_. ''checksum''), pe_error_text = (\<lambda>_. ''error'')\<rparr>"

lemma example_paper_env_sel [simp]:
  "pe_enabled example_paper_env" "pe_db example_paper_env n = NoFault" "\<not> pe_lock_cancelled example_paper_env n"
  by (simp_all add: example_paper_env_def)

definition example_account_view :: account_view where
  "example_account_view = \<lparr>av_starting_balance = 10000, av_cash_balance = 10000, av_equity = 10000, av_realized_pnl = 0,
     av_unrealized_pnl = 0, av_fees_paid = 0, av_open_positions = 0, av_pending_orders = 0, av_closed_trades = 0\<rparr>"

lemma example_view: "view_of (example_broker\<lparr>pb_next_id := 0\<rparr>) = Inr \<lparr>sv_account = example_account_view, sv_orders = [], sv_positions = []\<rparr>"
  by code_simp

lemma example_store: "store_account example_account_view = Inr example_account_view"
  by code_simp

lemma example_paper_start:
  "wp (paper_restart example_paper_env example_broker) (\<lambda>_ _. True) (\<lambda>_ _. False)
    (new_paper_service example_broker empty_tables 0)"
proof -
  have env: "clean_faults example_paper_env" by (simp add: clean_faults_def example_paper_env_def)
  have fresh: "fresh_broker example_broker example_broker = example_broker\<lparr>pb_next_id := 0\<rparr>"
    by (simp add: fresh_broker_def example_broker_def)
  have save: "\<exists>t. save_paper_state dg action rid details \<lparr>sv_account = example_account_view, sv_orders = [], sv_positions = []\<rparr> now
      empty_tables = Inr (c, t)" if "c = dg (durable_state_payload \<lparr>sv_account = example_account_view, sv_orders = [], sv_positions = []\<rparr>)"
    for dg action rid details now c
    using that example_store
    by (simp add: save_paper_state_def upsert_account_def delete_positions_def delete_orders_def empty_tables_def
       Let_def state_checksum_def)
  let ?E = example_paper_env and ?v = "\<lparr>sv_account = example_account_view, sv_orders = [], sv_positions = []\<rparr>"
  have persisted: "wp (persist ?E action rid details) (\<lambda>_ t. ps_broker t = ps_broker s) (\<lambda>_ _. False) s"
    if "view_of (ps_broker s) = Inr ?v" "ps_tables s = empty_tables" for action rid details and s :: paper_service
    using that save
    by (auto simp: persist_def wp_bind wp_on_state paper_txn_def wp_simps wp_paper_now split: sum.split)
       (metis Inl_Inr_False)
  have stored: "wp (bind_eff (load_tables ?E) (recover_loaded ?E)) (\<lambda>_ t. ps_broker t = ps_broker s) (\<lambda>_ _. False) s"
    if s: "view_of (ps_broker s) = Inr ?v" "ps_tables s = empty_tables" for s :: paper_service
  proof -
    have "load_paper_state empty_tables = None" by (simp add: load_paper_state_def empty_tables_def)
    then show ?thesis
      using s by (auto simp: wp_bind load_tables_def paper_txn_def wp_simps recover_loaded_def intro!: wp_mono [OF persisted])
  qed
  have "wp (try_except
            (seq_eff (bind_eff (load_tables ?E) (recover_loaded ?E))
              (modify (\<lambda>s. s\<lparr>ps_initialized := True, ps_last_error := None\<rparr>)))
            (\<lambda>e. seq_eff (note_error ?E e) (raise (PaperPersistenceError ''paper_state_recovery_failed''))))
          (\<lambda>_. wp (recovery_status ?E) (\<lambda>_ _. True) (\<lambda>_ _. False)) (\<lambda>_ _. False) s"
    if s: "view_of (ps_broker s) = Inr ?v" "ps_tables s = empty_tables" for s :: paper_service
    unfolding wp_try_except wp_seq
    by (rule wp_mono [OF stored [OF s]]) (simp_all add: wp_modify status_returns [OF env, of _ ?v] s)
  then show ?thesis
    by (simp add: paper_restart_def ignore_def wp_seq wp_modify wp_ret paper_recover_def wp_paper_lock new_paper_service_def
        fresh example_view)
qed

end
