(* ===== verification/Spec2Isabelle.thy ===== *)
theory Spec2Isabelle
  imports Live_History Live_Outcome Live_Bounds Live_Example Example_Data Automation_Example Analysis_Example Paper_Example
begin

text \<open>
  Verification of CTCC-V2, a crypto trading backend in Python: it reads candles of the exchange,
  analyses them on four timeframes, lets eight strategies propose trade candidates, sizes the best
  one with a risk engine, and executes it on a paper broker, on the exchange's Demo account, or,
  behind a safety boundary, on a real (Live) account of the OKX exchange. The development models
  the way from the candles to the order.

  \<^bold>\<open>The parts and their theories.\<close> Paths are relative to \<^verbatim>\<open>src/\<close>.

  \<^item> \<^bold>\<open>Language.\<close> \<open>Py_Prelude\<close> has the exceptions, results (\<open>exn + 'a\<close>), strings and \<open>max\<close> with a key
    (locale \<open>first_maximum\<close>); \<open>Py_Decimal\<close> has \<^verbatim>\<open>decimal.Decimal\<close> as rationals that every operation
    rounds to the digits of the context, 28 by default (\<open>dround\<close>), any number in general
    (\<open>round_sig\<close>, locale \<open>float_rounding\<close>), with square roots and quantization. NaN,
    infinities and the exponent limits are left out: the models that bring decimals in refuse
    them. \<open>Effects\<close> has methods as state-and-exception effects with \<open>try\<close>, \<open>except\<close> and \<open>finally\<close>,
    weakest preconditions (\<open>wp\<close>) and the locale \<open>frame\<close>, the proof technique of most safety
    properties: a preorder on states that every step respects.
  \<^item> \<^bold>\<open>Configuration.\<close> \<open>Settings\<close> is \<^verbatim>\<open>app/config/settings.py\<close> with the whole startup validator
    \<open>enforce_v168_safety\<close> and \<^verbatim>\<open>app/exchange/okx/symbols.py\<close>.
  \<^item> \<^bold>\<open>Market analysis.\<close> \<open>Market_Data\<close> is the quality gate of the candles (\<^verbatim>\<open>app/market/quality/\<close>);
    \<open>Indicators\<close> and \<open>Market_Structure\<close> are \<^verbatim>\<open>app/indicators/\<close> and \<^verbatim>\<open>app/structure/engine.py\<close>;
    \<open>Causal_Trend\<close> and \<open>Causal_State\<close> are the causal regression, its conformal interval and the
    robust state filter, in 50-digit arithmetic; \<open>Analysis_Domain\<close>, \<open>Mathematical_Core\<close> and
    \<open>Analysis_Service\<close> are \<^verbatim>\<open>app/domain/analysis.py\<close>, \<^verbatim>\<open>app/analysis/\<close>,
    \<^verbatim>\<open>app/strategies/mathematical_confirmation.py\<close> and \<^verbatim>\<open>app/regime/\<close>.
  \<^item> \<^bold>\<open>Strategies.\<close> \<open>Strategies\<close> has the eight strategies of \<^verbatim>\<open>app/strategies/\<close> with their candidates and
    structural protection, \<open>Strategy_Service\<close> the selection.
  \<^item> \<^bold>\<open>Candidates and risk.\<close> \<open>Strategy_Domain\<close> is \<^verbatim>\<open>app/domain/strategy.py\<close>, \<open>Risk_Engine\<close> is
    \<^verbatim>\<open>app/risk/engine.py\<close>, \<open>Demo_Risk\<close> and \<open>Demo_Execution\<close> are the policies of
    \<^verbatim>\<open>app/demo_automation/\<close> (score tiers, structural leverage, capital buckets, bounded
    fill-or-kill prices).
  \<^item> \<^bold>\<open>Live boundary.\<close> \<open>Live_Domain\<close> has the models of \<^verbatim>\<open>app/domain/okx_live.py\<close>; \<open>Live_Intents\<close> and
    \<open>Live_Mirror\<close> the two repositories of \<^verbatim>\<open>app/database/repositories/\<close> as transactions on
    tables; \<open>Live_State\<close>, \<open>Live_Checks\<close>, \<open>Live_Service\<close> and \<open>Live_Handlers\<close> the service
    \<^verbatim>\<open>app/okx_live/service.py\<close>, method by method, up to the sequences of calls and restarts
    (\<open>run_live_events\<close>).
  \<^item> \<^bold>\<open>Live automation and HTTP surface.\<close> \<open>Automation_Pricing\<close> and \<open>Live_Automation\<close> are
    \<^verbatim>\<open>app/okx_live/automation.py\<close>; \<open>Live_Api\<close> is \<^verbatim>\<open>app/api/routers/okx_live.py\<close> with
    \<^verbatim>\<open>app/api/security.py\<close>, up to histories of requests, turns of the background task,
    shutdowns and restarts (\<open>run_api_events\<close> in \<open>Automation_Safety\<close>).
  \<^item> \<^bold>\<open>Paper trading and lifecycles.\<close> \<open>Paper_Broker\<close> is \<^verbatim>\<open>app/paper/engine.py\<close>; \<open>Paper_Store\<close> the repository
    \<^verbatim>\<open>app/database/repositories/persistence.py\<close> on its tables; \<open>Paper_Execution\<close> and
    \<open>Paper_Recovery\<close> the service \<^verbatim>\<open>app/paper/execution_service.py\<close> with its environment of
    database faults, up to histories of calls and restarts (\<open>paper_running\<close>); \<open>Lifecycle\<close> is
    \<^verbatim>\<open>app/domain/state_machine.py\<close> with its repository.
  \<^item> \<^bold>\<open>Examples.\<close> \<open>Live_Example\<close>, \<open>Automation_Example\<close>, \<open>Analysis_Example\<close>, \<open>Paper_Example\<close> and \<open>Example_Data\<close> hold
    the concrete inputs on which the witnesses instantiate the properties.

  \<^bold>\<open>State, suspension and failure.\<close> A method of the Live service is an effect on the record
  \<open>live_state\<close>: the fields of the object, the durable tables, a counter of steps and a log of
  the writes handed to the exchange, each with the authority under which it was sent. The
  record \<open>env\<close> supplies what the code cannot decide: at each step the clock, the answers of the
  exchange, faults of the database before or after its commit, the cancellation of the task, and
  what other tasks do to the object while this one is suspended. Every theorem about the
  service quantifies over the environment. The automation has its own environment
  \<open>auto_env\<close> on top of it, which runs arbitrary calls of the service at each of its suspensions.
  Restarts build a new object on the old tables, so a crash is a cancelled call and a restart.
  The analysis and the strategies are pure functions of the market snapshot, the settings and the
  clock; errors are values. The automation gets its decisions from \<open>ae_strategy\<close>, and C39 puts the
  strategy service in its place.

  \<^bold>\<open>What the lemmas show.\<close> \<open>Live_Frames\<close> classifies the methods (calm, quiet, recovering, writing);
  \<open>Live_Safety\<close> shows that orders are sent at most once and that an arm excludes the stop;
  \<open>Live_Authority\<close> what stands behind each write; \<open>Live_Recovery\<close> and \<open>Live_Clearing\<close> that the
  service fails closed and what a clearance has seen; \<open>Live_History\<close> how the tables evolve, and
  that the service refines an abstract ledger of reservations and submissions;
  \<open>Live_Outcome\<close> what a placed order and a reconciliation have established; \<open>Live_Bounds\<close> that
  the handlers end within a bound. \<open>Automation_Safety\<close> states in the locales \<open>scan_client\<close>,
  \<open>service_client\<close> and \<open>service_history\<close> what a client needs of a relation on states of the service,
  and carries those results over to the automation and the HTTP surface;
  \<open>Automation_Outcome\<close> shows what a run returns and that the loop ends. The lemmas on the analysis
  bound the indicators, show what the detectors and the fusion guarantee for any estimators
  within the locale \<open>sound_estimators\<close>, which the causal ones interpret, and follow a
  candidate from the snapshot to its selection. \<open>Paper_Store\<close> shows that what is loaded is what was
  saved; \<open>Paper_Execution\<close> that every call, failed ones included, keeps the memory and the tables of
  the paper service in sync; \<open>Paper_Recovery\<close> that a restart recovers them.

  \<^bold>\<open>Bounds and fuel.\<close> Polling loops of the service recurse on the number of attempts that the
  settings give, so they need no fuel. The scheduled loop of the automation may run forever and is a
  \<open>partial_function\<close> into options; C40 shows that it returns. Integers are unbounded in Python.
  The score of a strategy is \<open>round(earned / total * 100)\<close> over a binary float; the totals are 100
  (lemma \<open>strategy_totals\<close>), where the float product rounds to the same integer, so the
  quotient is exact in the model.

  \<^bold>\<open>Not modelled.\<close> The natural logarithm \<open>Decimal.ln\<close> is an argument of the estimators; hash
  functions and the text of numbers and times are parameters too, and so is the transport of the
  exchange clients and the websocket hub. The Demo automation service, the Demo private service,
  performance reports, the market intelligence engine and the
  research tooling (both offline), the dashboard, the other routers and the database models are not
  modelled. Raw exchange payloads and timestamps of exchange rows that no decision reads are left
  out of the records.
\<close>

section \<open>The Live execution service\<close>

text \<open>
  C1. Over any sequence of calls and restarts, in any environment, no client order id is handed
  to the exchange twice, and every one that is handed over has its intent in the durable table.
\<close>

theorem order_sent_at_most_once:
  assumes "intents_ok (ls_intents s)" "ls_sent s = []"
  shows "distinct (placed (run_live_events E es s)) \<and>
    set (placed (run_live_events E es s)) \<subseteq> set (intent_keys (ls_intents (run_live_events E es s)))"
proof -
  have "placed_inv s" using assms by (simp add: placed_inv_def)
  from placed_inv_run [OF this] show ?thesis by (simp add: placed_inv_def)
qed

theorem order_sent_at_most_once_witness:
  "distinct (placed (run_live_events example_env example_events example_start)) \<and>
   intents_ok (ls_intents example_start)"
  using order_sent_at_most_once [of example_start example_env example_events]
  by (simp add: example_start_def new_service_def intents_ok_def)



text \<open>
  C3. While an intent is unresolved or the persisted latch is engaged, placing an order, setting
  the leverage and arming send nothing, change no intent and grant no arm, whatever happens.
\<close>

theorem halted_service_opens_nothing:
  assumes "(\<exists>row \<in> set (ls_intents s). unresolved row) \<or> latched (ls_mirror s)"
    and "t \<in> {snd (place_order E r s), snd (set_leverage E v s), snd (arm E q s)}"
  shows "ls_sent t = ls_sent s \<and> ls_intents t = ls_intents s \<and>
    (ls_armed_until t = None \<or> ls_armed_until t = ls_armed_until s)"
proof -
  have "frozen s t" using assms(2) zf.within_exposing [of E] by (auto simp: stays_def)
  then show ?thesis using assms(1) by (simp add: frozen_def halted_def)
qed

theorem halted_service_opens_nothing_witness:
  "ls_sent (snd (place_order example_env example_request
      (example_start\<lparr>ls_mirror := example_latched_mirror\<rparr>))) = [] \<and> latched example_latched_mirror"
proof -
  let ?s = "example_start\<lparr>ls_mirror := example_latched_mirror\<rparr>"
  have latched: "latched example_latched_mirror" by code_simp
  have "ls_sent (snd (place_order example_env example_request ?s)) = ls_sent ?s"
    by (rule conjunct1 [OF halted_service_opens_nothing]) (simp add: latched, rule insertI1)
  moreover have "ls_sent ?s = []" by (simp add: example_start_def new_service_def)
  ultimately show ?thesis using latched by (simp only: simp_thms)
qed

text \<open>
  C4. A persisted latch survives every call and every restart until the operator clears the
  stop: as long as no clearance is called the latch stays engaged, no order is placed and the
  service is not armed again.
\<close>

theorem latch_holds_across_restarts:
  assumes "latched (ls_mirror s)" "\<And>r. Call (CallClearStop r) \<notin> set es"
  shows "latched (ls_mirror (run_live_events E es s)) \<and> placed (run_live_events E es s) = placed s \<and>
    (ls_armed_until (run_live_events E es s) = None \<or>
     ls_armed_until (run_live_events E es s) = ls_armed_until s)"
  using held_run [OF assms(2), of s E] assms(1) by (simp add: latch_held_def)

theorem latch_holds_across_restarts_witness:
  "placed (run_live_events example_env (Restart # example_events)
     (example_start\<lparr>ls_mirror := example_latched_mirror\<rparr>)) = []"
proof -
  have "latched example_latched_mirror" by code_simp
  then show ?thesis
    using latch_holds_across_restarts [of "example_start\<lparr>ls_mirror := example_latched_mirror\<rparr>"
        "Restart # example_events" example_env]
    by (simp add: example_events_def example_start_def new_service_def)
qed

text \<open>
  C5. A startup that returns leaves the service disarmed, and stopped when an intent is
  unresolved or the latch is engaged, provided that Live writes are configured.
\<close>

theorem startup_fails_closed:
  assumes "okx_live_enabled (ev_settings E)"
    and "live_trading (ev_settings E) \<or> okx_live_allow_order_writes (ev_settings E)"
    and "startup E s = (Inr (), t)"
  shows "ls_armed_until t = None \<and> (ls_emergency_stop t \<or> \<not> halted s)"
  using wp_Inr [OF startup_closed [OF assms(1,2)] assms(3)] by auto

theorem startup_fails_closed_witness:
  "ls_emergency_stop (snd (startup example_env (example_start\<lparr>ls_mirror := example_latched_mirror\<rparr>)))"
proof -
  let ?s = "example_start\<lparr>ls_mirror := example_latched_mirror\<rparr>"
  have run: "startup example_env ?s = (Inr (), snd (startup example_env ?s))"
  proof -
    have "\<not> isl (fst (startup example_env ?s))" by code_simp
    then show ?thesis by (cases "startup example_env ?s"; cases "fst (startup example_env ?s)") auto
  qed
  have "okx_live_enabled (ev_settings example_env)" "live_trading (ev_settings example_env)"
    by code_simp+
  moreover have "halted ?s" by code_simp
  ultimately show ?thesis using startup_fails_closed [OF _ _ run] by blast
qed





text \<open>
  C8. At every moment of a run of a new service, an arm excludes the stop and comes with a
  positive baseline equity.
\<close>

theorem armed_service_is_not_stopped:
  "ls_armed_until (run_live_events E es (new_service i m n l)) = None \<or>
   ls_emergency_stop (run_live_events E es (new_service i m n l)) = False \<and>
   (\<exists>b. ls_baseline_equity (run_live_events E es (new_service i m n l)) = Some b \<and> 0 < b)"
  using authority_ok_run [OF authority_ok_new, of E es i m n l] by (auto simp: authority_ok_def)

text \<open>
  C9. The durable tables only advance over any run: the intent table keeps its invariant, no intent
  is ever removed, the status of an intent moves along the transitions of the repository only,
  the account identity that the mirror has pinned never changes, and the version of the latch
  never decreases and changes whenever the latch does.
\<close>

theorem tables_only_advance:
  assumes "intents_ok (ls_intents s)"
  shows "intents_ok (ls_intents (run_live_events E es s)) \<and>
    (\<forall>row \<in> set (ls_intents s). \<exists>row' \<in> set (ls_intents (run_live_events E es s)). evolves row row') \<and>
    identity_le (ls_mirror s) (ls_mirror (run_live_events E es s)) \<and>
    latch_le (ls_mirror s) (ls_mirror (run_live_events E es s))"
  using store_le_run [of s E es] assms by (simp add: store_le_def table_le_def)

theorem tables_only_advance_witness:
  "intents_ok (ls_intents (run_live_events example_env example_events example_start))"
  using tables_only_advance [of example_start example_env example_events]
  by (simp add: example_start_def new_service_def intents_ok_def)

text \<open>
  C10. A reconciliation that enforces protection and leaves the service running has found, for
  every open position, an intent and a live algo order that protects the position exactly as
  the intent expects.
\<close>

theorem running_positions_protected:
  assumes "reconcile E True s = (Inr snap, t)" "okx_live_require_protection (ev_settings E)"
    "\<not> ls_emergency_stop t" "p \<in> set (rr_positions snap)" "lp_size p \<noteq> 0"
  shows "position_protected (ls_intents s) snap p"
  using wp_Inr [OF reconcile_protects assms(1)] assms(2-) by (auto simp: protection_enforced_def all_protected_def)

theorem running_positions_protected_witness:
  "\<exists>snap. position_protected (ls_intents protected_start) snap protected_position"
proof -
  let ?run = "reconcile protected_env True protected_start"
  have ok: "\<not> isl (fst ?run)" by code_simp
  define snap where "snap = projr (fst ?run)"
  have run: "?run = (Inr snap, snd ?run)"
    using ok unfolding snap_def by (metis prod.collapse sum.collapse(2))
  have "case fst ?run of Inl _ \<Rightarrow> False | Inr x \<Rightarrow> rr_positions x = [protected_position]" by code_simp
  then have "rr_positions snap = [protected_position]"
    using ok unfolding snap_def by (cases "fst ?run") simp_all
  moreover have "okx_live_require_protection (ev_settings protected_env)" by code_simp
  moreover have "\<not> ls_emergency_stop (snd ?run)" by code_simp
  moreover have "lp_size protected_position \<noteq> 0" by code_simp
  ultimately have "position_protected (ls_intents protected_start) snap protected_position"
    by (intro running_positions_protected [OF run]) simp_all
  then show ?thesis by blast
qed




text \<open>
  C13. Every handler that writes, arms, clears or starts returns after a number of suspensions and
  clock readings that is bounded by the configured polling attempts, in any environment.
\<close>

theorem handlers_return_within_bounds:
  "costs (92 + 15 * okx_live_order_detail_poll_attempts (ev_settings E)) (place_order E r) \<and>
   costs (50 + 2 * okx_live_order_detail_poll_attempts (ev_settings E)) (cancel_order E x) \<and>
   costs (50 + 13 * okx_live_order_detail_poll_attempts (ev_settings E)) (Live_Handlers.close_position E z) \<and>
   costs 60 (set_leverage E v) \<and> costs 30 (arm E q) \<and> costs 20 (startup E) \<and>
   costs (40 + 1013 * okx_live_recovery_flat_poll_attempts (ev_settings E)) (clear_emergency_stop E c)"
  using cost_place_order cost_cancel_order cost_close_position cost_set_leverage cost_arm cost_startup
    cost_clear by blast

section \<open>Configuration\<close>

text \<open>
  C14. Settings that the startup validator accepts with Live order writes enabled satisfy the
  complete Live boundary: production mode with a safe token, one worker, credentials, protection,
  an address-bound key without withdrawals, flat start, one submission per arm, one position, no
  Paper or Demo execution; the allowed instruments are reviewed and the scanned ones are allowed.
  A service with these settings names only reviewed Live swaps in its writes, over any run.
\<close>

theorem accepted_live_settings:
  assumes "enforce_v168_safety (ev_settings E) = Inr t" "okx_live_allow_order_writes (ev_settings E)" "ls_sent s = []"
  shows "t = ev_settings E \<and> live_boundary t \<and>
    set (okx_live_allowed_symbol_list t) \<subseteq> set live_boundary_instrument_ids \<and>
    set (okx_live_scan_symbol_list t) \<subseteq> set (okx_live_allowed_symbol_list t) \<and>
    okx_live_allowed_symbol_list t \<noteq> [] \<and> distinct (okx_live_allowed_symbol_list t) \<and>
    list_all (\<lambda>(a, w). set_option (write_instrument w) \<subseteq> set live_boundary_instrument_ids)
      (ls_sent (run_live_events E es s))"
proof -
  have t: "t = ev_settings E" "accepted (ev_settings E)" using assms(1) by (simp_all add: enforce_v168_safety_Inr)
  have "list_all (write_authorised E) (ls_sent (run_live_events E es s))"
    using authorised_run [of E s es] assms(3) by (auto simp: emits_def)
  then have "list_all (\<lambda>(a, w). set_option (write_instrument w) \<subseteq> set live_boundary_instrument_ids)
      (ls_sent (run_live_events E es s))"
    using accepted_scopes(1) [OF t(2)] authorised_instrument by (fastforce simp: list_all_iff)
  then show ?thesis using t accepted_live_boundary [OF t(2)] accepted_scopes [OF t(2)] assms(2) by simp
qed

theorem accepted_live_settings_witness:
  "live_boundary (ev_settings example_env) \<and>
   list_all (\<lambda>(a, w). set_option (write_instrument w) \<subseteq> set live_boundary_instrument_ids)
     (ls_sent (run_live_events example_env example_events example_start))"
proof -
  have "enforce_v168_safety (ev_settings example_env) = Inr (ev_settings example_env)"
    "okx_live_allow_order_writes (ev_settings example_env)" "ls_sent example_start = []"
    by code_simp+
  from accepted_live_settings [OF this, of example_events] show ?thesis by simp
qed

section \<open>Market analysis and strategies\<close>

text \<open>
  C15. The quality gate is exact: for every supported bar it returns a report, which is ok exactly
  when the series is sound (a fresh closed candle, no two candles in one second, consecutive
  candles one interval apart, positive prices in a valid geometry); other bars are refused.
\<close>

theorem quality_gate_exact:
  "case bar_interval bar of
     Inl e \<Rightarrow> inspect_candles now candles bar = Inl e
   | Inr interval \<Rightarrow> \<exists>r. inspect_candles now candles bar = Inr r \<and> qr_ok r = sound_series now interval candles"
proof (cases "bar_interval bar")
  case (Inl e)
  then show ?thesis by (simp add: inspect_candles_def)
next
  case (Inr interval)
  then show ?thesis using inspect_candles_returns [OF Inr] inspect_candles_ok [OF _ Inr] by fastforce
qed

text \<open>
  C16. The indicators stay in their ranges in spite of decimal rounding: an average lies between
  the bounds of the series up to the error of its steps, the relative strength and the
  directional index lie between 0 and 100, the average range of sound candles is not negative,
  and the last value of the series form of the average is the average itself.
\<close>

theorem indicators_bounded:
  assumes "2 \<le> p" "list_all is_dec xs" "0 \<le> lo" "list_all (\<lambda>x. lo \<le> x \<and> x \<le> hi) xs" "list_all sound_candle cs"
  shows "(case ema xs p of None \<Rightarrow> True
      | Some r \<Rightarrow> lo * (1 - eps) ^ (p + 1) \<le> r \<and> r \<le> hi * (1 + eps) ^ (p + 1)) \<and>
    (case rsi xs p of None \<Rightarrow> True | Some r \<Rightarrow> 0 \<le> r \<and> r \<le> 100) \<and>
    (case adx cs p of None \<Rightarrow> True | Some r \<Rightarrow> 0 \<le> r \<and> r \<le> 100) \<and>
    (case atr cs p of None \<Rightarrow> True | Some r \<Rightarrow> 0 \<le> r) \<and>
    (xs = [] \<or> last (ema_series xs p) = ema xs p)"
  using ema_bounds [OF _ assms(1-4)] rsi_bounds [of xs p] adx_bounds [of cs p] atr_nonneg [OF _ assms(5), of p]
    ema_series_last [of xs p]
  by (cases "xs = []") (auto split: option.split)

theorem indicators_bounded_witness:
  "\<exists>r. ema [1, 2, 50] 2 = Some r \<and> 1 * (1 - eps) ^ 3 \<le> r \<and> r \<le> 50 * (1 + eps) ^ 3"
proof -
  have "ema [1, 2, 50] 2 \<noteq> None" by code_simp
  then obtain r where r: "ema [1, 2, 50] 2 = Some r" by blast
  have "list_all is_dec [1, 2, 50]" using is_dec_small_numerals by simp
  from indicators_bounded [OF _ this, of 2 1 50 "[]"] r show ?thesis by (simp add: numeral_3_eq_3)
qed

text \<open>
  C17. What the structure detectors report is in the candles: a swing is a strict extreme of its
  neighbourhood, a fair value gap and an order block are at most the last five and have the
  candles that define them, and a change of character is a break of structure against the trend.
\<close>

theorem structure_detectors_sound:
  "list_all (sound_swing cs w) (find_swings cs w) \<and>
   list_all (sound_gap cs) (detect_fvg cs n) \<and> length (detect_fvg cs n) \<le> 5 \<and>
   list_all (sound_block cs) (detect_order_blocks cs n) \<and> length (detect_order_blocks cs n) \<le> 5 \<and>
   (let st = analyze_structure cs e20 e50 e200 in
    case st_choch st of None \<Rightarrow> True
    | Some Up \<Rightarrow> st_bos st = Some Up \<and> st_trend st \<in> {BearishTrend, StrongBearish}
    | Some Down \<Rightarrow> st_bos st = Some Down \<and> st_trend st \<in> {BullishTrend, StrongBullish})"
proof -
  let ?st = "analyze_structure cs e20 e50 e200"
  have "case st_choch ?st of None \<Rightarrow> True
    | Some Up \<Rightarrow> st_bos ?st = Some Up \<and> st_trend ?st \<in> {BearishTrend, StrongBearish}
    | Some Down \<Rightarrow> st_bos ?st = Some Down \<and> st_trend ?st \<in> {BullishTrend, StrongBullish}"
  proof (cases "st_choch ?st")
    case (Some m)
    then show ?thesis using choch_against_trend [OF Some] by (cases m) simp_all
  qed simp
  then show ?thesis
    unfolding Let_def using find_swings_sound detect_fvg_sound detect_order_blocks_sound by (intro conjI) simp_all
qed

text \<open>
  C18. With the causal estimators of the program, whatever the logarithm returns, the analysis of
  a timeframe fails only for fewer than 30 confirmed candles, an unknown timeframe or an operation
  of the decimal context; a view that it returns counts the confirmed candles, carries the verdict
  of the quality gate and satisfies the constraints of its models.
\<close>

theorem analysis_errors_known:
  "case analyze_timeframe (causal_estimators ln_of) tf cs q of
     Inl e \<Rightarrow> decimal_error e \<or>
       length (filter cd_confirmed cs) < 30 \<and> e = ValueError (tf @ '' requires at least 30 confirmed candles'') \<or>
       map_of bar_seconds tf = None \<and> e = ValueError (''unsupported bar: '' @ tf)
   | Inr v \<Rightarrow> view_ok v \<and> ta_data_quality_ok v = qr_ok q \<and>
       ta_candle_count v = length (filter cd_confirmed cs) \<and> 30 \<le> ta_candle_count v"
proof (cases "analyze_timeframe (causal_estimators ln_of) tf cs q")
  case (Inl e)
  then show ?thesis using causal.analyze_timeframe_errors [OF Inl] by simp
next
  case (Inr v)
  then show ?thesis using analyze_timeframe_facts [OF Inr] by simp
qed

text \<open>
  C19. On views that satisfy their models the fusion of the mathematical core never raises: it
  returns a valid core, and for either direction the confirmation derived from it satisfies its
  model, in particular the monotonicity of its risk grade.
\<close>

theorem core_and_confirmation_valid:
  assumes "views_ok vs"
  shows "\<exists>c m. mathematical_core_snapshot vs = Inr c \<and> wf_core c \<and>
    mathematical_confirmation_of (Some c) d = Inr m \<and> wf_mathematical m"
  using core_snapshot_wf [OF assms] confirmation_wf by blast

theorem core_and_confirmation_valid_witness:
  "\<exists>c m. mathematical_core_snapshot example_views = Inr c \<and>
     mathematical_confirmation_of (Some c) Long = Inr m \<and> wf_mathematical m"
proof -
  have "views_ok example_views" by code_simp
  from core_and_confirmation_valid [OF this, of Long] show ?thesis by blast
qed

text \<open>
  C20. An analysis keeps the blockers of the quality gate, and one that covers all timeframes is
  ready for trading exactly when every report is ok, the two slow timeframes and one of the
  fast ones agree on a direction, and the core is neither unstable nor opposed to it.
\<close>

theorem trade_ready_characterised:
  "case analyze_snapshot E s of
     Inl e \<Rightarrow> True
   | Inr a \<Rightarrow> set (quality_blockers (ms_quality s)) \<subseteq> set (ma_blockers a) \<and>
       (if all_timeframes (ma_timeframe_analyses a)
        then ma_trade_ready a = (list_all (\<lambda>(_, q). qr_ok q) (ms_quality s) \<and>
          (\<exists>d c. d \<noteq> NeutralBias \<and> biases_agree (ma_timeframe_analyses a) d \<and> ma_overall_bias a = d \<and>
             ma_mathematical_core a = Some c \<and> co_status c \<noteq> CoreUnstable \<and>
             \<not> (d = LongBias \<and> co_status c = CoreShort) \<and> \<not> (d = ShortBias \<and> co_status c = CoreLong)))
        else True)"
proof (cases "analyze_snapshot E s")
  case (Inr a)
  then show ?thesis using quality_blockers_kept [OF Inr] trade_ready_iff [OF Inr] by (simp split del: if_split) auto
qed simp

text \<open>
  C21. A structural protection comes from the first listed timeframe that offers one, with sound
  data: its stop lies beyond the nearest support or resistance on the losing side, its target is
  the nearest level on the winning side, and it passes the validator of its model.
\<close>

theorem structural_bracket_nearest:
  "case structural_protection_geometry views d entry tfs multiplier bps of
     Inr (Some g) \<Rightarrow> \<exists>before v after. tfs = before @ sg_timeframe g # after \<and>
       map_of views (sg_timeframe g) = Some v \<and> ta_data_quality_ok v \<and> sound_bracket d entry v g \<and>
       validate_structural_geometry g = Inr g \<and>
       list_all (\<lambda>tf. structural_candidate views d entry (ddiv (dmul entry bps) 10000) multiplier tf = None) before
   | _ \<Rightarrow> True"
  using structural_protection_first [of views d entry tfs multiplier bps] by (auto split: sum.split option.split)

text \<open>
  C22. The strategy service trades exactly when an evaluation is tradable: sound, with a candidate,
  of a strategy that is registered and not disabled, not blocked by the core. It then selects one
  whose key (allowed score, score, confidence, bonus) no tradable evaluation exceeds.
\<close>

theorem selection_is_best:
  "case decide s disabled ctx of
     Inl e \<Rightarrow> True
   | Inr d \<Rightarrow> \<exists>es. evaluate_all STRATEGIES ctx = Inr es \<and>
      (case sd_selected_candidate d of
         None \<Rightarrow> sd_decision d = None \<and> filter (tradable ctx disabled) es = []
       | Some c \<Rightarrow> \<exists>e. best_tradable s ctx disabled es e \<and> se_candidate e = Some c \<and>
           sd_decision d = Some (se_direction e) \<and> sd_selected_strategy d = Some (se_strategy e))"
proof (cases "decide s disabled ctx")
  case (Inr d)
  then show ?thesis using selected_is_best [OF Inr]
    by (cases "sd_selected_candidate d") (simp_all add: filter_empty_conv)
qed simp

text \<open>
  C23. Whatever the market snapshot, a candidate that the strategy service selects satisfies its
  model, reaches the minimum score and has exactly the configured reward/risk and lifetime, comes
  from a registered strategy that the operator has not disabled, in a market of sound data, narrow spread
  and acceptable funding, with a valid confirmation of the core that does not block it.
\<close>

theorem selected_candidate_is_sound:
  "case evaluate_snapshot E s now disabled m of
     Inl e \<Rightarrow> True
   | Inr d \<Rightarrow> (case sd_selected_candidate d of None \<Rightarrow> True | Some c \<Rightarrow> sound_selection s now disabled m c)"
  using selected_candidate_sound [of E s now disabled m] by (auto split: sum.split option.split)

section \<open>Risk\<close>



text \<open>
  C25. An approved quantity risks at most the configured fraction of the equity over the effective
  stop distance (costs included) and stays within the notional limit, up to the rounding of the
  decimal context.
\<close>

theorem approved_exposure_bounded:
  assumes "evaluate_risk now c a l = Inr d" "rd_decision d = Approved"
    and "0 < ar_equity a" "0 < rl_risk_per_trade_pct l" "0 < rl_max_notional l"
  shows "rd_approved_quantity d * effective_risk_distance_of c
      \<le> ar_equity a * rl_risk_per_trade_pct l * (1 + eps) ^ 2 \<and>
    rd_approved_quantity d * tc_entry c \<le> rl_max_notional l * (1 + eps)"
  using approved_loss_within_budget [OF assms(1-4)] approved_notional_within_limit [OF assms(1,2,5)] by blast

theorem approved_exposure_bounded_witness:
  "\<exists>d. evaluate_risk 0 example_candidate example_account default_risk_limits = Inr d \<and>
     rd_approved_quantity d * 50000 \<le> 5000 * (1 + eps)"
proof -
  obtain d where d: "evaluate_risk 0 example_candidate example_account default_risk_limits = Inr d"
    "rd_decision d = Approved" using example_approved by blast
  have "rd_approved_quantity d * 50000 \<le> 5000 * (1 + eps)"
    using approved_exposure_bounded [OF d]
    by (simp add: example_account_def default_risk_limits_def example_candidate_def)
  then show ?thesis using d(1) by blast
qed

text \<open>
  C26. Under accepted settings with score tiers, every score from the strategy minimum to 100 falls
  into a tier that covers it, and a higher score never gets less risk or less leverage.
\<close>

theorem score_tiers_total_and_monotone:
  assumes "accepted s" "ranges_ok s" "okx_demo_score_risk_enabled s"
    and "strategy_min_score s \<le> a" "a \<le> b" "b \<le> 100"
  shows "\<exists>t u. score_risk_tier a s = Inr t \<and> score_risk_tier b s = Inr u \<and>
    rt_minimum_score t \<le> a \<and> a \<le> rt_maximum_score t \<and> rt_minimum_score u \<le> b \<and> b \<le> rt_maximum_score u \<and>
    rt_risk_pct t \<le> rt_risk_pct u \<and> rt_leverage t \<le> rt_leverage u"
proof -
  obtain t where t: "score_risk_tier a s = Inr t" "rt_minimum_score t \<le> a" "a \<le> rt_maximum_score t"
    using score_risk_tier_total [OF assms(1-4)] assms(5,6) by auto
  obtain u where u: "score_risk_tier b s = Inr u" "rt_minimum_score u \<le> b" "b \<le> rt_maximum_score u"
    using score_risk_tier_total [OF assms(1-3), of b] assms(4-6) by auto
  show ?thesis using t u score_risk_tier_mono [OF assms(1-3) t(1) u(1) assms(5)] by blast
qed

theorem score_tiers_total_and_monotone_witness:
  "\<exists>t u. score_risk_tier 75 scored_settings = Inr t \<and> score_risk_tier 95 scored_settings = Inr u \<and>
     rt_leverage t \<le> rt_leverage u"
proof -
  have "accepted scored_settings" "ranges_ok scored_settings" "okx_demo_score_risk_enabled scored_settings"
    "strategy_min_score scored_settings \<le> 75" by code_simp+
  from score_tiers_total_and_monotone [OF this, of 95] show ?thesis by auto
qed

text \<open>
  C27. The leverage taken from the ladder equals its reference, the least sufficient rung under the
  cap or the greatest rung when none suffices; a structural leverage never exceeds the leverage of
  the tier, and exceeds ten only when no reason speaks against twenty.
\<close>

theorem structural_leverage_bounded:
  assumes "select_structural_leverage c t s eq cap = Inr r"
  shows "select_from_ladder rung_cap required = reference_leverage rung_cap required \<and>
    ls_selected_leverage r \<le> rt_leverage t \<and>
    (ls_selected_leverage r \<le> 10 \<or> ls_selected_leverage r = 20 \<and> twenty_x_reasons c s = [])"
  using structural_leverage_bounds [OF assms] select_from_ladder_reference by blast

theorem structural_leverage_bounded_witness:
  "\<exists>r. select_structural_leverage example_candidate (tier ''high'' 90 100 (1 / 100) 8 1) scored_settings 1000 100
     = Inr r \<and> ls_selected_leverage r \<le> 8"
proof -
  let ?run = "select_structural_leverage example_candidate (tier ''high'' 90 100 (1 / 100) 8 1) scored_settings 1000 100"
  have "\<not> isl ?run" by code_simp
  then obtain r where r: "?run = Inr r" by (cases ?run) auto
  from structural_leverage_bounded [OF r] r show ?thesis by (simp add: tier_def)
qed

text \<open>
  C28. The limit of a bounded fill-or-kill order is marketable at the reference, within the adverse
  slippage that is configured (up to rounding), between stop loss and take profit, and keeps the
  minimum reward/risk there.
\<close>

theorem bounded_limit_respects_slippage:
  assumes "bounded_fok_execution_price c s ref tick_size = (Some b, reason)" "ranges_ok s"
  shows "slippage_bounded (tc_direction c) (okx_demo_execution_max_adverse_slippage_bps s) ref (eb_limit_price b) \<and>
    brackets (tc_direction c) (tc_stop_loss c) (eb_limit_price b) (tc_take_profit c) \<and>
    eq_minimum_risk_reward (eb_quality b) \<le> eq_enforced_risk_reward (eb_quality b)"
  using bounded_limit_spec [OF assms] .

theorem bounded_limit_respects_slippage_witness:
  "\<exists>b. fst (bounded_fok_execution_price (example_candidate\<lparr>tc_take_profit := 51800\<rparr>) scored_settings 50000 (1 / 10)) = Some b \<and>
     50000 \<le> eb_limit_price b"
proof -
  let ?run = "bounded_fok_execution_price (example_candidate\<lparr>tc_take_profit := 51800\<rparr>) scored_settings 50000 (1 / 10)"
  have "snd ?run = None" "fst ?run \<noteq> None" by code_simp+
  then obtain b where b: "?run = (Some b, None)" by (cases ?run) auto
  moreover have "ranges_ok scored_settings" by code_simp
  ultimately show ?thesis using bounded_limit_respects_slippage [OF b]
    by (simp add: slippage_bounded_def example_candidate_def)
qed

section \<open>Paper trading and lifecycles\<close>

text \<open>
  C29. From a new broker, any sequence of calls, including those that raise, keeps the book: unique
  identifiers, and positions in bijection with filled orders. After a further tick that returns,
  no pending limit order of the symbol is due at the price, every open position of the symbol is
  marked at it, and none is beyond its stop or target.
\<close>

theorem paper_book_invariant:
  assumes "new_broker balance taker maker slippage = Inr b"
  shows "book_ok (run_calls cs b) \<and>
    wp (tick symbol price ts) (\<lambda>_ b'. book_ok b' \<and> book_settled symbol price b') (\<lambda>_. book_ok) (run_calls cs b)"
  using book_ok_calls [OF book_ok_new [OF assms]] tick_spec by blast

theorem paper_book_invariant_witness:
  "book_ok (run_calls [Submit example_paper_request 0, Tick ''BTC-USDT-SWAP'' 48000 1] example_broker)"
proof -
  have "new_broker 10000 (5 / 10000) (2 / 10000) 2 = Inr example_broker"
    by (simp add: new_broker_def example_broker_def)
  from conjunct1 [OF paper_book_invariant [OF this]] show ?thesis .
qed

text \<open>
  C30. The cash ledger of the paper broker is exact: the cash is the starting balance plus the
  realised result of the closed positions minus the fees of the open ones, and closing a position
  and submitting an order, whether it fills, rests or raises, keep it so, for amounts in the range
  where no operation rounds.
\<close>

theorem paper_ledger_exact:
  assumes "book_ok b" "ledger b" "modest_broker b" "0 \<le> price" "price \<le> 10 ^ 9"
    and "0 \<le> rq_reference_price r" "rq_reference_price r \<le> 10 ^ 9" "0 \<le> rq_quantity r" "rq_quantity r \<le> 10 ^ 9"
  shows "wp (submit r now) (\<lambda>_. ledger) (\<lambda>_. ledger) b \<and>
    (case map_of (pb_positions b) i of
       None \<Rightarrow> True
     | Some p \<Rightarrow> if modest_position p
         then wp (Paper_Broker.close_position i price reason ts) (\<lambda>_. ledger) (\<lambda>_ _. True) b else True)"
proof
  show "wp (submit r now) (\<lambda>_. ledger) (\<lambda>_. ledger) b"
    using ledger_submit [OF assms(1-3,6-9)] .
  have "wp (Paper_Broker.close_position i price reason ts) (\<lambda>_. ledger) (\<lambda>_ _. True) b"
    if "map_of (pb_positions b) i = Some p" "modest_position p" for p
    using ledger_close that assms(2-5)
    by (cases "Paper_Broker.close_position i price reason ts b") (auto simp: wp_def split: sum.split)
  then show "case map_of (pb_positions b) i of None \<Rightarrow> True
    | Some p \<Rightarrow> if modest_position p
        then wp (Paper_Broker.close_position i price reason ts) (\<lambda>_. ledger) (\<lambda>_ _. True) b else True"
    by (simp split: option.split)
qed

theorem paper_ledger_exact_witness:
  "wp (submit example_paper_request 0) (\<lambda>_. ledger) (\<lambda>_. ledger) example_broker"
proof (rule conjunct1 [OF paper_ledger_exact])
  have "new_broker 10000 (5 / 10000) (2 / 10000) 2 = Inr example_broker"
    by (simp add: new_broker_def example_broker_def)
  then show "book_ok example_broker" by (rule book_ok_new)
  have "on_grid 8 10000" unfolding on_grid_def by (rule exI [of _ 1000000000000]) simp
  then show "ledger example_broker" "modest_broker example_broker"
    by (simp_all add: ledger_def ledger_sum_def modest_broker_def example_broker_def)
  show "(0::decimal) \<le> 50000" "(50000::decimal) \<le> 10 ^ 9" by simp_all
qed (simp_all add: example_paper_request_def)

text \<open>
  C31. The state of the paper service survives. While it runs, the tables hold the durable
  state of the memory, and after any failed restarts a restart that returns brings exactly that
  state back. A mutation that raises, a failed persistence included, leaves the durable state
  as it was, unless the broker failed in a decimal operation. The database reports its faults before the
  commit, and no transaction is cancelled.
\<close>

theorem paper_state_survives:
  assumes "clean_faults E" "pe_enabled E"
    and "new_broker balance taker maker slippage = Inr configured" "on_grid 8 balance"
    and "paper_running E configured s"
  shows "(case load_paper_state (ps_tables s) of
       None \<Rightarrow> False
     | Some st \<Rightarrow> durable_of (ps_broker s) = Inr (durable_state_payload st) \<and>
         paper_down E configured (durable_state_payload st) s) \<and>
    (paper_down E configured d u \<longrightarrow>
       wp (paper_restart E configured) (\<lambda>_ t. durable_of (ps_broker t) = Inr d) (\<lambda>_ t. paper_down E configured d t) u) \<and>
    (mutating c \<longrightarrow> wp (paper_call_eff E c) (\<lambda>_. in_sync E)
       (\<lambda>e t. e = DecimalInvalidOperation \<or> durable_of (ps_broker t) = durable_of (ps_broker s)) s)"
proof (intro conjI impI)
  note configured = new_broker_restorable [OF assms(3,4)]
  have s: "in_sync E s" by (rule paper_history(1) [OF assms(1,2) configured assms(5)])
  then show "case load_paper_state (ps_tables s) of
       None \<Rightarrow> False
     | Some st \<Rightarrow> durable_of (ps_broker s) = Inr (durable_state_payload st) \<and>
         paper_down E configured (durable_state_payload st) s"
    using assms(2,5) by (auto simp: in_sync_def durable_of_def intro!: paper_running_paper_down.stopped)
  show "wp (paper_restart E configured) (\<lambda>_ t. durable_of (ps_broker t) = Inr d) (\<lambda>_ t. paper_down E configured d t) u"
    if "paper_down E configured d u"
    by (rule restart_recovers [OF assms(1,2) configured that])
  show "wp (paper_call_eff E c) (\<lambda>_. in_sync E)
       (\<lambda>e t. e = DecimalInvalidOperation \<or> durable_of (ps_broker t) = durable_of (ps_broker s)) s"
    if "mutating c"
    by (rule wp_mono [OF failed_call_spec [OF assms(1,2) that s]]) auto
qed

theorem paper_state_survives_witness:
  "case paper_restart example_paper_env example_broker (new_paper_service example_broker empty_tables 0) of
     (Inl e, s) \<Rightarrow> False
   | (Inr _, s) \<Rightarrow> (\<exists>d. durable_of (ps_broker s) = Inr d \<and>
       wp (paper_restart example_paper_env example_broker) (\<lambda>_ t. durable_of (ps_broker t) = Inr d)
         (\<lambda>_ t. paper_down example_paper_env example_broker d t) s) \<and>
       wp (paper_call_eff example_paper_env (PaperSubmit example_paper_request)) (\<lambda>_. in_sync example_paper_env)
         (\<lambda>e t. e = DecimalInvalidOperation \<or> durable_of (ps_broker t) = durable_of (ps_broker s)) s"
  (is "case ?start of (Inl e, s) \<Rightarrow> False | (Inr _, s) \<Rightarrow> ?P s")
proof -
  have env: "clean_faults example_paper_env" "pe_enabled example_paper_env"
    by (simp_all add: clean_faults_def example_paper_env_def)
  have new: "new_broker 10000 (5 / 10000) (2 / 10000) 2 = Inr example_broker"
    by (simp add: new_broker_def example_broker_def)
  have grid: "on_grid 8 10000" unfolding on_grid_def by (rule exI [of _ 1000000000000]) simp
  have "fst ?start = Inr ()" using example_paper_start by (cases ?start) (auto simp: wp_def split: sum.splits)
  then obtain s where s: "?start = (Inr (), s)" by (cases ?start) auto
  note survives = paper_state_survives [OF env new grid paper_running_paper_down.started [OF s], of _ _ "PaperSubmit example_paper_request"]
  obtain st where "load_paper_state (ps_tables s) = Some st" using survives by (cases "load_paper_state (ps_tables s)") auto
  then have "?P s" using survives [of "durable_state_payload st" s] by auto
  then show ?thesis using s by simp
qed

text \<open>
  C32. After any sequence of repository operations, the state of every lifecycle row ends a path of
  the state machine from the candidate whose length is the version, so it is submitted only after
  risk approval, filled only after submission, protected only after a fill and closed only
  after closing.
\<close>

theorem lifecycle_rows_follow_machine:
  assumes "map_of (run_lifecycle ops []) i = Some row"
  shows "\<exists>s h. history (s # h) \<and> lr_state row = state_value s \<and> lr_version row = Suc (length h) \<and>
    prerequisites_met (set (s # h))"
proof -
  have "row_ok row" using rows_ok_run [of ops] assms by (simp add: rows_ok_def)
  then show ?thesis unfolding row_ok_def using history_prerequisites by blast
qed

theorem lifecycle_rows_follow_machine_witness:
  "\<exists>h. history (RISK_APPROVED # h) \<and> length h = 1"
proof -
  let ?t = "run_lifecycle [AddRow 7 1 0, MoveRow 7 1 RISK_APPROVED None 5] []"
  have "case map_of ?t 7 of None \<Rightarrow> False
    | Some row \<Rightarrow> lr_state row = state_value RISK_APPROVED \<and> lr_version row = 2" by code_simp
  then obtain row where row: "map_of ?t 7 = Some row" "lr_state row = state_value RISK_APPROVED" "lr_version row = 2"
    by (auto split: option.splits)
  from lifecycle_rows_follow_machine [OF row(1)] row(2,3) show ?thesis
    by (metis One_nat_def Suc_1 parse_state_value old.sum.inject(2) nat.inject)
qed

text \<open>
  C33. A transition succeeds only from the current version and along the state machine, raises the
  version by one and writes only its row; with another version it fails and changes nothing.
\<close>

theorem lifecycle_optimistic_lock:
  assumes "map_of table i = Some row"
  shows "if lr_version row = version
    then wp (lifecycle_transition i version target code now)
      (\<lambda>rec table'. (\<exists>s. parse_state (lr_state row) = Inr s \<and> target \<in> set (allowed_transitions s)) \<and>
         lc_state rec = target \<and> lc_version rec = Suc version \<and>
         (\<exists>row'. map_of table' = (map_of table)(i \<mapsto> row') \<and> lr_version row' = Suc version)) (\<lambda>_ _. True) table
    else lifecycle_transition i version target code now table =
      (Inl (ValueError ''lifecycle version conflict''), table)"
proof (cases "lr_version row = version")
  case True
  have "wp (lifecycle_transition i version target code now)
      (\<lambda>rec table'. (\<exists>s. parse_state (lr_state row) = Inr s \<and> target \<in> set (allowed_transitions s)) \<and>
         lc_state rec = target \<and> lc_version rec = Suc version \<and>
         (\<exists>row'. map_of table' = (map_of table)(i \<mapsto> row') \<and> lr_version row' = Suc version)) (\<lambda>_ _. True) table"
    using lifecycle_transition_Inr [of i version target code now table] assms
    by (cases "lifecycle_transition i version target code now table") (fastforce simp: wp_def split: sum.split)
  then show ?thesis using True by simp
next
  case False
  then show ?thesis using lifecycle_stale_version [OF assms] by simp
qed

theorem lifecycle_optimistic_lock_witness:
  "lifecycle_transition 7 2 RISK_APPROVED None 5 example_table =
     (Inl (ValueError ''lifecycle version conflict''), example_table)"
proof -
  have "map_of example_table 7 = Some (snd (hd example_table))" "lr_version (snd (hd example_table)) \<noteq> 2"
    by (simp_all add: example_table_def)
  then show ?thesis using lifecycle_optimistic_lock [of example_table 7 _ 2 RISK_APPROVED None 5] by auto
qed


section \<open>The Live automation and the HTTP surface\<close>

text \<open>
  C35. Over any history of HTTP requests, turns of the background task, shutdowns and restarts,
  with other tasks calling the service at every suspension of the automation, every write that
  reaches the exchange is authorised and no client order id is handed over twice.
\<close>

theorem boundary_history_is_safe:
  assumes "ls_sent (am_live a) = []" "intents_ok (ls_intents (am_live a))"
  shows "list_all (write_authorised (ae_live A)) (ls_sent (am_live (run_api_events A es a))) \<and>
    distinct (placed (am_live (run_api_events A es a)))"
proof -
  have "placed_inv (am_live a)" using assms by (simp add: placed_inv_def)
  then have "placed_inv (am_live (run_api_events A es a))"
    using ap.within_history [of a A es] by (simp add: through_def keeps_def)
  moreover have "emits (write_authorised (ae_live A)) (am_live a) (am_live (run_api_events A es a))"
    using aw.within_history [of A a es] by (simp add: through_def)
  ultimately show ?thesis using assms(1) by (auto simp: placed_inv_def emits_def)
qed

theorem boundary_history_is_safe_witness:
  "distinct (placed (am_live (run_api_events example_auto_env expiring_history armed_automation))) \<and>
   ls_sent (am_live armed_automation) = []"
proof -
  have "ls_sent (am_live armed_automation) = []" "intents_ok (ls_intents (am_live armed_automation))"
    by (simp_all add: armed_automation_def new_automation_def example_start_def new_service_def intents_ok_def)
  then show ?thesis using boundary_history_is_safe [of armed_automation example_auto_env expiring_history] by simp
qed

text \<open>
  C36. A history whose requests all lack the token, from a moment when no background task runs,
  sends nothing to the exchange, changes no intent and grants no arm; turns, shutdowns and
  restarts included.
\<close>

theorem no_token_no_effect:
  assumes "\<not> task_running a" "list_all (without_token (auto_settings A)) es"
  shows "ls_sent (am_live (run_api_events (undisturbed A) es a)) = ls_sent (am_live a) \<and>
    ls_intents (am_live (run_api_events (undisturbed A) es a)) = ls_intents (am_live a) \<and>
    (ls_armed_until (am_live (run_api_events (undisturbed A) es a)) = None \<or>
     ls_armed_until (am_live (run_api_events (undisturbed A) es a)) = ls_armed_until (am_live a))"
  using idle_history [OF assms] by (simp add: through_def idle_def)

theorem no_token_no_effect_witness:
  "ls_sent (am_live (run_api_events (undisturbed example_auto_env)
     [Request None (ApiPlaceOrder example_request), TaskTurn, Reboot] armed_automation)) = [] \<and>
   \<not> task_running armed_automation"
proof -
  have idle: "\<not> task_running armed_automation" "ls_sent (am_live armed_automation) = []"
    by (simp_all add: armed_automation_def new_automation_def task_running_def example_start_def new_service_def)
  then show ?thesis
    using no_token_no_effect [of armed_automation example_auto_env
        "[Request None (ApiPlaceOrder example_request), TaskTurn, Reboot]"]
    by (simp add: without_token_def)
qed







text \<open>
  C40. The scheduled loop ends: when the current arm runs to a time that the clock reaches and
  no other task arms the service again, the loop returns, in any environment.
\<close>

theorem loop_ends_with_the_arm:
  assumes "armed_by u (am_live a)" "\<And>n. N \<le> n \<Longrightarrow> u \<le> ev_clock (ae_live A) n"
  shows "\<exists>r b. automation_loop (without_arming A) a = Some (r, b)"
  using assms by (rule automation_loop_ends)

theorem loop_ends_with_the_arm_witness:
  "\<exists>r b. automation_loop (without_arming example_auto_env) armed_automation = Some (r, b)"
  by (rule loop_ends_with_the_arm [of 1003 _ 3])
    (simp_all add: armed_by_def armed_automation_def new_automation_def example_auto_env_def example_env_def)

end
